(* ===== verification/Prelude.thy ===== *)
theory Prelude
  imports Main "HOL-Library.Word" "HOL-Library.Char_ord"
begin

unbundle bit_operations_syntax

text \<open>
  Everything the component theories share: the widths of the C++ integers the
  daemon computes with, the operations of \<open>std::string\<close>, \<open>std::getline\<close>,
  \<open>boost::trim\<close>, \<open>boost::split\<close> and of the \<open>std::stoi\<close> family that the sources
  use, with the lemmas that let \<open>simp\<close> run them, and generic facts about lists
  and finite maps.

  A C++ string is a list of characters.  A call that throws returns \<^const>\<open>None\<close>.
\<close>

type_synonym u8 = "8 word"
type_synonym u16 = "16 word"
type_synonym u32 = "32 word"
type_synonym u64 = "64 word"

named_theorems cxx_eval \<open>evaluation rules for the C++ string operations\<close>
named_theorems inv_intro \<open>introduction rules for component invariants\<close>


subsection \<open>Characters\<close>

abbreviation newline :: char where
  "newline \<equiv> CHR 0x0A"

abbreviation carriage_return :: char where
  "carriage_return \<equiv> CHR 0x0D"

definition crlf :: string where
  "crlf = [carriage_return, newline]"

text \<open>\<open>std::isspace\<close> and \<open>std::isdigit\<close> in the classic locale.\<close>

definition is_space :: "char \<Rightarrow> bool" where
  "is_space c \<longleftrightarrow> c \<in> {CHR '' '', CHR 0x09, CHR 0x0A, CHR 0x0B, CHR 0x0C, CHR 0x0D}"

definition is_digit :: "char \<Rightarrow> bool" where
  "is_digit c \<longleftrightarrow> 48 \<le> (of_char c :: nat) \<and> (of_char c :: nat) \<le> 57"

text \<open>\<open>std::tolower\<close> on an unsigned byte.\<close>

definition tolower :: "char \<Rightarrow> char" where
  "tolower c = (let n = (of_char c :: nat)
                in if 65 \<le> n \<and> n \<le> 90 then char_of (n + 32) else c)"


subsection \<open>Searching and slicing strings\<close>

text \<open>\<open>s.find_first_of(cs)\<close>: the position of the first character of \<open>s\<close> that is one
  of \<open>cs\<close>; \<^const>\<open>None\<close> is \<open>std::string::npos\<close>.\<close>

fun find_first_of :: "string \<Rightarrow> string \<Rightarrow> nat option" where
  "find_first_of cs [] = None"
| "find_first_of cs (x # xs) =
     (if x \<in> set cs then Some 0 else map_option Suc (find_first_of cs xs))"

text \<open>\<open>s.find(p)\<close>: the position of the first occurrence of the string \<open>p\<close>.\<close>

definition starts_with :: "string \<Rightarrow> string \<Rightarrow> bool" where
  "starts_with p s \<longleftrightarrow> take (length p) s = p"

fun find_str :: "string \<Rightarrow> string \<Rightarrow> nat option" where
  "find_str p [] = (if p = [] then Some 0 else None)"
| "find_str p (x # xs) =
     (if starts_with p (x # xs) then Some 0 else map_option Suc (find_str p xs))"

text \<open>\<open>s.substr(pos)\<close> and \<open>s.substr(pos, n)\<close>; both throw \<open>std::out_of_range\<close> when
  \<open>pos > s.size()\<close>.\<close>

definition substr_from :: "string \<Rightarrow> nat \<Rightarrow> string option" where
  "substr_from s pos = (if length s < pos then None else Some (drop pos s))"

definition substr :: "string \<Rightarrow> nat \<Rightarrow> nat \<Rightarrow> string option" where
  "substr s pos n = (if length s < pos then None else Some (take n (drop pos s)))"

lemma substr_from_le [simp, cxx_eval]:
  "pos \<le> length s \<Longrightarrow> substr_from s pos = Some (drop pos s)"
  by (simp add: substr_from_def)

lemma find_first_of_None [cxx_eval]:
  "find_first_of cs s = None \<longleftrightarrow> (\<forall>c \<in> set s. c \<notin> set cs)"
  by (induction s) auto

lemma find_first_of_append [cxx_eval]:
  "\<forall>x \<in> set s. x \<notin> set cs \<Longrightarrow> c \<in> set cs \<Longrightarrow> find_first_of cs (s @ c # r) = Some (length s)"
  by (induction s) auto

lemma find_first_of_Some_less: "find_first_of cs s = Some i \<Longrightarrow> i < length s"
  by (induction s arbitrary: i) (auto split: if_splits)


subsection \<open>Lines, fields and trimming\<close>

text \<open>\<open>boost::split(fields, s, is_sep)\<close> without token compression: never the empty
  list.\<close>

fun split_on :: "(char \<Rightarrow> bool) \<Rightarrow> string \<Rightarrow> string list" where
  "split_on p [] = [[]]"
| "split_on p (x # xs) =
     (if p x then [] # split_on p xs
      else (case split_on p xs of [] \<Rightarrow> [[x]] | t # ts \<Rightarrow> (x # t) # ts))"

text \<open>The lines a \<open>while (getline(stream, line, '\\n'))\<close> loop sees: a string that
  ends in a newline has no empty last line.\<close>

definition getlines :: "string \<Rightarrow> string list" where
  "getlines s = (let ls = split_on (\<lambda>c. c = newline) s
                 in if last ls = [] then butlast ls else ls)"

text \<open>\<open>boost::trim\<close>.\<close>

definition trim_left :: "string \<Rightarrow> string" where
  "trim_left s = dropWhile is_space s"

definition trim :: "string \<Rightarrow> string" where
  "trim s = rev (dropWhile is_space (rev (trim_left s)))"

text \<open>\<open>boost::join\<close> and a stream of lines each ended by the same string.\<close>

fun join_with :: "string \<Rightarrow> string list \<Rightarrow> string" where
  "join_with sep [] = []"
| "join_with sep [t] = t"
| "join_with sep (t # u # ts) = t @ sep @ join_with sep (u # ts)"

lemma split_on_not_Nil [simp]: "split_on p s \<noteq> []"
  by (induction s) (auto split: list.splits)

lemma split_on_no_sep [cxx_eval]:
  "\<forall>c \<in> set t. \<not> p c \<Longrightarrow> split_on p t = [t]"
  by (induction t) auto

lemma split_on_append [cxx_eval]:
  "\<forall>c \<in> set t. \<not> p c \<Longrightarrow> p x \<Longrightarrow> split_on p (t @ x # r) = t # split_on p r"
  by (induction t) auto

lemma split_on_join:
  assumes "ts \<noteq> []" and "\<forall>t \<in> set ts. \<forall>c \<in> set t. \<not> p c" and "p x"
  shows "split_on p (join_with [x] ts) = ts"
  using assms by (induction "[x]" ts rule: join_with.induct) (auto simp: cxx_eval)

lemma split_on_fields_clean:
  "t \<in> set (split_on p s) \<Longrightarrow> c \<in> set t \<Longrightarrow> \<not> p c"
proof (induction s arbitrary: t c)
  case (Cons a s)
  obtain u us where us: "split_on p s = u # us"
    by (meson neq_Nil_conv split_on_not_Nil)
  have IH: "\<not> p d" if "v \<in> set (u # us)" "d \<in> set v" for v d
    using Cons.IH[of v d] that us by simp
  show ?case
  proof (cases "p a")
    case True
    with Cons.prems us IH show ?thesis by auto
  next
    case False
    with Cons.prems us IH[of u] IH[of t] show ?thesis by auto
  qed
qed simp

lemma join_split_on:
  "join_with [x] (split_on (\<lambda>c. c = x) s) = s"
proof (induction s)
  case Nil
  show ?case by simp
next
  case (Cons a s)
  obtain t ts where st: "split_on (\<lambda>c. c = x) s = t # ts"
    by (meson neq_Nil_conv split_on_not_Nil)
  show ?case
    using Cons st by (cases ts) auto
qed

lemma getlines_Nil [simp, cxx_eval]: "getlines [] = []"
  by (simp add: getlines_def)

lemma getlines_line [cxx_eval]:
  "newline \<notin> set l \<Longrightarrow> getlines (l @ newline # r) = l # getlines r"
proof -
  assume "newline \<notin> set l"
  then have "split_on (\<lambda>c. c = newline) (l @ newline # r) = l # split_on (\<lambda>c. c = newline) r"
    by (intro split_on_append) auto
  then show ?thesis by (simp add: getlines_def Let_def)
qed

lemma getlines_last [cxx_eval]:
  "newline \<notin> set l \<Longrightarrow> l \<noteq> [] \<Longrightarrow> getlines l = [l]"
proof -
  assume a: "newline \<notin> set l" "l \<noteq> []"
  then have "split_on (\<lambda>c. c = newline) l = [l]"
    by (intro split_on_no_sep) auto
  with a show ?thesis by (simp add: getlines_def)
qed

lemma getlines_concat:
  "\<forall>l \<in> set ls. newline \<notin> set l \<Longrightarrow> getlines (concat (map (\<lambda>l. l @ [newline]) ls)) = ls"
  by (induction ls) (auto simp: cxx_eval)

lemma dropWhile_hd: "s = [] \<or> \<not> p (hd s) \<Longrightarrow> dropWhile p s = s"
  by (cases s) auto

lemma trim_no_space:
  "s = [] \<or> (\<not> is_space (hd s) \<and> \<not> is_space (last s)) \<Longrightarrow> trim s = s"
  by (auto simp: trim_def trim_left_def dropWhile_hd hd_rev)

lemma trim_append_space:
  "is_space c \<Longrightarrow> s \<noteq> [] \<Longrightarrow> \<not> is_space (hd s) \<Longrightarrow> trim (s @ [c]) = trim s"
  by (cases s) (auto simp: trim_def trim_left_def)


subsection \<open>Numbers in text\<close>

text \<open>\<open>operator<<\<close> of an unsigned integer, in decimal and (for \<open>%08x\<close>) in
  zero-padded hexadecimal.\<close>

definition digit_char :: "nat \<Rightarrow> char" where
  "digit_char d = char_of (48 + d)"

definition digit_val :: "char \<Rightarrow> nat" where
  "digit_val c = of_char c - 48"

fun show_nat :: "nat \<Rightarrow> string" where
  "show_nat n = (if n < 10 then [digit_char n]
                 else show_nat (n div 10) @ [digit_char (n mod 10)])"

declare show_nat.simps [simp del]

definition show_int :: "int \<Rightarrow> string" where
  "show_int i = (if i < 0 then CHR ''-'' # show_nat (nat (- i)) else show_nat (nat i))"

definition hex_char :: "nat \<Rightarrow> char" where
  "hex_char d = (if d < 10 then char_of (48 + d) else char_of (87 + d))"

fun show_hex_pad :: "nat \<Rightarrow> nat \<Rightarrow> string" where
  "show_hex_pad 0 n = []"
| "show_hex_pad (Suc k) n = show_hex_pad k (n div 16) @ [hex_char (n mod 16)]"

definition nat_of_digits :: "string \<Rightarrow> nat" where
  "nat_of_digits s = foldl (\<lambda>n c. 10 * n + digit_val c) 0 s"

text \<open>The common part of \<open>strtol\<close> and \<open>strtoull\<close>: white space, an optional sign, the
  longest run of digits; \<^const>\<open>None\<close> when there is no digit (the C++ wrappers throw
  \<open>std::invalid_argument\<close>).\<close>

definition strto :: "string \<Rightarrow> (bool \<times> nat) option" where
  "strto s =
     (let t = dropWhile is_space s;
          neg = (t \<noteq> [] \<and> hd t = CHR ''-'');
          u = (if t \<noteq> [] \<and> (hd t = CHR ''-'' \<or> hd t = CHR ''+'') then tl t else t);
          ds = takeWhile is_digit u
      in if ds = [] then None else Some (neg, nat_of_digits ds))"

text \<open>\<open>std::stoull\<close> / \<open>std::stoul\<close> (64 bit) throw \<open>std::out_of_range\<close> on overflow and
  negate modulo the width; \<open>std::stoi\<close> throws outside \<open>int\<close>.\<close>

definition stoull :: "string \<Rightarrow> u64 option" where
  "stoull s = (case strto s of None \<Rightarrow> None
     | Some (neg, n) \<Rightarrow> if 2 ^ 64 \<le> n then None
                       else Some (if neg then - word_of_nat n else word_of_nat n))"

definition stoi :: "string \<Rightarrow> int option" where
  "stoi s = (case strto s of None \<Rightarrow> None
     | Some (neg, n) \<Rightarrow>
         (let v = (if neg then - int n else int n)
          in if - (2 ^ 31) \<le> v \<and> v < 2 ^ 31 then Some v else None))"

lemma digit_char_is_digit [simp]: "d < 10 \<Longrightarrow> is_digit (digit_char d)"
  by (simp add: is_digit_def digit_char_def)

lemma digit_val_char [simp]: "d < 10 \<Longrightarrow> digit_val (digit_char d) = d"
  by (simp add: digit_val_def digit_char_def)

lemma show_nat_not_Nil [simp]: "show_nat n \<noteq> []"
  by (subst show_nat.simps) auto

lemma length_show_nat: "n < 10 ^ Suc k \<Longrightarrow> length (show_nat n) \<le> Suc k"
proof (induction k arbitrary: n)
  case 0
  then show ?case by (subst show_nat.simps) simp
next
  case (Suc k)
  then have "n div 10 < 10 ^ Suc k" by (simp add: less_mult_imp_div_less)
  with Suc.IH show ?case by (subst show_nat.simps) simp
qed

lemma show_nat_digits: "c \<in> set (show_nat n) \<Longrightarrow> is_digit c"
proof (induction n arbitrary: c rule: show_nat.induct)
  case (1 n)
  show ?case
  proof (cases "n < 10")
    case True
    with "1.prems" show ?thesis by (simp add: show_nat.simps[of n])
  next
    case False
    with "1.prems" have "c \<in> set (show_nat (n div 10)) \<or> c = digit_char (n mod 10)"
      by (subst (asm) show_nat.simps) auto
    with "1.IH"[OF False] show ?thesis by auto
  qed
qed

lemma nat_of_digits_snoc: "nat_of_digits (ds @ [c]) = 10 * nat_of_digits ds + digit_val c"
  by (simp add: nat_of_digits_def)

lemma nat_of_digits_show [simp]: "nat_of_digits (show_nat n) = n"
proof (induction n rule: show_nat.induct)
  case (1 n)
  then show ?case
    by (cases "n < 10")
      (simp_all add: show_nat.simps[of n] nat_of_digits_snoc, simp add: nat_of_digits_def)
qed

lemma digit_not_special:
  assumes "is_digit c"
  shows "\<not> is_space c" "c \<noteq> CHR ''-''" "c \<noteq> CHR ''+''" "c \<noteq> CHR ''/''" "c \<noteq> CHR ''='' "
    "c \<noteq> CHR '' ''" "c \<noteq> newline" "c \<noteq> CHR '';''" "c \<noteq> CHR ''.''" "c \<noteq> CHR '':''"
  using assms by (auto simp: is_digit_def is_space_def)

lemma takeWhile_digits_show:
  "r = [] \<or> \<not> is_digit (hd r) \<Longrightarrow> takeWhile is_digit (show_nat n @ r) = show_nat n"
  by (cases r) (auto simp: takeWhile_append2 show_nat_digits takeWhile_eq_all_conv)

lemma strto_show_nat [cxx_eval]:
  assumes "r = [] \<or> \<not> is_digit (hd r)"
  shows "strto (show_nat n @ r) = Some (False, n)"
proof -
  have h: "is_digit (hd (show_nat n))"
    by (rule show_nat_digits[of _ n]) simp
  then have "dropWhile is_space (show_nat n @ r) = show_nat n @ r"
    by (intro dropWhile_hd) (auto dest: digit_not_special)
  moreover have "hd (show_nat n) \<noteq> CHR ''-''" "hd (show_nat n) \<noteq> CHR ''+''"
    using digit_not_special[OF h] by auto
  ultimately show ?thesis
    using assms by (simp add: strto_def Let_def takeWhile_digits_show)
qed

lemma stoi_show_nat [cxx_eval]:
  "n < 2 ^ 31 \<Longrightarrow> r = [] \<or> \<not> is_digit (hd r) \<Longrightarrow> stoi (show_nat n @ r) = Some (int n)"
  by (simp add: stoi_def strto_show_nat Let_def)

lemma stoull_show_nat [cxx_eval]:
  "n < 2 ^ 64 \<Longrightarrow> r = [] \<or> \<not> is_digit (hd r) \<Longrightarrow> stoull (show_nat n @ r) = Some (word_of_nat n)"
  by (simp add: stoull_def strto_show_nat)


subsection \<open>Bytes as sums of single bits\<close>

text \<open>A property of bytes that is closed under exclusive or and holds of zero and of the
  eight one-bit bytes holds of every byte: what linear checksums are checked with.\<close>

lemma u8_bit_sum:
  fixes x :: u8
  shows "x = (if bit x 0 then 1 else 0) XOR (if bit x 1 then 2 else 0) XOR
             (if bit x 2 then 4 else 0) XOR (if bit x 3 then 8 else 0) XOR
             (if bit x 4 then 16 else 0) XOR (if bit x 5 then 32 else 0) XOR
             (if bit x 6 then 64 else 0) XOR (if bit x 7 then 128 else 0)"
    (is "x = ?rhs")
proof (rule bit_word_eqI)
  fix n
  assume "n < LENGTH(8)"
  then have "n \<in> {0, 1, 2, 3, 4, 5, 6, 7}" by auto
  then show "bit x n = bit ?rhs n"
    by (elim insertE emptyE) (simp_all add: bit_simps bit_numeral_rec)
qed

lemma u8_xor_induct:
  assumes "P 0" "P 1" "P 2" "P 4" "P 8" "P 16" "P 32" "P 64" "P (128 :: u8)"
    and closed: "\<And>a b. P a \<Longrightarrow> P b \<Longrightarrow> P (a XOR b)"
  shows "P x"
  by (subst u8_bit_sum) (auto intro!: closed simp: assms)

subsection \<open>Sorted association lists\<close>

text \<open>\<open>std::map\<close>: keys in increasing order, each at most once.  \<open>m.find(k)\<close> is \<^const>\<open>map_of\<close>,
  \<open>m[k] = v\<close> is \<open>smap_upd\<close> and \<open>m.erase(k)\<close> is \<open>smap_del\<close>; iteration follows the list.\<close>

fun smap_upd :: "'k::linorder \<Rightarrow> 'v \<Rightarrow> ('k \<times> 'v) list \<Rightarrow> ('k \<times> 'v) list" where
  "smap_upd k v [] = [(k, v)]"
| "smap_upd k v ((j, w) # m) =
     (if k < j then (k, v) # (j, w) # m else if k = j then (k, v) # m else (j, w) # smap_upd k v m)"

definition smap_del :: "'k \<Rightarrow> ('k \<times> 'v) list \<Rightarrow> ('k \<times> 'v) list" where
  "smap_del k m = filter (\<lambda>(j, _). j \<noteq> k) m"

definition smap_ok :: "('k::linorder \<times> 'v) list \<Rightarrow> bool" where
  "smap_ok m \<longleftrightarrow> sorted_wrt (<) (map fst m)"

lemma map_of_smap_upd [simp]: "map_of (smap_upd k v m) = (map_of m)(k \<mapsto> v)"
  by (induction k v m rule: smap_upd.induct) auto

lemma map_of_smap_del [simp]: "map_of (smap_del k m) = (map_of m)(k := None)"
  by (induction m) (auto simp: smap_del_def fun_eq_iff)

lemma set_smap_upd: "set (smap_upd k v m) \<subseteq> insert (k, v) (set m)"
  by (induction k v m rule: smap_upd.induct) auto

lemma keys_smap_upd: "fst ` set (smap_upd k v m) = insert k (fst ` set m)"
  by (induction k v m rule: smap_upd.induct) auto

lemma set_smap_del [simp]: "set (smap_del k m) = {(j, v) \<in> set m. j \<noteq> k}"
  by (auto simp: smap_del_def)

lemma smap_ok_Nil [simp, inv_intro]: "smap_ok []"
  by (simp add: smap_ok_def)

lemma smap_ok_upd [inv_intro]: "smap_ok m \<Longrightarrow> smap_ok (smap_upd k v m)"
proof (induction k v m rule: smap_upd.induct)
  case (2 k v j w m)
  have "\<forall>x \<in> set (map fst m). j < x" and m: "smap_ok m"
    using "2.prems" by (auto simp: smap_ok_def)
  then have "k < j \<Longrightarrow> \<forall>x \<in> set (map fst m). k < x" "\<forall>x \<in> fst ` set (smap_upd k v m). j < x \<or> x = k"
    by (auto simp: keys_smap_upd)
  with "2.prems" "2.IH" m show ?case
    by (auto simp: smap_ok_def not_less)
qed (simp add: smap_ok_def)

lemma smap_ok_del [inv_intro]: "smap_ok m \<Longrightarrow> smap_ok (smap_del k m)"
  by (induction m) (auto simp: smap_ok_def smap_del_def)

lemma smap_ok_distinct: "smap_ok m \<Longrightarrow> distinct (map fst m)"
  by (simp add: smap_ok_def strict_sorted_iff)

lemma smap_mem: "smap_ok m \<Longrightarrow> (k, v) \<in> set m \<longleftrightarrow> map_of m k = Some v"
  by (simp add: smap_ok_distinct)

subsection \<open>Widening\<close>

lemma unat_u8_u32 [simp]: "unat (ucast (a :: u8) :: u32) = unat a"
proof -
  have "unat a < 256" using unsigned_less[of a, where 'a = nat] by simp
  then show ?thesis by (simp add: unsigned_ucast_eq take_bit_nat_eq_self)
qed

lemma u8_u32_less [simp]: "(ucast (a :: u8) :: u32) < ucast b \<longleftrightarrow> a < b"
  by (simp add: word_less_nat_alt)

lemma u8_u32_back [simp]: "ucast (ucast (i :: u8) :: u32) = i"
  by (rule bit_word_eqI) (auto simp: bit_simps)

subsection \<open>Little endian numbers\<close>

definition le_bytes :: "nat \<Rightarrow> 'a::len word \<Rightarrow> u8 list" where
  "le_bytes n w = map (\<lambda>i. ucast (drop_bit (8 * i) w)) [0..<n]"

fun of_le :: "u8 list \<Rightarrow> 'a::len word" where
  "of_le [] = 0"
| "of_le (b # bs) = ucast b OR push_bit 8 (of_le bs)"

lemma bit_of_le:
  "bit (of_le bs :: 'a::len word) n \<longleftrightarrow> n < LENGTH('a) \<and> n div 8 < length bs \<and> bit (bs ! (n div 8)) (n mod 8)"
proof (induction bs arbitrary: n)
  case (Cons b bs)
  show ?case
  proof (cases "n < 8")
    case True
    then show ?thesis by (auto simp: bit_simps)
  next
    case False
    then have "n div 8 = Suc ((n - 8) div 8)" "(n - 8) mod 8 = n mod 8"
      by (auto simp: le_div_geq le_mod_geq)
    moreover have "\<not> bit b n"
      using False bit_imp_le_length[of b n] by auto
    ultimately show ?thesis
      using False Cons[of "n - 8"] by (auto simp: bit_simps)
  qed
qed simp

lemma of_le_bytes: "of_le (le_bytes n w) = (w :: 'a::len word)" if "LENGTH('a) \<le> 8 * n"
proof (rule bit_word_eqI)
  fix i
  assume i: "i < LENGTH('a)"
  then have "i div 8 < n" using that by (simp add: less_mult_imp_div_less)
  moreover have "8 * (i div 8) + i mod 8 = i" by simp
  ultimately show "bit (of_le (le_bytes n w) :: 'a word) i = bit w i"
    using i by (simp add: bit_of_le le_bytes_def bit_simps)
qed

lemma length_le_bytes [simp]: "length (le_bytes n w) = n"
  by (simp add: le_bytes_def)

end
