(* ===== verification/Utils.thy ===== *)
theory Utils
  imports Prelude
begin

text \<open>
  \<open>daemon/utils.cpp\<close>: the 16 bit CRC the SAP announcer hashes sources with,
  \<open>parse_url\<close>, \<open>get_host_node_id\<close> and the two scanners that read the subject and the
  origin of an SDP file.  \<open>httplib::detail::decode_url\<close> is not part of the repository:
  it is the parameter \<open>decode_url\<close> of \<open>parse_url\<close>.  Byte order is little endian, as on
  the platforms the daemon is built for.
\<close>

subsection \<open>CRC\<close>

text \<open>One turn of the \<open>while (len--)\<close> loop of \<open>crc16\<close>.\<close>

definition crc16_step :: "u16 \<Rightarrow> u8 \<Rightarrow> u16" where
  "crc16_step crc b =
     (let x0 = ucast (drop_bit 8 crc) XOR b;
          x = x0 XOR drop_bit 4 x0;
          w = ucast x :: u16
      in push_bit 8 crc XOR push_bit 12 w XOR push_bit 5 w XOR w)"

definition crc16 :: "u8 list \<Rightarrow> u16" where
  "crc16 p = foldl crc16_step 0xFFFF p"

text \<open>The reference: CRC-16/CCITT, polynomial \<open>0x1021\<close>, one bit at a time.\<close>

definition ccitt_bit :: "u16 \<Rightarrow> u16" where
  "ccitt_bit r = (if bit r 15 then push_bit 1 r XOR 0x1021 else push_bit 1 r)"

definition ccitt_bits :: "u16 \<Rightarrow> u16" where
  "ccitt_bits r = ccitt_bit (ccitt_bit (ccitt_bit (ccitt_bit
                  (ccitt_bit (ccitt_bit (ccitt_bit (ccitt_bit r)))))))"

definition ccitt_byte :: "u16 \<Rightarrow> u8 \<Rightarrow> u16" where
  "ccitt_byte r b = ccitt_bits (r XOR push_bit 8 (ucast b))"

definition crc_table_entry :: "u8 \<Rightarrow> u16" where
  "crc_table_entry x0 =
     (let w = ucast (x0 XOR drop_bit 4 x0) :: u16 in push_bit 12 w XOR push_bit 5 w XOR w)"

lemma ccitt_bit_xor: "ccitt_bit (a XOR b) = ccitt_bit a XOR ccitt_bit b"
  by (simp add: ccitt_bit_def bit_xor_iff push_bit_xor ac_simps)

lemma ccitt_bits_xor: "ccitt_bits (a XOR b) = ccitt_bits a XOR ccitt_bits b"
  by (simp add: ccitt_bits_def ccitt_bit_xor)

lemma ucast_u8_xor: "ucast (a XOR b) = ucast a XOR (ucast (b :: u8) :: u16)"
  by (rule bit_word_eqI) (simp add: bit_simps)

lemma crc_table_entry_xor: "crc_table_entry (a XOR b) = crc_table_entry a XOR crc_table_entry b"
  by (simp add: crc_table_entry_def Let_def ucast_u8_xor push_bit_xor drop_bit_xor ac_simps)

lemma ccitt_bits_high: "ccitt_bits (push_bit 8 (ucast x)) = crc_table_entry x"
proof (induction x rule: u8_xor_induct)
  case (10 a b)
  then show ?case
    by (simp only: ccitt_bits_xor crc_table_entry_xor ucast_u8_xor push_bit_xor)
qed (code_simp+)

lemma ccitt_bits_low: "ccitt_bits (ucast (x :: u8)) = push_bit 8 (ucast x)"
proof (induction x rule: u8_xor_induct)
  case (10 a b)
  then show ?case
    by (simp only: ccitt_bits_xor ucast_u8_xor push_bit_xor)
qed (code_simp+)

lemma crc16_step_ccitt: "crc16_step r b = ccitt_byte r b"
proof -
  let ?hi = "ucast (drop_bit 8 r) :: u8" and ?lo = "ucast r :: u8"
  have "r XOR push_bit 8 (ucast b) = push_bit 8 (ucast (?hi XOR b)) XOR ucast ?lo"
    by (rule bit_word_eqI) (auto simp: bit_simps)
  then have "ccitt_byte r b = crc_table_entry (?hi XOR b) XOR push_bit 8 (ucast ?lo)"
    by (simp add: ccitt_byte_def ccitt_bits_xor ccitt_bits_high ccitt_bits_low)
  moreover have "push_bit 8 (ucast ?lo) = push_bit 8 r"
    by (rule bit_word_eqI) (auto simp: bit_simps)
  ultimately show ?thesis
    by (simp add: crc16_step_def crc_table_entry_def Let_def ac_simps)
qed

text \<open>The table-free, nibble-folded loop of \<open>crc16\<close> computes exactly the
  bit-serial CRC-16/CCITT (polynomial 0x1021, initial value 0xFFFF) of any buffer.\<close>

theorem crc16_is_ccitt: "crc16 p = foldl ccitt_byte 0xFFFF p"
proof -
  have "crc16_step = ccitt_byte"
    by (intro ext) (rule crc16_step_ccitt)
  then show ?thesis by (simp add: crc16_def)
qed

subsection \<open>URLs\<close>

text \<open>\<open>parse_url\<close>.  Note what the code really does: \<open>find_first_of("://")\<close> looks for the
  first colon or slash, three characters are skipped from there, and the port's length is
  computed in \<open>size_t\<close>.  \<^const>\<open>None\<close> is the \<open>std::out_of_range\<close> of
  \<open>url.substr(protocol_sep_pos + 3)\<close>.  The result is (ok, protocol, host, port, path).\<close>

type_synonym url_parts = "bool \<times> string \<times> string \<times> string \<times> string"

definition parse_url_rest :: "string \<Rightarrow> string \<Rightarrow> url_parts" where
  "parse_url_rest protocol url_new =
     (let path_sep_pos = find_first_of ''/'' url_new;
          port_sep_pos = find_first_of '':'' url_new
      in case port_sep_pos of
           Some pp \<Rightarrow>
             (let (port, path) =
                (case path_sep_pos of
                   Some ps \<Rightarrow>
                     (take (unat (word_of_nat ps - word_of_nat pp - 1 :: u64)) (drop (pp + 1) url_new),
                      drop ps url_new)
                 | None \<Rightarrow> (drop (pp + 1) url_new, ''/''));
                  host = take pp url_new
              in (0 < length host, protocol, host, port, path))
         | None \<Rightarrow>
             (case path_sep_pos of
                Some ps \<Rightarrow> (0 < length (take ps url_new), protocol, take ps url_new, [], drop ps url_new)
              | None \<Rightarrow> (0 < length url_new, protocol, url_new, [], ''/'')))"

definition parse_url :: "(string \<Rightarrow> string) \<Rightarrow> string \<Rightarrow> url_parts option" where
  "parse_url decode_url u =
     (let url = decode_url u
      in case find_first_of ''://'' url of
           None \<Rightarrow> Some (False, [], [], [], [])
         | Some sep \<Rightarrow> (case substr_from url (sep + 3) of
               None \<Rightarrow> None
             | Some url_new \<Rightarrow> Some (parse_url_rest (take sep url) url_new)))"

lemma parse_url_sep:
  "\<forall>c \<in> set proto. c \<noteq> CHR '':'' \<and> c \<noteq> CHR ''/'' \<Longrightarrow> decode_url u = proto @ ''://'' @ rest \<Longrightarrow>
   parse_url decode_url u = Some (parse_url_rest proto rest)"
  using find_first_of_append[of proto "''://''" "CHR '':''" "''//'' @ rest"]
  by (simp add: parse_url_def)

lemma unat_of_nat_u64: "k < 2 ^ 64 \<Longrightarrow> unat (word_of_nat k :: u64) = k"
  by (simp add: unsigned_of_nat take_bit_nat_eq_self)

lemma unat_diff_pos:
  assumes "p < s" "s < 2 ^ 64"
  shows "unat (word_of_nat s - word_of_nat p - 1 :: u64) = s - p - 1"
proof -
  have "word_of_nat s - word_of_nat p - 1 = (word_of_nat (s - p - 1) :: u64)"
    using assms by (simp add: of_nat_diff)
  moreover have "unat (word_of_nat (s - p - 1) :: u64) = s - p - 1"
    using assms by (intro unat_of_nat_u64) auto
  ultimately show ?thesis by (simp only:)
qed

lemma parse_url_rest_port_path:
  assumes "\<forall>c \<in> set host. c \<noteq> CHR '':'' \<and> c \<noteq> CHR ''/''"
    and "\<forall>c \<in> set port. c \<noteq> CHR ''/''"
    and "length host + length port < 2 ^ 63"
  shows "parse_url_rest proto (host @ '':'' @ port @ ''/'' @ path) =
    (host \<noteq> [], proto, host, port, CHR ''/'' # path)"
proof -
  let ?u = "host @ CHR '':'' # port @ CHR ''/'' # path"
  have 1: "find_first_of '':'' ?u = Some (length host)"
    using assms(1) by (intro find_first_of_append) auto
  have 2: "find_first_of ''/'' ?u = Some (length host + 1 + length port)"
    using assms find_first_of_append[of "host @ CHR '':'' # port" "''/''" "CHR ''/''" path] by auto
  have 3: "unat (word_of_nat (length host + 1 + length port) - word_of_nat (length host) - 1 :: u64)
           = length port"
    using assms(3) by (subst unat_diff_pos) auto
  show ?thesis
    using 1 2 3 by (simp add: parse_url_rest_def Let_def)
qed

text \<open>\<open>parse_url\<close> takes a URL of the usual form apart into the pieces it was built
  from: protocol, host, port and the path with its leading slash, and reports success
  exactly when the host is not empty.\<close>

theorem parse_url_roundtrip:
  assumes "decode_url u = proto @ ''://'' @ host @ '':'' @ port @ ''/'' @ path"
    and "\<forall>c \<in> set proto. c \<noteq> CHR '':'' \<and> c \<noteq> CHR ''/''"
    and "\<forall>c \<in> set host. c \<noteq> CHR '':'' \<and> c \<noteq> CHR ''/''"
    and "\<forall>c \<in> set port. c \<noteq> CHR ''/''"
    and "length host + length port < 2 ^ 63"
  shows "parse_url decode_url u = Some (host \<noteq> [], proto, host, port, CHR ''/'' # path)"
  using parse_url_rest_port_path[OF assms(3-5), of proto path]
    parse_url_sep[of proto decode_url u "host @ '':'' @ port @ ''/'' @ path"] assms(1,2)
  by simp

theorem parse_url_roundtrip_witness:
  "parse_url id ''http://10.0.0.1:8080/api/source'' =
     Some (True, ''http'', ''10.0.0.1'', ''8080'', ''/api/source'')"
  using parse_url_roundtrip[of id "''http://10.0.0.1:8080/api/source''" "''http''"
      "''10.0.0.1''" "''8080''" "''api/source''"]
  by simp

text \<open>A colon or slash near the end of the string makes \<open>substr\<close> throw instead of
  reporting an invalid URL.\<close>

lemma parse_url_throws: "parse_url id ''http:'' = None"
  by (simp add: parse_url_def substr_from_def)


subsection \<open>Host identifier\<close>

definition htonl :: "u32 \<Rightarrow> u32" where
  "htonl w = push_bit 24 (w AND 0xFF) OR push_bit 8 (w AND 0xFF00) OR
             (drop_bit 8 w AND 0xFF00) OR (drop_bit 24 w AND 0xFF)"

definition get_host_node_id :: "u32 \<Rightarrow> string" where
  "get_host_node_id ip_addr =
     (let a = htonl ip_addr
      in ''Daemon '' @ show_hex_pad 8 (unat (push_bit 16 a OR drop_bit 16 a)))"

lemma get_host_node_id_example: "get_host_node_id 0xC0A80111 = ''Daemon a8c01101''"
proof -
  have 8: "8 = Suc (Suc (Suc (Suc (Suc (Suc (Suc (Suc 0)))))))" by simp
  show ?thesis
    unfolding get_host_node_id_def 8 by (simp add: htonl_def hex_char_def char_of_eq_iff)
qed

subsection \<open>Subject and origin of an SDP file\<close>

text \<open>\<open>sdp_get_subject\<close>: the trimmed text of the first \<open>s=\<close> line.\<close>

fun subject_of_lines :: "string list \<Rightarrow> string" where
  "subject_of_lines [] = []"
| "subject_of_lines (l # ls) =
     (if take 2 l = ''s='' then trim (drop 2 l) else subject_of_lines ls)"

definition sdp_get_subject :: "string \<Rightarrow> string" where
  "sdp_get_subject sdp = subject_of_lines (getlines sdp)"

text \<open>\<open>struct SDPOrigin\<close>; its \<open>operator==\<close> does not look at the version.\<close>

record sdp_origin =
  o_username :: string
  o_session_id :: string
  o_session_version :: u64
  o_network_type :: string
  o_address_type :: string
  o_unicast_address :: string

definition no_origin :: sdp_origin where
  "no_origin = \<lparr>o_username = [], o_session_id = [], o_session_version = 0,
                o_network_type = [], o_address_type = [], o_unicast_address = []\<rparr>"

definition origin_eq :: "sdp_origin \<Rightarrow> sdp_origin \<Rightarrow> bool" where
  "origin_eq a b \<longleftrightarrow> o_username a = o_username b \<and> o_session_id a = o_session_id b \<and>
     o_network_type a = o_network_type b \<and> o_address_type a = o_address_type b \<and>
     o_unicast_address a = o_unicast_address b"

text \<open>The fields of one \<open>o=\<close> line.  When \<open>std::stoull\<close> throws, the handler around the
  loop returns the origin with what was assigned before it.\<close>

definition origin_of_fields :: "string list \<Rightarrow> sdp_origin" where
  "origin_of_fields fs =
     (if length fs < 6 then no_origin
      else (let og = no_origin\<lparr>o_username := fs ! 0, o_session_id := fs ! 1\<rparr>
            in case stoull (fs ! 2) of
                 None \<Rightarrow> og
               | Some v \<Rightarrow> og\<lparr>o_session_version := v, o_network_type := fs ! 3,
                             o_address_type := fs ! 4, o_unicast_address := fs ! 5\<rparr>))"

text \<open>\<open>sdp_get_origin\<close>.  A line whose second character is not \<open>=\<close> ends the scan; that is
  also how a line too short to have one is read.\<close>

fun origin_of_lines :: "string list \<Rightarrow> sdp_origin" where
  "origin_of_lines [] = no_origin"
| "origin_of_lines (l # ls) =
     (let line = trim l
      in if \<not> (2 \<le> length line \<and> line ! 1 = CHR ''='') then no_origin
         else if line ! 0 = CHR ''o''
              then origin_of_fields (split_on (\<lambda>c. c = CHR '' '') (drop 2 line))
              else origin_of_lines ls)"

definition sdp_get_origin :: "string \<Rightarrow> sdp_origin" where
  "sdp_get_origin sdp = origin_of_lines (getlines sdp)"

lemma origin_eq_refl [simp]: "origin_eq a a"
  by (simp add: origin_eq_def)

lemma origin_eq_sym: "origin_eq a b \<longleftrightarrow> origin_eq b a"
  by (auto simp: origin_eq_def)

lemma origin_eq_trans: "origin_eq a b \<Longrightarrow> origin_eq b c \<Longrightarrow> origin_eq a c"
  by (simp add: origin_eq_def)

end
