(* ===== verification/Streams.thy ===== *)
theory Streams
  imports Utils
begin

text \<open>
  The data of \<open>daemon/session_manager.hpp\<close>: what the HTTP interface says about sources and
  sinks (\<open>StreamSource\<close>, \<open>StreamSink\<close>), the stream description handed to the driver
  (\<open>TRTP_stream_info\<close>, declared by the kernel module, of which the fields the daemon touches
  are kept) and the manager's own record of a source or a sink (\<open>StreamInfo\<close>).

  The capacities of the two character arrays of \<open>TRTP_stream_info\<close> are not in this
  repository: they are the parameters \<open>name_cap\<close> and \<open>codec_cap\<close> of the operations, the array
  size less one.  An array of characters is the string up to its terminating zero.
\<close>

record rtp_stream_info =
  m_bSource :: bool
  m_cName :: string
  m_ucDSCP :: u8
  m_uiIfPortId :: u32
  m_byPayloadType :: u8
  m_byWordLength :: u8
  m_byNbOfChannels :: u8
  m_cCodec :: string
  m_ui32MaxSamplesPerPacket :: u32
  m_ui32SamplingRate :: u32
  m_uiId :: u32
  m_ui32RTCPSrcIP :: u32
  m_ui32SrcIP :: u32
  m_ui32DestIP :: u32
  m_usSrcPort :: u16
  m_usDestPort :: u16
  m_ui32SSRC :: u32
  m_aui32Routing :: "u8 list"
  m_ui8DestMAC :: "u8 list"
  m_byTTL :: u8
  m_ui32PlayOutDelay :: u32
  m_ui32RTPTimestampOffset :: u32
  m_ui32FrameSize :: u32

text \<open>\<open>memset(&info.stream[0], 0, sizeof info.stream[0])\<close>.\<close>

definition zero_stream :: rtp_stream_info where
  "zero_stream =
     \<lparr>m_bSource = False, m_cName = [], m_ucDSCP = 0, m_uiIfPortId = 0, m_byPayloadType = 0,
      m_byWordLength = 0, m_byNbOfChannels = 0, m_cCodec = [], m_ui32MaxSamplesPerPacket = 0,
      m_ui32SamplingRate = 0, m_uiId = 0, m_ui32RTCPSrcIP = 0, m_ui32SrcIP = 0,
      m_ui32DestIP = 0, m_usSrcPort = 0, m_usDestPort = 0, m_ui32SSRC = 0,
      m_aui32Routing = [], m_ui8DestMAC = [], m_byTTL = 0, m_ui32PlayOutDelay = 0,
      m_ui32RTPTimestampOffset = 0, m_ui32FrameSize = 0\<rparr>"

record stream_source =
  src_id :: u8
  src_enabled :: bool
  src_name :: string
  src_io :: string
  src_max_samples_per_packet :: u32
  src_codec :: string
  src_address :: string
  src_address_sec :: string
  src_use_secondary :: bool
  src_ttl :: u8
  src_payload_type :: u8
  src_dscp :: u8
  src_refclk_ptp_traceable :: bool
  src_map :: "u8 list"

record stream_sink =
  snk_id :: u8
  snk_name :: string
  snk_io :: string
  snk_use_sdp :: bool
  snk_source :: string
  snk_sdp :: string
  snk_delay :: u32
  snk_ignore_refclk_gmid :: bool
  snk_map :: "u8 list"

text \<open>\<open>StreamInfo\<close> with its two legs; \<open>stream_id_max\<close> and \<open>media_max\<close>.\<close>

record stream_info =
  si_stream :: "rtp_stream_info list"
  si_handle :: "u64 list"
  si_enabled :: bool
  si_st20227_enabled :: bool
  si_refclk_ptp_traceable :: bool
  si_ignore_refclk_gmid :: bool
  si_io :: string
  si_sink_use_sdp :: bool
  si_sink_source :: string
  si_sink_sdp :: string
  si_session_id :: u32
  si_session_version :: u32
  si_origin :: sdp_origin

definition stream_id_max :: u8 where "stream_id_max = 63"
definition media_max :: nat where "media_max = 2"

text \<open>A fresh \<open>StreamInfo\<close>.  The second leg of a source is indeterminate until it is copied
  from the first; the model starts it at zero and nothing reads it before that
  (\<open>st20227_enabled\<close> guards every access).\<close>

definition new_info :: stream_info where
  "new_info =
     \<lparr>si_stream = [zero_stream, zero_stream], si_handle = [0, 0], si_enabled = False,
      si_st20227_enabled = False, si_refclk_ptp_traceable = False,
      si_ignore_refclk_gmid = False, si_io = [], si_sink_use_sdp = True, si_sink_source = [],
      si_sink_sdp = [], si_session_id = 0, si_session_version = 0, si_origin = no_origin\<rparr>"

abbreviation leg :: "stream_info \<Rightarrow> nat \<Rightarrow> rtp_stream_info" where
  "leg info i \<equiv> si_stream info ! i"

definition upd_leg ::
  "nat \<Rightarrow> (rtp_stream_info \<Rightarrow> rtp_stream_info) \<Rightarrow> stream_info \<Rightarrow> stream_info" where
  "upd_leg i f info = info\<lparr>si_stream := (si_stream info)[i := f (si_stream info ! i)]\<rparr>"

text \<open>\<open>strncpy(dst, s.c_str(), sizeof(dst) - 1)\<close> into a zeroed array.\<close>

definition strncpy :: "nat \<Rightarrow> string \<Rightarrow> string" where
  "strncpy cap s = take cap (takeWhile (\<lambda>c. c \<noteq> CHR 0x00) s)"

lemma length_strncpy: "length (strncpy cap s) \<le> cap"
  by (simp add: strncpy_def)

text \<open>\<open>get_codec_word_length\<close>.\<close>

definition get_codec_word_length :: "string \<Rightarrow> u8" where
  "get_codec_word_length codec =
     (if codec = ''L16'' then 2
      else if codec = ''L24'' then 3
      else if codec = ''L2432'' \<or> codec = ''AM824'' then 4
      else if codec = ''DSD64'' then 1
      else if codec = ''DSD128'' then 2
      else if codec = ''DSD64_32'' \<or> codec = ''DSD128_32'' \<or> codec = ''DSD256'' then 4
      else 0)"

text \<open>\<open>IN_MULTICAST\<close> on a host order address, and the Ethernet address of a multicast group
  (\<open>get_mcast_mac_addr\<close> in \<open>interface.cpp\<close>).\<close>

definition in_multicast :: "u32 \<Rightarrow> bool" where
  "in_multicast a \<longleftrightarrow> a AND 0xF0000000 = 0xE0000000"

lemma leg_upd_leg [simp]:
  "i < length (si_stream info) \<Longrightarrow> leg (upd_leg i f info) j = (if j = i then f (leg info j) else leg info j)"
  by (simp add: upd_leg_def nth_list_update)

lemma length_upd_leg [simp]: "length (si_stream (upd_leg i f info)) = length (si_stream info)"
  by (simp add: upd_leg_def)

lemma upd_leg_fields [simp]:
  "si_handle (upd_leg i f info) = si_handle info"
  "si_enabled (upd_leg i f info) = si_enabled info"
  "si_st20227_enabled (upd_leg i f info) = si_st20227_enabled info"
  "si_refclk_ptp_traceable (upd_leg i f info) = si_refclk_ptp_traceable info"
  "si_ignore_refclk_gmid (upd_leg i f info) = si_ignore_refclk_gmid info"
  "si_io (upd_leg i f info) = si_io info"
  "si_sink_use_sdp (upd_leg i f info) = si_sink_use_sdp info"
  "si_sink_source (upd_leg i f info) = si_sink_source info"
  "si_sink_sdp (upd_leg i f info) = si_sink_sdp info"
  "si_session_id (upd_leg i f info) = si_session_id info"
  "si_session_version (upd_leg i f info) = si_session_version info"
  "si_origin (upd_leg i f info) = si_origin info"
  by (simp_all add: upd_leg_def)

definition get_mcast_mac_addr :: "u32 \<Rightarrow> u8 list" where
  "get_mcast_mac_addr mcast_ip =
     [0x01, 0x00, 0x5e, ucast (drop_bit 16 mcast_ip AND 0x7F), ucast (drop_bit 8 mcast_ip),
      ucast mcast_ip]"

text \<open>Two groups share an Ethernet address exactly when their low 23 bits agree.\<close>

lemma get_mcast_mac_addr_eq:
  "get_mcast_mac_addr a = get_mcast_mac_addr b \<longleftrightarrow> a AND 0x7FFFFF = b AND 0x7FFFFF"
proof
  assume eq: "get_mcast_mac_addr a = get_mcast_mac_addr b"
  show "a AND 0x7FFFFF = b AND 0x7FFFFF"
  proof (rule bit_word_eqI)
    fix n
    assume n: "n < LENGTH(32)"
    have h: "bit (ucast (drop_bit 16 a AND 0x7F) :: u8) i = bit (ucast (drop_bit 16 b AND 0x7F) :: u8) i"
      "bit (ucast (drop_bit 8 a) :: u8) i = bit (ucast (drop_bit 8 b) :: u8) i"
      "bit (ucast a :: u8) i = bit (ucast b :: u8) i" for i
      using eq by (simp_all add: get_mcast_mac_addr_def)
    have m: "(0x7FFFFF :: u32) = mask 23" "(0x7F :: u32) = mask 7"
      by (simp_all add: mask_eq_exp_minus_1)
    show "bit (a AND 0x7FFFFF) n = bit (b AND 0x7FFFFF) n"
      using h(3)[of n] h(2)[of "n - 8"] h(1)[of "n - 16"] n unfolding m
      by (cases "n < 8"; cases "n < 16"; cases "n < 23") (auto simp: bit_simps)
  qed
next
  have m: "(0x7FFFFF :: u32) = mask 23" "(0x7F :: u32) = mask 7"
    by (simp_all add: mask_eq_exp_minus_1)
  assume eq: "a AND 0x7FFFFF = b AND 0x7FFFFF"
  have bits: "i < 23 \<Longrightarrow> bit a i = bit b i" for i
  proof -
    assume i: "i < 23"
    have "bit (a AND mask 23) i = bit (b AND mask 23) i"
      using eq unfolding m by simp
    with i show ?thesis by (simp add: bit_simps)
  qed
  show "get_mcast_mac_addr a = get_mcast_mac_addr b"
    unfolding get_mcast_mac_addr_def m
    by (auto intro!: bit_word_eqI simp: bit_simps bits)
qed

end
