(* ===== verification/Fp.thy ===== *)
theory Fp
  imports Prelude
begin

text \<open>
  The packet time of an SDP file is the one place of the session manager that computes in
  \<open>double\<close>: \<open>get_source_sdp_\<close> prints \<open>samples * 1000 / rate\<close> with twelve decimals and
  \<open>parse_sdp\<close> multiplies the number it reads back by the rate.  A nonnegative double is a
  pair of natural numbers, numerator and denominator; every operation is the exact result
  rounded to 53 significant bits, ties to even.  Subnormal numbers, infinities and
  overflow do not occur in these computations and are not modelled.
\<close>

type_synonym dbl = "nat \<times> nat"

definition round_half_even :: "nat \<Rightarrow> nat \<Rightarrow> nat" where
  "round_half_even p q =
     (let d = p div q; r = p mod q
      in if 2 * r < q then d else if q < 2 * r then d + 1 else if even d then d else d + 1)"

text \<open>Scaling: \<open>p\<close> is doubled until \<open>p / q\<close> is at least \<open>2 ^ 52\<close>, \<open>q\<close> until it is below \<open>2 ^ 53\<close>;
  the factor applied comes along in \<open>f\<close>.\<close>

function fl_up :: "nat \<Rightarrow> nat \<Rightarrow> nat \<Rightarrow> nat \<times> nat" where
  "fl_up p q f = (if p = 0 \<or> q * 4503599627370496 \<le> p then (p, f) else fl_up (2 * p) q (2 * f))"
  by pat_completeness auto
termination
  by (relation "measure (\<lambda>(p, q, f). q * 4503599627370496 - p)") auto

function fl_down :: "nat \<Rightarrow> nat \<Rightarrow> nat \<Rightarrow> nat \<times> nat" where
  "fl_down p q f = (if q = 0 \<or> p < q * 9007199254740992 then (q, f) else fl_down p (2 * q) (2 * f))"
  by pat_completeness auto
termination
  by (relation "measure (\<lambda>(p, q, f). p - q)") auto

declare fl_up.simps [simp del] fl_down.simps [simp del]

definition fl :: "dbl \<Rightarrow> dbl" where
  "fl x = (case x of (p, q) \<Rightarrow>
             if p = 0 then (0, 1)
             else (case fl_up p q 1 of (p', f) \<Rightarrow>
                     (case fl_down p q 1 of (q', g) \<Rightarrow> (round_half_even p' q' * g, f))))"

definition dbl_of_nat :: "nat \<Rightarrow> dbl" where
  "dbl_of_nat n = fl (n, 1)"

definition dbl_mult :: "dbl \<Rightarrow> dbl \<Rightarrow> dbl" where
  "dbl_mult x y = fl (fst x * fst y, snd x * snd y)"

definition dbl_div :: "dbl \<Rightarrow> dbl \<Rightarrow> dbl" where
  "dbl_div x y = fl (fst x * snd y, snd x * fst y)"

definition dbl_trunc :: "dbl \<Rightarrow> nat" where
  "dbl_trunc x = fst x div snd x"

text \<open>\<open>ss << std::fixed << x\<close> with \<open>precision(12)\<close>, and the removal of trailing zeros and dots
  as the code does it: everything behind the last character that is neither.\<close>

definition show_fixed12 :: "dbl \<Rightarrow> string" where
  "show_fixed12 x =
     (let d = round_half_even (fst x * 1000000000000) (snd x)
      in show_nat (d div 1000000000000) @ ''.'' @
         tl (show_nat (1000000000000 + d mod 1000000000000)))"

definition strip_zeros :: "string \<Rightarrow> string" where
  "strip_zeros s = rev (dropWhile (\<lambda>c. c = CHR ''0'' \<or> c = CHR ''.'') (rev s))"

text \<open>\<open>get_source_sdp_\<close>'s packet time: samples per packet and sample rate to text.\<close>

definition ptime_text :: "nat \<Rightarrow> nat \<Rightarrow> string" where
  "ptime_text samples rate =
     strip_zeros (show_fixed12
       (dbl_div (dbl_mult (dbl_of_nat samples) (dbl_of_nat 1000)) (dbl_of_nat rate)))"

text \<open>\<open>std::stod\<close> on decimal input: white space, sign, digits with an optional fraction, an
  optional exponent.  The sign comes separately; \<^const>\<open>None\<close> is \<open>std::invalid_argument\<close>.\<close>

definition stod_exponent :: "string \<Rightarrow> bool \<times> nat" where
  "stod_exponent s =
     (case s of
        [] \<Rightarrow> (False, 0)
      | c # r \<Rightarrow>
          if c = CHR ''e'' \<or> c = CHR ''E''
          then (let neg = (r \<noteq> [] \<and> hd r = CHR ''-'');
                    r' = (if r \<noteq> [] \<and> (hd r = CHR ''-'' \<or> hd r = CHR ''+'') then tl r else r)
                in (neg, nat_of_digits (takeWhile is_digit r')))
          else (False, 0))"

definition stod_scan :: "string \<Rightarrow> bool \<times> string \<times> string \<times> bool \<times> nat" where
  "stod_scan s =
     (let t = dropWhile is_space s;
          neg = (t \<noteq> [] \<and> hd t = CHR ''-'');
          u = (if t \<noteq> [] \<and> (hd t = CHR ''-'' \<or> hd t = CHR ''+'') then tl t else t);
          ip = takeWhile is_digit u;
          r = dropWhile is_digit u;
          fp = (if r \<noteq> [] \<and> hd r = CHR ''.'' then takeWhile is_digit (tl r) else []);
          r' = (if r \<noteq> [] \<and> hd r = CHR ''.'' then dropWhile is_digit (tl r) else r)
      in (neg, ip, fp, stod_exponent r'))"

definition stod_fraction :: "string \<Rightarrow> string \<Rightarrow> bool \<Rightarrow> nat \<Rightarrow> nat \<times> nat" where
  "stod_fraction ip fp eneg e =
     (if eneg then (nat_of_digits (ip @ fp), 10 ^ (length fp + e))
      else (nat_of_digits (ip @ fp) * 10 ^ e, 10 ^ length fp))"

definition stod :: "string \<Rightarrow> (bool \<times> dbl) option" where
  "stod s = (case stod_scan s of (neg, ip, fp, eneg, e) \<Rightarrow>
     if ip = [] \<and> fp = [] then None else Some (neg, fl (stod_fraction ip fp eneg e)))"

text \<open>\<open>parse_sdp\<close>'s samples per packet: \<open>static_cast<double>(rate) * std::stod(value) / 1000\<close>,
  before the conversion to an integer.\<close>

definition ptime_product :: "nat \<Rightarrow> dbl \<Rightarrow> dbl" where
  "ptime_product rate v = dbl_div (dbl_mult (dbl_of_nat rate) v) (dbl_of_nat 1000)"

definition ptime_samples :: "nat \<Rightarrow> string \<Rightarrow> nat option" where
  "ptime_samples rate s =
     (case stod s of
        None \<Rightarrow> None
      | Some (neg, v) \<Rightarrow> if neg then None else Some (dbl_trunc (ptime_product rate v)))"

text \<open>Evaluation goes in two stages: scanning the text, then the arithmetic.\<close>

lemmas stod_eval = ptime_samples_def stod_def stod_scan_def stod_fraction_def stod_exponent_def
  nat_of_digits_def digit_val_def is_digit_def is_space_def Let_def

lemmas fl_eval = ptime_product_def dbl_trunc_def dbl_div_def dbl_mult_def dbl_of_nat_def fl_def
  fl_up.simps fl_down.simps round_half_even_def

lemmas ptime_text_eval = ptime_text_def strip_zeros_def show_fixed12_def show_nat.simps
  digit_char_def char_of_eq_iff Let_def fl_eval

lemma set_strip_zeros: "set (strip_zeros s) \<subseteq> set s"
  using set_dropWhileD by (fastforce simp: strip_zeros_def)

lemma ptime_text_chars: "c \<in> set (ptime_text n r) \<Longrightarrow> is_digit c \<or> c = CHR ''.''"
  using set_strip_zeros unfolding ptime_text_def show_fixed12_def Let_def
  by (force dest: show_nat_digits list.set_sel(2)[rotated])

lemma ptime_48k_48: "ptime_text 48 48000 = ''1''" "ptime_samples 48000 ''1'' = Some 48"
  by (simp add: ptime_text_eval) (simp add: stod_eval, simp add: fl_eval)

lemma ptime_48k_12: "ptime_text 12 48000 = ''0.25''" "ptime_samples 48000 ''0.25'' = Some 12"
  by (simp add: ptime_text_eval) (simp add: stod_eval, simp add: fl_eval)

text \<open>The packet time does not survive the SDP for every packet size: at 48 kHz, sixteen
  samples are announced as \<open>0.333333333333\<close> ms, and the receiving side's product, 15.99..., is
  truncated to fifteen; at 44.1 kHz twelve samples come back as eleven and ninety-six as
  ninety-five.\<close>

theorem ptime_truncation:
  "ptime_text 16 48000 = ''0.333333333333'' \<and> ptime_samples 48000 ''0.333333333333'' = Some 15 \<and>
   ptime_text 12 44100 = ''0.272108843537'' \<and> ptime_samples 44100 ''0.272108843537'' = Some 11 \<and>
   ptime_text 96 44100 = ''2.176870748299'' \<and> ptime_samples 44100 ''2.176870748299'' = Some 95"
proof (intro conjI)
  show "ptime_text 16 48000 = ''0.333333333333''" "ptime_text 12 44100 = ''0.272108843537''"
    "ptime_text 96 44100 = ''2.176870748299''"
    by (simp_all add: ptime_text_eval)
  show "ptime_samples 48000 ''0.333333333333'' = Some 15"
    "ptime_samples 44100 ''0.272108843537'' = Some 11"
    "ptime_samples 44100 ''2.176870748299'' = Some 95"
    by (simp_all add: stod_eval, simp_all add: fl_eval)
qed

text \<open>A packet time that is a whole multiple of ten milliseconds loses its zeros as well.\<close>

lemma ptime_strip_bug: "strip_zeros ''10.000000000000'' = ''1''"
  by (simp add: strip_zeros_def)

end
