(* ===== verification/Sap.thy ===== *)
theory Sap
  imports Utils
begin

text \<open>
  \<open>daemon/sap.cpp\<close> and \<open>daemon/sap.hpp\<close>: the session announcement packets the daemon
  sends and the ones it accepts.  The socket is not modelled: \<open>send\<close> gives the bytes
  handed to \<open>send_to\<close>, \<open>receive\<close> starts from the bytes in the receive buffer.  The
  buffer is the whole array of \<open>max_length\<close> bytes, of which the first \<open>length\<close> were
  received and the rest is whatever the stack held, because the code reads past
  \<open>length\<close> for short packets.
\<close>

definition sap_max_deletions :: nat where "sap_max_deletions = 3"
definition sap_bandwidth_limit :: nat where "sap_bandwidth_limit = 4000"
definition sap_min_interval :: nat where "sap_min_interval = 300"
definition sap_header_len :: nat where "sap_header_len = 24"
definition sap_max_length :: nat where "sap_max_length = 4096"

lemmas sap_consts = sap_max_deletions_def sap_bandwidth_limit_def sap_min_interval_def
  sap_header_len_def sap_max_length_def

text \<open>Characters and bytes; \<open>memcpy\<close> of a 16 or 32 bit integer to and from the buffer
  (little endian host).\<close>

definition byte_of_char :: "char \<Rightarrow> u8" where
  "byte_of_char c = word_of_nat (of_char c)"

definition char_of_byte :: "u8 \<Rightarrow> char" where
  "char_of_byte b = char_of (unat b)"

definition bytes_of_u16 :: "u16 \<Rightarrow> u8 list" where
  "bytes_of_u16 w = [ucast w, ucast (drop_bit 8 w)]"

definition u16_of_bytes :: "u8 list \<Rightarrow> u16" where
  "u16_of_bytes bs = ucast (bs ! 0) OR push_bit 8 (ucast (bs ! 1))"

definition bytes_of_u32 :: "u32 \<Rightarrow> u8 list" where
  "bytes_of_u32 w = [ucast w, ucast (drop_bit 8 w), ucast (drop_bit 16 w), ucast (drop_bit 24 w)]"

definition u32_of_bytes :: "u8 list \<Rightarrow> u32" where
  "u32_of_bytes bs = ucast (bs ! 0) OR push_bit 8 (ucast (bs ! 1)) OR
     push_bit 16 (ucast (bs ! 2)) OR push_bit 24 (ucast (bs ! 3))"

lemma char_byte [simp]: "char_of_byte (byte_of_char c) = c"
  by (simp add: char_of_byte_def byte_of_char_def unsigned_of_nat take_bit_nat_eq_self)

lemma u16_bytes [simp]: "u16_of_bytes (bytes_of_u16 w) = w"
  by (rule bit_word_eqI) (auto simp: u16_of_bytes_def bytes_of_u16_def bit_simps)

lemma u32_bytes [simp]: "u32_of_bytes (bytes_of_u32 w) = w"
proof (rule bit_word_eqI)
  fix n
  assume "n < LENGTH(32)"
  then show "bit (u32_of_bytes (bytes_of_u32 w)) n = bit w n"
    by (cases "24 \<le> n"; cases "16 \<le> n"; cases "8 \<le> n")
      (auto simp: u32_of_bytes_def bytes_of_u32_def bit_simps)
qed

text \<open>\<open>SAP::send\<close>: the datagram, or \<^const>\<open>None\<close> when the SDP does not fit.  The content type is
  copied with its terminating zero.\<close>

definition content_type :: string where
  "content_type = ''application/sdp'' @ [CHR 0x00]"

definition sap_send :: "bool \<Rightarrow> u16 \<Rightarrow> u32 \<Rightarrow> string \<Rightarrow> u8 list option" where
  "sap_send is_announce msg_id_hash addr sdp =
     (if sap_max_length - sap_header_len < length sdp then None
      else Some ([if is_announce then 0x20 else 0x24, 0] @ bytes_of_u16 msg_id_hash @
                 bytes_of_u32 addr @ map byte_of_char content_type @ map byte_of_char sdp))"

text \<open>\<open>SAP::announcement\<close> and \<open>SAP::deletion\<close> put the address in network order, with the
  host's \<open>htonl\<close>.\<close>

definition sap_announcement :: "u16 \<Rightarrow> u32 \<Rightarrow> string \<Rightarrow> u8 list option" where
  "sap_announcement msg_id_hash addr sdp = sap_send True msg_id_hash (htonl addr) sdp"

definition sap_deletion :: "u16 \<Rightarrow> u32 \<Rightarrow> string \<Rightarrow> u8 list option" where
  "sap_deletion msg_id_hash addr sdp = sap_send False msg_id_hash (htonl addr) sdp"

subsection \<open>Receiving\<close>

text \<open>What \<open>receive\<close> does with the buffer once a datagram of \<open>len\<close> bytes is in it; the
  result is its return value and output parameters.  \<open>memcmp\<close> looks at bytes 8 to 23
  whatever \<open>len\<close> is.\<close>

definition tolower_byte :: "u8 \<Rightarrow> u8" where
  "tolower_byte b = byte_of_char (tolower (char_of_byte b))"

text \<open>The lower-casing loop: from index 8 up to \<open>len\<close> or the first zero byte.\<close>

fun lower_until_zero :: "u8 list \<Rightarrow> u8 list" where
  "lower_until_zero [] = []"
| "lower_until_zero (b # bs) = (if b = 0 then b # bs else tolower_byte b # lower_until_zero bs)"

definition sap_lowered :: "u8 list \<Rightarrow> nat \<Rightarrow> u8 list" where
  "sap_lowered buffer len =
     take 8 buffer @ lower_until_zero (take (len - 8) (drop 8 buffer)) @ drop (max 8 len) buffer"

record sap_packet =
  p_is_announce :: bool
  p_msg_id_hash :: u16
  p_addr :: u32
  p_sdp :: string

text \<open>Outcomes: the packet is taken, it is refused, or (\<open>sdp.assign(buffer + 24, buffer + len)\<close>
  with \<open>len < 24\<close>) the range handed to \<open>assign\<close> is reversed, which C++ leaves undefined.\<close>

datatype sap_result = Sap_packet sap_packet | Sap_refused | Sap_undefined

definition sap_receive :: "u8 list \<Rightarrow> nat \<Rightarrow> sap_result" where
  "sap_receive buffer len =
     (if 4 < len \<and> (buffer ! 0 = 0x20 \<or> buffer ! 0 = 0x24)
      then (let b = sap_lowered buffer len
            in if take 16 (drop 8 b) = map byte_of_char content_type
               then (if len < sap_header_len then Sap_undefined
                     else Sap_packet \<lparr>p_is_announce = (buffer ! 0 = 0x20),
                            p_msg_id_hash = u16_of_bytes (take 2 (drop 2 buffer)),
                            p_addr = u32_of_bytes (take 4 (drop 4 buffer)),
                            p_sdp = map char_of_byte (take (len - sap_header_len) (drop sap_header_len b))\<rparr>)
               else Sap_refused)
      else Sap_refused)"

lemma length_lower_until_zero [simp]: "length (lower_until_zero bs) = length bs"
  by (induction bs) auto

lemma lower_until_zero_content_type [simp]:
  "lower_until_zero (map byte_of_char content_type @ r) = map byte_of_char content_type @ r"
proof -
  have "lower_until_zero (map byte_of_char content_type @ r) =
        map byte_of_char content_type @ r
        \<longleftrightarrow> map byte_of_char content_type = map byte_of_char content_type"
    by (simp add: content_type_def tolower_byte_def tolower_def byte_of_char_def char_of_byte_def)
  then show ?thesis by simp
qed

lemma length_content_type [simp]: "length content_type = 16"
  by (simp add: content_type_def)

lemma sap_send_len: "sap_send a h d s = Some pkt \<Longrightarrow> length pkt = 24 + length s \<and> length pkt \<le> 4096"
  by (auto simp: sap_send_def sap_consts bytes_of_u16_def bytes_of_u32_def split: if_splits)

lemma sap_recv_sent:
  assumes "sap_send ann hash addr sdp = Some pkt"
  shows "sap_receive (pkt @ junk) (length pkt) =
    Sap_packet \<lparr>p_is_announce = ann, p_msg_id_hash = hash, p_addr = addr, p_sdp = sdp\<rparr>"
proof -
  let ?h = "if ann then 0x20 else 0x24 :: u8"
  let ?ct = "map byte_of_char content_type" and ?s = "map byte_of_char sdp"
  have pkt: "pkt = [?h, 0] @ bytes_of_u16 hash @ bytes_of_u32 addr @ ?ct @ ?s"
    using assms by (auto simp: sap_send_def split: if_splits)
  have len: "length pkt = 24 + length sdp"
    using sap_send_len[OF assms] by simp
  have rest: "take (length pkt - 8) (drop 8 (pkt @ junk)) = ?ct @ ?s"
    "take 8 (pkt @ junk) = [?h, 0] @ bytes_of_u16 hash @ bytes_of_u32 addr"
    by (simp_all add: pkt bytes_of_u16_def bytes_of_u32_def)
  have low: "sap_lowered (pkt @ junk) (length pkt) = pkt @ junk"
    unfolding sap_lowered_def rest using len by (simp add: max_def pkt[symmetric]) (simp add: pkt)
  have f2: "take 2 (drop 2 (pkt @ junk)) = bytes_of_u16 hash"
    and f4: "take 4 (drop 4 (pkt @ junk)) = bytes_of_u32 addr"
    and f8: "take 16 (drop 8 (pkt @ junk)) = ?ct"
    and f24: "take (length sdp) (drop 24 (pkt @ junk)) = ?s"
    and f0: "(pkt @ junk) ! 0 = ?h"
    by (simp_all add: pkt bytes_of_u16_def bytes_of_u32_def)
  show ?thesis
    unfolding sap_receive_def low f2 f4 f8 f0 Let_def
    using f24 by (simp add: len sap_header_len_def comp_def)
qed

text \<open>C14: what one daemon announces or deletes another one receives: whenever \<open>send\<close>
  produces a datagram, \<open>receive\<close> on it (followed by anything in the buffer) returns the same
  kind, hash, network-order address and SDP text, byte for byte.\<close>

theorem sap_roundtrip:
  assumes "sap_send ann hash addr sdp = Some pkt"
  shows "sap_receive (pkt @ junk) (length pkt) =
    Sap_packet \<lparr>p_is_announce = ann, p_msg_id_hash = hash, p_addr = addr, p_sdp = sdp\<rparr>"
  using assms by (rule sap_recv_sent)

theorem sap_roundtrip_witness:
  "\<exists>pkt. sap_send True 0xABCD 0x1100A8C0 ''v=0'' = Some pkt \<and>
     sap_receive (pkt @ [7, 7]) (length pkt) =
       Sap_packet \<lparr>p_is_announce = True, p_msg_id_hash = 0xABCD, p_addr = 0x1100A8C0, p_sdp = ''v=0''\<rparr>"
proof -
  obtain pkt where "sap_send True 0xABCD 0x1100A8C0 ''v=0'' = Some pkt"
    by (simp add: sap_send_def sap_consts)
  then show ?thesis using sap_roundtrip by blast
qed

text \<open>\<open>receive\<close> never takes a packet whose first byte is not that of a SAPv2, IPv4,
  plain announcement or deletion, whose content type is not \<open>application/sdp\<close> up to case, or
  which is 4 bytes or shorter; whatever it takes is at least a header long.\<close>

theorem sap_receive_only:
  assumes "sap_receive buffer len = Sap_packet p"
  shows "buffer ! 0 = (if p_is_announce p then 0x20 else 0x24) \<and> sap_header_len \<le> len \<and>
    take 16 (drop 8 (sap_lowered buffer len)) = map byte_of_char content_type \<and>
    length (p_sdp p) \<le> len - sap_header_len"
  using assms by (auto simp: sap_receive_def Let_def split: if_splits)

theorem sap_receive_only_witness:
  "\<exists>pkt. sap_send False 1 2 [] = Some pkt \<and> pkt ! 0 = 0x24"
proof -
  obtain pkt where p: "sap_send False 1 2 [] = Some pkt"
    by (simp add: sap_send_def sap_consts)
  from sap_receive_only[OF sap_recv_sent[OF p, of "[]"]] show ?thesis
    using p sap_send_len[OF p] by (cases pkt) auto
qed

text \<open>A packet of 23 bytes or fewer is taken into the undefined branch when the stale bytes
  behind it complete the content type.\<close>

lemma sap_receive_short:
  "sap_receive ([0x20, 0, 1, 2, 3, 4, 5, 6] @ map byte_of_char content_type) 5 = Sap_undefined"
  by (simp add: sap_receive_def sap_lowered_def Let_def sap_header_len_def)

end
