(* ===== verification/Inet.thy ===== *)
theory Inet
  imports Sap
begin

text \<open>
  IPv4 addresses as text.  The daemon uses asio's \<open>address_v4\<close> for this, which is not part of
  the repository, so the components take the two conversions as parameters; the pair below
  instantiates them with the standard dotted decimal notation and has the property the
  components rely on.
\<close>

definition dotted :: "u32 \<Rightarrow> string" where
  "dotted a = join_with ''.'' (map (\<lambda>b. show_nat (unat b)) (rev (bytes_of_u32 a)))"

definition undotted :: "string \<Rightarrow> u32 option" where
  "undotted s =
     (let fs = split_on (\<lambda>c. c = CHR ''.'') s
      in if length fs = 4 \<and> list_all (\<lambda>f. f \<noteq> [] \<and> list_all is_digit f \<and> nat_of_digits f < 256) fs
         then Some (u32_of_bytes (map (\<lambda>f. word_of_nat (nat_of_digits f)) (rev fs)))
         else None)"

lemma length_bytes_of_u32 [simp]: "length (bytes_of_u32 a) = 4"
  by (simp add: bytes_of_u32_def)

lemma unat_u8_less [simp]: "unat (b :: u8) < 256"
  using unsigned_less[of b] by simp

lemma dotted_fields: "split_on (\<lambda>c. c = CHR ''.'') (dotted a) = map (\<lambda>b. show_nat (unat b)) (rev (bytes_of_u32 a))"
  unfolding dotted_def
  by (rule split_on_join) (auto simp: bytes_of_u32_def dest!: show_nat_digits digit_not_special(9))

lemma undotted_dotted [simp]: "undotted (dotted a) = Some a"
proof -
  have "map ((\<lambda>f. word_of_nat (nat_of_digits f)) \<circ> (\<lambda>b. show_nat (unat b))) (bytes_of_u32 a) = bytes_of_u32 a"
    by (rule map_idI) simp
  then show ?thesis
    by (auto simp: undotted_def dotted_fields Let_def rev_map list_all_iff dest!: show_nat_digits)
qed

lemma set_join_with: "set (join_with sep ts) \<subseteq> set sep \<union> \<Union> (set ` set ts)"
  by (induction sep ts rule: join_with.induct) auto

lemma dotted_chars: "c \<in> set (dotted a) \<Longrightarrow> is_digit c \<or> c = CHR ''.''"
  unfolding dotted_def using set_join_with by (fastforce dest: show_nat_digits)

lemma dotted_not_Nil [simp]: "dotted a \<noteq> []"
  by (simp add: dotted_def bytes_of_u32_def)

lemma length_join_with: "length (join_with sep ts) \<le> sum_list (map length ts) + length ts * length sep"
  by (induction sep ts rule: join_with.induct) auto

lemma length_dotted: "length (dotted a) \<le> 19"
proof -
  have l: "length (show_nat (unat b)) \<le> 3" for b :: u8
    using length_show_nat[of "unat b" 2] unat_u8_less[of b] by simp
  have "sum_list (map length (map (\<lambda>b. show_nat (unat b)) bs)) \<le> length bs * 3" for bs :: "u8 list"
    by (induction bs) (use l in \<open>auto intro: add_mono\<close>)
  from this[of "rev (bytes_of_u32 a)"]
  length_join_with[of "''.''" "map (\<lambda>b. show_nat (unat b)) (rev (bytes_of_u32 a))"]
  show ?thesis
    by (simp add: dotted_def)
qed

end
