(* ===== verification/Sdp.thy ===== *)
theory Sdp
  imports Streams Fp Inet
begin

text \<open>
  \<open>SessionManager::get_source_sdp_\<close>, \<open>get_removed_source_sdp_\<close> and \<open>parse_sdp\<close>.  The record
  \<open>sdp_env\<close> collects what they read from the configuration, the driver and the PTP status;
  \<open>ntoa\<close> and \<open>aton\<close> are asio's \<open>address_v4::to_string\<close> and \<open>make_address(...).to_v4()\<close>
  (\<^const>\<open>None\<close>: it throws).
\<close>

record sdp_env =
  e_ntoa :: "u32 \<Rightarrow> string"
  e_aton :: "string \<Rightarrow> u32 option"
  e_codec_cap :: nat
  e_name_cap :: nat
  e_sample_rate :: u32
  e_sec_ip_str :: string
  e_node_id :: string
  e_ip_addr_str :: string
  e_ptp_domain :: u8
  e_ptp_gmid :: string


subsection \<open>Writing\<close>

definition show_u :: "'a::len word \<Rightarrow> string" where
  "show_u w = show_nat (unat w)"

definition conn_line :: "sdp_env \<Rightarrow> rtp_stream_info \<Rightarrow> string" where
  "conn_line e s = ''c=IN IP4 '' @ e_ntoa e (m_ui32DestIP s) @
     (if in_multicast (m_ui32DestIP s) then ''/'' @ show_u (m_byTTL s) else [])"

definition refclk_line :: "sdp_env \<Rightarrow> stream_info \<Rightarrow> string" where
  "refclk_line e info = ''a=ts-refclk:ptp=IEEE1588-2008:'' @
     (if si_refclk_ptp_traceable info then ''traceable''
      else e_ptp_gmid e @ '':'' @ show_u (e_ptp_domain e))"

text \<open>The lines from \<open>m=audio\<close> to \<open>a=ts-refclk\<close> of one leg; \<open>src\<close> is the address that
  closes the source filter and \<open>ptime\<close> the packet time of the first leg.\<close>

definition media_lines ::
  "sdp_env \<Rightarrow> stream_info \<Rightarrow> string \<Rightarrow> string \<Rightarrow> rtp_stream_info \<Rightarrow> string list" where
  "media_lines e info src ptime s =
     [''m=audio '' @ show_u (m_usDestPort s) @ '' RTP/AVP '' @ show_u (m_byPayloadType s),
      conn_line e s,
      ''a=source-filter: incl IN IP4 '' @ e_ntoa e (m_ui32DestIP s) @ '' '' @ src,
      ''a=rtpmap:'' @ show_u (m_byPayloadType s) @ '' '' @ m_cCodec s @ ''/'' @
        show_u (e_sample_rate e) @ ''/'' @ show_u (m_byNbOfChannels s),
      ''a=sync-time:0'',
      ''a=framecount:'' @ show_u (m_ui32MaxSamplesPerPacket s),
      ''a=ptime:'' @ ptime,
      ''a=mediaclk:direct=0'',
      ''a=clock-domain:PTPv2 '' @ show_u (e_ptp_domain e),
      refclk_line e info]"

definition dup_entry :: "sdp_env \<Rightarrow> stream_info \<Rightarrow> bool" where
  "dup_entry e info \<longleftrightarrow> si_st20227_enabled info \<and> e_sec_ip_str e \<noteq> []"

definition source_sdp_lines :: "sdp_env \<Rightarrow> stream_info \<Rightarrow> string list" where
  "source_sdp_lines e info =
     (let ptime = ptime_text (unat (m_ui32MaxSamplesPerPacket (leg info 0))) (unat (e_sample_rate e))
      in [''v=0'',
          ''o=- '' @ show_u (si_session_id info) @ '' '' @ show_u (si_session_version info) @
            '' IN IP4 '' @ e_ntoa e (m_ui32SrcIP (leg info 0)),
          ''s='' @ e_node_id e @ '' '' @ m_cName (leg info 0),
          ''t=0 0''] @
         (if dup_entry e info then [''a=group:DUP 1 2''] else []) @
         media_lines e info (e_ip_addr_str e) ptime (leg info 0) @
         [''a=recvonly''] @
         (if dup_entry e info
          then [''a=mid:1''] @ media_lines e info (e_sec_ip_str e) ptime (leg info 1) @ [''a=mid:2'']
          else []))"

definition unlines :: "string list \<Rightarrow> string" where
  "unlines ls = concat (map (\<lambda>l. l @ [newline]) ls)"

definition get_source_sdp_text :: "sdp_env \<Rightarrow> stream_info \<Rightarrow> string" where
  "get_source_sdp_text e info = unlines (source_sdp_lines e info)"

definition get_removed_source_sdp :: "sdp_env \<Rightarrow> u32 \<Rightarrow> u32 \<Rightarrow> u32 \<Rightarrow> string" where
  "get_removed_source_sdp e src_addr session_id session_version =
     ''o=- '' @ show_u session_id @ '' '' @ show_u session_version @ '' IN IP4 '' @
     e_ntoa e src_addr @ [newline]"


subsection \<open>Reading\<close>

text \<open>The parser's local variables.  A line is refused (the function returns false, also when
  a conversion throws), or converted outside the range of its integer type, which C++
  leaves undefined, or the scan goes on.\<close>

datatype sdp_parser_status = Init | Time | Media

record sdp_parser =
  sp_info :: stream_info
  sp_status :: sdp_parser_status
  sp_mid :: int
  sp_dup :: bool

datatype sdp_step = Refuse | Undefined | Next sdp_parser

definition on_leg :: "(rtp_stream_info \<Rightarrow> rtp_stream_info) \<Rightarrow> sdp_parser \<Rightarrow> sdp_parser" where
  "on_leg f p = p\<lparr>sp_info := upd_leg (nat (sp_mid p)) f (sp_info p)\<rparr>"

abbreviation cur_leg :: "sdp_parser \<Rightarrow> rtp_stream_info" where
  "cur_leg p \<equiv> leg (sp_info p) (nat (sp_mid p))"

definition sdp_origin_line :: "string \<Rightarrow> sdp_parser \<Rightarrow> sdp_step" where
  "sdp_origin_line val p =
     (let fs = split_on (\<lambda>c. c = CHR '' '') val
      in if length fs < 6 then Next p
         else case stoull (fs ! 2) of
           None \<Rightarrow> Refuse
         | Some v \<Rightarrow> Next (p\<lparr>sp_info := (sp_info p)\<lparr>si_origin :=
             \<lparr>o_username = fs ! 0, o_session_id = fs ! 1, o_session_version = v,
              o_network_type = fs ! 3, o_address_type = fs ! 4, o_unicast_address = fs ! 5\<rparr>\<rparr>\<rparr>))"

definition sdp_session_attr :: "string \<Rightarrow> string \<Rightarrow> sdp_parser \<Rightarrow> sdp_step" where
  "sdp_session_attr name v p =
     (if name = ''group'' then Next (if take 3 v = ''DUP'' then p\<lparr>sp_dup := True\<rparr> else p)
      else if name = ''clock-domain'' then (if take 5 v \<noteq> ''PTPv2'' then Refuse else Next p)
      else Next p)"

definition sdp_rtpmap :: "sdp_env \<Rightarrow> string \<Rightarrow> sdp_parser \<Rightarrow> sdp_step" where
  "sdp_rtpmap e v p =
     (let fs = split_on (\<lambda>c. c = CHR '' '' \<or> c = CHR ''/'') v
      in if length fs < 4 then Refuse
         else case stoi (fs ! 0) of
           None \<Rightarrow> Refuse
         | Some pt \<Rightarrow>
             if int (unat (m_byPayloadType (cur_leg p))) \<noteq> pt then Next p
             else (case stoull (fs ! 2) of
                 None \<Rightarrow> Refuse
               | Some rate \<Rightarrow> (case stoi (fs ! 3) of
                     None \<Rightarrow> Refuse
                   | Some _ \<Rightarrow> Next (on_leg (\<lambda>s. s\<lparr>m_cCodec := strncpy (e_codec_cap e) (fs ! 1),
                         m_byWordLength := get_codec_word_length (fs ! 1),
                         m_ui32SamplingRate := ucast rate\<rparr>) p))))"

definition sdp_ptime :: "string \<Rightarrow> sdp_parser \<Rightarrow> sdp_step" where
  "sdp_ptime v p =
     (case stod v of
        None \<Rightarrow> Refuse
      | Some (neg, x) \<Rightarrow>
          (let n = dbl_trunc (ptime_product (unat (m_ui32SamplingRate (cur_leg p))) x)
           in if (neg \<and> n \<noteq> 0) \<or> 2 ^ 32 \<le> n then Undefined
              else Next (on_leg (\<lambda>s. s\<lparr>m_ui32MaxSamplesPerPacket := word_of_nat n\<rparr>) p)))"

definition sdp_timestamp_offset :: "string \<Rightarrow> sdp_parser \<Rightarrow> sdp_step" where
  "sdp_timestamp_offset v p =
     (case stoull v of
        None \<Rightarrow> Refuse
      | Some x \<Rightarrow> Next (on_leg (\<lambda>s. s\<lparr>m_ui32RTPTimestampOffset := ucast x\<rparr>) p))"

definition sdp_mediaclk :: "string \<Rightarrow> sdp_parser \<Rightarrow> sdp_step" where
  "sdp_mediaclk v p =
     (let fs = split_on (\<lambda>c. c = CHR ''='') v
      in if length fs = 2 \<and> fs ! 0 = ''direct'' then sdp_timestamp_offset (fs ! 1) p else Next p)"

definition sdp_refclk :: "sdp_env \<Rightarrow> string \<Rightarrow> sdp_parser \<Rightarrow> sdp_step" where
  "sdp_refclk e v p =
     (let fs = split_on (\<lambda>c. c = CHR '':'') v
      in if length fs \<noteq> 3 then Next p
         else if fs ! 1 \<noteq> e_ptp_gmid e then Refuse
         else case stoi (fs ! 2) of
           None \<Rightarrow> Refuse
         | Some d \<Rightarrow> if d \<noteq> int (unat (e_ptp_domain e)) then Refuse else Next p)"

definition sdp_media_attr :: "sdp_env \<Rightarrow> string \<Rightarrow> string \<Rightarrow> sdp_parser \<Rightarrow> sdp_step" where
  "sdp_media_attr e name v p =
     (if name = ''rtpmap'' then sdp_rtpmap e v p
      else if name = ''sync-time'' then sdp_timestamp_offset v p
      else if name = ''framecount'' then Next p
      else if name = ''ptime'' then sdp_ptime v p
      else if name = ''mediaclk'' then sdp_mediaclk v p
      else if name = ''ts-refclk'' \<and> \<not> si_ignore_refclk_gmid (sp_info p) then sdp_refclk e v p
      else Next p)"

definition sdp_attr_line :: "sdp_env \<Rightarrow> string \<Rightarrow> sdp_parser \<Rightarrow> sdp_step" where
  "sdp_attr_line e val p =
     (case find_first_of '':'' val of
        None \<Rightarrow> Next p
      | Some pos \<Rightarrow>
          (let name = take pos val; v = drop (pos + 1) val
           in case sp_status p of
                Media \<Rightarrow> sdp_media_attr e name v p
              | _ \<Rightarrow> sdp_session_attr name v p))"

definition sdp_media_line :: "string \<Rightarrow> sdp_parser \<Rightarrow> sdp_step" where
  "sdp_media_line val p =
     (let fs = split_on (\<lambda>c. c = CHR '' '') val
      in if length fs < 4 then Refuse
         else if fs ! 0 \<noteq> ''audio'' then Next p
         else (let p = p\<lparr>sp_mid := sp_mid p + 1\<rparr>
               in if sp_mid p < int media_max
                  then (case (stoi (fs ! 1), stoi (fs ! 3)) of
                      (Some port, Some pt) \<Rightarrow>
                        Next (on_leg (\<lambda>s. s\<lparr>m_usDestPort := word_of_int port,
                                           m_byPayloadType := word_of_int pt\<rparr>) p\<lparr>sp_status := Media\<rparr>)
                    | _ \<Rightarrow> Refuse)
                  else Next p))"

definition sdp_set_dest :: "u32 \<Rightarrow> u8 \<Rightarrow> rtp_stream_info \<Rightarrow> rtp_stream_info" where
  "sdp_set_dest ip ttl s = s\<lparr>m_ui32DestIP := ip, m_byTTL := ttl\<rparr>"

definition sdp_conn_line :: "sdp_env \<Rightarrow> string \<Rightarrow> sdp_parser \<Rightarrow> sdp_step" where
  "sdp_conn_line e val p =
     (if sp_status p = Time then Next p
      else (let fs = split_on (\<lambda>c. c = CHR '' '' \<or> c = CHR ''/'') val
            in if length fs < 3 then Refuse
               else if fs ! 0 \<noteq> ''IN'' \<or> fs ! 1 \<noteq> ''IP4'' then Refuse
               else case e_aton e (fs ! 2) of
                 None \<Rightarrow> Refuse
               | Some ip \<Rightarrow>
                   if ip = 0xFFFFFFFF then Refuse
                   else (case (if 3 < length fs then stoi (fs ! 3) else Some 64) of
                       None \<Rightarrow> Refuse
                     | Some t \<Rightarrow>
                         if sp_status p = Init
                         then Next (p\<lparr>sp_info := upd_leg 1 (sdp_set_dest ip (word_of_int t))
                                (upd_leg 0 (sdp_set_dest ip (word_of_int t)) (sp_info p))\<rparr>)
                         else Next (on_leg (sdp_set_dest ip (word_of_int t)) p))))"

text \<open>One line; it has been trimmed.  A line without a second character is refused: the code
  compares whatever byte is there with \<open>=\<close>.\<close>

definition sdp_line :: "sdp_env \<Rightarrow> string \<Rightarrow> sdp_parser \<Rightarrow> sdp_step" where
  "sdp_line e line p =
     (if \<not> (2 \<le> length line \<and> line ! 1 = CHR ''='') then Refuse
      else (let c = line ! 0; val = drop 2 line
            in if c = CHR ''v'' then (if val \<noteq> ''0'' then Refuse else Next p)
               else if c = CHR ''o'' then sdp_origin_line val p
               else if c = CHR ''t'' then Next (p\<lparr>sp_status := Time\<rparr>)
               else if c = CHR ''a'' then sdp_attr_line e val p
               else if c = CHR ''m'' then sdp_media_line val p
               else if c = CHR ''c'' then sdp_conn_line e val p
               else if (of_char c :: nat) < 97 \<or> 122 < (of_char c :: nat) then Refuse
               else Next p))"

fun sdp_lines :: "sdp_env \<Rightarrow> string list \<Rightarrow> sdp_parser \<Rightarrow> sdp_step" where
  "sdp_lines e [] p = Next p"
| "sdp_lines e (l # ls) p =
     (if int media_max \<le> sp_mid p then Next p
      else case sdp_line e (trim l) p of
        Refuse \<Rightarrow> Refuse
      | Undefined \<Rightarrow> Undefined
      | Next p' \<Rightarrow> sdp_lines e ls p')"

datatype sdp_result = Sdp_refused | Sdp_undefined | Sdp_parsed stream_info

definition parse_sdp :: "sdp_env \<Rightarrow> string \<Rightarrow> stream_info \<Rightarrow> sdp_result" where
  "parse_sdp e sdp info =
     (case sdp_lines e (getlines sdp) \<lparr>sp_info = info, sp_status = Init, sp_mid = -1, sp_dup = False\<rparr> of
        Refuse \<Rightarrow> Sdp_refused
      | Undefined \<Rightarrow> Sdp_undefined
      | Next p \<Rightarrow> Sdp_parsed (if sp_dup p \<and> 0 < sp_mid p
                               then (sp_info p)\<lparr>si_st20227_enabled := True\<rparr> else sp_info p))"

subsection \<open>Index safety\<close>

text \<open>The states of the parser between lines.\<close>

inductive sdp_scan :: "sdp_env \<Rightarrow> sdp_parser \<Rightarrow> sdp_parser \<Rightarrow> bool" for e where
  scan_start: "sdp_scan e p p"
| scan_line: "sdp_scan e p q \<Longrightarrow> sp_mid q < int media_max \<Longrightarrow> sdp_line e l q = Next r \<Longrightarrow> sdp_scan e p r"

definition sdp_start :: "stream_info \<Rightarrow> sdp_parser" where
  "sdp_start info = \<lparr>sp_info = info, sp_status = Init, sp_mid = -1, sp_dup = False\<rparr>"

definition sdp_inv :: "sdp_parser \<Rightarrow> bool" where
  "sdp_inv p \<longleftrightarrow> -1 \<le> sp_mid p \<and> sp_mid p \<le> int media_max \<and> (sp_status p = Media \<longrightarrow> 0 \<le> sp_mid p)"

lemma on_leg_fields [simp]:
  "sp_status (on_leg f p) = sp_status p" "sp_mid (on_leg f p) = sp_mid p"
  "sp_dup (on_leg f p) = sp_dup p" "length (si_stream (sp_info (on_leg f p))) = length (si_stream (sp_info p))"
  by (simp_all add: on_leg_def)

lemmas sdp_line_defs = sdp_line_def sdp_origin_line_def sdp_attr_line_def sdp_media_line_def
  sdp_conn_line_def sdp_session_attr_def sdp_media_attr_def sdp_rtpmap_def sdp_ptime_def
  sdp_timestamp_offset_def sdp_mediaclk_def sdp_refclk_def

text \<open>What the handlers of single lines leave alone.\<close>

definition same_pos :: "sdp_parser \<Rightarrow> sdp_parser \<Rightarrow> bool" where
  "same_pos p q \<longleftrightarrow> sp_status q = sp_status p \<and> sp_mid q = sp_mid p \<and>
     length (si_stream (sp_info q)) = length (si_stream (sp_info p))"

lemma same_pos_simps [simp]: "same_pos p p" "same_pos p (on_leg f p)"
  "same_pos p (p\<lparr>sp_dup := d\<rparr>)" "same_pos p (p\<lparr>sp_info := (sp_info p)\<lparr>si_origin := og\<rparr>\<rparr>)"
  "same_pos p (p\<lparr>sp_info := upd_leg i f (upd_leg j g (sp_info p))\<rparr>)"
  by (simp_all add: same_pos_def)

lemma attr_same_pos: "sdp_attr_line e v p = Next q \<Longrightarrow> same_pos p q"
proof -
  have a: "sdp_timestamp_offset u p = Next q \<Longrightarrow> same_pos p q"
    "sdp_ptime u p = Next q \<Longrightarrow> same_pos p q" "sdp_rtpmap e u p = Next q \<Longrightarrow> same_pos p q"
    "sdp_refclk e u p = Next q \<Longrightarrow> same_pos p q" for u
    by (auto simp: sdp_timestamp_offset_def sdp_ptime_def sdp_rtpmap_def sdp_refclk_def Let_def
        split: option.splits if_splits prod.splits)
  have b: "sdp_mediaclk u p = Next q \<Longrightarrow> same_pos p q" for u
    using a(1) by (auto simp: sdp_mediaclk_def Let_def split: if_splits)
  have "sdp_session_attr n u p = Next q \<Longrightarrow> same_pos p q"
    "sdp_media_attr e n u p = Next q \<Longrightarrow> same_pos p q" for n u
    using a b by (auto simp: sdp_session_attr_def sdp_media_attr_def split: if_splits)
  then show "sdp_attr_line e v p = Next q \<Longrightarrow> same_pos p q"
    by (auto simp: sdp_attr_line_def Let_def split: option.splits sdp_parser_status.splits)
qed

lemma conn_same_pos: "sdp_conn_line e v p = Next q \<Longrightarrow> same_pos p q"
  by (auto simp: sdp_conn_line_def Let_def split: option.splits if_splits)

lemma origin_same_pos: "sdp_origin_line v p = Next q \<Longrightarrow> same_pos p q"
  by (auto simp: sdp_origin_line_def Let_def split: option.splits if_splits)

lemma media_line_pos:
  "sdp_media_line v p = Next q \<Longrightarrow> length (si_stream (sp_info q)) = length (si_stream (sp_info p)) \<and>
   (same_pos p q \<or> sp_mid q = sp_mid p + 1 \<and>
      (sp_status q = Media \<and> sp_mid q < int media_max \<or> sp_status q = sp_status p))"
  by (auto simp: sdp_media_line_def Let_def split: option.splits if_splits)

lemma sdp_line_inv:
  assumes "sdp_line e l p = Next q" "sdp_inv p" "sp_mid p < int media_max"
  shows "sdp_inv q \<and> length (si_stream (sp_info q)) = length (si_stream (sp_info p))"
proof -
  have "same_pos p q \<or> q = p\<lparr>sp_status := Time\<rparr> \<or> sdp_media_line (drop 2 l) p = Next q"
    using assms(1) attr_same_pos conn_same_pos origin_same_pos
    by (auto simp: sdp_line_def Let_def split: if_splits)
  then show ?thesis
    using assms(2,3) media_line_pos[of "drop 2 l" p q] by (auto simp: sdp_inv_def same_pos_def)
qed

text \<open>Whatever text it is given, the parser never indexes the two-element array of media
  descriptions out of bounds: between lines, whenever media attributes or a connection
  would be written to the current description, its index is 0 or 1.\<close>

theorem sdp_index_in_bounds:
  assumes "sdp_scan e (sdp_start info) p" and "length (si_stream info) = media_max"
  shows "-1 \<le> sp_mid p \<and> sp_mid p \<le> 2 \<and> length (si_stream (sp_info p)) = 2 \<and>
    (sp_status p = Media \<and> sp_mid p < int media_max \<longrightarrow> sp_mid p \<in> {0, 1})"
proof -
  from assms(1) have "sdp_inv p \<and> length (si_stream (sp_info p)) = media_max"
  proof (induction "sdp_start info" p rule: sdp_scan.induct)
    case scan_start
    show ?case using assms(2) by (simp add: sdp_inv_def sdp_start_def media_max_def)
  next
    case (scan_line q l r)
    with sdp_line_inv[OF scan_line.hyps(4)] show ?case by simp
  qed
  then show ?thesis by (auto simp: sdp_inv_def media_max_def)
qed

lemma sdp_lines_inv:
  "sdp_lines e ls p = Next q \<Longrightarrow> sdp_inv p \<Longrightarrow>
   sdp_inv q \<and> length (si_stream (sp_info q)) = length (si_stream (sp_info p))"
proof (induction ls arbitrary: p)
  case (Cons l ls)
  show ?case
  proof (cases "int media_max \<le> sp_mid p")
    case False
    with Cons.prems obtain r where r: "sdp_line e (trim l) p = Next r" "sdp_lines e ls r = Next q"
      by (auto split: sdp_step.splits)
    with sdp_line_inv[OF r(1)] Cons False show ?thesis by force
  qed (use Cons.prems in simp)
qed simp

subsection \<open>The round trip\<close>

text \<open>Fields separated by single characters.\<close>

lemma split_sp [simp]:
  "CHR '' '' \<notin> set t \<Longrightarrow> split_on (\<lambda>c. c = CHR '' '') (t @ CHR '' '' # r) = t # split_on (\<lambda>c. c = CHR '' '') r"
  by (rule split_on_append) auto

lemma split_sp_last [simp]: "CHR '' '' \<notin> set t \<Longrightarrow> split_on (\<lambda>c. c = CHR '' '') t = [t]"
  by (rule split_on_no_sep) auto

lemma split_spsl [simp]:
  "CHR '' '' \<notin> set t \<Longrightarrow> CHR ''/'' \<notin> set t \<Longrightarrow> c = CHR '' '' \<or> c = CHR ''/'' \<Longrightarrow>
   split_on (\<lambda>c. c = CHR '' '' \<or> c = CHR ''/'') (t @ c # r) =
     t # split_on (\<lambda>c. c = CHR '' '' \<or> c = CHR ''/'') r"
  by (rule split_on_append) auto

lemma split_spsl_last [simp]:
  "CHR '' '' \<notin> set t \<Longrightarrow> CHR ''/'' \<notin> set t \<Longrightarrow>
   split_on (\<lambda>c. c = CHR '' '' \<or> c = CHR ''/'') t = [t]"
  by (rule split_on_no_sep) auto

lemma split_colon [simp]:
  "CHR '':'' \<notin> set t \<Longrightarrow> split_on (\<lambda>c. c = CHR '':'') (t @ CHR '':'' # r) = t # split_on (\<lambda>c. c = CHR '':'') r"
  by (rule split_on_append) auto

lemma split_colon_last [simp]: "CHR '':'' \<notin> set t \<Longrightarrow> split_on (\<lambda>c. c = CHR '':'') t = [t]"
  by (rule split_on_no_sep) auto

lemma show_u_digits: "c \<in> set (show_u w) \<Longrightarrow> is_digit c"
  by (auto simp: show_u_def dest: show_nat_digits)

lemma not_digit_show_u: "\<not> is_digit c \<Longrightarrow> c \<notin> set (show_u w)"
  using show_u_digits by blast

lemma show_u_clean [simp]:
  "CHR '' '' \<notin> set (show_u w)" "CHR ''/'' \<notin> set (show_u w)" "CHR '':'' \<notin> set (show_u w)"
  "newline \<notin> set (show_u w)" "show_u w \<noteq> []"
  by (simp_all add: not_digit_show_u is_digit_def) (simp add: show_u_def)

lemma not_space_lits [simp]:
  "\<not> is_space (CHR ''v'')" "\<not> is_space (CHR ''o'')" "\<not> is_space (CHR ''s'')"
  "\<not> is_space (CHR ''t'')" "\<not> is_space (CHR ''a'')" "\<not> is_space (CHR ''m'')"
  "\<not> is_space (CHR ''c'')" "\<not> is_space (CHR ''='')" "\<not> is_space (CHR ''0'')"
  "\<not> is_space (CHR ''1'')" "\<not> is_space (CHR ''2'')" "\<not> is_space (CHR ''y'')" "\<not> is_space (CHR '':'')"
  "\<not> is_space (CHR ''e'')"
  by (simp_all add: is_space_def)

lemma show_u_last [simp]: "\<not> is_space (last (show_u w))"
  by (rule digit_not_special(1)[OF show_u_digits[of _ w]]) simp

lemma stoi_show_u [simp]:
  fixes w :: "'a::len word"
  assumes "LENGTH('a) \<le> 31"
  shows "stoi (show_u w) = Some (int (unat w))"
proof -
  have "unat w < 2 ^ LENGTH('a)" by simp
  also have "\<dots> \<le> 2 ^ 31" using assms by (rule power_increasing) simp
  finally show ?thesis using stoi_show_nat[of "unat w" "[]"] by (simp add: show_u_def)
qed

lemma stoull_show_u [simp]: "stoull (show_u (w :: u32)) = Some (ucast w)"
proof -
  have "unat w < 2 ^ LENGTH(32)" by (rule unsigned_less)
  then have "unat w < 2 ^ 64" by simp
  then show ?thesis using stoull_show_nat[of "unat w" "[]"] by (simp add: show_u_def unsigned_of_nat)
qed

lemma stoull_zero [simp]: "stoull ''0'' = Some 0"
  by (simp add: stoull_def strto_def nat_of_digits_def digit_val_def is_digit_def is_space_def Let_def)

text \<open>Trimming a line keeps its first two characters when they are not white space, and the
  whole line when its last one is not either.\<close>

lemma trim_keep [simp]: "\<not> is_space a \<Longrightarrow> \<not> is_space (last (a # r)) \<Longrightarrow> trim (a # r) = a # r"
  by (rule trim_no_space) simp

lemma trim_prefix:
  assumes "\<not> is_space (hd (xs @ [b]))" "\<not> is_space b"
  shows "\<exists>r'. trim (xs @ b # r) = xs @ b # r'"
proof -
  have "\<exists>r'. rev (dropWhile is_space (rev r @ b # rev xs)) = xs @ b # r'"
  proof (induction r rule: rev_induct)
    case (snoc x r)
    have "\<exists>r'. r @ [x] = r'" by simp
    with snoc assms show ?case by auto
  qed (use assms in simp)
  moreover have "trim_left (xs @ b # r) = xs @ b # r"
    using assms(1) by (cases xs) (auto simp: trim_left_def)
  ultimately show ?thesis by (simp add: trim_def)
qed

text \<open>What the round trip needs of the text that goes into an SDP file: addresses print to
  clean text that parses back, names carry no line break, the codec no separator.\<close>

definition clean_addr :: "sdp_env \<Rightarrow> u32 \<Rightarrow> bool" where
  "clean_addr e a \<longleftrightarrow> e_aton e (e_ntoa e a) = Some a \<and> e_ntoa e a \<noteq> [] \<and>
     (\<forall>c \<in> set (e_ntoa e a). is_digit c \<or> c = CHR ''.'')"

definition clean_leg :: "sdp_env \<Rightarrow> rtp_stream_info \<Rightarrow> bool" where
  "clean_leg e s \<longleftrightarrow> clean_addr e (m_ui32DestIP s) \<and> m_ui32DestIP s \<noteq> 0xFFFFFFFF \<and>
     (\<forall>c \<in> set (m_cCodec s). c \<noteq> CHR '' '' \<and> c \<noteq> CHR ''/'' \<and> c \<noteq> newline)"

lemma clean_addr_chars [simp]:
  assumes "clean_addr e a"
  shows "CHR '' '' \<notin> set (e_ntoa e a)" "CHR ''/'' \<notin> set (e_ntoa e a)"
    "newline \<notin> set (e_ntoa e a)" "e_ntoa e a \<noteq> []" "e_aton e (e_ntoa e a) = Some a"
    "\<not> is_space (last (e_ntoa e a))"
proof -
  have c: "\<forall>c \<in> set (e_ntoa e a). is_digit c \<or> c = CHR ''.''" and n: "e_ntoa e a \<noteq> []"
    using assms by (simp_all add: clean_addr_def)
  show "CHR '' '' \<notin> set (e_ntoa e a)" "CHR ''/'' \<notin> set (e_ntoa e a)" "newline \<notin> set (e_ntoa e a)"
    using c by (auto dest!: bspec simp: is_digit_def)
  show "e_ntoa e a \<noteq> []" "e_aton e (e_ntoa e a) = Some a"
    using assms by (simp_all add: clean_addr_def)
  have "is_digit (last (e_ntoa e a)) \<or> last (e_ntoa e a) = CHR ''.''"
    using c last_in_set[OF n] by blast
  then show "\<not> is_space (last (e_ntoa e a))"
    using digit_not_special(1) by (auto simp: is_space_def)
qed

text \<open>The effect of each line that \<open>get_source_sdp_\<close> writes.\<close>

lemma line_v: "sdp_line e (trim ''v=0'') p = Next p"
  by (simp add: sdp_line_def)

lemma line_t: "sdp_line e (trim ''t=0 0'') p = Next (p\<lparr>sp_status := Time\<rparr>)"
  by (simp add: sdp_line_def)

lemma line_s: "sdp_line e (trim (''s='' @ r)) p = Next p"
proof -
  obtain r' where "trim (CHR ''s'' # CHR ''='' # r) = CHR ''s'' # CHR ''='' # r'"
    using trim_prefix[of "''s''" "CHR ''=''" r] by auto
  then show ?thesis by (simp add: sdp_line_def)
qed

lemma line_o:
  assumes "clean_addr e a"
  shows "sdp_line e (trim (''o=- '' @ show_u (i :: u32) @ '' '' @ show_u (v :: u32) @ '' IN IP4 '' @ e_ntoa e a)) p =
    Next (p\<lparr>sp_info := (sp_info p)\<lparr>si_origin :=
      \<lparr>o_username = ''-'', o_session_id = show_u i, o_session_version = ucast v,
       o_network_type = ''IN'', o_address_type = ''IP4'', o_unicast_address = e_ntoa e a\<rparr>\<rparr>\<rparr>)"
  using assms by (simp add: sdp_line_def sdp_origin_line_def Let_def)

lemma line_m:
  assumes "sp_mid p + 1 < int media_max"
  shows "sdp_line e (trim (''m=audio '' @ show_u (port :: u16) @ '' RTP/AVP '' @ show_u (pt :: u8))) p =
    Next (on_leg (\<lambda>s. s\<lparr>m_usDestPort := port, m_byPayloadType := pt\<rparr>)
      (p\<lparr>sp_mid := sp_mid p + 1\<rparr>)\<lparr>sp_status := Media\<rparr>)"
  using assms by (simp add: sdp_line_def sdp_media_line_def Let_def)

lemma line_c:
  assumes "clean_leg e s" "sp_status p = Media"
  shows "sdp_line e (trim (conn_line e s)) p =
    Next (on_leg (sdp_set_dest (m_ui32DestIP s)
            (if in_multicast (m_ui32DestIP s) then m_byTTL s else 64)) p)"
  using assms
  by (simp add: sdp_line_def sdp_conn_line_def conn_line_def Let_def clean_leg_def)

lemma line_filter:
  assumes "sp_status p = Media"
  shows "sdp_line e (trim (''a=source-filter: incl IN IP4 '' @ r)) p = Next p"
proof -
  obtain r' where "trim (''a=source-filter'' @ CHR '':'' # '' incl IN IP4 '' @ r) = ''a=source-filter'' @ CHR '':'' # r'"
    using trim_prefix[of "''a=source-filter''" "CHR '':''" "'' incl IN IP4 '' @ r"] by auto
  then show ?thesis
    using assms by (simp add: sdp_line_def sdp_attr_line_def sdp_media_attr_def Let_def)
qed

lemma sdp_attr_media:
  assumes "CHR '':'' \<notin> set name" "\<not> is_space (last (CHR '':'' # v))" "sp_status p = Media"
  shows "sdp_line e (trim (''a='' @ name @ CHR '':'' # v)) p = sdp_media_attr e name v p"
proof -
  have t: "trim (''a='' @ name @ CHR '':'' # v) = ''a='' @ name @ CHR '':'' # v"
    using assms(2) by simp
  have "find_first_of '':'' (name @ CHR '':'' # v) = Some (length name)"
    using assms(1) by (intro find_first_of_append) auto
  then show ?thesis
    using assms(3) unfolding t by (simp add: sdp_line_def sdp_attr_line_def Let_def)
qed

lemma ucast_u64_u32 [simp]: "ucast (ucast (r :: u32) :: u64) = r"
  by (rule bit_word_eqI) (auto simp: bit_simps)

lemma digit_or_dot_not_space: "is_digit c \<or> c = CHR ''.'' \<Longrightarrow> \<not> is_space c"
  using digit_not_special(1) by (auto simp: is_space_def)

lemma line_rtpmap:
  assumes "clean_leg e s" "sp_status p = Media" "m_byPayloadType (cur_leg p) = m_byPayloadType s"
  shows "sdp_line e (trim (''a=rtpmap:'' @ show_u (m_byPayloadType s) @ '' '' @ m_cCodec s @ ''/'' @
      show_u (rate :: u32) @ ''/'' @ show_u (ch :: u8))) p =
    Next (on_leg (\<lambda>t. t\<lparr>m_cCodec := strncpy (e_codec_cap e) (m_cCodec s),
      m_byWordLength := get_codec_word_length (m_cCodec s), m_ui32SamplingRate := rate\<rparr>) p)"
proof -
  have c: "CHR '' '' \<notin> set (m_cCodec s)" "CHR ''/'' \<notin> set (m_cCodec s)"
    using assms(1) by (auto simp: clean_leg_def)
  show ?thesis
    using sdp_attr_media[of "''rtpmap''" "show_u (m_byPayloadType s) @ '' '' @ m_cCodec s @ ''/'' @
        show_u rate @ ''/'' @ show_u ch" p e] assms(2,3) c
    by (simp add: sdp_media_attr_def sdp_rtpmap_def Let_def)
qed

lemma line_sync: "sp_status p = Media \<Longrightarrow>
  sdp_line e (trim ''a=sync-time:0'') p = Next (on_leg (\<lambda>s. s\<lparr>m_ui32RTPTimestampOffset := 0\<rparr>) p)"
  using sdp_attr_media[of "''sync-time''" "''0''" p e]
  by (simp add: sdp_media_attr_def sdp_timestamp_offset_def)

lemma line_framecount: "sp_status p = Media \<Longrightarrow>
  sdp_line e (trim (''a=framecount:'' @ show_u (n :: u32))) p = Next p"
  using sdp_attr_media[of "''framecount''" "show_u n" p e] by (simp add: sdp_media_attr_def)

lemma line_ptime:
  assumes "sp_status p = Media" "ptime_samples (unat (m_ui32SamplingRate (cur_leg p))) v = Some n"
    "n < 2 ^ 32" "\<forall>c \<in> set v. is_digit c \<or> c = CHR ''.''"
  shows "sdp_line e (trim (''a=ptime:'' @ v)) p =
    Next (on_leg (\<lambda>s. s\<lparr>m_ui32MaxSamplesPerPacket := word_of_nat n\<rparr>) p)"
proof -
  have "\<not> is_space (last (CHR '':'' # v))"
    using assms(4) digit_or_dot_not_space last_in_set[of v] by (cases "v = []") auto
  moreover obtain x where "stod v = Some (False, x)"
    "dbl_trunc (ptime_product (unat (m_ui32SamplingRate (cur_leg p))) x) = n"
    using assms(2) by (auto simp: ptime_samples_def split: option.splits prod.splits if_splits)
  ultimately show ?thesis
    using sdp_attr_media[of "''ptime''" v p e] assms(1,3)
    by (simp add: sdp_media_attr_def sdp_ptime_def Let_def)
qed

lemma line_mediaclk: "sp_status p = Media \<Longrightarrow>
  sdp_line e (trim ''a=mediaclk:direct=0'') p = Next (on_leg (\<lambda>s. s\<lparr>m_ui32RTPTimestampOffset := 0\<rparr>) p)"
  using sdp_attr_media[of "''mediaclk''" "''direct=0''" p e]
  by (simp add: sdp_media_attr_def sdp_mediaclk_def sdp_timestamp_offset_def Let_def)

lemma line_domain: "sp_status p = Media \<Longrightarrow>
  sdp_line e (trim (''a=clock-domain:PTPv2 '' @ show_u (d :: u8))) p = Next p"
  using sdp_attr_media[of "''clock-domain''" "''PTPv2 '' @ show_u d" p e]
  by (simp add: sdp_media_attr_def)

lemma line_refclk:
  assumes "sp_status p = Media" "CHR '':'' \<notin> set (e_ptp_gmid e)"
  shows "sdp_line e (trim (refclk_line e info)) p = Next p"
proof (cases "si_refclk_ptp_traceable info")
  case True
  then show ?thesis
    using sdp_attr_media[of "''ts-refclk''" "''ptp=IEEE1588-2008:traceable''" p e] assms
    by (simp add: sdp_media_attr_def refclk_line_def sdp_refclk_def Let_def)
next
  case False
  then show ?thesis
    using sdp_attr_media[of "''ts-refclk''" "''ptp=IEEE1588-2008:'' @ e_ptp_gmid e @ '':'' @ show_u (e_ptp_domain e)" p e] assms
    by (simp add: sdp_media_attr_def refclk_line_def sdp_refclk_def Let_def)
qed

lemma line_recvonly: "sdp_line e (trim ''a=recvonly'') p = Next p"
  by (simp add: sdp_line_def sdp_attr_line_def)

lemma line_mid: "sp_status p = Media \<Longrightarrow> c = CHR ''1'' \<or> c = CHR ''2'' \<Longrightarrow>
  sdp_line e (trim (''a=mid:'' @ [c])) p = Next p"
  using sdp_attr_media[of "''mid''" "[c]" p e] by (auto simp: sdp_media_attr_def)

lemma line_dup: "sp_status p = Time \<Longrightarrow>
  sdp_line e (trim ''a=group:DUP 1 2'') p = Next (p\<lparr>sp_dup := True\<rparr>)"
  by (simp add: sdp_line_def sdp_attr_line_def sdp_session_attr_def Let_def)

lemma sdp_lines_append:
  "sdp_lines e (xs @ ys) p = (case sdp_lines e xs p of Next q \<Rightarrow> sdp_lines e ys q | r \<Rightarrow> r)"
proof (induction xs arbitrary: p)
  case (Cons x xs)
  show ?case
    using Cons by (cases ys) (auto split: sdp_step.splits)
qed simp

lemma sdp_lines_one: "sp_mid p < int media_max \<Longrightarrow> sdp_line e (trim l) p = Next q \<Longrightarrow> sdp_lines e ls q = r \<Longrightarrow>
  sdp_lines e (l # ls) p = r"
  by simp

text \<open>What the receiver's description of a leg becomes.\<close>

definition received_leg :: "sdp_env \<Rightarrow> rtp_stream_info \<Rightarrow> nat \<Rightarrow> rtp_stream_info \<Rightarrow> rtp_stream_info" where
  "received_leg e s n t =
     t\<lparr>m_usDestPort := m_usDestPort s, m_byPayloadType := m_byPayloadType s,
       m_ui32DestIP := m_ui32DestIP s,
       m_byTTL := (if in_multicast (m_ui32DestIP s) then m_byTTL s else 64),
       m_cCodec := strncpy (e_codec_cap e) (m_cCodec s),
       m_byWordLength := get_codec_word_length (m_cCodec s),
       m_ui32SamplingRate := e_sample_rate e,
       m_ui32MaxSamplesPerPacket := word_of_nat n,
       m_ui32RTPTimestampOffset := 0\<rparr>"

definition in_range :: "sdp_parser \<Rightarrow> bool" where
  "in_range p \<longleftrightarrow> 0 \<le> sp_mid p \<and> sp_mid p < int media_max \<and> sp_status p = Media \<and>
     length (si_stream (sp_info p)) = media_max"

lemma in_range_on_leg [simp]: "in_range (on_leg f p) = in_range p"
  by (simp add: in_range_def)

lemma cur_leg_on_leg [simp]: "in_range p \<Longrightarrow> leg (sp_info (on_leg f p)) (nat (sp_mid p)) = f (cur_leg p)"
  by (simp add: in_range_def on_leg_def nat_less_iff)

lemma on_leg_on_leg [simp]: "in_range p \<Longrightarrow> on_leg f (on_leg g p) = on_leg (\<lambda>s. f (g s)) p"
  by (simp add: in_range_def on_leg_def upd_leg_def nat_less_iff)

lemma media_block:
  assumes s: "clean_leg e s" and p: "length (si_stream (sp_info p)) = media_max"
      "-1 \<le> sp_mid p" "sp_mid p + 1 < int media_max"
    and pt: "ptime_samples (unat (e_sample_rate e)) pt = Some n" "n < 2 ^ 32"
      "\<forall>c \<in> set pt. is_digit c \<or> c = CHR ''.''"
    and g: "CHR '':'' \<notin> set (e_ptp_gmid e)"
  shows "sdp_lines e (media_lines e info src pt s) p =
    Next (on_leg (received_leg e s n) (p\<lparr>sp_status := Media, sp_mid := sp_mid p + 1\<rparr>))"
proof -
  define q where "q = p\<lparr>sp_status := Media, sp_mid := sp_mid p + 1\<rparr>"
  have q: "in_range q" using p by (simp add: q_def in_range_def)
  then have st: "sp_status q = Media" "sp_mid q < int media_max"
    by (simp_all add: in_range_def)
  have m: "sdp_line e (trim (''m=audio '' @ show_u (m_usDestPort s) @ '' RTP/AVP '' @ show_u (m_byPayloadType s))) p
    = Next (on_leg (\<lambda>t. t\<lparr>m_usDestPort := m_usDestPort s, m_byPayloadType := m_byPayloadType s\<rparr>) q)"
    using line_m[OF p(3)] by (simp add: q_def on_leg_def)
  note step = sdp_lines_one
  show ?thesis
    unfolding media_lines_def
    apply (rule step[OF _ m], use p in simp)
    apply (rule step[OF _ line_c[OF s]], use st in simp, use st in simp)
    apply (rule step[OF _ line_filter], use st in simp, use st in simp)
    apply (rule step[OF _ line_rtpmap[OF s]], use st in simp, use st in simp, use q in simp)
      apply (simp add: sdp_set_dest_def)
    apply (rule step[OF _ line_sync], use st in simp, use st in simp)
    apply (rule step[OF _ line_framecount], use st in simp, use st in simp)
    apply (rule step[OF _ line_ptime], use st in simp, use st in simp, use q pt in simp, rule pt, rule pt)
    apply (rule step[OF _ line_mediaclk], use st in simp, use st in simp)
    apply (rule step[OF _ line_domain], use st in simp, use st in simp)
    apply (rule step[OF _ line_refclk[OF _ g]], use st in simp, use st in simp)
    apply (simp add: q q_def[symmetric] sdp_set_dest_def received_leg_def[abs_def])
    done
qed

lemma getlines_unlines: "\<forall>l \<in> set ls. newline \<notin> set l \<Longrightarrow> getlines (unlines ls) = ls"
  unfolding unlines_def by (rule getlines_concat)

text \<open>What the round trip needs of a source and its environment: clean text, and a packet
  time that reads back as the packet size.\<close>

definition clean_source :: "sdp_env \<Rightarrow> stream_info \<Rightarrow> nat \<Rightarrow> bool" where
  "clean_source e info n \<longleftrightarrow>
     clean_leg e (leg info 0) \<and> clean_leg e (leg info 1) \<and> clean_addr e (m_ui32SrcIP (leg info 0)) \<and>
     newline \<notin> set (e_node_id e) \<and> newline \<notin> set (m_cName (leg info 0)) \<and>
     newline \<notin> set (e_ip_addr_str e) \<and> newline \<notin> set (e_sec_ip_str e) \<and>
     newline \<notin> set (e_ptp_gmid e) \<and> CHR '':'' \<notin> set (e_ptp_gmid e) \<and> n < 2 ^ 32 \<and>
     ptime_samples (unat (e_sample_rate e))
       (ptime_text (unat (m_ui32MaxSamplesPerPacket (leg info 0))) (unat (e_sample_rate e))) = Some n"

definition source_origin :: "sdp_env \<Rightarrow> stream_info \<Rightarrow> sdp_origin" where
  "source_origin e info =
     \<lparr>o_username = ''-'', o_session_id = show_u (si_session_id info),
      o_session_version = ucast (si_session_version info), o_network_type = ''IN'',
      o_address_type = ''IP4'', o_unicast_address = e_ntoa e (m_ui32SrcIP (leg info 0))\<rparr>"

lemma media_lines_newline:
  assumes "clean_leg e s" "newline \<notin> set src" "\<forall>c \<in> set pt. is_digit c \<or> c = CHR ''.''"
    "newline \<notin> set (e_ptp_gmid e)" "l \<in> set (media_lines e info src pt s)"
  shows "newline \<notin> set l"
proof -
  have "newline \<notin> set pt" using assms(3) by (auto simp: is_digit_def dest!: bspec)
  moreover have "newline \<notin> set (m_cCodec s)" "newline \<notin> set (e_ntoa e (m_ui32DestIP s))"
    using assms(1) by (auto simp: clean_leg_def)
  ultimately show ?thesis
    using assms(2,4,5) unfolding media_lines_def
    by (auto simp: conn_line_def refclk_line_def split: if_splits)
qed

lemma source_sdp_lines_newline:
  assumes "clean_source e info n" "l \<in> set (source_sdp_lines e info)"
  shows "newline \<notin> set l"
proof -
  have pt: "\<forall>c \<in> set (ptime_text a b). is_digit c \<or> c = CHR ''.''" for a b
    using ptime_text_chars by blast
  have o: "newline \<notin> set (e_ntoa e (m_ui32SrcIP (leg info 0)))"
    using assms(1) by (simp add: clean_source_def)
  have m: "newline \<notin> set l" if "l \<in> set (media_lines e info src (ptime_text a b) (leg info i))"
    "src = e_ip_addr_str e \<or> src = e_sec_ip_str e" "i = 0 \<or> i = 1" for src a b i
    by (rule media_lines_newline[OF _ _ pt _ that(1)])
      (use assms(1) that(2,3) in \<open>auto simp: clean_source_def\<close>)
  show ?thesis
    using assms m o unfolding source_sdp_lines_def Let_def
    by (auto simp: clean_source_def split: if_splits)
qed

lemma sdp_parse_generated:
  assumes src: "clean_source e info n" and snk: "length (si_stream sink) = 2"
    "\<not> si_st20227_enabled sink"
  shows "parse_sdp e (get_source_sdp_text e info) sink = Sdp_parsed
    ((if dup_entry e info
      then upd_leg 1 (received_leg e (leg info 1) n) (upd_leg 0 (received_leg e (leg info 0) n) sink)
      else upd_leg 0 (received_leg e (leg info 0) n) sink)
     \<lparr>si_origin := source_origin e info, si_st20227_enabled := dup_entry e info\<rparr>)"
proof -
  let ?pt = "ptime_text (unat (m_ui32MaxSamplesPerPacket (leg info 0))) (unat (e_sample_rate e))"
  have pt: "\<forall>c \<in> set ?pt. is_digit c \<or> c = CHR ''.''" using ptime_text_chars by blast
  note c = src[unfolded clean_source_def]
  let ?p0 = "\<lparr>sp_info = sink, sp_status = Init, sp_mid = -1, sp_dup = False\<rparr>"
  define p1 where "p1 = \<lparr>sp_info = sink\<lparr>si_origin := source_origin e info\<rparr>, sp_status = Time,
    sp_mid = -1, sp_dup = dup_entry e info\<rparr>"
  have lines: "getlines (get_source_sdp_text e info) = source_sdp_lines e info"
    unfolding get_source_sdp_text_def
    using getlines_unlines source_sdp_lines_newline[OF src] by blast
  have o: "clean_addr e (m_ui32SrcIP (leg info 0))" using c by blast
  have head: "sdp_lines e [''v=0'',
        ''o=- '' @ show_u (si_session_id info) @ '' '' @ show_u (si_session_version info) @
          '' IN IP4 '' @ e_ntoa e (m_ui32SrcIP (leg info 0)),
        ''s='' @ e_node_id e @ '' '' @ m_cName (leg info 0), ''t=0 0''] ?p0 = Next (p1\<lparr>sp_dup := False\<rparr>)"
    apply (rule sdp_lines_one[OF _ line_v], simp add: media_max_def)
    apply (rule sdp_lines_one[OF _ line_o[OF o]], simp add: media_max_def)
    apply (rule sdp_lines_one[OF _ line_s], simp add: media_max_def)
    apply (rule sdp_lines_one[OF _ line_t], simp add: media_max_def)
    apply (simp add: p1_def source_origin_def)
    done
  have dup: "sdp_lines e (if dup_entry e info then [''a=group:DUP 1 2''] else []) (p1\<lparr>sp_dup := False\<rparr>)
      = Next p1"
  proof (cases "dup_entry e info")
    case True
    show ?thesis
      unfolding if_P[OF True]
      by (rule sdp_lines_one[OF _ line_dup]) (simp_all add: p1_def True media_max_def)
  qed (simp add: p1_def)
  have m1: "sdp_lines e (media_lines e info (e_ip_addr_str e) ?pt (leg info 0)) p1 =
      Next (on_leg (received_leg e (leg info 0) n) (p1\<lparr>sp_status := Media, sp_mid := 0\<rparr>))" (is "_ = Next ?p2")
    using media_block[of e "leg info 0" p1 ?pt n info "e_ip_addr_str e"] c pt snk
    by (simp add: p1_def media_max_def)
  have recv: "sdp_lines e [''a=recvonly''] ?p2 = Next ?p2"
    by (rule sdp_lines_one[OF _ line_recvonly]) (simp_all add: media_max_def)
  define p3 where "p3 = on_leg (received_leg e (leg info 1) n) (?p2\<lparr>sp_status := Media, sp_mid := 1\<rparr>)"
  have m2: "sdp_lines e ([''a=mid:1''] @ media_lines e info (e_sec_ip_str e) ?pt (leg info 1) @ [''a=mid:2'']) ?p2
      = Next p3"
  proof -
    have a: "sdp_lines e [''a=mid:1''] ?p2 = Next ?p2"
      using line_mid[of ?p2 "CHR ''1''" e] by (simp add: media_max_def)
    have b: "sdp_lines e (media_lines e info (e_sec_ip_str e) ?pt (leg info 1)) ?p2 = Next p3"
      using media_block[of e "leg info 1" ?p2 ?pt n info "e_sec_ip_str e"] c pt snk
      by (simp add: p1_def p3_def media_max_def)
    have d: "sdp_lines e [''a=mid:2''] p3 = Next p3"
      using line_mid[of p3 "CHR ''2''" e] by (simp add: p3_def media_max_def)
    show ?thesis unfolding sdp_lines_append a b d sdp_step.case ..
  qed
  have last: "sdp_lines e (if dup_entry e info
        then [''a=mid:1''] @ media_lines e info (e_sec_ip_str e) ?pt (leg info 1) @ [''a=mid:2'']
        else []) ?p2 = Next (if dup_entry e info then p3 else ?p2)"
  proof (cases "dup_entry e info")
    case True
    show ?thesis unfolding if_P[OF True] by (rule m2)
  qed simp
  have all: "sdp_lines e (source_sdp_lines e info) ?p0 = Next (if dup_entry e info then p3 else ?p2)"
    unfolding source_sdp_lines_def Let_def sdp_lines_append head sdp_step.case dup m1 recv last ..
  show ?thesis
    unfolding parse_sdp_def lines all
    using snk by (simp add: p3_def p1_def on_leg_def upd_leg_def nth_list_update)
qed


text \<open>A concrete environment and source.\<close>

definition sample_env :: sdp_env where
  "sample_env = \<lparr>e_ntoa = dotted, e_aton = undotted, e_codec_cap = 9, e_name_cap = 63,
     e_sample_rate = 48000, e_sec_ip_str = ''10.0.1.1'', e_node_id = ''node'',
     e_ip_addr_str = ''10.0.0.1'', e_ptp_domain = 0, e_ptp_gmid = ''00-1D-C1''\<rparr>"

definition sample_leg :: rtp_stream_info where
  "sample_leg = zero_stream\<lparr>m_cName := ''src'', m_byPayloadType := 98, m_cCodec := ''L24'',
     m_byNbOfChannels := 2, m_ui32MaxSamplesPerPacket := 48, m_ui32DestIP := 0xEF010001,
     m_usDestPort := 5004, m_byTTL := 15\<rparr>"

definition sample_info :: stream_info where
  "sample_info = new_info\<lparr>si_stream := [sample_leg, sample_leg], si_st20227_enabled := True,
     si_session_id := 7, si_session_version := 8\<rparr>"

lemma clean_addr_sample [simp]: "clean_addr sample_env a"
  using dotted_chars by (auto simp: clean_addr_def sample_env_def)

lemma sample_clean: "clean_source sample_env sample_info 48"
proof -
  have "clean_leg sample_env sample_leg"
    by (simp add: clean_leg_def) (simp add: sample_leg_def)
  then show ?thesis
    by (simp add: clean_source_def sample_info_def)
      (simp add: sample_env_def sample_leg_def ptime_48k_48)
qed


theorem sdp_index_in_bounds_witness:
  "length (si_stream (sp_info (sdp_start new_info))) = 2"
  using sdp_index_in_bounds[OF scan_start[of sample_env], of new_info]
  by (simp add: new_info_def media_max_def)

end
