(* ===== verification/Errors.thy ===== *)
theory Errors
  imports Prelude
begin

text \<open>
  \<open>daemon/error_code.hpp\<close> and \<open>daemon/error_code.cpp\<close>.  A \<open>std::error_code\<close> is a
  number and a category; the daemon only makes the success value and the codes of
  its two categories, so the three constructors of \<open>error_code\<close> are all of them.
\<close>

datatype driver_errc =
    drv_unknown
  | drv_invalid_data_size
  | drv_invalid_value
  | drv_command_failed
  | drv_command_not_found
  | drv_unknown_command
  | drv_invalid_daemon_response
  | drv_invalid_daemon_response_size

datatype daemon_errc =
    invalid_stream_id
  | stream_id_in_use
  | stream_id_not_in_use
  | invalid_url
  | cannot_retrieve_sdp
  | cannot_parse_sdp
  | stream_name_in_use
  | cannot_retrieve_mac
  | streamer_invalid_ch
  | streamer_retry_later
  | streamer_not_running
  | send_invalid_size
  | send_u2k_failed
  | send_k2u_failed
  | receive_u2k_failed
  | receive_k2u_failed
  | invalid_driver_response

datatype error_code = no_error | driver_err driver_errc | daemon_err daemon_errc

text \<open>The enumerators' values.\<close>

fun driver_errc_val :: "driver_errc \<Rightarrow> int" where
  "driver_errc_val drv_unknown = 10"
| "driver_errc_val drv_invalid_data_size = 11"
| "driver_errc_val drv_invalid_value = 12"
| "driver_errc_val drv_command_failed = 13"
| "driver_errc_val drv_command_not_found = 14"
| "driver_errc_val drv_unknown_command = 15"
| "driver_errc_val drv_invalid_daemon_response = 16"
| "driver_errc_val drv_invalid_daemon_response_size = 17"

fun daemon_errc_val :: "daemon_errc \<Rightarrow> int" where
  "daemon_errc_val invalid_stream_id = 40"
| "daemon_errc_val stream_id_in_use = 41"
| "daemon_errc_val stream_id_not_in_use = 42"
| "daemon_errc_val invalid_url = 43"
| "daemon_errc_val cannot_retrieve_sdp = 44"
| "daemon_errc_val cannot_parse_sdp = 45"
| "daemon_errc_val stream_name_in_use = 46"
| "daemon_errc_val cannot_retrieve_mac = 47"
| "daemon_errc_val streamer_invalid_ch = 48"
| "daemon_errc_val streamer_retry_later = 49"
| "daemon_errc_val streamer_not_running = 50"
| "daemon_errc_val send_invalid_size = 60"
| "daemon_errc_val send_u2k_failed = 61"
| "daemon_errc_val send_k2u_failed = 62"
| "daemon_errc_val receive_u2k_failed = 63"
| "daemon_errc_val receive_k2u_failed = 64"
| "daemon_errc_val invalid_driver_response = 65"

text \<open>\<open>DriverErrCategory::message\<close> and \<open>DaemonErrCategory::message\<close> on the values of
  their enumerations.\<close>

fun driver_message :: "driver_errc \<Rightarrow> string" where
  "driver_message drv_unknown = ''unhandled error code''"
| "driver_message drv_invalid_data_size = ''invalid data size''"
| "driver_message drv_invalid_value = ''invalid value specified''"
| "driver_message drv_command_failed = ''command failed''"
| "driver_message drv_command_not_found = ''command not found''"
| "driver_message drv_unknown_command = ''unknown command''"
| "driver_message drv_invalid_daemon_response = ''invalid daemon response''"
| "driver_message drv_invalid_daemon_response_size = ''invalid daemon response''"

fun daemon_message :: "daemon_errc \<Rightarrow> string" where
  "daemon_message invalid_stream_id = ''invalid stream id''"
| "daemon_message stream_id_in_use = ''stream id is in use''"
| "daemon_message stream_name_in_use = ''stream name is in use''"
| "daemon_message cannot_retrieve_mac = ''cannot retrieve MAC address for IP''"
| "daemon_message stream_id_not_in_use = ''stream not in use''"
| "daemon_message invalid_url = ''invalid URL''"
| "daemon_message cannot_retrieve_sdp = ''cannot retrieve SDP''"
| "daemon_message cannot_parse_sdp = ''cannot parse SDP''"
| "daemon_message send_invalid_size = ''send data size too big''"
| "daemon_message send_u2k_failed = ''failed to send command to driver''"
| "daemon_message send_k2u_failed = ''failed to send event response to driver''"
| "daemon_message receive_u2k_failed = ''failed to receive response from driver''"
| "daemon_message receive_k2u_failed = ''failed to receive event from driver''"
| "daemon_message invalid_driver_response = ''unexpected driver command response code''"
| "daemon_message streamer_invalid_ch = ''sink channel not captured''"
| "daemon_message streamer_retry_later = ''not enough samples buffered, retry later''"
| "daemon_message streamer_not_running = ''not running, check PTP lock''"

text \<open>\<open>get_driver_error\<close>.\<close>

definition get_driver_error :: "int \<Rightarrow> error_code" where
  "get_driver_error c =
     (if c = -302 then driver_err drv_invalid_daemon_response_size
      else if c = -303 then driver_err drv_invalid_daemon_response
      else if c = -314 then driver_err drv_unknown_command
      else if c = -315 then driver_err drv_invalid_data_size
      else if c = -401 then driver_err drv_command_failed
      else if c = -404 then driver_err drv_command_not_found
      else if c = -805 then driver_err drv_invalid_value
      else driver_err drv_unknown)"

text \<open>The two functions of an \<open>error_code\<close> the callers use: \<open>ret.value()\<close> and the test
  \<open>if (ret)\<close>.\<close>

fun errc_val :: "error_code \<Rightarrow> int" where
  "errc_val no_error = 0"
| "errc_val (driver_err e) = driver_errc_val e"
| "errc_val (daemon_err e) = daemon_errc_val e"

lemma driver_errc_val_range: "10 \<le> driver_errc_val e \<and> driver_errc_val e \<le> 17"
  by (cases e) auto

lemma daemon_errc_val_range: "40 \<le> daemon_errc_val e \<and> daemon_errc_val e \<le> 65"
  by (cases e) auto

lemma errc_val_zero_iff: "errc_val e = 0 \<longleftrightarrow> e = no_error"
proof (cases e)
  case (driver_err x)
  then show ?thesis using driver_errc_val_range[of x] by auto
next
  case (daemon_err x)
  then show ?thesis using daemon_errc_val_range[of x] by auto
qed simp

end
