(* ===== verification/Driver.thy ===== *)
theory Driver
  imports Errors Streams
begin

text \<open>
  \<open>daemon/fake_driver_manager.cpp\<close>, the driver manager the daemon is built and tested with
  when there is no kernel module, and the contract between the session manager and any
  driver manager: which stream handles are open after \<open>add_rtp_stream\<close> and
  \<open>remove_rtp_stream\<close>.
\<close>

record fake_driver =
  fd_handles :: "u16 set"
  fd_next :: u16
  fd_sample_rate :: u32
  fd_frame_size :: u64
  fd_max_frame_size :: u64
  fd_delay :: u32

definition fake_driver_init :: "u32 \<Rightarrow> fake_driver" where
  "fake_driver_init rate = \<lparr>fd_handles = {}, fd_next = 0, fd_sample_rate = rate,
     fd_frame_size = 0, fd_max_frame_size = 0, fd_delay = 0\<rparr>"

text \<open>\<open>stream_handle = ++g_handle\<close>: the counter is a \<open>uint16_t\<close> and wraps.\<close>

definition fake_add_rtp_stream ::
  "rtp_stream_info \<Rightarrow> fake_driver \<Rightarrow> error_code \<times> u64 \<times> fake_driver" where
  "fake_add_rtp_stream si d =
     (let h = fd_next d + 1
      in (no_error, ucast h, d\<lparr>fd_next := h, fd_handles := insert h (fd_handles d)\<rparr>))"

text \<open>The handle is looked up in a set of \<open>uint16_t\<close>.\<close>

definition fake_remove_rtp_stream :: "u64 \<Rightarrow> fake_driver \<Rightarrow> error_code \<times> fake_driver" where
  "fake_remove_rtp_stream h d =
     (if ucast h \<in> fd_handles d
      then (no_error, d\<lparr>fd_handles := fd_handles d - {ucast h}\<rparr>)
      else (driver_err drv_invalid_value, d))"

definition fake_get_rtp_stream_status :: "u64 \<Rightarrow> fake_driver \<Rightarrow> error_code \<times> u32 \<times> int" where
  "fake_get_rtp_stream_status h d =
     (if ucast h \<in> fd_handles d then (no_error, 0x110, 0) else (driver_err drv_invalid_value, 0, 0))"

definition fake_set_sample_rate :: "u32 \<Rightarrow> fake_driver \<Rightarrow> error_code \<times> fake_driver" where
  "fake_set_sample_rate r d = (no_error, d\<lparr>fd_sample_rate := r\<rparr>)"

definition fake_set_tic_frame_size_at_1fs :: "u64 \<Rightarrow> fake_driver \<Rightarrow> error_code \<times> fake_driver" where
  "fake_set_tic_frame_size_at_1fs n d = (no_error, d\<lparr>fd_frame_size := n\<rparr>)"

definition fake_set_max_tic_frame_size :: "u64 \<Rightarrow> fake_driver \<Rightarrow> error_code \<times> fake_driver" where
  "fake_set_max_tic_frame_size n d = (no_error, d\<lparr>fd_max_frame_size := n\<rparr>)"

definition fake_set_playout_delay :: "u32 \<Rightarrow> fake_driver \<Rightarrow> error_code \<times> fake_driver" where
  "fake_set_playout_delay n d = (no_error, d\<lparr>fd_delay := n\<rparr>)"

definition fake_open :: "fake_driver \<Rightarrow> u64 set" where
  "fake_open d = ucast ` fd_handles d"

text \<open>Handles are fresh until the counter has gone round once: \<open>n\<close> more can be given out.\<close>

definition fake_room :: "nat \<Rightarrow> fake_driver \<Rightarrow> bool" where
  "fake_room n d \<longleftrightarrow> (\<forall>h \<in> fd_handles d. h \<le> fd_next d) \<and> unat (fd_next d) + n < 2 ^ 16 \<and>
     finite (fd_handles d)"


subsection \<open>The contract\<close>

text \<open>What the session manager may assume of a driver manager.  \<open>room n\<close> says that the next
  \<open>n\<close> handles it gives out are ones that are not open.\<close>

locale rtp_driver =
  fixes add_rtp :: "rtp_stream_info \<Rightarrow> 'd \<Rightarrow> error_code \<times> u64 \<times> 'd"
    and rm_rtp :: "u64 \<Rightarrow> 'd \<Rightarrow> error_code \<times> 'd"
    and open_handles :: "'d \<Rightarrow> u64 set"
    and room :: "nat \<Rightarrow> 'd \<Rightarrow> bool"
  assumes add_done: "add_rtp si d = (no_error, h, d') \<Longrightarrow> room (Suc n) d \<Longrightarrow>
      h \<notin> open_handles d \<and> open_handles d' = insert h (open_handles d)"
    and add_failed: "add_rtp si d = (e, h, d') \<Longrightarrow> e \<noteq> no_error \<Longrightarrow> open_handles d' = open_handles d"
    and rm_done: "rm_rtp h d = (no_error, d') \<Longrightarrow> h \<in> open_handles d \<Longrightarrow>
      open_handles d' = open_handles d - {h}"
    and rm_failed: "rm_rtp h d = (e, d') \<Longrightarrow> e \<noteq> no_error \<Longrightarrow> open_handles d' = open_handles d"
    and room_add: "add_rtp si d = (e, h, d') \<Longrightarrow> room (Suc n) d \<Longrightarrow> room n d'"
    and room_rm: "rm_rtp h d = (e, d') \<Longrightarrow> room n d \<Longrightarrow> room n d'"
    and room_finite: "room n d \<Longrightarrow> finite (open_handles d)"

text \<open>A driver whose removals of open handles do not fail, as the callers that ignore the
  result of \<open>remove_rtp_stream\<close> need it.\<close>

locale reliable_driver = rtp_driver +
  assumes rm_open: "h \<in> open_handles d \<Longrightarrow> fst (rm_rtp h d) = no_error"
begin

lemma rm_open_handle: "h \<in> open_handles d \<Longrightarrow> open_handles (snd (rm_rtp h d)) = open_handles d - {h}"
  using rm_open[of h d] rm_done[of h d "snd (rm_rtp h d)"] by (cases "rm_rtp h d") auto

lemma room_rm_snd: "room n d \<Longrightarrow> room n (snd (rm_rtp h d))"
  using room_rm[of h d _ "snd (rm_rtp h d)"] by (cases "rm_rtp h d") auto

lemma add_then_remove:
  assumes "add_rtp si d = (no_error, h, d')" "room (Suc n) d"
  shows "open_handles (snd (rm_rtp h d')) = open_handles d"
  using add_done[OF assms] rm_open_handle[of h d'] by auto

end

lemma ucast_u16_u64_back [simp]: "ucast (ucast (h :: u16) :: u64) = h"
  by (rule bit_word_eqI) (auto simp: bit_simps)

lemma u16_succ: "unat (w :: u16) + 1 < 2 ^ 16 \<Longrightarrow> unat (w + 1) = unat w + 1"
  by (simp add: unat_word_ariths)

lemma ucast_u16_u64_inj: "inj (ucast :: u16 \<Rightarrow> u64)"
proof (rule injI)
  fix a b :: u16
  assume "ucast a = (ucast b :: u64)"
  then have "ucast (ucast a :: u64) = (ucast (ucast b :: u64) :: u16)" by simp
  then show "a = b" by simp
qed

lemma fake_open_member: "ucast (h :: u16) \<in> fake_open d \<longleftrightarrow> h \<in> fd_handles d"
  using inj_image_mem_iff[OF ucast_u16_u64_inj] by (simp add: fake_open_def)

interpretation fake: reliable_driver fake_add_rtp_stream fake_remove_rtp_stream fake_open fake_room
proof (unfold_locales, goal_cases)
  case (1 si d h d' n)
  have "fd_next d < fd_next d + 1"
    using 1(2) by (simp add: fake_room_def word_less_nat_alt u16_succ)
  then have "fd_next d + 1 \<notin> fd_handles d"
    using 1(2) unfolding fake_room_def by (meson leD)
  with 1(1) show ?case
    by (auto simp: fake_add_rtp_stream_def Let_def fake_open_member) (auto simp: fake_open_def)
next
  case (2 si d e h d')
  then show ?case by (simp add: fake_add_rtp_stream_def Let_def)
next
  case (3 h d d')
  then obtain k where "k \<in> fd_handles d" "h = ucast k" by (auto simp: fake_open_def)
  with 3 show ?case
    by (auto simp: fake_remove_rtp_stream_def fake_open_def inj_eq[OF ucast_u16_u64_inj])
next
  case (4 h d e d')
  then show ?case by (auto simp: fake_remove_rtp_stream_def split: if_splits)
next
  case (5 si d e h d' n)
  have u: "unat (fd_next d + 1) = unat (fd_next d) + 1"
    using 5(2) by (intro u16_succ) (simp add: fake_room_def)
  have "h \<le> fd_next d + 1" if "h \<le> fd_next d" for h
    using that u by (simp add: word_le_nat_alt)
  with 5 u show ?case
    by (auto simp: fake_add_rtp_stream_def fake_room_def Let_def)
next
  case (6 h d e n)
  then show ?case by (auto simp: fake_remove_rtp_stream_def fake_room_def split: if_splits)
next
  case (7 n d)
  then show ?case by (simp add: fake_room_def fake_open_def)
next
  case (8 h d)
  then show ?case by (auto simp: fake_remove_rtp_stream_def fake_open_def)
qed

end
