(* ===== verification/Igmp.thy ===== *)
theory Igmp
  imports Prelude "HOL-Library.Multiset"
begin

text \<open>
  \<open>daemon/igmp.hpp\<close>: the reference counted group memberships the sinks share.  The state
  is the table \<open>mcast_ref\<close> and, as the effect of the two socket options, the memberships
  the kernel holds, pairs of interface and group address.  \<open>addr_of\<close> is asio's address
  parser (\<^const>\<open>None\<close>: it throws) and \<open>ok\<close> says whether \<open>set_option\<close> succeeds.
\<close>

record igmp =
  mcast_ref :: "u32 \<Rightarrow> int option"
  memberships :: "(u32 \<times> u32) set"

definition igmp_init :: igmp where
  "igmp_init = \<lparr>mcast_ref = Map.empty, memberships = {}\<rparr>"

text \<open>The critical section of \<open>IGMP::join\<close>, for the parsed group \<open>a\<close>; the interface address is
  parsed only when the option has to be set.  \<^const>\<open>None\<close> is an exception of the address
  parser.\<close>

definition igmp_join_locked :: "u32 option \<Rightarrow> bool \<Rightarrow> u32 \<Rightarrow> igmp \<Rightarrow> (bool \<times> igmp) option" where
  "igmp_join_locked ifaddr ok a st =
     (if \<exists>n \<in> set_option (mcast_ref st a). n > 0
      then Some (True, st\<lparr>mcast_ref := (mcast_ref st)(a \<mapsto> the (mcast_ref st a) + 1)\<rparr>)
      else (case ifaddr of None \<Rightarrow> None
        | Some i \<Rightarrow> if \<not> ok then Some (False, st)
            else Some (True, st\<lparr>mcast_ref := (mcast_ref st)(a \<mapsto> 1),
                               memberships := insert (i, a) (memberships st)\<rparr>)))"

definition igmp_join ::
  "(string \<Rightarrow> u32 option) \<Rightarrow> bool \<Rightarrow> string \<Rightarrow> string \<Rightarrow> igmp \<Rightarrow> (bool \<times> igmp) option" where
  "igmp_join addr_of ok interface_ip mcast_ip st =
     (if interface_ip = [] \<or> mcast_ip = [] then Some (False, st)
      else case addr_of mcast_ip of None \<Rightarrow> None
      | Some a \<Rightarrow> igmp_join_locked (addr_of interface_ip) ok a st)"

text \<open>\<open>IGMP::leave\<close>: the count goes down before the option is set, also when that fails.\<close>

definition igmp_leave_locked :: "u32 option \<Rightarrow> bool \<Rightarrow> u32 \<Rightarrow> igmp \<Rightarrow> (bool \<times> igmp) option" where
  "igmp_leave_locked ifaddr ok a st =
     (case mcast_ref st a of
        None \<Rightarrow> Some (False, st)
      | Some n \<Rightarrow>
          if n = 0 then Some (False, st)
          else (let st1 = st\<lparr>mcast_ref := (mcast_ref st)(a \<mapsto> n - 1)\<rparr>
                in if n - 1 > 0 then Some (True, st1)
                   else (case ifaddr of None \<Rightarrow> None
                     | Some i \<Rightarrow> if \<not> ok then Some (False, st1)
                         else Some (True, st1\<lparr>memberships := memberships st1 - {(i, a)}\<rparr>))))"

definition igmp_leave ::
  "(string \<Rightarrow> u32 option) \<Rightarrow> bool \<Rightarrow> string \<Rightarrow> string \<Rightarrow> igmp \<Rightarrow> (bool \<times> igmp) option" where
  "igmp_leave addr_of ok interface_ip mcast_ip st =
     (if interface_ip = [] \<or> mcast_ip = [] then Some (False, st)
      else case addr_of mcast_ip of None \<Rightarrow> None
      | Some a \<Rightarrow> igmp_leave_locked (addr_of interface_ip) ok a st)"

text \<open>The number of users of a group, and whether the host listens to it.\<close>

definition group_count :: "igmp \<Rightarrow> u32 \<Rightarrow> nat" where
  "group_count st a = (case mcast_ref st a of None \<Rightarrow> 0 | Some n \<Rightarrow> nat n)"

definition listening :: "u32 \<Rightarrow> igmp \<Rightarrow> u32 \<Rightarrow> bool" where
  "listening i st a \<longleftrightarrow> (i, a) \<in> memberships st"

text \<open>Invariants: counts are never negative, a used group is joined (whatever failed
  before); and, while no leave failed in the kernel, only used groups are joined.\<close>

definition counts_ok :: "igmp \<Rightarrow> bool" where
  "counts_ok st \<longleftrightarrow> (\<forall>a n. mcast_ref st a = Some n \<longrightarrow> 0 \<le> n)"

definition igmp_inv :: "u32 \<Rightarrow> igmp \<Rightarrow> bool" where
  "igmp_inv i st \<longleftrightarrow> counts_ok st \<and> (\<forall>a. 0 < group_count st a \<longrightarrow> listening i st a)"

definition igmp_exact :: "u32 \<Rightarrow> igmp \<Rightarrow> bool" where
  "igmp_exact i st \<longleftrightarrow> counts_ok st \<and> (\<forall>a. listening i st a \<longleftrightarrow> 0 < group_count st a)"

lemma igmp_init_inv [inv_intro]: "igmp_inv i igmp_init" "igmp_exact i igmp_init"
  by (auto simp: igmp_inv_def igmp_exact_def counts_ok_def group_count_def listening_def igmp_init_def)

lemma group_count_pos: "counts_ok st \<Longrightarrow> 0 < group_count st a \<longleftrightarrow> (\<exists>n > 0. mcast_ref st a = Some n)"
  by (auto simp: group_count_def split: option.splits)

text \<open>What the two operations do to the counts and to the kernel's memberships.\<close>

lemma igmp_join_effect:
  assumes "igmp_join_locked (Some i) ok a st = Some (r, st')" "counts_ok st"
  shows "counts_ok st' \<and>
    (if r then group_count st' = (group_count st)(a := group_count st a + 1) \<and>
               memberships st' = (if 0 < group_count st a then memberships st
                                  else insert (i, a) (memberships st))
     else st' = st)"
  using assms
  by (auto simp: igmp_join_locked_def counts_ok_def group_count_def fun_eq_iff nat_add_distrib
      split: if_splits option.splits)

lemma igmp_leave_effect:
  assumes "igmp_leave_locked (Some i) ok a st = Some (r, st')" "counts_ok st"
  shows "counts_ok st' \<and>
    (if group_count st a = 0 then st' = st \<and> \<not> r
     else group_count st' = (group_count st)(a := group_count st a - 1) \<and>
          memberships st' = (if group_count st a = 1 \<and> ok then memberships st - {(i, a)}
                             else memberships st))"
proof (cases "mcast_ref st a")
  case None
  with assms show ?thesis by (auto simp: igmp_leave_locked_def group_count_def)
next
  case (Some n)
  moreover have "0 \<le> n" using Some assms(2) by (auto simp: counts_ok_def)
  ultimately consider "n = 0" | "n = 1" | "1 < n" by linarith
  then show ?thesis
    using assms Some
    by cases (auto simp: igmp_leave_locked_def counts_ok_def group_count_def Let_def fun_eq_iff
        nat_diff_distrib split: if_splits)
qed

lemma igmp_join_keeps [inv_intro]:
  assumes "igmp_join_locked (Some i) ok a st = Some (r, st')"
  shows "igmp_inv i st \<Longrightarrow> igmp_inv i st'" "igmp_exact i st \<Longrightarrow> igmp_exact i st'"
  using igmp_join_effect[OF assms]
  by (auto simp: igmp_inv_def igmp_exact_def listening_def split: if_splits)

lemma igmp_leave_keeps [inv_intro]:
  assumes "igmp_leave_locked (Some i) ok a st = Some (r, st')"
  shows "igmp_inv i st \<Longrightarrow> igmp_inv i st'" "ok \<Longrightarrow> igmp_exact i st \<Longrightarrow> igmp_exact i st'"
  using igmp_leave_effect[OF assms]
  by (auto simp: igmp_inv_def igmp_exact_def listening_def split: if_splits)

lemma igmp_join_unparsed:
  "igmp_join addr_of ok ifs mc st = Some (r, st') \<Longrightarrow> addr_of ifs = Some i \<Longrightarrow>
   st' = st \<or> (\<exists>a. addr_of mc = Some a \<and> igmp_join_locked (Some i) ok a st = Some (r, st'))"
  by (auto simp: igmp_join_def split: if_splits option.splits)

lemma igmp_leave_unparsed:
  "igmp_leave addr_of ok ifs mc st = Some (r, st') \<Longrightarrow> addr_of ifs = Some i \<Longrightarrow>
   st' = st \<or> (\<exists>a. addr_of mc = Some a \<and> igmp_leave_locked (Some i) ok a st = Some (r, st'))"
  by (auto simp: igmp_leave_def split: if_splits option.splits)


subsection \<open>Shared memberships as an interface\<close>

text \<open>What a client of reference counted memberships may assume, whatever the provider: a
  count per group, the group being held exactly while the count is positive.\<close>

locale shared_membership =
  fixes join :: "'g \<Rightarrow> 's \<Rightarrow> 's"
    and leave :: "'g \<Rightarrow> 's \<Rightarrow> 's"
    and users :: "'s \<Rightarrow> 'g \<Rightarrow> nat"
    and held :: "'s \<Rightarrow> 'g \<Rightarrow> bool"
    and ok_state :: "'s \<Rightarrow> bool"
  assumes join_ok: "ok_state s \<Longrightarrow> ok_state (join g s)"
    and leave_ok: "ok_state s \<Longrightarrow> ok_state (leave g s)"
    and users_join: "ok_state s \<Longrightarrow> users (join g s) = (users s)(g := users s g + 1)"
    and users_leave: "ok_state s \<Longrightarrow> users (leave g s) = (users s)(g := users s g - 1)"
    and held_iff: "ok_state s \<Longrightarrow> held s g \<longleftrightarrow> 0 < users s g"
begin

lemma joins_users:
  "ok_state s \<Longrightarrow> ok_state (fold join gs s) \<and> users (fold join gs s) h = users s h + count_list gs h"
  by (induction gs arbitrary: s) (auto simp: join_ok users_join)

lemma leaves_users:
  "ok_state s \<Longrightarrow> ok_state (fold leave gs s) \<and> users (fold leave gs s) h = users s h - count_list gs h"
  by (induction gs arbitrary: s) (auto simp: leave_ok users_leave)

lemma held_after:
  assumes "ok_state s" "users s h = 0"
  shows "held (fold leave ls (fold join gs s)) h \<longleftrightarrow> count_list ls h < count_list gs h"
  using joins_users[OF assms(1), of gs h]
    leaves_users[of "fold join gs s" ls h] assms(2) held_iff by auto

lemma leave_join [simp]: "ok_state s \<Longrightarrow> users (leave g (join g s)) = users s"
  by (simp add: users_leave join_ok users_join)

end

text \<open>The provider: the daemon's table on one interface, the kernel accepting the options.\<close>

definition join_group :: "u32 \<Rightarrow> u32 \<Rightarrow> igmp \<Rightarrow> igmp" where
  "join_group i a st = (case igmp_join_locked (Some i) True a st of Some (_, st') \<Rightarrow> st' | None \<Rightarrow> st)"

definition leave_group :: "u32 \<Rightarrow> u32 \<Rightarrow> igmp \<Rightarrow> igmp" where
  "leave_group i a st = (case igmp_leave_locked (Some i) True a st of Some (_, st') \<Rightarrow> st' | None \<Rightarrow> st)"

lemma igmp_join_locked_ok: "\<exists>st'. igmp_join_locked (Some i) True a st = Some (True, st')"
  by (simp add: igmp_join_locked_def)

lemma igmp_leave_locked_ok: "\<exists>r st'. igmp_leave_locked (Some i) ok a st = Some (r, st')"
  by (auto simp: igmp_leave_locked_def Let_def split: option.splits)

interpretation igmp_table: shared_membership "join_group i" "leave_group i" group_count
    "listening i" "igmp_exact i" for i
proof (unfold_locales, goal_cases)
  case (1 s g)
  obtain st' where "igmp_join_locked (Some i) True g s = Some (True, st')"
    using igmp_join_locked_ok by blast
  with 1 show ?case by (auto simp: join_group_def intro: inv_intro)
next
  case (2 s g)
  obtain r st' where "igmp_leave_locked (Some i) True g s = Some (r, st')"
    using igmp_leave_locked_ok by blast
  with 2 show ?case by (auto simp: leave_group_def intro: inv_intro)
next
  case (3 s g)
  obtain st' where "igmp_join_locked (Some i) True g s = Some (True, st')"
    using igmp_join_locked_ok by blast
  from igmp_join_effect[OF this] this 3 show ?case by (simp add: join_group_def igmp_exact_def)
next
  case (4 s g)
  obtain r st' where "igmp_leave_locked (Some i) True g s = Some (r, st')"
    using igmp_leave_locked_ok by blast
  from igmp_leave_effect[OF this] this 4 show ?case
    by (auto simp: leave_group_def igmp_exact_def fun_eq_iff split: if_splits)
next
  case (5 s g)
  then show ?case by (simp add: igmp_exact_def)
qed


text \<open>Steps of the component: any call, with any outcome of the socket options.\<close>

inductive igmp_step :: "(string \<Rightarrow> u32 option) \<Rightarrow> string \<Rightarrow> igmp \<Rightarrow> igmp \<Rightarrow> bool"
  for addr_of ifs where
  step_join: "igmp_join addr_of ok ifs mc st = Some (r, st') \<Longrightarrow> igmp_step addr_of ifs st st'"
| step_leave: "igmp_leave addr_of ok ifs mc st = Some (r, st') \<Longrightarrow> igmp_step addr_of ifs st st'"

inductive_cases igmp_stepE: "igmp_step addr_of ifs st st'"

text \<open>Whatever sequence of joins and leaves was called and whichever socket options
  failed, counts stay nonnegative and a group with a user is one the kernel has joined.\<close>

theorem igmp_reachable_inv:
  assumes "(igmp_step addr_of ifs)\<^sup>*\<^sup>* igmp_init st" and "addr_of ifs = Some i"
  shows "counts_ok st \<and> (0 < group_count st a \<longrightarrow> listening i st a)"
proof -
  from assms(1) have "igmp_inv i st"
  proof (induction rule: rtranclp_induct)
    case base
    show ?case by (rule inv_intro)
  next
    case (step st st')
    from step(2) show ?case
      using igmp_join_unparsed[of addr_of _ ifs _ st _ st' i]
        igmp_leave_unparsed[of addr_of _ ifs _ st _ st' i]
        igmp_join_keeps(1) igmp_leave_keeps(1) step.IH assms(2)
      by (elim igmp_stepE) blast+
  qed
  then show ?thesis by (simp add: igmp_inv_def)
qed

theorem igmp_reachable_inv_witness:
  "counts_ok (join_group 7 9 igmp_init) \<and> listening 7 (join_group 7 9 igmp_init) 9"
proof -
  let ?p = "\<lambda>s. if s = ''if'' then Some 7 else Some (9 :: u32)"
  have "igmp_join ?p True ''if'' ''mc'' igmp_init = Some (True, join_group 7 9 igmp_init)"
    by (simp add: igmp_join_def igmp_join_locked_def join_group_def igmp_init_def)
  then have "(igmp_step ?p ''if'')\<^sup>*\<^sup>* igmp_init (join_group 7 9 igmp_init)"
    by (blast intro: igmp_step.intros)
  from igmp_reachable_inv[OF this, of 7 9] show ?thesis
    by (simp add: group_count_def join_group_def igmp_join_locked_def igmp_init_def)
qed

end
