(* ===== verification/Browser.thy ===== *)
theory Browser
  imports Utils Sap "HOL-Library.List_Lexorder"
begin

text \<open>
  \<open>daemon/browser.cpp\<close> and \<open>daemon/browser.hpp\<close>: the table of sources announced by other
  hosts over SAP and mDNS.  The \<open>boost::multi_index\<close> container has a unique hashed index
  on the id and a sorted, non unique index on the name; it is the list of its elements in
  the order of the name index.  Time is the number of nanoseconds since startup: the
  source's \<open>duration<double>\<close> arithmetic is exact on it, and a number of seconds assigned to
  a \<open>uint32_t\<close> is truncated.
\<close>

record remote_source =
  rs_id :: string
  rs_source :: string
  rs_address :: string
  rs_name :: string
  rs_domain :: string
  rs_origin :: sdp_origin
  rs_sdp :: string
  rs_last_seen :: u32
  rs_announce_period :: u32

record rtsp_source =
  rt_id :: string
  rt_source :: string
  rt_address :: string
  rt_sdp :: string

record browser =
  br_sources :: "remote_source list"
  br_last_update :: u32

definition secs_of :: "nat \<Rightarrow> u32" where
  "secs_of now = word_of_nat (now div 10 ^ 9)"


subsection \<open>The container\<close>

definition mi_find :: "string \<Rightarrow> remote_source list \<Rightarrow> remote_source option" where
  "mi_find i xs = List.find (\<lambda>x. rs_id x = i) xs"

text \<open>The ordered index puts a new element behind those with the same name.\<close>

fun insert_by_name :: "remote_source \<Rightarrow> remote_source list \<Rightarrow> remote_source list" where
  "insert_by_name x [] = [x]"
| "insert_by_name x (y # ys) =
     (if rs_name x < rs_name y then x # y # ys else y # insert_by_name x ys)"

text \<open>\<open>insert\<close> fails without an effect when the id is taken; \<open>erase\<close> of an element;
  \<open>replace\<close> by an element of the same name, which fails when another element has the new
  id.\<close>

definition mi_insert :: "remote_source \<Rightarrow> remote_source list \<Rightarrow> remote_source list" where
  "mi_insert x xs = (if mi_find (rs_id x) xs = None then insert_by_name x xs else xs)"

definition mi_erase :: "string \<Rightarrow> remote_source list \<Rightarrow> remote_source list" where
  "mi_erase i xs = filter (\<lambda>x. rs_id x \<noteq> i) xs"

definition mi_replace :: "string \<Rightarrow> remote_source \<Rightarrow> remote_source list \<Rightarrow> remote_source list" where
  "mi_replace i x xs =
     (if rs_id x \<noteq> i \<and> mi_find (rs_id x) xs \<noteq> None then xs
      else map (\<lambda>y. if rs_id y = i then x else y) xs)"

definition browser_inv :: "remote_source list \<Rightarrow> bool" where
  "browser_inv xs \<longleftrightarrow> distinct (map rs_id xs) \<and> sorted (map rs_name xs)"

lemma mi_find_None: "mi_find i xs = None \<longleftrightarrow> i \<notin> rs_id ` set xs"
  by (auto simp: mi_find_def find_None_iff)

lemma mi_find_Some: "mi_find i xs = Some x \<Longrightarrow> x \<in> set xs \<and> rs_id x = i"
  by (auto simp: mi_find_def find_Some_iff)

lemma mi_find_member: "distinct (map rs_id xs) \<Longrightarrow> x \<in> set xs \<Longrightarrow> mi_find (rs_id x) xs = Some x"
  by (induction xs) (auto simp: mi_find_def)

lemma set_insert_by_name [simp]: "set (insert_by_name x xs) = insert x (set xs)"
  by (induction xs) auto

lemma distinct_insert_by_name:
  "rs_id x \<notin> rs_id ` set xs \<Longrightarrow> distinct (map rs_id xs) \<Longrightarrow> distinct (map rs_id (insert_by_name x xs))"
  by (induction xs) auto

lemma sorted_insert_by_name:
  "sorted (map rs_name xs) \<Longrightarrow> sorted (map rs_name (insert_by_name x xs))"
  by (induction xs) (auto simp: not_less intro: order.trans)

lemma browser_inv_Nil [inv_intro]: "browser_inv []"
  by (simp add: browser_inv_def)

lemma browser_inv_insert [inv_intro]: "browser_inv xs \<Longrightarrow> browser_inv (mi_insert x xs)"
  by (auto simp: browser_inv_def mi_insert_def mi_find_None
      intro!: distinct_insert_by_name sorted_insert_by_name)

lemma browser_inv_filter [inv_intro]: "browser_inv xs \<Longrightarrow> browser_inv (filter p xs)"
  by (auto simp: browser_inv_def distinct_map_filter sorted_filter)

lemma browser_inv_erase [inv_intro]: "browser_inv xs \<Longrightarrow> browser_inv (mi_erase i xs)"
  by (simp add: mi_erase_def browser_inv_filter)

lemma browser_inv_replace [inv_intro]:
  assumes "browser_inv xs" "\<forall>y \<in> set xs. rs_id y = i \<longrightarrow> rs_name y = rs_name x"
  shows "browser_inv (mi_replace i x xs)"
proof -
  have "map rs_name (map (\<lambda>y. if rs_id y = i then x else y) xs) = map rs_name xs"
    using assms(2) by (induction xs) auto
  moreover have "distinct (map rs_id (map (\<lambda>y. if rs_id y = i then x else y) xs))"
    if "rs_id x = i \<or> rs_id x \<notin> rs_id ` set xs"
  proof -
    let ?g = "\<lambda>k. if k = i then rs_id x else k"
    have "map rs_id (map (\<lambda>y. if rs_id y = i then x else y) xs) = map ?g (map rs_id xs)"
      by simp
    moreover have "inj_on ?g (set (map rs_id xs))"
      using that by (auto simp: inj_on_def image_iff)
    ultimately show ?thesis
      using assms(1) by (simp only: browser_inv_def distinct_map[of ?g])
  qed
  ultimately show ?thesis
    using assms(1) unfolding browser_inv_def mi_replace_def mi_find_None
    by (cases "rs_id x \<noteq> i \<and> rs_id x \<in> rs_id ` set xs") (simp_all del: map_map)
qed

text \<open>The container seen through its unique index, as an interface: a finite map from ids to
  elements with the map laws.\<close>

locale unique_index =
  fixes lookup :: "'k \<Rightarrow> 'c \<Rightarrow> 'v option"
    and add :: "'v \<Rightarrow> 'c \<Rightarrow> 'c"
    and remove :: "'k \<Rightarrow> 'c \<Rightarrow> 'c"
    and key :: "'v \<Rightarrow> 'k"
    and ok :: "'c \<Rightarrow> bool"
  assumes ok_add: "ok c \<Longrightarrow> ok (add v c)"
    and ok_remove: "ok c \<Longrightarrow> ok (remove k c)"
    and lookup_add: "ok c \<Longrightarrow> lookup k (add v c) =
      (if k = key v \<and> lookup k c = None then Some v else lookup k c)"
    and lookup_remove: "ok c \<Longrightarrow> lookup k (remove j c) = (if k = j then None else lookup k c)"
begin

lemma first_add_wins:
  "ok c \<Longrightarrow> key v = key w \<Longrightarrow> lookup (key v) c = None \<Longrightarrow> lookup (key v) (add w (add v c)) = Some v"
  by (simp add: lookup_add ok_add)

lemma add_remove: "ok c \<Longrightarrow> lookup k (remove (key v) (add v c)) = lookup k (remove (key v) c)"
  by (simp add: lookup_add lookup_remove ok_add)

lemma remove_add:
  "ok c \<Longrightarrow> lookup k (add v (remove (key v) c)) = (if k = key v then Some v else lookup k c)"
  by (simp add: lookup_add lookup_remove ok_remove)

lemma lookup_removes: "ok c \<Longrightarrow> lookup k (fold remove ks c) = (if k \<in> set ks then None else lookup k c)"
  by (induction ks arbitrary: c) (auto simp: lookup_remove ok_remove)

end

lemma mi_find_insert_by_name:
  "rs_id x \<notin> rs_id ` set xs \<Longrightarrow> mi_find k (insert_by_name x xs) = (if k = rs_id x then Some x else mi_find k xs)"
  by (induction xs) (auto simp: mi_find_def image_iff)

lemma mi_find_insert:
  "mi_find k (mi_insert x xs) = (if k = rs_id x \<and> mi_find k xs = None then Some x else mi_find k xs)"
  using mi_find_insert_by_name[of x xs k] by (auto simp: mi_insert_def mi_find_None)

lemma mi_find_filter:
  "distinct (map rs_id xs) \<Longrightarrow> mi_find k (filter p xs) =
     (case mi_find k xs of Some x \<Rightarrow> if p x then Some x else None | None \<Rightarrow> None)"
  by (induction xs) (auto simp: mi_find_def split: option.splits dest!: mi_find_Some[unfolded mi_find_def])

lemma mi_find_erase: "mi_find k (mi_erase j xs) = (if k = j then None else mi_find k xs)"
  by (induction xs) (auto simp: mi_find_def mi_erase_def)

interpretation by_id: unique_index mi_find mi_insert mi_erase rs_id browser_inv
  by unfold_locales (auto simp: mi_find_insert mi_find_erase intro: inv_intro)

subsection \<open>Operations\<close>

text \<open>\<open>get_remote_sources\<close>, with \<open>boost::iequals\<close> on ASCII text.\<close>

definition iequals :: "string \<Rightarrow> string \<Rightarrow> bool" where
  "iequals a b \<longleftrightarrow> map tolower a = map tolower b"

definition get_remote_sources :: "string \<Rightarrow> browser \<Rightarrow> remote_source list" where
  "get_remote_sources src b =
     filter (\<lambda>s. iequals (rs_source s) src \<or> iequals ''all'' src) (br_sources b)"

text \<open>The SAP part of \<open>worker\<close>, for one received packet at time \<open>now\<close>: the id is made of the
  address as received and the message hash.  \<open>addr_str\<close> is \<open>address_v4(ntohl(addr)).to_string()\<close>,
  \<open>sap_interval\<close> the configured interval.\<close>

definition sap_id :: "u32 \<Rightarrow> u16 \<Rightarrow> string" where
  "sap_id addr msg_id_hash = ''sap:'' @ show_nat (unat addr) @ ''-'' @ show_nat (unat msg_id_hash)"

definition sap_new_source ::
  "(u32 \<Rightarrow> string) \<Rightarrow> u16 \<Rightarrow> nat \<Rightarrow> sap_packet \<Rightarrow> remote_source" where
  "sap_new_source addr_str sap_interval now p =
     \<lparr>rs_id = sap_id (p_addr p) (p_msg_id_hash p), rs_source = ''SAP'',
      rs_address = addr_str (p_addr p), rs_name = sdp_get_subject (p_sdp p), rs_domain = [],
      rs_origin = sdp_get_origin (p_sdp p), rs_sdp = p_sdp p,
      rs_last_seen = secs_of now, rs_announce_period = ucast sap_interval\<rparr>"

definition sap_refresh :: "nat \<Rightarrow> remote_source \<Rightarrow> remote_source" where
  "sap_refresh now s =
     (if secs_of now - rs_last_seen s \<noteq> 0
      then s\<lparr>rs_announce_period := secs_of now - rs_last_seen s, rs_last_seen := secs_of now\<rparr>
      else s)"

definition on_sap ::
  "(u32 \<Rightarrow> string) \<Rightarrow> u16 \<Rightarrow> nat \<Rightarrow> sap_packet \<Rightarrow> browser \<Rightarrow> browser" where
  "on_sap addr_str sap_interval now p b =
     (let i = sap_id (p_addr p) (p_msg_id_hash p);
          b = b\<lparr>br_last_update := secs_of now\<rparr>
      in case mi_find i (br_sources b) of
           None \<Rightarrow>
             if p_is_announce p
             then b\<lparr>br_sources := mi_insert (sap_new_source addr_str sap_interval now p) (br_sources b)\<rparr>
             else b
         | Some s \<Rightarrow>
             if p_is_announce p
             then b\<lparr>br_sources := mi_replace i (sap_refresh now s) (br_sources b)\<rparr>
             else b\<lparr>br_sources := mi_erase i (br_sources b)\<rparr>)"

text \<open>The periodic sweep of \<open>worker\<close>: \<open>(offset - last_seen) > (announce_period * 10)\<close>, where the
  product is a \<open>uint32_t\<close> and the rest is in seconds.\<close>

definition sap_expired :: "nat \<Rightarrow> remote_source \<Rightarrow> bool" where
  "sap_expired now s \<longleftrightarrow> rs_source s = ''SAP'' \<and>
     (unat (rs_last_seen s) + unat (rs_announce_period s * 10)) * 10 ^ 9 < now"

definition sap_sweep :: "nat \<Rightarrow> browser \<Rightarrow> browser" where
  "sap_sweep now b =
     (let kept = filter (\<lambda>s. \<not> sap_expired now s) (br_sources b)
      in b\<lparr>br_sources := kept,
           br_last_update := (if kept = br_sources b then br_last_update b else secs_of now)\<rparr>)"

text \<open>\<open>on_change_rtsp_source\<close> and \<open>on_remove_rtsp_source\<close>: the first mDNS source of that name
  and domain in the name index.\<close>

definition rtsp_match :: "string \<Rightarrow> string \<Rightarrow> remote_source \<Rightarrow> bool" where
  "rtsp_match name domain s \<longleftrightarrow> rs_name s = name \<and> rs_source s = ''mDNS'' \<and> rs_domain s = domain"

definition on_change_rtsp_source ::
  "nat \<Rightarrow> string \<Rightarrow> string \<Rightarrow> rtsp_source \<Rightarrow> browser \<Rightarrow> browser" where
  "on_change_rtsp_source now name domain s b =
     (let b = b\<lparr>br_last_update := secs_of now\<rparr>
      in case List.find (rtsp_match name domain) (br_sources b) of
           Some old \<Rightarrow>
             (let upd = old\<lparr>rs_id := rt_id s, rs_address := rt_address s,
                            rs_origin := sdp_get_origin (rt_sdp s), rs_sdp := rt_sdp s,
                            rs_last_seen := br_last_update b\<rparr>
              in b\<lparr>br_sources := mi_replace (rs_id old) upd (br_sources b)\<rparr>)
         | None \<Rightarrow>
             b\<lparr>br_sources := mi_insert
                 \<lparr>rs_id = rt_id s, rs_source = rt_source s, rs_address = rt_address s,
                  rs_name = name, rs_domain = domain, rs_origin = sdp_get_origin (rt_sdp s),
                  rs_sdp = rt_sdp s, rs_last_seen = br_last_update b, rs_announce_period = 0\<rparr>
                 (br_sources b)\<rparr>)"

definition on_remove_rtsp_source :: "nat \<Rightarrow> string \<Rightarrow> string \<Rightarrow> browser \<Rightarrow> browser" where
  "on_remove_rtsp_source now name domain b =
     (case List.find (rtsp_match name domain) (br_sources b) of
        Some old \<Rightarrow> b\<lparr>br_sources := mi_erase (rs_id old) (br_sources b), br_last_update := secs_of now\<rparr>
      | None \<Rightarrow> b)"

text \<open>Everything that changes the table, as a step relation.\<close>

inductive browser_step :: "browser \<Rightarrow> browser \<Rightarrow> bool" where
  step_sap: "browser_step b (on_sap addr_str sap_interval now p b)"
| step_sweep: "browser_step b (sap_sweep now b)"
| step_change: "browser_step b (on_change_rtsp_source now name domain s b)"
| step_remove: "browser_step b (on_remove_rtsp_source now name domain b)"

inductive_cases browser_stepE: "browser_step b b'"

lemma on_sap_inv [inv_intro]: "browser_inv (br_sources b) \<Longrightarrow> browser_inv (br_sources (on_sap a i now p b))"
proof -
  assume inv: "browser_inv (br_sources b)"
  have "rs_name y = rs_name (sap_refresh now s)"
    if "mi_find k (br_sources b) = Some s" "y \<in> set (br_sources b)" "rs_id y = k" for k s y
    using mi_find_member[of "br_sources b" y] that inv
    by (auto simp: browser_inv_def sap_refresh_def)
  then show ?thesis
    using inv by (auto simp: on_sap_def Let_def intro!: inv_intro split: option.split)
qed

lemma sap_sweep_inv [inv_intro]: "browser_inv (br_sources b) \<Longrightarrow> browser_inv (br_sources (sap_sweep now b))"
  by (simp add: sap_sweep_def Let_def browser_inv_filter)

lemma find_rtsp: "List.find (rtsp_match n d) xs = Some s \<Longrightarrow> s \<in> set xs \<and> rtsp_match n d s"
  by (auto simp: find_Some_iff)

lemma on_change_rtsp_inv [inv_intro]:
  "browser_inv (br_sources b) \<Longrightarrow> browser_inv (br_sources (on_change_rtsp_source now n d s b))"
proof -
  assume inv: "browser_inv (br_sources b)"
  have "\<forall>y \<in> set (br_sources b). rs_id y = rs_id old \<longrightarrow> rs_name y = rs_name old"
    if "List.find (rtsp_match n d) (br_sources b) = Some old" for old
    using find_rtsp[OF that] inv mi_find_member[of "br_sources b"]
    unfolding browser_inv_def by (metis option.inject)
  then show ?thesis
    using inv by (auto simp: on_change_rtsp_source_def Let_def intro!: inv_intro split: option.split)
qed

lemma on_remove_rtsp_inv [inv_intro]:
  "browser_inv (br_sources b) \<Longrightarrow> browser_inv (br_sources (on_remove_rtsp_source now n d b))"
  by (auto simp: on_remove_rtsp_source_def intro!: inv_intro split: option.split)

text \<open>In every state the browser reaches, through any interleaving of SAP packets,
  sweeps and mDNS callbacks, source ids are unique and the sources are listed in the order
  of their names; so is every list \<open>get_remote_sources\<close> returns.\<close>

theorem browser_reachable:
  assumes "browser_step\<^sup>*\<^sup>* b0 b" and "br_sources b0 = []"
  shows "distinct (map rs_id (br_sources b)) \<and> sorted (map rs_name (br_sources b)) \<and>
    sorted (map rs_name (get_remote_sources src b))"
proof -
  from assms(1) have "browser_inv (br_sources b)"
  proof (induction rule: rtranclp_induct)
    case base
    show ?case using assms(2) by (simp add: inv_intro)
  next
    case (step y z)
    from step(2) show ?case using step.IH by (elim browser_stepE) (auto intro: inv_intro)
  qed
  then show ?thesis
    by (auto simp: browser_inv_def get_remote_sources_def sorted_filter)
qed

definition sample_packet :: "bool \<Rightarrow> sap_packet" where
  "sample_packet ann = \<lparr>p_is_announce = ann, p_msg_id_hash = 7, p_addr = 9,
     p_sdp = ''s=b'' @ [newline]\<rparr>"

definition empty_browser :: browser where
  "empty_browser = \<lparr>br_sources = [], br_last_update = 0\<rparr>"

theorem browser_reachable_witness:
  "sorted (map rs_name (get_remote_sources ''all''
     (sap_sweep 5 (on_sap (\<lambda>_. []) 30 1 (sample_packet True) empty_browser))))"
proof -
  have "browser_step\<^sup>*\<^sup>* empty_browser (sap_sweep 5 (on_sap (\<lambda>_. []) 30 1 (sample_packet True) empty_browser))"
    by (blast intro: rtranclp.rtrancl_into_rtrancl browser_step.intros)
  from browser_reachable[OF this, of "''all''"] show ?thesis
    by (simp add: empty_browser_def)
qed

lemma on_sap_find:
  assumes "browser_inv (br_sources b)"
  shows "mi_find k (br_sources (on_sap addr_str iv now p b)) =
    (if k \<noteq> sap_id (p_addr p) (p_msg_id_hash p) then mi_find k (br_sources b)
     else if \<not> p_is_announce p then None
     else (case mi_find k (br_sources b) of
             None \<Rightarrow> Some (sap_new_source addr_str iv now p)
           | Some s \<Rightarrow> Some (sap_refresh now s)))"
proof -
  let ?i = "sap_id (p_addr p) (p_msg_id_hash p)"
  have repl: "mi_find k (mi_replace ?i (sap_refresh now s) (br_sources b)) =
      (if k = ?i then Some (sap_refresh now s) else mi_find k (br_sources b))"
    if "mi_find ?i (br_sources b) = Some s" for s
  proof -
    have r: "rs_id (sap_refresh now s) = ?i"
      using mi_find_Some[OF that] by (simp add: sap_refresh_def)
    have "mi_find k (map (\<lambda>y. if rs_id y = ?i then sap_refresh now s else y) xs) =
        (if k = ?i then (if mi_find k xs = None then None else Some (sap_refresh now s))
         else mi_find k xs)" for xs
      by (induction xs) (auto simp: mi_find_def r)
    with that r show ?thesis by (simp add: mi_replace_def)
  qed
  have new: "rs_id (sap_new_source addr_str iv now p) = ?i"
    by (simp add: sap_new_source_def)
  show ?thesis
    using repl new
    by (auto simp: on_sap_def Let_def mi_find_insert mi_find_erase split: option.split)
qed

text \<open>A SAP packet touches exactly the source it names.  An announcement of an unknown id
  adds it with the subject and origin of its SDP; of a known id it only refreshes the last
  seen time and the measured period (the SDP is not replaced); a deletion removes it, and
  a deletion of an unknown id changes nothing.\<close>

theorem on_sap_effect:
  assumes "browser_inv (br_sources b)"
  shows "mi_find k (br_sources (on_sap addr_str iv now p b)) =
    (if k \<noteq> sap_id (p_addr p) (p_msg_id_hash p) then mi_find k (br_sources b)
     else if \<not> p_is_announce p then None
     else (case mi_find k (br_sources b) of
             None \<Rightarrow> Some (sap_new_source addr_str iv now p)
           | Some s \<Rightarrow> Some (sap_refresh now s)))"
  using assms by (rule on_sap_find)

theorem on_sap_effect_witness:
  "mi_find (sap_id 9 7) (br_sources (on_sap (\<lambda>_. []) 30 1 (sample_packet True) empty_browser)) =
     Some (sap_new_source (\<lambda>_. []) 30 1 (sample_packet True))"
proof -
  have inv: "browser_inv (br_sources empty_browser)"
    by (simp add: empty_browser_def inv_intro)
  from on_sap_effect[OF inv, of "sap_id 9 7" _ 30 1 "sample_packet True"] show ?thesis
    by (simp add: sample_packet_def empty_browser_def mi_find_def)
qed

text \<open>The sweep removes a source exactly when it came over SAP and was last seen more
  than ten announce periods before; sources found over mDNS are never timed out.\<close>

theorem sap_sweep_exact:
  assumes "browser_inv (br_sources b)"
  shows "mi_find k (br_sources (sap_sweep now b)) =
    (case mi_find k (br_sources b) of
       None \<Rightarrow> None
     | Some s \<Rightarrow> if rs_source s = ''SAP'' \<and>
                    (unat (rs_last_seen s) + unat (rs_announce_period s * 10)) * 10 ^ 9 < now
                 then None else Some s)"
  using mi_find_filter[of "br_sources b" k] assms
  by (auto simp: sap_sweep_def Let_def browser_inv_def sap_expired_def split: option.split)

theorem sap_sweep_exact_witness:
  "mi_find (sap_id 9 7) (br_sources (sap_sweep (400 * 10 ^ 9)
     (on_sap (\<lambda>_. []) 30 1 (sample_packet True) empty_browser))) = None"
proof -
  let ?b = "on_sap (\<lambda>_. []) 30 1 (sample_packet True) empty_browser"
  have inv: "browser_inv (br_sources ?b)"
    by (intro inv_intro) (simp add: empty_browser_def inv_intro)
  have "mi_find (sap_id 9 7) (br_sources ?b) = Some (sap_new_source (\<lambda>_. []) 30 1 (sample_packet True))"
    by (simp add: on_sap_def Let_def sample_packet_def empty_browser_def mi_find_def mi_insert_def
        sap_new_source_def)
  with sap_sweep_exact[OF inv, of "sap_id 9 7" "400 * 10 ^ 9"] show ?thesis
    by (simp add: sap_new_source_def secs_of_def)
qed

text \<open>With the automatic interval (\<open>sap_interval\<close> 0 in the configuration) a source
  announced once is recorded with period 0, so the first sweep that runs in a later second
  drops it, however long its announcer's period is.\<close>

theorem sap_zero_interval_dropped:
  assumes "browser_inv (br_sources b)"
    and "mi_find (sap_id (p_addr p) (p_msg_id_hash p)) (br_sources b) = None"
    and "p_is_announce p" and "t div 10 ^ 9 < 2 ^ 32" and "(t div 10 ^ 9) * 10 ^ 9 < now"
  shows "mi_find (sap_id (p_addr p) (p_msg_id_hash p))
    (br_sources (sap_sweep now (on_sap addr_str 0 t p b))) = None"
proof -
  let ?b = "on_sap addr_str 0 t p b" and ?i = "sap_id (p_addr p) (p_msg_id_hash p)"
  have inv: "browser_inv (br_sources ?b)" using assms(1) by (rule inv_intro)
  have "mi_find ?i (br_sources ?b) = Some (sap_new_source addr_str 0 t p)"
    using assms(2,3)
    by (simp add: on_sap_def Let_def mi_find_insert) (simp add: sap_new_source_def)
  moreover have "sap_expired now (sap_new_source addr_str 0 t p)"
    using assms(4,5)
    by (simp add: sap_expired_def sap_new_source_def secs_of_def unsigned_of_nat take_bit_nat_eq_self)
  ultimately show ?thesis
    using mi_find_filter[of "br_sources ?b" ?i] inv
    by (simp add: sap_sweep_def Let_def browser_inv_def)
qed

theorem sap_zero_interval_dropped_witness:
  "mi_find (sap_id 9 7) (br_sources (sap_sweep (11 * 10 ^ 9)
     (on_sap (\<lambda>_. []) 0 1 (sample_packet True) empty_browser))) = None"
proof -
  have inv: "browser_inv (br_sources empty_browser)"
    by (simp add: empty_browser_def inv_intro)
  from sap_zero_interval_dropped[OF inv, of "sample_packet True" 1 "11 * 10 ^ 9"] show ?thesis
    by (simp add: sample_packet_def empty_browser_def mi_find_def)
qed

end
