(* ===== verification/Sessions.thy ===== *)
theory Sessions
  imports Sdp Driver Igmp Browser
begin

text \<open>
  \<open>daemon/session_manager.cpp\<close>: the sources and sinks of the daemon, their names, their
  streams in the driver, their group memberships and the notifications to the observers
  (RTSP and mDNS servers, NMOS), one definition per method.  Every method runs under the
  lock of the table it changes, so it is one step.

  The driver manager is the pair of operations \<open>add_rtp\<close> and \<open>rm_rtp\<close> on a driver state of
  any type; \<open>session_env\<close> is what a call reads from the configuration, the interfaces, the
  ARP cache, the C library and the network.  Observers are the log of calls made to them.
  A call that throws, and one that C++ leaves undefined, are outcomes of their own.
\<close>

record session_env =
  e_sdp :: sdp_env
  e_ip_addr :: u32
  e_rtp_mcast_base :: string
  e_rtp_mcast_base_sec :: string
  e_rtp_port :: u16
  e_rtp_port_sec :: u16
  e_if_name1 :: string
  e_sec_ip :: u32
  e_max_tic_frame_size :: u32
  e_mac_addr :: "u8 list"
  e_if1_mac :: "u8 list \<times> string"
  e_arp :: "nat \<Rightarrow> string \<Rightarrow> u8 list \<times> string"
  e_rand :: nat
  e_mcast_ok :: bool
  e_decode_url :: "string \<Rightarrow> string"
  e_http_get :: "string \<Rightarrow> int \<Rightarrow> string \<Rightarrow> (int \<times> string) option"
  e_rtsp_describe :: "string \<Rightarrow> string \<Rightarrow> string \<Rightarrow> string option"

datatype session_event =
    Source_added u8 string string
  | Source_removed u8 string
  | Source_updated u8 string string
  | Sink_added u8 string
  | Sink_removed u8 string

record 'd session =
  ss_driver :: 'd
  ss_sources :: "(u8 \<times> stream_info) list"
  ss_source_names :: "string \<Rightarrow> u8 option"
  ss_sinks :: "(u8 \<times> stream_info) list"
  ss_sink_names :: "string \<Rightarrow> u8 option"
  ss_igmp0 :: igmp
  ss_igmp1 :: igmp
  ss_ptp_domain :: u8
  ss_ptp_dscp :: u8
  ss_ptp_gmid :: string
  ss_version :: u32
  ss_log :: "session_event list"

datatype outcome = Returns error_code | Throws | Undefined_behaviour

definition session_init :: "'d \<Rightarrow> u8 \<Rightarrow> u8 \<Rightarrow> u32 \<Rightarrow> 'd session" where
  "session_init d domain dscp version =
     \<lparr>ss_driver = d, ss_sources = [], ss_source_names = Map.empty, ss_sinks = [],
      ss_sink_names = Map.empty, ss_igmp0 = igmp_init, ss_igmp1 = igmp_init,
      ss_ptp_domain = domain, ss_ptp_dscp = dscp, ss_ptp_gmid = [], ss_version = version,
      ss_log = []\<rparr>"

text \<open>The text side of the environment with the manager's own PTP settings.\<close>

definition sdp_env_of :: "session_env \<Rightarrow> 'd session \<Rightarrow> sdp_env" where
  "sdp_env_of E st = (e_sdp E)\<lparr>e_ptp_domain := ss_ptp_domain st, e_ptp_gmid := ss_ptp_gmid st\<rparr>"

abbreviation ntoa :: "session_env \<Rightarrow> u32 \<Rightarrow> string" where
  "ntoa E \<equiv> e_ntoa (e_sdp E)"

abbreviation aton :: "session_env \<Rightarrow> string \<Rightarrow> u32 option" where
  "aton E \<equiv> e_aton (e_sdp E)"


subsection \<open>Group memberships\<close>

text \<open>The calls of \<open>igmp_[0]\<close> and \<open>igmp_[1]\<close> for one stream.  The addresses are ones the daemon
  has printed itself, so the address parser does not throw.\<close>

definition igmp_do ::
  "((string \<Rightarrow> u32 option) \<Rightarrow> bool \<Rightarrow> string \<Rightarrow> string \<Rightarrow> igmp \<Rightarrow> (bool \<times> igmp) option) \<Rightarrow>
   session_env \<Rightarrow> string \<Rightarrow> u32 \<Rightarrow> igmp \<Rightarrow> igmp" where
  "igmp_do oper E ifs a st =
     (case oper (aton E) (e_mcast_ok E) ifs (ntoa E a) st of Some (_, st') \<Rightarrow> st' | None \<Rightarrow> st)"

definition igmp_stream ::
  "((string \<Rightarrow> u32 option) \<Rightarrow> bool \<Rightarrow> string \<Rightarrow> string \<Rightarrow> igmp \<Rightarrow> (bool \<times> igmp) option) \<Rightarrow>
   session_env \<Rightarrow> stream_info \<Rightarrow> 'd session \<Rightarrow> 'd session" where
  "igmp_stream oper E info st =
     (if in_multicast (m_ui32DestIP (leg info 0))
      then (let st = st\<lparr>ss_igmp0 := igmp_do oper E (e_ip_addr_str (e_sdp E)) (m_ui32DestIP (leg info 0)) (ss_igmp0 st)\<rparr>
            in if si_st20227_enabled info
               then st\<lparr>ss_igmp1 := igmp_do oper E (e_sec_ip_str (e_sdp E)) (m_ui32DestIP (leg info 1)) (ss_igmp1 st)\<rparr>
               else st)
      else st)"


subsection \<open>Sources\<close>

definition on_add_source :: "session_env \<Rightarrow> stream_source \<Rightarrow> stream_info \<Rightarrow> 'd session \<Rightarrow> 'd session" where
  "on_add_source E source info st =
     (let st = st\<lparr>ss_log := ss_log st @
            [Source_added (src_id source) (src_name source) (get_source_sdp_text (sdp_env_of E st) info)]\<rparr>;
          st = igmp_stream igmp_join E info st
      in st\<lparr>ss_source_names := (ss_source_names st)(src_name source \<mapsto> src_id source)\<rparr>)"

definition on_remove_source :: "session_env \<Rightarrow> stream_info \<Rightarrow> 'd session \<Rightarrow> 'd session" where
  "on_remove_source E info st =
     (let st = st\<lparr>ss_log := ss_log st @ [Source_removed (ucast (m_uiId (leg info 0))) (m_cName (leg info 0))]\<rparr>;
          st = igmp_stream igmp_leave E info st
      in st\<lparr>ss_source_names := (ss_source_names st)(m_cName (leg info 0) := None)\<rparr>)"

text \<open>The destination: the given address, or the configured base plus the id; \<^const>\<open>None\<close> when
  the base does not parse (the call throws).\<close>

definition dest_or_base :: "session_env \<Rightarrow> string \<Rightarrow> string \<Rightarrow> u8 \<Rightarrow> u32 option" where
  "dest_or_base E addr base i =
     (case aton E addr of
        Some a \<Rightarrow> Some a
      | None \<Rightarrow> (case aton E base of Some b \<Rightarrow> Some (b + ucast i) | None \<Rightarrow> None))"

text \<open>The MAC address of a unicast destination: the ARP cache, asked again up to three times.\<close>

fun arp_retry :: "(nat \<Rightarrow> string \<Rightarrow> u8 list \<times> string) \<Rightarrow> string \<Rightarrow> nat \<Rightarrow> nat \<Rightarrow> u8 list \<times> string" where
  "arp_retry arp ip n 0 = arp n ip"
| "arp_retry arp ip n (Suc retry) =
     (if snd (arp n ip) \<noteq> [] then arp n ip else arp_retry arp ip (Suc n) retry)"

definition source_session_id :: "session_env \<Rightarrow> u8 \<Rightarrow> u32" where
  "source_session_id E i =
     (let a = htonl (e_ip_addr E) in push_bit 16 a + drop_bit 16 a + ucast i)"

text \<open>The first leg and the rest of \<open>info\<close> as \<open>add_source\<close> fills them before it takes the lock;
  \<open>dest\<close>, \<open>mac\<close> and \<open>ttl\<close> are what the address decides.\<close>

definition source_leg ::
  "session_env \<Rightarrow> stream_source \<Rightarrow> u32 \<Rightarrow> u8 list \<Rightarrow> u8 \<Rightarrow> rtp_stream_info" where
  "source_leg E source dest mac ttl = zero_stream
     \<lparr>m_bSource := True,
      m_cName := strncpy (e_name_cap (e_sdp E)) (src_name source),
      m_ucDSCP := src_dscp source, m_uiIfPortId := 0,
      m_byPayloadType := src_payload_type source,
      m_byWordLength := get_codec_word_length (src_codec source),
      m_byNbOfChannels := word_of_nat (length (src_map source)),
      m_cCodec := strncpy (e_codec_cap (e_sdp E)) (src_codec source),
      m_ui32MaxSamplesPerPacket := src_max_samples_per_packet source,
      m_ui32SamplingRate := e_sample_rate (e_sdp E),
      m_uiId := ucast (src_id source),
      m_ui32RTCPSrcIP := e_ip_addr E, m_ui32SrcIP := e_ip_addr E,
      m_ui32DestIP := dest,
      m_usSrcPort := e_rtp_port E, m_usDestPort := e_rtp_port E,
      m_ui32SSRC := word_of_nat (e_rand E mod 65536),
      m_aui32Routing := src_map source,
      m_ui8DestMAC := mac, m_byTTL := ttl\<rparr>"

definition source_info ::
  "session_env \<Rightarrow> stream_source \<Rightarrow> u32 \<Rightarrow> rtp_stream_info \<Rightarrow> stream_info" where
  "source_info E source version leg0 = new_info
     \<lparr>si_stream := [leg0, zero_stream],
      si_refclk_ptp_traceable := src_refclk_ptp_traceable source,
      si_enabled := src_enabled source, si_io := src_io source,
      si_session_id := source_session_id E (src_id source),
      si_session_version := source_session_id E (src_id source) + version\<rparr>"

text \<open>The second leg: a copy of the first with the other interface's addresses and ports; its
  destination MAC address is the copied one.\<close>

definition source_leg2 :: "session_env \<Rightarrow> u32 \<Rightarrow> rtp_stream_info \<Rightarrow> rtp_stream_info" where
  "source_leg2 E dest s =
     (let t = s\<lparr>m_ui32DestIP := dest, m_ui32RTCPSrcIP := e_sec_ip E, m_ui32SrcIP := e_sec_ip E,
                m_uiIfPortId := 1, m_usSrcPort := e_rtp_port_sec E, m_usDestPort := e_rtp_port_sec E\<rparr>
      in if in_multicast dest then t else t\<lparr>m_byTTL := 64\<rparr>)"

text \<open>Removing the previous stream of an id that is in use, if it was enabled; errors of the
  driver are ignored.\<close>

definition drop_old_legs :: "(u64 \<Rightarrow> 'd \<Rightarrow> error_code \<times> 'd) \<Rightarrow> stream_info \<Rightarrow> 'd \<Rightarrow> 'd" where
  "drop_old_legs rm_rtp info d =
     (let d = snd (rm_rtp (si_handle info ! 0) d)
      in if si_st20227_enabled info then snd (rm_rtp (si_handle info ! 1) d) else d)"

definition drop_old_source ::
  "(u64 \<Rightarrow> 'd \<Rightarrow> error_code \<times> 'd) \<Rightarrow> session_env \<Rightarrow> stream_info \<Rightarrow> 'd session \<Rightarrow> 'd session" where
  "drop_old_source rm_rtp E old st =
     (if si_enabled old
      then on_remove_source E old (st\<lparr>ss_driver := drop_old_legs rm_rtp old (ss_driver st)\<rparr>)
      else st)"

definition erase_source :: "u8 \<Rightarrow> 'd session \<Rightarrow> 'd session" where
  "erase_source i st = st\<lparr>ss_sources := smap_del i (ss_sources st)\<rparr>"

definition set_source :: "u8 \<Rightarrow> stream_info \<Rightarrow> 'd session \<Rightarrow> 'd session" where
  "set_source i info st = st\<lparr>ss_sources := smap_upd i info (ss_sources st)\<rparr>"

text \<open>The second leg of an enabled source.  When the driver refuses it the code removes
  \<open>(*it).second.handle[0]\<close>, the handle of the entry found before the update; without an
  entry that is a read through the end iterator.\<close>

definition add_source_leg2 ::
  "(rtp_stream_info \<Rightarrow> 'd \<Rightarrow> error_code \<times> u64 \<times> 'd) \<Rightarrow> (u64 \<Rightarrow> 'd \<Rightarrow> error_code \<times> 'd) \<Rightarrow>
   session_env \<Rightarrow> stream_source \<Rightarrow> stream_info option \<Rightarrow> stream_info \<Rightarrow> 'd session \<Rightarrow>
   outcome \<times> 'd session" where
  "add_source_leg2 add_rtp rm_rtp E source old info st =
     (let i = src_id source;
          finish = (\<lambda>info st. (Returns no_error, set_source i info (on_add_source E source info st)))
      in if \<not> (src_use_secondary source \<and> e_if_name1 E \<noteq> []) then finish info st
         else if e_sec_ip_str (e_sdp E) = [] then finish info st
         else case dest_or_base E (src_address_sec source) (e_rtp_mcast_base_sec E) i of
             None \<Rightarrow> (Throws, st)
           | Some dest2 \<Rightarrow>
               (let info = info\<lparr>si_stream := [leg info 0, source_leg2 E dest2 (leg info 0)]\<rparr>;
                    (ret, h, d) = add_rtp (leg info 1) (ss_driver st);
                    st = st\<lparr>ss_driver := d\<rparr>
                in if ret \<noteq> no_error
                   then (case old of
                           None \<Rightarrow> (Undefined_behaviour, st)
                         | Some oinfo \<Rightarrow>
                             (Returns ret, erase_source i
                               (st\<lparr>ss_driver := snd (rm_rtp (si_handle oinfo ! 0) (ss_driver st))\<rparr>)))
                   else finish (info\<lparr>si_handle := [si_handle info ! 0, h], si_st20227_enabled := True\<rparr>) st))"

text \<open>\<open>add_source\<close> under the lock.\<close>

definition add_source_locked ::
  "(rtp_stream_info \<Rightarrow> 'd \<Rightarrow> error_code \<times> u64 \<times> 'd) \<Rightarrow> (u64 \<Rightarrow> 'd \<Rightarrow> error_code \<times> 'd) \<Rightarrow>
   session_env \<Rightarrow> stream_source \<Rightarrow> stream_info \<Rightarrow> 'd session \<Rightarrow> outcome \<times> 'd session" where
  "add_source_locked add_rtp rm_rtp E source info st =
     (let i = src_id source; old = map_of (ss_sources st) i
      in if old = None \<and> ss_source_names st (src_name source) \<noteq> None
         then (Returns (daemon_err stream_name_in_use), st)
         else (let st = (case old of Some oinfo \<Rightarrow> drop_old_source rm_rtp E oinfo st | None \<Rightarrow> st)
               in if \<not> si_enabled info then (Returns no_error, set_source i info st)
                  else (let (ret, h, d) = add_rtp (leg info 0) (ss_driver st);
                            st = st\<lparr>ss_driver := d\<rparr>
                        in if ret \<noteq> no_error
                           then (Returns ret, if old \<noteq> None then erase_source i st else st)
                           else add_source_leg2 add_rtp rm_rtp E source old
                                  (info\<lparr>si_handle := [h, si_handle info ! 1]\<rparr>) st)))"

definition add_source ::
  "(rtp_stream_info \<Rightarrow> 'd \<Rightarrow> error_code \<times> u64 \<times> 'd) \<Rightarrow> (u64 \<Rightarrow> 'd \<Rightarrow> error_code \<times> 'd) \<Rightarrow>
   session_env \<Rightarrow> stream_source \<Rightarrow> 'd session \<Rightarrow> outcome \<times> 'd session" where
  "add_source add_rtp rm_rtp E source st =
     (if stream_id_max < src_id source then (Returns (daemon_err invalid_stream_id), st)
      else case dest_or_base E (src_address source) (e_rtp_mcast_base E) (src_id source) of
        None \<Rightarrow> (Throws, st)
      | Some dest \<Rightarrow>
          (let (mac, ttl, found) =
             (if in_multicast dest then (get_mcast_mac_addr dest, src_ttl source, True)
              else (let r = arp_retry (e_arp E) (ntoa E dest) 0 3 in (fst r, 64, snd r \<noteq> [])))
           in if \<not> found then (Returns (daemon_err cannot_retrieve_mac), st)
              else add_source_locked add_rtp rm_rtp E source
                     (source_info E source (ss_version st) (source_leg E source dest mac ttl))
                     (st\<lparr>ss_version := ss_version st + 1\<rparr>)))"

text \<open>\<open>remove_source\<close>; its argument is 32 bits wide and looked up as a \<open>uint8_t\<close>.\<close>

definition remove_legs ::
  "(u64 \<Rightarrow> 'd \<Rightarrow> error_code \<times> 'd) \<Rightarrow> stream_info \<Rightarrow> 'd \<Rightarrow> error_code \<times> 'd" where
  "remove_legs rm_rtp info d =
     (let (ret, d) = rm_rtp (si_handle info ! 0) d
      in if ret = no_error \<and> si_st20227_enabled info then rm_rtp (si_handle info ! 1) d else (ret, d))"

definition remove_source ::
  "(u64 \<Rightarrow> 'd \<Rightarrow> error_code \<times> 'd) \<Rightarrow> session_env \<Rightarrow> u32 \<Rightarrow> 'd session \<Rightarrow> error_code \<times> 'd session" where
  "remove_source rm_rtp E i st =
     (if ucast stream_id_max < i then (daemon_err invalid_stream_id, st)
      else case map_of (ss_sources st) (ucast i) of
        None \<Rightarrow> (daemon_err stream_id_not_in_use, st)
      | Some info \<Rightarrow>
          if \<not> si_enabled info then (no_error, erase_source (ucast i) st)
          else (let (ret, d) = remove_legs rm_rtp info (ss_driver st);
                    st = st\<lparr>ss_driver := d\<rparr>
                in if ret \<noteq> no_error then (ret, st)
                   else (no_error, erase_source (ucast i) (on_remove_source E info st))))"

subsection \<open>Sinks\<close>

definition on_add_sink :: "session_env \<Rightarrow> stream_sink \<Rightarrow> stream_info \<Rightarrow> 'd session \<Rightarrow> 'd session" where
  "on_add_sink E sink info st =
     (let st = st\<lparr>ss_log := ss_log st @ [Sink_added (snk_id sink) (snk_name sink)]\<rparr>;
          st = igmp_stream igmp_join E info st
      in st\<lparr>ss_sink_names := (ss_sink_names st)(snk_name sink \<mapsto> snk_id sink)\<rparr>)"

definition on_remove_sink :: "session_env \<Rightarrow> stream_info \<Rightarrow> 'd session \<Rightarrow> 'd session" where
  "on_remove_sink E info st =
     (let st = st\<lparr>ss_log := ss_log st @ [Sink_removed (ucast (m_uiId (leg info 0))) (m_cName (leg info 0))]\<rparr>;
          st = igmp_stream igmp_leave E info st
      in st\<lparr>ss_sink_names := (ss_sink_names st)(m_cName (leg info 0) := None)\<rparr>)"

text \<open>\<open>atoi\<close> of the URL's port: \<open>strtol\<close> saturates and the result is cut to an \<open>int\<close>.\<close>

definition atoi :: "string \<Rightarrow> int" where
  "atoi s = (case strto s of
       None \<Rightarrow> 0
     | Some (neg, n) \<Rightarrow>
         signed_take_bit 31 (if neg then max (- (2 ^ 63)) (- int n) else min (2 ^ 63 - 1) (int n)))"

text \<open>Where the SDP of a sink comes from: the sink itself, or its URL.\<close>

datatype sdp_fetch = Fetched string | Fetch_error error_code | Fetch_throws

definition fetch_sdp :: "session_env \<Rightarrow> stream_sink \<Rightarrow> sdp_fetch" where
  "fetch_sdp E sink =
     (if snk_use_sdp sink then Fetched (snk_sdp sink)
      else case parse_url (e_decode_url E) (snk_source sink) of
        None \<Rightarrow> Fetch_throws
      | Some (ok, protocol, host, port, path) \<Rightarrow>
          if \<not> ok then Fetch_error (daemon_err invalid_url)
          else if iequals protocol ''http''
          then (case e_http_get E host (if atoi port = 0 then 80 else atoi port) path of
                  None \<Rightarrow> Fetch_error (daemon_err cannot_retrieve_sdp)
                | Some (status, body) \<Rightarrow>
                    if status \<noteq> 200 then Fetch_error (daemon_err cannot_retrieve_sdp) else Fetched body)
          else if iequals protocol ''rtsp''
          then (case e_rtsp_describe E path host port of
                  None \<Rightarrow> Fetch_error (daemon_err cannot_retrieve_sdp)
                | Some sdp \<Rightarrow> Fetched sdp)
          else Fetch_error (daemon_err invalid_url))"

definition sink_leg :: "session_env \<Rightarrow> stream_sink \<Rightarrow> rtp_stream_info" where
  "sink_leg E sink = zero_stream
     \<lparr>m_bSource := False,
      m_cName := strncpy (e_name_cap (e_sdp E)) (snk_name sink),
      m_uiId := ucast (snk_id sink),
      m_byNbOfChannels := word_of_nat (length (snk_map sink)),
      m_aui32Routing := snk_map sink,
      m_ui32PlayOutDelay := snk_delay sink,
      m_ui32RTCPSrcIP := e_ip_addr E\<rparr>"

definition sink_info :: "session_env \<Rightarrow> stream_sink \<Rightarrow> stream_info" where
  "sink_info E sink = new_info
     \<lparr>si_stream := [sink_leg E sink, sink_leg E sink],
      si_ignore_refclk_gmid := snk_ignore_refclk_gmid sink, si_io := snk_io sink\<rparr>"

text \<open>The loop over the media: the frame size is the first leg's packet size, the destination
  MAC address of every multicast leg is computed from the first leg's group.\<close>

definition finish_leg :: "session_env \<Rightarrow> nat \<Rightarrow> stream_info \<Rightarrow> stream_info" where
  "finish_leg E mid info =
     (let n = m_ui32MaxSamplesPerPacket (leg info 0);
          mac = (if in_multicast (m_ui32DestIP (leg info mid))
                 then get_mcast_mac_addr (m_ui32DestIP (leg info 0)) else e_mac_addr E)
      in upd_leg mid (\<lambda>s. s\<lparr>m_ui32FrameSize := (if n = 0 then e_max_tic_frame_size E else n),
                            m_ui8DestMAC := mac\<rparr>) info)"

definition finish_legs :: "session_env \<Rightarrow> stream_info \<Rightarrow> stream_info" where
  "finish_legs E info =
     (let info = finish_leg E 0 info in if si_st20227_enabled info then finish_leg E 1 info else info)"

definition erase_sink :: "u8 \<Rightarrow> 'd session \<Rightarrow> 'd session" where
  "erase_sink i st = st\<lparr>ss_sinks := smap_del i (ss_sinks st)\<rparr>"

definition set_sink :: "u8 \<Rightarrow> stream_info \<Rightarrow> 'd session \<Rightarrow> 'd session" where
  "set_sink i info st = st\<lparr>ss_sinks := smap_upd i info (ss_sinks st)\<rparr>"

definition drop_old_sink ::
  "(u64 \<Rightarrow> 'd \<Rightarrow> error_code \<times> 'd) \<Rightarrow> session_env \<Rightarrow> stream_info \<Rightarrow> 'd session \<Rightarrow> 'd session" where
  "drop_old_sink rm_rtp E old st =
     on_remove_sink E old (st\<lparr>ss_driver := drop_old_legs rm_rtp old (ss_driver st)\<rparr>)"

definition sink_leg2 :: "session_env \<Rightarrow> rtp_stream_info \<Rightarrow> rtp_stream_info" where
  "sink_leg2 E s =
     (let s = s\<lparr>m_ui32RTCPSrcIP := e_sec_ip E, m_uiIfPortId := 1\<rparr>
      in if \<not> in_multicast (m_ui32DestIP s) \<and> snd (e_if1_mac E) \<noteq> []
         then s\<lparr>m_ui8DestMAC := fst (e_if1_mac E)\<rparr> else s)"

definition add_sink_leg2 ::
  "(rtp_stream_info \<Rightarrow> 'd \<Rightarrow> error_code \<times> u64 \<times> 'd) \<Rightarrow> (u64 \<Rightarrow> 'd \<Rightarrow> error_code \<times> 'd) \<Rightarrow>
   session_env \<Rightarrow> stream_sink \<Rightarrow> stream_info option \<Rightarrow> stream_info \<Rightarrow> 'd session \<Rightarrow>
   outcome \<times> 'd session" where
  "add_sink_leg2 add_rtp rm_rtp E sink old info st =
     (let i = snk_id sink;
          finish = (\<lambda>info st. (Returns no_error, set_sink i info (on_add_sink E sink info st)))
      in if e_if_name1 E \<noteq> [] \<and> si_st20227_enabled info \<and> e_sec_ip_str (e_sdp E) \<noteq> []
         then (let info = upd_leg 1 (sink_leg2 E) info;
                   (ret, h, d) = add_rtp (leg info 1) (ss_driver st);
                   st = st\<lparr>ss_driver := d\<rparr>
               in if ret \<noteq> no_error
                  then (let st = st\<lparr>ss_driver := snd (rm_rtp (si_handle info ! 0) (ss_driver st))\<rparr>
                        in (Returns ret, if old \<noteq> None then erase_sink i st else st))
                  else finish (info\<lparr>si_handle := [si_handle info ! 0, h]\<rparr>) st)
         else finish (info\<lparr>si_st20227_enabled := False\<rparr>) st)"

definition add_sink_locked ::
  "(rtp_stream_info \<Rightarrow> 'd \<Rightarrow> error_code \<times> u64 \<times> 'd) \<Rightarrow> (u64 \<Rightarrow> 'd \<Rightarrow> error_code \<times> 'd) \<Rightarrow>
   session_env \<Rightarrow> stream_sink \<Rightarrow> stream_info \<Rightarrow> 'd session \<Rightarrow> outcome \<times> 'd session" where
  "add_sink_locked add_rtp rm_rtp E sink info st =
     (let i = snk_id sink; old = map_of (ss_sinks st) i
      in if old = None \<and> ss_sink_names st (snk_name sink) \<noteq> None
         then (Returns (daemon_err stream_name_in_use), st)
         else (let st = (case old of Some oinfo \<Rightarrow> drop_old_sink rm_rtp E oinfo st | None \<Rightarrow> st);
                   (ret, h, d) = add_rtp (leg info 0) (ss_driver st);
                   st = st\<lparr>ss_driver := d\<rparr>
               in if ret \<noteq> no_error
                  then (Returns ret, if old \<noteq> None then erase_sink i st else st)
                  else add_sink_leg2 add_rtp rm_rtp E sink old
                         (info\<lparr>si_handle := [h, si_handle info ! 1]\<rparr>) st))"

definition add_sink ::
  "(rtp_stream_info \<Rightarrow> 'd \<Rightarrow> error_code \<times> u64 \<times> 'd) \<Rightarrow> (u64 \<Rightarrow> 'd \<Rightarrow> error_code \<times> 'd) \<Rightarrow>
   session_env \<Rightarrow> stream_sink \<Rightarrow> 'd session \<Rightarrow> outcome \<times> 'd session" where
  "add_sink add_rtp rm_rtp E sink st =
     (if stream_id_max < snk_id sink then (Returns (daemon_err invalid_stream_id), st)
      else case fetch_sdp E sink of
        Fetch_throws \<Rightarrow> (Throws, st)
      | Fetch_error e \<Rightarrow> (Returns e, st)
      | Fetched sdp \<Rightarrow>
          (case parse_sdp (sdp_env_of E st) sdp (sink_info E sink) of
             Sdp_refused \<Rightarrow> (Returns (daemon_err cannot_parse_sdp), st)
           | Sdp_undefined \<Rightarrow> (Undefined_behaviour, st)
           | Sdp_parsed info \<Rightarrow>
               add_sink_locked add_rtp rm_rtp E sink
                 (finish_legs E (info\<lparr>si_sink_sdp := sdp, si_sink_source := snk_source sink,
                                      si_sink_use_sdp := True\<rparr>)) st))"

text \<open>\<open>remove_sink\<close>; note the error of an id out of range.\<close>

definition remove_sink ::
  "(u64 \<Rightarrow> 'd \<Rightarrow> error_code \<times> 'd) \<Rightarrow> session_env \<Rightarrow> u32 \<Rightarrow> 'd session \<Rightarrow> error_code \<times> 'd session" where
  "remove_sink rm_rtp E i st =
     (if ucast stream_id_max < i then (daemon_err stream_id_in_use, st)
      else case map_of (ss_sinks st) (ucast i) of
        None \<Rightarrow> (daemon_err stream_id_not_in_use, st)
      | Some info \<Rightarrow>
          (let (ret, d) = remove_legs rm_rtp info (ss_driver st);
               st = st\<lparr>ss_driver := d\<rparr>
           in if ret \<noteq> no_error then (ret, st)
              else (no_error, erase_sink (ucast i) (on_remove_sink E info st))))"


subsection \<open>Queries\<close>

definition get_source_of :: "session_env \<Rightarrow> u8 \<Rightarrow> stream_info \<Rightarrow> stream_source" where
  "get_source_of E i info =
     \<lparr>src_id = i, src_enabled = si_enabled info, src_name = m_cName (leg info 0),
      src_io = si_io info,
      src_max_samples_per_packet = m_ui32MaxSamplesPerPacket (leg info 0),
      src_codec = m_cCodec (leg info 0), src_address = ntoa E (m_ui32DestIP (leg info 0)),
      src_address_sec = (if si_st20227_enabled info then ntoa E (m_ui32DestIP (leg info 1)) else []),
      src_use_secondary = si_st20227_enabled info, src_ttl = m_byTTL (leg info 0),
      src_payload_type = m_byPayloadType (leg info 0), src_dscp = m_ucDSCP (leg info 0),
      src_refclk_ptp_traceable = si_refclk_ptp_traceable info,
      src_map = take (unat (m_byNbOfChannels (leg info 0))) (m_aui32Routing (leg info 0))\<rparr>"

definition get_sink_of :: "u8 \<Rightarrow> stream_info \<Rightarrow> stream_sink" where
  "get_sink_of i info =
     \<lparr>snk_id = i, snk_name = m_cName (leg info 0), snk_io = si_io info,
      snk_use_sdp = si_sink_use_sdp info, snk_source = si_sink_source info,
      snk_sdp = si_sink_sdp info, snk_delay = m_ui32PlayOutDelay (leg info 0),
      snk_ignore_refclk_gmid = si_ignore_refclk_gmid info,
      snk_map = take (unat (m_byNbOfChannels (leg info 0))) (m_aui32Routing (leg info 0))\<rparr>"

definition get_source :: "session_env \<Rightarrow> u8 \<Rightarrow> 'd session \<Rightarrow> error_code + stream_source" where
  "get_source E i st = (case map_of (ss_sources st) i of
     None \<Rightarrow> Inl (daemon_err stream_id_not_in_use) | Some info \<Rightarrow> Inr (get_source_of E i info))"

definition get_sink :: "u8 \<Rightarrow> 'd session \<Rightarrow> error_code + stream_sink" where
  "get_sink i st = (case map_of (ss_sinks st) i of
     None \<Rightarrow> Inl (daemon_err stream_id_not_in_use) | Some info \<Rightarrow> Inr (get_sink_of i info))"

definition get_sources :: "session_env \<Rightarrow> 'd session \<Rightarrow> stream_source list" where
  "get_sources E st = map (\<lambda>(i, info). get_source_of E i info) (ss_sources st)"

definition get_sinks :: "'d session \<Rightarrow> stream_sink list" where
  "get_sinks st = map (\<lambda>(i, info). get_sink_of i info) (ss_sinks st)"

definition get_source_sdp :: "session_env \<Rightarrow> u32 \<Rightarrow> 'd session \<Rightarrow> error_code + string" where
  "get_source_sdp E i st = (case map_of (ss_sources st) (ucast i) of
     None \<Rightarrow> Inl (daemon_err stream_id_not_in_use)
   | Some info \<Rightarrow> Inr (get_source_sdp_text (sdp_env_of E st) info))"

definition get_source_id :: "string \<Rightarrow> 'd session \<Rightarrow> u8" where
  "get_source_id name st = (case ss_source_names st name of Some i \<Rightarrow> i | None \<Rightarrow> stream_id_max + 1)"

definition get_sink_id :: "string \<Rightarrow> 'd session \<Rightarrow> u8" where
  "get_sink_id name st = (case ss_sink_names st name of Some i \<Rightarrow> i | None \<Rightarrow> stream_id_max + 1)"

end
