(* ===== verification/Ledger.thy ===== *)
theory Ledger
  imports Sessions "HOL-Library.Multiset"
begin

text \<open>
  The streams open in the driver are exactly those of the manager's sources and sinks, each
  owned once.  The preservation lemmas are proved in the locale of the driver contract and
  used through its interpretation on the daemon's fake driver; where the code breaks the
  ledger (a second leg that the driver refuses) the leak is proved instead.
\<close>

definition info_handles :: "stream_info \<Rightarrow> u64 multiset" where
  "info_handles info =
     (if si_st20227_enabled info then {#si_handle info ! 0, si_handle info ! 1#}
      else {#si_handle info ! 0#})"

definition source_handles :: "stream_info \<Rightarrow> u64 multiset" where
  "source_handles info = (if si_enabled info then info_handles info else {#})"

definition hsum :: "('v \<Rightarrow> u64 multiset) \<Rightarrow> ('k \<times> 'v) list \<Rightarrow> u64 multiset" where
  "hsum f m = sum_list (map (\<lambda>(k, v). f v) m)"

definition owned :: "'d session \<Rightarrow> u64 multiset" where
  "owned st = hsum source_handles (ss_sources st) + hsum info_handles (ss_sinks st)"

definition tables_ok :: "'d session \<Rightarrow> bool" where
  "tables_ok st \<longleftrightarrow> smap_ok (ss_sources st) \<and> smap_ok (ss_sinks st)"

definition ledger :: "('d \<Rightarrow> u64 set) \<Rightarrow> 'd session \<Rightarrow> bool" where
  "ledger opn st \<longleftrightarrow> tables_ok st \<and> finite (opn (ss_driver st)) \<and> owned st = mset_set (opn (ss_driver st))"

lemma hsum_upd_new: "map_of m k = None \<Longrightarrow> hsum f (smap_upd k v m) = f v + hsum f m"
  by (induction k v m rule: smap_upd.induct) (auto simp: hsum_def split: if_splits)

lemma hsum_del_absent: "map_of m k = None \<Longrightarrow> smap_del k m = m"
  by (force simp: smap_del_def map_of_eq_None_iff filter_id_conv)

lemma hsum_del: "smap_ok m \<Longrightarrow> map_of m k = Some w \<Longrightarrow> hsum f m = f w + hsum f (smap_del k m)"
proof (induction m)
  case (Cons x m)
  obtain j v where x: "x = (j, v)" by fastforce
  have m: "smap_ok m" "j \<notin> fst ` set m"
    using Cons.prems(1) x by (auto simp: smap_ok_def)
  show ?case
  proof (cases "j = k")
    case True
    with m have "map_of m k = None" by (simp add: map_of_eq_None_iff)
    with True x Cons.prems(2) show ?thesis
      using hsum_del_absent[of m k] by (simp add: hsum_def smap_del_def)
  next
    case False
    with Cons.IH[OF m(1)] x Cons.prems(2) show ?thesis
      by (simp add: hsum_def smap_del_def ac_simps)
  qed
qed simp

lemma hsum_upd_del: "smap_ok m \<Longrightarrow> hsum f (smap_upd k v m) = f v + hsum f (smap_del k m)"
proof (induction k v m rule: smap_upd.induct)
  case (2 k v j w m)
  have m: "smap_ok m" "\<forall>x \<in> fst ` set m. j < x"
    using "2.prems" by (auto simp: smap_ok_def)
  have "map_of m k = None" if "k \<le> j"
    using m(2) that by (auto simp: map_of_eq_None_iff)
  then have d: "smap_del k m = m" if "k \<le> j"
    using that by (simp add: hsum_del_absent)
  show ?case
    using "2.IH" m(1) d by (auto simp: hsum_def smap_del_def ac_simps not_less)
qed (simp add: hsum_def smap_del_def)

text \<open>What does not touch the driver or the tables.\<close>

lemma igmp_stream_fields [simp]:
  "ss_driver (igmp_stream oper E info st) = ss_driver st"
  "ss_sources (igmp_stream oper E info st) = ss_sources st"
  "ss_sinks (igmp_stream oper E info st) = ss_sinks st"
  "ss_source_names (igmp_stream oper E info st) = ss_source_names st"
  "ss_sink_names (igmp_stream oper E info st) = ss_sink_names st"
  "ss_version (igmp_stream oper E info st) = ss_version st"
  "ss_log (igmp_stream oper E info st) = ss_log st"
  by (simp_all add: igmp_stream_def Let_def)

lemma on_source_fields [simp]:
  "ss_driver (on_add_source E s info st) = ss_driver st"
  "ss_sources (on_add_source E s info st) = ss_sources st"
  "ss_sinks (on_add_source E s info st) = ss_sinks st"
  "ss_sink_names (on_add_source E s info st) = ss_sink_names st"
  "ss_driver (on_remove_source E info st) = ss_driver st"
  "ss_sources (on_remove_source E info st) = ss_sources st"
  "ss_sinks (on_remove_source E info st) = ss_sinks st"
  "ss_sink_names (on_remove_source E info st) = ss_sink_names st"
  by (simp_all add: on_add_source_def on_remove_source_def Let_def)

lemma on_sink_fields [simp]:
  "ss_driver (on_add_sink E s info st) = ss_driver st"
  "ss_sources (on_add_sink E s info st) = ss_sources st"
  "ss_sinks (on_add_sink E s info st) = ss_sinks st"
  "ss_source_names (on_add_sink E s info st) = ss_source_names st"
  "ss_driver (on_remove_sink E info st) = ss_driver st"
  "ss_sources (on_remove_sink E info st) = ss_sources st"
  "ss_sinks (on_remove_sink E info st) = ss_sinks st"
  "ss_source_names (on_remove_sink E info st) = ss_source_names st"
  by (simp_all add: on_add_sink_def on_remove_sink_def Let_def)

lemma set_erase_fields [simp]:
  "ss_driver (set_source i info st) = ss_driver st" "ss_sinks (set_source i info st) = ss_sinks st"
  "ss_sources (set_source i info st) = smap_upd i info (ss_sources st)"
  "ss_driver (erase_source i st) = ss_driver st" "ss_sinks (erase_source i st) = ss_sinks st"
  "ss_sources (erase_source i st) = smap_del i (ss_sources st)"
  "ss_driver (set_sink i info st) = ss_driver st" "ss_sources (set_sink i info st) = ss_sources st"
  "ss_sinks (set_sink i info st) = smap_upd i info (ss_sinks st)"
  "ss_driver (erase_sink i st) = ss_driver st" "ss_sources (erase_sink i st) = ss_sources st"
  "ss_sinks (erase_sink i st) = smap_del i (ss_sinks st)"
  by (simp_all add: set_source_def erase_source_def set_sink_def erase_sink_def)

lemma drop_old_source_fields [simp]:
  "ss_sources (drop_old_source rm E old st) = ss_sources st"
  "ss_sinks (drop_old_source rm E old st) = ss_sinks st"
  "ss_driver (drop_old_source rm E old st) =
     (if si_enabled old then drop_old_legs rm old (ss_driver st) else ss_driver st)"
  by (simp_all add: drop_old_source_def)

lemma drop_old_sink_fields [simp]:
  "ss_sources (drop_old_sink rm E old st) = ss_sources st"
  "ss_sinks (drop_old_sink rm E old st) = ss_sinks st"
  "ss_driver (drop_old_sink rm E old st) = drop_old_legs rm old (ss_driver st)"
  by (simp_all add: drop_old_sink_def)

text \<open>The handles that remain when one table entry is taken out, and how the sum is rebuilt.\<close>

lemma owned_set_source:
  "smap_ok (ss_sources st) \<Longrightarrow> owned (set_source i info st) = source_handles info + owned (erase_source i st)"
  by (simp add: owned_def hsum_upd_del)

lemma owned_set_sink:
  "smap_ok (ss_sinks st) \<Longrightarrow> owned (set_sink i info st) = info_handles info + owned (erase_sink i st)"
  by (simp add: owned_def hsum_upd_del)

lemma owned_source:
  "smap_ok (ss_sources st) \<Longrightarrow> map_of (ss_sources st) i = Some info \<Longrightarrow>
   owned st = source_handles info + owned (erase_source i st)"
  by (simp add: owned_def hsum_del)

lemma owned_sink:
  "smap_ok (ss_sinks st) \<Longrightarrow> map_of (ss_sinks st) i = Some info \<Longrightarrow>
   owned st = info_handles info + owned (erase_sink i st)"
  by (simp add: owned_def hsum_del)

lemma owned_erase_absent:
  "map_of (ss_sources st) i = None \<Longrightarrow> owned (erase_source i st) = owned st"
  "map_of (ss_sinks st) i = None \<Longrightarrow> owned (erase_sink i st) = owned st"
  by (simp_all add: owned_def hsum_del_absent)

lemma mset_set_diff_mset: "finite A \<Longrightarrow> x \<in> A \<Longrightarrow> mset_set (A - {x}) = mset_set A - {#x#}"
  by (simp add: mset_set_Diff)

subsection \<open>Preservation under the driver contract\<close>

definition opened :: "('d \<Rightarrow> u64 set) \<Rightarrow> 'd \<Rightarrow> u64 multiset \<Rightarrow> bool" where
  "opened opn d M \<longleftrightarrow> finite (opn d) \<and> mset_set (opn d) = M"

lemma ledger_opened: "ledger opn st \<longleftrightarrow> tables_ok st \<and> opened opn (ss_driver st) (owned st)"
  by (auto simp: ledger_def opened_def)

lemma opened_member: "opened opn d (add_mset h M) \<Longrightarrow> h \<in> opn d"
proof -
  assume o: "opened opn d (add_mset h M)"
  then have "h \<in># mset_set (opn d)" by (simp add: opened_def)
  moreover have "finite (opn d)" using o by (simp add: opened_def)
  ultimately show ?thesis by (simp only: finite_set_mset_mset_set)
qed

lemma owned_eq: "ss_sources st = ss_sources st' \<Longrightarrow> ss_sinks st = ss_sinks st' \<Longrightarrow> owned st = owned st'"
  by (simp add: owned_def)

lemma tables_ok_eq: "ss_sources st = ss_sources st' \<Longrightarrow> ss_sinks st = ss_sinks st' \<Longrightarrow> tables_ok st = tables_ok st'"
  by (simp add: tables_ok_def)

lemma tables_ok_ops [inv_intro]:
  "tables_ok st \<Longrightarrow> tables_ok (set_source i info st)" "tables_ok st \<Longrightarrow> tables_ok (erase_source i st)"
  "tables_ok st \<Longrightarrow> tables_ok (set_sink i info st)" "tables_ok st \<Longrightarrow> tables_ok (erase_sink i st)"
  by (simp_all add: tables_ok_def smap_ok_upd smap_ok_del)

context reliable_driver
begin

lemma opened_rm: "opened open_handles d (add_mset h M) \<Longrightarrow> opened open_handles (snd (rm_rtp h d)) M"
  using opened_member[of open_handles d h M] rm_open_handle[of h d]
  by (auto simp: opened_def mset_set_diff_mset)

lemma opened_rm_ok: "opened open_handles d (add_mset h M) \<Longrightarrow> \<exists>d'. rm_rtp h d = (no_error, d')"
  using opened_member[of open_handles d h M] rm_open[of h d] by (cases "rm_rtp h d") auto

lemma opened_add:
  "opened open_handles d M \<Longrightarrow> add_rtp si d = (no_error, h, d') \<Longrightarrow> room (Suc n) d \<Longrightarrow>
   opened open_handles d' (add_mset h M)"
  using add_done[of si d h d' n] by (auto simp: opened_def)

lemma opened_add_failed:
  "opened open_handles d M \<Longrightarrow> add_rtp si d = (e, h, d') \<Longrightarrow> e \<noteq> no_error \<Longrightarrow> opened open_handles d' M"
  using add_failed[of si d e h d'] by (auto simp: opened_def)

lemma opened_drop:
  "opened open_handles d (info_handles info + M) \<Longrightarrow> opened open_handles (drop_old_legs rm_rtp info d) M"
  by (auto simp: drop_old_legs_def info_handles_def Let_def dest: opened_rm split: if_splits)

lemma remove_legs_drop:
  "opened open_handles d (info_handles info + M) \<Longrightarrow>
   remove_legs rm_rtp info d = (no_error, drop_old_legs rm_rtp info d)"
proof -
  assume o: "opened open_handles d (info_handles info + M)"
  then obtain d1 where d1: "rm_rtp (si_handle info ! 0) d = (no_error, d1)"
    using opened_rm_ok by (auto simp: info_handles_def split: if_splits)
  show ?thesis
  proof (cases "si_st20227_enabled info")
    case True
    with o d1 opened_rm[of d "si_handle info ! 0"]
    have "opened open_handles d1 (add_mset (si_handle info ! 1) M)"
      by (fastforce simp: info_handles_def)
    from opened_rm_ok[OF this] True d1 show ?thesis
      by (auto simp: remove_legs_def drop_old_legs_def)
  next
    case False
    with d1 show ?thesis by (simp add: remove_legs_def drop_old_legs_def)
  qed
qed

lemma room_drop: "room n d \<Longrightarrow> room n (drop_old_legs rm_rtp info d)"
  by (simp add: drop_old_legs_def Let_def room_rm_snd)

lemma remove_source_ledger:
  assumes "ledger open_handles st"
  shows "ledger open_handles (snd (remove_source rm_rtp E i st))"
proof (cases "ucast stream_id_max < i \<or> map_of (ss_sources st) (ucast i) = None")
  case True
  with assms show ?thesis by (auto simp: remove_source_def)
next
  case False
  then obtain info where m: "map_of (ss_sources st) (ucast i) = Some info" by auto
  have t: "tables_ok st" and o: "opened open_handles (ss_driver st) (source_handles info + owned (erase_source (ucast i) st))"
    using assms owned_source[OF _ m] by (auto simp: ledger_opened tables_ok_def)
  show ?thesis
  proof (cases "si_enabled info")
    case True
    with o have o': "opened open_handles (ss_driver st) (info_handles info + owned (erase_source (ucast i) st))"
      by (simp add: source_handles_def)
    show ?thesis
      using False m True t remove_legs_drop[OF o'] opened_drop[OF o']
      by (auto simp: remove_source_def ledger_opened tables_ok_def owned_def smap_ok_del)
  next
    case dis: False
    show ?thesis
      using False m dis t o
      by (auto simp: remove_source_def ledger_opened tables_ok_def owned_def smap_ok_del source_handles_def)
  qed
qed

lemma remove_sink_ledger:
  assumes "ledger open_handles st"
  shows "ledger open_handles (snd (remove_sink rm_rtp E i st))"
proof (cases "ucast stream_id_max < i \<or> map_of (ss_sinks st) (ucast i) = None")
  case True
  with assms show ?thesis by (auto simp: remove_sink_def)
next
  case False
  then obtain info where m: "map_of (ss_sinks st) (ucast i) = Some info" by auto
  have t: "tables_ok st" and o: "opened open_handles (ss_driver st) (info_handles info + owned (erase_sink (ucast i) st))"
    using assms owned_sink[OF _ m] by (auto simp: ledger_opened tables_ok_def)
  show ?thesis
    using False m t remove_legs_drop[OF o] opened_drop[OF o]
    by (auto simp: remove_sink_def ledger_opened tables_ok_def owned_def smap_ok_del)
qed

end

context reliable_driver
begin

lemma finish_source_ledger:
  assumes "tables_ok st" "opened open_handles (ss_driver st) (source_handles info + owned (erase_source i st))"
  shows "ledger open_handles (set_source i info (on_add_source E src info st))"
proof -
  let ?st = "on_add_source E src info st"
  have "owned (set_source i info ?st) = source_handles info + owned (erase_source i ?st)"
    using assms(1) by (intro owned_set_source) (simp add: tables_ok_def)
  moreover have "owned (erase_source i ?st) = owned (erase_source i st)"
    by (rule owned_eq) simp_all
  ultimately show ?thesis
    using assms by (simp add: ledger_opened tables_ok_def smap_ok_upd)
qed

lemma add_source_leg2_ledger:
  assumes "add_source_leg2 add_rtp rm_rtp E src old info st = (Returns no_error, st')"
    and "tables_ok st" "room 1 (ss_driver st)" "si_enabled info" "\<not> si_st20227_enabled info"
    and o: "opened open_handles (ss_driver st) (add_mset (si_handle info ! 0) (owned (erase_source (src_id src) st)))"
  shows "ledger open_handles st'"
proof -
  have h: "source_handles info = {#si_handle info ! 0#}"
    using assms(4,5) by (simp add: source_handles_def info_handles_def)
  show ?thesis
  proof (cases "src_use_secondary src \<and> e_if_name1 E \<noteq> [] \<and> e_sec_ip_str (e_sdp E) \<noteq> []")
    case False
    then have "add_source_leg2 add_rtp rm_rtp E src old info st =
        (Returns no_error, set_source (src_id src) info (on_add_source E src info st))"
      unfolding add_source_leg2_def Let_def
      by (cases "src_use_secondary src \<and> e_if_name1 E \<noteq> []"; cases "e_sec_ip_str (e_sdp E) = []") simp_all
    then have "st' = set_source (src_id src) info (on_add_source E src info st)"
      using assms(1) by simp
    then show ?thesis using finish_source_ledger[OF assms(2), of info] o h by simp
  next
    case True
    then obtain d2 where "dest_or_base E (src_address_sec src) (e_rtp_mcast_base_sec E) (src_id src) = Some d2"
      using assms(1) by (auto simp: add_source_leg2_def Let_def split: option.splits)
    moreover define info2 where "info2 = info\<lparr>si_stream := [leg info 0, source_leg2 E d2 (leg info 0)]\<rparr>"
    moreover obtain ret g d where a: "add_rtp (leg info2 1) (ss_driver st) = (ret, g, d)"
      by (cases "add_rtp (leg info2 1) (ss_driver st)") auto
    ultimately have ret: "ret = no_error" and st': "st' = set_source (src_id src)
        (info2\<lparr>si_handle := [si_handle info2 ! 0, g], si_st20227_enabled := True\<rparr>)
        (on_add_source E src (info2\<lparr>si_handle := [si_handle info2 ! 0, g], si_st20227_enabled := True\<rparr>)
          (st\<lparr>ss_driver := d\<rparr>))"
      using assms(1) True by (auto simp: add_source_leg2_def Let_def split: if_splits option.splits)
    have o2: "opened open_handles d (add_mset g (add_mset (si_handle info ! 0) (owned (erase_source (src_id src) st))))"
      using opened_add[OF o a[unfolded ret], of 0] assms(3) by simp
    have "owned (erase_source (src_id src) (st\<lparr>ss_driver := d\<rparr>)) = owned (erase_source (src_id src) st)"
      by (rule owned_eq) (simp_all add: erase_source_def)
    then show ?thesis
      unfolding st' using o2 assms(2,4)
      by (intro finish_source_ledger)
        (simp_all add: tables_ok_def source_handles_def info_handles_def info2_def add_mset_commute)
  qed
qed

lemma add_source_locked_ledger:
  assumes "add_source_locked add_rtp rm_rtp E src info st = (Returns no_error, st')"
    and "ledger open_handles st" "room 2 (ss_driver st)" "\<not> si_st20227_enabled info"
  shows "ledger open_handles st'"
proof -
  let ?i = "src_id src"
  define old where "old = map_of (ss_sources st) ?i"
  define st1 where "st1 = (case old of Some oinfo \<Rightarrow> drop_old_source rm_rtp E oinfo st | None \<Rightarrow> st)"
  have t: "tables_ok st" and o: "opened open_handles (ss_driver st) (owned st)"
    using assms(2) by (simp_all add: ledger_opened)
  have same: "ss_sources st1 = ss_sources st" "ss_sinks st1 = ss_sinks st"
    by (simp_all add: st1_def split: option.split)
  have room1: "room 2 (ss_driver st1)"
    using assms(3) by (auto simp: st1_def room_drop split: option.split)
  have o1: "opened open_handles (ss_driver st1) (owned (erase_source ?i st))"
  proof (cases old)
    case None
    then show ?thesis using o owned_erase_absent(1)[of st ?i] by (simp add: st1_def old_def)
  next
    case (Some oinfo)
    then have "owned st = source_handles oinfo + owned (erase_source ?i st)"
      using t by (intro owned_source) (simp_all add: tables_ok_def old_def)
    with o Some opened_drop[of "ss_driver st" oinfo "owned (erase_source ?i st)"] show ?thesis
      by (auto simp: st1_def source_handles_def)
  qed
  have own1: "owned (erase_source ?i st1) = owned (erase_source ?i st)"
    by (rule owned_eq) (simp_all add: same)
  have t1: "tables_ok st1" using t same by (simp add: tables_ok_def)
  show ?thesis
  proof (cases "si_enabled info")
    case False
    then have st': "st' = set_source ?i info st1"
      using assms(1) by (auto simp: add_source_locked_def Let_def old_def st1_def split: if_splits)
    have "owned (set_source ?i info st1) = owned (erase_source ?i st1)"
      using t1 False owned_set_source[of st1 ?i info] by (simp add: tables_ok_def source_handles_def)
    then show ?thesis
      unfolding st' using o1 t1 own1 by (simp add: ledger_opened tables_ok_ops)
  next
    case True
    obtain ret h d where a: "add_rtp (leg info 0) (ss_driver st1) = (ret, h, d)"
      by (cases "add_rtp (leg info 0) (ss_driver st1)") auto
    with True have ret: "ret = no_error" and l2: "add_source_leg2 add_rtp rm_rtp E src old
        (info\<lparr>si_handle := [h, si_handle info ! 1]\<rparr>) (st1\<lparr>ss_driver := d\<rparr>) = (Returns no_error, st')"
      using assms(1) by (auto simp: add_source_locked_def Let_def old_def st1_def split: if_splits)
    have "opened open_handles d (add_mset h (owned (erase_source ?i st)))"
      using opened_add[OF o1 a[unfolded ret], of 1] room1 by (simp add: numeral_2_eq_2)
    moreover have "owned (erase_source ?i (st1\<lparr>ss_driver := d\<rparr>)) = owned (erase_source ?i st)"
      by (rule owned_eq) (simp_all add: same erase_source_def)
    moreover have "room 1 d" using room_add[OF a] room1 by (simp add: numeral_2_eq_2)
    ultimately show ?thesis
      using t1 True assms(4) by (intro add_source_leg2_ledger[OF l2]) (simp_all add: tables_ok_def)
  qed
qed

lemma add_source_ledger:
  assumes "add_source add_rtp rm_rtp E src st = (Returns no_error, st')"
    and "ledger open_handles st" "room 2 (ss_driver st)"
  shows "ledger open_handles st'"
proof -
  have v: "ledger open_handles (st\<lparr>ss_version := v\<rparr>)" for v
    using assms(2) owned_eq[of "st\<lparr>ss_version := v\<rparr>" st] by (simp add: ledger_opened tables_ok_def)
  from assms(1) obtain s where s: "add_source_locked add_rtp rm_rtp E src (source_info E src (ss_version st) s)
      (st\<lparr>ss_version := ss_version st + 1\<rparr>) = (Returns no_error, st')"
    by (auto simp: add_source_def Let_def split: if_splits option.splits prod.splits)
  from add_source_locked_ledger[OF s v] show ?thesis
    using assms(3) by (simp add: source_info_def new_info_def)
qed

end

context reliable_driver
begin

lemma finish_sink_ledger:
  assumes "tables_ok st" "opened open_handles (ss_driver st) (info_handles info + owned (erase_sink i st))"
  shows "ledger open_handles (set_sink i info (on_add_sink E snk info st))"
proof -
  let ?st = "on_add_sink E snk info st"
  have "owned (set_sink i info ?st) = info_handles info + owned (erase_sink i ?st)"
    using assms(1) by (intro owned_set_sink) (simp add: tables_ok_def)
  moreover have "owned (erase_sink i ?st) = owned (erase_sink i st)"
    by (rule owned_eq) simp_all
  ultimately show ?thesis
    using assms by (simp add: ledger_opened tables_ok_def smap_ok_upd)
qed

lemma erased_sink_ledger:
  assumes "tables_ok st" "opened open_handles (ss_driver st) (owned (erase_sink i st))"
    "old = None \<longrightarrow> map_of (ss_sinks st) i = None"
  shows "ledger open_handles (if old \<noteq> None then erase_sink i st else st)"
  using assms owned_erase_absent(2)[of st i]
  by (cases old) (simp_all add: ledger_opened tables_ok_ops)

lemma add_sink_leg2_ledger:
  assumes "add_sink_leg2 add_rtp rm_rtp E snk old info st = (out, st')"
    and t: "tables_ok st" and room: "room 1 (ss_driver st)"
    and old: "old = None \<longrightarrow> map_of (ss_sinks st) (snk_id snk) = None"
    and o: "opened open_handles (ss_driver st) (add_mset (si_handle info ! 0) (owned (erase_sink (snk_id snk) st)))"
  shows "ledger open_handles st'"
proof (cases "e_if_name1 E \<noteq> [] \<and> si_st20227_enabled info \<and> e_sec_ip_str (e_sdp E) \<noteq> []")
  case False
  then have "add_sink_leg2 add_rtp rm_rtp E snk old info st = (Returns no_error,
      set_sink (snk_id snk) (info\<lparr>si_st20227_enabled := False\<rparr>)
        (on_add_sink E snk (info\<lparr>si_st20227_enabled := False\<rparr>) st))"
    unfolding add_sink_leg2_def Let_def by (simp only: if_False)
  then have st': "st' = set_sink (snk_id snk) (info\<lparr>si_st20227_enabled := False\<rparr>)
      (on_add_sink E snk (info\<lparr>si_st20227_enabled := False\<rparr>) st)"
    using assms(1) by simp
  show ?thesis
    unfolding st' by (rule finish_sink_ledger[OF t]) (use o in \<open>simp add: info_handles_def\<close>)
next
  case True
  define info2 where "info2 = upd_leg 1 (sink_leg2 E) info"
  obtain ret g d where a: "add_rtp (leg info2 1) (ss_driver st) = (ret, g, d)"
    by (cases "add_rtp (leg info2 1) (ss_driver st)") auto
  have own: "owned (erase_sink (snk_id snk) (st\<lparr>ss_driver := d'\<rparr>)) = owned (erase_sink (snk_id snk) st)" for d'
    by (rule owned_eq) (simp_all add: erase_sink_def)
  show ?thesis
  proof (cases "ret = no_error")
    case err: False
    let ?st = "st\<lparr>ss_driver := snd (rm_rtp (si_handle info2 ! 0) d)\<rparr>"
    have "st' = (if old \<noteq> None then erase_sink (snk_id snk) ?st else ?st)"
      using assms(1) True err a unfolding add_sink_leg2_def Let_def info2_def[symmetric]
      by (simp only: if_True) (simp split: if_splits)
    moreover have "opened open_handles (ss_driver ?st) (owned (erase_sink (snk_id snk) st))"
      using opened_rm[OF opened_add_failed[OF o a err]] by (simp add: info2_def)
    ultimately show ?thesis
      using erased_sink_ledger[of ?st "snk_id snk" old] t old own by (simp add: tables_ok_def)
  next
    case ret: True
    have st': "st' = set_sink (snk_id snk) (info2\<lparr>si_handle := [si_handle info2 ! 0, g]\<rparr>)
        (on_add_sink E snk (info2\<lparr>si_handle := [si_handle info2 ! 0, g]\<rparr>) (st\<lparr>ss_driver := d\<rparr>))"
      using assms(1) True ret a unfolding add_sink_leg2_def Let_def info2_def[symmetric]
      by (simp only: if_True) simp
    have "opened open_handles d (add_mset g (add_mset (si_handle info ! 0) (owned (erase_sink (snk_id snk) st))))"
      using opened_add[OF o a[unfolded ret], of 0] room by simp
    then show ?thesis
      unfolding st' using t own True
      by (intro finish_sink_ledger) (simp_all add: tables_ok_def info_handles_def info2_def add_mset_commute)
  qed
qed

lemma add_sink_locked_ledger:
  assumes "add_sink_locked add_rtp rm_rtp E snk info st = (out, st')"
    and "ledger open_handles st" "room 2 (ss_driver st)"
  shows "ledger open_handles st'"
proof -
  let ?i = "snk_id snk"
  define old where "old = map_of (ss_sinks st) ?i"
  define st1 where "st1 = (case old of Some oinfo \<Rightarrow> drop_old_sink rm_rtp E oinfo st | None \<Rightarrow> st)"
  have t: "tables_ok st" and o: "opened open_handles (ss_driver st) (owned st)"
    using assms(2) by (simp_all add: ledger_opened)
  have same: "ss_sources st1 = ss_sources st" "ss_sinks st1 = ss_sinks st"
    by (simp_all add: st1_def split: option.split)
  have room1: "room 2 (ss_driver st1)"
    using assms(3) by (auto simp: st1_def room_drop split: option.split)
  have o1: "opened open_handles (ss_driver st1) (owned (erase_sink ?i st))"
  proof (cases old)
    case None
    then show ?thesis using o owned_erase_absent(2)[of st ?i] by (simp add: st1_def old_def)
  next
    case (Some oinfo)
    then have "owned st = info_handles oinfo + owned (erase_sink ?i st)"
      using t by (intro owned_sink) (simp_all add: tables_ok_def old_def)
    with o Some opened_drop[of "ss_driver st" oinfo "owned (erase_sink ?i st)"] show ?thesis
      by (simp add: st1_def)
  qed
  have own1: "owned (erase_sink ?i (st1\<lparr>ss_driver := d\<rparr>)) = owned (erase_sink ?i st)" for d
    by (rule owned_eq) (simp_all add: same erase_sink_def)
  have t1: "tables_ok (st1\<lparr>ss_driver := d\<rparr>)" for d using t same by (simp add: tables_ok_def)
  have old1: "old = None \<longrightarrow> map_of (ss_sinks (st1\<lparr>ss_driver := d\<rparr>)) ?i = None" for d
    by (simp add: same old_def)
  obtain ret h d where a: "add_rtp (leg info 0) (ss_driver st1) = (ret, h, d)"
    by (cases "add_rtp (leg info 0) (ss_driver st1)") auto
  show ?thesis
  proof (cases "old = None \<and> ss_sink_names st (snk_name snk) \<noteq> None")
    case True
    then show ?thesis using assms(1,2) by (auto simp: add_sink_locked_def Let_def old_def)
  next
    case use: False
    show ?thesis
    proof (cases "ret = no_error")
      case False
      then have "st' = (if old \<noteq> None then erase_sink ?i (st1\<lparr>ss_driver := d\<rparr>) else st1\<lparr>ss_driver := d\<rparr>)"
        using assms(1) a use unfolding add_sink_locked_def Let_def old_def[symmetric] st1_def[symmetric]
        by (simp only: if_False) (simp split: if_splits)
      then show ?thesis
        using erased_sink_ledger[OF t1 _ old1] own1 opened_add_failed[OF o1 a False] by simp
    next
      case True
      then have l2: "add_sink_leg2 add_rtp rm_rtp E snk old (info\<lparr>si_handle := [h, si_handle info ! 1]\<rparr>)
          (st1\<lparr>ss_driver := d\<rparr>) = (out, st')"
        using assms(1) a use unfolding add_sink_locked_def Let_def old_def[symmetric] st1_def[symmetric]
        by (simp only: if_False) simp
      show ?thesis
        by (rule add_sink_leg2_ledger[OF l2 t1 _ old1])
          (use room_add[OF a] room1 opened_add[OF o1 a[unfolded True], of 1] own1 in \<open>simp_all add: numeral_2_eq_2\<close>)
    qed
  qed
qed

lemma add_sink_ledger:
  assumes "add_sink add_rtp rm_rtp E snk st = (out, st')" "ledger open_handles st" "room 2 (ss_driver st)"
  shows "ledger open_handles st'"
  using assms add_sink_locked_ledger
  by (auto simp: add_sink_def split: if_splits sdp_fetch.splits sdp_result.splits)

end

subsection \<open>The daemon on its fake driver\<close>

text \<open>Calls of the session manager, with any configuration and any answer of the network, as
  long as two more handles can be given out.  A call of \<open>add_source\<close> that throws is not a
  step: it is treated below.\<close>

inductive session_step :: "fake_driver session \<Rightarrow> fake_driver session \<Rightarrow> bool" where
  step_add_source: "add_source fake_add_rtp_stream fake_remove_rtp_stream E src st = (Returns e, st') \<Longrightarrow>
     fake_room 2 (ss_driver st) \<Longrightarrow> session_step st st'"
| step_remove_source: "remove_source fake_remove_rtp_stream E i st = (e, st') \<Longrightarrow> session_step st st'"
| step_add_sink: "add_sink fake_add_rtp_stream fake_remove_rtp_stream E snk st = (out, st') \<Longrightarrow>
     fake_room 2 (ss_driver st) \<Longrightarrow> session_step st st'"
| step_remove_sink: "remove_sink fake_remove_rtp_stream E i st = (e, st') \<Longrightarrow> session_step st st'"

inductive_cases session_stepE: "session_step st st'"

lemma fake_add_no_error: "\<exists>h d'. fake_add_rtp_stream si d = (no_error, h, d')"
  by (simp add: fake_add_rtp_stream_def Let_def)

lemma add_source_leg2_fake:
  "add_source_leg2 fake_add_rtp_stream rm E src old info st = (Returns e, st') \<Longrightarrow> e = no_error"
  by (auto simp: add_source_leg2_def Let_def fake_add_rtp_stream_def split: if_splits option.splits)

lemma add_source_fake_error:
  assumes "add_source fake_add_rtp_stream rm E src st = (Returns e, st')" "e \<noteq> no_error"
  shows "ss_driver st' = ss_driver st \<and> ss_sources st' = ss_sources st \<and> ss_sinks st' = ss_sinks st"
proof -
  have "st'' = st0" if "add_source_locked fake_add_rtp_stream rm E src info st0 = (Returns e, st'')" for info st0 st''
    using that assms(2) fake_add_no_error
    by (auto simp: add_source_locked_def Let_def fake_add_rtp_stream_def
        dest!: add_source_leg2_fake split: if_splits)
  moreover have "st' = st \<or> (\<exists>info. add_source_locked fake_add_rtp_stream rm E src info
      (st\<lparr>ss_version := ss_version st + 1\<rparr>) = (Returns e, st'))"
    using assms(1) by (auto simp: add_source_def Let_def split: if_splits option.splits prod.splits)
  ultimately have "st' = st \<or> st' = st\<lparr>ss_version := ss_version st + 1\<rparr>" by blast
  then show ?thesis by auto
qed

lemma session_step_ledger: "session_step st st' \<Longrightarrow> ledger fake_open st \<Longrightarrow> ledger fake_open st'"
proof (elim session_stepE)
  fix E src e
  assume l: "ledger fake_open st" and a: "fake_room 2 (ss_driver st)"
    "add_source fake_add_rtp_stream fake_remove_rtp_stream E src st = (Returns e, st')"
  show "ledger fake_open st'"
  proof (cases "e = no_error")
    case True
    with fake.add_source_ledger a l show ?thesis by blast
  next
    case False
    with add_source_fake_error[OF a(2)] l owned_eq[of st' st] tables_ok_eq[of st' st]
    show ?thesis by (simp add: ledger_opened)
  qed
next
  fix E i e
  assume "ledger fake_open st" "remove_source fake_remove_rtp_stream E i st = (e, st')"
  then show "ledger fake_open st'" using fake.remove_source_ledger[of st E i] by simp
next
  fix E snk out
  assume "ledger fake_open st" "fake_room 2 (ss_driver st)"
    "add_sink fake_add_rtp_stream fake_remove_rtp_stream E snk st = (out, st')"
  then show "ledger fake_open st'" using fake.add_sink_ledger by blast
next
  fix E i e
  assume "ledger fake_open st" "remove_sink fake_remove_rtp_stream E i st = (e, st')"
  then show "ledger fake_open st'" using fake.remove_sink_ledger[of st E i] by simp
qed

lemma session_init_ledger: "ledger fake_open (session_init (fake_driver_init r) domain dscp v)"
  by (simp add: ledger_def tables_ok_def session_init_def fake_driver_init_def fake_open_def
      owned_def hsum_def)

text \<open>C2: the driver's open streams are at all times exactly the streams of the configured
  sources and sinks, each stream owned by one of them: in every state the daemon reaches
  over its fake driver by adding, updating and removing sources and sinks, no stream leaks,
  none is closed while in use and no two owners share one.\<close>

theorem session_ledger_reachable:
  assumes "session_step\<^sup>*\<^sup>* (session_init (fake_driver_init r) domain dscp v) st"
  shows "mset_set (fake_open (ss_driver st)) =
    (\<Sum>(i, info) \<leftarrow> ss_sources st. if si_enabled info then info_handles info else {#}) +
    (\<Sum>(i, info) \<leftarrow> ss_sinks st. info_handles info)"
proof -
  from assms have "ledger fake_open st"
    by (induction rule: rtranclp_induct) (simp_all add: session_init_ledger session_step_ledger)
  then show ?thesis
    by (simp add: ledger_def owned_def hsum_def source_handles_def)
qed

end
