(* ===== verification/Session_Props.thy ===== *)
theory Session_Props
  imports Ledger
begin

text \<open>
  What the operations of the session manager return and change, branch by branch, over any
  driver; the places where the code does not do what it means to are stated as theorems.
\<close>

subsection \<open>A concrete configuration\<close>

definition sample_senv :: session_env where
  "sample_senv = \<lparr>e_sdp = sample_env, e_ip_addr = 0xC0A80111,
     e_rtp_mcast_base = dotted 0xEF010001, e_rtp_mcast_base_sec = dotted 0xEF020001,
     e_rtp_port = 5004, e_rtp_port_sec = 5006, e_if_name1 = ''eth1'', e_sec_ip = 0x0A000101,
     e_max_tic_frame_size = 1024, e_mac_addr = [2, 0, 0, 0, 0, 1], e_if1_mac = ([2, 0, 0, 0, 0, 2], ''x''),
     e_arp = (\<lambda>_ _. ([], [])), e_rand = 5, e_mcast_ok = True, e_decode_url = id,
     e_http_get = (\<lambda>_ _ _. None), e_rtsp_describe = (\<lambda>_ _ _. None)\<rparr>"

definition sample_source :: stream_source where
  "sample_source = \<lparr>src_id = 3, src_enabled = True, src_name = ''src'', src_io = ''Audio Device'',
     src_max_samples_per_packet = 48, src_codec = ''L24'', src_address = dotted 0xEF010005,
     src_address_sec = dotted 0xEF020006, src_use_secondary = True, src_ttl = 15,
     src_payload_type = 98, src_dscp = 34, src_refclk_ptp_traceable = False, src_map = [0, 1]\<rparr>"

lemma sample_env_conv [simp]:
  "e_aton sample_env (dotted a) = Some a" "e_ntoa sample_env = dotted" "e_codec_cap sample_env = 9"
  "e_name_cap sample_env = 63" "e_sec_ip_str sample_env \<noteq> []"
  by (simp_all add: sample_env_def)

lemma add_source_multicast:
  assumes "\<not> stream_id_max < src_id src" "aton E (src_address src) = Some dest" "in_multicast dest"
  shows "add_source add_rtp rm_rtp E src st =
    add_source_locked add_rtp rm_rtp E src
      (source_info E src (ss_version st) (source_leg E src dest (get_mcast_mac_addr dest) (src_ttl src)))
      (st\<lparr>ss_version := ss_version st + 1\<rparr>)"
  using assms by (simp add: add_source_def dest_or_base_def)

text \<open>An enabled source with two legs, under a free id and name, when both streams are
  accepted.\<close>

definition dual_info ::
  "session_env \<Rightarrow> stream_source \<Rightarrow> u32 \<Rightarrow> u32 \<Rightarrow> u32 \<Rightarrow> u64 \<Rightarrow> u64 \<Rightarrow> stream_info" where
  "dual_info E src dest dest2 v h0 h1 =
     (let leg0 = source_leg E src dest (get_mcast_mac_addr dest) (src_ttl src)
      in (source_info E src v leg0)
           \<lparr>si_stream := [leg0, source_leg2 E dest2 leg0], si_handle := [h0, h1],
            si_st20227_enabled := True\<rparr>)"

lemma add_source_dual:
  assumes "\<not> stream_id_max < src_id src" "aton E (src_address src) = Some dest" "in_multicast dest"
    "src_use_secondary src" "e_if_name1 E \<noteq> []" "e_sec_ip_str (e_sdp E) \<noteq> []"
    "aton E (src_address_sec src) = Some dest2" "src_enabled src"
    "map_of (ss_sources st) (src_id src) = None" "ss_source_names st (src_name src) = None"
    "\<forall>si. add_rtp si (ss_driver st) = (no_error, h0, d1)" "\<forall>si. add_rtp si d1 = (no_error, h1, d2)"
  shows "add_source add_rtp rm_rtp E src st =
    (Returns no_error, set_source (src_id src) (dual_info E src dest dest2 (ss_version st) h0 h1)
       (on_add_source E src (dual_info E src dest dest2 (ss_version st) h0 h1)
          (st\<lparr>ss_version := ss_version st + 1, ss_driver := d2\<rparr>)))"
  unfolding add_source_multicast[OF assms(1-3)]
  using assms(4-)
  by (simp add: add_source_locked_def add_source_leg2_def dest_or_base_def source_info_def
      new_info_def dual_info_def Let_def)

definition sample_state :: "fake_driver session" where
  "sample_state = snd (add_source fake_add_rtp_stream fake_remove_rtp_stream sample_senv sample_source
     (session_init (fake_driver_init 48000) 0 46 7))"

lemma sample_added:
  "add_source fake_add_rtp_stream fake_remove_rtp_stream sample_senv sample_source
     (session_init (fake_driver_init 48000) 0 46 7) = (Returns no_error, sample_state)"
  "map_of (ss_sources sample_state) 3 =
     Some (dual_info sample_senv sample_source 0xEF010005 0xEF020006 7 1 2)"
  "ss_sinks sample_state = []"
proof -
  let ?st = "session_init (fake_driver_init 48000) 0 46 7"
  let ?d1 = "(fake_driver_init 48000)\<lparr>fd_next := 1, fd_handles := {1}\<rparr>"
  have 1: "\<forall>si. fake_add_rtp_stream si (ss_driver ?st) = (no_error, 1, ?d1)"
    by (simp add: fake_add_rtp_stream_def session_init_def fake_driver_init_def)
  have 2: "\<forall>si. fake_add_rtp_stream si ?d1 = (no_error, 2, ?d1\<lparr>fd_next := 2, fd_handles := {1, 2}\<rparr>)"
    by (simp add: fake_add_rtp_stream_def fake_driver_init_def insert_commute)
  have a: "add_source fake_add_rtp_stream rm sample_senv sample_source ?st =
    (Returns no_error, set_source 3 (dual_info sample_senv sample_source 0xEF010005 0xEF020006 7 1 2)
       (on_add_source sample_senv sample_source (dual_info sample_senv sample_source 0xEF010005 0xEF020006 7 1 2)
          (?st\<lparr>ss_version := 8, ss_driver := ?d1\<lparr>fd_next := 2, fd_handles := {1, 2}\<rparr>\<rparr>)))" for rm
    using add_source_dual[where E = sample_senv and src = sample_source and st = ?st and rm_rtp = rm
        and dest = "0xEF010005" and ?dest2.0 = "0xEF020006", OF _ _ _ _ _ _ _ _ _ _ 1 2]
    by (simp add: sample_senv_def sample_source_def session_init_def stream_id_max_def in_multicast_def)
  show "add_source fake_add_rtp_stream fake_remove_rtp_stream sample_senv sample_source ?st = (Returns no_error, sample_state)"
    by (simp add: sample_state_def a)
  show "map_of (ss_sources sample_state) 3 = Some (dual_info sample_senv sample_source 0xEF010005 0xEF020006 7 1 2)"
    unfolding sample_state_def a by simp
  show "ss_sinks sample_state = []"
    unfolding sample_state_def a by (simp add: session_init_def)
qed

theorem session_ledger_reachable_witness:
  "mset_set (fake_open (ss_driver sample_state)) = hsum source_handles (ss_sources sample_state) + hsum info_handles (ss_sinks sample_state)"
proof -
  have "session_step (session_init (fake_driver_init 48000) 0 46 7) sample_state"
    by (rule step_add_source[OF sample_added(1)])
      (simp add: fake_room_def session_init_def fake_driver_init_def)
  then have "session_step\<^sup>*\<^sup>* (session_init (fake_driver_init 48000) 0 46 7) sample_state" by blast
  from session_ledger_reachable[OF this] show ?thesis
    by (simp add: hsum_def source_handles_def)
qed

subsection \<open>Adding a source\<close>

text \<open>A multicast source with a second leg, added under a free id and name, is stored with
  both stream handles; reading it back gives the same id, state, destination addresses, TTL,
  payload type, DSCP and channel map, the name and codec cut to the driver's arrays; its name
  is registered, and the observers are told once.\<close>

theorem add_source_get:
  assumes "\<not> stream_id_max < src_id src" "aton E (src_address src) = Some dest" "in_multicast dest"
    "src_use_secondary src" "e_if_name1 E \<noteq> []" "e_sec_ip_str (e_sdp E) \<noteq> []"
    "aton E (src_address_sec src) = Some dest2" "src_enabled src"
    "map_of (ss_sources st) (src_id src) = None" "ss_source_names st (src_name src) = None"
    "\<forall>si. add_rtp si (ss_driver st) = (no_error, h0, d1)" "\<forall>si. add_rtp si d1 = (no_error, h1, d2)"
    "length (src_map src) < 256"
  shows "\<exists>st'. add_source add_rtp rm_rtp E src st = (Returns no_error, st') \<and>
    get_source E (src_id src) st' = Inr (src
      \<lparr>src_name := strncpy (e_name_cap (e_sdp E)) (src_name src),
       src_codec := strncpy (e_codec_cap (e_sdp E)) (src_codec src),
       src_address := ntoa E dest, src_address_sec := ntoa E dest2\<rparr>) \<and>
    get_source_id (src_name src) st' = src_id src \<and> ss_driver st' = d2 \<and>
    ss_sinks st' = ss_sinks st \<and> length (ss_log st') = Suc (length (ss_log st))"
proof -
  have n: "unat (word_of_nat (length (src_map src)) :: u8) = length (src_map src)"
    using assms(13) by (simp add: unsigned_of_nat take_bit_nat_eq_self)
  show ?thesis
    unfolding add_source_dual[OF assms(1-12)]
    using assms(4,8)
    by (simp add: get_source_def get_source_of_def dual_info_def source_info_def source_leg_def
        new_info_def Let_def n get_source_id_def source_leg2_def)
      (simp add: on_add_source_def set_source_def Let_def igmp_stream_fields)
qed

theorem add_source_get_witness:
  "get_source sample_senv 3 sample_state = Inr (sample_source\<lparr>src_codec := ''L24''\<rparr>)"
proof -
  let ?st = "session_init (fake_driver_init 48000) 0 46 7"
  let ?d1 = "(fake_driver_init 48000)\<lparr>fd_next := 1, fd_handles := {1}\<rparr>"
  have 1: "\<forall>si. fake_add_rtp_stream si (ss_driver ?st) = (no_error, 1, ?d1)"
    by (simp add: fake_add_rtp_stream_def session_init_def fake_driver_init_def)
  have 2: "\<forall>si. fake_add_rtp_stream si ?d1 = (no_error, 2, ?d1\<lparr>fd_next := 2, fd_handles := {1, 2}\<rparr>)"
    by (simp add: fake_add_rtp_stream_def fake_driver_init_def insert_commute)
  from add_source_get[where E = sample_senv and src = sample_source and st = ?st
      and rm_rtp = fake_remove_rtp_stream and dest = "0xEF010005" and ?dest2.0 = "0xEF020006",
      OF _ _ _ _ _ _ _ _ _ _ 1 2] sample_added(1)
  show ?thesis
    by (simp add: sample_senv_def sample_source_def session_init_def stream_id_max_def
        in_multicast_def strncpy_def)
qed

text \<open>When an update of a one-leg source gets its first new stream but the driver refuses
  the second leg, the error is reported and the source is forgotten, but what is removed
  from the driver is the stream of the previous version (once more), not the new first
  leg: the new stream's handle is in no table and stays open.\<close>

theorem add_source_leg2_leak:
  assumes "\<not> stream_id_max < src_id src" "aton E (src_address src) = Some dest" "in_multicast dest"
    "src_use_secondary src" "e_if_name1 E \<noteq> []" "e_sec_ip_str (e_sdp E) \<noteq> []"
    "aton E (src_address_sec src) = Some dest2" "src_enabled src"
    "map_of (ss_sources st) (src_id src) = Some old" "si_enabled old" "\<not> si_st20227_enabled old"
    "rm_rtp (si_handle old ! 0) (ss_driver st) = (e0, d0)"
    "\<forall>si. add_rtp si d0 = (no_error, h0, d1)" "\<forall>si. add_rtp si d1 = (e, h1, d2)" "e \<noteq> no_error"
  shows "\<exists>st'. add_source add_rtp rm_rtp E src st = (Returns e, st') \<and>
    ss_driver st' = snd (rm_rtp (si_handle old ! 0) d2) \<and>
    map_of (ss_sources st') = (map_of (ss_sources st))(src_id src := None) \<and>
    ss_sinks st' = ss_sinks st"
  unfolding add_source_multicast[OF assms(1-3)]
  using assms(4-)
  by (simp add: add_source_locked_def add_source_leg2_def dest_or_base_def source_info_def
      new_info_def Let_def drop_old_legs_def)

text \<open>With no previous version of the source the same failure reads through \<open>sources_.end()\<close>.\<close>

theorem add_source_leg2_undefined:
  assumes "\<not> stream_id_max < src_id src" "aton E (src_address src) = Some dest" "in_multicast dest"
    "src_use_secondary src" "e_if_name1 E \<noteq> []" "e_sec_ip_str (e_sdp E) \<noteq> []"
    "aton E (src_address_sec src) = Some dest2" "src_enabled src"
    "map_of (ss_sources st) (src_id src) = None" "ss_source_names st (src_name src) = None"
    "\<forall>si. add_rtp si (ss_driver st) = (no_error, h0, d1)" "\<forall>si. add_rtp si d1 = (e, h1, d2)"
    "e \<noteq> no_error"
  shows "fst (add_source add_rtp rm_rtp E src st) = Undefined_behaviour"
  unfolding add_source_multicast[OF assms(1-3)]
  using assms(4-)
  by (simp add: add_source_locked_def add_source_leg2_def dest_or_base_def source_info_def
      new_info_def Let_def)

text \<open>A driver with one stream to give: its state says whether it was given and what is open.\<close>

definition one_add :: "rtp_stream_info \<Rightarrow> bool \<times> u64 set \<Rightarrow> error_code \<times> u64 \<times> bool \<times> u64 set" where
  "one_add si d = (if fst d then (driver_err drv_command_failed, 0, d) else (no_error, 9, True, insert 9 (snd d)))"

definition one_rm :: "u64 \<Rightarrow> bool \<times> u64 set \<Rightarrow> error_code \<times> bool \<times> u64 set" where
  "one_rm h d = (no_error, fst d, snd d - {h})"

theorem add_source_leg2_leak_witness:
  "\<exists>st st'. add_source one_add one_rm sample_senv sample_source st = (Returns (driver_err drv_command_failed), st') \<and>
     map_of (ss_sources st') 3 = None \<and> snd (ss_driver st') = {9}"
proof -
  let ?old = "new_info\<lparr>si_enabled := True, si_handle := [4, 0]\<rparr>"
  let ?st = "set_source 3 ?old (session_init (False, {4 :: u64}) 0 46 7)"
  have a: "\<forall>si. one_add si (False, {}) = (no_error, 9, True, {9})"
    by (simp add: one_add_def)
  have b: "\<forall>si. one_add si (True, {9}) = (driver_err drv_command_failed, 0, True, {9})"
    by (simp add: one_add_def)
  have c: "one_rm 4 (False, {4}) = (no_error, False, {})"
    by (simp add: one_rm_def)
  from add_source_leg2_leak[where E = sample_senv and src = sample_source and st = ?st and old = ?old
      and rm_rtp = one_rm and dest = "0xEF010005" and ?dest2.0 = "0xEF020006",
      OF _ _ _ _ _ _ _ _ _ _ _ _ a b]
  obtain st' where "add_source one_add one_rm sample_senv sample_source ?st = (Returns (driver_err drv_command_failed), st')"
    "ss_driver st' = snd (one_rm 4 (True, {9}))" "map_of (ss_sources st') = (map_of (ss_sources ?st))(3 := None)"
    by (auto simp: c sample_senv_def sample_source_def session_init_def stream_id_max_def
        in_multicast_def set_source_def new_info_def)
  then show ?thesis
    by (intro exI[of _ ?st] exI[of _ st']) (simp add: one_rm_def)
qed

theorem add_source_leg2_undefined_witness:
  "fst (add_source one_add one_rm sample_senv sample_source (session_init (False, {}) 0 46 7)) =
     Undefined_behaviour"
  by (rule add_source_leg2_undefined[where dest = "0xEF010005" and ?dest2.0 = "0xEF020006"
        and ?h0.0 = 9 and ?d1.0 = "(True, {9})" and e = "driver_err drv_command_failed"
        and ?h1.0 = 0 and ?d2.0 = "(True, {9})"])
    (simp_all add: one_add_def sample_senv_def sample_source_def session_init_def
      stream_id_max_def in_multicast_def)

text \<open>The Ethernet address stored for the second leg of a redundant source is the one of the
  first leg's group; it is the right one for the second leg's group only when the two groups
  agree in their low 23 bits.\<close>

theorem source_second_leg_mac:
  "m_ui8DestMAC (leg (dual_info E src dest dest2 v h0 h1) 1) =
     get_mcast_mac_addr (m_ui32DestIP (leg (dual_info E src dest dest2 v h0 h1) 1))
   \<longleftrightarrow> dest AND 0x7FFFFF = dest2 AND 0x7FFFFF"
  by (simp add: dual_info_def source_info_def source_leg2_def source_leg_def Let_def
      get_mcast_mac_addr_eq)

text \<open>The check that a name is free is made for new ids only.  Updating a source to another
  source's name succeeds and the name then denotes the updated source, while the other
  source keeps its entry and its name.\<close>

theorem update_takes_name:
  assumes "\<not> stream_id_max < src_id src" "aton E (src_address src) = Some dest" "in_multicast dest"
    "\<not> src_use_secondary src" "src_enabled src"
    "map_of (ss_sources st) (src_id src) = Some old" "\<not> si_enabled old"
    "map_of (ss_sources st) j = Some other" "j \<noteq> src_id src" "ss_source_names st (src_name src) = Some j"
    "\<forall>si. add_rtp si (ss_driver st) = (no_error, h0, d1)"
  shows "\<exists>st'. add_source add_rtp rm_rtp E src st = (Returns no_error, st') \<and>
    get_source_id (src_name src) st' = src_id src \<and> map_of (ss_sources st') j = Some other"
  unfolding add_source_multicast[OF assms(1-3)]
  using assms(4-)
  by (simp add: add_source_locked_def add_source_leg2_def source_info_def new_info_def Let_def
      drop_old_source_def get_source_id_def)
    (simp add: on_add_source_def set_source_def Let_def)

theorem update_takes_name_witness:
  "\<exists>st st'. add_source fake_add_rtp_stream fake_remove_rtp_stream sample_senv
     (sample_source\<lparr>src_use_secondary := False\<rparr>) st = (Returns no_error, st') \<and>
     get_source_id ''src'' st = 5 \<and> get_source_id ''src'' st' = 3"
proof -
  let ?d = "fake_driver_init 48000"
  let ?st = "(session_init ?d 0 46 7)\<lparr>ss_sources := [(3, new_info), (5, new_info\<lparr>si_enabled := True\<rparr>)],
    ss_source_names := [''src'' \<mapsto> 5]\<rparr>"
  have a: "\<forall>si. fake_add_rtp_stream si ?d = (no_error, 1, ?d\<lparr>fd_next := 1, fd_handles := {1}\<rparr>)"
    by (simp add: fake_add_rtp_stream_def fake_driver_init_def)
  obtain st' where "add_source fake_add_rtp_stream fake_remove_rtp_stream sample_senv
      (sample_source\<lparr>src_use_secondary := False\<rparr>) ?st = (Returns no_error, st')"
    "get_source_id (src_name sample_source) st' = src_id sample_source"
    using update_takes_name[where E = sample_senv and src = "sample_source\<lparr>src_use_secondary := False\<rparr>"
      and st = ?st and old = new_info and j = 5 and other = "new_info\<lparr>si_enabled := True\<rparr>"
      and rm_rtp = fake_remove_rtp_stream and dest = "0xEF010005" and add_rtp = fake_add_rtp_stream
      and ?h0.0 = 1 and ?d1.0 = "?d\<lparr>fd_next := 1, fd_handles := {1}\<rparr>"] a
    by (auto simp: sample_senv_def sample_source_def session_init_def stream_id_max_def
        in_multicast_def new_info_def)
  moreover have "get_source_id ''src'' ?st = 5" by (simp add: get_source_id_def)
  ultimately show ?thesis
    by (intro exI[of _ ?st] exI[of _ st']) (simp add: sample_source_def)
qed

end
