(* ===== verification/Announce.thy ===== *)
theory Announce
  imports Sessions
begin

text \<open>
  The periodic work of the session manager: \<open>process_sap\<close>, which announces the enabled
  sources and sends the deletions of those that are gone, the interval it computes,
  \<open>get_updated_sinks\<close>, \<open>on_update_sources\<close>, the PTP status update of \<open>worker\<close> and the
  stream status queries.
\<close>

subsection \<open>Announcing\<close>

datatype sap_msg = Announce u16 u32 string | Delete u16 u32 string

text \<open>\<open>announced_sources_\<close> (message hash to address, session id and version) and
  \<open>deleted_sources_count_\<close>.\<close>

record announcer =
  an_announced :: "(u32 \<times> u32 \<times> u32 \<times> u32) list"
  an_deleted :: "u32 \<Rightarrow> int option"

definition announcer_init :: announcer where
  "announcer_init = \<lparr>an_announced = [], an_deleted = Map.empty\<rparr>"

definition sdp_crc :: "string \<Rightarrow> u16" where
  "sdp_crc sdp = crc16 (map byte_of_char sdp)"

definition msg_id_hash :: "u8 \<Rightarrow> u16 \<Rightarrow> u32" where
  "msg_id_hash i crc = push_bit 16 (ucast i) + ucast crc"

text \<open>One enabled source: its hash, what is recorded of it, its CRC and its SDP.\<close>

definition announce_entry ::
  "session_env \<Rightarrow> 'd session \<Rightarrow> u8 \<times> stream_info \<Rightarrow> u32 \<times> (u32 \<times> u32 \<times> u32) \<times> u16 \<times> string" where
  "announce_entry E st x =
     (let (i, info) = x; sdp = get_source_sdp_text (sdp_env_of E st) info; crc = sdp_crc sdp
      in (msg_id_hash i crc,
          (m_ui32RTCPSrcIP (leg info 0), si_session_id info, si_session_version info), crc, sdp))"

definition announce_entries ::
  "session_env \<Rightarrow> 'd session \<Rightarrow> (u32 \<times> (u32 \<times> u32 \<times> u32) \<times> u16 \<times> string) list" where
  "announce_entries E st = map (announce_entry E st) (filter (\<lambda>(i, info). si_enabled info) (ss_sources st))"

definition count_of :: "(u32 \<Rightarrow> int option) \<Rightarrow> u32 \<Rightarrow> int" where
  "count_of m h = (case m h of None \<Rightarrow> 0 | Some c \<Rightarrow> c)"

text \<open>The three loops of \<open>process_sap\<close> on the announcer's tables, for given entries.\<close>

definition announce_active ::
  "(u32 \<times> (u32 \<times> u32 \<times> u32) \<times> u16 \<times> string) list \<Rightarrow> announcer \<Rightarrow> announcer" where
  "announce_active es an = fold (\<lambda>(h, t, crc, sdp) an.
     an\<lparr>an_announced := smap_upd h t (an_announced an), an_deleted := (an_deleted an)(h := None)\<rparr>) es an"

definition count_deletions :: "(u32 \<times> u32 \<times> u32 \<times> u32) list \<Rightarrow> (u32 \<Rightarrow> int option) \<Rightarrow> u32 \<Rightarrow> int option" where
  "count_deletions gone m = fold (\<lambda>(h, t) m. m(h \<mapsto> count_of m h + 1)) gone m"

text \<open>\<open>erase_if\<close>: the test indexes the counter table, which creates the entry.\<close>

definition forget_deleted :: "announcer \<Rightarrow> announcer" where
  "forget_deleted an = fold (\<lambda>(h, t) an'.
       (let c = count_of (an_deleted an') h
        in if int sap_max_deletions \<le> c
           then an'\<lparr>an_deleted := (an_deleted an')(h := None), an_announced := smap_del h (an_announced an')\<rparr>
           else an'\<lparr>an_deleted := (an_deleted an')(h \<mapsto> c)\<rparr>))
     (an_announced an) an"

definition gone_entries ::
  "(u32 \<times> (u32 \<times> u32 \<times> u32) \<times> u16 \<times> string) list \<Rightarrow> announcer \<Rightarrow> (u32 \<times> u32 \<times> u32 \<times> u32) list" where
  "gone_entries es an = filter (\<lambda>(h, t). h \<notin> fst ` set es) (an_announced an)"

definition delete_msg :: "session_env \<Rightarrow> u32 \<times> u32 \<times> u32 \<times> u32 \<Rightarrow> sap_msg" where
  "delete_msg E x = (case x of (h, addr, sid, sver) \<Rightarrow>
     Delete (ucast h) addr (get_removed_source_sdp (e_sdp E) addr sid sver))"

definition announce_msg :: "u32 \<times> (u32 \<times> u32 \<times> u32) \<times> u16 \<times> string \<Rightarrow> sap_msg" where
  "announce_msg x = (case x of (h, (addr, _), crc, sdp) \<Rightarrow> Announce crc addr sdp)"

fun msg_len :: "sap_msg \<Rightarrow> nat" where
  "msg_len (Announce _ _ sdp) = length sdp"
| "msg_len (Delete _ _ sdp) = length sdp"

definition process_entries ::
  "session_env \<Rightarrow> (u32 \<times> (u32 \<times> u32 \<times> u32) \<times> u16 \<times> string) list \<Rightarrow> announcer \<Rightarrow> sap_msg list \<times> announcer" where
  "process_entries E es an =
     (let an1 = announce_active es an;
          gone = gone_entries es an1;
          an2 = an1\<lparr>an_deleted := count_deletions gone (an_deleted an1)\<rparr>
      in (map announce_msg es @ map (delete_msg E) gone, forget_deleted an2))"

definition process_sap ::
  "session_env \<Rightarrow> 'd session \<Rightarrow> announcer \<Rightarrow> nat \<times> sap_msg list \<times> announcer" where
  "process_sap E st an =
     (case process_entries E (announce_entries E st) an of
        (msgs, an') \<Rightarrow> (sum_list (map msg_len msgs), msgs, an'))"

text \<open>The next interval of \<open>worker\<close>: configured, or from the bandwidth with a random part.\<close>

definition next_sap_interval :: "u16 \<Rightarrow> nat \<Rightarrow> nat \<Rightarrow> int" where
  "next_sap_interval cfg sdp_len_sum rnd =
     (if cfg \<noteq> 0 then int (unat cfg)
      else (let base = int (max sap_min_interval (sdp_len_sum * 8 div sap_bandwidth_limit))
            in base + (int rnd mod (base * 2 div 3)) - base div 3))"

text \<open>The deletions sent when \<open>worker\<close> ends.\<close>

definition final_deletions :: "session_env \<Rightarrow> announcer \<Rightarrow> sap_msg list" where
  "final_deletions E an = map (delete_msg E) (an_announced an)"

text \<open>With the automatic interval, the time to the next announcement round is within a third
  of the larger of 300 seconds and the time the announced text needs at 4000 bit/s.\<close>

theorem next_sap_interval_bounds:
  "let base = int (max 300 (len * 8 div 4000))
   in base - base div 3 \<le> next_sap_interval 0 len rnd \<and>
      next_sap_interval 0 len rnd < base + base * 2 div 3 - base div 3"
proof -
  define base where "base = int (max 300 (len * 8 div 4000))"
  have b: "300 \<le> base" by (simp add: base_def)
  then have "0 < base * 2 div 3" by linarith
  then have "0 \<le> int rnd mod (base * 2 div 3)" "int rnd mod (base * 2 div 3) < base * 2 div 3"
    by simp_all
  then show ?thesis
    by (simp add: next_sap_interval_def sap_consts base_def Let_def)
qed

subsection \<open>One hash through a round\<close>

definition announcer_ok :: "announcer \<Rightarrow> bool" where
  "announcer_ok an \<longleftrightarrow> smap_ok (an_announced an)"

lemma announce_active_eff:
  "smap_ok (an_announced an) \<Longrightarrow> smap_ok (an_announced (announce_active es an)) \<and>
   an_deleted (announce_active es an) h = (if h \<in> fst ` set es then None else an_deleted an h) \<and>
   (h \<notin> fst ` set es \<longrightarrow> map_of (an_announced (announce_active es an)) h = map_of (an_announced an) h) \<and>
   (h \<in> fst ` set es \<longrightarrow> map_of (an_announced (announce_active es an)) h \<noteq> None)"
proof (induction es arbitrary: an)
  case (Cons x es)
  obtain k t crc sdp where x: "x = (k, t, crc, sdp)" by (cases x)
  let ?an = "an\<lparr>an_announced := smap_upd k t (an_announced an), an_deleted := (an_deleted an)(k := None)\<rparr>"
  have "announce_active (x # es) an = announce_active es ?an"
    by (simp add: announce_active_def x)
  with Cons.IH[of ?an] Cons.prems x show ?case
    by (cases t) (auto simp: smap_ok_upd split: if_splits)
qed (simp add: announce_active_def)

lemma count_deletions_eff:
  "distinct (map fst gone) \<Longrightarrow>
   count_deletions gone m h = (if h \<in> fst ` set gone then Some (count_of m h + 1) else m h)"
proof (induction gone arbitrary: m)
  case (Cons x gone)
  obtain k t where x: "x = (k, t)" by (metis surj_pair)
  then have "count_deletions (x # gone) m = count_deletions gone (m(k \<mapsto> count_of m k + 1))"
    by (simp add: count_deletions_def)
  with Cons x show ?case
    by (auto simp: count_of_def)
qed (simp add: count_deletions_def)

lemma forget_fold:
  assumes "distinct (map fst xs)"
  shows "let an' = fold (\<lambda>(h, t) an'.
       (let c = count_of (an_deleted an') h
        in if int sap_max_deletions \<le> c
           then an'\<lparr>an_deleted := (an_deleted an')(h := None), an_announced := smap_del h (an_announced an')\<rparr>
           else an'\<lparr>an_deleted := (an_deleted an')(h \<mapsto> c)\<rparr>)) xs an
     in (smap_ok (an_announced an) \<longrightarrow> smap_ok (an_announced an')) \<and>
        map_of (an_announced an') h = (if h \<in> fst ` set xs \<and> 3 \<le> count_of (an_deleted an) h
           then None else map_of (an_announced an) h) \<and>
        an_deleted an' h = (if h \<in> fst ` set xs
           then (if 3 \<le> count_of (an_deleted an) h then None else Some (count_of (an_deleted an) h))
           else an_deleted an h)"
  using assms
proof (induction xs arbitrary: an)
  case (Cons x xs)
  obtain k t where x: "x = (k, t)" by (metis surj_pair)
  define an1 where "an1 = (let c = count_of (an_deleted an) k
        in if int sap_max_deletions \<le> c
           then an\<lparr>an_deleted := (an_deleted an)(k := None), an_announced := smap_del k (an_announced an)\<rparr>
           else an\<lparr>an_deleted := (an_deleted an)(k \<mapsto> c)\<rparr>)"
  have k: "k \<notin> fst ` set xs" using Cons.prems x by simp
  have "h \<noteq> k \<Longrightarrow> count_of (an_deleted an1) h = count_of (an_deleted an) h"
    by (simp add: an1_def Let_def count_of_def)
  then show ?case
    using Cons.IH[of an1] Cons.prems x k
    by (simp add: Let_def an1_def[symmetric] split del: if_split)
      (auto simp: an1_def Let_def sap_max_deletions_def smap_ok_del split: if_splits)
qed simp

text \<open>One announcement round, seen for one message hash.  If an enabled source has it, it is
  announced, kept, and its deletion count starts over.  If it was announced and no source
  has it any more, one deletion is counted; at the third, hash and count are forgotten.
  A hash that was not announced is not touched.\<close>

theorem process_entries_hash:
  assumes "announcer_ok an" and "process_entries E es an = (msgs, an')"
  shows "announcer_ok an' \<and>
    (if h \<in> fst ` set es
     then map_of (an_announced an') h \<noteq> None \<and> an_deleted an' h = Some 0
     else if map_of (an_announced an) h = None
     then map_of (an_announced an') h = None \<and> an_deleted an' h = an_deleted an h
     else if 3 \<le> count_of (an_deleted an) h + 1
     then map_of (an_announced an') h = None \<and> an_deleted an' h = None
     else map_of (an_announced an') h = map_of (an_announced an) h \<and>
          an_deleted an' h = Some (count_of (an_deleted an) h + 1))"
proof -
  define an1 where "an1 = announce_active es an"
  define gone where "gone = gone_entries es an1"
  define an2 where "an2 = an1\<lparr>an_deleted := count_deletions gone (an_deleted an1)\<rparr>"
  have an': "an' = forget_deleted an2"
    using assms(2) by (auto simp: process_entries_def Let_def an1_def gone_def an2_def)
  note a1 = announce_active_eff[of an es h, folded an1_def]
  have ok1: "smap_ok (an_announced an1)" using a1 assms(1) by (simp add: announcer_ok_def)
  have d: "distinct (map fst (an_announced an1))" using ok1 by (rule smap_ok_distinct)
  have dg: "distinct (map fst gone)"
    unfolding gone_def gone_entries_def using d by (rule distinct_map_filter)
  have inann: "h \<in> fst ` set (an_announced an1) \<longleftrightarrow> map_of (an_announced an1) h \<noteq> None"
    by (simp add: map_of_eq_None_iff)
  have ingone: "h \<in> fst ` set gone \<longleftrightarrow> map_of (an_announced an1) h \<noteq> None \<and> h \<notin> fst ` set es"
    unfolding inann[symmetric] gone_def gone_entries_def by force
  have f: "smap_ok (an_announced an') \<and>
        map_of (an_announced an') h = (if h \<in> fst ` set (an_announced an1) \<and> 3 \<le> count_of (an_deleted an2) h
           then None else map_of (an_announced an1) h) \<and>
        an_deleted an' h = (if h \<in> fst ` set (an_announced an1)
           then (if 3 \<le> count_of (an_deleted an2) h then None else Some (count_of (an_deleted an2) h))
           else an_deleted an2 h)"
    using forget_fold[OF d, of an2 h] ok1 unfolding an' forget_deleted_def
    by (simp add: Let_def an2_def)
  have c2: "an_deleted an2 h = (if h \<in> fst ` set gone then Some (count_of (an_deleted an1) h + 1) else an_deleted an1 h)"
    using count_deletions_eff[OF dg] by (simp add: an2_def)
  have okan: "smap_ok (an_announced an)" using assms(1) by (simp add: announcer_ok_def)
  show ?thesis
    using f a1 okan inann ingone c2 unfolding announcer_ok_def
    by (auto simp: count_of_def)
qed

text \<open>The hashes a round sends deletions for, each once.\<close>

definition deleted_hashes ::
  "(u32 \<times> (u32 \<times> u32 \<times> u32) \<times> u16 \<times> string) list \<Rightarrow> announcer \<Rightarrow> u32 list" where
  "deleted_hashes es an = map fst (gone_entries es (announce_active es an))"

lemma deleted_hashes_iff:
  "announcer_ok an \<Longrightarrow> h \<in> set (deleted_hashes es an) \<longleftrightarrow> map_of (an_announced an) h \<noteq> None \<and> h \<notin> fst ` set es"
proof -
  assume ok: "announcer_ok an"
  have "h \<in> set (deleted_hashes es an) \<longleftrightarrow>
      map_of (an_announced (announce_active es an)) h \<noteq> None \<and> h \<notin> fst ` set es"
    unfolding deleted_hashes_def gone_entries_def map_of_eq_None_iff by force
  moreover have "smap_ok (an_announced an)" using ok by (simp add: announcer_ok_def)
  ultimately show ?thesis using announce_active_eff[of an es h] by metis
qed


lemma hash_or: "msg_id_hash i crc = push_bit 16 (ucast i) OR ucast crc"
  unfolding msg_id_hash_def by (rule disjunctive_add) (auto simp: bit_simps dest: bit_imp_le_length)

lemma hash_low: "ucast (msg_id_hash i crc) = crc"
  unfolding hash_or by (rule bit_word_eqI) (auto simp: bit_simps)

lemma hash_high: "drop_bit 16 (msg_id_hash i crc) = ucast i"
  unfolding hash_or by (rule bit_word_eqI) (auto simp: bit_simps dest: bit_imp_le_length)

lemma ucast_u8_u32_inj: "(ucast (i :: u8) :: u32) = ucast j \<Longrightarrow> i = j"
proof (rule bit_word_eqI)
  fix n
  assume eq: "(ucast i :: u32) = ucast j" and n: "n < LENGTH(8)"
  have "bit (ucast i :: u32) n = bit (ucast j :: u32) n" by (simp only: eq)
  with n show "bit i n = bit j n" by (simp add: bit_simps)
qed

text \<open>Different sources never share a hash.\<close>

lemma hash_inj: "msg_id_hash i crc = msg_id_hash j crc' \<longleftrightarrow> i = j \<and> crc = crc'"
  by (metis hash_high hash_low ucast_u8_u32_inj)

definition sample_entry :: "u32 \<times> (u32 \<times> u32 \<times> u32) \<times> u16 \<times> string" where
  "sample_entry = (0x3ABCD, (1, 2, 3), 0xABCD, ''v=0'')"

theorem process_entries_hash_witness:
  "\<exists>an. process_entries undefined [sample_entry] announcer_init = ([Announce 0xABCD 1 ''v=0''], an) \<and>
     an_deleted an 0x3ABCD = Some 0"
proof -
  obtain msgs an where p: "process_entries undefined [sample_entry] announcer_init = (msgs, an)" by fastforce
  moreover have "msgs = [Announce 0xABCD 1 ''v=0'']"
    using p by (simp add: process_entries_def Let_def announce_active_def gone_entries_def sample_entry_def
        announcer_init_def announce_msg_def)
  moreover have "an_deleted an 0x3ABCD = Some 0"
    using process_entries_hash[OF _ p, of "0x3ABCD"]
    by (simp add: announcer_ok_def announcer_init_def sample_entry_def)
  ultimately show ?thesis by simp
qed

definition sample_announcer :: announcer where
  "sample_announcer = \<lparr>an_announced = [(0x3ABCD, (1, 2, 3))], an_deleted = [0x3ABCD \<mapsto> 0]\<rparr>"


subsection \<open>Updating sinks and sources\<close>

text \<open>\<open>get_updated_sinks\<close>: the inner loop keeps the highest version found and the SDP that goes
  with it; the comparison with \<open>sink.sdp\<close> uses the SDP chosen so far.\<close>

definition update_candidate :: "sdp_origin \<Rightarrow> remote_source \<Rightarrow> bool" where
  "update_candidate og rs \<longleftrightarrow> o_session_id (rs_origin rs) \<noteq> [] \<and> origin_eq og (rs_origin rs) \<and>
     o_session_version og < o_session_version (rs_origin rs)"

definition update_step :: "sdp_origin \<Rightarrow> remote_source \<Rightarrow> u64 \<times> string \<Rightarrow> u64 \<times> string" where
  "update_step og rs acc =
     (let (newv, sdp) = acc
      in if o_session_id (rs_origin rs) = [] then acc
         else if origin_eq og (rs_origin rs) \<and> sdp \<noteq> rs_sdp rs \<and>
                 o_session_version og < o_session_version (rs_origin rs) \<and>
                 newv < o_session_version (rs_origin rs)
              then (o_session_version (rs_origin rs), rs_sdp rs) else acc)"

definition newest_sdp :: "sdp_origin \<Rightarrow> string \<Rightarrow> remote_source list \<Rightarrow> u64 \<times> string" where
  "newest_sdp og sdp rss = fold (update_step og) rss (0, sdp)"

definition get_updated_sinks :: "remote_source list \<Rightarrow> 'd session \<Rightarrow> stream_sink list" where
  "get_updated_sinks rss st = concat (map (\<lambda>(i, info).
     (case newest_sdp (si_origin info) (snk_sdp (get_sink_of i info)) rss of
        (v, sdp) \<Rightarrow> if v \<noteq> 0 then [(get_sink_of i info)\<lparr>snk_sdp := sdp\<rparr>] else []))
     (ss_sinks st))"

text \<open>\<open>update_sinks\<close> when automatic updates are on: the sinks to add again and the new time
  stamp; \<open>last_update\<close> is the browser's.\<close>

definition update_sinks ::
  "(rtp_stream_info \<Rightarrow> 'd \<Rightarrow> error_code \<times> u64 \<times> 'd) \<Rightarrow> (u64 \<Rightarrow> 'd \<Rightarrow> error_code \<times> 'd) \<Rightarrow>
   session_env \<Rightarrow> u32 \<Rightarrow> remote_source list \<Rightarrow> u32 \<times> 'd session \<Rightarrow> u32 \<times> 'd session" where
  "update_sinks add_rtp rm_rtp E last_update rss x =
     (let (last_sink_update, st) = x
      in if last_update \<noteq> 0 \<and> last_sink_update \<noteq> last_update
         then (last_update, fold (\<lambda>sink st. snd (add_sink add_rtp rm_rtp E sink st)) (get_updated_sinks rss st) st)
         else (last_sink_update, st))"

text \<open>\<open>on_update_sources\<close> with \<open>n\<close> observers: the version of a source grows once per observer,
  each sees its own; the global version grows by one.\<close>

fun notify_updates :: "session_env \<Rightarrow> u8 \<Rightarrow> nat \<Rightarrow> stream_info \<Rightarrow> 'd session \<Rightarrow> stream_info \<times> 'd session" where
  "notify_updates E i 0 info st = (info, st)"
| "notify_updates E i (Suc n) info st =
     (let info = info\<lparr>si_session_version := si_session_version info + 1\<rparr>
      in notify_updates E i n info (st\<lparr>ss_log := ss_log st @
           [Source_updated i (m_cName (leg info 0)) (get_source_sdp_text (sdp_env_of E st) info)]\<rparr>))"

definition on_update_sources :: "session_env \<Rightarrow> nat \<Rightarrow> 'd session \<Rightarrow> 'd session" where
  "on_update_sources E n st =
     (let st' = fold (\<lambda>(i, info) st.
            (case notify_updates E i n info st of (info', st') \<Rightarrow> set_source i info' st')) (ss_sources st) st
      in st'\<lparr>ss_version := ss_version st' + 1\<rparr>)"

abbreviation version_of :: "remote_source \<Rightarrow> u64" where
  "version_of rs \<equiv> o_session_version (rs_origin rs)"

definition newest_ok :: "sdp_origin \<Rightarrow> string \<Rightarrow> remote_source list \<Rightarrow> u64 \<times> string \<Rightarrow> bool" where
  "newest_ok og sdp rss r \<longleftrightarrow>
     (if filter (update_candidate og) rss = [] then r = (0, sdp)
      else (\<exists>c \<in> set rss. update_candidate og c \<and> r = (version_of c, rs_sdp c)) \<and>
           (\<forall>c \<in> set rss. update_candidate og c \<longrightarrow> version_of c \<le> fst r))"

lemma update_step_cases:
  "update_step og x (v, s) = (if update_candidate og x \<and> s \<noteq> rs_sdp x \<and> v < version_of x
     then (version_of x, rs_sdp x) else (v, s))"
  by (auto simp: update_step_def update_candidate_def)

lemma newest_ok_step:
  assumes "newest_ok og sdp xs (v, s)"
    and "update_candidate og x \<Longrightarrow> s = rs_sdp x \<Longrightarrow> version_of x = v"
  shows "newest_ok og sdp (xs @ [x]) (update_step og x (v, s))"
proof (cases "update_candidate og x")
  case False
  with assms(1) show ?thesis by (auto simp: update_step_cases newest_ok_def)
next
  case True
  then have "version_of x \<noteq> 0" by (auto simp: update_candidate_def)
  then have pos: "0 < version_of x" by (simp add: word_gt_0)
  show ?thesis
  proof (cases "v < version_of x")
    case lt: True
    then have "s \<noteq> rs_sdp x" using assms(2) True by auto
    with True lt have u: "update_step og x (v, s) = (version_of x, rs_sdp x)" by (simp add: update_step_cases)
    have "\<forall>c \<in> set xs. update_candidate og c \<longrightarrow> version_of c \<le> version_of x"
      using assms(1) lt by (auto simp: newest_ok_def filter_empty_conv split: if_splits)
    then show ?thesis unfolding u using True by (simp add: newest_ok_def)
  next
    case ge: False
    then have u: "update_step og x (v, s) = (v, s)" by (simp add: update_step_cases)
    have "filter (update_candidate og) xs \<noteq> []"
      using assms(1) ge pos by (auto simp: newest_ok_def split: if_splits)
    then show ?thesis
      unfolding u using assms(1) ge by (auto simp: newest_ok_def)
  qed
qed

text \<open>An automatic update always takes the newest version on offer.  When equal SDP texts
  carry equal versions (as they do in the browser's table), the SDP chosen for a sink is that
  of a matching remote source whose version is the highest of all matching sources newer
  than the sink's; the sink is left alone exactly when there is no such source.\<close>

theorem newest_sdp_max:
  assumes eqtxt: "\<forall>a \<in> set rss. \<forall>b \<in> set rss. rs_sdp a = rs_sdp b \<longrightarrow> version_of a = version_of b"
    and new: "\<forall>a \<in> set rss. update_candidate og a \<longrightarrow> rs_sdp a \<noteq> sdp"
  shows "if filter (update_candidate og) rss = [] then newest_sdp og sdp rss = (0, sdp)
    else (\<exists>c \<in> set rss. update_candidate og c \<and> newest_sdp og sdp rss = (version_of c, rs_sdp c)) \<and>
         (\<forall>c \<in> set rss. update_candidate og c \<longrightarrow> version_of c \<le> fst (newest_sdp og sdp rss))"
proof -
  have "newest_ok og sdp xs (fold (update_step og) xs (0, sdp))" if "set xs \<subseteq> set rss" for xs
    using that
  proof (induction xs rule: rev_induct)
    case Nil
    show ?case by (simp add: newest_ok_def)
  next
    case (snoc x xs)
    obtain v s where vs: "fold (update_step og) xs (0, sdp) = (v, s)" by fastforce
    have IH: "newest_ok og sdp xs (v, s)" using snoc vs by simp
    have x: "x \<in> set rss" and sub: "set xs \<subseteq> set rss" using snoc.prems by auto
    have "version_of x = v" if c: "update_candidate og x" "s = rs_sdp x"
    proof (cases "filter (update_candidate og) xs = []")
      case True
      with IH have "s = sdp" by (simp add: newest_ok_def)
      with new x c show ?thesis by metis
    next
      case False
      then obtain c where "c \<in> set xs" "v = version_of c" "s = rs_sdp c"
        using IH by (auto simp: newest_ok_def)
      with eqtxt x sub c(2) show ?thesis by (metis subsetD)
    qed
    then have "newest_ok og sdp (xs @ [x]) (update_step og x (v, s))"
      by (intro newest_ok_step[OF IH])
    then show ?case by (simp only: fold_append comp_def fold_simps vs)
  qed
  from this[OF subset_refl] show ?thesis
    by (simp only: newest_sdp_def newest_ok_def)
qed

definition sample_remote :: "u64 \<Rightarrow> string \<Rightarrow> remote_source" where
  "sample_remote v sdp = \<lparr>rs_id = sdp, rs_source = ''SAP'', rs_address = [], rs_name = [], rs_domain = [],
     rs_origin = no_origin\<lparr>o_session_id := ''1'', o_session_version := v\<rparr>, rs_sdp = sdp,
     rs_last_seen = 0, rs_announce_period = 0\<rparr>"

lemma sample_remote_simps [simp]:
  "version_of (sample_remote v sdp) = v" "rs_sdp (sample_remote v sdp) = sdp"
  "update_candidate (no_origin\<lparr>o_session_id := ''1'', o_session_version := w\<rparr>) (sample_remote v sdp) \<longleftrightarrow> w < v"
  by (simp_all add: sample_remote_def update_candidate_def origin_eq_def no_origin_def)

theorem newest_sdp_max_witness:
  "newest_sdp (no_origin\<lparr>o_session_id := ''1'', o_session_version := 3\<rparr>) ''old''
     [sample_remote 5 ''a'', sample_remote 9 ''b'', sample_remote 7 ''c''] = (9, ''b'')"
  using newest_sdp_max[of "[sample_remote 5 ''a'', sample_remote 9 ''b'', sample_remote 7 ''c'']"
      "no_origin\<lparr>o_session_id := ''1'', o_session_version := 3\<rparr>" "''old''"]
  by auto

subsection \<open>PTP status\<close>

text \<open>What the driver reports, and the manager's \<open>PTPStatus\<close>.\<close>

datatype ptp_lock = Ptp_unlocked | Ptp_locking | Ptp_locked

record driver_ptp =
  dp_lock :: ptp_lock
  dp_gmid :: u64
  dp_jitter :: int
  dp_active :: u8
  dp_leg_lock :: "ptp_lock \<times> ptp_lock"
  dp_leg_gmid :: "u64 \<times> u64"

record ptp_status =
  pt_status :: string
  pt_gmid :: string
  pt_jitter :: int
  pt_active_leg :: int
  pt_leg0_status :: string
  pt_leg1_status :: string
  pt_leg0_gmid :: string
  pt_leg1_gmid :: string
  pt_legs_aligned :: bool

fun lock_str :: "ptp_lock \<Rightarrow> string" where
  "lock_str Ptp_locked = ''locked''"
| "lock_str Ptp_locking = ''locking''"
| "lock_str Ptp_unlocked = ''unlocked''"

text \<open>\<open>format_gmid\<close>: the eight bytes in memory order, lower case, with dashes.\<close>

definition format_gmid :: "u64 \<Rightarrow> string" where
  "format_gmid g = join_with ''-''
     (map (\<lambda>i. show_hex_pad 2 (unat (ucast (drop_bit (8 * i) g) :: u8))) [0, 1, 2, 3, 4, 5, 6, 7])"

text \<open>One turn of the PTP part of \<open>worker\<close>: the new status, the status change to report
  (empty when there is none) and whether the grandmaster changed.\<close>

definition ptp_update :: "driver_ptp \<Rightarrow> ptp_status \<Rightarrow> ptp_status \<times> string \<times> bool" where
  "ptp_update d p =
     (let gmid = format_gmid (dp_gmid d);
          g0 = format_gmid (fst (dp_leg_gmid d)); g1 = format_gmid (snd (dp_leg_gmid d));
          s0 = lock_str (fst (dp_leg_lock d)); s1 = lock_str (snd (dp_leg_lock d));
          new = lock_str (dp_lock d)
      in (\<lparr>pt_status = new, pt_gmid = gmid, pt_jitter = dp_jitter d,
           pt_active_leg = int (unat (dp_active d)), pt_leg0_status = s0, pt_leg1_status = s1,
           pt_leg0_gmid = g0, pt_leg1_gmid = g1,
           pt_legs_aligned = (\<not> (s0 = ''locked'' \<and> s1 = ''locked'' \<and> g0 \<noteq> g1))\<rparr>,
          if pt_status p \<noteq> new then new else [], pt_gmid p \<noteq> gmid))"

lemma show_hex_two: "show_hex_pad 2 n = [hex_char (n div 16 mod 16), hex_char (n mod 16)]"
  by (simp add: numeral_2_eq_2)

lemma hex_char_inj: "a < 16 \<Longrightarrow> b < 16 \<Longrightarrow> hex_char a = hex_char b \<Longrightarrow> a = b"
proof -
  have c: "of_char (hex_char d) = (if d < 10 then 48 + d else 87 + d)" if "d < 16" for d :: nat
    using that by (simp add: hex_char_def)
  assume "a < 16" "b < 16" "hex_char a = hex_char b"
  then have "(if a < 10 then 48 + a else 87 + a) = (if b < 10 then 48 + b else (87 + b :: nat))"
    using c[of a] c[of b] by simp
  then show "a = b" by (auto split: if_splits)
qed

lemma hex_byte_inj: "show_hex_pad 2 (unat (a :: u8)) = show_hex_pad 2 (unat b) \<Longrightarrow> a = b"
proof -
  assume eq: "show_hex_pad 2 (unat a) = show_hex_pad 2 (unat b)"
  have "unat a div 16 < 16" "unat b div 16 < 16"
    using less_mult_imp_div_less[of "unat a" 16 16] less_mult_imp_div_less[of "unat b" 16 16] by simp_all
  then have "unat a div 16 = unat b div 16" "unat a mod 16 = unat b mod 16"
    using eq hex_char_inj[of "unat a div 16" "unat b div 16"] hex_char_inj[of "unat a mod 16" "unat b mod 16"]
    by (simp_all add: show_hex_two)
  then have "unat a = unat b" by (metis div_mult_mod_eq)
  then show "a = b" by (simp only: word_unat_eq_iff)
qed

lemma hex_char_not_dash: "d < 16 \<Longrightarrow> hex_char d \<noteq> CHR ''-''"
proof
  assume "d < 16" "hex_char d = CHR ''-''"
  then have "of_char (hex_char d) = (45 :: nat)" by simp
  with \<open>d < 16\<close> show False by (auto simp: hex_char_def split: if_splits)
qed

lemma split_format_gmid:
  "split_on (\<lambda>c. c = CHR ''-'') (format_gmid g) =
   map (\<lambda>i. show_hex_pad 2 (unat (ucast (drop_bit (8 * i) g) :: u8))) [0, 1, 2, 3, 4, 5, 6, 7]"
  unfolding format_gmid_def
  by (rule split_on_join) (auto simp: show_hex_two hex_char_not_dash)

lemma format_gmid_inj: "format_gmid a = format_gmid b \<longleftrightarrow> a = b"
proof
  assume "format_gmid a = format_gmid b"
  then have "map (\<lambda>i. show_hex_pad 2 (unat (ucast (drop_bit (8 * i) a) :: u8))) [0, 1, 2, 3, 4, 5, 6, 7] =
      map (\<lambda>i. show_hex_pad 2 (unat (ucast (drop_bit (8 * i) b) :: u8))) [0, 1, 2, 3, 4, 5, 6, 7]"
    by (metis split_format_gmid)
  then have "\<forall>i \<in> set [0, 1, 2, 3, 4, 5, 6, 7]. show_hex_pad 2 (unat (ucast (drop_bit (8 * i) a) :: u8)) =
      show_hex_pad 2 (unat (ucast (drop_bit (8 * i) b) :: u8))"
    by (simp only: map_eq_conv)
  moreover have "i < 8 \<Longrightarrow> i \<in> set [0, 1, 2, 3, 4, 5, 6, 7]" for i :: nat
    by auto
  ultimately have bytes: "i < 8 \<Longrightarrow> (ucast (drop_bit (8 * i) a) :: u8) = ucast (drop_bit (8 * i) b)" for i
    by (metis hex_byte_inj)
  show "a = b"
  proof (rule bit_word_eqI)
    fix n
    assume n: "n < LENGTH(64)"
    then have "bit (ucast (drop_bit (8 * (n div 8)) a) :: u8) (n mod 8) =
        bit (ucast (drop_bit (8 * (n div 8)) b) :: u8) (n mod 8)"
      using bytes[of "n div 8"] by simp
    with n show "bit a n = bit b n" by (simp add: bit_simps)
  qed
qed simp

text \<open>The legs are reported as not aligned exactly when both are locked and follow
  different grandmasters; the grandmaster counts as changed exactly when its printed id
  differs from the one shown before, and a status change is reported exactly when the lock
  state's name differs from the one shown before.\<close>

theorem ptp_update_spec:
  "pt_legs_aligned (fst (ptp_update d p)) \<longleftrightarrow>
     \<not> (dp_leg_lock d = (Ptp_locked, Ptp_locked) \<and> fst (dp_leg_gmid d) \<noteq> snd (dp_leg_gmid d))
   \<and> (fst (snd (ptp_update d p)) = [] \<longleftrightarrow> pt_status p = lock_str (dp_lock d))
   \<and> (snd (snd (ptp_update d p)) \<longleftrightarrow> pt_gmid p \<noteq> format_gmid (dp_gmid d))"
  by (cases "dp_leg_lock d"; cases "fst (dp_leg_lock d)"; cases "snd (dp_leg_lock d)"; cases "dp_lock d")
    (auto simp: ptp_update_def Let_def format_gmid_inj)

end
