(* ===== verification/Manager.thy ===== *)
theory Manager
  imports Session_Props Announce
begin

text \<open>
  The rest of \<open>daemon/session_manager.cpp\<close>: stream status queries, driver and PTP settings,
  restoring the saved configuration, the reaction to PTP changes, one turn of the worker
  loop and the end of the session manager.  The driver's other operations are parameters,
  like its streams in \<open>Sessions\<close>; the process started for \<open>ptp_status_script\<close> is a log entry.
\<close>

subsection \<open>Stream status\<close>

text \<open>\<open>TRTP_stream_status\<close>: the flag word and \<open>sink_min_time\<close>.\<close>

record sink_stream_status =
  is_rtp_seq_id_error :: bool
  is_rtp_ssrc_error :: bool
  is_rtp_payload_type_error :: bool
  is_rtp_sac_error :: bool
  is_receiving_rtp_packet :: bool
  is_muted :: bool
  is_some_muted :: bool
  is_all_muted :: bool
  sink_min_time :: int
  leg2_present :: bool
  leg2_is_rtp_seq_id_error :: bool
  leg2_is_rtp_ssrc_error :: bool
  leg2_is_rtp_payload_type_error :: bool
  leg2_is_rtp_sac_error :: bool
  leg2_is_receiving_rtp_packet :: bool

definition no_sink_status :: sink_stream_status where
  "no_sink_status = \<lparr>is_rtp_seq_id_error = False, is_rtp_ssrc_error = False,
     is_rtp_payload_type_error = False, is_rtp_sac_error = False, is_receiving_rtp_packet = False,
     is_muted = False, is_some_muted = False, is_all_muted = False, sink_min_time = 0,
     leg2_present = False, leg2_is_rtp_seq_id_error = False, leg2_is_rtp_ssrc_error = False,
     leg2_is_rtp_payload_type_error = False, leg2_is_rtp_sac_error = False,
     leg2_is_receiving_rtp_packet = False\<rparr>"

record source_stream_status =
  is_transmitting :: bool
  is_underrun :: bool
  src_leg2_present :: bool
  leg2_is_transmitting :: bool
  leg2_is_underrun :: bool

definition no_source_status :: source_stream_status where
  "no_source_status = \<lparr>is_transmitting = False, is_underrun = False, src_leg2_present = False,
     leg2_is_transmitting = False, leg2_is_underrun = False\<rparr>"

definition sink_leg1_status :: "u32 \<Rightarrow> int \<Rightarrow> sink_stream_status \<Rightarrow> sink_stream_status" where
  "sink_leg1_status f t s = s\<lparr>is_rtp_seq_id_error := bit f 0, is_rtp_ssrc_error := bit f 1,
     is_rtp_payload_type_error := bit f 2, is_rtp_sac_error := bit f 3,
     is_receiving_rtp_packet := bit f 4, is_muted := bit f 5, is_some_muted := bit f 6,
     is_all_muted := bit f 7, sink_min_time := t\<rparr>"

definition sink_leg2_status :: "u32 \<Rightarrow> sink_stream_status \<Rightarrow> sink_stream_status" where
  "sink_leg2_status f s = s\<lparr>leg2_is_rtp_seq_id_error := bit f 0, leg2_is_rtp_ssrc_error := bit f 1,
     leg2_is_rtp_payload_type_error := bit f 2, leg2_is_rtp_sac_error := bit f 3,
     leg2_is_receiving_rtp_packet := bit f 4\<rparr>"

text \<open>\<open>get_sink_status\<close>: the return value, and the status whatever the return value is.\<close>

definition get_sink_status ::
  "(u64 \<Rightarrow> 'd \<Rightarrow> error_code \<times> u32 \<times> int) \<Rightarrow> u32 \<Rightarrow> 'd session \<Rightarrow> error_code \<times> sink_stream_status" where
  "get_sink_status status i st =
     (if ucast stream_id_max < i then (daemon_err invalid_stream_id, no_sink_status)
      else case map_of (ss_sinks st) (ucast i) of
        None \<Rightarrow> (daemon_err stream_id_not_in_use, no_sink_status)
      | Some info \<Rightarrow>
          (let (ret, f, t) = status (si_handle info ! 0) (ss_driver st);
               s = (if ret = no_error then sink_leg1_status f t no_sink_status else no_sink_status);
               s = (if si_handle info ! 1 \<noteq> 0
                    then (case status (si_handle info ! 1) (ss_driver st) of
                            (ret2, f2, _) \<Rightarrow>
                              (let s = s\<lparr>leg2_present := True\<rparr>
                               in if ret2 = no_error then sink_leg2_status f2 s else s))
                    else s)
           in (ret, s)))"

definition get_source_status ::
  "(u64 \<Rightarrow> 'd \<Rightarrow> error_code \<times> u32 \<times> int) \<Rightarrow> u32 \<Rightarrow> 'd session \<Rightarrow> error_code \<times> source_stream_status" where
  "get_source_status status i st =
     (if ucast stream_id_max < i then (daemon_err invalid_stream_id, no_source_status)
      else case map_of (ss_sources st) (ucast i) of
        None \<Rightarrow> (daemon_err stream_id_not_in_use, no_source_status)
      | Some info \<Rightarrow>
          (let (ret, f, t) = status (si_handle info ! 0) (ss_driver st);
               s = (if ret = no_error
                    then no_source_status\<lparr>is_transmitting := bit f 8, is_underrun := bit f 9\<rparr>
                    else no_source_status);
               s = (if si_handle info ! 1 \<noteq> 0
                    then (case status (si_handle info ! 1) (ss_driver st) of
                            (ret2, f2, _) \<Rightarrow>
                              (let s = s\<lparr>src_leg2_present := True\<rparr>
                               in if ret2 = no_error
                                  then s\<lparr>leg2_is_transmitting := bit f2 8, leg2_is_underrun := bit f2 9\<rparr>
                                  else s))
                    else s)
           in (ret, s)))"

subsection \<open>Settings\<close>

text \<open>\<open>set_driver_config\<close> over the driver's setters; the 64 bit ones get the zero-extended
  value.\<close>

definition set_driver_config ::
  "(u32 \<Rightarrow> 'd \<Rightarrow> error_code \<times> 'd) \<Rightarrow> (u64 \<Rightarrow> 'd \<Rightarrow> error_code \<times> 'd) \<Rightarrow>
   (u64 \<Rightarrow> 'd \<Rightarrow> error_code \<times> 'd) \<Rightarrow> (u32 \<Rightarrow> 'd \<Rightarrow> error_code \<times> 'd) \<Rightarrow>
   string \<Rightarrow> u32 \<Rightarrow> 'd session \<Rightarrow> error_code \<times> 'd session" where
  "set_driver_config set_rate set_tic set_max set_delay name v st =
     (if name = ''sample_rate'' then map_prod id (\<lambda>d. st\<lparr>ss_driver := d\<rparr>) (set_rate v (ss_driver st))
      else if name = ''tic_frame_size_at_1fs''
      then map_prod id (\<lambda>d. st\<lparr>ss_driver := d\<rparr>) (set_tic (ucast v) (ss_driver st))
      else if name = ''set_max_tic_frame_size''
      then map_prod id (\<lambda>d. st\<lparr>ss_driver := d\<rparr>) (set_max (ucast v) (ss_driver st))
      else if name = ''playout_delay''
      then map_prod id (\<lambda>d. st\<lparr>ss_driver := d\<rparr>) (set_delay v (ss_driver st))
      else (driver_err drv_unknown, st))"

definition set_ptp_config ::
  "(u8 \<Rightarrow> u8 \<Rightarrow> 'd \<Rightarrow> error_code \<times> 'd) \<Rightarrow> u8 \<Rightarrow> u8 \<Rightarrow> 'd session \<Rightarrow> error_code \<times> 'd session" where
  "set_ptp_config set_ptp domain dscp st =
     (let (ret, d) = set_ptp domain dscp (ss_driver st);
          st = st\<lparr>ss_driver := d\<rparr>
      in (ret, if ret = no_error then st\<lparr>ss_ptp_domain := domain, ss_ptp_dscp := dscp\<rparr> else st))"

subsection \<open>Restoring the configuration\<close>

text \<open>What reading the status file gives; decoding its JSON is \<open>json_to_streams\<close>.\<close>

datatype status_file = No_status_file | Unreadable | Not_json | Saved "stream_source list" "stream_sink list"

fun load_sources ::
  "(rtp_stream_info \<Rightarrow> 'd \<Rightarrow> error_code \<times> u64 \<times> 'd) \<Rightarrow> (u64 \<Rightarrow> 'd \<Rightarrow> error_code \<times> 'd) \<Rightarrow>
   session_env \<Rightarrow> stream_source list \<Rightarrow> 'd session \<Rightarrow> outcome \<times> 'd session" where
  "load_sources add_rtp rm_rtp E [] st = (Returns no_error, st)"
| "load_sources add_rtp rm_rtp E (s # ss) st =
     (case add_source add_rtp rm_rtp E s st of
        (Returns _, st') \<Rightarrow> load_sources add_rtp rm_rtp E ss st'
      | r \<Rightarrow> r)"

fun load_sinks ::
  "(rtp_stream_info \<Rightarrow> 'd \<Rightarrow> error_code \<times> u64 \<times> 'd) \<Rightarrow> (u64 \<Rightarrow> 'd \<Rightarrow> error_code \<times> 'd) \<Rightarrow>
   session_env \<Rightarrow> stream_sink list \<Rightarrow> 'd session \<Rightarrow> outcome \<times> 'd session" where
  "load_sinks add_rtp rm_rtp E [] st = (Returns no_error, st)"
| "load_sinks add_rtp rm_rtp E (s # ss) st =
     (case add_sink add_rtp rm_rtp E s st of
        (Returns _, st') \<Rightarrow> load_sinks add_rtp rm_rtp E ss st'
      | r \<Rightarrow> r)"

text \<open>\<open>load_status\<close>: what it returns (\<^const>\<open>None\<close>: an exception of \<open>add_source\<close> or \<open>add_sink\<close>
  goes through, or their behaviour is undefined) and the state.\<close>

definition load_status ::
  "(rtp_stream_info \<Rightarrow> 'd \<Rightarrow> error_code \<times> u64 \<times> 'd) \<Rightarrow> (u64 \<Rightarrow> 'd \<Rightarrow> error_code \<times> 'd) \<Rightarrow>
   session_env \<Rightarrow> status_file \<Rightarrow> 'd session \<Rightarrow> bool option \<times> 'd session" where
  "load_status add_rtp rm_rtp E f st =
     (case f of
        No_status_file \<Rightarrow> (Some True, st)
      | Unreadable \<Rightarrow> (Some False, st)
      | Not_json \<Rightarrow> (Some False, st)
      | Saved ss ks \<Rightarrow>
          (case load_sources add_rtp rm_rtp E ss st of
             (Returns _, st') \<Rightarrow>
               (case load_sinks add_rtp rm_rtp E ks st' of
                  (Returns _, st'') \<Rightarrow> (Some True, st'')
                | (_, st'') \<Rightarrow> (None, st''))
           | (_, st') \<Rightarrow> (None, st')))"

text \<open>What \<open>save_status\<close> writes.\<close>

definition saved_streams :: "session_env \<Rightarrow> 'd session \<Rightarrow> status_file" where
  "saved_streams E st = Saved (get_sources E st) (get_sinks st)"

subsection \<open>The end\<close>

definition remove_all_sources ::
  "(u64 \<Rightarrow> 'd \<Rightarrow> error_code \<times> 'd) \<Rightarrow> session_env \<Rightarrow> u8 list \<Rightarrow> 'd session \<Rightarrow> 'd session" where
  "remove_all_sources rm_rtp E is st = fold (\<lambda>i st. snd (remove_source rm_rtp E (ucast i) st)) is st"

definition remove_all_sinks ::
  "(u64 \<Rightarrow> 'd \<Rightarrow> error_code \<times> 'd) \<Rightarrow> session_env \<Rightarrow> u8 list \<Rightarrow> 'd session \<Rightarrow> 'd session" where
  "remove_all_sinks rm_rtp E is st = fold (\<lambda>i st. snd (remove_sink rm_rtp E (ucast i) st)) is st"

text \<open>\<open>terminate\<close>, once the worker has ended.\<close>

definition terminate_session ::
  "(u64 \<Rightarrow> 'd \<Rightarrow> error_code \<times> 'd) \<Rightarrow> session_env \<Rightarrow> 'd session \<Rightarrow> 'd session" where
  "terminate_session rm_rtp E st =
     (let st = remove_all_sources rm_rtp E (map src_id (get_sources E st)) st
      in remove_all_sinks rm_rtp E (map snk_id (get_sinks st)) st)"

definition ids_ok :: "'d session \<Rightarrow> bool" where
  "ids_ok st \<longleftrightarrow> (\<forall>i \<in> fst ` set (ss_sources st). i \<le> stream_id_max) \<and>
     (\<forall>i \<in> fst ` set (ss_sinks st). i \<le> stream_id_max)"

lemma ids_get_sources [simp]: "map src_id (get_sources E st) = map fst (ss_sources st)"
  by (auto simp: get_sources_def get_source_of_def split_def comp_def)

lemma ids_get_sinks [simp]: "map snk_id (get_sinks st) = map fst (ss_sinks st)"
  by (auto simp: get_sinks_def get_sink_of_def split_def comp_def)

context reliable_driver
begin

lemma remove_source_exact:
  assumes "ledger open_handles st" "i \<le> stream_id_max"
  shows "ss_sources (snd (remove_source rm_rtp E (ucast i) st)) = smap_del i (ss_sources st)"
    and "ss_sinks (snd (remove_source rm_rtp E (ucast i) st)) = ss_sinks st"
proof -
  have g: "\<not> ucast stream_id_max < (ucast i :: u32)" using assms(2) by simp
  have "ss_sources (snd (remove_source rm_rtp E (ucast i) st)) = smap_del i (ss_sources st) \<and>
      ss_sinks (snd (remove_source rm_rtp E (ucast i) st)) = ss_sinks st"
  proof (cases "map_of (ss_sources st) i")
    case None
    with g show ?thesis by (simp add: remove_source_def hsum_del_absent)
  next
    case (Some info)
    have o: "opened open_handles (ss_driver st) (source_handles info + owned (erase_source i st))"
      using assms(1) owned_source[OF _ Some] by (auto simp: ledger_opened tables_ok_def)
    show ?thesis
    proof (cases "si_enabled info")
      case True
      with o remove_legs_drop[of "ss_driver st" info] Some g show ?thesis
        by (simp add: remove_source_def source_handles_def)
    qed (use Some g in \<open>simp add: remove_source_def\<close>)
  qed
  then show "ss_sources (snd (remove_source rm_rtp E (ucast i) st)) = smap_del i (ss_sources st)"
    "ss_sinks (snd (remove_source rm_rtp E (ucast i) st)) = ss_sinks st" by simp_all
qed

lemma remove_sink_exact:
  assumes "ledger open_handles st" "i \<le> stream_id_max"
  shows "ss_sinks (snd (remove_sink rm_rtp E (ucast i) st)) = smap_del i (ss_sinks st)"
    and "ss_sources (snd (remove_sink rm_rtp E (ucast i) st)) = ss_sources st"
proof -
  have g: "\<not> ucast stream_id_max < (ucast i :: u32)" using assms(2) by simp
  have "ss_sinks (snd (remove_sink rm_rtp E (ucast i) st)) = smap_del i (ss_sinks st) \<and>
      ss_sources (snd (remove_sink rm_rtp E (ucast i) st)) = ss_sources st"
  proof (cases "map_of (ss_sinks st) i")
    case None
    with g show ?thesis by (simp add: remove_sink_def hsum_del_absent)
  next
    case (Some info)
    have "opened open_handles (ss_driver st) (info_handles info + owned (erase_sink i st))"
      using assms(1) owned_sink[OF _ Some] by (auto simp: ledger_opened tables_ok_def)
    with remove_legs_drop[of "ss_driver st" info] Some g show ?thesis
      by (simp add: remove_sink_def)
  qed
  then show "ss_sinks (snd (remove_sink rm_rtp E (ucast i) st)) = smap_del i (ss_sinks st)"
    "ss_sources (snd (remove_sink rm_rtp E (ucast i) st)) = ss_sources st" by simp_all
qed

lemma remove_all_sources_exact:
  assumes "ledger open_handles st" "\<forall>i \<in> set is. i \<le> stream_id_max"
  shows "ledger open_handles (remove_all_sources rm_rtp E is st) \<and>
    ss_sources (remove_all_sources rm_rtp E is st) = fold smap_del is (ss_sources st) \<and>
    ss_sinks (remove_all_sources rm_rtp E is st) = ss_sinks st"
  using assms
proof (induction "is" arbitrary: st)
  case (Cons i "is")
  let ?st = "snd (remove_source rm_rtp E (ucast i) st)"
  have "remove_all_sources rm_rtp E (i # is) st = remove_all_sources rm_rtp E is ?st"
    by (simp add: remove_all_sources_def)
  with Cons.IH[of ?st] Cons.prems remove_source_ledger[of st E "ucast i"] remove_source_exact[of st i E]
  show ?case by simp
qed (simp add: remove_all_sources_def)

lemma remove_all_sinks_exact:
  assumes "ledger open_handles st" "\<forall>i \<in> set is. i \<le> stream_id_max"
  shows "ledger open_handles (remove_all_sinks rm_rtp E is st) \<and>
    ss_sinks (remove_all_sinks rm_rtp E is st) = fold smap_del is (ss_sinks st) \<and>
    ss_sources (remove_all_sinks rm_rtp E is st) = ss_sources st"
  using assms
proof (induction "is" arbitrary: st)
  case (Cons i "is")
  let ?st = "snd (remove_sink rm_rtp E (ucast i) st)"
  have "remove_all_sinks rm_rtp E (i # is) st = remove_all_sinks rm_rtp E is ?st"
    by (simp add: remove_all_sinks_def)
  with Cons.IH[of ?st] Cons.prems remove_sink_ledger[of st E "ucast i"] remove_sink_exact[of st i E]
  show ?case by simp
qed (simp add: remove_all_sinks_def)

end

subsection \<open>Ids stay in range\<close>

lemma ids_ok_simps [simp]:
  "ids_ok (st\<lparr>ss_driver := d\<rparr>) = ids_ok st" "ids_ok (st\<lparr>ss_version := v\<rparr>) = ids_ok st"
  "ids_ok (on_add_source E src info st) = ids_ok st" "ids_ok (on_remove_source E info st) = ids_ok st"
  "ids_ok (on_add_sink E snk info st) = ids_ok st" "ids_ok (on_remove_sink E info st) = ids_ok st"
  "ids_ok (drop_old_source rm E old st) = ids_ok st" "ids_ok (drop_old_sink rm E old st) = ids_ok st"
  by (simp_all add: ids_ok_def)

lemma ids_ok_erase [inv_intro]:
  "ids_ok st \<Longrightarrow> ids_ok (erase_source i st)" "ids_ok st \<Longrightarrow> ids_ok (erase_sink i st)"
  by (auto simp: ids_ok_def)

lemma ids_ok_set [inv_intro]:
  "i \<le> stream_id_max \<Longrightarrow> ids_ok st \<Longrightarrow> ids_ok (set_source i info st)"
  "i \<le> stream_id_max \<Longrightarrow> ids_ok st \<Longrightarrow> ids_ok (set_sink i info st)"
  by (auto simp: ids_ok_def keys_smap_upd)

lemma add_source_ids [inv_intro]:
  assumes "ids_ok st"
  shows "ids_ok (snd (add_source add_rtp rm_rtp E src st))"
proof -
  have leg2: "ids_ok (snd (add_source_leg2 add_rtp rm_rtp E src old info st))"
    if "src_id src \<le> stream_id_max" "ids_ok st" for old info st
    using that by (auto simp: add_source_leg2_def Let_def split: option.split prod.split intro!: inv_intro)
  have "ids_ok (snd (add_source_locked add_rtp rm_rtp E src info st))"
    if "src_id src \<le> stream_id_max" "ids_ok st" for info st
    using that by (auto simp: add_source_locked_def Let_def split: option.split prod.split intro!: inv_intro leg2)
  with assms show ?thesis
    by (auto simp: add_source_def Let_def split: option.split prod.split)
qed

lemma add_sink_ids [inv_intro]:
  assumes "ids_ok st"
  shows "ids_ok (snd (add_sink add_rtp rm_rtp E snk st))"
proof -
  have leg2: "ids_ok (snd (add_sink_leg2 add_rtp rm_rtp E snk old info st))"
    if "snk_id snk \<le> stream_id_max" "ids_ok st" for old info st
    using that by (auto simp: add_sink_leg2_def Let_def split: prod.split intro!: inv_intro)
  have "ids_ok (snd (add_sink_locked add_rtp rm_rtp E snk info st))"
    if "snk_id snk \<le> stream_id_max" "ids_ok st" for info st
    using that by (auto simp: add_sink_locked_def Let_def split: option.split prod.split intro!: inv_intro leg2)
  with assms show ?thesis
    by (auto simp: add_sink_def split: sdp_fetch.split sdp_result.split)
qed

lemma remove_ids [inv_intro]:
  "ids_ok st \<Longrightarrow> ids_ok (snd (remove_source rm_rtp E i st))"
  "ids_ok st \<Longrightarrow> ids_ok (snd (remove_sink rm_rtp E i st))"
  by (auto simp: remove_source_def remove_sink_def Let_def split: option.split prod.split intro!: inv_intro)

lemma session_step_ids: "session_step st st' \<Longrightarrow> ids_ok st \<Longrightarrow> ids_ok st'"
  by (erule session_stepE) (metis inv_intro snd_conv)+

lemma session_reachable:
  assumes "session_step\<^sup>*\<^sup>* (session_init (fake_driver_init r) domain dscp v) st"
  shows "ledger fake_open st \<and> ids_ok st"
  using assms
proof (induction rule: rtranclp_induct)
  case base
  show ?case by (simp add: session_init_ledger) (simp add: ids_ok_def session_init_def)
qed (simp_all add: session_step_ledger session_step_ids)

lemma fold_smap_del: "map_of (fold smap_del ks m) k = (if k \<in> set ks then None else map_of m k)"
  by (induction ks arbitrary: m) auto

lemma fold_smap_del_all: "fold smap_del (map fst m) m = []"
proof -
  have "map_of (fold smap_del (map fst m) m) k = None" for k
    by (simp add: fold_smap_del map_of_eq_None_iff)
  then have "fst ` set (fold smap_del (map fst m) m) = {}"
    by (metis dom_map_of_conv_image_fst dom_eq_empty_conv ext)
  then show ?thesis by simp
qed

text \<open>C32: stopping the daemon leaves nothing behind: from every state reached over the fake
  driver, \<open>terminate\<close> removes all sources and sinks and closes every stream of the driver.\<close>

theorem terminate_closes_all:
  assumes "session_step\<^sup>*\<^sup>* (session_init (fake_driver_init r) domain dscp v) st"
  shows "ss_sources (terminate_session fake_remove_rtp_stream E st) = [] \<and>
    ss_sinks (terminate_session fake_remove_rtp_stream E st) = [] \<and>
    fake_open (ss_driver (terminate_session fake_remove_rtp_stream E st)) = {}"
proof -
  let ?st1 = "remove_all_sources fake_remove_rtp_stream E (map fst (ss_sources st)) st"
  let ?st2 = "remove_all_sinks fake_remove_rtp_stream E (map fst (ss_sinks ?st1)) ?st1"
  have r: "ledger fake_open st" "ids_ok st" using session_reachable[OF assms] by simp_all
  have 1: "ledger fake_open ?st1 \<and> ss_sources ?st1 = [] \<and> ss_sinks ?st1 = ss_sinks st"
    using fake.remove_all_sources_exact[OF r(1), of "map fst (ss_sources st)" E] r(2)
    by (simp add: ids_ok_def fold_smap_del_all)
  have "ledger fake_open ?st2 \<and> ss_sources ?st2 = [] \<and> ss_sinks ?st2 = []"
    using fake.remove_all_sinks_exact[of ?st1 "map fst (ss_sinks ?st1)" E] 1 r(2)
    by (simp add: ids_ok_def fold_smap_del_all)
  moreover from this have "mset_set (fake_open (ss_driver ?st2)) = {#}" "finite (fake_open (ss_driver ?st2))"
    by (auto simp: ledger_def owned_def hsum_def)
  then have "fake_open (ss_driver ?st2) = {}"
    by (simp add: mset_set_empty_iff)
  ultimately show ?thesis
    by (simp add: terminate_session_def Let_def)
qed

lemma sample_reachable:
  "session_step\<^sup>*\<^sup>* (session_init (fake_driver_init 48000) 0 46 7) sample_state"
proof -
  have "session_step (session_init (fake_driver_init 48000) 0 46 7) sample_state"
    by (rule step_add_source[OF sample_added(1)])
      (simp add: fake_room_def session_init_def fake_driver_init_def)
  then show ?thesis by blast
qed

theorem terminate_closes_all_witness:
  "ss_sources sample_state \<noteq> [] \<and>
   fake_open (ss_driver (terminate_session fake_remove_rtp_stream sample_senv sample_state)) = {}"
  using terminate_closes_all[OF sample_reachable] sample_added(2) by auto

text \<open>The status of a configured stream can always be had: over the fake driver, in every
  reachable state the query of a sink, or of an enabled source, succeeds and reports
  packets.\<close>

theorem status_queries_succeed:
  assumes "session_step\<^sup>*\<^sup>* (session_init (fake_driver_init r) domain dscp v) st"
  shows "(map_of (ss_sinks st) i = Some info \<longrightarrow>
      fst (get_sink_status fake_get_rtp_stream_status (ucast i) st) = no_error \<and>
      is_receiving_rtp_packet (snd (get_sink_status fake_get_rtp_stream_status (ucast i) st))) \<and>
    (map_of (ss_sources st) i = Some info \<and> si_enabled info \<longrightarrow>
      fst (get_source_status fake_get_rtp_stream_status (ucast i) st) = no_error \<and>
      is_transmitting (snd (get_source_status fake_get_rtp_stream_status (ucast i) st)))"
proof -
  have l: "ledger fake_open st" "ids_ok st" using session_reachable[OF assms] by simp_all
  have fin: "finite (fake_open (ss_driver st))" and own: "owned st = mset_set (fake_open (ss_driver st))"
    and ok: "smap_ok (ss_sources st)" "smap_ok (ss_sinks st)"
    using l(1) by (simp_all add: ledger_def tables_ok_def)
  have opn: "ucast h \<in> fd_handles (ss_driver st)" if "h \<in># owned st" for h
    using that fin by (auto simp: own fake_open_def)
  have h0: "si_handle info ! 0 \<in># info_handles info" by (simp add: info_handles_def)
  have sink: "fake_get_rtp_stream_status (si_handle info ! 0) (ss_driver st) = (no_error, 0x110, 0)"
    if "map_of (ss_sinks st) i = Some info"
    using owned_sink[OF ok(2) that] h0 opn by (simp add: fake_get_rtp_stream_status_def)
  have source: "fake_get_rtp_stream_status (si_handle info ! 0) (ss_driver st) = (no_error, 0x110, 0)"
    if "map_of (ss_sources st) i = Some info" "si_enabled info"
    using owned_source[OF ok(1) that(1)] h0 opn that(2)
    by (simp add: fake_get_rtp_stream_status_def source_handles_def)
  have max: "\<not> stream_id_max < i" if "map_of (ss_sinks st) i = Some info \<or> map_of (ss_sources st) i = Some info"
    using that l(2) by (auto simp: ids_ok_def not_less dest!: map_of_SomeD)
  have bits: "bit (0x110 :: u32) 4" "bit (0x110 :: u32) 8" by simp_all
  show ?thesis
    using sink source max bits
    by (auto simp: get_sink_status_def get_source_status_def sink_leg1_status_def sink_leg2_status_def
        Let_def split: prod.split)
qed

theorem status_queries_succeed_witness:
  "is_transmitting (snd (get_source_status fake_get_rtp_stream_status 3 sample_state))"
proof -
  have "si_enabled (dual_info sample_senv sample_source 0xEF010005 0xEF020006 7 1 2)"
    by (simp add: dual_info_def source_info_def sample_source_def Let_def)
  with status_queries_succeed[OF sample_reachable, of 3] sample_added(2) show ?thesis
    by fastforce
qed

subsection \<open>The worker loop\<close>

text \<open>The state of \<open>worker\<close> beside the tables: the announcer, the PTP status, the last sample
  rate, the next announcement interval, \<open>last_sink_update_\<close>, what the PTP observers were
  told, and \<open>g_ptp_status\<close> with the runs of \<open>ptp_status_script\<close>.\<close>

record 'd worker =
  wk_session :: "'d session"
  wk_announcer :: announcer
  wk_ptp :: ptp_status
  wk_rate :: u32
  wk_sap_interval :: int
  wk_last_sink_update :: u32
  wk_told :: "string list"
  wk_script_status :: string
  wk_script_runs :: "string list"

text \<open>What one turn finds: whether the PTP and announcement timers ran out, the driver's answer
  (\<^const>\<open>None\<close>: one of the two queries failed), a random number and the browser's table.\<close>

record turn_input =
  ti_ptp_due :: bool
  ti_ptp :: "driver_ptp option"
  ti_sap_due :: bool
  ti_rand :: nat
  ti_last_update :: u32
  ti_remote :: "remote_source list"

definition on_ptp_status_changed ::
  "(u32 \<Rightarrow> 'd \<Rightarrow> error_code \<times> 'd) \<Rightarrow> ('d \<Rightarrow> u32) \<Rightarrow> string \<Rightarrow> string \<Rightarrow> 'd worker \<Rightarrow> 'd worker" where
  "on_ptp_status_changed set_rate rate_of script status wk =
     (let st = wk_session wk; d = ss_driver st;
          st = (if status = ''locked'' then st\<lparr>ss_driver := snd (set_rate (rate_of d) d)\<rparr> else st);
          wk = wk\<lparr>wk_session := st, wk_told := wk_told wk @ [status]\<rparr>
      in if wk_script_status wk \<noteq> status \<and> script \<noteq> []
         then wk\<lparr>wk_script_status := status, wk_script_runs := wk_script_runs wk @ [status]\<rparr>
         else wk)"

definition worker_ptp ::
  "(u32 \<Rightarrow> 'd \<Rightarrow> error_code \<times> 'd) \<Rightarrow> ('d \<Rightarrow> u32) \<Rightarrow> string \<Rightarrow> session_env \<Rightarrow> nat \<Rightarrow>
   driver_ptp option \<Rightarrow> 'd worker \<Rightarrow> 'd worker" where
  "worker_ptp set_rate rate_of script E n poll wk =
     (case poll of
        None \<Rightarrow> wk
      | Some dp \<Rightarrow>
          (let (p, changed_to, changed_gmid) = ptp_update dp (wk_ptp wk);
               wk = wk\<lparr>wk_ptp := p, wk_session := (wk_session wk)\<lparr>ss_ptp_gmid := pt_gmid p\<rparr>\<rparr>;
               wk = (if changed_to \<noteq> [] then on_ptp_status_changed set_rate rate_of script changed_to wk else wk);
               st = wk_session wk;
               rate = rate_of (ss_driver st)
           in if changed_gmid \<or> wk_rate wk \<noteq> rate
              then (let st = (if wk_rate wk \<noteq> rate
                              then st\<lparr>ss_driver := snd (set_rate rate (ss_driver st))\<rparr> else st)
                    in wk\<lparr>wk_rate := rate, wk_session := on_update_sources E n st\<rparr>)
              else wk))"

definition worker_sap ::
  "session_env \<Rightarrow> u16 \<Rightarrow> nat \<Rightarrow> 'd worker \<Rightarrow> sap_msg list \<times> 'd worker" where
  "worker_sap E cfg_interval rnd wk =
     (case process_sap E (wk_session wk) (wk_announcer wk) of
        (len, msgs, an) \<Rightarrow>
          (msgs, wk\<lparr>wk_announcer := an, wk_sap_interval := next_sap_interval cfg_interval len rnd\<rparr>))"

definition worker_turn ::
  "(rtp_stream_info \<Rightarrow> 'd \<Rightarrow> error_code \<times> u64 \<times> 'd) \<Rightarrow> (u64 \<Rightarrow> 'd \<Rightarrow> error_code \<times> 'd) \<Rightarrow>
   (u32 \<Rightarrow> 'd \<Rightarrow> error_code \<times> 'd) \<Rightarrow> ('d \<Rightarrow> u32) \<Rightarrow> string \<Rightarrow> session_env \<Rightarrow> nat \<Rightarrow> u16 \<Rightarrow> bool \<Rightarrow>
   turn_input \<Rightarrow> 'd worker \<Rightarrow> sap_msg list \<times> 'd worker" where
  "worker_turn add_rtp rm_rtp set_rate rate_of script E n cfg_interval auto_sinks ti wk =
     (let wk = (if ti_ptp_due ti then worker_ptp set_rate rate_of script E n (ti_ptp ti) wk else wk);
          (msgs, wk) = (if ti_sap_due ti then worker_sap E cfg_interval (ti_rand ti) wk else ([], wk))
      in (msgs,
          if auto_sinks
          then (case update_sinks add_rtp rm_rtp E (ti_last_update ti) (ti_remote ti)
                       (wk_last_sink_update wk, wk_session wk) of
                  (seen, st) \<Rightarrow> wk\<lparr>wk_last_sink_update := seen, wk_session := st\<rparr>)
          else wk))"

lemma notify_updates_eff:
  "fst (notify_updates E i n info st) = info\<lparr>si_session_version := si_session_version info + of_nat n\<rparr> \<and>
   ss_sources (snd (notify_updates E i n info st)) = ss_sources st \<and>
   length (ss_log (snd (notify_updates E i n info st))) = length (ss_log st) + n \<and>
   ss_ptp_gmid (snd (notify_updates E i n info st)) = ss_ptp_gmid st"
  by (induction E i n info st rule: notify_updates.induct) (auto simp: Let_def add.assoc)

lemma update_fold:
  assumes "distinct (map fst xs)"
  shows "map_of (ss_sources (fold (\<lambda>(i, info) st.
      (case notify_updates E i n info st of (info', st') \<Rightarrow> set_source i info' st')) xs st)) k =
    (case map_of xs k of
       Some info \<Rightarrow> Some (info\<lparr>si_session_version := si_session_version info + of_nat n\<rparr>)
     | None \<Rightarrow> map_of (ss_sources st) k) \<and>
    length (ss_log (fold (\<lambda>(i, info) st.
      (case notify_updates E i n info st of (info', st') \<Rightarrow> set_source i info' st')) xs st)) =
      length (ss_log st) + length xs * n \<and>
    ss_ptp_gmid (fold (\<lambda>(i, info) st.
      (case notify_updates E i n info st of (info', st') \<Rightarrow> set_source i info' st')) xs st) = ss_ptp_gmid st"
  using assms
proof (induction xs arbitrary: st)
  case (Cons x xs)
  obtain i info where x: "x = (i, info)" by fastforce
  obtain info' st' where n: "notify_updates E i n info st = (info', st')" by fastforce
  have i: "map_of xs i = None" using Cons.prems x by (simp add: map_of_eq_None_iff)
  have e: "info' = info\<lparr>si_session_version := si_session_version info + of_nat n\<rparr>"
    "ss_sources st' = ss_sources st" "length (ss_log st') = length (ss_log st) + n"
    "ss_ptp_gmid st' = ss_ptp_gmid st"
    using notify_updates_eff[of E i n info st] n by simp_all
  have l: "ss_log (set_source j w st') = ss_log st'" "ss_ptp_gmid (set_source j w st') = ss_ptp_gmid st'" for j w
    by (simp_all add: set_source_def)
  show ?case
    using Cons.IH[of "set_source i info' st'"] Cons.prems i e
    by (auto simp: x n l split: option.split)
qed simp

lemma on_update_sources_eff:
  assumes "smap_ok (ss_sources st)"
  shows "map_of (ss_sources (on_update_sources E n st)) k = map_option
      (\<lambda>info. info\<lparr>si_session_version := si_session_version info + of_nat n\<rparr>) (map_of (ss_sources st) k) \<and>
    length (ss_log (on_update_sources E n st)) = length (ss_log st) + length (ss_sources st) * n \<and>
    ss_ptp_gmid (on_update_sources E n st) = ss_ptp_gmid st"
  using update_fold[OF smap_ok_distinct[OF assms], of E n st k]
  by (auto simp: on_update_sources_def Let_def split: option.splits)

lemma on_ptp_status_changed_fields [simp]:
  "ss_sources (wk_session (on_ptp_status_changed set_rate rate_of script status wk)) = ss_sources (wk_session wk)"
  "ss_log (wk_session (on_ptp_status_changed set_rate rate_of script status wk)) = ss_log (wk_session wk)"
  "ss_ptp_gmid (wk_session (on_ptp_status_changed set_rate rate_of script status wk)) = ss_ptp_gmid (wk_session wk)"
  by (simp_all add: on_ptp_status_changed_def Let_def)

text \<open>A new grandmaster reaches every announced source.  When the driver reports another
  grandmaster than the one shown, it is the one in all SDP files from then on, the version
  of every source grows by one for each registered observer, and each observer is told
  once of each source.\<close>

theorem new_grandmaster_updates:
  assumes "smap_ok (ss_sources (wk_session wk))" "pt_gmid (wk_ptp wk) \<noteq> format_gmid (dp_gmid dp)"
  shows "ss_ptp_gmid (wk_session (worker_ptp set_rate rate_of script E n (Some dp) wk)) = format_gmid (dp_gmid dp) \<and>
    map_of (ss_sources (wk_session (worker_ptp set_rate rate_of script E n (Some dp) wk))) k = map_option
      (\<lambda>info. info\<lparr>si_session_version := si_session_version info + of_nat n\<rparr>)
      (map_of (ss_sources (wk_session wk)) k) \<and>
    length (ss_log (wk_session (worker_ptp set_rate rate_of script E n (Some dp) wk))) =
      length (ss_log (wk_session wk)) + length (ss_sources (wk_session wk)) * n"
proof -
  define p where "p = fst (ptp_update dp (wk_ptp wk))"
  define c where "c = fst (snd (ptp_update dp (wk_ptp wk)))"
  have u: "ptp_update dp (wk_ptp wk) = (p, c, True)" "pt_gmid p = format_gmid (dp_gmid dp)"
    using assms(2) by (simp_all add: p_def c_def ptp_update_def Let_def)
  define wk1 where "wk1 = wk\<lparr>wk_ptp := p, wk_session := (wk_session wk)\<lparr>ss_ptp_gmid := pt_gmid p\<rparr>\<rparr>"
  define wk2 where "wk2 = (if c \<noteq> [] then on_ptp_status_changed set_rate rate_of script c wk1 else wk1)"
  define st where "st = (if wk_rate wk2 \<noteq> rate_of (ss_driver (wk_session wk2))
    then (wk_session wk2)\<lparr>ss_driver := snd (set_rate (rate_of (ss_driver (wk_session wk2))) (ss_driver (wk_session wk2)))\<rparr>
    else wk_session wk2)"
  have w: "wk_session (worker_ptp set_rate rate_of script E n (Some dp) wk) = on_update_sources E n st"
    by (simp add: worker_ptp_def u(1) Let_def st_def wk2_def wk1_def)
  have "ss_sources st = ss_sources (wk_session wk)" "ss_log st = ss_log (wk_session wk)"
    "ss_ptp_gmid st = format_gmid (dp_gmid dp)"
    by (simp_all add: st_def wk2_def wk1_def u(2))
  with on_update_sources_eff[of st E n k] assms(1) show ?thesis
    unfolding w by simp
qed

text \<open>A worker over the sample state that had seen no clock yet.\<close>

definition sample_worker :: "fake_driver worker" where
  "sample_worker = \<lparr>wk_session = sample_state, wk_announcer = announcer_init,
     wk_ptp = \<lparr>pt_status = [], pt_gmid = [], pt_jitter = 0, pt_active_leg = 0, pt_leg0_status = [],
       pt_leg1_status = [], pt_leg0_gmid = [], pt_leg1_gmid = [], pt_legs_aligned = True\<rparr>,
     wk_rate = 48000, wk_sap_interval = 1, wk_last_sink_update = 0, wk_told = [],
     wk_script_status = [], wk_script_runs = []\<rparr>"

definition sample_ptp :: driver_ptp where
  "sample_ptp = \<lparr>dp_lock = Ptp_locked, dp_gmid = 0x5F7A8EFEFFC11D00, dp_jitter = 3, dp_active = 0,
     dp_leg_lock = (Ptp_locked, Ptp_unlocked), dp_leg_gmid = (0x5F7A8EFEFFC11D00, 0)\<rparr>"

theorem new_grandmaster_updates_witness:
  "\<exists>info. map_of (ss_sources (wk_session (worker_ptp fake_set_sample_rate fd_sample_rate [] sample_senv 2
     (Some sample_ptp) sample_worker))) 3 = Some info \<and> info \<noteq>
     dual_info sample_senv sample_source 0xEF010005 0xEF020006 7 1 2"
proof -
  have "smap_ok (ss_sources (wk_session sample_worker))"
    using session_reachable[OF sample_reachable] by (simp add: sample_worker_def ledger_def tables_ok_def)
  moreover have f: "format_gmid g \<noteq> []" for g
    by (simp add: format_gmid_def show_hex_two)
  have "pt_gmid (wk_ptp sample_worker) \<noteq> format_gmid (dp_gmid sample_ptp)"
    using f[of "dp_gmid sample_ptp"] by (auto simp: sample_worker_def)
  moreover have "info\<lparr>si_session_version := si_session_version info + 2\<rparr> \<noteq> info" for info :: stream_info
  proof
    assume "info\<lparr>si_session_version := si_session_version info + 2\<rparr> = info"
    then have "si_session_version (info\<lparr>si_session_version := si_session_version info + 2\<rparr>) = si_session_version info"
      by (rule arg_cong)
    then show False by simp
  qed
  ultimately show ?thesis
    using new_grandmaster_updates[of sample_worker sample_ptp fake_set_sample_rate fd_sample_rate "[]"
        sample_senv 2 3] sample_added(2)
    by (simp add: sample_worker_def)
qed

subsection \<open>Names\<close>

text \<open>A source whose name does not fit the driver's array blocks its name for good: it is
  registered under the full name but removed under the cut one, so after its removal the
  name still denotes it and no other id can be given that name.\<close>

theorem long_name_blocked:
  assumes "map_of (ss_sources st) i = Some info" "si_enabled info"
    and "m_cName (leg info 0) = strncpy cap name" "cap < length name"
    and "ss_source_names st name = Some i"
    and "remove_source rm_rtp E (ucast i) st = (no_error, st')" "i \<le> stream_id_max"
    and "src_name src = name" "map_of (ss_sources st') (src_id src) = None"
  shows "map_of (ss_sources st') i = None \<and> get_source_id name st' = i \<and>
    add_source_locked add_rtp rm_rtp E src info' st' = (Returns (daemon_err stream_name_in_use), st')"
proof -
  have ne: "strncpy cap name \<noteq> name"
  proof
    assume "strncpy cap name = name"
    then have "length (strncpy cap name) = length name" by simp
    moreover have "length (strncpy cap name) \<le> cap" by (rule length_strncpy)
    ultimately show False using assms(4) by simp
  qed
  obtain ret d where r: "remove_legs rm_rtp info (ss_driver st) = (ret, d)" by fastforce
  have g: "\<not> stream_id_max < i" using assms(7) by simp
  have st': "ret = no_error" "st' = erase_source i (on_remove_source E info (st\<lparr>ss_driver := d\<rparr>))"
    using assms(1,2,6) r g by (auto simp: remove_source_def Let_def split: if_splits)
  have "ss_source_names st' name = Some i"
    using assms(3,5) ne unfolding st'(2) by (simp add: erase_source_def on_remove_source_def Let_def)
  then show ?thesis
    using assms(8,9) by (simp add: st'(2) get_source_id_def add_source_locked_def Let_def)
qed

definition long_name :: string where "long_name = replicate 64 CHR ''a''"

definition long_info :: stream_info where
  "long_info = new_info\<lparr>si_enabled := True, si_handle := [1, 0],
     si_stream := [zero_stream\<lparr>m_cName := strncpy 63 long_name\<rparr>, zero_stream]\<rparr>"

definition long_state :: "fake_driver session" where
  "long_state = (session_init ((fake_driver_init 48000)\<lparr>fd_handles := {1}\<rparr>) 0 46 7)
     \<lparr>ss_sources := [(5, long_info)], ss_source_names := [long_name \<mapsto> 5]\<rparr>"

theorem long_name_blocked_witness:
  "\<exists>st'. remove_source fake_remove_rtp_stream sample_senv 5 long_state = (no_error, st') \<and>
     map_of (ss_sources st') 5 = None \<and> get_source_id long_name st' = 5"
proof -
  have u: "(ucast (1 :: u64) :: u16) = 1" by simp
  obtain st' where r: "remove_source fake_remove_rtp_stream sample_senv (ucast (5 :: u8)) long_state = (no_error, st')"
    "ss_sources st' = []"
    by (simp add: remove_source_def long_state_def long_info_def session_init_def new_info_def
        remove_legs_def fake_remove_rtp_stream_def stream_id_max_def fake_driver_init_def smap_del_def)
  show ?thesis
    using long_name_blocked[OF _ _ _ _ _ r(1), of long_info 63 long_name "sample_source\<lparr>src_name := long_name\<rparr>"] r
    by (simp add: long_state_def long_info_def long_name_def stream_id_max_def)
qed

end
