(* ===== verification/Rtsp.thy ===== *)
theory Rtsp
  imports Session_Props
begin

text \<open>
  \<open>daemon/rtsp_server.cpp\<close> and \<open>daemon/rtsp_server.hpp\<close>: the RTSP sessions over which other
  hosts fetch the SDP of the daemon's sources and are told of updates.  A session is its
  receive buffer (the first \<open>length_\<close> bytes of \<open>data_\<close>), the members that parsing leaves
  behind, and what was sent.  Percent coding is cpp-httplib's and so a parameter; socket
  writes are taken to succeed.
\<close>

definition rtsp_max_length :: nat where "rtsp_max_length = 4096"

record rtsp_session =
  rq_data :: string
  rq_request :: string
  rq_cseq :: int
  rq_consumed :: nat
  rq_announce_cseq :: int
  rq_source_ids :: "u8 set"
  rq_sent :: "string list"

definition rtsp_session_init :: rtsp_session where
  "rtsp_session_init = \<lparr>rq_data = [], rq_request = [], rq_cseq = -1, rq_consumed = 0,
     rq_announce_cseq = 0, rq_source_ids = {}, rq_sent = []\<rparr>"

subsection \<open>Answers\<close>

definition send_response :: "string \<Rightarrow> rtsp_session \<Rightarrow> rtsp_session" where
  "send_response r s = s\<lparr>rq_sent := rq_sent s @ [r]\<rparr>"

definition error_text :: "int \<Rightarrow> int \<Rightarrow> string \<Rightarrow> string" where
  "error_text cseq status_code description =
     ''RTSP/1.0 '' @ show_int status_code @ '' '' @ description @ crlf @
     (if 0 \<le> cseq then ''CSeq: '' @ show_int cseq @ crlf else []) @ crlf"

definition send_error :: "int \<Rightarrow> string \<Rightarrow> rtsp_session \<Rightarrow> rtsp_session" where
  "send_error status_code description s = send_response (error_text (rq_cseq s) status_code description) s"

definition describe_text :: "int \<Rightarrow> string \<Rightarrow> string" where
  "describe_text cseq sdp =
     ''RTSP/1.0 200 OK'' @ crlf @ ''CSeq: '' @ show_int cseq @ crlf @
     ''Content-Length: '' @ show_nat (length sdp) @ crlf @
     ''Content-Type: application/sdp'' @ crlf @ crlf @ sdp"

text \<open>The id a DESCRIBE path stands for: by name, or by number (whose \<open>int\<close> is cut to 8 bits).\<close>

definition by_name_base :: "session_env \<Rightarrow> string" where
  "by_name_base E = ''/by-name/'' @ e_node_id (e_sdp E) @ '' ''"

definition path_source_id :: "session_env \<Rightarrow> 'd session \<Rightarrow> string \<Rightarrow> u8" where
  "path_source_id E st path =
     (if find_str (by_name_base E) path \<noteq> None
      then get_source_id (drop (length (by_name_base E)) path) st
      else if find_str ''/by-id/'' path \<noteq> None
      then (case stoi (drop 7 path) of Some v \<Rightarrow> word_of_int v | None \<Rightarrow> stream_id_max + 1)
      else stream_id_max + 1)"

text \<open>\<open>build_response\<close>; \<^const>\<open>None\<close> is the exception of \<open>parse_url\<close>, which nothing catches.\<close>

definition build_response ::
  "session_env \<Rightarrow> 'd session \<Rightarrow> string \<Rightarrow> rtsp_session \<Rightarrow> rtsp_session option" where
  "build_response E st url s =
     (case parse_url (e_decode_url E) url of
        None \<Rightarrow> None
      | Some (ok, _, _, _, path) \<Rightarrow>
          (if \<not> ok then Some (send_error 400 ''Bad Request'' s)
           else (let i = path_source_id E st path
                 in if i \<noteq> stream_id_max + 1
                    then (case get_source_sdp E (ucast i) st of
                            Inr sdp \<Rightarrow> Some ((send_response (describe_text (rq_cseq s) sdp) s)
                                \<lparr>rq_source_ids := insert i (rq_source_ids s)\<rparr>)
                          | Inl _ \<Rightarrow> Some (send_error 404 ''Not found'' s))
                    else Some (send_error 404 ''Not found'' s))))"

subsection \<open>Requests\<close>

text \<open>The header loop of \<open>process_request\<close>, from the current CSeq and count: whether the
  blank line was found, the CSeq and the count of consumed bytes.  Each line is taken to
  have had a newline behind it, the last one too.\<close>

fun read_header :: "string list \<Rightarrow> int \<Rightarrow> nat \<Rightarrow> bool \<times> int \<times> nat" where
  "read_header [] cs n = (False, cs, n)"
| "read_header (h # hs) cs n =
     (let n = n + length h + 1
      in if h = [] \<or> h = [carriage_return] then (True, cs, n)
         else (let t = trim (map tolower h)
               in if starts_with ''cseq:'' t
                  then (case stoi (drop 5 t) of
                          None \<Rightarrow> (False, cs, n)
                        | Some v \<Rightarrow> read_header hs v n)
                  else read_header hs cs n))"

definition answer_request ::
  "session_env \<Rightarrow> 'd session \<Rightarrow> string list \<Rightarrow> rtsp_session \<Rightarrow> rtsp_session option" where
  "answer_request E st fs s =
     (if take 5 (fs ! 0) = ''RTSP/'' then Some s
      else if rq_cseq s < 0 then Some (send_error 400 ''Bad Request'' s)
      else if take 5 (fs ! 2) \<noteq> ''RTSP/'' then Some (send_error 400 ''Bad Request'' s)
      else if fs ! 0 \<noteq> ''DESCRIBE'' then Some (send_error 405 ''Method Not Allowed'' s)
      else build_response E st (trim (fs ! 1)) s)"

text \<open>\<open>process_request\<close>: the result and the session; the buffer is read as a C string.\<close>

definition process_request ::
  "session_env \<Rightarrow> 'd session \<Rightarrow> rtsp_session \<Rightarrow> (bool \<times> rtsp_session) option" where
  "process_request E st s =
     (case getlines (takeWhile (\<lambda>c. c \<noteq> CHR 0x00) (rq_data s)) of
        [] \<Rightarrow> Some (False, s\<lparr>rq_request := []\<rparr>)
      | l # ls \<Rightarrow>
          (let request = trim l; fs = split_on (\<lambda>c. c = CHR '' '') request
           in if length fs < 3
              then Some (False, s\<lparr>rq_request := request, rq_consumed := length l + 1\<rparr>)
              else (case read_header ls (rq_cseq s) (length l + 1) of
                      (is_end, cs, n) \<Rightarrow>
                        (let s = s\<lparr>rq_request := request, rq_cseq := cs, rq_consumed := n\<rparr>
                         in if \<not> is_end then Some (False, s)
                            else map_option (\<lambda>s'. (True, s')) (answer_request E st fs s)))))"

text \<open>The loop of \<open>read_request\<close>.  When more is to be consumed than the buffer holds, the
  size given to \<open>memmove\<close> wraps and its behaviour is undefined.\<close>

datatype rtsp_outcome = Rtsp_idle rtsp_session | Rtsp_closed | Rtsp_undefined | Rtsp_throws

lemma read_header_consumed: "n \<le> snd (snd (read_header hs cs n))"
proof (induction hs cs n rule: read_header.induct)
  case (2 h hs cs n)
  show ?case
  proof (cases "stoi (drop 5 (trim (map tolower h)))")
    case None
    then show ?thesis using 2(2)[OF refl] by (auto simp: Let_def intro: le_trans)
  next
    case (Some v)
    then show ?thesis using 2(1)[OF refl _ refl _ Some] 2(2)[OF refl _ refl]
      by (auto simp: Let_def)
  qed
qed simp

lemma send_response_fields [simp]:
  "rq_data (send_response r s) = rq_data s" "rq_consumed (send_response r s) = rq_consumed s"
  "rq_cseq (send_response r s) = rq_cseq s" "rq_source_ids (send_response r s) = rq_source_ids s"
  "rq_sent (send_response r s) = rq_sent s @ [r]" "rq_request (send_response r s) = rq_request s"
  "rq_announce_cseq (send_response r s) = rq_announce_cseq s"
  by (simp_all add: send_response_def)

lemma answer_request_fields:
  "answer_request E st fs s = Some s' \<Longrightarrow> rq_data s' = rq_data s \<and> rq_consumed s' = rq_consumed s \<and>
     rq_cseq s' = rq_cseq s \<and> rq_announce_cseq s' = rq_announce_cseq s"
  by (auto simp: answer_request_def build_response_def send_error_def Let_def
      split: if_splits option.splits sum.splits)

lemma process_request_consumes:
  assumes "process_request E st s = Some (True, s')"
  shows "rq_data s' = rq_data s \<and> 0 < rq_consumed s'"
proof (cases "getlines (takeWhile (\<lambda>c. c \<noteq> CHR 0x00) (rq_data s))")
  case (Cons l ls)
  obtain e cs n where r: "read_header ls (rq_cseq s) (length l + 1) = (e, cs, n)"
    by (metis surj_pair)
  have "0 < n" using read_header_consumed[of "length l + 1" ls "rq_cseq s"] r by simp
  then show ?thesis
    using assms Cons r
    by (auto simp: process_request_def Let_def split: if_splits dest!: answer_request_fields)
qed (use assms in \<open>simp add: process_request_def\<close>)

function rtsp_loop :: "session_env \<Rightarrow> 'd session \<Rightarrow> rtsp_session \<Rightarrow> rtsp_outcome" where
  "rtsp_loop E st s =
     (if rq_data s = [] then Rtsp_idle s
      else (case process_request E st s of
              None \<Rightarrow> Rtsp_throws
            | Some (ok, s') \<Rightarrow>
                (if \<not> ok then Rtsp_idle s'
                 else if length (rq_data s') < rq_consumed s' then Rtsp_undefined
                 else rtsp_loop E st (s'\<lparr>rq_cseq := -1, rq_data := drop (rq_consumed s') (rq_data s')\<rparr>))))"
  by pat_completeness auto
termination
  by (relation "measure (\<lambda>(E, st, s). length (rq_data s))")
    (auto dest: process_request_consumes)

declare rtsp_loop.simps [simp del]

definition rtsp_receive :: "session_env \<Rightarrow> 'd session \<Rightarrow> string \<Rightarrow> rtsp_session \<Rightarrow> rtsp_outcome" where
  "rtsp_receive E st bytes s =
     (case rtsp_loop E st (s\<lparr>rq_data := rq_data s @ bytes\<rparr>) of
        Rtsp_idle s' \<Rightarrow> if length (rq_data s') = rtsp_max_length then Rtsp_closed else Rtsp_idle s'
      | r \<Rightarrow> r)"

subsection \<open>Announcements to sessions\<close>

text \<open>\<open>announce\<close>: only when no request is being read and the source was described here.
  \<open>encode_url\<close> is cpp-httplib's.\<close>

definition announce_text ::
  "(string \<Rightarrow> string) \<Rightarrow> session_env \<Rightarrow> u16 \<Rightarrow> int \<Rightarrow> string \<Rightarrow> string \<Rightarrow> string" where
  "announce_text encode_url E port cseq name sdp =
     ''ANNOUNCE rtsp://'' @ e_ip_addr_str (e_sdp E) @ '':'' @ show_nat (unat port) @
     encode_url (by_name_base E @ name) @ '' RTSP/1.0'' @ crlf @
     ''User-Agent: aes67-daemon'' @ crlf @ ''connection: Keep-Alive'' @ crlf @
     ''CSeq: '' @ show_int cseq @ crlf @ ''Content-Length: '' @ show_nat (length sdp) @ crlf @
     ''Content-Type: application/sdp'' @ crlf @ crlf @ sdp"

definition rtsp_announce ::
  "(string \<Rightarrow> string) \<Rightarrow> session_env \<Rightarrow> u16 \<Rightarrow> u8 \<Rightarrow> string \<Rightarrow> string \<Rightarrow> rtsp_session \<Rightarrow> bool \<times> rtsp_session" where
  "rtsp_announce encode_url E port i name sdp s =
     (if rq_cseq s < 0 \<and> i \<in> rq_source_ids s
      then (True, (send_response (announce_text encode_url E port (rq_announce_cseq s) name sdp) s)
                    \<lparr>rq_announce_cseq := rq_announce_cseq s + 1\<rparr>)
      else (False, s))"

text \<open>\<open>RtspServer::update_source\<close> over the live sessions.\<close>

definition update_source ::
  "(string \<Rightarrow> string) \<Rightarrow> session_env \<Rightarrow> u16 \<Rightarrow> u8 \<Rightarrow> string \<Rightarrow> string \<Rightarrow> rtsp_session list \<Rightarrow>
   bool \<times> rtsp_session list" where
  "update_source encode_url E port i name sdp ss =
     (list_ex (\<lambda>s. fst (rtsp_announce encode_url E port i name sdp s)) ss,
      map (\<lambda>s. snd (rtsp_announce encode_url E port i name sdp s)) ss)"

subsection \<open>Complete requests\<close>

text \<open>A request line, headers and a blank line, each ended by a newline; the lines still
  carry their carriage returns.\<close>

definition request_text :: "string \<Rightarrow> string list \<Rightarrow> string" where
  "request_text first hs = concat (map (\<lambda>l. l @ [newline]) (first # hs @ [[carriage_return]]))"

definition clean_request :: "string \<Rightarrow> string list \<Rightarrow> bool" where
  "clean_request first hs \<longleftrightarrow>
     (\<forall>l \<in> set (first # hs). newline \<notin> set l \<and> CHR 0x00 \<notin> set l) \<and>
     3 \<le> length (split_on (\<lambda>c. c = CHR '' '') (trim first)) \<and>
     (\<forall>h \<in> set hs. h \<noteq> [] \<and> h \<noteq> [carriage_return] \<and>
        (starts_with ''cseq:'' (trim (map tolower h)) \<longrightarrow> stoi (drop 5 (trim (map tolower h))) \<noteq> None))"

fun header_cseq :: "string list \<Rightarrow> int \<Rightarrow> int" where
  "header_cseq [] cs = cs"
| "header_cseq (h # hs) cs =
     (let t = trim (map tolower h)
      in header_cseq hs (if starts_with ''cseq:'' t then the (stoi (drop 5 t)) else cs))"

lemma read_header_clean:
  assumes "\<forall>h \<in> set hs. h \<noteq> [] \<and> h \<noteq> [carriage_return] \<and>
     (starts_with ''cseq:'' (trim (map tolower h)) \<longrightarrow> stoi (drop 5 (trim (map tolower h))) \<noteq> None)"
  shows "read_header (hs @ [carriage_return] # r) cs n =
    (True, header_cseq hs cs, n + sum_list (map (\<lambda>h. length h + 1) hs) + 2)"
  using assms
proof (induction hs arbitrary: cs n)
  case (Cons h hs)
  then show ?case
    by (cases "starts_with ''cseq:'' (trim (map tolower h))") (auto simp: Let_def)
qed simp

lemma getlines_request:
  assumes "clean_request first hs"
  shows "getlines (takeWhile (\<lambda>c. c \<noteq> CHR 0x00) (request_text first hs @ rest)) =
     first # hs @ [carriage_return] # getlines (takeWhile (\<lambda>c. c \<noteq> CHR 0x00) rest)"
    and "getlines (takeWhile (\<lambda>c. c \<noteq> CHR 0x00) (butlast (request_text first hs))) =
     first # hs @ [[carriage_return]]"
proof -
  have g: "\<forall>l \<in> set ls. newline \<notin> set l \<Longrightarrow>
      getlines (concat (map (\<lambda>l. l @ [newline]) ls) @ r) = ls @ getlines r" for ls r
    by (induction ls) (auto simp: cxx_eval)
  have c: "\<forall>l \<in> set (first # hs @ [[carriage_return]]). newline \<notin> set l \<and> CHR 0x00 \<notin> set l"
    using assms by (auto simp: clean_request_def)
  have z: "CHR 0x00 \<notin> set (request_text first hs)"
    using c by (auto simp: request_text_def)
  have "takeWhile (\<lambda>c. c \<noteq> CHR 0x00) (request_text first hs @ rest) =
      request_text first hs @ takeWhile (\<lambda>c. c \<noteq> CHR 0x00) rest"
    using z by (intro takeWhile_append2) metis
  then show "getlines (takeWhile (\<lambda>c. c \<noteq> CHR 0x00) (request_text first hs @ rest)) =
     first # hs @ [carriage_return] # getlines (takeWhile (\<lambda>c. c \<noteq> CHR 0x00) rest)"
    using g[of "first # hs @ [[carriage_return]]"] c unfolding request_text_def by simp
  have b: "butlast (request_text first hs) =
      concat (map (\<lambda>l. l @ [newline]) (first # hs)) @ [carriage_return]"
    by (simp add: request_text_def butlast_append)
  have t: "takeWhile (\<lambda>c. c \<noteq> CHR 0x00) (butlast (request_text first hs)) = butlast (request_text first hs)"
    using z by (auto simp: takeWhile_eq_all_conv dest: in_set_butlastD)
  show "getlines (takeWhile (\<lambda>c. c \<noteq> CHR 0x00) (butlast (request_text first hs))) =
     first # hs @ [[carriage_return]]"
    unfolding t using g[of "first # hs" "[carriage_return]"] c getlines_last[of "[carriage_return]"] by (simp add: b)
qed

lemma length_request_text:
  "length (request_text first hs) = length first + 1 + sum_list (map (\<lambda>h. length h + 1) hs) + 2"
  by (simp add: request_text_def length_concat comp_def)

text \<open>The session as a complete request leaves it when it is about to be answered.\<close>

definition requested :: "string \<Rightarrow> string list \<Rightarrow> rtsp_session \<Rightarrow> rtsp_session" where
  "requested first hs s = s\<lparr>rq_request := trim first, rq_cseq := header_cseq hs (rq_cseq s),
     rq_consumed := length (request_text first hs)\<rparr>"

lemma process_request_clean:
  assumes "clean_request first hs"
    and "rq_data s = request_text first hs @ rest \<or> rq_data s = butlast (request_text first hs)"
  shows "process_request E st s = map_option (\<lambda>s'. (True, s'))
    (answer_request E st (split_on (\<lambda>c. c = CHR '' '') (trim first)) (requested first hs s))"
proof -
  have h: "\<forall>h \<in> set hs. h \<noteq> [] \<and> h \<noteq> [carriage_return] \<and>
     (starts_with ''cseq:'' (trim (map tolower h)) \<longrightarrow> stoi (drop 5 (trim (map tolower h))) \<noteq> None)"
    and f: "\<not> length (split_on (\<lambda>c. c = CHR '' '') (trim first)) < 3"
    using assms(1) by (simp_all add: clean_request_def)
  obtain r where "getlines (takeWhile (\<lambda>c. c \<noteq> CHR 0x00) (rq_data s)) = first # hs @ [carriage_return] # r"
    using assms(2) getlines_request[OF assms(1)] by metis
  then show ?thesis
    by (simp add: process_request_def Let_def f read_header_clean[OF h] requested_def length_request_text)
qed

lemma answer_request_data:
  "answer_request E st fs (s\<lparr>rq_data := d\<rparr>) = map_option (rq_data_update (\<lambda>_. d)) (answer_request E st fs s)"
  by (auto simp: answer_request_def build_response_def send_error_def send_response_def Let_def
      split: option.splits sum.splits)

lemma rtsp_loop_clean:
  assumes "clean_request first hs" "rq_data s = request_text first hs @ rest"
  shows "rtsp_loop E st s =
    (case answer_request E st (split_on (\<lambda>c. c = CHR '' '') (trim first)) (requested first hs s) of
       None \<Rightarrow> Rtsp_throws
     | Some s' \<Rightarrow> rtsp_loop E st (s'\<lparr>rq_cseq := -1, rq_data := rest\<rparr>))"
proof -
  have ne: "rq_data s \<noteq> []" using assms(2) by (simp add: request_text_def)
  show ?thesis
  proof (cases "answer_request E st (split_on (\<lambda>c. c = CHR '' '') (trim first)) (requested first hs s)")
    case None
    then show ?thesis
      by (subst rtsp_loop.simps) (simp add: ne process_request_clean[OF assms(1) disjI1[OF assms(2)]])
  next
    case (Some s')
    from answer_request_fields[OF this]
    have "rq_data s' = request_text first hs @ rest" "rq_consumed s' = length (request_text first hs)"
      by (simp_all add: requested_def assms(2))
    then show ?thesis
      by (subst rtsp_loop.simps) (simp add: ne Some process_request_clean[OF assms(1) disjI1[OF assms(2)]])
  qed
qed

subsection \<open>What a session does with requests\<close>

lemma rtsp_loop_Nil [simp]: "rq_data s = [] \<Longrightarrow> rtsp_loop E st s = Rtsp_idle s"
  by (subst rtsp_loop.simps) simp

lemma requested_data:
  "requested first hs (s\<lparr>rq_data := d\<rparr>) = (requested first hs s)\<lparr>rq_data := d\<rparr>"
  by (simp add: requested_def)

lemma rtsp_receive_clean:
  assumes "clean_request first hs" "rq_data s = []"
  shows "rtsp_receive E st (request_text first hs) s =
    (case answer_request E st (split_on (\<lambda>c. c = CHR '' '') (trim first)) (requested first hs s) of
       None \<Rightarrow> Rtsp_throws | Some s' \<Rightarrow> Rtsp_idle (s'\<lparr>rq_cseq := -1, rq_data := []\<rparr>))"
  using rtsp_loop_clean[OF assms(1), of "s\<lparr>rq_data := request_text first hs\<rparr>" "[]" E st] assms(2)
  by (simp add: rtsp_receive_def requested_data answer_request_data rtsp_max_length_def split: option.split)

text \<open>What follows a complete request in the same read is treated as if it had come later:
  the session answers the request, forgets it and handles the rest from a clean state.\<close>

theorem rtsp_pipelining:
  assumes "clean_request first hs" "rq_data s = []"
  shows "rtsp_receive E st (request_text first hs @ further) s =
    (case rtsp_receive E st (request_text first hs) s of
       Rtsp_idle s' \<Rightarrow> rtsp_receive E st further s'
     | r \<Rightarrow> r)"
proof -
  let ?fs = "split_on (\<lambda>c. c = CHR '' '') (trim first)"
  have "rtsp_loop E st (s\<lparr>rq_data := request_text first hs @ further\<rparr>) =
      (case answer_request E st ?fs (requested first hs s) of
         None \<Rightarrow> Rtsp_throws | Some s' \<Rightarrow> rtsp_loop E st (s'\<lparr>rq_cseq := -1, rq_data := further\<rparr>))"
    using rtsp_loop_clean[OF assms(1), of "s\<lparr>rq_data := request_text first hs @ further\<rparr>" further E st]
    by (simp add: requested_data answer_request_data split: option.split)
  then show ?thesis
    unfolding rtsp_receive_clean[OF assms] using assms(2)
    by (simp add: rtsp_receive_def split: option.split)
qed

text \<open>The same request breaks the session when its last byte comes later: if a read ends
  between the carriage return and the newline of the blank line, the request is answered but
  one byte more is consumed than was received, so the size of the \<open>memmove\<close> wraps around.\<close>

theorem rtsp_split_blank_line:
  assumes "clean_request first hs" "rq_data s = []"
  shows "rtsp_receive E st (butlast (request_text first hs)) s =
    (case rtsp_receive E st (request_text first hs) s of
       Rtsp_throws \<Rightarrow> Rtsp_throws | _ \<Rightarrow> Rtsp_undefined)"
proof -
  let ?d = "butlast (request_text first hs)" and ?fs = "split_on (\<lambda>c. c = CHR '' '') (trim first)"
  have d: "?d \<noteq> []" "length ?d < length (request_text first hs)"
    by (simp_all add: request_text_def butlast_append)
  have "rtsp_loop E st (s\<lparr>rq_data := ?d\<rparr>) =
      (case answer_request E st ?fs (requested first hs s) of None \<Rightarrow> Rtsp_throws | Some s' \<Rightarrow> Rtsp_undefined)"
  proof (cases "answer_request E st ?fs (requested first hs s)")
    case None
    then show ?thesis
      by (subst rtsp_loop.simps) (simp add: d process_request_clean[OF assms(1)] requested_data answer_request_data)
  next
    case (Some s')
    from answer_request_fields[OF this] have "rq_consumed s' = length (request_text first hs)"
      by (simp add: requested_def)
    with Some d(2) show ?thesis
      by (subst rtsp_loop.simps) (simp add: d process_request_clean[OF assms(1)] requested_data answer_request_data)
  qed
  then show ?thesis
    unfolding rtsp_receive_clean[OF assms] using assms(2)
    by (simp add: rtsp_receive_def split: option.split)
qed

text \<open>The request line and header of a DESCRIBE.\<close>

definition describe_line :: "string \<Rightarrow> string" where
  "describe_line url = ''DESCRIBE '' @ url @ '' RTSP/1.0'' @ [carriage_return]"

lemma describe_line_fields:
  assumes "\<forall>c \<in> set url. \<not> is_space c"
  shows "trim (describe_line url) = ''DESCRIBE '' @ url @ '' RTSP/1.0''"
    and "split_on (\<lambda>c. c = CHR '' '') (trim (describe_line url)) = [''DESCRIBE'', url, ''RTSP/1.0'']"
    and "trim url = url"
proof -
  have t: "trim (describe_line url) = trim (''DESCRIBE '' @ url @ '' RTSP/1.0'')"
    using trim_append_space[of carriage_return "''DESCRIBE '' @ url @ '' RTSP/1.0''"]
    by (simp add: describe_line_def is_space_def)
  show t2: "trim (describe_line url) = ''DESCRIBE '' @ url @ '' RTSP/1.0''"
    unfolding t by (rule trim_no_space) (simp add: is_space_def)
  have u: "\<forall>c \<in> set url. c \<noteq> CHR '' ''" using assms by (auto simp: is_space_def)
  have "split_on (\<lambda>c. c = CHR '' '') (''DESCRIBE'' @ CHR '' '' # url @ CHR '' '' # ''RTSP/1.0'') =
      [''DESCRIBE'', url, ''RTSP/1.0'']"
    using u by (subst split_on_append, simp, simp, subst split_on_append) auto
  then show "split_on (\<lambda>c. c = CHR '' '') (trim (describe_line url)) = [''DESCRIBE'', url, ''RTSP/1.0'']"
    by (simp only: t2 append.simps)
  show "trim url = url"
    using assms by (intro trim_no_space) auto
qed

definition cseq_line :: "nat \<Rightarrow> string" where
  "cseq_line n = ''CSeq: '' @ show_nat n @ [carriage_return]"

lemma cseq_line_read:
  assumes "n < 2 ^ 31"
  shows "starts_with ''cseq:'' (trim (map tolower (cseq_line n)))"
    and "stoi (drop 5 (trim (map tolower (cseq_line n)))) = Some (int n)"
    and "newline \<notin> set (cseq_line n)" "CHR 0x00 \<notin> set (cseq_line n)"
proof -
  have low: "map tolower (show_nat n) = show_nat n"
    using show_nat_digits[of _ n] by (intro map_idI) (force simp: tolower_def is_digit_def Let_def)
  have l: "map tolower (cseq_line n) = ''cseq: '' @ show_nat n @ [carriage_return]"
    using low by (simp add: cseq_line_def) (simp add: tolower_def char_of_eq_iff)
  have last: "\<not> is_space (last (show_nat n))"
    using show_nat_digits[of "last (show_nat n)" n] by (auto dest: digit_not_special(1))
  have "trim (''cseq: '' @ show_nat n @ [carriage_return]) = trim (''cseq: '' @ show_nat n)"
    using trim_append_space[of carriage_return "''cseq: '' @ show_nat n"] by (simp add: is_space_def)
  also have "\<dots> = ''cseq: '' @ show_nat n"
    using last by (intro trim_no_space) (simp add: is_space_def)
  finally have t: "trim (map tolower (cseq_line n)) = ''cseq: '' @ show_nat n"
    by (simp only: l)
  show "starts_with ''cseq:'' (trim (map tolower (cseq_line n)))"
    by (simp add: t starts_with_def)
  have "strto (CHR '' '' # show_nat n) = strto (show_nat n)"
    by (simp add: strto_def is_space_def)
  then have "stoi (CHR '' '' # show_nat n) = stoi (show_nat n)"
    by (simp add: stoi_def)
  then show "stoi (drop 5 (trim (map tolower (cseq_line n)))) = Some (int n)"
    using stoi_show_nat[of n "[]"] assms by (simp add: t)
  show "newline \<notin> set (cseq_line n)" "CHR 0x00 \<notin> set (cseq_line n)"
    using show_nat_digits[of newline n] show_nat_digits[of "CHR 0x00" n]
    by (auto simp: cseq_line_def is_digit_def)
qed

lemma describe_clean:
  assumes "\<forall>c \<in> set url. \<not> is_space c \<and> c \<noteq> CHR 0x00" "n < 2 ^ 31"
  shows "clean_request (describe_line url) [cseq_line n]"
    and "header_cseq [cseq_line n] cs = int n"
proof -
  have "newline \<notin> set url" using assms(1) by (auto simp: is_space_def)
  then have "newline \<notin> set (describe_line url) \<and> CHR 0x00 \<notin> set (describe_line url)"
    using assms(1) by (auto simp: describe_line_def)
  moreover have "cseq_line n \<noteq> [] \<and> cseq_line n \<noteq> [carriage_return]"
    by (simp add: cseq_line_def)
  moreover have "length (split_on (\<lambda>c. c = CHR '' '') (trim (describe_line url))) = 3"
    using describe_line_fields(2)[of url] assms(1) by simp
  ultimately show "clean_request (describe_line url) [cseq_line n]"
    unfolding clean_request_def using cseq_line_read[OF assms(2)] by simp
  show "header_cseq [cseq_line n] cs = int n"
    using cseq_line_read[OF assms(2)] by (simp add: Let_def)
qed

lemma rtsp_describe_url:
  assumes "\<forall>c \<in> set url. \<not> is_space c \<and> c \<noteq> CHR 0x00" "n < 2 ^ 31" "rq_data s = []"
  shows "rtsp_receive E st (request_text (describe_line url) [cseq_line n]) s =
    (case build_response E st url (requested (describe_line url) [cseq_line n] s) of
       None \<Rightarrow> Rtsp_throws | Some s' \<Rightarrow> Rtsp_idle (s'\<lparr>rq_cseq := -1, rq_data := []\<rparr>))"
proof -
  have "answer_request E st [''DESCRIBE'', url, ''RTSP/1.0''] (requested (describe_line url) [cseq_line n] s) =
      build_response E st url (requested (describe_line url) [cseq_line n] s)"
    using describe_line_fields(3)[of url] assms(1) describe_clean(2)[OF assms(1,2), of "rq_cseq s"]
    by (simp add: answer_request_def requested_def)
  then show ?thesis
    using rtsp_receive_clean[OF describe_clean(1)[OF assms(1,2)] assms(3), of E st]
      describe_line_fields(2)[of url] assms(1)
    by simp
qed

lemma find_str_prefix: "find_str p (p @ r) \<noteq> None"
proof -
  have "starts_with p (p @ r)" by (simp add: starts_with_def)
  then show ?thesis by (cases "p @ r") auto
qed

text \<open>A DESCRIBE of one of the daemon's sources by its name gets one 200 answer with the
  request's CSeq and the source's current SDP, and from then on the session is told of
  updates of that source.\<close>

theorem describe_by_name:
  assumes "\<forall>c \<in> set url. \<not> is_space c \<and> c \<noteq> CHR 0x00" "n < 2 ^ 31" "rq_data s = []"
    and "parse_url (e_decode_url E) url = Some (True, proto, host, port, by_name_base E @ name)"
    and "get_source_id name st = i" "i \<le> stream_id_max" "get_source_sdp E (ucast i) st = Inr sdp"
  shows "\<exists>s'. rtsp_receive E st (request_text (describe_line url) [cseq_line n]) s = Rtsp_idle s' \<and>
    rq_sent s' = rq_sent s @ [describe_text (int n) sdp] \<and> rq_data s' = [] \<and>
    fst (rtsp_announce encode_url E p i name sdp' s')"
proof -
  have id: "path_source_id E st (by_name_base E @ name) = i"
    using find_str_prefix[of "by_name_base E" name] assms(5) by (simp add: path_source_id_def)
  have "i \<noteq> stream_id_max + 1" using assms(6) by (auto simp: stream_id_max_def)
  then have "build_response E st url (requested (describe_line url) [cseq_line n] s) =
      Some ((send_response (describe_text (int n) sdp) (requested (describe_line url) [cseq_line n] s))
        \<lparr>rq_source_ids := insert i (rq_source_ids s)\<rparr>)"
    using describe_clean(2)[OF assms(1,2), of "rq_cseq s"] assms(4,7)
    by (simp add: build_response_def id Let_def requested_def)
  then show ?thesis
    unfolding rtsp_describe_url[OF assms(1-3)]
    by (simp add: rtsp_announce_def) (simp add: requested_def)
qed

text \<open>A number in the path is cut to eight bits: \<open>/by-id/n\<close> stands for the source n modulo
  256, so ids far above the largest stream id reach existing sources.\<close>

theorem by_id_wraps:
  assumes "n < 2 ^ 31"
  shows "path_source_id E st (''/by-id/'' @ show_nat n) = word_of_nat (n mod 256)"
proof -
  have no: "\<not> starts_with (''/by-name/'' @ b) t" if "\<forall>c \<in> set t. is_digit c \<or> c \<in> set ''/by-id/''" for b t
  proof
    assume "starts_with (''/by-name/'' @ b) t"
    then have "set (''/by-name/'' @ b) \<subseteq> set t"
      by (metis starts_with_def set_take_subset)
    then have "CHR ''n'' \<in> set t" by auto
    with that show False by (auto simp: is_digit_def)
  qed
  have "find_str (''/by-name/'' @ b) t = None" if "\<forall>c \<in> set t. is_digit c \<or> c \<in> set ''/by-id/''" for b t
    using that
  proof (induction t)
    case (Cons x t)
    then show ?case using no[of "x # t" b] by simp
  qed simp
  from this[of "''/by-id/'' @ show_nat n" "e_node_id (e_sdp E) @ '' ''"] show_nat_digits[of _ n]
  have "find_str (by_name_base E) (''/by-id/'' @ show_nat n) = None"
    by (auto simp: by_name_base_def)
  moreover have "find_str ''/by-id/'' (''/by-id/'' @ show_nat n) \<noteq> None"
    by (rule find_str_prefix)
  moreover have "stoi (drop 7 (''/by-id/'' @ show_nat n)) = Some (int n)"
    using stoi_show_nat[of n "[]"] assms by simp
  moreover have "(word_of_int (int n) :: u8) = word_of_nat (n mod 256)"
    by (simp add: unat_of_nat word_unat_eq_iff)
  ultimately show ?thesis
    unfolding path_source_id_def by (simp del: append.simps of_int_of_nat_eq)
qed

text \<open>The exception of \<open>parse_url\<close> is not caught: a DESCRIBE of a URL such as \<open>rtsp:\<close> ends
  the thread that serves all sessions.\<close>

theorem describe_bad_url_throws:
  assumes "\<forall>c \<in> set url. \<not> is_space c \<and> c \<noteq> CHR 0x00" "n < 2 ^ 31" "rq_data s = []"
    and "parse_url (e_decode_url E) url = None"
  shows "rtsp_receive E st (request_text (describe_line url) [cseq_line n]) s = Rtsp_throws"
  using assms(4) by (simp add: rtsp_describe_url[OF assms(1-3)] build_response_def)

subsection \<open>A concrete exchange\<close>

lemma sample_describe: "clean_request (describe_line ''rtsp:'') [cseq_line 3]"
  by (rule describe_clean) (simp_all add: is_space_def)

theorem describe_bad_url_throws_witness:
  "rtsp_receive sample_senv sample_state (request_text (describe_line ''rtsp:'') [cseq_line 3])
     rtsp_session_init = Rtsp_throws"
  by (rule describe_bad_url_throws)
    (simp_all add: is_space_def rtsp_session_init_def sample_senv_def parse_url_def substr_from_def)

theorem by_id_wraps_witness:
  "path_source_id sample_senv sample_state ''/by-id/259'' = 3"
proof -
  have "show_nat 259 = ''259''"
    by (simp add: show_nat.simps digit_char_def char_of_eq_iff)
  with by_id_wraps[of 259 sample_senv sample_state] show ?thesis by simp
qed

text \<open>A request that is refused for its method.\<close>

definition options_line :: string where
  "options_line = ''OPTIONS * RTSP/1.0'' @ [carriage_return]"

lemma options_fields: "split_on (\<lambda>c. c = CHR '' '') (trim options_line) = [''OPTIONS'', ''*'', ''RTSP/1.0'']"
proof -
  have "trim options_line = trim ''OPTIONS * RTSP/1.0''"
    using trim_append_space[of carriage_return "''OPTIONS * RTSP/1.0''"] by (simp add: options_line_def is_space_def)
  also have "\<dots> = ''OPTIONS * RTSP/1.0''" by (rule trim_no_space) (simp add: is_space_def)
  finally show ?thesis by simp
qed

lemma options_clean: "clean_request options_line [cseq_line 3]"
  using cseq_line_read[of 3] options_fields
  by (simp add: clean_request_def) (simp add: options_line_def cseq_line_def)

lemma options_answer:
  "\<exists>s'. rtsp_receive sample_senv sample_state (request_text options_line [cseq_line 3]) rtsp_session_init = Rtsp_idle s'"
proof -
  have "header_cseq [cseq_line 3] (-1) = 3" using cseq_line_read[of 3] by (simp add: Let_def)
  then show ?thesis
    using rtsp_receive_clean[OF options_clean, of rtsp_session_init sample_senv sample_state]
    by (simp add: rtsp_session_init_def answer_request_def options_fields requested_def)
qed

theorem rtsp_pipelining_witness:
  "\<exists>s'. rtsp_receive sample_senv sample_state (request_text options_line [cseq_line 3]) rtsp_session_init = Rtsp_idle s' \<and>
     rtsp_receive sample_senv sample_state (request_text options_line [cseq_line 3] @ ''DESC'') rtsp_session_init =
     rtsp_receive sample_senv sample_state ''DESC'' s'"
  using options_answer rtsp_pipelining[OF options_clean, of rtsp_session_init sample_senv sample_state "''DESC''"]
  by (auto simp: rtsp_session_init_def)

theorem rtsp_split_blank_line_witness:
  "rtsp_receive sample_senv sample_state (butlast (request_text options_line [cseq_line 3])) rtsp_session_init = Rtsp_undefined"
  using options_answer rtsp_split_blank_line[OF options_clean, of rtsp_session_init sample_senv sample_state]
  by (auto simp: rtsp_session_init_def)

definition sample_url :: string where
  "sample_url = ''rtsp://10.0.0.1:8854/by-name/node%20src''"

definition named_senv :: session_env where
  "named_senv = sample_senv\<lparr>e_decode_url := (\<lambda>_. ''rtsp'' @ ''://'' @ ''10.0.0.1'' @ '':'' @ ''8854'' @ ''/'' @ ''by-name/node src'')\<rparr>"

definition named_state :: "unit session" where
  "named_state = (session_init () 0 46 7)\<lparr>ss_source_names := [''src'' \<mapsto> 3], ss_sources := [(3, sample_info)]\<rparr>"

theorem describe_by_name_witness:
  "\<exists>s'. rtsp_receive named_senv named_state (request_text (describe_line sample_url) [cseq_line 3]) rtsp_session_init
     = Rtsp_idle s' \<and> length (rq_sent s') = 1 \<and> rq_data s' = []"
proof -
  have b: "by_name_base named_senv @ ''src'' = ''/by-name/node src''"
    by (simp add: by_name_base_def named_senv_def sample_senv_def sample_env_def)
  have p: "parse_url (e_decode_url named_senv) sample_url =
      Some (True, ''rtsp'', ''10.0.0.1'', ''8854'', by_name_base named_senv @ ''src'')"
    unfolding b using parse_url_sep[of "''rtsp''" "e_decode_url named_senv" sample_url]
      parse_url_rest_port_path[of "''10.0.0.1''" "''8854''" "''rtsp''" "''by-name/node src''"]
    by (simp add: named_senv_def)
  have g: "get_source_id ''src'' named_state = 3" "(3 :: u8) \<le> stream_id_max"
    "get_source_sdp named_senv (ucast (3 :: u8)) named_state =
       Inr (get_source_sdp_text (sdp_env_of named_senv named_state) sample_info)"
    by (simp_all add: get_source_id_def named_state_def stream_id_max_def get_source_sdp_def)
  have u: "\<forall>c \<in> set sample_url. \<not> is_space c \<and> c \<noteq> CHR 0x00"
    by (simp add: sample_url_def is_space_def)
  have r: "rq_data rtsp_session_init = []" "rq_sent rtsp_session_init = []"
    by (simp_all add: rtsp_session_init_def)
  show ?thesis
    using describe_by_name[OF u _ r(1) p g, of 3] r(2) by fastforce
qed

end
