(* ===== verification/Interface.thy ===== *)
theory Interface
  imports Inet
begin

text \<open>
  \<open>daemon/interface.cpp\<close>: what the daemon asks the kernel about a network interface.  The
  answers of the system calls are the record \<open>net_world\<close>: the IPv4 addresses listed by
  \<open>getifaddrs\<close>, the results of \<open>socket\<close> and of the four \<open>ioctl\<close> requests, and the lines of
  \<open>/proc/net/arp\<close>.  \<open>inet_ntoa\<close> and \<open>inet_pton\<close> are \<^theory_text>\<open>dotted\<close> and \<^theory_text>\<open>undotted\<close>; asio's
  \<open>address_v4::to_string\<close> is the field \<open>nw_text\<close>.
\<close>

record net_world =
  nw_addrs :: "(string \<times> u32) list"
  nw_socket :: bool
  nw_ifaddr :: "string \<Rightarrow> u32 option"
  nw_hwaddr :: "string \<Rightarrow> u8 list option"
  nw_ifindex :: "string \<Rightarrow> int option"
  nw_running :: "string \<Rightarrow> bool option"
  nw_arp :: "string list"
  nw_text :: "u32 \<Rightarrow> string"

text \<open>\<open>strncpy(ifr.ifr_name, ..., IFNAMSIZ - 1)\<close>.\<close>

definition ifr_name :: "string \<Rightarrow> string" where "ifr_name i = take 15 i"

definition no_mac :: "u8 list" where "no_mac = [0, 0, 0, 0, 0, 0]"

lemma no_mac_replicate: "no_mac = replicate 6 0"
  by (simp add: no_mac_def numeral_eq_Suc)

definition is_interface_ip :: "net_world \<Rightarrow> string \<Rightarrow> string \<Rightarrow> bool" where
  "is_interface_ip w i addr = list_ex (\<lambda>(name, a). i = name \<and> addr = dotted a) (nw_addrs w)"

definition get_interface_ip :: "net_world \<Rightarrow> string \<Rightarrow> u32 \<times> string" where
  "get_interface_ip w i =
     (if i = [] then (0, [])
      else if \<not> nw_socket w then (0, [])
      else (case nw_ifaddr w (ifr_name i) of None \<Rightarrow> (0, []) | Some a \<Rightarrow> (a, nw_text w a)))"

definition get_new_interface_ip :: "net_world \<Rightarrow> string \<Rightarrow> string \<Rightarrow> u32 \<times> string \<times> bool" where
  "get_new_interface_ip w i cur =
     (if is_interface_ip w i cur
      then (case undotted cur of None \<Rightarrow> 0 | Some a \<Rightarrow> a, cur, False)
      else (let (a, s) = get_interface_ip w i in (a, s, s \<noteq> [] \<and> cur \<noteq> [] \<and> cur \<noteq> s)))"

definition get_interface_mac :: "net_world \<Rightarrow> string \<Rightarrow> u8 list \<times> string" where
  "get_interface_mac w i =
     (if \<not> nw_socket w then (no_mac, [])
      else (case nw_hwaddr w (ifr_name i) of
              None \<Rightarrow> (no_mac, [])
            | Some m \<Rightarrow> (m, join_with '':'' (map (\<lambda>b. show_hex_pad 2 (unat b)) m))))"

definition get_interface_index :: "net_world \<Rightarrow> string \<Rightarrow> int" where
  "get_interface_index w i =
     (if \<not> nw_socket w then - 1
      else (case nw_ifindex w (ifr_name i) of None \<Rightarrow> - 1 | Some n \<Rightarrow> n))"

definition get_interface_link_up :: "net_world \<Rightarrow> string \<Rightarrow> bool" where
  "get_interface_link_up w i =
     (nw_socket w \<and> (case nw_running w (ifr_name i) of None \<Rightarrow> False | Some r \<Rightarrow> r))"

subsection \<open>The ARP cache\<close>

text \<open>\<open>boost::split\<close> with \<open>token_compress_on\<close>: runs of separators count as one, those at the
  ends leave an empty field.\<close>

definition split_compress :: "(char \<Rightarrow> bool) \<Rightarrow> string \<Rightarrow> string list" where
  "split_compress p s =
     (case split_on p s of
        [] \<Rightarrow> []
      | [f] \<Rightarrow> [f]
      | f # fs \<Rightarrow> f # filter (\<lambda>g. g \<noteq> []) (butlast fs) @ [List.last fs])"

definition hex_digit :: "char \<Rightarrow> nat option" where
  "hex_digit c =
     (let n = of_char c :: nat
      in if 48 \<le> n \<and> n \<le> 57 then Some (n - 48)
         else if 97 \<le> n \<and> n \<le> 102 then Some (n - 87)
         else if 65 \<le> n \<and> n \<le> 70 then Some (n - 55) else None)"

text \<open>\<open>strtol(s, nullptr, 16)\<close> on the fields of an ARP entry, cut to \<open>uint8_t\<close>: blanks, a sign
  and \<open>0x\<close> are skipped.\<close>

fun hex_value :: "string \<Rightarrow> int \<Rightarrow> int" where
  "hex_value [] n = n"
| "hex_value (c # s) n = (case hex_digit c of None \<Rightarrow> n | Some d \<Rightarrow> hex_value s (16 * n + int d))"

definition hex_prefix :: "string \<Rightarrow> string" where
  "hex_prefix s =
     (if starts_with ''0x'' s \<or> starts_with ''0X'' s
      then (if length s > 2 \<and> hex_digit (s ! 2) \<noteq> None then drop 2 s else s) else s)"

definition strtol16 :: "string \<Rightarrow> int" where
  "strtol16 s =
     (case dropWhile is_space s of
        [] \<Rightarrow> 0
      | c # t \<Rightarrow> if c = CHR ''-'' then max (- hex_value (hex_prefix t) 0) (- (2 ^ 63))
                 else min (hex_value (hex_prefix (if c = CHR ''+'' then t else c # t)) 0) (2 ^ 63 - 1))"

text \<open>One line of the table: \<^term>\<open>None\<close> goes on with the next one, \<^term>\<open>Some (Inl ())\<close> is a write past
  the six bytes of the array.\<close>

definition arp_line :: "string \<Rightarrow> string \<Rightarrow> u8 list \<Rightarrow> (unit + u8 list \<times> string) option \<times> u8 list" where
  "arp_line ip l mac =
     (if find_str ip l = None then (None, mac)
      else (let tokens = split_compress (\<lambda>c. c = CHR '' '') l
            in if length tokens < 6 then (None, mac)
               else (let bs = map (\<lambda>f. word_of_int (strtol16 f)) (split_on (\<lambda>c. c = CHR '':'') (tokens ! 3))
                     in if length bs > 6 then (Some (Inl ()), mac)
                        else (let mac' = bs @ drop (length bs) mac
                              in if list_ex (\<lambda>b. b \<noteq> 0) bs then (Some (Inr (mac', tokens ! 3)), mac')
                                 else (None, mac')))))"

fun arp_lines :: "string \<Rightarrow> string list \<Rightarrow> u8 list \<Rightarrow> unit + u8 list \<times> string" where
  "arp_lines ip [] mac = Inr (mac, [])"
| "arp_lines ip (l # ls) mac =
     (case arp_line ip l mac of (Some r, _) \<Rightarrow> r | (None, mac') \<Rightarrow> arp_lines ip ls mac')"

definition get_mac_from_arp_cache :: "net_world \<Rightarrow> string \<Rightarrow> unit + u8 list \<times> string" where
  "get_mac_from_arp_cache w ip = arp_lines ip (nw_arp w) no_mac"

subsection \<open>Properties\<close>

lemma new_ip_again:
  assumes "nw_text w = dotted" and "get_new_interface_ip w i cur = (a, s, n)"
  shows "fst (get_new_interface_ip w i s) = a" "fst (snd (get_new_interface_ip w i s)) = s"
proof -
  have u: "get_interface_ip w i = (0, []) \<or> (\<exists>b. get_interface_ip w i = (b, dotted b))"
    using assms(1) by (auto simp: get_interface_ip_def split: option.splits)
  have e: "\<not> is_interface_ip w i []"
    using dotted_not_Nil[symmetric] by (auto simp: is_interface_ip_def list_ex_iff)
  have "fst (get_new_interface_ip w i s) = a \<and> fst (snd (get_new_interface_ip w i s)) = s"
    using assms(2) u e by (auto simp: get_new_interface_ip_def split: if_splits option.splits)
  then show "fst (get_new_interface_ip w i s) = a" "fst (snd (get_new_interface_ip w i s)) = s" by auto
qed

lemma show_hex_pad_length [simp]: "length (show_hex_pad k n) = k"
  by (induction k arbitrary: n) auto

lemma hex_digit_char [simp]: "d < 16 \<Longrightarrow> hex_digit (hex_char d) = Some d"
  by (auto simp: hex_digit_def hex_char_def)

lemma hex_char_plain:
  assumes "d < 16"
  shows "\<not> is_space (hex_char d)" "hex_char d \<notin> {CHR ''-'', CHR ''+'', CHR ''x'', CHR ''X'', CHR '':'', CHR '' ''}"
proof -
  have d: "d \<in> set [0..<16]" using assms by simp
  have "list_all (\<lambda>d. \<not> is_space (hex_char d) \<and>
      hex_char d \<notin> {CHR ''-'', CHR ''+'', CHR ''x'', CHR ''X'', CHR '':'', CHR '' ''}) [0..<16]"
    by code_simp
  with d show "\<not> is_space (hex_char d)"
    "hex_char d \<notin> {CHR ''-'', CHR ''+'', CHR ''x'', CHR ''X'', CHR '':'', CHR '' ''}"
    unfolding list_all_iff by blast+
qed

lemma strtol16_byte: "(word_of_int (strtol16 (show_hex_pad 2 (unat b))) :: u8) = b"
proof -
  define n where "n = unat b"
  have n: "n < 256" by (simp add: n_def)
  have s: "show_hex_pad 2 n = [hex_char (n div 16), hex_char (n mod 16)]"
    using n by (simp add: numeral_2_eq_2)
  have q: "n div 16 < 16" using n by simp
  have "strtol16 (show_hex_pad 2 n) = 16 * int (n div 16) + int (n mod 16)"
    using q hex_char_plain[of "n div 16"] hex_char_plain[of "n mod 16"]
    by (auto simp: strtol16_def s hex_prefix_def starts_with_def)
  also have "\<dots> = int n" by presburger
  finally show ?thesis by (simp add: n_def)
qed

lemma arp_lines_skip: "\<forall>l\<in>set ls. find_str ip l = None \<Longrightarrow> arp_lines ip (ls @ ms) mac = arp_lines ip ms mac"
  by (induction ls) (auto simp: arp_line_def)

text \<open>The ARP cache is searched for a line that contains the address as text anywhere: the
  first such line with a hardware address that is not zero answers, whatever address it is for.
  (The line of the witness is the entry of 10.0.0.11, the address asked for 10.0.0.1.)\<close>

theorem arp_first_match:
  assumes "\<forall>l\<in>set ls. find_str ip l = None" and "find_str ip l \<noteq> None"
    and "split_compress (\<lambda>c. c = CHR '' '') l = f0 # f1 # f2 # hw # f4 # f5 # fs"
    and "split_on (\<lambda>c. c = CHR '':'') hw = map (\<lambda>b. show_hex_pad 2 (unat b)) m"
    and "length m = 6" and "m \<noteq> no_mac"
  shows "get_mac_from_arp_cache (w\<lparr>nw_arp := ls @ l # rest\<rparr>) ip = Inr (m, hw)"
proof -
  have b: "map (\<lambda>f. word_of_int (strtol16 f)) (split_on (\<lambda>c. c = CHR '':'') hw) = m"
    by (simp add: assms(4) comp_def strtol16_byte)
  have z: "list_ex (\<lambda>b. b \<noteq> 0) m"
  proof (rule ccontr)
    assume "\<not> list_ex (\<lambda>b. b \<noteq> 0) m"
    then have "replicate (length m) 0 = m"
      by (intro replicate_length_same) (auto simp: list_ex_iff)
    with assms(5,6) show False by (simp add: no_mac_replicate)
  qed
  show ?thesis
    using assms(1,2,3,5) z
    by (auto simp: get_mac_from_arp_cache_def arp_lines_skip arp_line_def b Let_def no_mac_def)
qed

definition sample_arp_line :: string where
  "sample_arp_line = ''10.0.0.11  0x1  0x2  00:0b:ad:c0:ff:ee  *  eth0''"

definition silent_net :: net_world where
  "silent_net = \<lparr>nw_addrs = [], nw_socket = True, nw_ifaddr = (\<lambda>_. None), nw_hwaddr = (\<lambda>_. Some [2, 0, 0, 0, 0, 1]),
     nw_ifindex = (\<lambda>_. Some 2), nw_running = (\<lambda>_. None), nw_arp = [], nw_text = dotted\<rparr>"

theorem arp_first_match_witness:
  "get_mac_from_arp_cache (silent_net\<lparr>nw_arp := [sample_arp_line]\<rparr>) ''10.0.0.1''
     = Inr ([0, 0x0b, 0xad, 0xc0, 0xff, 0xee], ''00:0b:ad:c0:ff:ee'')"
proof -
  have h: "find_str ''10.0.0.1'' sample_arp_line \<noteq> None" by code_simp
  have f: "split_compress (\<lambda>c. c = CHR '' '') sample_arp_line =
      [''10.0.0.11'', ''0x1'', ''0x2'', ''00:0b:ad:c0:ff:ee'', ''*'', ''eth0'']" by code_simp
  have m: "split_on (\<lambda>c. c = CHR '':'') ''00:0b:ad:c0:ff:ee'' =
      map (\<lambda>b. show_hex_pad 2 (unat b)) [0, 0x0b, 0xad, 0xc0, 0xff, 0xee :: u8]" by code_simp
  have z: "[0, 0x0b, 0xad, 0xc0, 0xff, 0xee] \<noteq> no_mac" by (simp add: no_mac_def)
  show ?thesis
    using arp_first_match[OF _ h f m _ z, where ls = "[]" and w = silent_net and rest = "[]"] by simp
qed

end
