(* ===== verification/Config.thy ===== *)
theory Config
  imports Interface
begin

text \<open>
  \<open>daemon/config.cpp\<close> and \<open>daemon/config.hpp\<close>: the configuration, the checks made when it is
  read, the comparison that decides whether it is written, and what changing it restarts.
  Decoding the JSON text is \<open>json_to_config\<close>; asio's address parser is a parameter, and so are
  the answers of the kernel (theory \<open>Interface\<close>) and the two build options.
\<close>

record config =
  cf_http_addr_str :: string
  cf_http_port :: u16
  cf_rtsp_port :: u16
  cf_http_base_dir :: string
  cf_streamer_channels :: u8
  cf_alsa_channels :: u8
  cf_streamer_files_num :: u8
  cf_streamer_file_duration :: u16
  cf_streamer_player_buffer_files_num :: u8
  cf_streamer_enabled :: bool
  cf_log_severity :: int
  cf_playout_delay :: u32
  cf_tic_frame_size_at_1fs :: u32
  cf_max_tic_frame_size :: u32
  cf_sample_rate :: u32
  cf_rtp_mcast_base :: string
  cf_rtp_mcast_base_sec :: string
  cf_sap_mcast_addr :: string
  cf_rtp_port :: u16
  cf_rtp_port_sec :: u16
  cf_ptp_domain :: u8
  cf_ptp_dscp :: u8
  cf_sap_interval :: u16
  cf_syslog_proto :: string
  cf_syslog_server :: string
  cf_status_file :: string
  cf_interface_name :: string
  cf_interfaces :: "string list"
  cf_mdns_enabled :: bool
  cf_ptp_status_script :: string
  cf_lldp_update_script :: string
  cf_custom_node_id :: string
  cf_auto_sinks_update :: bool
  cf_nmos_enabled :: bool
  cf_nmos_registry_address :: string
  cf_nmos_registry_port :: u16
  cf_nmos_registry_query_port :: u16
  cf_nmos_node_port :: u16
  cf_nmos_control_interface :: string
  cf_nmos_label :: string
  cf_nmos_registry_auto_discover :: bool
  cf_nmos_mdns_enabled :: bool
  cf_is12_enabled :: bool
  cf_is08_enabled :: bool
  cf_mac_addr :: "u8 list"
  cf_mac_str :: string
  cf_ip_addr :: u32
  cf_ip_str :: string
  cf_interface_idx :: int
  cf_config_filename :: string
  cf_driver_restart :: bool
  cf_daemon_restart :: bool

definition config_default :: config where
  "config_default = \<lparr>cf_http_addr_str = [], cf_http_port = 8080, cf_rtsp_port = 8854,
     cf_http_base_dir = ''../webui/dist'', cf_streamer_channels = 8, cf_alsa_channels = 64,
     cf_streamer_files_num = 8, cf_streamer_file_duration = 1,
     cf_streamer_player_buffer_files_num = 1, cf_streamer_enabled = False, cf_log_severity = 2,
     cf_playout_delay = 0, cf_tic_frame_size_at_1fs = 48, cf_max_tic_frame_size = 1024,
     cf_sample_rate = 48000, cf_rtp_mcast_base = ''239.1.0.1'', cf_rtp_mcast_base_sec = ''239.1.0.1'',
     cf_sap_mcast_addr = ''224.2.127.254'', cf_rtp_port = 5004, cf_rtp_port_sec = 5004,
     cf_ptp_domain = 0, cf_ptp_dscp = 46, cf_sap_interval = 300, cf_syslog_proto = [],
     cf_syslog_server = [], cf_status_file = ''./status.json'', cf_interface_name = ''eth0'',
     cf_interfaces = [], cf_mdns_enabled = True, cf_ptp_status_script = [],
     cf_lldp_update_script = [], cf_custom_node_id = [], cf_auto_sinks_update = True,
     cf_nmos_enabled = False, cf_nmos_registry_address = [], cf_nmos_registry_port = 8010,
     cf_nmos_registry_query_port = 8010, cf_nmos_node_port = 3212, cf_nmos_control_interface = [],
     cf_nmos_label = ''AES67 Daemon'', cf_nmos_registry_auto_discover = True,
     cf_nmos_mdns_enabled = True, cf_is12_enabled = False, cf_is08_enabled = False,
     cf_mac_addr = [0, 0, 0, 0, 0, 0], cf_mac_str = [], cf_ip_addr = 0, cf_ip_str = [],
     cf_interface_idx = 0, cf_config_filename = [], cf_driver_restart = True,
     cf_daemon_restart = False\<rparr>"

text \<open>The build options \<open>_USE_STREAMER_\<close> and \<open>_USE_AVAHI_\<close>, and the outside world.\<close>

record build =
  b_streamer :: bool
  b_avahi :: bool

definition get_streamer_enabled :: "build \<Rightarrow> config \<Rightarrow> bool" where
  "get_streamer_enabled b c = (b_streamer b \<and> cf_streamer_enabled c)"

definition get_mdns_enabled :: "build \<Rightarrow> config \<Rightarrow> bool" where
  "get_mdns_enabled b c = (b_avahi b \<and> cf_mdns_enabled c)"

definition get_interface_name :: "nat \<Rightarrow> config \<Rightarrow> string" where
  "get_interface_name idx c = (if idx < length (cf_interfaces c) then cf_interfaces c ! idx else [])"

definition get_node_id :: "config \<Rightarrow> string" where
  "get_node_id c = (if cf_custom_node_id c = [] then get_host_node_id (cf_ip_addr c) else cf_custom_node_id c)"

subsection \<open>Reading\<close>

text \<open>The range checks of \<open>parse\<close>: each one looks at and sets its own field only, apart from
  the check of the largest frame size, which sees the frame size already checked.\<close>

definition check_numbers :: "config \<Rightarrow> config" where
  "check_numbers c =
     (let tic = (if cf_tic_frame_size_at_1fs c = 0 \<or> 192 < cf_tic_frame_size_at_1fs c
                 then 192 else cf_tic_frame_size_at_1fs c)
      in c\<lparr>cf_log_severity :=
             (if cf_log_severity c < 0 \<or> 5 < cf_log_severity c then 2 else cf_log_severity c),
           cf_playout_delay := (if 4000 < cf_playout_delay c then 4000 else cf_playout_delay c),
           cf_tic_frame_size_at_1fs := tic,
           cf_max_tic_frame_size :=
             (if cf_max_tic_frame_size c < tic \<or> 1024 < cf_max_tic_frame_size c
              then 1024 else cf_max_tic_frame_size c),
           cf_sample_rate := (if cf_sample_rate c = 0 then 48000 else cf_sample_rate c),
           cf_streamer_channels :=
             (if cf_streamer_channels c < 2 \<or> 16 < cf_streamer_channels c then 8 else cf_streamer_channels c),
           cf_alsa_channels :=
             (if cf_alsa_channels c < 1 \<or> 64 < cf_alsa_channels c then 64 else cf_alsa_channels c),
           cf_streamer_file_duration :=
             (if cf_streamer_file_duration c < 1 \<or> 4 < cf_streamer_file_duration c
              then 1 else cf_streamer_file_duration c),
           cf_streamer_files_num :=
             (if cf_streamer_files_num c < 4 \<or> 16 < cf_streamer_files_num c
              then 8 else cf_streamer_files_num c),
           cf_streamer_player_buffer_files_num :=
             (if cf_streamer_player_buffer_files_num c < 1 \<or> 2 < cf_streamer_player_buffer_files_num c
              then 1 else cf_streamer_player_buffer_files_num c)\<rparr>)"

definition check_addresses :: "(string \<Rightarrow> bool) \<Rightarrow> config \<Rightarrow> config" where
  "check_addresses ok c =
     c\<lparr>cf_rtp_mcast_base := (if ok (cf_rtp_mcast_base c) then cf_rtp_mcast_base c else ''239.1.0.1''),
       cf_rtp_mcast_base_sec :=
         (if ok (cf_rtp_mcast_base_sec c) then cf_rtp_mcast_base_sec c else ''239.1.0.1''),
       cf_sap_mcast_addr := (if ok (cf_sap_mcast_addr c) then cf_sap_mcast_addr c else ''224.2.127.254''),
       cf_ptp_domain := (if 127 < cf_ptp_domain c then 0 else cf_ptp_domain c)\<rparr>"

definition split_interfaces :: "config \<Rightarrow> config" where
  "split_interfaces c =
     (let name = filter (\<lambda>x. x \<noteq> CHR '' '') (cf_interface_name c)
      in c\<lparr>cf_interface_name := name, cf_interfaces := split_compress (\<lambda>x. x = CHR '','') name\<rparr>)"

datatype config_file = No_config_file | Bad_config string | Config_json config

definition config_network :: "net_world \<Rightarrow> config \<Rightarrow> config option" where
  "config_network w c =
     (if cf_interfaces c = [] then None
      else (let i0 = cf_interfaces c ! 0; (mac, mac_str) = get_interface_mac w i0
            in if mac_str = [] then None
               else (let idx = get_interface_index w i0;
                         (ip, ip_str, is_new) = get_new_interface_ip w i0 (cf_ip_str c)
                     in Some (c\<lparr>cf_mac_addr := mac, cf_mac_str := mac_str, cf_ip_addr := ip,
                                cf_ip_str := ip_str,
                                cf_interface_idx := (if idx < 0 then cf_interface_idx c else idx)\<rparr>))))"

text \<open>\<open>parse\<close>; \<^term>\<open>None\<close> is the null pointer. The first argument is asio's check of an address.\<close>

definition config_parse ::
  "(string \<Rightarrow> bool) \<Rightarrow> net_world \<Rightarrow> string \<Rightarrow> bool \<Rightarrow> config_file \<Rightarrow> config option" where
  "config_parse addr_ok w filename driver_restart f =
     (case f of
        No_config_file \<Rightarrow> None
      | Bad_config _ \<Rightarrow> None
      | Config_json c \<Rightarrow>
          map_option (\<lambda>c. c\<lparr>cf_config_filename := filename, cf_driver_restart := driver_restart,
                            cf_daemon_restart := False\<rparr>)
            (config_network w (split_interfaces (check_addresses addr_ok (check_numbers c)))))"

definition numbers_ok :: "config \<Rightarrow> bool" where
  "numbers_ok c \<longleftrightarrow>
     0 \<le> cf_log_severity c \<and> cf_log_severity c \<le> 5 \<and> cf_playout_delay c \<le> 4000 \<and>
     cf_tic_frame_size_at_1fs c \<noteq> 0 \<and> cf_tic_frame_size_at_1fs c \<le> 192 \<and>
     cf_tic_frame_size_at_1fs c \<le> cf_max_tic_frame_size c \<and> cf_max_tic_frame_size c \<le> 1024 \<and>
     cf_sample_rate c \<noteq> 0 \<and>
     2 \<le> cf_streamer_channels c \<and> cf_streamer_channels c \<le> 16 \<and>
     1 \<le> cf_alsa_channels c \<and> cf_alsa_channels c \<le> 64 \<and>
     1 \<le> cf_streamer_file_duration c \<and> cf_streamer_file_duration c \<le> 4 \<and>
     4 \<le> cf_streamer_files_num c \<and> cf_streamer_files_num c \<le> 16 \<and>
     1 \<le> cf_streamer_player_buffer_files_num c \<and> cf_streamer_player_buffer_files_num c \<le> 2"

definition addresses_ok :: "(string \<Rightarrow> bool) \<Rightarrow> config \<Rightarrow> bool" where
  "addresses_ok ok c \<longleftrightarrow> ok (cf_rtp_mcast_base c) \<and> ok (cf_rtp_mcast_base_sec c) \<and>
     ok (cf_sap_mcast_addr c) \<and> cf_ptp_domain c \<le> 127"

lemma word_pos: "x \<noteq> 0 \<Longrightarrow> 1 \<le> (x :: 'a::len word)"
  by (metis word_gt_0 word_le_less_eq word_less_1 not_less)

lemma check_numbers_ok: "numbers_ok (check_numbers c)"
proof -
  have t: "tic \<le> 1024" if "tic \<le> 192" for tic :: u32
    using that order.trans[of tic 192 1024] by simp
  show ?thesis
    unfolding numbers_ok_def check_numbers_def Let_def
    by (intro conjI) (simp_all add: not_less t word_pos)
qed

lemma check_addresses_ok:
  "ok ''239.1.0.1'' \<Longrightarrow> ok ''224.2.127.254'' \<Longrightarrow> addresses_ok ok (check_addresses ok c)"
  by (simp add: addresses_ok_def check_addresses_def not_less)

lemma check_keeps:
  "numbers_ok (check_addresses ok c) = numbers_ok c" "numbers_ok (split_interfaces c) = numbers_ok c"
  "addresses_ok ok (split_interfaces c) = addresses_ok ok c"
  by (simp_all add: numbers_ok_def addresses_ok_def check_addresses_def split_interfaces_def Let_def)

lemma checked_fixed:
  "numbers_ok c \<Longrightarrow> check_numbers c = c" "addresses_ok ok c \<Longrightarrow> check_addresses ok c = c"
proof -
  assume a: "numbers_ok c"
  then have t: "\<not> (cf_tic_frame_size_at_1fs c = 0 \<or> 192 < cf_tic_frame_size_at_1fs c)"
    by (simp add: numbers_ok_def not_less)
  show "check_numbers c = c"
    using a unfolding check_numbers_def Let_def if_not_P[OF t]
    by (simp add: numbers_ok_def not_less not_le[symmetric] del: not_le)
next
  assume "addresses_ok ok c"
  then show "check_addresses ok c = c"
    by (simp add: addresses_ok_def check_addresses_def leD)
qed

subsection \<open>Comparing and saving\<close>

definition config_neq :: "build \<Rightarrow> config \<Rightarrow> config \<Rightarrow> bool" where
  "config_neq b l r \<longleftrightarrow>
     cf_http_addr_str l \<noteq> cf_http_addr_str r \<or>
     cf_http_port l \<noteq> cf_http_port r \<or>
     cf_rtsp_port l \<noteq> cf_rtsp_port r \<or>
     cf_http_base_dir l \<noteq> cf_http_base_dir r \<or>
     cf_streamer_channels l \<noteq> cf_streamer_channels r \<or>
     cf_alsa_channels l \<noteq> cf_alsa_channels r \<or>
     cf_streamer_files_num l \<noteq> cf_streamer_files_num r \<or>
     cf_streamer_file_duration l \<noteq> cf_streamer_file_duration r \<or>
     cf_streamer_player_buffer_files_num l \<noteq> cf_streamer_player_buffer_files_num r \<or>
     get_streamer_enabled b l \<noteq> get_streamer_enabled b r \<or>
     cf_log_severity l \<noteq> cf_log_severity r \<or>
     cf_playout_delay l \<noteq> cf_playout_delay r \<or>
     cf_tic_frame_size_at_1fs l \<noteq> cf_tic_frame_size_at_1fs r \<or>
     cf_max_tic_frame_size l \<noteq> cf_max_tic_frame_size r \<or>
     cf_sample_rate l \<noteq> cf_sample_rate r \<or>
     cf_rtp_mcast_base l \<noteq> cf_rtp_mcast_base r \<or>
     cf_rtp_mcast_base_sec l \<noteq> cf_rtp_mcast_base_sec r \<or>
     cf_sap_mcast_addr l \<noteq> cf_sap_mcast_addr r \<or>
     cf_rtp_port l \<noteq> cf_rtp_port r \<or>
     cf_rtp_port_sec l \<noteq> cf_rtp_port_sec r \<or>
     cf_ptp_domain l \<noteq> cf_ptp_domain r \<or>
     cf_ptp_dscp l \<noteq> cf_ptp_dscp r \<or>
     cf_sap_interval l \<noteq> cf_sap_interval r \<or>
     cf_syslog_proto l \<noteq> cf_syslog_proto r \<or>
     cf_syslog_server l \<noteq> cf_syslog_server r \<or>
     cf_status_file l \<noteq> cf_status_file r \<or>
     cf_interface_name l \<noteq> cf_interface_name r \<or>
     get_mdns_enabled b l \<noteq> get_mdns_enabled b r \<or>
     cf_auto_sinks_update l \<noteq> cf_auto_sinks_update r \<or>
     cf_custom_node_id l \<noteq> cf_custom_node_id r \<or>
     cf_nmos_enabled l \<noteq> cf_nmos_enabled r \<or>
     cf_nmos_registry_address l \<noteq> cf_nmos_registry_address r \<or>
     cf_nmos_registry_port l \<noteq> cf_nmos_registry_port r \<or>
     cf_nmos_node_port l \<noteq> cf_nmos_node_port r \<or>
     cf_nmos_label l \<noteq> cf_nmos_label r \<or>
     cf_nmos_registry_auto_discover l \<noteq> cf_nmos_registry_auto_discover r \<or>
     cf_nmos_mdns_enabled l \<noteq> cf_nmos_mdns_enabled r \<or>
     cf_is12_enabled l \<noteq> cf_is12_enabled r \<or>
     cf_is08_enabled l \<noteq> cf_is08_enabled r"

text \<open>The two restart conditions of \<open>save\<close>: first argument the running configuration, second the
  new one.\<close>

definition driver_restart_needed :: "config \<Rightarrow> config \<Rightarrow> bool" where
  "driver_restart_needed l r \<longleftrightarrow>
     cf_tic_frame_size_at_1fs l \<noteq> cf_tic_frame_size_at_1fs r \<or>
     cf_max_tic_frame_size l \<noteq> cf_max_tic_frame_size r \<or>
     cf_interface_name l \<noteq> cf_interface_name r"

definition daemon_restart_needed :: "build \<Rightarrow> config \<Rightarrow> config \<Rightarrow> bool" where
  "daemon_restart_needed b l r \<longleftrightarrow> driver_restart_needed l r \<or>
     cf_http_port l \<noteq> cf_http_port r \<or>
     cf_rtsp_port l \<noteq> cf_rtsp_port r \<or>
     cf_http_base_dir l \<noteq> cf_http_base_dir r \<or>
     cf_rtp_mcast_base l \<noteq> cf_rtp_mcast_base r \<or>
     cf_rtp_mcast_base_sec l \<noteq> cf_rtp_mcast_base_sec r \<or>
     cf_sap_mcast_addr l \<noteq> cf_sap_mcast_addr r \<or>
     cf_rtp_port l \<noteq> cf_rtp_port r \<or>
     cf_rtp_port_sec l \<noteq> cf_rtp_port_sec r \<or>
     cf_status_file l \<noteq> cf_status_file r \<or>
     get_mdns_enabled b l \<noteq> get_mdns_enabled b r \<or>
     cf_custom_node_id l \<noteq> cf_custom_node_id r \<or>
     cf_streamer_channels l \<noteq> cf_streamer_channels r \<or>
     cf_streamer_file_duration l \<noteq> cf_streamer_file_duration r \<or>
     cf_streamer_files_num l \<noteq> cf_streamer_files_num r \<or>
     cf_streamer_player_buffer_files_num l \<noteq> cf_streamer_player_buffer_files_num r \<or>
     get_streamer_enabled b l \<noteq> get_streamer_enabled b r \<or>
     cf_nmos_enabled l \<noteq> cf_nmos_enabled r \<or>
     cf_nmos_registry_address l \<noteq> cf_nmos_registry_address r \<or>
     cf_nmos_registry_port l \<noteq> cf_nmos_registry_port r \<or>
     cf_nmos_registry_query_port l \<noteq> cf_nmos_registry_query_port r \<or>
     cf_nmos_control_interface l \<noteq> cf_nmos_control_interface r \<or>
     cf_nmos_node_port l \<noteq> cf_nmos_node_port r \<or>
     cf_nmos_label l \<noteq> cf_nmos_label r \<or>
     cf_is12_enabled l \<noteq> cf_is12_enabled r \<or>
     cf_is08_enabled l \<noteq> cf_is08_enabled r"

text \<open>\<open>save\<close>: the result, the configuration afterwards and what was written to the file. The
  assignment \<open>*this = config\<close> overwrites \<open>driver_restart_\<close>, which was set just before.\<close>

definition config_save :: "build \<Rightarrow> bool \<Rightarrow> config \<Rightarrow> config \<Rightarrow> bool \<times> config \<times> config option" where
  "config_save b can_open cur new =
     (if config_neq b cur new then
        (if \<not> can_open then (False, cur, None)
         else (let cur1 = cur\<lparr>cf_driver_restart := driver_restart_needed cur new\<rparr>;
                   cur2 = cur1\<lparr>cf_daemon_restart := daemon_restart_needed b cur new\<rparr>;
                   needs_restart = cf_daemon_restart cur2
               in (True, new\<lparr>cf_daemon_restart := needs_restart\<rparr>, Some new)))
      else (True, cur, None))"

subsection \<open>Properties\<close>

lemma config_network_keeps:
  assumes "config_network w c = Some d"
  shows "numbers_ok d = numbers_ok c" "addresses_ok ok d = addresses_ok ok c"
    "cf_interface_name d = cf_interface_name c" "cf_interfaces d = cf_interfaces c" "cf_interfaces c \<noteq> []"
  using assms
  by (auto simp: config_network_def Let_def numbers_ok_def addresses_ok_def split: prod.splits if_splits)

lemma filter_idem_conv: "x \<notin> set xs \<Longrightarrow> filter (\<lambda>y. y \<noteq> x) xs = xs"
  by (induction xs) auto

lemma split_fixed: "split_interfaces c = c \<longleftrightarrow>
   CHR '' '' \<notin> set (cf_interface_name c) \<and>
   cf_interfaces c = split_compress (\<lambda>x. x = CHR '','') (cf_interface_name c)"
proof -
  have "split_interfaces c = c \<longleftrightarrow> filter (\<lambda>x. x \<noteq> CHR '' '') (cf_interface_name c) = cf_interface_name c \<and>
     split_compress (\<lambda>x. x = CHR '','') (filter (\<lambda>x. x \<noteq> CHR '' '') (cf_interface_name c)) = cf_interfaces c"
    by (cases c) (auto simp: split_interfaces_def Let_def)
  also have "filter (\<lambda>x. x \<noteq> CHR '' '') (cf_interface_name c) = cf_interface_name c \<longleftrightarrow>
      CHR '' '' \<notin> set (cf_interface_name c)"
    by (auto simp: filter_id_conv)
  finally show ?thesis
    by (cases "CHR '' '' \<in> set (cf_interface_name c)") (auto simp: filter_idem_conv)
qed

lemma split_interfaces_idem [simp]: "split_interfaces (split_interfaces c) = split_interfaces c"
  unfolding split_fixed by (simp add: split_interfaces_def Let_def)

lemma config_network_upd:
  "config_network w (c\<lparr>cf_config_filename := f, cf_driver_restart := p, cf_daemon_restart := q\<rparr>) =
   map_option (\<lambda>d. d\<lparr>cf_config_filename := f, cf_driver_restart := p, cf_daemon_restart := q\<rparr>)
     (config_network w c)"
  by (cases c) (simp add: config_network_def Let_def split_beta)

lemma config_network_again:
  assumes "nw_text w = dotted" and "config_network w c = Some d"
  shows "config_network w d = Some d"
proof -
  define i0 where "i0 = cf_interfaces c ! 0"
  obtain m ms where m: "get_interface_mac w i0 = (m, ms)" by fastforce
  obtain a s n where a: "get_new_interface_ip w i0 (cf_ip_str c) = (a, s, n)"
    by (metis prod_cases3)
  obtain n' where a': "get_new_interface_ip w i0 s = (a, s, n')"
    using new_ip_again[OF assms(1) a] by (metis prod.collapse)
  have d: "ms \<noteq> []" "cf_interfaces c \<noteq> []" "d = c\<lparr>cf_mac_addr := m, cf_mac_str := ms, cf_ip_addr := a,
      cf_ip_str := s, cf_interface_idx := (if get_interface_index w i0 < 0 then cf_interface_idx c
                                           else get_interface_index w i0)\<rparr>"
    using assms(2) m a
    by (auto simp: config_network_def Let_def i0_def[symmetric] split: if_splits)
  then show ?thesis
    using m a' by (simp add: config_network_def Let_def i0_def[symmetric])
qed


text \<open>A change of the NMOS query port or of the NMOS control interface alone is one that a
  restart is needed for, but the comparison of \<open>save\<close> leaves both fields out: the call answers
  success, writes nothing and keeps the old values.\<close>

theorem save_ignores_nmos_query_port:
  assumes "port \<noteq> cf_nmos_registry_query_port c \<or> ifname \<noteq> cf_nmos_control_interface c"
  defines "d \<equiv> c\<lparr>cf_nmos_registry_query_port := port, cf_nmos_control_interface := ifname\<rparr>"
  shows "daemon_restart_needed b c d \<and> config_save b can_open c d = (True, c, None)"
proof -
  have "\<not> config_neq b c d"
    unfolding config_neq_def d_def get_mdns_enabled_def get_streamer_enabled_def by simp
  moreover have "daemon_restart_needed b c d"
    using assms(1) unfolding daemon_restart_needed_def d_def by (elim disjE) simp_all
  ultimately show ?thesis by (simp add: config_save_def)
qed

theorem save_ignores_nmos_query_port_witness:
  "config_save \<lparr>b_streamer = True, b_avahi = True\<rparr> True config_default
     (config_default\<lparr>cf_nmos_registry_query_port := 8011, cf_nmos_control_interface := ''eno2''\<rparr>)
     = (True, config_default, None)"
  using save_ignores_nmos_query_port[of 8011 config_default "''eno2''"]
  by (simp add: config_default_def)

text \<open>A saved change replaces the two restart flags: the driver flag is that of the new
  configuration, never the one just computed (even for a change of frame size or interface,
  which needs the driver restarted), and the daemon flag is lost when another change that needs
  no restart is saved before the main loop looks at it.\<close>

theorem save_loses_restart:
  assumes "daemon_restart_needed b c0 c1" and "\<not> daemon_restart_needed b c1 c2"
    and "config_neq b c0 c1" and "config_neq b c1 c2"
  shows "\<exists>d1 d2. config_save b True c0 c1 = (True, d1, Some c1) \<and> cf_daemon_restart d1 \<and>
      cf_driver_restart d1 = cf_driver_restart c1 \<and>
      config_save b True d1 c2 = (True, d2, Some c2) \<and> \<not> cf_daemon_restart d2"
proof -
  let ?d1 = "c1\<lparr>cf_daemon_restart := True\<rparr>"
  have "config_neq b ?d1 c2" "\<not> daemon_restart_needed b ?d1 c2"
    using assms(2,4)
    by (simp_all add: config_neq_def daemon_restart_needed_def driver_restart_needed_def
        get_mdns_enabled_def get_streamer_enabled_def)
  with assms(1,3) show ?thesis
    by (intro exI[of _ ?d1] exI[of _ "c2\<lparr>cf_daemon_restart := False\<rparr>"])
       (simp add: config_save_def Let_def)
qed

theorem save_loses_restart_witness:
  "\<exists>d1 d2. config_save \<lparr>b_streamer = True, b_avahi = True\<rparr> True config_default
        (config_default\<lparr>cf_max_tic_frame_size := 512\<rparr>) = (True, d1, Some (config_default\<lparr>cf_max_tic_frame_size := 512\<rparr>)) \<and>
      cf_daemon_restart d1 \<and> cf_driver_restart d1 = True \<and>
      config_save \<lparr>b_streamer = True, b_avahi = True\<rparr> True d1
        (config_default\<lparr>cf_max_tic_frame_size := 512, cf_log_severity := 3\<rparr>) =
        (True, d2, Some (config_default\<lparr>cf_max_tic_frame_size := 512, cf_log_severity := 3\<rparr>)) \<and>
      \<not> cf_daemon_restart d2"
proof -
  let ?b = "\<lparr>b_streamer = True, b_avahi = True\<rparr>"
  let ?c1 = "config_default\<lparr>cf_max_tic_frame_size := 512\<rparr>"
  let ?c2 = "config_default\<lparr>cf_max_tic_frame_size := 512, cf_log_severity := 3\<rparr>"
  have "daemon_restart_needed ?b config_default ?c1" "config_neq ?b config_default ?c1"
    by (simp_all add: daemon_restart_needed_def driver_restart_needed_def config_neq_def config_default_def)
  moreover have "\<not> daemon_restart_needed ?b ?c1 ?c2" "config_neq ?b ?c1 ?c2"
    by (simp_all add: daemon_restart_needed_def driver_restart_needed_def config_neq_def config_default_def
        get_mdns_enabled_def get_streamer_enabled_def)
  ultimately show ?thesis
    using save_loses_restart[of ?b config_default ?c1 ?c2] by (simp add: config_default_def)
qed


end
