(* ===== verification/Json_Text.thy ===== *)
theory Json_Text
  imports Prelude
begin

text \<open>
  JSON text.  \<open>daemon/json.cpp\<close> writes it by hand (\<open>remove_undesired_chars\<close>, \<open>escape_json\<close> and
  the pieces all its writers share are here) and reads it with Boost's \<open>read_json\<close>, which is not
  in the repository: the readers take it as a parameter.  What they rely on is that it reads
  JSON, which is said by a small reference reader, \<open>json_read\<close>: objects, arrays, strings with
  the short escapes, integers, \<open>true\<close>, \<open>false\<close> and \<open>null\<close>, into the tree Boost documents (a
  scalar is its text, an array has children without a name).
\<close>

abbreviation dquote :: char where "dquote \<equiv> CHR 0x22"
abbreviation backslash :: char where "backslash \<equiv> CHR 0x5C"

subsection \<open>Writing\<close>

text \<open>The characters the regular expression of \<open>remove_undesired_chars\<close> lets through.\<close>

definition desired :: "char \<Rightarrow> bool" where
  "desired c \<longleftrightarrow>
     (let n = of_char c :: nat
      in n = 32 \<or> 65 \<le> n \<and> n \<le> 90 \<or> 97 \<le> n \<and> n \<le> 122 \<or> 48 \<le> n \<and> n \<le> 57 \<or>
         c \<in> set '':~.,_/=%()?#-'' \<or> n = 13 \<or> n = 10 \<or> n = 9)"

definition remove_undesired_chars :: "string \<Rightarrow> string" where
  "remove_undesired_chars s = filter desired s"

definition escape_char :: "char \<Rightarrow> string" where
  "escape_char c =
     (if c = dquote then [backslash, dquote]
      else if c = backslash then [backslash, backslash]
      else if c = CHR 0x08 then [backslash, CHR ''b'']
      else if c = CHR 0x0C then [backslash, CHR ''f'']
      else if c = CHR 0x0A then [backslash, CHR ''n'']
      else if c = CHR 0x0D then [backslash, CHR ''r'']
      else if c = CHR 0x09 then [backslash, CHR ''t'']
      else if (of_char c :: nat) \<le> 0x1F then [backslash, CHR ''u''] @ show_hex_pad 4 (of_char c)
      else [c])"

definition escape_json :: "string \<Rightarrow> string" where
  "escape_json s = concat (map escape_char (remove_undesired_chars s))"

definition quoted :: "string \<Rightarrow> string" where "quoted s = dquote # s @ [dquote]"

definition show_bool :: "bool \<Rightarrow> string" where
  "show_bool b = (if b then ''true'' else ''false'')"

text \<open>A member of an object and an object: the blanks before the name, the name, the value; the
  blanks before the object and those before the closing brace.\<close>

definition member :: "string \<Rightarrow> string \<Rightarrow> string \<Rightarrow> string" where
  "member pre k v = pre @ quoted k @ '': '' @ v"

definition json_object :: "string \<Rightarrow> string list \<Rightarrow> string \<Rightarrow> string" where
  "json_object pre ms post = pre @ ''{'' @ join_with '','' ms @ post @ ''}''"

definition number_list :: "u8 list \<Rightarrow> string" where
  "number_list xs = ''[ '' @ join_with '', '' (map (\<lambda>x. show_nat (unat x)) xs) @ '' ]''"

subsection \<open>Reading\<close>

datatype ptree = Ptree (tree_data: string) (tree_kids: "(string \<times> ptree) list")

abbreviation leaf :: "string \<Rightarrow> ptree" where "leaf s \<equiv> Ptree s []"

definition json_ws :: "char \<Rightarrow> bool" where
  "json_ws c \<longleftrightarrow> c = CHR '' '' \<or> c = CHR 0x0A \<or> c = CHR 0x0D \<or> c = CHR 0x09"

definition json_lit :: "char \<Rightarrow> bool" where
  "json_lit c \<longleftrightarrow> is_digit c \<or> c = CHR ''-'' \<or> (97 \<le> (of_char c :: nat) \<and> (of_char c :: nat) \<le> 122)"

definition json_scalar :: "string \<Rightarrow> bool" where
  "json_scalar s \<longleftrightarrow> s \<in> {''true'', ''false'', ''null''} \<or>
     (let d = (if starts_with ''-'' s then tl s else s) in d \<noteq> [] \<and> list_all is_digit d)"

definition unescape :: "char \<Rightarrow> char option" where
  "unescape c =
     (if c \<in> {dquote, backslash, CHR ''/''} then Some c
      else if c = CHR ''b'' then Some (CHR 0x08) else if c = CHR ''f'' then Some (CHR 0x0C)
      else if c = CHR ''n'' then Some (CHR 0x0A) else if c = CHR ''r'' then Some (CHR 0x0D)
      else if c = CHR ''t'' then Some (CHR 0x09) else None)"

fun json_str :: "string \<Rightarrow> (string \<times> string) option" where
  "json_str [] = None"
| "json_str (c # s) =
     (if c = dquote then Some ([], s)
      else if c = backslash then
        (case s of
           [] \<Rightarrow> None
         | e # s' \<Rightarrow>
             (case unescape e of
                None \<Rightarrow> None
              | Some d \<Rightarrow> map_option (\<lambda>(t, r). (d # t, r)) (json_str s')))
      else map_option (\<lambda>(t, r). (c # t, r)) (json_str s))"

abbreviation skip_ws :: "string \<Rightarrow> string" where "skip_ws s \<equiv> dropWhile json_ws s"

fun json_val :: "nat \<Rightarrow> string \<Rightarrow> (ptree \<times> string) option"
  and json_members :: "nat \<Rightarrow> string \<Rightarrow> ((string \<times> ptree) list \<times> string) option"
  and json_elems :: "nat \<Rightarrow> string \<Rightarrow> ((string \<times> ptree) list \<times> string) option" where
  "json_val 0 s = None"
| "json_val (Suc n) s =
     (case skip_ws s of
        [] \<Rightarrow> None
      | c # r \<Rightarrow>
          if c = CHR ''{'' then
            (if starts_with ''}'' (skip_ws r) then Some (leaf [], tl (skip_ws r))
             else map_option (\<lambda>(m, q). (Ptree [] m, q)) (json_members n r))
          else if c = CHR ''['' then
            (if starts_with '']'' (skip_ws r) then Some (leaf [], tl (skip_ws r))
             else map_option (\<lambda>(m, q). (Ptree [] m, q)) (json_elems n r))
          else if c = dquote then map_option (\<lambda>(t, q). (leaf t, q)) (json_str r)
          else (let l = takeWhile json_lit (c # r)
                in if json_scalar l then Some (leaf l, dropWhile json_lit (c # r)) else None))"
| "json_members 0 s = None"
| "json_members (Suc n) s =
     (case skip_ws s of
        [] \<Rightarrow> None
      | c # r \<Rightarrow>
          if c \<noteq> dquote then None
          else (case json_str r of
                  None \<Rightarrow> None
                | Some (k, q) \<Rightarrow>
                    (case skip_ws q of
                       [] \<Rightarrow> None
                     | d # q' \<Rightarrow>
                         if d \<noteq> CHR '':'' then None
                         else (case json_val n q' of
                                 None \<Rightarrow> None
                               | Some (t, p) \<Rightarrow>
                                   (case skip_ws p of
                                      [] \<Rightarrow> None
                                    | e # p' \<Rightarrow>
                                        if e = CHR '','' then map_option (\<lambda>(m, z). ((k, t) # m, z)) (json_members n p')
                                        else if e = CHR ''}'' then Some ([(k, t)], p') else None)))))"
| "json_elems 0 s = None"
| "json_elems (Suc n) s =
     (case json_val n s of
        None \<Rightarrow> None
      | Some (t, p) \<Rightarrow>
          (case skip_ws p of
             [] \<Rightarrow> None
           | e # p' \<Rightarrow>
               if e = CHR '','' then map_option (\<lambda>(m, z). (([], t) # m, z)) (json_elems n p')
               else if e = CHR '']'' then Some ([([], t)], p') else None))"

definition json_read :: "string \<Rightarrow> ptree option" where
  "json_read s =
     (case json_val (length s) s of
        None \<Rightarrow> None
      | Some (t, r) \<Rightarrow> if skip_ws r = [] then Some t else None)"

subsection \<open>What is written is read\<close>

definition stops :: "string \<Rightarrow> bool" where "stops r \<longleftrightarrow> r = [] \<or> \<not> json_lit (hd r)"

definition reads :: "string \<Rightarrow> ptree \<Rightarrow> bool" where
  "reads v t \<longleftrightarrow> (\<forall>n r. length v \<le> n \<longrightarrow> stops r \<longrightarrow> json_val n (v @ r) = Some (t, r))"

definition plain :: "string \<Rightarrow> bool" where
  "plain s \<longleftrightarrow> list_all (\<lambda>c. c \<noteq> dquote \<and> c \<noteq> backslash) s"

lemma skip_ws_append: "list_all json_ws p \<Longrightarrow> skip_ws (p @ s) = skip_ws s"
  by (induction p) auto

lemma reads_ws: "reads v t \<Longrightarrow> list_all json_ws p \<Longrightarrow> reads (p @ v) t"
proof -
  assume v: "reads v t" and p: "list_all json_ws p"
  have "json_val n ((p @ v) @ r) = Some (t, r)" if "length (p @ v) \<le> n" "stops r" for n r
  proof -
    have w: "json_val n (v @ r) = Some (t, r)" using v that by (simp add: reads_def)
    then obtain m where "n = Suc m" by (cases n) auto
    then have "json_val n (p @ v @ r) = json_val n (v @ r)" by (simp add: skip_ws_append p)
    with w show ?thesis by simp
  qed
  then show ?thesis by (simp add: reads_def)
qed

lemma desired_not_special: "desired c \<Longrightarrow> c \<noteq> dquote \<and> c \<noteq> backslash \<and> c \<noteq> CHR 0x08 \<and> c \<noteq> CHR 0x0C"
  by (auto simp: desired_def)

lemma json_str_escape_char:
  "desired c \<Longrightarrow> json_str (escape_char c @ s) = map_option (\<lambda>(t, r). (c # t, r)) (json_str s)"
proof -
  assume d: "desired c"
  have "c \<in> {CHR 0x0A, CHR 0x0D, CHR 0x09}" if "(of_char c :: nat) \<le> 0x1F"
  proof -
    have "of_char c \<in> {9, 10, 13 :: nat}"
      using d that by (auto simp: desired_def Let_def)
    then have "c \<in> {char_of (9 :: nat), char_of (10 :: nat), char_of (13 :: nat)}"
      by (metis char_of_char insert_iff singletonD)
    moreover have "char_of (9 :: nat) = CHR 0x09" "char_of (10 :: nat) = CHR 0x0A"
      "char_of (13 :: nat) = CHR 0x0D" by code_simp+
    ultimately show ?thesis by auto
  qed
  then show ?thesis
    using desired_not_special[OF d] by (auto simp: escape_char_def unescape_def)
qed

lemma json_str_escape:
  "json_str (escape_json s @ dquote # r) = Some (remove_undesired_chars s, r)"
proof -
  have "json_str (concat (map escape_char d) @ dquote # r) = Some (d, r)" if "list_all desired d" for d
    using that by (induction d) (simp_all add: json_str_escape_char)
  from this[of "remove_undesired_chars s"] show ?thesis
    by (simp add: escape_json_def remove_undesired_chars_def list_all_iff)
qed

lemma json_str_plain: "plain s \<Longrightarrow> json_str (s @ dquote # r) = Some (s, r)"
  by (induction s) (auto simp: plain_def)

lemma not_ws [simp]: "\<not> json_ws dquote" "\<not> json_ws (CHR ''{'')" "\<not> json_ws (CHR ''['')"
  "\<not> json_ws (CHR ''}'')" "\<not> json_ws (CHR '']'')" "\<not> json_ws (CHR '','')" "\<not> json_ws (CHR '':'')"
  "json_ws (CHR '' '')" "json_ws (CHR 0x0A)"
  by (simp_all add: json_ws_def)

lemma not_lit [simp]: "\<not> json_lit dquote" "\<not> json_lit (CHR ''}'')" "\<not> json_lit (CHR '']'')"
  "\<not> json_lit (CHR '','')" "\<not> json_lit (CHR '' '')" "\<not> json_lit (CHR 0x0A)"
  by (simp_all add: json_lit_def is_digit_def)

lemma reads_string [intro]: "reads (quoted (escape_json s)) (leaf (remove_undesired_chars s))"
proof -
  have "json_val n (quoted (escape_json s) @ r) = Some (leaf (remove_undesired_chars s), r)" if "n \<noteq> 0" for n r
    using that by (cases n) (simp_all add: quoted_def json_str_escape)
  then show ?thesis by (auto simp: reads_def quoted_def)
qed

lemma reads_plain: "plain s \<Longrightarrow> reads (quoted s) (leaf s)"
proof -
  assume "plain s"
  then have "json_val n (quoted s @ r) = Some (leaf s, r)" if "n \<noteq> 0" for n r
    using that by (cases n) (simp_all add: quoted_def json_str_plain)
  then show ?thesis by (auto simp: reads_def quoted_def)
qed

lemma reads_lit: "json_scalar l \<Longrightarrow> list_all json_lit l \<Longrightarrow> reads l (leaf l)"
proof -
  assume l: "json_scalar l" and a: "list_all json_lit l"
  from l have ne: "l \<noteq> []" by (auto simp: json_scalar_def starts_with_def)
  then obtain c l' where c: "l = c # l'" by (cases l) auto
  have nw: "\<not> json_ws c" "c \<noteq> CHR ''{''" "c \<noteq> CHR ''[''" "c \<noteq> dquote"
    using a c by (auto simp: json_ws_def json_lit_def is_digit_def)
  have "takeWhile json_lit (l @ r) = l \<and> dropWhile json_lit (l @ r) = r" if "stops r" for r
    using a that by (cases r) (auto simp: stops_def list_all_iff takeWhile_append2 dropWhile_append2)
  then have "json_val n (l @ r) = Some (leaf l, r)" if "n \<noteq> 0" "stops r" for n r
    using that nw l by (cases n) (simp_all add: c)
  then show ?thesis
    unfolding reads_def using ne by (metis le_zero_eq length_0_conv)
qed

lemma is_digit_lit: "is_digit c \<Longrightarrow> json_lit c"
  by (simp add: json_lit_def)

lemma digits_not_word: "list_all is_digit d \<Longrightarrow> d \<noteq> [] \<Longrightarrow> \<not> starts_with ''-'' d"
  by (cases d) (auto simp: starts_with_def is_digit_def)

lemma reads_nat [intro]: "reads (show_nat n) (leaf (show_nat n))"
  using digits_not_word[of "show_nat n"]
  by (intro reads_lit) (auto simp: json_scalar_def list_all_iff show_nat_digits is_digit_lit Let_def)

lemma reads_int [intro]: "reads (show_int i) (leaf (show_int i))"
proof (cases "i < 0")
  case True
  then show ?thesis
    by (intro reads_lit)
       (auto simp: show_int_def json_scalar_def list_all_iff show_nat_digits is_digit_lit Let_def
          starts_with_def json_lit_def show_nat_not_Nil[symmetric])
qed (simp add: show_int_def reads_nat)

lemma reads_bool [intro]: "reads (show_bool b) (leaf (show_bool b))"
proof -
  have "json_scalar ''true'' \<and> list_all json_lit ''true'' \<and> json_scalar ''false'' \<and> list_all json_lit ''false''"
    by code_simp
  then show ?thesis by (auto simp: show_bool_def intro: reads_lit)
qed

lemma stops_simps [simp]: "stops []" "stops (c # s) \<longleftrightarrow> \<not> json_lit c"
  by (simp_all add: stops_def)

text \<open>One member and what follows it, then a whole object.\<close>

definition good_member :: "string \<times> string \<times> string \<times> ptree \<Rightarrow> bool" where
  "good_member m = (case m of (p, k, v, t) \<Rightarrow> list_all json_ws p \<and> plain k \<and> reads v t)"

definition member_text :: "string \<times> string \<times> string \<times> ptree \<Rightarrow> string" where
  "member_text m = (case m of (p, k, v, t) \<Rightarrow> member p k v)"

definition member_tree :: "string \<times> string \<times> string \<times> ptree \<Rightarrow> string \<times> ptree" where
  "member_tree m = (case m of (p, k, v, t) \<Rightarrow> (k, t))"

lemma json_members_one:
  assumes "good_member (p, k, v, t)" and "length v \<le> n" and "stops r"
  shows "json_members (Suc n) (member p k v @ r) =
    (case skip_ws r of
       [] \<Rightarrow> None
     | e # s \<Rightarrow> if e = CHR '','' then map_option (\<lambda>(m, z). ((k, t) # m, z)) (json_members n s)
               else if e = CHR ''}'' then Some ([(k, t)], s) else None)"
proof -
  have k: "json_str (k @ dquote # q) = Some (k, q)" for q
    using assms(1) by (simp add: good_member_def json_str_plain)
  have "reads v t" using assms(1) by (simp add: good_member_def)
  then have "reads ('' '' @ v) t" by (rule reads_ws) simp
  then have v: "json_val n (CHR '' '' # v @ r) = Some (t, r)" if "Suc (length v) \<le> n"
    using that assms(3) by (simp add: reads_def)
  have v': "json_val n (CHR '' '' # v @ r) = Some (t, r)"
  proof -
    have "json_val n (v @ r) = Some (t, r)"
      using \<open>reads v t\<close> assms(2,3) by (simp add: reads_def)
    then show ?thesis by (cases n) auto
  qed
  show ?thesis
    using assms(1) by (simp add: member_def quoted_def good_member_def skip_ws_append k v' cong: option.case_cong list.case_cong)
qed

lemma json_members_ok:
  assumes "ms \<noteq> []" and "list_all good_member ms" and "list_all json_ws post"
    and "sum_list (map (\<lambda>m. Suc (length (member_text m))) ms) \<le> n"
  shows "json_members n (join_with '','' (map member_text ms) @ post @ CHR ''}'' # r)
    = Some (map member_tree ms, r)"
  using assms
proof (induction ms arbitrary: n)
  case Nil
  then show ?case by simp
next
  case (Cons m ms)
  obtain p k v t where m: "m = (p, k, v, t)" by (cases m)
  have l: "length v < length (member_text m)"
    by (simp add: m member_text_def member_def)
  obtain n' where n: "n = Suc n'" using Cons.prems(4) by (cases n) auto
  have g: "good_member (p, k, v, t)" using Cons.prems(2) m by simp
  have lv: "length v \<le> n'" using l Cons.prems(4) n by simp
  show ?case
  proof (cases ms)
    case Nil
    have "stops (post @ CHR ''}'' # r)"
      using Cons.prems(3) by (cases post) (auto simp: json_ws_def json_lit_def is_digit_def)
    then show ?thesis
      using json_members_one[OF g lv] Nil Cons.prems(3)
      by (simp add: m n member_text_def member_tree_def skip_ws_append del: json_members.simps)
  next
    case (Cons m' ms')
    have "join_with '','' (map member_text (m # ms)) = member_text m @ '','' @ join_with '','' (map member_text ms)"
      by (simp add: Cons)
    moreover have "json_members n' (join_with '','' (map member_text ms) @ post @ CHR ''}'' # r)
        = Some (map member_tree ms, r)"
      using Cons.IH[of n'] Cons.prems n l by (simp add: \<open>ms = m' # ms'\<close>)
    moreover have "member_text m = member p k v" "member_tree m = (k, t)"
      by (simp_all add: m member_text_def member_tree_def)
    ultimately show ?thesis
      using json_members_one[OF g lv, of "CHR '','' # join_with '','' (map member_text ms) @ post @ CHR ''}'' # r"]
      by (simp add: n del: json_members.simps)
  qed
qed

lemma reads_members:
  assumes ms: "list_all good_member ms" and pre: "list_all json_ws pre" and post: "list_all json_ws post"
    and ne: "ms \<noteq> []"
  shows "reads (json_object pre (map member_text ms) post) (Ptree [] (map member_tree ms))"
proof -
  let ?b = "join_with '','' (map member_text ms) @ post @ ''}''"
  have len: "sum_list (map (\<lambda>m. Suc (length (member_text m))) ms) \<le> Suc (length (join_with '','' (map member_text ms)))"
  proof -
    have "sum_list (map (\<lambda>x. Suc (length x)) xs) \<le> Suc (length (join_with '','' xs))" for xs
      by (induction xs rule: induct_list012) auto
    from this[of "map member_text ms"] show ?thesis by (simp add: comp_def)
  qed
  have first: "\<not> starts_with ''}'' (skip_ws (?b @ r))" for r
  proof -
    obtain m ms' where c: "ms = m # ms'" using ne by (cases ms) auto
    obtain p k v t where m: "m = (p, k, v, t)" by (cases m)
    have "list_all json_ws p" using ms by (simp add: c m good_member_def)
    then have "skip_ws (member p k v @ s) = dquote # k @ dquote # '': '' @ v @ s" for s
      by (simp add: member_def quoted_def skip_ws_append)
    moreover have "\<exists>s. join_with '','' (map member_text ms) = member p k v @ s"
      by (cases ms') (simp_all add: c m member_text_def)
    ultimately show ?thesis by (auto simp: starts_with_def)
  qed
  have "json_val n (''{'' @ ?b @ r) = Some (Ptree [] (map member_tree ms), r)"
    if "length (''{'' @ ?b) \<le> n" for n r
  proof -
    from that have "n \<noteq> 0" by auto
    then obtain n' where n: "n = Suc n'" by (cases n) auto
    have "json_members n' (join_with '','' (map member_text ms) @ post @ CHR ''}'' # r)
        = Some (map member_tree ms, r)"
      by (rule json_members_ok[OF ne ms post]) (use len that n in simp)
    then show ?thesis using first[of r] by (simp add: n)
  qed
  then have "reads (''{'' @ ?b) (Ptree [] (map member_tree ms))"
    by (simp add: reads_def)
  from reads_ws[OF this pre] show ?thesis by (simp add: json_object_def)
qed

text \<open>Arrays: each element with the blanks before it.\<close>

lemma json_elems_ok:
  assumes "es \<noteq> []" and "list_all (\<lambda>(v, t). reads v t) es" and "list_all json_ws post"
    and "sum_list (map (\<lambda>e. Suc (length (fst e))) es) \<le> n" and "list_all json_ws sep"
  shows "json_elems n (join_with (CHR '','' # sep) (map fst es) @ post @ CHR '']'' # r)
    = Some (map (\<lambda>(v, t). ([], t)) es, r)"
  using assms(1-4)
proof (induction es arbitrary: n)
  case Nil
  then show ?case by simp
next
  case (Cons e es)
  obtain v t where e: "e = (v, t)" by (cases e)
  obtain n' where n: "n = Suc n'" using Cons.prems(4) by (cases n) auto
  have v: "json_val n' (v @ s) = Some (t, s)" if "stops s" for s
    using Cons.prems(2,4) that by (simp add: e n reads_def)
  show ?case
  proof (cases es)
    case Nil
    have "stops (post @ CHR '']'' # r)"
      using Cons.prems(3) by (cases post) (auto simp: json_ws_def json_lit_def is_digit_def)
    then show ?thesis
      using Cons.prems(3) Nil by (simp add: e n v skip_ws_append)
  next
    case (Cons e' es')
    have "json_elems n' (sep @ join_with (CHR '','' # sep) (map fst es) @ post @ CHR '']'' # r) =
        Some (map (\<lambda>(v, t). ([], t)) es, r)"
    proof -
      have w: "json_elems n' (join_with (CHR '','' # sep) (map fst es) @ post @ CHR '']'' # r) =
          Some (map (\<lambda>(v, t). ([], t)) es, r)"
        using Cons.IH[of n'] Cons.prems n by (simp add: \<open>es = e' # es'\<close>)
      have "json_elems k (sep @ s) = json_elems k s" for k s
      proof -
        have "json_val k (sep @ s) = json_val k s" for k
          by (cases k) (simp_all add: skip_ws_append assms(5))
        then show ?thesis by (cases k) simp_all
      qed
      with w show ?thesis by simp
    qed
    then show ?thesis by (simp add: e n v Cons)
  qed
qed

lemma reads_elems:
  assumes es: "list_all (\<lambda>(v, t). reads v t) es" and ws: "list_all json_ws pre" "list_all json_ws post"
    "list_all json_ws sep"
  shows "reads (''['' @ pre @ join_with (CHR '','' # sep) (map fst es) @ post @ '']'')
    (Ptree [] (map (\<lambda>(v, t). ([], t)) es))"
proof (cases "es = []")
  case True
  have "skip_ws (pre @ post @ CHR '']'' # r) = CHR '']'' # r" for r
    using ws by (simp add: skip_ws_append)
  then show ?thesis
    unfolding reads_def True by (auto simp: starts_with_def Suc_le_D dest!: Suc_le_D)
next
  case False
  let ?b = "join_with (CHR '','' # sep) (map fst es) @ post @ '']''"
  obtain v t es' where c: "es = (v, t) # es'" using False by (metis neq_Nil_conv prod.collapse)
  have elems_pre: "json_elems k (pre @ s) = json_elems k s" for k s
  proof -
    have "json_val k (pre @ s) = json_val k s" for k
      by (cases k) (simp_all add: skip_ws_append ws)
    then show ?thesis by (cases k) simp_all
  qed
  have len: "sum_list (map (\<lambda>e. Suc (length (fst e))) es) \<le> Suc (length (join_with (CHR '','' # sep) (map fst es)))"
  proof -
    have "sum_list (map (\<lambda>x. Suc (length x)) xs) \<le> Suc (length (join_with (CHR '','' # sep) xs))" for xs
      by (induction xs rule: induct_list012) auto
    from this[of "map fst es"] show ?thesis by (simp add: comp_def)
  qed
  have "\<exists>s. ?b = v @ s \<and> stops s \<and> s \<noteq> []"
    using ws by (cases es'; cases post) (auto simp: c json_ws_def json_lit_def is_digit_def)
  then obtain s where s: "?b = v @ s" "stops s" "s \<noteq> []" by blast
  have first: "\<not> starts_with '']'' (skip_ws (pre @ ?b @ r))" for r
  proof
    assume "starts_with '']'' (skip_ws (pre @ ?b @ r))"
    then obtain q where q: "skip_ws (v @ s @ r) = CHR '']'' # q"
      using s by (cases "skip_ws (v @ s @ r)") (auto simp: skip_ws_append ws starts_with_def)
    have "stops (s @ r)" using s by (cases s) (auto simp: stops_def)
    then have "json_val (length v) (v @ s @ r) = Some (t, s @ r)"
      using es by (simp add: c reads_def)
    moreover have "\<not> json_scalar []" by (simp add: json_scalar_def starts_with_def)
    ultimately show False using q by (cases "length v") simp_all
  qed
  have "json_val n (''['' @ pre @ ?b @ r) = Some (Ptree [] (map (\<lambda>(v, t). ([], t)) es), r)"
    if "length (''['' @ pre @ ?b) \<le> n" for n r
  proof -
    from that have "n \<noteq> 0" by auto
    then obtain n' where n: "n = Suc n'" by (cases n) auto
    have "json_elems n' (join_with (CHR '','' # sep) (map fst es) @ post @ CHR '']'' # r)
        = Some (map (\<lambda>(v, t). ([], t)) es, r)"
      by (rule json_elems_ok[OF False es ws(2)]) (use len that n ws in simp_all)
    then show ?thesis using first[of r] by (simp add: n elems_pre)
  qed
  then show ?thesis by (simp add: reads_def)
qed

lemma reads_number_list [intro]:
  "reads (number_list xs) (Ptree [] (map (\<lambda>x. ([], leaf (show_nat (unat x)))) xs))"
proof -
  have "reads (''['' @ '' '' @ join_with (CHR '','' # '' '') (map fst (map (\<lambda>x. (show_nat (unat x), leaf (show_nat (unat x)))) xs)) @ '' '' @ '']'')
    (Ptree [] (map (\<lambda>(v, t). ([], t)) (map (\<lambda>x. (show_nat (unat x), leaf (show_nat (unat x)))) xs)))"
    by (rule reads_elems) (auto simp: list_all_iff)
  then show ?thesis by (simp add: number_list_def comp_def)
qed

text \<open>A whole document, the only kind of fact the clients need.\<close>

lemma json_read_text: "reads v t \<Longrightarrow> list_all json_ws post \<Longrightarrow> stops post \<Longrightarrow> json_read (v @ post) = Some t"
proof -
  assume "reads v t" "list_all json_ws post" "stops post"
  then have "json_val (length (v @ post)) (v @ post) = Some (t, post)" by (simp add: reads_def)
  with \<open>list_all json_ws post\<close> show ?thesis
    using skip_ws_append[of post "[]"] by (simp add: json_read_def)
qed

end
