(* ===== verification/Json.thy ===== *)
theory Json
  imports Json_Text Manager Config
begin

text \<open>
  \<open>daemon/json.cpp\<close>: the documents of the HTTP interface and of the status file, written and
  read.  Boost's property tree is a parameter (\<open>ptree_lib\<close>): its parser and its conversions of
  text to numbers and booleans; \<open>reads_json\<close> says that it reads JSON and its own numbers.
  Exceptions are the values of \<open>json_exn\<close>.
\<close>

subsection \<open>Writers\<close>

abbreviation nl :: "string \<Rightarrow> string" where "nl s \<equiv> newline # s"

definition str_value :: "string \<Rightarrow> string" where "str_value s = quoted (escape_json s)"

definition config_members :: "build \<Rightarrow> config \<Rightarrow> (string \<times> string) list" where
  "config_members b c =
    [(''http_port'', show_u (cf_http_port c)),
     (''rtsp_port'', show_u (cf_rtsp_port c)),
     (''http_base_dir'', quoted (cf_http_base_dir c)),
     (''log_severity'', show_int (cf_log_severity c)),
     (''playout_delay'', show_u (cf_playout_delay c)),
     (''tic_frame_size_at_1fs'', show_u (cf_tic_frame_size_at_1fs c)),
     (''max_tic_frame_size'', show_u (cf_max_tic_frame_size c)),
     (''sample_rate'', show_u (cf_sample_rate c)),
     (''rtp_mcast_base'', str_value (cf_rtp_mcast_base c)),
     (''rtp_mcast_base_sec'', str_value (cf_rtp_mcast_base_sec c)),
     (''rtp_port'', show_u (cf_rtp_port c)),
     (''rtp_port_sec'', show_u (cf_rtp_port_sec c)),
     (''ptp_domain'', show_u (cf_ptp_domain c)),
     (''ptp_dscp'', show_u (cf_ptp_dscp c)),
     (''sap_mcast_addr'', str_value (cf_sap_mcast_addr c)),
     (''sap_interval'', show_u (cf_sap_interval c)),
     (''syslog_proto'', str_value (cf_syslog_proto c)),
     (''syslog_server'', str_value (cf_syslog_server c)),
     (''status_file'', str_value (cf_status_file c)),
     (''interface_name'', str_value (cf_interface_name c)),
     (''mdns_enabled'', show_bool (get_mdns_enabled b c)),
     (''custom_node_id'', str_value (cf_custom_node_id c)),
     (''node_id'', str_value (get_node_id c)),
     (''ptp_status_script'', str_value (cf_ptp_status_script c)),
     (''lldp_update_script'', str_value (cf_lldp_update_script c)),
     (''mac_addr'', str_value (cf_mac_str c)),
     (''ip_addr'', str_value (cf_ip_str c)),
     (''streamer_channels'', show_u (cf_streamer_channels c)),
     (''alsa_channels'', show_u (cf_alsa_channels c)),
     (''streamer_files_num'', show_u (cf_streamer_files_num c)),
     (''streamer_file_duration'', show_u (cf_streamer_file_duration c)),
     (''streamer_player_buffer_files_num'', show_u (cf_streamer_player_buffer_files_num c)),
     (''streamer_enabled'', show_bool (get_streamer_enabled b c)),
     (''auto_sinks_update'', show_bool (cf_auto_sinks_update c)),
     (''nmos_enabled'', show_bool (cf_nmos_enabled c)),
     (''nmos_registry_address'', str_value (cf_nmos_registry_address c)),
     (''nmos_registry_port'', show_u (cf_nmos_registry_port c)),
     (''nmos_registry_query_port'', show_u (cf_nmos_registry_query_port c)),
     (''nmos_control_interface'', str_value (cf_nmos_control_interface c)),
     (''nmos_node_port'', show_u (cf_nmos_node_port c)),
     (''nmos_label'', str_value (cf_nmos_label c)),
     (''nmos_registry_autodiscovery'', show_bool (cf_nmos_registry_auto_discover c)),
     (''nmos_mdns_enabled'', show_bool (cf_nmos_mdns_enabled c)),
     (''is12_enabled'', show_bool (cf_is12_enabled c)),
     (''is08_enabled'', show_bool (cf_is08_enabled c))
]"

definition config_to_json :: "build \<Rightarrow> config \<Rightarrow> string" where
  "config_to_json b c =
     json_object [] (map (\<lambda>(k, v). member (nl ''  '') k v) (config_members b c)) (nl []) @ nl []"

definition source_to_json :: "stream_source \<Rightarrow> string" where
  "source_to_json s =
     json_object (nl ''  '') (map (\<lambda>(k, v). member (nl ''    '') k v)
       [(''id'', show_u (src_id s)),
        (''enabled'', show_bool (src_enabled s)),
        (''name'', str_value (src_name s)),
        (''io'', str_value (src_io s)),
        (''max_samples_per_packet'', show_u (src_max_samples_per_packet s)),
        (''codec'', str_value (src_codec s)),
        (''address'', str_value (src_address s)),
        (''address_sec'', str_value (src_address_sec s)),
        (''use_secondary'', show_bool (src_use_secondary s)),
        (''ttl'', show_u (src_ttl s)),
        (''payload_type'', show_u (src_payload_type s)),
        (''dscp'', show_u (src_dscp s)),
        (''refclk_ptp_traceable'', show_bool (src_refclk_ptp_traceable s)),
        (''map'', number_list (src_map s))]) (nl ''  '')"

definition sink_to_json :: "stream_sink \<Rightarrow> string" where
  "sink_to_json s =
     json_object (nl ''  '') (map (\<lambda>(k, v). member (nl ''    '') k v)
       [(''id'', show_u (snk_id s)),
        (''name'', str_value (snk_name s)),
        (''io'', str_value (snk_io s)),
        (''use_sdp'', show_bool (snk_use_sdp s)),
        (''source'', str_value (snk_source s)),
        (''sdp'', str_value (snk_sdp s)),
        (''delay'', show_u (snk_delay s)),
        (''ignore_refclk_gmid'', show_bool (snk_ignore_refclk_gmid s)),
        (''map'', number_list (snk_map s))]) (nl ''  '')"

text \<open>The status documents; the first member of a group has other blanks before it.\<close>

definition group_member :: "string \<Rightarrow> string \<Rightarrow> string \<Rightarrow> string" where
  "group_member pre k v = pre @ quoted k @ '':'' @ v"

definition flag_members :: "(string \<times> bool) list \<Rightarrow> string list" where
  "flag_members fs =
     (case fs of
        [] \<Rightarrow> []
      | (k, b) # gs \<Rightarrow> member ('' '' @ '' '' @ nl ''    '') k (show_bool b) #
                     map (\<lambda>(k, b). member ('' '' @ nl ''    '') k (show_bool b)) gs)"

definition sink_status_to_json :: "sink_stream_status \<Rightarrow> string" where
  "sink_status_to_json s =
     json_object []
       [group_member (nl ''  '') ''sink_flags'' (json_object (nl ''  '')
          (flag_members [(''rtp_seq_id_error'', is_rtp_seq_id_error s), (''rtp_ssrc_error'', is_rtp_ssrc_error s),
             (''rtp_payload_type_error'', is_rtp_payload_type_error s), (''rtp_sac_error'', is_rtp_sac_error s),
             (''receiving_rtp_packet'', is_receiving_rtp_packet s), (''some_muted'', is_some_muted s),
             (''all_muted'', is_all_muted s), (''muted'', is_muted s)]) (nl ''  '')),
        group_member (nl ''  '') ''leg2'' (json_object (nl ''  '')
          (flag_members [(''present'', leg2_present s), (''rtp_seq_id_error'', leg2_is_rtp_seq_id_error s),
             (''rtp_ssrc_error'', leg2_is_rtp_ssrc_error s),
             (''rtp_payload_type_error'', leg2_is_rtp_payload_type_error s),
             (''rtp_sac_error'', leg2_is_rtp_sac_error s),
             (''receiving_rtp_packet'', leg2_is_receiving_rtp_packet s)]) (nl ''  '')),
        member (nl ''  '') ''sink_min_time'' (show_int (sink_min_time s))] (nl []) @ nl []"

definition source_status_to_json :: "source_stream_status \<Rightarrow> string" where
  "source_status_to_json s =
     json_object []
       [group_member (nl ''  '') ''source_flags'' (json_object (nl ''  '')
          (flag_members [(''transmitting'', is_transmitting s), (''underrun'', is_underrun s)]) (nl ''  '')),
        group_member (nl ''  '') ''leg2'' (json_object (nl ''  '')
          (flag_members [(''present'', src_leg2_present s), (''transmitting'', leg2_is_transmitting s),
             (''underrun'', leg2_is_underrun s)]) (nl ''  ''))] (nl []) @ nl []"

definition ptp_config_to_json :: "u8 \<Rightarrow> u8 \<Rightarrow> string" where
  "ptp_config_to_json domain dscp =
     json_object [] [member '' '' ''domain'' (show_u domain), member '' '' ''dscp'' (show_u dscp)] '' '' @ nl []"

definition ptp_status_to_json :: "ptp_status \<Rightarrow> string" where
  "ptp_status_to_json s =
     json_object [] (map (\<lambda>(k, v). member '' '' k v)
       [(''status'', str_value (pt_status s)),
        (''gmid'', str_value (pt_gmid s)),
        (''jitter'', show_int (pt_jitter s)),
        (''active_leg'', show_int (pt_active_leg s)),
        (''leg0_status'', str_value (pt_leg0_status s)),
        (''leg1_status'', str_value (pt_leg1_status s)),
        (''leg0_gmid'', str_value (pt_leg0_gmid s)),
        (''leg1_gmid'', str_value (pt_leg1_gmid s)),
        (''legs_aligned'', show_bool (pt_legs_aligned s))]) '' '' @ nl []"

text \<open>\<open>streams_to_json\<close> and the lists of one kind.\<close>

definition array_value :: "string list \<Rightarrow> string" where
  "array_value es = ''['' @ join_with '', '' es @ ''  ]''"

definition sources_to_json :: "stream_source list \<Rightarrow> string" where
  "sources_to_json ss =
     json_object [] [member (nl ''  '') ''sources'' (array_value (map source_to_json ss))] (nl []) @ nl []"

definition sinks_to_json :: "stream_sink list \<Rightarrow> string" where
  "sinks_to_json ks =
     json_object [] [member (nl ''  '') ''sinks'' (array_value (map sink_to_json ks))] (nl []) @ nl []"

definition streams_to_json :: "stream_source list \<Rightarrow> stream_sink list \<Rightarrow> string" where
  "streams_to_json ss ks =
     json_object []
       [member (nl ''  '') ''sources'' (array_value (map source_to_json ss)),
        member (nl ''  '') ''sinks'' (array_value (map sink_to_json ks))] (nl []) @ nl []"

text \<open>A remote source; \<open>age\<close> is the difference to \<open>last_seen_timepoint\<close> in
  nanoseconds, which is cut to whole seconds.\<close>


definition remote_source_to_json :: "nat \<Rightarrow> remote_source \<Rightarrow> string" where
  "remote_source_to_json age s =
     json_object (nl ''  '') (map (\<lambda>(k, v). member (nl ''    '') k v)
       [(''source'', str_value (rs_source s)), (''id'', str_value (rs_id s)), (''name'', str_value (rs_name s)),
        (''domain'', str_value (rs_domain s)), (''address'', str_value (rs_address s)), (''sdp'', str_value (rs_sdp s)),
        (''last_seen'', show_nat (age div 10 ^ 9 mod 2 ^ 32)),
        (''announce_period'', show_u (rs_announce_period s))]) ('' '' @ nl ''  '')"

definition remote_sources_to_json :: "(remote_source \<Rightarrow> nat) \<Rightarrow> remote_source list \<Rightarrow> string" where
  "remote_sources_to_json age ss =
     json_object [] [member (nl ''  '') ''remote_sources'' (array_value (map (\<lambda>s. remote_source_to_json (age s) s) ss))]
       (nl []) @ nl []"

record streamer_info =
  sti_status :: u8
  sti_file_duration :: u16
  sti_files_num :: u8
  sti_player_buffer_files_num :: u8
  sti_channels :: u8
  sti_start_file_id :: u8
  sti_current_file_id :: u8
  sti_rate :: u32
  sti_format :: string


definition streamer_info_to_json :: "streamer_info \<Rightarrow> string" where
  "streamer_info_to_json s =
     json_object [] (map (\<lambda>(k, v). member (nl ''   '') k v)
       [(''status'', show_u (sti_status s)),
        (''file_duration'', show_u (sti_file_duration s)),
        (''files_num'', show_u (sti_files_num s)),
        (''player_buffer_files_num'', show_u (sti_player_buffer_files_num s)),
        (''start_file_id'', show_u (sti_start_file_id s)),
        (''current_file_id'', show_u (sti_current_file_id s)),
        (''channels'', show_u (sti_channels s)),
        (''format'', quoted (sti_format s)),
        (''rate'', show_u (sti_rate s))]) (nl []) @ nl []"

subsection \<open>Readers\<close>

datatype json_exn =
    Json_error nat string
  | Invalid_argument
  | Out_of_range
  | Bad_path string
  | Bad_data string
  | Runtime_error string

record ptree_lib =
  pl_read :: "string \<Rightarrow> (nat \<times> string) + ptree"
  pl_u8 :: "string \<Rightarrow> u8 option"
  pl_u16 :: "string \<Rightarrow> u16 option"
  pl_u32 :: "string \<Rightarrow> u32 option"
  pl_int :: "string \<Rightarrow> int option"
  pl_bool :: "string \<Rightarrow> bool option"
  pl_what :: "json_exn \<Rightarrow> string"

fun andthen :: "'e + 'a \<Rightarrow> ('a \<Rightarrow> 'e + 'b) \<Rightarrow> 'e + 'b" where
  "andthen (Inl e) f = Inl e"
| "andthen (Inr x) f = f x"

definition read_tree :: "ptree_lib \<Rightarrow> string \<Rightarrow> json_exn + ptree" where
  "read_tree lib s = (case pl_read lib s of Inl (n, m) \<Rightarrow> Inl (Json_error n m) | Inr t \<Rightarrow> Inr t)"

text \<open>\<open>get_value<T>\<close>, \<open>get<T>(path)\<close>, \<open>get<T>(path, default)\<close>, \<open>get_child\<close>.\<close>

definition get_value :: "(string \<Rightarrow> 'a option) \<Rightarrow> ptree \<Rightarrow> json_exn + 'a" where
  "get_value conv t = (case conv (tree_data t) of None \<Rightarrow> Inl (Bad_data (tree_data t)) | Some x \<Rightarrow> Inr x)"

definition get_child :: "string \<Rightarrow> ptree \<Rightarrow> json_exn + ptree" where
  "get_child k t = (case map_of (tree_kids t) k of None \<Rightarrow> Inl (Bad_path k) | Some c \<Rightarrow> Inr c)"

definition get_at :: "(string \<Rightarrow> 'a option) \<Rightarrow> string \<Rightarrow> ptree \<Rightarrow> json_exn + 'a" where
  "get_at conv k t = andthen (get_child k t) (get_value conv)"

definition get_or :: "(string \<Rightarrow> 'a option) \<Rightarrow> string \<Rightarrow> 'a \<Rightarrow> ptree \<Rightarrow> 'a" where
  "get_or conv k d t = (case get_at conv k t of Inl _ \<Rightarrow> d | Inr x \<Rightarrow> x)"

text \<open>\<open>std::stoi\<close> with its two exceptions, and the channel map read with it.\<close>

definition stoi_exn :: "string \<Rightarrow> json_exn + int" where
  "stoi_exn s =
     (case strto s of
        None \<Rightarrow> Inl Invalid_argument
      | Some _ \<Rightarrow> (case stoi s of None \<Rightarrow> Inl Out_of_range | Some i \<Rightarrow> Inr i))"

fun channel_map :: "(string \<times> ptree) list \<Rightarrow> json_exn + u8 list" where
  "channel_map [] = Inr []"
| "channel_map ((_, v) # vs) =
     andthen (stoi_exn (tree_data v)) (\<lambda>i. andthen (channel_map vs) (\<lambda>xs. Inr (word_of_int i # xs)))"

text \<open>The \<open>catch\<close> clauses: of the documents of the HTTP interface, and of the status file.\<close>

fun catch_parser :: "json_exn + 'a \<Rightarrow> json_exn + 'a" where
  "catch_parser (Inl (Json_error n m)) =
     Inl (Runtime_error (''error parsing JSON at line '' @ show_nat n @ '' :'' @ m))"
| "catch_parser r = r"

fun catch_json :: "ptree_lib \<Rightarrow> json_exn + 'a \<Rightarrow> json_exn + 'a" where
  "catch_json lib (Inl (Json_error n m)) =
     Inl (Runtime_error (''error parsing JSON at line '' @ show_nat n @ '' :'' @ m))"
| "catch_json lib (Inl Invalid_argument) =
     Inl (Runtime_error ''error parsing JSON: cannot perform number conversion'')"
| "catch_json lib (Inl Out_of_range) =
     Inl (Runtime_error ''error parsing JSON: number conversion out of range'')"
| "catch_json lib (Inl e) = Inl (Runtime_error (''error parsing JSON: '' @ pl_what lib e))"
| "catch_json lib (Inr x) = Inr x"

definition set_from ::
  "(string \<Rightarrow> 'a option) \<Rightarrow> ('a \<Rightarrow> config \<Rightarrow> config) \<Rightarrow> ptree \<Rightarrow> config \<Rightarrow> json_exn + config" where
  "set_from conv upd v c = andthen (get_value conv v) (\<lambda>x. Inr (upd x c))"

text \<open>One entry of the configuration document; \<open>mac_addr\<close>, \<open>node_id\<close> and unknown names are
  ignored.\<close>

definition config_entry :: "ptree_lib \<Rightarrow> string \<Rightarrow> ptree \<Rightarrow> config \<Rightarrow> json_exn + config" where
  "config_entry lib k v c =
     (if k = ''http_port'' then set_from (pl_int lib) (\<lambda>x c. c\<lparr>cf_http_port := word_of_int x\<rparr>) v c else
      if k = ''rtsp_port'' then set_from (pl_int lib) (\<lambda>x c. c\<lparr>cf_rtsp_port := word_of_int x\<rparr>) v c else
      if k = ''http_base_dir'' then set_from Some (\<lambda>x c. c\<lparr>cf_http_base_dir := remove_undesired_chars x\<rparr>) v c else
      if k = ''streamer_channels'' then set_from (pl_u8 lib) (\<lambda>x c. c\<lparr>cf_streamer_channels := x\<rparr>) v c else
      if k = ''alsa_channels'' then set_from (pl_u8 lib) (\<lambda>x c. c\<lparr>cf_alsa_channels := x\<rparr>) v c else
      if k = ''streamer_files_num'' then set_from (pl_u8 lib) (\<lambda>x c. c\<lparr>cf_streamer_files_num := x\<rparr>) v c else
      if k = ''streamer_file_duration'' then set_from (pl_u16 lib) (\<lambda>x c. c\<lparr>cf_streamer_file_duration := x\<rparr>) v c else
      if k = ''streamer_player_buffer_files_num'' then set_from (pl_u8 lib) (\<lambda>x c. c\<lparr>cf_streamer_player_buffer_files_num := x\<rparr>) v c else
      if k = ''streamer_enabled'' then set_from (pl_bool lib) (\<lambda>x c. c\<lparr>cf_streamer_enabled := x\<rparr>) v c else
      if k = ''log_severity'' then set_from (pl_int lib) (\<lambda>x c. c\<lparr>cf_log_severity := x\<rparr>) v c else
      if k = ''interface_name'' then set_from Some (\<lambda>x c. c\<lparr>cf_interface_name := remove_undesired_chars x\<rparr>) v c else
      if k = ''playout_delay'' then set_from (pl_u32 lib) (\<lambda>x c. c\<lparr>cf_playout_delay := x\<rparr>) v c else
      if k = ''tic_frame_size_at_1fs'' then set_from (pl_u32 lib) (\<lambda>x c. c\<lparr>cf_tic_frame_size_at_1fs := x\<rparr>) v c else
      if k = ''max_tic_frame_size'' then set_from (pl_u32 lib) (\<lambda>x c. c\<lparr>cf_max_tic_frame_size := x\<rparr>) v c else
      if k = ''sample_rate'' then set_from (pl_u32 lib) (\<lambda>x c. c\<lparr>cf_sample_rate := x\<rparr>) v c else
      if k = ''rtp_mcast_base'' then set_from Some (\<lambda>x c. c\<lparr>cf_rtp_mcast_base := remove_undesired_chars x\<rparr>) v c else
      if k = ''rtp_mcast_base_sec'' then set_from Some (\<lambda>x c. c\<lparr>cf_rtp_mcast_base_sec := remove_undesired_chars x\<rparr>) v c else
      if k = ''rtp_port'' then set_from (pl_u16 lib) (\<lambda>x c. c\<lparr>cf_rtp_port := x\<rparr>) v c else
      if k = ''rtp_port_sec'' then set_from (pl_u16 lib) (\<lambda>x c. c\<lparr>cf_rtp_port_sec := x\<rparr>) v c else
      if k = ''ptp_domain'' then set_from (pl_u8 lib) (\<lambda>x c. c\<lparr>cf_ptp_domain := x\<rparr>) v c else
      if k = ''ptp_dscp'' then set_from (pl_u8 lib) (\<lambda>x c. c\<lparr>cf_ptp_dscp := x\<rparr>) v c else
      if k = ''sap_mcast_addr'' then set_from Some (\<lambda>x c. c\<lparr>cf_sap_mcast_addr := remove_undesired_chars x\<rparr>) v c else
      if k = ''sap_interval'' then set_from (pl_u16 lib) (\<lambda>x c. c\<lparr>cf_sap_interval := x\<rparr>) v c else
      if k = ''mdns_enabled'' then set_from (pl_bool lib) (\<lambda>x c. c\<lparr>cf_mdns_enabled := x\<rparr>) v c else
      if k = ''status_file'' then set_from Some (\<lambda>x c. c\<lparr>cf_status_file := remove_undesired_chars x\<rparr>) v c else
      if k = ''syslog_proto'' then set_from Some (\<lambda>x c. c\<lparr>cf_syslog_proto := remove_undesired_chars x\<rparr>) v c else
      if k = ''syslog_server'' then set_from Some (\<lambda>x c. c\<lparr>cf_syslog_server := remove_undesired_chars x\<rparr>) v c else
      if k = ''ptp_status_script'' then set_from Some (\<lambda>x c. c\<lparr>cf_ptp_status_script := remove_undesired_chars x\<rparr>) v c else
      if k = ''lldp_update_script'' then set_from Some (\<lambda>x c. c\<lparr>cf_lldp_update_script := remove_undesired_chars x\<rparr>) v c else
      if k = ''custom_node_id'' then set_from Some (\<lambda>x c. c\<lparr>cf_custom_node_id := remove_undesired_chars x\<rparr>) v c else
      if k = ''auto_sinks_update'' then set_from (pl_bool lib) (\<lambda>x c. c\<lparr>cf_auto_sinks_update := x\<rparr>) v c else
      if k = ''nmos_enabled'' then set_from (pl_bool lib) (\<lambda>x c. c\<lparr>cf_nmos_enabled := x\<rparr>) v c else
      if k = ''nmos_registry_address'' then set_from Some (\<lambda>x c. c\<lparr>cf_nmos_registry_address := remove_undesired_chars x\<rparr>) v c else
      if k = ''nmos_registry_port'' then set_from (pl_u16 lib) (\<lambda>x c. c\<lparr>cf_nmos_registry_port := x\<rparr>) v c else
      if k = ''nmos_registry_query_port'' then set_from (pl_u16 lib) (\<lambda>x c. c\<lparr>cf_nmos_registry_query_port := x\<rparr>) v c else
      if k = ''nmos_control_interface'' then set_from Some (\<lambda>x c. c\<lparr>cf_nmos_control_interface := remove_undesired_chars x\<rparr>) v c else
      if k = ''nmos_node_port'' then set_from (pl_u16 lib) (\<lambda>x c. c\<lparr>cf_nmos_node_port := x\<rparr>) v c else
      if k = ''nmos_label'' then set_from Some (\<lambda>x c. c\<lparr>cf_nmos_label := remove_undesired_chars x\<rparr>) v c else
      if k = ''nmos_registry_autodiscovery'' then set_from (pl_bool lib) (\<lambda>x c. c\<lparr>cf_nmos_registry_auto_discover := x\<rparr>) v c else
      if k = ''nmos_mdns_enabled'' then set_from (pl_bool lib) (\<lambda>x c. c\<lparr>cf_nmos_mdns_enabled := x\<rparr>) v c else
      if k = ''is12_enabled'' then set_from (pl_bool lib) (\<lambda>x c. c\<lparr>cf_is12_enabled := x\<rparr>) v c else
      if k = ''is08_enabled'' then set_from (pl_bool lib) (\<lambda>x c. c\<lparr>cf_is08_enabled := x\<rparr>) v c else
      if k = ''ip_addr'' then set_from Some (\<lambda>x c. c\<lparr>cf_ip_str := x\<rparr>) v c else
      Inr c)"

fun config_entries :: "ptree_lib \<Rightarrow> (string \<times> ptree) list \<Rightarrow> config \<Rightarrow> json_exn + config" where
  "config_entries lib [] c = Inr c"
| "config_entries lib ((k, v) # es) c = andthen (config_entry lib k v c) (config_entries lib es)"

text \<open>\<open>json_to_config\<close>: the second argument is the current configuration, or the default one.\<close>

definition json_to_config :: "ptree_lib \<Rightarrow> string \<Rightarrow> config \<Rightarrow> json_exn + config" where
  "json_to_config lib js cur =
     catch_json lib (andthen (read_tree lib js) (\<lambda>pt. config_entries lib (tree_kids pt) cur))"

definition json_to_source :: "ptree_lib \<Rightarrow> string \<Rightarrow> string \<Rightarrow> json_exn + stream_source" where
  "json_to_source lib ident js =
     catch_json lib
      (andthen (read_tree lib js) (\<lambda>pt.
       andthen (stoi_exn ident) (\<lambda>i.
       andthen (get_at (pl_bool lib) ''enabled'' pt) (\<lambda>enabled.
       andthen (get_at Some ''name'' pt) (\<lambda>name.
       andthen (get_at Some ''io'' pt) (\<lambda>io.
       andthen (get_child ''map'' pt) (\<lambda>m.
       andthen (channel_map (tree_kids m)) (\<lambda>chans.
       andthen (get_at (pl_u32 lib) ''max_samples_per_packet'' pt) (\<lambda>samples.
       andthen (get_at Some ''codec'' pt) (\<lambda>codec.
       andthen (get_at Some ''address'' pt) (\<lambda>addr.
       andthen (get_at (pl_u8 lib) ''ttl'' pt) (\<lambda>ttl.
       andthen (get_at (pl_u8 lib) ''payload_type'' pt) (\<lambda>pt_type.
       andthen (get_at (pl_u8 lib) ''dscp'' pt) (\<lambda>dscp.
       andthen (get_at (pl_bool lib) ''refclk_ptp_traceable'' pt) (\<lambda>traceable.
         Inr \<lparr>src_id = word_of_int i, src_enabled = enabled, src_name = remove_undesired_chars name,
              src_io = remove_undesired_chars io, src_max_samples_per_packet = samples,
              src_codec = remove_undesired_chars codec, src_address = remove_undesired_chars addr,
              src_address_sec = remove_undesired_chars (get_or Some ''address_sec'' [] pt),
              src_use_secondary = get_or (pl_bool lib) ''use_secondary'' True pt, src_ttl = ttl,
              src_payload_type = pt_type, src_dscp = dscp, src_refclk_ptp_traceable = traceable,
              src_map = chans\<rparr>)))))))))))))))"

definition json_to_sink :: "ptree_lib \<Rightarrow> string \<Rightarrow> string \<Rightarrow> json_exn + stream_sink" where
  "json_to_sink lib ident js =
     catch_json lib
      (andthen (read_tree lib js) (\<lambda>pt.
       andthen (stoi_exn ident) (\<lambda>i.
       andthen (get_at Some ''name'' pt) (\<lambda>name.
       andthen (get_at Some ''io'' pt) (\<lambda>io.
       andthen (get_at Some ''source'' pt) (\<lambda>url.
       andthen (get_at (pl_bool lib) ''use_sdp'' pt) (\<lambda>use_sdp.
       andthen (get_at Some ''sdp'' pt) (\<lambda>sdp.
       andthen (get_at (pl_u32 lib) ''delay'' pt) (\<lambda>delay.
       andthen (get_at (pl_bool lib) ''ignore_refclk_gmid'' pt) (\<lambda>ignore.
       andthen (get_child ''map'' pt) (\<lambda>m.
       andthen (channel_map (tree_kids m)) (\<lambda>chans.
         Inr \<lparr>snk_id = word_of_int i, snk_name = remove_undesired_chars name,
              snk_io = remove_undesired_chars io, snk_use_sdp = use_sdp,
              snk_source = remove_undesired_chars url, snk_sdp = remove_undesired_chars sdp,
              snk_delay = delay, snk_ignore_refclk_gmid = ignore, snk_map = chans\<rparr>))))))))))))"

definition json_to_ptp_config :: "ptree_lib \<Rightarrow> string \<Rightarrow> json_exn + u8 \<times> u8" where
  "json_to_ptp_config lib js =
     catch_parser
      (andthen (read_tree lib js) (\<lambda>pt.
       andthen (get_at (pl_int lib) ''domain'' pt) (\<lambda>domain.
       andthen (get_at (pl_int lib) ''dscp'' pt) (\<lambda>dscp.
         Inr (word_of_int domain, word_of_int dscp)))))"

text \<open>The status file: nothing is filtered here.\<close>

definition parse_source :: "ptree_lib \<Rightarrow> ptree \<Rightarrow> json_exn + stream_source" where
  "parse_source lib v =
     andthen (get_at (pl_u8 lib) ''id'' v) (\<lambda>i.
     andthen (get_at (pl_bool lib) ''enabled'' v) (\<lambda>enabled.
     andthen (get_at Some ''name'' v) (\<lambda>name.
     andthen (get_at Some ''io'' v) (\<lambda>io.
     andthen (get_at (pl_u32 lib) ''max_samples_per_packet'' v) (\<lambda>samples.
     andthen (get_at Some ''codec'' v) (\<lambda>codec.
     andthen (get_at Some ''address'' v) (\<lambda>addr.
     andthen (get_at (pl_u8 lib) ''ttl'' v) (\<lambda>ttl.
     andthen (get_at (pl_u8 lib) ''payload_type'' v) (\<lambda>pt_type.
     andthen (get_at (pl_u8 lib) ''dscp'' v) (\<lambda>dscp.
     andthen (get_at (pl_bool lib) ''refclk_ptp_traceable'' v) (\<lambda>traceable.
     andthen (get_child ''map'' v) (\<lambda>m.
     andthen (channel_map (tree_kids m)) (\<lambda>chans.
       Inr \<lparr>src_id = i, src_enabled = enabled, src_name = name, src_io = io,
            src_max_samples_per_packet = samples, src_codec = codec, src_address = addr,
            src_address_sec = get_or Some ''address_sec'' [] v,
            src_use_secondary = get_or (pl_bool lib) ''use_secondary'' True v, src_ttl = ttl,
            src_payload_type = pt_type, src_dscp = dscp, src_refclk_ptp_traceable = traceable,
            src_map = chans\<rparr>)))))))))))))"

definition parse_sink :: "ptree_lib \<Rightarrow> ptree \<Rightarrow> json_exn + stream_sink" where
  "parse_sink lib v =
     andthen (get_at (pl_u8 lib) ''id'' v) (\<lambda>i.
     andthen (get_at Some ''name'' v) (\<lambda>name.
     andthen (get_at Some ''io'' v) (\<lambda>io.
     andthen (get_at Some ''source'' v) (\<lambda>url.
     andthen (get_at (pl_bool lib) ''use_sdp'' v) (\<lambda>use_sdp.
     andthen (get_at Some ''sdp'' v) (\<lambda>sdp.
     andthen (get_at (pl_u32 lib) ''delay'' v) (\<lambda>delay.
     andthen (get_at (pl_bool lib) ''ignore_refclk_gmid'' v) (\<lambda>ignore.
     andthen (get_child ''map'' v) (\<lambda>m.
     andthen (channel_map (tree_kids m)) (\<lambda>chans.
       Inr \<lparr>snk_id = i, snk_name = name, snk_io = io, snk_use_sdp = use_sdp, snk_source = url,
            snk_sdp = sdp, snk_delay = delay, snk_ignore_refclk_gmid = ignore, snk_map = chans\<rparr>))))))))))"

fun each :: "(ptree \<Rightarrow> json_exn + 'a) \<Rightarrow> (string \<times> ptree) list \<Rightarrow> json_exn + 'a list" where
  "each f [] = Inr []"
| "each f ((_, v) # vs) = andthen (f v) (\<lambda>x. andthen (each f vs) (\<lambda>xs. Inr (x # xs)))"

definition parse_json_sources :: "ptree_lib \<Rightarrow> ptree \<Rightarrow> json_exn + stream_source list" where
  "parse_json_sources lib pt =
     andthen (get_child ''sources'' pt) (\<lambda>v. each (parse_source lib) (tree_kids v))"

definition parse_json_sinks :: "ptree_lib \<Rightarrow> ptree \<Rightarrow> json_exn + stream_sink list" where
  "parse_json_sinks lib pt =
     andthen (get_child ''sinks'' pt) (\<lambda>v. each (parse_sink lib) (tree_kids v))"

definition json_to_sources :: "ptree_lib \<Rightarrow> string \<Rightarrow> json_exn + stream_source list" where
  "json_to_sources lib js = catch_parser (andthen (read_tree lib js) (parse_json_sources lib))"

definition json_to_sinks :: "ptree_lib \<Rightarrow> string \<Rightarrow> json_exn + stream_sink list" where
  "json_to_sinks lib js = catch_parser (andthen (read_tree lib js) (parse_json_sinks lib))"

definition json_to_streams :: "ptree_lib \<Rightarrow> string \<Rightarrow> json_exn + stream_source list \<times> stream_sink list" where
  "json_to_streams lib js =
     catch_parser
      (andthen (read_tree lib js) (\<lambda>pt.
       andthen (parse_json_sources lib pt) (\<lambda>ss.
       andthen (parse_json_sinks lib pt) (\<lambda>ks. Inr (ss, ks)))))"

end
