(* ===== verification/Json_Props.thy ===== *)
theory Json_Props
  imports Json
begin

text \<open>What the readers of \<open>Json\<close> make of the documents of the writers.\<close>

subsection \<open>The parser the readers rely on\<close>

text \<open>\<open>lib\<close> reads the JSON the reference reader reads, and the numbers and booleans that are
  written.\<close>

definition reads_json :: "ptree_lib \<Rightarrow> bool" where
  "reads_json lib \<longleftrightarrow>
     (\<forall>s t. json_read s = Some t \<longrightarrow> pl_read lib s = Inr t) \<and>
     (\<forall>x. pl_u8 lib (show_u x) = Some x) \<and> (\<forall>x. pl_u16 lib (show_u x) = Some x) \<and>
     (\<forall>x. pl_u32 lib (show_u x) = Some x) \<and>
     (\<forall>i. - (2 ^ 31) \<le> i \<and> i < 2 ^ 31 \<longrightarrow> pl_int lib (show_int i) = Some i) \<and>
     (\<forall>b. pl_bool lib (show_bool b) = Some b)"

text \<open>A library that has these properties.\<close>

definition sample_lib :: ptree_lib where
  "sample_lib = \<lparr>
     pl_read = (\<lambda>s. case json_read s of None \<Rightarrow> Inl (1, ''expected value'') | Some t \<Rightarrow> Inr t),
     pl_u8 = (\<lambda>s. map_option (\<lambda>(_, n). word_of_nat n) (strto s)),
     pl_u16 = (\<lambda>s. map_option (\<lambda>(_, n). word_of_nat n) (strto s)),
     pl_u32 = (\<lambda>s. map_option (\<lambda>(_, n). word_of_nat n) (strto s)),
     pl_int = (\<lambda>s. map_option (\<lambda>(neg, n). if neg then - int n else int n) (strto s)),
     pl_bool = (\<lambda>s. if s = ''true'' then Some True else if s = ''false'' then Some False else None),
     pl_what = (\<lambda>_. ''conversion of data failed'')\<rparr>"

lemma strto_show [simp]: "strto (show_nat n) = Some (False, n)"
  using strto_show_nat[of "[]" n] by simp

lemma strto_neg: "strto (CHR ''-'' # show_nat n) = Some (True, n)"
proof -
  have tw: "takeWhile is_digit (show_nat n) = show_nat n"
    by (simp add: takeWhile_eq_all_conv show_nat_digits)
  show ?thesis by (simp add: strto_def is_space_def Let_def tw)
qed

lemma sample_lib_reads: "reads_json sample_lib"
  by (auto simp: reads_json_def sample_lib_def show_u_def show_int_def strto_neg show_bool_def)

subsection \<open>Documents are read as the trees they stand for\<close>

lemma reads_u [intro]: "reads (show_u x) (leaf (show_u x))"
  unfolding show_u_def by (rule reads_nat)

lemma reads_str_value [intro]: "reads (str_value s) (leaf (remove_undesired_chars s))"
  unfolding str_value_def by (rule reads_string)

lemma reads_object:
  assumes "list_all (\<lambda>(k, v, t). plain k \<and> reads v t) ms" and "ms \<noteq> []"
    and "list_all json_ws pre" "list_all json_ws mpre" "list_all json_ws post"
  shows "reads (json_object pre (map (\<lambda>(k, v). member mpre k v) (map (\<lambda>(k, v, t). (k, v)) ms)) post)
           (Ptree [] (map (\<lambda>(k, v, t). (k, t)) ms))"
proof -
  let ?m = "map (\<lambda>(k, v, t). (mpre, k, v, t)) ms"
  have "reads (json_object pre (map member_text ?m) post) (Ptree [] (map member_tree ?m))"
    using assms by (intro reads_members) (auto simp: good_member_def list_all_iff)
  moreover have "map member_text ?m = map (\<lambda>(k, v). member mpre k v) (map (\<lambda>(k, v, t). (k, v)) ms)"
    "map member_tree ?m = map (\<lambda>(k, v, t). (k, t)) ms"
    by (auto simp: member_text_def member_tree_def)
  ultimately show ?thesis by (simp only:)
qed

lemma ws_nl [simp]: "list_all json_ws (nl [])" "list_all json_ws (nl ''  '')" "list_all json_ws (nl ''    '')"
  by simp_all

lemma plain_simps [simp]: "plain []" "plain (c # s) \<longleftrightarrow> c \<noteq> dquote \<and> c \<noteq> backslash \<and> plain s"
  by (simp_all add: plain_def)

definition numbers_tree :: "u8 list \<Rightarrow> ptree" where
  "numbers_tree xs = Ptree [] (map (\<lambda>x. ([], leaf (show_nat (unat x)))) xs)"

lemma reads_numbers [intro]: "reads (number_list xs) (numbers_tree xs)"
  unfolding numbers_tree_def by (rule reads_number_list)

definition source_tree :: "stream_source \<Rightarrow> ptree" where
  "source_tree s = Ptree []
     [(''id'', leaf (show_u (src_id s))),
      (''enabled'', leaf (show_bool (src_enabled s))),
      (''name'', leaf (remove_undesired_chars (src_name s))),
      (''io'', leaf (remove_undesired_chars (src_io s))),
      (''max_samples_per_packet'', leaf (show_u (src_max_samples_per_packet s))),
      (''codec'', leaf (remove_undesired_chars (src_codec s))),
      (''address'', leaf (remove_undesired_chars (src_address s))),
      (''address_sec'', leaf (remove_undesired_chars (src_address_sec s))),
      (''use_secondary'', leaf (show_bool (src_use_secondary s))),
      (''ttl'', leaf (show_u (src_ttl s))),
      (''payload_type'', leaf (show_u (src_payload_type s))),
      (''dscp'', leaf (show_u (src_dscp s))),
      (''refclk_ptp_traceable'', leaf (show_bool (src_refclk_ptp_traceable s))),
      (''map'', numbers_tree (src_map s))]"

lemma reads_source [intro]: "reads (source_to_json s) (source_tree s)"
  unfolding source_to_json_def source_tree_def
  using reads_object[of "[(''id'', show_u (src_id s), leaf (show_u (src_id s))),
      (''enabled'', show_bool (src_enabled s), leaf (show_bool (src_enabled s))),
      (''name'', str_value (src_name s), leaf (remove_undesired_chars (src_name s))),
      (''io'', str_value (src_io s), leaf (remove_undesired_chars (src_io s))),
      (''max_samples_per_packet'', show_u (src_max_samples_per_packet s), leaf (show_u (src_max_samples_per_packet s))),
      (''codec'', str_value (src_codec s), leaf (remove_undesired_chars (src_codec s))),
      (''address'', str_value (src_address s), leaf (remove_undesired_chars (src_address s))),
      (''address_sec'', str_value (src_address_sec s), leaf (remove_undesired_chars (src_address_sec s))),
      (''use_secondary'', show_bool (src_use_secondary s), leaf (show_bool (src_use_secondary s))),
      (''ttl'', show_u (src_ttl s), leaf (show_u (src_ttl s))),
      (''payload_type'', show_u (src_payload_type s), leaf (show_u (src_payload_type s))),
      (''dscp'', show_u (src_dscp s), leaf (show_u (src_dscp s))),
      (''refclk_ptp_traceable'', show_bool (src_refclk_ptp_traceable s), leaf (show_bool (src_refclk_ptp_traceable s))),
      (''map'', number_list (src_map s), numbers_tree (src_map s))]"
      "nl ''  ''" "nl ''    ''" "nl ''  ''"]
  by (auto del: notI)

definition sink_tree :: "stream_sink \<Rightarrow> ptree" where
  "sink_tree s = Ptree []
     [(''id'', leaf (show_u (snk_id s))),
      (''name'', leaf (remove_undesired_chars (snk_name s))),
      (''io'', leaf (remove_undesired_chars (snk_io s))),
      (''use_sdp'', leaf (show_bool (snk_use_sdp s))),
      (''source'', leaf (remove_undesired_chars (snk_source s))),
      (''sdp'', leaf (remove_undesired_chars (snk_sdp s))),
      (''delay'', leaf (show_u (snk_delay s))),
      (''ignore_refclk_gmid'', leaf (show_bool (snk_ignore_refclk_gmid s))),
      (''map'', numbers_tree (snk_map s))]"

lemma reads_sink [intro]: "reads (sink_to_json s) (sink_tree s)"
  unfolding sink_to_json_def sink_tree_def
  using reads_object[of "[(''id'', show_u (snk_id s), leaf (show_u (snk_id s))),
      (''name'', str_value (snk_name s), leaf (remove_undesired_chars (snk_name s))),
      (''io'', str_value (snk_io s), leaf (remove_undesired_chars (snk_io s))),
      (''use_sdp'', show_bool (snk_use_sdp s), leaf (show_bool (snk_use_sdp s))),
      (''source'', str_value (snk_source s), leaf (remove_undesired_chars (snk_source s))),
      (''sdp'', str_value (snk_sdp s), leaf (remove_undesired_chars (snk_sdp s))),
      (''delay'', show_u (snk_delay s), leaf (show_u (snk_delay s))),
      (''ignore_refclk_gmid'', show_bool (snk_ignore_refclk_gmid s), leaf (show_bool (snk_ignore_refclk_gmid s))),
      (''map'', number_list (snk_map s), numbers_tree (snk_map s))]"
      "nl ''  ''" "nl ''    ''" "nl ''  ''"]
  by (auto del: notI)

subsection \<open>Sources and sinks\<close>

text \<open>What the character filter leaves of a source and of a sink.\<close>

definition filtered_source :: "stream_source \<Rightarrow> stream_source" where
  "filtered_source s = s\<lparr>src_name := remove_undesired_chars (src_name s), src_io := remove_undesired_chars (src_io s),
     src_codec := remove_undesired_chars (src_codec s), src_address := remove_undesired_chars (src_address s),
     src_address_sec := remove_undesired_chars (src_address_sec s)\<rparr>"

definition filtered_sink :: "stream_sink \<Rightarrow> stream_sink" where
  "filtered_sink s = s\<lparr>snk_name := remove_undesired_chars (snk_name s), snk_io := remove_undesired_chars (snk_io s),
     snk_source := remove_undesired_chars (snk_source s), snk_sdp := remove_undesired_chars (snk_sdp s)\<rparr>"

lemma filter_twice [simp]: "remove_undesired_chars (remove_undesired_chars s) = remove_undesired_chars s"
  by (simp add: remove_undesired_chars_def)

lemma channel_map_numbers: "channel_map (tree_kids (numbers_tree xs)) = Inr xs"
proof (induction xs)
  case (Cons x xs)
  have "unat x < 2 ^ 31" using unat_u8_less[of x] by (rule order.strict_trans) simp
  then have "stoi_exn (show_nat (unat x)) = Inr (int (unat x))"
    using stoi_show_nat[of "unat x" "[]"] by (simp add: stoi_exn_def)
  with Cons show ?case by (simp add: numbers_tree_def)
qed (simp add: numbers_tree_def)

lemmas reading = get_at_def get_or_def get_child_def get_value_def reads_json_def

lemma parse_source_tree:
  assumes "reads_json lib"
  shows "parse_source lib (source_tree s) = Inr (filtered_source s)"
  using assms by (simp add: parse_source_def source_tree_def reading channel_map_numbers filtered_source_def)

lemma parse_sink_tree:
  assumes "reads_json lib"
  shows "parse_sink lib (sink_tree s) = Inr (filtered_sink s)"
  using assms by (simp add: parse_sink_def sink_tree_def reading channel_map_numbers filtered_sink_def)

lemma reads_array:
  assumes "list_all (\<lambda>(v, t). reads v t) es"
  shows "reads (array_value (map fst es)) (Ptree [] (map (\<lambda>(v, t). ([], t)) es))"
  using reads_elems[OF assms, of "[]" "''  ''" "'' ''"] by (simp add: array_value_def)

lemma each_trees:
  "(\<And>x. f (t x) = Inr (g x)) \<Longrightarrow> each f (map (\<lambda>x. ([], t x)) xs) = Inr (map g xs)"
  by (induction xs) auto

definition streams_tree :: "stream_source list \<Rightarrow> stream_sink list \<Rightarrow> ptree" where
  "streams_tree ss ks = Ptree []
     [(''sources'', Ptree [] (map (\<lambda>s. ([], source_tree s)) ss)),
      (''sinks'', Ptree [] (map (\<lambda>s. ([], sink_tree s)) ks))]"

lemma json_read_streams: "json_read (streams_to_json ss ks) = Some (streams_tree ss ks)"
proof -
  have s: "reads (array_value (map source_to_json ss)) (Ptree [] (map (\<lambda>s. ([], source_tree s)) ss))"
    using reads_array[of "map (\<lambda>s. (source_to_json s, source_tree s)) ss"]
    by (auto simp: list_all_iff comp_def)
  have k: "reads (array_value (map sink_to_json ks)) (Ptree [] (map (\<lambda>s. ([], sink_tree s)) ks))"
    using reads_array[of "map (\<lambda>s. (sink_to_json s, sink_tree s)) ks"]
    by (auto simp: list_all_iff comp_def)
  have "reads (json_object [] [member (nl ''  '') ''sources'' (array_value (map source_to_json ss)),
        member (nl ''  '') ''sinks'' (array_value (map sink_to_json ks))] (nl [])) (streams_tree ss ks)"
    using reads_object[of "[(''sources'', array_value (map source_to_json ss), Ptree [] (map (\<lambda>s. ([], source_tree s)) ss)),
        (''sinks'', array_value (map sink_to_json ks), Ptree [] (map (\<lambda>s. ([], sink_tree s)) ks))]"
        "[]" "nl ''  ''" "nl []"] s k
    by (simp add: streams_tree_def)
  from json_read_text[OF this, of "nl []"] show ?thesis by (simp add: streams_to_json_def)
qed

lemma streams_text:
  assumes "reads_json lib"
  shows "json_to_streams lib (streams_to_json ss ks) = Inr (map filtered_source ss, map filtered_sink ks)"
proof -
  have r: "pl_read lib (streams_to_json ss ks) = Inr (streams_tree ss ks)"
    using assms json_read_streams by (simp add: reads_json_def)
  have "parse_json_sources lib (streams_tree ss ks) = Inr (map filtered_source ss)"
    "parse_json_sinks lib (streams_tree ss ks) = Inr (map filtered_sink ks)"
    using assms
    by (simp_all add: parse_json_sources_def parse_json_sinks_def streams_tree_def get_child_def
        each_trees parse_source_tree parse_sink_tree)
  with r show ?thesis by (simp add: json_to_streams_def read_tree_def)
qed

text \<open>The status file that is written for any sources and sinks is read back as those sources
  and sinks, with the characters the writer filters out gone from their texts; what was
  filtered once comes back unchanged.\<close>

theorem streams_roundtrip:
  assumes "reads_json lib"
  shows "json_to_streams lib (streams_to_json ss ks) = Inr (map filtered_source ss, map filtered_sink ks)"
  using assms by (rule streams_text)

definition sample_json_source :: stream_source where
  "sample_json_source = \<lparr>src_id = 3, src_enabled = True, src_name = ''Stage <left>'', src_io = ''Audio Device'',
     src_max_samples_per_packet = 48, src_codec = ''L24'', src_address = [], src_address_sec = ''239.2.0.7'',
     src_use_secondary = True, src_ttl = 15, src_payload_type = 98, src_dscp = 34,
     src_refclk_ptp_traceable = False, src_map = [0, 1]\<rparr>"

theorem streams_roundtrip_witness:
  "json_to_streams sample_lib (streams_to_json [sample_json_source] []) =
     Inr ([sample_json_source\<lparr>src_name := ''Stage left''\<rparr>], [])"
proof -
  have "remove_undesired_chars ''Stage <left>'' = ''Stage left''"
    "remove_undesired_chars ''Audio Device'' = ''Audio Device''"
    "remove_undesired_chars ''L24'' = ''L24''" "remove_undesired_chars ''239.2.0.7'' = ''239.2.0.7''"
    "remove_undesired_chars [] = []" by code_simp+
  then have "filtered_source sample_json_source = sample_json_source\<lparr>src_name := ''Stage left''\<rparr>"
    by (simp add: filtered_source_def sample_json_source_def)
  then show ?thesis
    using streams_roundtrip[OF sample_lib_reads, of "[sample_json_source]" "[]"] by simp
qed

subsection \<open>Adding a source over HTTP\<close>

lemma json_read_source: "json_read (source_to_json s) = Some (source_tree s)"
  using json_read_text[OF reads_source, of "[]" s] by simp

lemma catch_json_Inr [simp]: "catch_json lib r = Inr x \<longleftrightarrow> r = Inr x"
  by (cases r; cases "projl r") auto

lemma source_text:
  assumes "reads_json lib" and "n < 2 ^ 31"
  shows "json_to_source lib (show_nat n) (source_to_json s) =
    Inr (filtered_source s\<lparr>src_id := word_of_nat n\<rparr>)"
proof -
  have r: "pl_read lib (source_to_json s) = Inr (source_tree s)"
    using assms(1) json_read_source by (simp add: reads_json_def)
  have i: "stoi_exn (show_nat n) = Inr (int n)"
    using stoi_show_nat[of n "[]"] assms(2) by (simp add: stoi_exn_def)
  show ?thesis
    using assms(1) i
    by (simp add: json_to_source_def read_tree_def r source_tree_def reading channel_map_numbers filtered_source_def)
qed

text \<open>The document of a source with an id in the path of the request is read as that source
  (texts filtered), under the id of the path: whatever number that is, it is cut to eight bits,
  so the id 259 of a request is the source 3.\<close>

theorem json_to_source_roundtrip:
  assumes "reads_json lib" and "n < 2 ^ 31"
  shows "json_to_source lib (show_nat n) (source_to_json s) =
    Inr (filtered_source s\<lparr>src_id := word_of_nat n\<rparr>)"
  using assms by (rule source_text)

theorem json_to_source_roundtrip_witness:
  "\<exists>s. json_to_source sample_lib ''259'' (source_to_json sample_json_source) = Inr s \<and> src_id s = 3"
proof -
  have "show_nat 259 = ''259''" by code_simp
  then show ?thesis
    using json_to_source_roundtrip[OF sample_lib_reads, of 259 sample_json_source] by simp
qed

subsection \<open>The configuration\<close>

definition config_written :: "build \<Rightarrow> config \<Rightarrow> config \<Rightarrow> config" where
  "config_written b c cur = cur\<lparr>cf_http_port := cf_http_port c,
       cf_rtsp_port := cf_rtsp_port c,
       cf_http_base_dir := remove_undesired_chars (cf_http_base_dir c),
       cf_log_severity := cf_log_severity c,
       cf_playout_delay := cf_playout_delay c,
       cf_tic_frame_size_at_1fs := cf_tic_frame_size_at_1fs c,
       cf_max_tic_frame_size := cf_max_tic_frame_size c,
       cf_sample_rate := cf_sample_rate c,
       cf_rtp_mcast_base := remove_undesired_chars (cf_rtp_mcast_base c),
       cf_rtp_mcast_base_sec := remove_undesired_chars (cf_rtp_mcast_base_sec c),
       cf_rtp_port := cf_rtp_port c,
       cf_rtp_port_sec := cf_rtp_port_sec c,
       cf_ptp_domain := cf_ptp_domain c,
       cf_ptp_dscp := cf_ptp_dscp c,
       cf_sap_mcast_addr := remove_undesired_chars (cf_sap_mcast_addr c),
       cf_sap_interval := cf_sap_interval c,
       cf_syslog_proto := remove_undesired_chars (cf_syslog_proto c),
       cf_syslog_server := remove_undesired_chars (cf_syslog_server c),
       cf_status_file := remove_undesired_chars (cf_status_file c),
       cf_interface_name := remove_undesired_chars (cf_interface_name c),
       cf_mdns_enabled := get_mdns_enabled b c,
       cf_custom_node_id := remove_undesired_chars (cf_custom_node_id c),
       cf_ptp_status_script := remove_undesired_chars (cf_ptp_status_script c),
       cf_lldp_update_script := remove_undesired_chars (cf_lldp_update_script c),
       cf_ip_str := remove_undesired_chars (cf_ip_str c),
       cf_streamer_channels := cf_streamer_channels c,
       cf_alsa_channels := cf_alsa_channels c,
       cf_streamer_files_num := cf_streamer_files_num c,
       cf_streamer_file_duration := cf_streamer_file_duration c,
       cf_streamer_player_buffer_files_num := cf_streamer_player_buffer_files_num c,
       cf_streamer_enabled := get_streamer_enabled b c,
       cf_auto_sinks_update := cf_auto_sinks_update c,
       cf_nmos_enabled := cf_nmos_enabled c,
       cf_nmos_registry_address := remove_undesired_chars (cf_nmos_registry_address c),
       cf_nmos_registry_port := cf_nmos_registry_port c,
       cf_nmos_registry_query_port := cf_nmos_registry_query_port c,
       cf_nmos_control_interface := remove_undesired_chars (cf_nmos_control_interface c),
       cf_nmos_node_port := cf_nmos_node_port c,
       cf_nmos_label := remove_undesired_chars (cf_nmos_label c),
       cf_nmos_registry_auto_discover := cf_nmos_registry_auto_discover c,
       cf_nmos_mdns_enabled := cf_nmos_mdns_enabled c,
       cf_is12_enabled := cf_is12_enabled c,
       cf_is08_enabled := cf_is08_enabled c\<rparr>"

definition config_tree :: "build \<Rightarrow> config \<Rightarrow> ptree" where
  "config_tree b c = Ptree []
     [(''http_port'', leaf (show_u (cf_http_port c))),
      (''rtsp_port'', leaf (show_u (cf_rtsp_port c))),
      (''http_base_dir'', leaf (cf_http_base_dir c)),
      (''log_severity'', leaf (show_int (cf_log_severity c))),
      (''playout_delay'', leaf (show_u (cf_playout_delay c))),
      (''tic_frame_size_at_1fs'', leaf (show_u (cf_tic_frame_size_at_1fs c))),
      (''max_tic_frame_size'', leaf (show_u (cf_max_tic_frame_size c))),
      (''sample_rate'', leaf (show_u (cf_sample_rate c))),
      (''rtp_mcast_base'', leaf (remove_undesired_chars (cf_rtp_mcast_base c))),
      (''rtp_mcast_base_sec'', leaf (remove_undesired_chars (cf_rtp_mcast_base_sec c))),
      (''rtp_port'', leaf (show_u (cf_rtp_port c))),
      (''rtp_port_sec'', leaf (show_u (cf_rtp_port_sec c))),
      (''ptp_domain'', leaf (show_u (cf_ptp_domain c))),
      (''ptp_dscp'', leaf (show_u (cf_ptp_dscp c))),
      (''sap_mcast_addr'', leaf (remove_undesired_chars (cf_sap_mcast_addr c))),
      (''sap_interval'', leaf (show_u (cf_sap_interval c))),
      (''syslog_proto'', leaf (remove_undesired_chars (cf_syslog_proto c))),
      (''syslog_server'', leaf (remove_undesired_chars (cf_syslog_server c))),
      (''status_file'', leaf (remove_undesired_chars (cf_status_file c))),
      (''interface_name'', leaf (remove_undesired_chars (cf_interface_name c))),
      (''mdns_enabled'', leaf (show_bool (get_mdns_enabled b c))),
      (''custom_node_id'', leaf (remove_undesired_chars (cf_custom_node_id c))),
      (''node_id'', leaf (remove_undesired_chars (get_node_id c))),
      (''ptp_status_script'', leaf (remove_undesired_chars (cf_ptp_status_script c))),
      (''lldp_update_script'', leaf (remove_undesired_chars (cf_lldp_update_script c))),
      (''mac_addr'', leaf (remove_undesired_chars (cf_mac_str c))),
      (''ip_addr'', leaf (remove_undesired_chars (cf_ip_str c))),
      (''streamer_channels'', leaf (show_u (cf_streamer_channels c))),
      (''alsa_channels'', leaf (show_u (cf_alsa_channels c))),
      (''streamer_files_num'', leaf (show_u (cf_streamer_files_num c))),
      (''streamer_file_duration'', leaf (show_u (cf_streamer_file_duration c))),
      (''streamer_player_buffer_files_num'', leaf (show_u (cf_streamer_player_buffer_files_num c))),
      (''streamer_enabled'', leaf (show_bool (get_streamer_enabled b c))),
      (''auto_sinks_update'', leaf (show_bool (cf_auto_sinks_update c))),
      (''nmos_enabled'', leaf (show_bool (cf_nmos_enabled c))),
      (''nmos_registry_address'', leaf (remove_undesired_chars (cf_nmos_registry_address c))),
      (''nmos_registry_port'', leaf (show_u (cf_nmos_registry_port c))),
      (''nmos_registry_query_port'', leaf (show_u (cf_nmos_registry_query_port c))),
      (''nmos_control_interface'', leaf (remove_undesired_chars (cf_nmos_control_interface c))),
      (''nmos_node_port'', leaf (show_u (cf_nmos_node_port c))),
      (''nmos_label'', leaf (remove_undesired_chars (cf_nmos_label c))),
      (''nmos_registry_autodiscovery'', leaf (show_bool (cf_nmos_registry_auto_discover c))),
      (''nmos_mdns_enabled'', leaf (show_bool (cf_nmos_mdns_enabled c))),
      (''is12_enabled'', leaf (show_bool (cf_is12_enabled c))),
      (''is08_enabled'', leaf (show_bool (cf_is08_enabled c)))]"

lemma json_read_config:
  assumes "plain (cf_http_base_dir c)"
  shows "json_read (config_to_json b c) = Some (config_tree b c)"
proof -
  let ?ms = "[(''http_port'', show_u (cf_http_port c), leaf (show_u (cf_http_port c))),
      (''rtsp_port'', show_u (cf_rtsp_port c), leaf (show_u (cf_rtsp_port c))),
      (''http_base_dir'', quoted (cf_http_base_dir c), leaf (cf_http_base_dir c)),
      (''log_severity'', show_int (cf_log_severity c), leaf (show_int (cf_log_severity c))),
      (''playout_delay'', show_u (cf_playout_delay c), leaf (show_u (cf_playout_delay c))),
      (''tic_frame_size_at_1fs'', show_u (cf_tic_frame_size_at_1fs c), leaf (show_u (cf_tic_frame_size_at_1fs c))),
      (''max_tic_frame_size'', show_u (cf_max_tic_frame_size c), leaf (show_u (cf_max_tic_frame_size c))),
      (''sample_rate'', show_u (cf_sample_rate c), leaf (show_u (cf_sample_rate c))),
      (''rtp_mcast_base'', str_value (cf_rtp_mcast_base c), leaf (remove_undesired_chars (cf_rtp_mcast_base c))),
      (''rtp_mcast_base_sec'', str_value (cf_rtp_mcast_base_sec c), leaf (remove_undesired_chars (cf_rtp_mcast_base_sec c))),
      (''rtp_port'', show_u (cf_rtp_port c), leaf (show_u (cf_rtp_port c))),
      (''rtp_port_sec'', show_u (cf_rtp_port_sec c), leaf (show_u (cf_rtp_port_sec c))),
      (''ptp_domain'', show_u (cf_ptp_domain c), leaf (show_u (cf_ptp_domain c))),
      (''ptp_dscp'', show_u (cf_ptp_dscp c), leaf (show_u (cf_ptp_dscp c))),
      (''sap_mcast_addr'', str_value (cf_sap_mcast_addr c), leaf (remove_undesired_chars (cf_sap_mcast_addr c))),
      (''sap_interval'', show_u (cf_sap_interval c), leaf (show_u (cf_sap_interval c))),
      (''syslog_proto'', str_value (cf_syslog_proto c), leaf (remove_undesired_chars (cf_syslog_proto c))),
      (''syslog_server'', str_value (cf_syslog_server c), leaf (remove_undesired_chars (cf_syslog_server c))),
      (''status_file'', str_value (cf_status_file c), leaf (remove_undesired_chars (cf_status_file c))),
      (''interface_name'', str_value (cf_interface_name c), leaf (remove_undesired_chars (cf_interface_name c))),
      (''mdns_enabled'', show_bool (get_mdns_enabled b c), leaf (show_bool (get_mdns_enabled b c))),
      (''custom_node_id'', str_value (cf_custom_node_id c), leaf (remove_undesired_chars (cf_custom_node_id c))),
      (''node_id'', str_value (get_node_id c), leaf (remove_undesired_chars (get_node_id c))),
      (''ptp_status_script'', str_value (cf_ptp_status_script c), leaf (remove_undesired_chars (cf_ptp_status_script c))),
      (''lldp_update_script'', str_value (cf_lldp_update_script c), leaf (remove_undesired_chars (cf_lldp_update_script c))),
      (''mac_addr'', str_value (cf_mac_str c), leaf (remove_undesired_chars (cf_mac_str c))),
      (''ip_addr'', str_value (cf_ip_str c), leaf (remove_undesired_chars (cf_ip_str c))),
      (''streamer_channels'', show_u (cf_streamer_channels c), leaf (show_u (cf_streamer_channels c))),
      (''alsa_channels'', show_u (cf_alsa_channels c), leaf (show_u (cf_alsa_channels c))),
      (''streamer_files_num'', show_u (cf_streamer_files_num c), leaf (show_u (cf_streamer_files_num c))),
      (''streamer_file_duration'', show_u (cf_streamer_file_duration c), leaf (show_u (cf_streamer_file_duration c))),
      (''streamer_player_buffer_files_num'', show_u (cf_streamer_player_buffer_files_num c), leaf (show_u (cf_streamer_player_buffer_files_num c))),
      (''streamer_enabled'', show_bool (get_streamer_enabled b c), leaf (show_bool (get_streamer_enabled b c))),
      (''auto_sinks_update'', show_bool (cf_auto_sinks_update c), leaf (show_bool (cf_auto_sinks_update c))),
      (''nmos_enabled'', show_bool (cf_nmos_enabled c), leaf (show_bool (cf_nmos_enabled c))),
      (''nmos_registry_address'', str_value (cf_nmos_registry_address c), leaf (remove_undesired_chars (cf_nmos_registry_address c))),
      (''nmos_registry_port'', show_u (cf_nmos_registry_port c), leaf (show_u (cf_nmos_registry_port c))),
      (''nmos_registry_query_port'', show_u (cf_nmos_registry_query_port c), leaf (show_u (cf_nmos_registry_query_port c))),
      (''nmos_control_interface'', str_value (cf_nmos_control_interface c), leaf (remove_undesired_chars (cf_nmos_control_interface c))),
      (''nmos_node_port'', show_u (cf_nmos_node_port c), leaf (show_u (cf_nmos_node_port c))),
      (''nmos_label'', str_value (cf_nmos_label c), leaf (remove_undesired_chars (cf_nmos_label c))),
      (''nmos_registry_autodiscovery'', show_bool (cf_nmos_registry_auto_discover c), leaf (show_bool (cf_nmos_registry_auto_discover c))),
      (''nmos_mdns_enabled'', show_bool (cf_nmos_mdns_enabled c), leaf (show_bool (cf_nmos_mdns_enabled c))),
      (''is12_enabled'', show_bool (cf_is12_enabled c), leaf (show_bool (cf_is12_enabled c))),
      (''is08_enabled'', show_bool (cf_is08_enabled c), leaf (show_bool (cf_is08_enabled c)))]"
  have "list_all (\<lambda>(k, v, t). plain k \<and> reads v t) ?ms"
    using reads_plain[OF assms] by (simp add: reads_u reads_int reads_bool reads_str_value)
  from reads_object[OF this, of "[]" "nl ''  ''" "nl []"]
  have "reads (json_object [] (map (\<lambda>(k, v). member (nl ''  '') k v) (config_members b c)) (nl [])) (config_tree b c)"
    by (simp add: config_members_def config_tree_def)
  from json_read_text[OF this, of "nl []"] show ?thesis by (simp add: config_to_json_def)
qed

lemma config_entry_keys:
  "config_entry lib ''http_port'' v c = set_from (pl_int lib) (\<lambda>x c. c\<lparr>cf_http_port := word_of_int x\<rparr>) v c"
  "config_entry lib ''rtsp_port'' v c = set_from (pl_int lib) (\<lambda>x c. c\<lparr>cf_rtsp_port := word_of_int x\<rparr>) v c"
  "config_entry lib ''http_base_dir'' v c = set_from Some (\<lambda>x c. c\<lparr>cf_http_base_dir := remove_undesired_chars x\<rparr>) v c"
  "config_entry lib ''streamer_channels'' v c = set_from (pl_u8 lib) (\<lambda>x c. c\<lparr>cf_streamer_channels := x\<rparr>) v c"
  "config_entry lib ''alsa_channels'' v c = set_from (pl_u8 lib) (\<lambda>x c. c\<lparr>cf_alsa_channels := x\<rparr>) v c"
  "config_entry lib ''streamer_files_num'' v c = set_from (pl_u8 lib) (\<lambda>x c. c\<lparr>cf_streamer_files_num := x\<rparr>) v c"
  "config_entry lib ''streamer_file_duration'' v c = set_from (pl_u16 lib) (\<lambda>x c. c\<lparr>cf_streamer_file_duration := x\<rparr>) v c"
  "config_entry lib ''streamer_player_buffer_files_num'' v c = set_from (pl_u8 lib) (\<lambda>x c. c\<lparr>cf_streamer_player_buffer_files_num := x\<rparr>) v c"
  "config_entry lib ''streamer_enabled'' v c = set_from (pl_bool lib) (\<lambda>x c. c\<lparr>cf_streamer_enabled := x\<rparr>) v c"
  "config_entry lib ''log_severity'' v c = set_from (pl_int lib) (\<lambda>x c. c\<lparr>cf_log_severity := x\<rparr>) v c"
  "config_entry lib ''interface_name'' v c = set_from Some (\<lambda>x c. c\<lparr>cf_interface_name := remove_undesired_chars x\<rparr>) v c"
  "config_entry lib ''playout_delay'' v c = set_from (pl_u32 lib) (\<lambda>x c. c\<lparr>cf_playout_delay := x\<rparr>) v c"
  "config_entry lib ''tic_frame_size_at_1fs'' v c = set_from (pl_u32 lib) (\<lambda>x c. c\<lparr>cf_tic_frame_size_at_1fs := x\<rparr>) v c"
  "config_entry lib ''max_tic_frame_size'' v c = set_from (pl_u32 lib) (\<lambda>x c. c\<lparr>cf_max_tic_frame_size := x\<rparr>) v c"
  "config_entry lib ''sample_rate'' v c = set_from (pl_u32 lib) (\<lambda>x c. c\<lparr>cf_sample_rate := x\<rparr>) v c"
  "config_entry lib ''rtp_mcast_base'' v c = set_from Some (\<lambda>x c. c\<lparr>cf_rtp_mcast_base := remove_undesired_chars x\<rparr>) v c"
  "config_entry lib ''rtp_mcast_base_sec'' v c = set_from Some (\<lambda>x c. c\<lparr>cf_rtp_mcast_base_sec := remove_undesired_chars x\<rparr>) v c"
  "config_entry lib ''rtp_port'' v c = set_from (pl_u16 lib) (\<lambda>x c. c\<lparr>cf_rtp_port := x\<rparr>) v c"
  "config_entry lib ''rtp_port_sec'' v c = set_from (pl_u16 lib) (\<lambda>x c. c\<lparr>cf_rtp_port_sec := x\<rparr>) v c"
  "config_entry lib ''ptp_domain'' v c = set_from (pl_u8 lib) (\<lambda>x c. c\<lparr>cf_ptp_domain := x\<rparr>) v c"
  "config_entry lib ''ptp_dscp'' v c = set_from (pl_u8 lib) (\<lambda>x c. c\<lparr>cf_ptp_dscp := x\<rparr>) v c"
  "config_entry lib ''sap_mcast_addr'' v c = set_from Some (\<lambda>x c. c\<lparr>cf_sap_mcast_addr := remove_undesired_chars x\<rparr>) v c"
  "config_entry lib ''sap_interval'' v c = set_from (pl_u16 lib) (\<lambda>x c. c\<lparr>cf_sap_interval := x\<rparr>) v c"
  "config_entry lib ''mdns_enabled'' v c = set_from (pl_bool lib) (\<lambda>x c. c\<lparr>cf_mdns_enabled := x\<rparr>) v c"
  "config_entry lib ''status_file'' v c = set_from Some (\<lambda>x c. c\<lparr>cf_status_file := remove_undesired_chars x\<rparr>) v c"
  "config_entry lib ''syslog_proto'' v c = set_from Some (\<lambda>x c. c\<lparr>cf_syslog_proto := remove_undesired_chars x\<rparr>) v c"
  "config_entry lib ''syslog_server'' v c = set_from Some (\<lambda>x c. c\<lparr>cf_syslog_server := remove_undesired_chars x\<rparr>) v c"
  "config_entry lib ''ptp_status_script'' v c = set_from Some (\<lambda>x c. c\<lparr>cf_ptp_status_script := remove_undesired_chars x\<rparr>) v c"
  "config_entry lib ''lldp_update_script'' v c = set_from Some (\<lambda>x c. c\<lparr>cf_lldp_update_script := remove_undesired_chars x\<rparr>) v c"
  "config_entry lib ''custom_node_id'' v c = set_from Some (\<lambda>x c. c\<lparr>cf_custom_node_id := remove_undesired_chars x\<rparr>) v c"
  "config_entry lib ''auto_sinks_update'' v c = set_from (pl_bool lib) (\<lambda>x c. c\<lparr>cf_auto_sinks_update := x\<rparr>) v c"
  "config_entry lib ''nmos_enabled'' v c = set_from (pl_bool lib) (\<lambda>x c. c\<lparr>cf_nmos_enabled := x\<rparr>) v c"
  "config_entry lib ''nmos_registry_address'' v c = set_from Some (\<lambda>x c. c\<lparr>cf_nmos_registry_address := remove_undesired_chars x\<rparr>) v c"
  "config_entry lib ''nmos_registry_port'' v c = set_from (pl_u16 lib) (\<lambda>x c. c\<lparr>cf_nmos_registry_port := x\<rparr>) v c"
  "config_entry lib ''nmos_registry_query_port'' v c = set_from (pl_u16 lib) (\<lambda>x c. c\<lparr>cf_nmos_registry_query_port := x\<rparr>) v c"
  "config_entry lib ''nmos_control_interface'' v c = set_from Some (\<lambda>x c. c\<lparr>cf_nmos_control_interface := remove_undesired_chars x\<rparr>) v c"
  "config_entry lib ''nmos_node_port'' v c = set_from (pl_u16 lib) (\<lambda>x c. c\<lparr>cf_nmos_node_port := x\<rparr>) v c"
  "config_entry lib ''nmos_label'' v c = set_from Some (\<lambda>x c. c\<lparr>cf_nmos_label := remove_undesired_chars x\<rparr>) v c"
  "config_entry lib ''nmos_registry_autodiscovery'' v c = set_from (pl_bool lib) (\<lambda>x c. c\<lparr>cf_nmos_registry_auto_discover := x\<rparr>) v c"
  "config_entry lib ''nmos_mdns_enabled'' v c = set_from (pl_bool lib) (\<lambda>x c. c\<lparr>cf_nmos_mdns_enabled := x\<rparr>) v c"
  "config_entry lib ''is12_enabled'' v c = set_from (pl_bool lib) (\<lambda>x c. c\<lparr>cf_is12_enabled := x\<rparr>) v c"
  "config_entry lib ''is08_enabled'' v c = set_from (pl_bool lib) (\<lambda>x c. c\<lparr>cf_is08_enabled := x\<rparr>) v c"
  "config_entry lib ''ip_addr'' v c = set_from Some (\<lambda>x c. c\<lparr>cf_ip_str := x\<rparr>) v c"
  "config_entry lib ''mac_addr'' v c = Inr c" "config_entry lib ''node_id'' v c = Inr c"
  by (simp_all add: config_entry_def)

lemma set_from_leaf:
  "set_from Some upd (leaf s) c = Inr (upd s c)"
  "reads_json lib \<Longrightarrow> set_from (pl_u8 lib) upd8 (leaf (show_u x8)) c = Inr (upd8 x8 c)"
  "reads_json lib \<Longrightarrow> set_from (pl_u16 lib) upd16 (leaf (show_u x16)) c = Inr (upd16 x16 c)"
  "reads_json lib \<Longrightarrow> set_from (pl_u32 lib) upd32 (leaf (show_u x32)) c = Inr (upd32 x32 c)"
  "reads_json lib \<Longrightarrow> set_from (pl_bool lib) updb (leaf (show_bool b)) c = Inr (updb b c)"
  by (simp_all add: set_from_def get_value_def reads_json_def)

lemma set_from_int:
  assumes "reads_json lib"
  shows "- (2 ^ 31) \<le> i \<Longrightarrow> i < 2 ^ 31 \<Longrightarrow> set_from (pl_int lib) upd (leaf (show_int i)) c = Inr (upd i c)"
    and "set_from (pl_int lib) upd (leaf (show_u (p :: u16))) c = Inr (upd (int (unat p)) c)"
proof -
  show a: "set_from (pl_int lib) upd (leaf (show_int i)) c = Inr (upd i c)" if "- (2 ^ 31) \<le> i" "i < 2 ^ 31" for i
    using assms that by (simp add: set_from_def get_value_def reads_json_def)
  have s: "show_u p = show_int (int (unat p))" by (simp add: show_u_def show_int_def)
  have n: "- (2 ^ 31) \<le> int n \<and> int n < 2 ^ 31" if "n < 65536" for n :: nat
    using that by auto
  have "unat p < 65536" using unsigned_less[of p] by simp
  from n[OF this] show "set_from (pl_int lib) upd (leaf (show_u p)) c = Inr (upd (int (unat p)) c)"
    unfolding s by (intro a) blast+
qed

lemma config_text:
  assumes "reads_json lib" and "plain (cf_http_base_dir c)"
    and "- (2 ^ 31) \<le> cf_log_severity c" "cf_log_severity c < 2 ^ 31"
  shows "json_to_config lib (config_to_json b c) cur = Inr (config_written b c cur)"
proof -
  have r: "pl_read lib (config_to_json b c) = Inr (config_tree b c)"
    using assms(1) json_read_config[OF assms(2)] by (simp add: reads_json_def)
  have "config_entries lib (tree_kids (config_tree b c)) cur = Inr (config_written b c cur)"
    by (simp add: config_tree_def config_entry_keys set_from_leaf(1) set_from_leaf(2-)[OF assms(1)]
        set_from_int(1)[OF assms(1,3,4)] set_from_int(2)[OF assms(1)] config_written_def)
  with r show ?thesis by (simp add: json_to_config_def read_tree_def)
qed

text \<open>C27: The configuration file that is written is read back into any configuration as the
  written values, texts filtered: all settings but the HTTP address (which the file does not
  have), and the interface list, MAC address, index and restart flags that are found again at the
  start. The directory of the web pages is the one text written as it is.\<close>

theorem config_roundtrip:
  assumes "reads_json lib" and "plain (cf_http_base_dir c)"
    and "- (2 ^ 31) \<le> cf_log_severity c" "cf_log_severity c < 2 ^ 31"
  shows "json_to_config lib (config_to_json b c) cur = Inr (config_written b c cur)"
  using assms by (rule config_text)

theorem config_roundtrip_witness:
  "json_to_config sample_lib (config_to_json \<lparr>b_streamer = True, b_avahi = True\<rparr> config_default) config_default
     = Inr (config_written \<lparr>b_streamer = True, b_avahi = True\<rparr> config_default config_default)"
  by (rule config_roundtrip[OF sample_lib_reads]) (simp_all add: config_default_def)

end
