(* ===== verification/Http.thy ===== *)
theory Http
  imports Json_Props
begin

text \<open>
  \<open>daemon/http_server.cpp\<close>: the handlers of the HTTP interface over the session manager, the
  browser, the configuration and the streamer.  Routing, threads and the socket are cpp-httplib;
  a request here is one already routed, with the texts its regular expression matched.  The
  files the handlers write are the map \<open>hp_files\<close>.  The driver's operations and the streamer's are
  parameters, as in \<open>Sessions\<close>; \<open>log_init\<close> only changes the log.
\<close>

subsection \<open>State, requests and responses\<close>

record 'd driver_ops =
  do_add :: "rtp_stream_info \<Rightarrow> 'd \<Rightarrow> error_code \<times> u64 \<times> 'd"
  do_remove :: "u64 \<Rightarrow> 'd \<Rightarrow> error_code \<times> 'd"
  do_status :: "u64 \<Rightarrow> 'd \<Rightarrow> error_code \<times> u32 \<times> int"
  do_set_rate :: "u32 \<Rightarrow> 'd \<Rightarrow> error_code \<times> 'd"
  do_set_tic :: "u64 \<Rightarrow> 'd \<Rightarrow> error_code \<times> 'd"
  do_set_max :: "u64 \<Rightarrow> 'd \<Rightarrow> error_code \<times> 'd"
  do_set_delay :: "u32 \<Rightarrow> 'd \<Rightarrow> error_code \<times> 'd"
  do_set_ptp :: "u8 \<Rightarrow> u8 \<Rightarrow> 'd \<Rightarrow> error_code \<times> 'd"

record 's streamer_ops =
  so_info :: "stream_sink \<Rightarrow> 's \<Rightarrow> error_code \<times> streamer_info"
  so_stream :: "stream_sink \<Rightarrow> u8 \<Rightarrow> 's \<Rightarrow> error_code \<times> u8 \<times> u8 \<times> u32 \<times> string"
  so_live_init :: "stream_sink \<Rightarrow> string \<Rightarrow> int \<Rightarrow> 's \<Rightarrow> error_code \<times> 's"

record ('d, 's) http_env =
  he_driver :: "'d driver_ops"
  he_streamer :: "'s streamer_ops"
  he_lib :: ptree_lib
  he_build :: build
  he_session :: "config \<Rightarrow> session_env"
  he_can_write :: "string \<Rightarrow> bool"
  he_age :: "remote_source \<Rightarrow> nat"
  he_version :: string
  he_new_info :: streamer_info

record ('d, 's) http =
  hp_session :: "'d session"
  hp_streamer :: 's
  hp_config :: config
  hp_browser :: browser
  hp_ptp :: ptp_status
  hp_files :: "string \<Rightarrow> string option"

datatype http_request =
    Get_version
  | Get_config
  | Post_config string
  | Get_ptp_status
  | Get_ptp_config
  | Post_ptp_config string
  | Get_sources
  | Get_sinks
  | Get_streams
  | Get_source_sdp string
  | Get_sink_status string
  | Get_source_status string
  | Put_source string string
  | Delete_source string
  | Put_sink string string
  | Delete_sink string
  | Get_remote string
  | Get_streamer_info string
  | Get_live string string int
  | Get_file string string

record response =
  hr_status :: int
  hr_type :: string
  hr_extra :: "(string \<times> string) list"
  hr_body :: string

text \<open>\<open>Escapes\<close>: an exception none of the handler's \<open>catch\<close> clauses takes; \<open>Live\<close>: the response
  goes on as a stream; \<open>Not_routed\<close>: this build does not register the request.\<close>

datatype http_result = Response response | Live response | Not_routed | Escapes | Undefined_result

definition ok_response :: "string \<Rightarrow> string \<Rightarrow> response" where
  "ok_response type body = \<lparr>hr_status = 200, hr_type = type, hr_extra = [], hr_body = body\<rparr>"

fun category_name :: "error_code \<Rightarrow> string" where
  "category_name (driver_err _) = ''driver''"
| "category_name (daemon_err _) = ''daemon''"
| "category_name no_error = ''system''"

fun error_message :: "error_code \<Rightarrow> string" where
  "error_message (driver_err e) = driver_message e"
| "error_message (daemon_err e) = daemon_message e"
| "error_message no_error = ''Success''"

definition get_http_error_status :: "error_code \<Rightarrow> int" where
  "get_http_error_status code =
     (if category_name code = ''daemon'' \<and> errc_val code < daemon_errc_val send_invalid_size then 400
      else if category_name code = ''driver'' \<and> errc_val code = driver_errc_val drv_command_failed then 400
      else 500)"

definition get_http_error_message :: "error_code \<Rightarrow> string" where
  "get_http_error_message code = ''('' @ category_name code @ '') '' @ error_message code"

definition error_response :: "error_code \<Rightarrow> string \<Rightarrow> response" where
  "error_response code msg =
     \<lparr>hr_status = get_http_error_status code, hr_type = ''text/plain'', hr_extra = [],
      hr_body = msg @ '' : '' @ get_http_error_message code\<rparr>"

definition status_response :: "int \<Rightarrow> string \<Rightarrow> response" where
  "status_response status msg = \<lparr>hr_status = status, hr_type = ''text/plain'', hr_extra = [], hr_body = msg\<rparr>"

subsection \<open>Configuration\<close>

definition set_driver ::
  "('d, 's) http_env \<Rightarrow> string \<Rightarrow> u32 \<Rightarrow> ('d, 's) http \<Rightarrow> error_code \<times> ('d, 's) http" where
  "set_driver he name v s =
     (let d = he_driver he;
          (ret, st) = set_driver_config (do_set_rate d) (do_set_tic d) (do_set_max d) (do_set_delay d)
                        name v (hp_session s)
      in (ret, s\<lparr>hp_session := st\<rparr>))"

definition set_ptp ::
  "('d, 's) http_env \<Rightarrow> u8 \<Rightarrow> u8 \<Rightarrow> ('d, 's) http \<Rightarrow> error_code \<times> ('d, 's) http" where
  "set_ptp he domain dscp s =
     (let (ret, st) = set_ptp_config (do_set_ptp (he_driver he)) domain dscp (hp_session s)
      in (ret, s\<lparr>hp_session := st\<rparr>))"

definition save_config :: "('d, 's) http_env \<Rightarrow> config \<Rightarrow> ('d, 's) http \<Rightarrow> bool \<times> ('d, 's) http" where
  "save_config he new s =
     (let file = cf_config_filename (hp_config s);
          (ok, c, written) = config_save (he_build he) (he_can_write he file) (hp_config s) new
      in (ok, s\<lparr>hp_config := c,
                 hp_files := (case written of
                    None \<Rightarrow> hp_files s
                  | Some w \<Rightarrow> (hp_files s)(file \<mapsto> config_to_json (he_build he) w))\<rparr>))"

text \<open>The settings applied at once: each one overwrites the result of the one before.\<close>

definition apply_config ::
  "('d, 's) http_env \<Rightarrow> config \<Rightarrow> ('d, 's) http \<Rightarrow> error_code \<times> ('d, 's) http" where
  "apply_config he new s =
     (let cur = hp_config s;
          (ret, s) = (if cf_playout_delay cur \<noteq> cf_playout_delay new
                      then set_driver he ''playout_delay'' (cf_playout_delay new) s else (no_error, s));
          (ret, s) = (if cf_sample_rate cur \<noteq> cf_sample_rate new
                      then set_driver he ''sample_rate'' (cf_sample_rate new) s else (ret, s));
          (ret, s) = (if cf_ptp_domain cur \<noteq> cf_ptp_domain new \<or> cf_ptp_dscp cur \<noteq> cf_ptp_dscp new
                      then set_ptp he (cf_ptp_domain new) (cf_ptp_dscp new) s else (ret, s))
      in (ret, s))"

text \<open>A \<open>std::runtime_error\<close> (those of \<open>json.cpp\<close> and of the property tree) is answered with 400.\<close>

definition exn_result :: "ptree_lib \<Rightarrow> json_exn \<Rightarrow> http_result" where
  "exn_result lib e =
     (case e of
        Invalid_argument \<Rightarrow> Escapes
      | Out_of_range \<Rightarrow> Escapes
      | Runtime_error m \<Rightarrow> Response (status_response 400 m)
      | e \<Rightarrow> Response (status_response 400 (pl_what lib e)))"

definition post_config ::
  "('d, 's) http_env \<Rightarrow> string \<Rightarrow> ('d, 's) http \<Rightarrow> http_result \<times> ('d, 's) http" where
  "post_config he body s =
     (case json_to_config (he_lib he) body (hp_config s) of
        Inl e \<Rightarrow> (exn_result (he_lib he) e, s)
      | Inr new \<Rightarrow>
          (let (ret, s) = apply_config he new s
           in if ret \<noteq> no_error then (Response (error_response ret ''failed to set config''), s)
              else (let (ok, s) = save_config he new s
                    in (Response (if ok then ok_response [] [] else status_response 500 ''failed to save config''), s))))"

definition post_ptp_config ::
  "('d, 's) http_env \<Rightarrow> string \<Rightarrow> ('d, 's) http \<Rightarrow> http_result \<times> ('d, 's) http" where
  "post_ptp_config he body s =
     (case json_to_ptp_config (he_lib he) body of
        Inl e \<Rightarrow> (exn_result (he_lib he) e, s)
      | Inr (domain, dscp) \<Rightarrow>
          (let (ret, s) = set_ptp he domain dscp s
           in if ret \<noteq> no_error then (Response (error_response ret ''failed to set ptp config''), s)
              else (let new = (hp_config s)\<lparr>cf_ptp_domain := domain, cf_ptp_dscp := dscp\<rparr>;
                        (ok, s) = save_config he new s
                    in (Response (if ok then ok_response [] [] else status_response 500 ''failed to save config''), s))))"

subsection \<open>Sources and sinks\<close>

text \<open>\<open>std::stoi\<close> of the id in the path; the failure is answered.\<close>

definition with_id :: "string \<Rightarrow> 'x \<Rightarrow> (int \<Rightarrow> http_result \<times> 'x) \<Rightarrow> http_result \<times> 'x" where
  "with_id ident s f =
     (case stoi ident of None \<Rightarrow> (Response (status_response 400 ''failed to convert id''), s) | Some i \<Rightarrow> f i)"

abbreviation show_id :: "u32 \<Rightarrow> string" where "show_id i \<equiv> show_nat (unat i)"

text \<open>\<open>save_status\<close>, whose result the handlers do not look at.\<close>

definition save_status :: "('d, 's) http_env \<Rightarrow> ('d, 's) http \<Rightarrow> bool \<times> ('d, 's) http" where
  "save_status he s =
     (let file = cf_status_file (hp_config s)
      in if file = [] then (True, s)
         else if \<not> he_can_write he file then (False, s)
         else (True, s\<lparr>hp_files := (hp_files s)(file \<mapsto>
                 streams_to_json (get_sources (he_session he (hp_config s)) (hp_session s))
                   (get_sinks (hp_session s)))\<rparr>))"

definition after_change ::
  "('d, 's) http_env \<Rightarrow> error_code \<Rightarrow> string \<Rightarrow> ('d, 's) http \<Rightarrow> http_result \<times> ('d, 's) http" where
  "after_change he ret msg s =
     (if ret \<noteq> no_error then (Response (error_response ret msg), s)
      else (Response (ok_response [] []), snd (save_status he s)))"

definition put_source ::
  "('d, 's) http_env \<Rightarrow> string \<Rightarrow> string \<Rightarrow> ('d, 's) http \<Rightarrow> http_result \<times> ('d, 's) http" where
  "put_source he ident body s =
     (case json_to_source (he_lib he) ident body of
        Inl e \<Rightarrow> (exn_result (he_lib he) e, s)
      | Inr source \<Rightarrow>
          (case add_source (do_add (he_driver he)) (do_remove (he_driver he)) (he_session he (hp_config s))
                  source (hp_session s) of
             (Returns ret, st) \<Rightarrow>
               after_change he ret (''failed to add source '' @ show_u (src_id source)) (s\<lparr>hp_session := st\<rparr>)
           | (Throws, st) \<Rightarrow> (Escapes, s\<lparr>hp_session := st\<rparr>)
           | (Undefined_behaviour, st) \<Rightarrow> (Undefined_result, s\<lparr>hp_session := st\<rparr>)))"

definition put_sink ::
  "('d, 's) http_env \<Rightarrow> string \<Rightarrow> string \<Rightarrow> ('d, 's) http \<Rightarrow> http_result \<times> ('d, 's) http" where
  "put_sink he ident body s =
     (case json_to_sink (he_lib he) ident body of
        Inl e \<Rightarrow> (exn_result (he_lib he) e, s)
      | Inr sink \<Rightarrow>
          (case add_sink (do_add (he_driver he)) (do_remove (he_driver he)) (he_session he (hp_config s))
                  sink (hp_session s) of
             (Returns ret, st) \<Rightarrow>
               after_change he ret (''failed to add sink '' @ show_u (snk_id sink)) (s\<lparr>hp_session := st\<rparr>)
           | (Throws, st) \<Rightarrow> (Escapes, s\<lparr>hp_session := st\<rparr>)
           | (Undefined_behaviour, st) \<Rightarrow> (Undefined_result, s\<lparr>hp_session := st\<rparr>)))"

definition delete_source ::
  "('d, 's) http_env \<Rightarrow> string \<Rightarrow> ('d, 's) http \<Rightarrow> http_result \<times> ('d, 's) http" where
  "delete_source he ident s =
     with_id ident s (\<lambda>n.
       let i = word_of_int n;
           (ret, st) = remove_source (do_remove (he_driver he)) (he_session he (hp_config s)) i (hp_session s)
       in after_change he ret (''failed to remove source '' @ show_id i) (s\<lparr>hp_session := st\<rparr>))"

definition delete_sink ::
  "('d, 's) http_env \<Rightarrow> string \<Rightarrow> ('d, 's) http \<Rightarrow> http_result \<times> ('d, 's) http" where
  "delete_sink he ident s =
     with_id ident s (\<lambda>n.
       let i = word_of_int n;
           (ret, st) = remove_sink (do_remove (he_driver he)) (he_session he (hp_config s)) i (hp_session s)
       in after_change he ret (''failed to remove sink '' @ show_id i) (s\<lparr>hp_session := st\<rparr>))"

subsection \<open>Queries\<close>

abbreviation json_response :: "string \<Rightarrow> http_result" where
  "json_response body \<equiv> Response (ok_response ''application/json'' body)"

definition get_sdp_result :: "('d, 's) http_env \<Rightarrow> ('d, 's) http \<Rightarrow> int \<Rightarrow> http_result" where
  "get_sdp_result he s n =
     (let i = word_of_int n :: u32
      in case get_source_sdp (he_session he (hp_config s)) i (hp_session s) of
           Inl ret \<Rightarrow> Response (error_response ret (''get source '' @ show_id i @ '' failed''))
         | Inr sdp \<Rightarrow> Response (ok_response ''application/sdp'' sdp))"

definition sink_status_result :: "('d, 's) http_env \<Rightarrow> ('d, 's) http \<Rightarrow> int \<Rightarrow> http_result" where
  "sink_status_result he s n =
     (let i = word_of_int n :: u32;
          (ret, status) = get_sink_status (do_status (he_driver he)) i (hp_session s)
      in if ret \<noteq> no_error
         then Response (error_response ret (''failed to get sink '' @ show_id i @ '' status''))
         else json_response (sink_status_to_json status))"

definition source_status_result :: "('d, 's) http_env \<Rightarrow> ('d, 's) http \<Rightarrow> int \<Rightarrow> http_result" where
  "source_status_result he s n =
     (let i = word_of_int n :: u32;
          (ret, status) = get_source_status (do_status (he_driver he)) i (hp_session s)
      in if ret \<noteq> no_error
         then Response (error_response ret (''failed to get source '' @ show_id i @ '' status''))
         else json_response (source_status_to_json status))"

subsection \<open>The streamer\<close>

text \<open>\<open>streamer_info_status\<close>: ok 0, PTP not locked 1, invalid channels 2, buffering 3, not enabled
  4, invalid sink 5, cannot retrieve 6. The codes of \<open>get_info\<close> are compared as numbers.\<close>

definition streamer_info_result :: "('d, 's) http_env \<Rightarrow> string \<Rightarrow> ('d, 's) http \<Rightarrow> http_result" where
  "streamer_info_result he ident s =
     (let info = he_new_info he;
          answer = (\<lambda>status info. json_response (streamer_info_to_json (info\<lparr>sti_status := status\<rparr>)))
      in if \<not> b_streamer (he_build he) then Not_routed
         else if \<not> get_streamer_enabled (he_build he) (hp_config s) then answer 4 info
         else (case stoi ident of
           None \<Rightarrow> answer 5 info
         | Some n \<Rightarrow>
             (case get_sink (word_of_int n) (hp_session s) of
                Inl _ \<Rightarrow> answer 6 info
              | Inr sink \<Rightarrow>
                  (let (ret, info) = so_info (he_streamer he) sink (hp_streamer s)
                   in answer (if errc_val ret = daemon_errc_val streamer_not_running then 1
                              else if errc_val ret = daemon_errc_val streamer_invalid_ch then 2
                              else if errc_val ret = daemon_errc_val streamer_retry_later then 3
                              else 0) info))))"

definition live_result ::
  "('d, 's) http_env \<Rightarrow> string \<Rightarrow> string \<Rightarrow> int \<Rightarrow> ('d, 's) http \<Rightarrow> http_result \<times> ('d, 's) http" where
  "live_result he ident addr port s =
     (if \<not> b_streamer (he_build he) then (Response (status_response 400 ''streamer support not compiled-in''), s)
      else if \<not> get_streamer_enabled (he_build he) (hp_config s)
      then (Response (status_response 400 ''streamer not enabled''), s)
      else with_id ident s (\<lambda>n.
        let sink_id = word_of_int n :: u8
        in case get_sink sink_id (hp_session s) of
             Inl ret \<Rightarrow> (Response (error_response ret (''failed to retrieve sink '' @ show_u sink_id)), s)
           | Inr sink \<Rightarrow>
               (let (ret, st) = so_live_init (he_streamer he) sink addr port (hp_streamer s);
                    s = s\<lparr>hp_streamer := st\<rparr>
                in if ret \<noteq> no_error
                   then (Response (error_response ret (''failed to init streamer '' @ show_u sink_id)), s)
                   else (Live (ok_response ''audio/aac'' []), s))))"

definition file_result ::
  "('d, 's) http_env \<Rightarrow> string \<Rightarrow> string \<Rightarrow> ('d, 's) http \<Rightarrow> http_result" where
  "file_result he ident fident s =
     (if \<not> b_streamer (he_build he) then Response (status_response 400 ''streamer support not compiled-in'')
      else if \<not> get_streamer_enabled (he_build he) (hp_config s)
      then Response (status_response 400 ''streamer not enabled'')
      else (case (stoi ident, stoi fident) of
        (Some n, Some f) \<Rightarrow>
          (let sink_id = word_of_int n :: u8
           in case get_sink sink_id (hp_session s) of
                Inl ret \<Rightarrow> Response (error_response ret (''failed to retrieve sink '' @ show_u sink_id))
              | Inr sink \<Rightarrow>
                  (let (ret, cur, start, count, out) =
                         so_stream (he_streamer he) sink (word_of_int f) (hp_streamer s)
                   in if ret \<noteq> no_error
                      then Response (error_response ret (''failed to fetch stream '' @ show_u sink_id))
                      else Response (ok_response ''audio/aac'' out\<lparr>hr_extra :=
                             [(''X-File-Count'', show_u count), (''X-File-Current-Id'', show_u cur),
                              (''X-File-Start-Id'', show_u start)]\<rparr>)))
      | _ \<Rightarrow> Response (status_response 400 ''failed to convert id'')))"

subsection \<open>The server\<close>

fun handle :: "('d, 's) http_env \<Rightarrow> http_request \<Rightarrow> ('d, 's) http \<Rightarrow> http_result \<times> ('d, 's) http" where
  "handle he Get_version s = (json_response (''{ '' @ quoted ''version'' @ '': '' @ quoted (he_version he) @ '' }''), s)"
| "handle he Get_config s = (json_response (config_to_json (he_build he) (hp_config s)), s)"
| "handle he (Post_config body) s = post_config he body s"
| "handle he Get_ptp_status s = (json_response (ptp_status_to_json (hp_ptp s)), s)"
| "handle he Get_ptp_config s =
     (json_response (ptp_config_to_json (ss_ptp_domain (hp_session s)) (ss_ptp_dscp (hp_session s))), s)"
| "handle he (Post_ptp_config body) s = post_ptp_config he body s"
| "handle he Get_sources s =
     (json_response (sources_to_json (get_sources (he_session he (hp_config s)) (hp_session s))), s)"
| "handle he Get_sinks s = (json_response (sinks_to_json (get_sinks (hp_session s))), s)"
| "handle he Get_streams s =
     (json_response (streams_to_json (get_sources (he_session he (hp_config s)) (hp_session s))
        (get_sinks (hp_session s))), s)"
| "handle he (Get_source_sdp i) s = with_id i s (\<lambda>n. (get_sdp_result he s n, s))"
| "handle he (Get_sink_status i) s = with_id i s (\<lambda>n. (sink_status_result he s n, s))"
| "handle he (Get_source_status i) s = with_id i s (\<lambda>n. (source_status_result he s n, s))"
| "handle he (Put_source i body) s = put_source he i body s"
| "handle he (Delete_source i) s = delete_source he i s"
| "handle he (Put_sink i body) s = put_sink he i body s"
| "handle he (Delete_sink i) s = delete_sink he i s"
| "handle he (Get_remote what) s =
     (json_response (remote_sources_to_json (he_age he) (get_remote_sources what (hp_browser s))), s)"
| "handle he (Get_streamer_info i) s = (streamer_info_result he i s, s)"
| "handle he (Get_live i addr port) s = live_result he i addr port s"
| "handle he (Get_file i f) s = (file_result he i f s, s)"

subsection \<open>Properties\<close>

text \<open>A result that is an answer of status 200, 400 or 500; only the first may have changed the
  configuration or a file.\<close>

definition proper :: "('d, 's) http \<Rightarrow> http_result \<times> ('d, 's) http \<Rightarrow> bool" where
  "proper s x \<longleftrightarrow>
     (\<forall>r. fst x = Response r \<longrightarrow>
        hr_status r = 200 \<or>
        (hr_status r = 400 \<or> hr_status r = 500) \<and> hr_type r = ''text/plain'' \<and>
        hp_config (snd x) = hp_config s \<and> hp_files (snd x) = hp_files s)"

lemma error_status: "get_http_error_status e = 400 \<or> get_http_error_status e = 500"
  by (simp add: get_http_error_status_def)

lemma proper_simps [simp]:
  "proper s (Response (ok_response t b), s')" "proper s (Response (ok_response t b\<lparr>hr_extra := x\<rparr>), s')"
  "proper s (Live r, s')" "proper s (Escapes, s')" "proper s (Undefined_result, s')" "proper s (Not_routed, s')"
  "proper s (Response (error_response e m), s') \<longleftrightarrow> hp_config s' = hp_config s \<and> hp_files s' = hp_files s"
  "proper s (Response (status_response n m), s') \<longleftrightarrow> n = 200 \<or>
     (n = 400 \<or> n = 500) \<and> hp_config s' = hp_config s \<and> hp_files s' = hp_files s"
  using error_status[of e]
  by (auto simp: proper_def ok_response_def error_response_def status_response_def)

lemma proper_exn [simp]: "hp_config s' = hp_config s \<Longrightarrow> hp_files s' = hp_files s \<Longrightarrow> proper s (exn_result lib e, s')"
  by (cases e) (simp_all add: exn_result_def)

lemma proper_with_id: "(\<And>n. proper s (f n)) \<Longrightarrow> proper s (with_id i s f)"
  by (simp add: with_id_def split: option.split)

lemma proper_after_change:
  "hp_config s' = hp_config s \<Longrightarrow> hp_files s' = hp_files s \<Longrightarrow> proper s (after_change he ret m s')"
  by (simp add: after_change_def)

lemma set_keeps:
  "set_driver he name v s = (ret, s') \<Longrightarrow> hp_config s' = hp_config s \<and> hp_files s' = hp_files s"
  "set_ptp he d p s = (ret, s') \<Longrightarrow> hp_config s' = hp_config s \<and> hp_files s' = hp_files s"
  by (auto simp: set_driver_def set_ptp_def Let_def split: prod.splits)

lemma apply_keeps:
  "apply_config he new s = (ret, s') \<Longrightarrow> hp_config s' = hp_config s \<and> hp_files s' = hp_files s"
  unfolding apply_config_def Let_def
  by (auto split: prod.splits if_splits dest!: set_keeps)

lemma save_fails_keeps:
  "save_config he new s = (False, s') \<Longrightarrow> hp_config s' = hp_config s \<and> hp_files s' = hp_files s"
  by (auto simp: save_config_def config_save_def Let_def split: if_splits)

lemma proper_post_config: "proper s (post_config he body s)"
proof (cases "json_to_config (he_lib he) body (hp_config s)")
  case (Inr new)
  obtain ret s1 where a: "apply_config he new s = (ret, s1)" by fastforce
  obtain ok s2 where b: "save_config he new s1 = (ok, s2)" by fastforce
  show ?thesis
    using apply_keeps[OF a] save_fails_keeps[of he new s1 s2] b
    by (cases ok) (simp_all add: post_config_def Inr a b)
qed (simp add: post_config_def)

lemma proper_post_ptp_config: "proper s (post_ptp_config he body s)"
proof (cases "json_to_ptp_config (he_lib he) body")
  case (Inr x)
  obtain d p where x: "x = (d, p)" by fastforce
  obtain ret s1 where a: "set_ptp he d p s = (ret, s1)" by fastforce
  obtain ok s2 where b: "save_config he ((hp_config s1)\<lparr>cf_ptp_domain := d, cf_ptp_dscp := p\<rparr>) s1 = (ok, s2)" by fastforce
  show ?thesis
    using set_keeps(2)[OF a] save_fails_keeps[OF b[THEN trans]] b
    by (cases ok) (auto simp: post_ptp_config_def Inr x a b dest: save_fails_keeps)
qed (simp add: post_ptp_config_def)


text \<open>A server over the fake driver with the sample source of \<open>Session_Props\<close>; the playout delay
  setter is a parameter, so that a witness can let it fail.\<close>

definition sample_http_env :: "(u32 \<Rightarrow> fake_driver \<Rightarrow> error_code \<times> fake_driver) \<Rightarrow> (fake_driver, unit) http_env" where
  "sample_http_env set_delay = \<lparr>
     he_driver = \<lparr>do_add = fake_add_rtp_stream, do_remove = fake_remove_rtp_stream,
       do_status = fake_get_rtp_stream_status, do_set_rate = fake_set_sample_rate,
       do_set_tic = fake_set_tic_frame_size_at_1fs, do_set_max = fake_set_max_tic_frame_size,
       do_set_delay = set_delay, do_set_ptp = (\<lambda>_ _ d. (no_error, d))\<rparr>,
     he_streamer = \<lparr>so_info = (\<lambda>_ _. (daemon_err streamer_not_running, streamer_info.make 0 0 0 0 0 0 0 0 [])),
       so_stream = (\<lambda>_ _ _. (daemon_err streamer_not_running, 0, 0, 0, [])),
       so_live_init = (\<lambda>_ _ _ st. (daemon_err streamer_not_running, st))\<rparr>,
     he_lib = sample_lib, he_build = \<lparr>b_streamer = True, b_avahi = True\<rparr>,
     he_session = (\<lambda>_. sample_senv), he_can_write = (\<lambda>_. True), he_age = (\<lambda>_. 0),
     he_version = ''bondagit-2.1'', he_new_info = streamer_info.make 0 0 0 0 0 0 0 0 []\<rparr>"

definition sample_http :: "(fake_driver, unit) http" where
  "sample_http = \<lparr>hp_session = sample_state, hp_streamer = (),
     hp_config = config_default\<lparr>cf_config_filename := ''daemon.conf''\<rparr>,
     hp_browser = \<lparr>br_sources = [], br_last_update = 0\<rparr>, hp_ptp = wk_ptp sample_worker, hp_files = Map.empty\<rparr>"


subsubsection \<open>The status file\<close>

definition changes_streams :: "http_request \<Rightarrow> bool" where
  "changes_streams req =
     (case req of Put_source _ _ \<Rightarrow> True | Delete_source _ \<Rightarrow> True | Put_sink _ _ \<Rightarrow> True
      | Delete_sink _ \<Rightarrow> True | _ \<Rightarrow> False)"

definition status_written :: "('d, 's) http_env \<Rightarrow> ('d, 's) http \<Rightarrow> http_result \<times> ('d, 's) http \<Rightarrow> bool" where
  "status_written he s x \<longleftrightarrow> hp_config (snd x) = hp_config s \<and>
     (\<forall>r. fst x = Response r \<longrightarrow> hr_status r = 200 \<longrightarrow>
       hp_files (snd x) (cf_status_file (hp_config s)) =
         Some (streams_to_json (get_sources (he_session he (hp_config s)) (hp_session (snd x)))
                (get_sinks (hp_session (snd x)))))"

lemma status_written_error [simp]:
  "status_written he s (Response (error_response e m), s') \<longleftrightarrow> hp_config s' = hp_config s"
  "status_written he s (Escapes, s') \<longleftrightarrow> hp_config s' = hp_config s"
  "status_written he s (Undefined_result, s') \<longleftrightarrow> hp_config s' = hp_config s"
  "status_written he s (exn_result lib x, s') \<longleftrightarrow> hp_config s' = hp_config s"
  using error_status[of e]
  by (cases x; auto simp: status_written_def error_response_def exn_result_def status_response_def)+

lemma status_written_after_change:
  assumes "cf_status_file (hp_config s) \<noteq> []" "he_can_write he (cf_status_file (hp_config s))"
    "hp_config s' = hp_config s"
  shows "status_written he s (after_change he ret m s')"
  using assms by (simp add: after_change_def) (simp add: status_written_def save_status_def Let_def)

lemma status_written_handle:
  assumes "changes_streams req" "cf_status_file (hp_config s) \<noteq> []" "he_can_write he (cf_status_file (hp_config s))"
  shows "status_written he s (handle he req s)"
proof -
  note w = status_written_after_change[OF assms(2,3)]
  have i: "status_written he s (with_id i s f)" if "\<And>n. status_written he s (f n)" for i f
    using that by (simp add: with_id_def split: option.split)
      (simp add: status_written_def status_response_def)
  show ?thesis
    using assms(1)
    by (cases req)
       (auto simp: changes_streams_def put_source_def put_sink_def delete_source_def delete_sink_def Let_def
         intro!: w i split: sum.split prod.split outcome.split)
qed


subsubsection \<open>Settings\<close>

lemma set_driver_simps:
  "set_driver he ''playout_delay'' v s = map_prod id (\<lambda>d. s\<lparr>hp_session := (hp_session s)\<lparr>ss_driver := d\<rparr>\<rparr>)
     (do_set_delay (he_driver he) v (ss_driver (hp_session s)))"
  "set_driver he ''sample_rate'' v s = map_prod id (\<lambda>d. s\<lparr>hp_session := (hp_session s)\<lparr>ss_driver := d\<rparr>\<rparr>)
     (do_set_rate (he_driver he) v (ss_driver (hp_session s)))"
  by (simp_all add: set_driver_def set_driver_config_def Let_def map_prod_def split_beta)

text \<open>When a new configuration changes the playout delay and the sample rate, and the driver refuses
  the delay but takes the rate, the answer is success and the refused delay is saved.\<close>

theorem refused_delay_saved:
  assumes "json_to_config (he_lib he) body (hp_config s) = Inr new"
    and "cf_playout_delay (hp_config s) \<noteq> cf_playout_delay new"
    and "cf_sample_rate (hp_config s) \<noteq> cf_sample_rate new"
    and "cf_ptp_domain (hp_config s) = cf_ptp_domain new" "cf_ptp_dscp (hp_config s) = cf_ptp_dscp new"
    and "do_set_delay (he_driver he) (cf_playout_delay new) (ss_driver (hp_session s)) = (driver_err e, d1)"
    and "do_set_rate (he_driver he) (cf_sample_rate new) d1 = (no_error, d2)"
    and "he_can_write he (cf_config_filename (hp_config s))"
  shows "\<exists>s'. handle he (Post_config body) s = (Response (ok_response [] []), s') \<and>
    cf_playout_delay (hp_config s') = cf_playout_delay new \<and>
    hp_files s' (cf_config_filename (hp_config s)) = Some (config_to_json (he_build he) new)"
proof -
  have "config_neq (he_build he) (hp_config s) new"
    using assms(3) by (simp add: config_neq_def)
  moreover have "apply_config he new s = (no_error, s\<lparr>hp_session := (hp_session s)\<lparr>ss_driver := d2\<rparr>\<rparr>)"
    using assms(2-7) by (simp add: apply_config_def set_driver_simps Let_def)
  ultimately show ?thesis
    using assms(1,8) by (simp add: post_config_def save_config_def config_save_def Let_def)
qed

lemma filtered_sample: "filtered_source sample_source = sample_source"
proof -
  have "remove_undesired_chars (dotted 0xEF010005) = dotted 0xEF010005"
    "remove_undesired_chars (dotted 0xEF020006) = dotted 0xEF020006"
    using dotted_chars by (auto simp: remove_undesired_chars_def filter_id_conv desired_def is_digit_def Let_def)
  moreover have "remove_undesired_chars ''src'' = ''src''" "remove_undesired_chars ''Audio Device'' = ''Audio Device''"
    "remove_undesired_chars ''L24'' = ''L24''" by code_simp+
  ultimately show ?thesis by (simp add: filtered_source_def sample_source_def)
qed


theorem refused_delay_saved_witness:
  "\<exists>s'. fst (handle (sample_http_env (\<lambda>_ d. (driver_err drv_command_failed, d)))
       (Post_config (config_to_json \<lparr>b_streamer = True, b_avahi = True\<rparr>
          (config_default\<lparr>cf_playout_delay := 480, cf_sample_rate := 96000\<rparr>))) sample_http) =
       Response (ok_response [] []) \<and> cf_playout_delay (hp_config s') = 480 \<and>
     s' = snd (handle (sample_http_env (\<lambda>_ d. (driver_err drv_command_failed, d)))
       (Post_config (config_to_json \<lparr>b_streamer = True, b_avahi = True\<rparr>
          (config_default\<lparr>cf_playout_delay := 480, cf_sample_rate := 96000\<rparr>))) sample_http)"
proof -
  let ?b = "\<lparr>b_streamer = True, b_avahi = True\<rparr>"
  let ?c = "config_default\<lparr>cf_playout_delay := 480, cf_sample_rate := 96000\<rparr>"
  let ?he = "sample_http_env (\<lambda>_ d. (driver_err drv_command_failed, d))"
  have j: "json_to_config (he_lib ?he) (config_to_json ?b ?c) (hp_config sample_http) =
      Inr (config_written ?b ?c (hp_config sample_http))"
    using config_text[OF sample_lib_reads, of ?c ?b] by (simp add: sample_http_env_def config_default_def)
  have "\<exists>s'. handle ?he (Post_config (config_to_json ?b ?c)) sample_http = (Response (ok_response [] []), s') \<and>
    cf_playout_delay (hp_config s') = cf_playout_delay (config_written ?b ?c (hp_config sample_http)) \<and>
    hp_files s' (cf_config_filename (hp_config sample_http)) =
      Some (config_to_json (he_build ?he) (config_written ?b ?c (hp_config sample_http)))"
    by (rule refused_delay_saved[OF j])
       (simp_all add: config_written_def sample_http_env_def sample_http_def config_default_def fake_set_sample_rate_def)
  then show ?thesis by (auto simp: config_written_def)
qed

end
