(* ===== verification/Netlink.thy ===== *)
theory Netlink
  imports Driver Announce Config
begin

unbundle bit_operations_syntax

text \<open>
  \<open>daemon/driver_handler.cpp\<close> and \<open>daemon/driver_manager.cpp\<close>: the commands sent to the kernel
  module over netlink, their replies, and the events it sends.  The kernel module, its message
  structures and their sizes are not in this repository: the kernel is a parameter that answers
  each command, and the layouts of the structures are the parameters of \<open>nl_layout\<close>.  The
  numbers in the messages are little endian, as on the machines the daemon runs on.
\<close>

datatype alsa_msg =
    Msg_Start | Msg_Stop | Msg_Reset | Msg_StartIO | Msg_StopIO | Msg_SetSampleRate
  | Msg_GetSampleRate | Msg_GetAudioMode | Msg_SetDSDAudioMode | Msg_SetTICFrameSizeAt1FS
  | Msg_SetMaxTICFrameSize | Msg_SetNumberOfInputs | Msg_SetNumberOfOutputs
  | Msg_GetNumberOfInputs | Msg_GetNumberOfOutputs | Msg_SetInterfaceName | Msg_Add_RTPStream
  | Msg_Remove_RTPStream | Msg_Update_RTPStream_Name | Msg_GetPTPInfo | Msg_Hello | Msg_Bye
  | Msg_Ping | Msg_SetMasterOutputVolume | Msg_SetMasterOutputSwitch | Msg_GetMasterOutputVolume
  | Msg_GetMasterOutputSwitch | Msg_SetPlayoutDelay | Msg_SetCaptureDelay | Msg_GetRTPStreamStatus
  | Msg_SetPTPConfig | Msg_GetPTPConfig | Msg_GetPTPStatus

text \<open>A message of a datagram: whether its type is \<open>NLMSG_DONE\<close>, and the \<open>MT_ALSA_msg\<close> in it.\<close>

record nl_msg =
  ms_done :: bool
  ms_id :: alsa_msg
  ms_err :: int
  ms_data :: "u8 list"

datatype nl_reply = Send_fails | Receive_fails | Datagram "nl_msg list"

type_synonym 'k kernel = "alsa_msg \<Rightarrow> u8 list \<Rightarrow> 'k \<Rightarrow> nl_reply \<times> 'k"

record nl_layout =
  ll_max_payload :: nat
  ll_capacity :: nat
  ll_stream :: "rtp_stream_info \<Rightarrow> u8 list"
  ll_stream_status :: "u8 list \<Rightarrow> u32 \<times> int"
  ll_ptp_config :: "u8 \<times> u8 \<Rightarrow> u8 list"
  ll_ptp_config_of :: "u8 list \<Rightarrow> u8 \<times> u8"
  ll_ptp_status_of :: "u8 list \<Rightarrow> driver_ptp"

record 'k netlink =
  nk_kernel :: 'k
  nk_running :: bool
  nk_retcode :: error_code
  nk_recv :: "u8 list"
  nk_output_volume :: int
  nk_output_switch :: int
  nk_sample_rate :: u32

definition netlink_init :: "nl_layout \<Rightarrow> 'k \<Rightarrow> 'k netlink" where
  "netlink_init L k = \<lparr>nk_kernel = k, nk_running = False, nk_retcode = no_error,
     nk_recv = replicate (ll_capacity L) 0, nk_output_volume = - 20, nk_output_switch = 0,
     nk_sample_rate = 0\<rparr>"

text \<open>The result of a call: the exception of \<open>send_to\<close> (the handler's \<open>catch\<close> names an
  \<open>error_code\<close>, which it never throws), or a reply longer than \<open>recv_data_\<close> copied over it.\<close>

datatype nl_fault = Send_exception | Reply_overflow

subsection \<open>Commands\<close>

text \<open>\<open>on_command_done\<close> and \<open>on_command_error\<close>.\<close>

definition on_command_done :: "u8 list \<Rightarrow> 'k netlink \<Rightarrow> 'k netlink" where
  "on_command_done bs s = s\<lparr>nk_retcode := no_error, nk_recv := bs @ drop (length bs) (nk_recv s)\<rparr>"

definition on_command_error :: "error_code \<Rightarrow> 'k netlink \<Rightarrow> 'k netlink" where
  "on_command_error e s = s\<lparr>nk_retcode := e\<rparr>"

text \<open>The loop over the messages of the reply.\<close>

fun on_reply :: "nl_layout \<Rightarrow> alsa_msg \<Rightarrow> nl_msg list \<Rightarrow> 'k netlink \<Rightarrow> nl_fault option \<times> 'k netlink" where
  "on_reply L i [] s = (None, s)"
| "on_reply L i (m # ms) s =
     (if \<not> ms_done m then on_reply L i ms s
      else if i \<noteq> ms_id m then on_reply L i ms (on_command_error (daemon_err invalid_driver_response) s)
      else if ms_err m \<noteq> 0 then on_reply L i ms (on_command_error (get_driver_error (ms_err m)) s)
      else if length (ms_data m) > ll_capacity L then (Some Reply_overflow, s)
      else on_reply L i ms (on_command_done (ms_data m) s))"

definition send_command ::
  "nl_layout \<Rightarrow> 'k kernel \<Rightarrow> alsa_msg \<Rightarrow> u8 list \<Rightarrow> 'k netlink \<Rightarrow> nl_fault option \<times> 'k netlink" where
  "send_command L K i bs s =
     (if length bs > ll_max_payload L then (None, on_command_error (daemon_err send_invalid_size) s)
      else (case K i bs (nk_kernel s) of
        (Send_fails, k) \<Rightarrow> (Some Send_exception, s\<lparr>nk_kernel := k\<rparr>)
      | (Receive_fails, k) \<Rightarrow> (None, on_command_error (daemon_err receive_u2k_failed) (s\<lparr>nk_kernel := k\<rparr>))
      | (Datagram ms, k) \<Rightarrow> on_reply L i ms (s\<lparr>nk_kernel := k\<rparr>)))"

text \<open>A call: the command, then \<open>retcode_\<close>.\<close>

definition nl_call ::
  "nl_layout \<Rightarrow> 'k kernel \<Rightarrow> alsa_msg \<Rightarrow> u8 list \<Rightarrow> 'k netlink \<Rightarrow> (nl_fault + error_code) \<times> 'k netlink" where
  "nl_call L K i bs s =
     (case send_command L K i bs s of
        (Some f, s) \<Rightarrow> (Inl f, s)
      | (None, s) \<Rightarrow> (Inr (nk_retcode s), s))"

text \<open>A query: when the code is success, what the start of \<open>recv_data_\<close> says.\<close>

definition nl_query ::
  "nl_layout \<Rightarrow> 'k kernel \<Rightarrow> alsa_msg \<Rightarrow> u8 list \<Rightarrow> (u8 list \<Rightarrow> 'v) \<Rightarrow> 'v \<Rightarrow> 'k netlink \<Rightarrow>
   (nl_fault + error_code \<times> 'v) \<times> 'k netlink" where
  "nl_query L K i bs read_it old s =
     (case nl_call L K i bs s of
        (Inl f, s) \<Rightarrow> (Inl f, s)
      | (Inr e, s) \<Rightarrow> (Inr (e, if e = no_error then read_it (nk_recv s) else old), s))"

definition nl_hello :: "nl_layout \<Rightarrow> 'k kernel \<Rightarrow> 'k netlink \<Rightarrow> (nl_fault + error_code) \<times> 'k netlink" where
  "nl_hello L K s = nl_call L K Msg_Hello [] s"

definition nl_bye :: "nl_layout \<Rightarrow> 'k kernel \<Rightarrow> 'k netlink \<Rightarrow> (nl_fault + error_code) \<times> 'k netlink" where
  "nl_bye L K s = nl_call L K Msg_Bye [] s"

definition nl_start :: "nl_layout \<Rightarrow> 'k kernel \<Rightarrow> 'k netlink \<Rightarrow> (nl_fault + error_code) \<times> 'k netlink" where
  "nl_start L K s = nl_call L K Msg_Start [] s"

definition nl_stop :: "nl_layout \<Rightarrow> 'k kernel \<Rightarrow> 'k netlink \<Rightarrow> (nl_fault + error_code) \<times> 'k netlink" where
  "nl_stop L K s = nl_call L K Msg_Stop [] s"

definition nl_reset :: "nl_layout \<Rightarrow> 'k kernel \<Rightarrow> 'k netlink \<Rightarrow> (nl_fault + error_code) \<times> 'k netlink" where
  "nl_reset L K s = nl_call L K Msg_Reset [] s"

definition nl_ping :: "nl_layout \<Rightarrow> 'k kernel \<Rightarrow> 'k netlink \<Rightarrow> (nl_fault + error_code) \<times> 'k netlink" where
  "nl_ping L K s = nl_call L K Msg_Ping [] s"

definition nl_set_ptp_config ::
  "nl_layout \<Rightarrow> 'k kernel \<Rightarrow> u8 \<times> u8 \<Rightarrow> 'k netlink \<Rightarrow> (nl_fault + error_code) \<times> 'k netlink" where
  "nl_set_ptp_config L K c s = nl_call L K Msg_SetPTPConfig (ll_ptp_config L c) s"

definition nl_get_ptp_config ::
  "nl_layout \<Rightarrow> 'k kernel \<Rightarrow> u8 \<times> u8 \<Rightarrow> 'k netlink \<Rightarrow> (nl_fault + error_code \<times> u8 \<times> u8) \<times> 'k netlink" where
  "nl_get_ptp_config L K old s = nl_query L K Msg_GetPTPConfig [] (ll_ptp_config_of L) old s"

definition nl_get_ptp_status ::
  "nl_layout \<Rightarrow> 'k kernel \<Rightarrow> driver_ptp \<Rightarrow> 'k netlink \<Rightarrow> (nl_fault + error_code \<times> driver_ptp) \<times> 'k netlink" where
  "nl_get_ptp_status L K old s = nl_query L K Msg_GetPTPStatus [] (ll_ptp_status_of L) old s"

text \<open>The interface name is sent with its terminating zero.\<close>

definition nl_set_interface_name ::
  "nl_layout \<Rightarrow> 'k kernel \<Rightarrow> string \<Rightarrow> 'k netlink \<Rightarrow> (nl_fault + error_code) \<times> 'k netlink" where
  "nl_set_interface_name L K ifname s = nl_call L K Msg_SetInterfaceName (map byte_of_char ifname @ [0]) s"

definition nl_add_rtp_stream ::
  "nl_layout \<Rightarrow> 'k kernel \<Rightarrow> rtp_stream_info \<Rightarrow> u64 \<Rightarrow> 'k netlink \<Rightarrow> (nl_fault + error_code \<times> u64) \<times> 'k netlink" where
  "nl_add_rtp_stream L K si old s =
     nl_query L K Msg_Add_RTPStream (ll_stream L si) (\<lambda>bs. of_le (take 8 bs)) old s"

definition nl_get_rtp_stream_status ::
  "nl_layout \<Rightarrow> 'k kernel \<Rightarrow> u64 \<Rightarrow> u32 \<times> int \<Rightarrow> 'k netlink \<Rightarrow> (nl_fault + error_code \<times> u32 \<times> int) \<times> 'k netlink" where
  "nl_get_rtp_stream_status L K h old s =
     nl_query L K Msg_GetRTPStreamStatus (le_bytes 8 h) (ll_stream_status L) old s"

definition nl_remove_rtp_stream ::
  "nl_layout \<Rightarrow> 'k kernel \<Rightarrow> u64 \<Rightarrow> 'k netlink \<Rightarrow> (nl_fault + error_code) \<times> 'k netlink" where
  "nl_remove_rtp_stream L K h s = nl_call L K Msg_Remove_RTPStream (le_bytes 8 h) s"

definition nl_set_sample_rate ::
  "nl_layout \<Rightarrow> 'k kernel \<Rightarrow> u32 \<Rightarrow> 'k netlink \<Rightarrow> (nl_fault + error_code) \<times> 'k netlink" where
  "nl_set_sample_rate L K r s = nl_call L K Msg_SetSampleRate (le_bytes 4 r) s"

definition nl_set_tic_frame_size_at_1fs ::
  "nl_layout \<Rightarrow> 'k kernel \<Rightarrow> u64 \<Rightarrow> 'k netlink \<Rightarrow> (nl_fault + error_code) \<times> 'k netlink" where
  "nl_set_tic_frame_size_at_1fs L K n s = nl_call L K Msg_SetTICFrameSizeAt1FS (le_bytes 8 n) s"

definition nl_set_max_tic_frame_size ::
  "nl_layout \<Rightarrow> 'k kernel \<Rightarrow> u64 \<Rightarrow> 'k netlink \<Rightarrow> (nl_fault + error_code) \<times> 'k netlink" where
  "nl_set_max_tic_frame_size L K n s = nl_call L K Msg_SetMaxTICFrameSize (le_bytes 8 n) s"

definition nl_set_playout_delay ::
  "nl_layout \<Rightarrow> 'k kernel \<Rightarrow> u32 \<Rightarrow> 'k netlink \<Rightarrow> (nl_fault + error_code) \<times> 'k netlink" where
  "nl_set_playout_delay L K n s = nl_call L K Msg_SetPlayoutDelay (le_bytes 4 n) s"

definition nl_get_sample_rate ::
  "nl_layout \<Rightarrow> 'k kernel \<Rightarrow> u32 \<Rightarrow> 'k netlink \<Rightarrow> (nl_fault + error_code \<times> u32) \<times> 'k netlink" where
  "nl_get_sample_rate L K old s = nl_query L K Msg_GetSampleRate [] (\<lambda>bs. of_le (take 4 bs)) old s"

definition nl_get_number_of_inputs ::
  "nl_layout \<Rightarrow> 'k kernel \<Rightarrow> int \<Rightarrow> 'k netlink \<Rightarrow> (nl_fault + error_code \<times> int) \<times> 'k netlink" where
  "nl_get_number_of_inputs L K old s =
     nl_query L K Msg_GetNumberOfInputs [] (\<lambda>bs. sint (of_le (take 4 bs) :: u32)) old s"

definition nl_get_number_of_outputs ::
  "nl_layout \<Rightarrow> 'k kernel \<Rightarrow> int \<Rightarrow> 'k netlink \<Rightarrow> (nl_fault + error_code \<times> int) \<times> 'k netlink" where
  "nl_get_number_of_outputs L K old s =
     nl_query L K Msg_GetNumberOfOutputs [] (\<lambda>bs. sint (of_le (take 4 bs) :: u32)) old s"

subsection \<open>Start and end\<close>

text \<open>\<open>a() || b() || ...\<close> on error codes: true at the first one that is set, and nothing after it
  is called.\<close>

fun any_error ::
  "('k netlink \<Rightarrow> (nl_fault + error_code) \<times> 'k netlink) list \<Rightarrow> 'k netlink \<Rightarrow> (nl_fault + bool) \<times> 'k netlink" where
  "any_error [] s = (Inr False, s)"
| "any_error (f # fs) s =
     (case f s of
        (Inl e, s) \<Rightarrow> (Inl e, s)
      | (Inr e, s) \<Rightarrow> if e \<noteq> no_error then (Inr True, s) else any_error fs s)"

text \<open>\<open>DriverHandler::init\<close>, given whether the two sockets open, then \<open>DriverManager::init\<close>.\<close>

definition nl_init_calls ::
  "nl_layout \<Rightarrow> 'k kernel \<Rightarrow> config \<Rightarrow> ('k netlink \<Rightarrow> (nl_fault + error_code) \<times> 'k netlink) list" where
  "nl_init_calls L K c =
     [nl_start L K, nl_reset L K, nl_set_interface_name L K (cf_interface_name c),
      nl_set_ptp_config L K (cf_ptp_domain c, cf_ptp_dscp c),
      nl_set_tic_frame_size_at_1fs L K (ucast (cf_tic_frame_size_at_1fs c)),
      nl_set_playout_delay L K (cf_playout_delay c),
      nl_set_max_tic_frame_size L K (ucast (cf_max_tic_frame_size c))]"

definition nl_init ::
  "nl_layout \<Rightarrow> 'k kernel \<Rightarrow> bool \<Rightarrow> config \<Rightarrow> 'k netlink \<Rightarrow> (nl_fault + bool) \<times> 'k netlink" where
  "nl_init L K sockets_open c s =
     (if \<not> nk_running s \<and> \<not> sockets_open then (Inr False, s)
      else (let s = s\<lparr>nk_running := True, nk_sample_rate := cf_sample_rate c\<rparr>
            in case nl_hello L K s of
                 (Inl f, s) \<Rightarrow> (Inl f, s)
               | (Inr e, s) \<Rightarrow>
                   if e \<noteq> no_error then (Inr False, s)
                   else if \<not> cf_driver_restart c then (Inr True, s)
                   else (case any_error (nl_init_calls L K c) s of
                           (Inl f, s) \<Rightarrow> (Inl f, s)
                         | (Inr b, s) \<Rightarrow> (Inr (\<not> b), s))))"

text \<open>\<open>receiver\<close> is what the event thread returned (\<^term>\<open>None\<close>: its exception, which
  \<open>res_.get()\<close> throws again).\<close>

definition nl_terminate ::
  "nl_layout \<Rightarrow> 'k kernel \<Rightarrow> bool option \<Rightarrow> config \<Rightarrow> 'k netlink \<Rightarrow> (nl_fault + bool) \<times> 'k netlink" where
  "nl_terminate L K receiver c s =
     (case (if cf_driver_restart c then nl_stop L K s else (Inr no_error, s)) of
        (Inl f, s) \<Rightarrow> (Inl f, s)
      | (Inr _, s) \<Rightarrow>
          (case nl_bye L K s of
             (Inl f, s) \<Rightarrow> (Inl f, s)
           | (Inr _, s) \<Rightarrow>
               if nk_running s
               then (case receiver of None \<Rightarrow> Inl Send_exception | Some b \<Rightarrow> Inr b, s\<lparr>nk_running := False\<rparr>)
               else (Inr True, s)))"

subsection \<open>Events\<close>

text \<open>\<open>on_event\<close>: the response.  A message of another kind leaves the response as it was set up,
  four zero bytes.\<close>

definition on_event :: "alsa_msg \<Rightarrow> u8 list \<Rightarrow> 'k netlink \<Rightarrow> u8 list \<times> 'k netlink" where
  "on_event i req s =
     (case i of
        Msg_Hello \<Rightarrow> ([], s)
      | Msg_Bye \<Rightarrow> ([], s)
      | Msg_SetMasterOutputVolume \<Rightarrow>
          ([], if length req = 4 then s\<lparr>nk_output_volume := sint (of_le req :: u32)\<rparr> else s)
      | Msg_SetMasterOutputSwitch \<Rightarrow>
          ([], if length req = 4 then s\<lparr>nk_output_switch := sint (of_le req :: u32)\<rparr> else s)
      | Msg_SetSampleRate \<Rightarrow> ([], if length req = 4 then s\<lparr>nk_sample_rate := of_le req\<rparr> else s)
      | Msg_GetMasterOutputVolume \<Rightarrow> (le_bytes 4 (word_of_int (nk_output_volume s) :: u32), s)
      | Msg_GetMasterOutputSwitch \<Rightarrow> (le_bytes 4 (word_of_int (nk_output_switch s) :: u32), s)
      | _ \<Rightarrow> (replicate 4 0, s))"

text \<open>One turn of \<open>event_receiver\<close>, for the messages received: the responses sent, and whether the
  exception of a send ended the thread (again the \<open>catch\<close> names a type that is not thrown).\<close>

fun event_turn ::
  "(alsa_msg \<Rightarrow> bool) \<Rightarrow> nl_msg list \<Rightarrow> 'k netlink \<Rightarrow> nl_fault option \<times> (alsa_msg \<times> u8 list) list \<times> 'k netlink" where
  "event_turn can_send [] s = (None, [], s)"
| "event_turn can_send (m # ms) s =
     (if ms_done m \<and> ms_err m = 0 then
        (let (resp, s) = on_event (ms_id m) (ms_data m) s
         in if \<not> can_send (ms_id m) then (Some Send_exception, [], s)
            else (let (f, rs, s) = event_turn can_send ms s in (f, (ms_id m, resp) # rs, s)))
      else event_turn can_send ms s)"

subsection \<open>Properties of commands\<close>

text \<open>A reply of one finished message to the command that was sent.\<close>

definition answer :: "alsa_msg \<Rightarrow> int \<Rightarrow> u8 list \<Rightarrow> nl_reply" where
  "answer i c bs = Datagram [\<lparr>ms_done = True, ms_id = i, ms_err = c, ms_data = bs\<rparr>]"

definition code_of :: "int \<Rightarrow> error_code" where
  "code_of c = (if c = 0 then no_error else get_driver_error c)"

lemma code_of_ok [simp]: "code_of c = no_error \<longleftrightarrow> c = 0"
  by (simp add: code_of_def get_driver_error_def)

lemma nl_call_answer:
  assumes "length bs \<le> ll_max_payload L" "K i bs (nk_kernel s) = (answer i c d, k)" "length d \<le> ll_capacity L"
  shows "nl_call L K i bs s = (Inr (code_of c),
     s\<lparr>nk_kernel := k, nk_retcode := code_of c,
       nk_recv := (if c = 0 then d @ drop (length d) (nk_recv s) else nk_recv s)\<rparr>)"
  using assms
  by (simp add: nl_call_def send_command_def answer_def code_of_def on_command_done_def on_command_error_def)

text \<open>A reply that brings no finished message leaves the result of the command before it in place: the
  call answers the old code, and a query that finds it to be success reads the old data.\<close>

theorem stale_result:
  assumes "length bs \<le> ll_max_payload L" and "K i bs (nk_kernel s) = (Datagram ms, k)"
    and "\<forall>m\<in>set ms. \<not> ms_done m"
  shows "nl_call L K i bs s = (Inr (nk_retcode s), s\<lparr>nk_kernel := k\<rparr>) \<and>
    (nk_retcode s = no_error \<longrightarrow>
       nl_query L K i bs read_it old s = (Inr (no_error, read_it (nk_recv s)), s\<lparr>nk_kernel := k\<rparr>))"
proof -
  have "on_reply L i ms s = (None, s)" for s :: "'a netlink"
    using assms(3) by (induction ms) auto
  then show ?thesis
    using assms(1,2) by (simp add: nl_query_def nl_call_def send_command_def)
qed

definition sample_layout :: nl_layout where
  "sample_layout = \<lparr>ll_max_payload = 1024, ll_capacity = 1040, ll_stream = (\<lambda>si. le_bytes 4 (m_ui32DestIP si)),
     ll_stream_status = (\<lambda>bs. (of_le (take 4 bs), 0)), ll_ptp_config = (\<lambda>(d, p). [d, p]),
     ll_ptp_config_of = (\<lambda>bs. (bs ! 0, bs ! 1)),
     ll_ptp_status_of = (\<lambda>_. \<lparr>dp_lock = Ptp_unlocked, dp_gmid = 0, dp_jitter = 0, dp_active = 0,
       dp_leg_lock = (Ptp_unlocked, Ptp_unlocked), dp_leg_gmid = (0, 0)\<rparr>)\<rparr>"

theorem stale_result_witness:
  "fst (nl_remove_rtp_stream sample_layout (\<lambda>_ _ k. (Datagram [], k)) 7 (netlink_init sample_layout ())) = Inr no_error"
proof -
  let ?K = "\<lambda>_ _ k. (Datagram [], k)" and ?s = "netlink_init sample_layout ()"
  have l: "length (le_bytes 8 (7 :: u64)) \<le> ll_max_payload sample_layout" by (simp add: sample_layout_def)
  have "nl_call sample_layout ?K Msg_Remove_RTPStream (le_bytes 8 (7 :: u64)) ?s =
      (Inr (nk_retcode ?s), ?s\<lparr>nk_kernel := ()\<rparr>)"
    by (rule stale_result[OF l, where ms = "[]", THEN conjunct1]) simp_all
  then show ?thesis by (simp add: nl_remove_rtp_stream_def netlink_init_def)
qed

subsubsection \<open>Starting the driver\<close>

text \<open>A kernel that keeps a log of the commands and answers each kind with a code.\<close>

definition logging :: "(alsa_msg \<Rightarrow> int) \<Rightarrow> alsa_msg list kernel" where
  "logging ans i bs log = (answer i (ans i) [], log @ [i])"

definition up_to_first :: "('a \<Rightarrow> bool) \<Rightarrow> 'a list \<Rightarrow> 'a list" where
  "up_to_first p xs = takeWhile (\<lambda>x. \<not> p x) xs @ take 1 (dropWhile (\<lambda>x. \<not> p x) xs)"

lemma up_to_first_simps [simp]:
  "up_to_first p [] = []" "up_to_first p (x # xs) = (if p x then [x] else x # up_to_first p xs)"
  by (simp_all add: up_to_first_def)

definition init_commands :: "alsa_msg list" where
  "init_commands = [Msg_Hello, Msg_Start, Msg_Reset, Msg_SetInterfaceName, Msg_SetPTPConfig,
     Msg_SetTICFrameSizeAt1FS, Msg_SetPlayoutDelay, Msg_SetMaxTICFrameSize]"

text \<open>A call that the logging kernel answers.\<close>

definition logged :: "(alsa_msg \<Rightarrow> int) \<Rightarrow> (alsa_msg list netlink \<Rightarrow> (nl_fault + error_code) \<times> alsa_msg list netlink) \<Rightarrow> alsa_msg \<Rightarrow> bool" where
  "logged ans f i \<longleftrightarrow> (\<forall>s. fst (f s) = Inr (code_of (ans i)) \<and> nk_kernel (snd (f s)) = nk_kernel s @ [i])"

lemma logged_call: "length bs \<le> ll_max_payload L \<Longrightarrow> logged ans (nl_call L (logging ans) i bs) i"
  by (simp add: logged_def nl_call_answer[where d = "[]"] logging_def)

lemmas nl_calls = nl_hello_def[abs_def] nl_start_def[abs_def] nl_reset_def[abs_def]
  nl_set_interface_name_def[abs_def] nl_set_ptp_config_def[abs_def]
  nl_set_tic_frame_size_at_1fs_def[abs_def] nl_set_playout_delay_def[abs_def]
  nl_set_max_tic_frame_size_def[abs_def]

lemma any_error_logged:
  "list_all2 (logged ans) fs cs \<Longrightarrow>
   fst (any_error fs s) = Inr (\<exists>i\<in>set cs. ans i \<noteq> 0) \<and>
   nk_kernel (snd (any_error fs s)) = nk_kernel s @ up_to_first (\<lambda>i. ans i \<noteq> 0) cs"
proof (induction fs cs arbitrary: s rule: list_all2_induct)
  case (Cons f fs i cs)
  obtain r s' where f: "f s = (r, s')" by fastforce
  with Cons.hyps(1) have "r = Inr (code_of (ans i))" "nk_kernel s' = nk_kernel s @ [i]"
    by (auto simp: logged_def dest: spec[of _ s])
  with Cons.IH[of s'] show ?case by (simp add: f)
qed simp

text \<open>Starting the driver sends its eight commands in this order and stops at the first one the kernel
  refuses; the start succeeds exactly when it refuses none.\<close>

theorem driver_init_order:
  assumes "length (cf_interface_name c) < ll_max_payload L" and "8 \<le> ll_max_payload L"
    and "length (ll_ptp_config L (cf_ptp_domain c, cf_ptp_dscp c)) \<le> ll_max_payload L"
    and "cf_driver_restart c"
  shows "fst (nl_init L (logging ans) True c (netlink_init L [])) = Inr (\<forall>i\<in>set init_commands. ans i = 0) \<and>
    nk_kernel (snd (nl_init L (logging ans) True c (netlink_init L []))) =
      up_to_first (\<lambda>i. ans i \<noteq> 0) init_commands"
proof -
  have calls: "list_all2 (logged ans) (nl_init_calls L (logging ans) c) (tl init_commands)"
    using assms
    by (simp add: nl_init_calls_def init_commands_def nl_calls logged_call)
  let ?s = "(netlink_init L [])\<lparr>nk_running := True, nk_sample_rate := cf_sample_rate c\<rparr>"
  obtain r s' where h: "nl_hello L (logging ans) ?s = (r, s')" by fastforce
  have "logged ans (nl_hello L (logging ans)) Msg_Hello" by (simp add: nl_calls logged_call)
  then have r: "r = Inr (code_of (ans Msg_Hello))" "nk_kernel s' = [Msg_Hello]"
    using h by (auto simp: logged_def netlink_init_def dest: spec[of _ ?s])
  have i: "nl_init L (logging ans) True c (netlink_init L []) =
      (if ans Msg_Hello \<noteq> 0 then (Inr False, s')
       else case any_error (nl_init_calls L (logging ans) c) s' of
              (Inl f, s) \<Rightarrow> (Inl f, s) | (Inr b, s) \<Rightarrow> (Inr (\<not> b), s))"
    using assms(4) by (simp add: nl_init_def h r)
  obtain e s'' where e: "any_error (nl_init_calls L (logging ans) c) s' = (e, s'')" by fastforce
  have "e = Inr (\<exists>i\<in>set (tl init_commands). ans i \<noteq> 0)"
    "nk_kernel s'' = Msg_Hello # up_to_first (\<lambda>i. ans i \<noteq> 0) (tl init_commands)"
    using any_error_logged[OF calls, of s'] by (simp_all add: e r)
  moreover have "set init_commands = insert Msg_Hello (set (tl init_commands))"
    "up_to_first p init_commands = (if p Msg_Hello then [Msg_Hello] else Msg_Hello # up_to_first p (tl init_commands))" for p
    by (simp_all add: init_commands_def)
  ultimately show ?thesis
    unfolding i by (cases "ans Msg_Hello = 0") (simp_all add: e r)
qed

theorem driver_init_order_witness:
  "nk_kernel (snd (nl_init sample_layout (logging (\<lambda>i. if i = Msg_SetPTPConfig then -401 else 0)) True
     config_default (netlink_init sample_layout []))) =
   [Msg_Hello, Msg_Start, Msg_Reset, Msg_SetInterfaceName, Msg_SetPTPConfig]"
  using driver_init_order[of config_default sample_layout "\<lambda>i. if i = Msg_SetPTPConfig then -401 else 0"]
  by (simp add: config_default_def sample_layout_def init_commands_def)
subsection \<open>A driver behind the kernel\<close>

text \<open>A driver \<open>add_rtp\<close>, \<open>rm_rtp\<close> that the kernel \<open>K\<close> serves: it answers the two stream commands with
  the driver's result.  Then the netlink driver keeps the same contract.\<close>

definition nl_add :: "nl_layout \<Rightarrow> 'k kernel \<Rightarrow> rtp_stream_info \<Rightarrow> 'k netlink \<Rightarrow> error_code \<times> u64 \<times> 'k netlink" where
  "nl_add L K si s =
     (case nl_add_rtp_stream L K si 0 s of
        (Inl _, s) \<Rightarrow> (daemon_err send_u2k_failed, 0, s) | (Inr (e, h), s) \<Rightarrow> (e, h, s))"

definition nl_remove :: "nl_layout \<Rightarrow> 'k kernel \<Rightarrow> u64 \<Rightarrow> 'k netlink \<Rightarrow> error_code \<times> 'k netlink" where
  "nl_remove L K h s =
     (case nl_remove_rtp_stream L K h s of
        (Inl _, s) \<Rightarrow> (daemon_err send_u2k_failed, s) | (Inr e, s) \<Rightarrow> (e, s))"

definition fits :: "nl_layout \<Rightarrow> bool" where
  "fits L \<longleftrightarrow> 8 \<le> ll_max_payload L \<and> 8 \<le> ll_capacity L \<and> (\<forall>si. length (ll_stream L si) \<le> ll_max_payload L)"

lemma fits_stream: "fits L \<Longrightarrow> length (ll_stream L si) \<le> ll_max_payload L"
  by (simp add: fits_def)

lemma nl_add_served:
  assumes "fits L" "K Msg_Add_RTPStream (ll_stream L si) (nk_kernel s) = (answer Msg_Add_RTPStream c (le_bytes 8 h), k)"
  shows "nl_add L K si s = (code_of c, if c = 0 then h else 0,
    s\<lparr>nk_kernel := k, nk_retcode := code_of c,
      nk_recv := (if c = 0 then le_bytes 8 h @ drop 8 (nk_recv s) else nk_recv s)\<rparr>)"
  using assms nl_call_answer[where K = K and s = s and d = "le_bytes 8 h", OF fits_stream[OF assms(1)] assms(2)]
  by (simp add: nl_add_def nl_add_rtp_stream_def nl_query_def fits_def of_le_bytes)

lemma nl_remove_served:
  assumes "fits L" "K Msg_Remove_RTPStream (le_bytes 8 h) (nk_kernel s) = (answer Msg_Remove_RTPStream c [], k)"
  shows "nl_remove L K h s = (code_of c, s\<lparr>nk_kernel := k, nk_retcode := code_of c\<rparr>)"
  using assms nl_call_answer[where K = K and s = s and d = "[]" and bs = "le_bytes 8 h" and L = L, OF _ assms(2)]
  by (simp add: nl_remove_def nl_remove_rtp_stream_def fits_def)

locale served_driver = rtp_driver add_rtp rm_rtp open_handles room
  for add_rtp :: "rtp_stream_info \<Rightarrow> 'k \<Rightarrow> error_code \<times> u64 \<times> 'k"
    and rm_rtp :: "u64 \<Rightarrow> 'k \<Rightarrow> error_code \<times> 'k"
    and open_handles :: "'k \<Rightarrow> u64 set"
    and room :: "nat \<Rightarrow> 'k \<Rightarrow> bool" +
  fixes L :: nl_layout and K :: "'k kernel"
  assumes layout_fits: "fits L"
    and serves_add: "\<exists>c e h k. add_rtp si d = (e, h, k) \<and> e = code_of c \<and>
      K Msg_Add_RTPStream (ll_stream L si) d = (answer Msg_Add_RTPStream c (le_bytes 8 h), k)"
    and serves_rm: "\<exists>c e k. rm_rtp h d = (e, k) \<and> e = code_of c \<and>
      K Msg_Remove_RTPStream (le_bytes 8 h) d = (answer Msg_Remove_RTPStream c [], k)"
begin

lemma add_through:
  "\<exists>e h k. add_rtp si (nk_kernel s) = (e, h, k) \<and> fst (nl_add L K si s) = e \<and>
     (e = no_error \<longrightarrow> fst (snd (nl_add L K si s)) = h) \<and> nk_kernel (snd (snd (nl_add L K si s))) = k"
proof -
  obtain c e h k where a: "add_rtp si (nk_kernel s) = (e, h, k)" "e = code_of c"
    "K Msg_Add_RTPStream (ll_stream L si) (nk_kernel s) = (answer Msg_Add_RTPStream c (le_bytes 8 h), k)"
    using serves_add[of si "nk_kernel s"] by blast
  show ?thesis
    using nl_add_served[where K = K and L = L and si = si and s = s and c = c and h = h and k = k, OF layout_fits a(3)] a(1,2) by auto
qed

lemma rm_through:
  "\<exists>e k. rm_rtp h (nk_kernel s) = (e, k) \<and> fst (nl_remove L K h s) = e \<and> nk_kernel (snd (nl_remove L K h s)) = k"
proof -
  obtain c e k where a: "rm_rtp h (nk_kernel s) = (e, k)" "e = code_of c"
    "K Msg_Remove_RTPStream (le_bytes 8 h) (nk_kernel s) = (answer Msg_Remove_RTPStream c [], k)"
    using serves_rm[of h "nk_kernel s"] by blast
  show ?thesis
    using nl_remove_served[where K = K and L = L and s = s and c = c and h = h and k = k, OF layout_fits a(3)] a(1,2) by auto
qed

end

sublocale served_driver \<subseteq> nl: rtp_driver "nl_add L K" "nl_remove L K" "\<lambda>s. open_handles (nk_kernel s)" "\<lambda>n s. room n (nk_kernel s)"
proof (unfold_locales, goal_cases)
  case (1 si d h d' n)
  then show ?case using add_through[of si d] add_done by auto
next
  case (2 si d e h d')
  then show ?case using add_through[of si d] add_failed by auto
next
  case (3 h d d')
  then show ?case using rm_through[of h d] rm_done by auto
next
  case (4 h d e d')
  then show ?case using rm_through[of h d] rm_failed by auto
next
  case (5 si d e h d' n)
  then show ?case using add_through[of si d] room_add by auto
next
  case (6 h d e d' n)
  then show ?case using rm_through[of h d] room_rm by auto
next
  case (7 n d)
  then show ?case by (rule room_finite)
qed

text \<open>The fake driver as a kernel; its only error, \<open>invalid_value\<close>, has the code -805.\<close>

definition fake_kernel :: "fake_driver kernel" where
  "fake_kernel i bs d =
     (if i = Msg_Add_RTPStream
      then (let (e, h, d) = fake_add_rtp_stream zero_stream d in (answer i 0 (le_bytes 8 h), d))
      else if i = Msg_Remove_RTPStream
      then (let (e, d) = fake_remove_rtp_stream (of_le bs) d in (answer i (if e = no_error then 0 else - 805) [], d))
      else (answer i 0 [], d))"

interpretation fake_nl: served_driver fake_add_rtp_stream fake_remove_rtp_stream fake_open fake_room
  sample_layout fake_kernel
proof (unfold_locales, goal_cases)
  case 1
  show ?case by (simp add: fits_def sample_layout_def)
next
  case (2 si d)
  show ?case
    by (rule exI[of _ 0]) (simp add: fake_kernel_def fake_add_rtp_stream_def Let_def code_of_def)
next
  case (3 h d)
  show ?case
    by (rule exI[of _ "if ucast h \<in> fd_handles d then 0 else - 805"])
       (simp add: fake_kernel_def fake_remove_rtp_stream_def Let_def code_of_def of_le_bytes get_driver_error_def)
qed



end
