(* ===== verification/Streamer.thy ===== *)
theory Streamer
  imports Streams Errors "HOL-Library.Monad_Syntax"
begin

text \<open>
  \<open>daemon/streamer.cpp\<close>: the audio of the sinks is captured into a ring of AAC files.  ALSA and the
  faac encoder are not in this repository: what a read returns is an input of the capture loop,
  the encoder with its state is the parameter \<open>codec_lib\<close>.  The loop runs in one thread and is a
  function of the chunks read; the tasks that \<open>close_files\<close> starts, one for each sink, are run one
  after the other.  The sinks are what \<open>get_sinks\<close> returns at each point.  \<^term>\<open>None\<close> is undefined
  behaviour: a read outside the capture buffer, or a division by zero.
\<close>

record 'e codec_lib =
  cl_open :: "u32 \<Rightarrow> nat \<Rightarrow> ('e \<times> nat \<times> nat) option"
  cl_get_config :: "'e \<Rightarrow> bool"
  cl_set_config :: "'e \<Rightarrow> nat \<Rightarrow> nat \<Rightarrow> 'e option"
  cl_encode :: "'e \<Rightarrow> u8 list \<Rightarrow> nat \<Rightarrow> u8 list option \<times> 'e"

record live_info =
  li_sink :: u8
  li_file :: u8
  li_unwriteble :: u8

record 'e streamer =
  sm_running :: bool
  sm_chunk :: nat
  sm_frame :: nat
  sm_duration :: u16
  sm_files :: u8
  sm_player :: u8
  sm_samples :: nat
  sm_total :: "u8 \<Rightarrow> nat"
  sm_offset :: u32
  sm_tmp :: "u8 \<Rightarrow> u8 list"
  sm_out :: "u8 \<times> u8 \<Rightarrow> u8 list"
  sm_ids :: "u8 \<Rightarrow> u32"
  sm_counter :: u32
  sm_file :: u8
  sm_buffer :: "u8 list"
  sm_channels :: u8
  sm_rate :: u32
  sm_faac :: "u8 \<Rightarrow> 'e option"
  sm_codec_in :: "u8 \<Rightarrow> nat"
  sm_codec_out :: "u8 \<Rightarrow> nat"
  sm_live :: "string \<times> int \<Rightarrow> live_info option"

definition streamer_init :: "'e streamer" where
  "streamer_init =
     \<lparr>sm_running = False, sm_chunk = 0, sm_frame = 0, sm_duration = 1, sm_files = 8, sm_player = 1,
      sm_samples = 0, sm_total = (\<lambda>_. 0), sm_offset = 0, sm_tmp = (\<lambda>_. []), sm_out = (\<lambda>_. []),
      sm_ids = (\<lambda>_. 0), sm_counter = 0, sm_file = 0, sm_buffer = [], sm_channels = 8, sm_rate = 0,
      sm_faac = (\<lambda>_. None), sm_codec_in = (\<lambda>_. 0), sm_codec_out = (\<lambda>_. 0), sm_live = (\<lambda>_. None)\<rparr>"

subsection \<open>Reading from ALSA\<close>

text \<open>What one call of \<open>snd_pcm_readi\<close> and the handlers of its errors come to: samples read (with
  their bytes), nothing yet (\<open>-EAGAIN\<close>), an overrun or a suspend that was recovered from or not,
  another error.  \<open>running\<close> is the flag at that moment.\<close>

datatype pcm_event = Read nat "u8 list" | Again | Recovered | Lost

text \<open>\<open>pcm_read\<close>: the bytes written to \<open>data\<close>, or \<^term>\<open>None\<close> for the result -1; the list of events may run
  out before the samples are there, which is a call that has not returned (\<open>Inl\<close> with the rest).\<close>

fun pcm_read :: "bool \<Rightarrow> nat \<Rightarrow> pcm_event list \<Rightarrow> u8 list \<Rightarrow> nat + u8 list option" where
  "pcm_read running 0 es data = Inr (Some data)"
| "pcm_read running (Suc n) [] data = Inl (Suc n)"
| "pcm_read running (Suc n) (ev # es) data =
     (case ev of
        Again \<Rightarrow> if running then pcm_read running (Suc n) es data else Inr None
      | Recovered \<Rightarrow> pcm_read running (Suc n) es data
      | Lost \<Rightarrow> Inr None
      | Read r bs \<Rightarrow>
          if r < Suc n \<and> \<not> running then Inr None
          else pcm_read running (Suc n - r) es (data @ bs))"

subsection \<open>Files\<close>

text \<open>\<open>setup_codec\<close>: the result and the state. An encoder that cannot be configured stays open.\<close>

definition setup_codec :: "'e codec_lib \<Rightarrow> u32 \<Rightarrow> stream_sink \<Rightarrow> 'e streamer \<Rightarrow> (bool \<times> 'e streamer) option" where
  "setup_codec C rate sink s =
     (let i = snk_id sink; n = length (snk_map sink)
      in case cl_open C rate n of
           None \<Rightarrow> Some (False, s\<lparr>sm_faac := (sm_faac s)(i := None)\<rparr>)
         | Some (e, samples, width) \<Rightarrow>
             (let s = s\<lparr>sm_faac := (sm_faac s)(i := Some e), sm_codec_in := (sm_codec_in s)(i := samples),
                        sm_codec_out := (sm_codec_out s)(i := width)\<rparr>
              in if \<not> cl_get_config C e then Some (False, s)
                 else if n = 0 then None
                 else (case cl_set_config C e (if n > 6 then 1 else 0) (64000 div n) of
                         None \<Rightarrow> Some (False, s)
                       | Some e' \<Rightarrow> Some (True, s\<lparr>sm_faac := (sm_faac s)(i := Some e')\<rparr>))))"

fun open_files :: "'e codec_lib \<Rightarrow> u32 \<Rightarrow> stream_sink list \<Rightarrow> 'e streamer \<Rightarrow> 'e streamer option" where
  "open_files C rate [] s = Some s"
| "open_files C rate (k # ks) s =
     (let s = s\<lparr>sm_tmp := (sm_tmp s)(snk_id k := [])\<rparr>
      in if sm_faac s (snk_id k) \<noteq> None then open_files C rate ks s
         else (case setup_codec C rate k s of
                 None \<Rightarrow> None
               | Some (_, s) \<Rightarrow> open_files C rate ks s))"

text \<open>The samples of the channels of one sink in one frame, then in the chunk just read.\<close>

definition slice :: "u8 list \<Rightarrow> nat \<Rightarrow> nat \<Rightarrow> u8 list option" where
  "slice buf pos n = (if pos + n \<le> length buf then Some (take n (drop pos buf)) else None)"

fun frame_samples :: "u8 list \<Rightarrow> nat \<Rightarrow> nat \<Rightarrow> u8 list \<Rightarrow> u8 list option" where
  "frame_samples buf start width [] = Some []"
| "frame_samples buf start width (ch # chs) =
     do { a \<leftarrow> slice buf (start + unat ch * width) width; b \<leftarrow> frame_samples buf start width chs; Some (a @ b) }"

fun chunk_samples :: "u8 list \<Rightarrow> nat \<Rightarrow> nat \<Rightarrow> nat \<Rightarrow> nat \<Rightarrow> u8 list \<Rightarrow> u8 list option" where
  "chunk_samples buf base frame width 0 chs = Some []"
| "chunk_samples buf base frame width (Suc n) chs =
     do { a \<leftarrow> frame_samples buf (base * frame) width chs;
          b \<leftarrow> chunk_samples buf (Suc base) frame width n chs; Some (a @ b) }"

fun save_files :: "stream_sink list \<Rightarrow> 'e streamer \<Rightarrow> 'e streamer option" where
  "save_files [] s = Some s"
| "save_files (k # ks) s =
     (let i = snk_id k; width = sm_frame s div unat (sm_channels s);
          s = s\<lparr>sm_total := (sm_total s)(i := sm_total s i + sm_chunk s)\<rparr>
      in case chunk_samples (sm_buffer s) (unat (sm_offset s)) (sm_frame s) width (sm_chunk s) (snk_map k) of
           None \<Rightarrow> None
         | Some bs \<Rightarrow> save_files ks (s\<lparr>sm_tmp := (sm_tmp s)(i := sm_tmp s i @ bs)\<rparr>))"

text \<open>The loop of \<open>close_files\<close> over the captured samples of one sink; \<open>amount\<close> is the number of samples
  in the file.  It need not end: with a codec that takes no samples it runs for ever.  The number
  of the last samples goes through a \<open>uint16_t\<close>.\<close>

partial_function (option) encode_loop ::
  "('e \<Rightarrow> u8 list \<Rightarrow> nat \<Rightarrow> u8 list option \<times> 'e) \<Rightarrow> u8 list \<Rightarrow> nat \<Rightarrow> nat \<Rightarrow> nat \<Rightarrow> nat \<Rightarrow> 'e \<Rightarrow> u8 list \<Rightarrow>
   (u8 list option \<times> 'e) option" where
  "encode_loop enc pcm width amount per in_samples e out =
     (let last_one = in_samples + per \<ge> amount;
          n = (if last_one then (amount - in_samples) mod 2 ^ 16 else per)
      in case enc e (drop (in_samples * width) pcm) n of
           (None, e) \<Rightarrow> Some (None, e)
         | (Some bs, e) \<Rightarrow>
             if last_one then Some (Some (out @ bs), e)
             else encode_loop enc pcm width amount per (in_samples + n) e (out @ bs))"

definition close_file :: "'e codec_lib \<Rightarrow> u8 \<Rightarrow> stream_sink \<Rightarrow> 'e streamer \<Rightarrow> 'e streamer option" where
  "close_file C fid k s =
     (let i = snk_id k; width = sm_frame s div unat (sm_channels s);
          amount = sm_samples s * length (snk_map k)
      in case sm_faac s i of
           None \<Rightarrow> Some s
         | Some e \<Rightarrow>
             (case encode_loop (cl_encode C) (sm_tmp s i) width amount (sm_codec_in s i) 0 e [] of
                None \<Rightarrow> None
              | Some (None, e) \<Rightarrow> Some (s\<lparr>sm_faac := (sm_faac s)(i := Some e)\<rparr>)
              | Some (Some bs, e) \<Rightarrow>
                  Some (s\<lparr>sm_faac := (sm_faac s)(i := Some e), sm_out := (sm_out s)((i, fid) := bs),
                          sm_ids := (sm_ids s)(fid := sm_counter s)\<rparr>)))"

fun close_files :: "'e codec_lib \<Rightarrow> u8 \<Rightarrow> stream_sink list \<Rightarrow> 'e streamer \<Rightarrow> 'e streamer option" where
  "close_files C fid [] s = Some s"
| "close_files C fid (k # ks) s = (case close_file C fid k s of None \<Rightarrow> None | Some s \<Rightarrow> close_files C fid ks s)"

subsection \<open>The capture loop\<close>

text \<open>The parameters \<open>start_capture\<close> takes from the configuration once the device is open; \<open>rate\<close> is the
  rate the device chose.\<close>

definition start_capture ::
  "'e codec_lib \<Rightarrow> bool \<Rightarrow> u32 \<Rightarrow> u32 \<Rightarrow> u8 \<Rightarrow> u8 \<Rightarrow> u16 \<Rightarrow> u8 \<Rightarrow> stream_sink list \<Rightarrow> 'e streamer \<Rightarrow>
   (bool \<times> 'e streamer) option" where
  "start_capture C device_ok cfg_rate rate channels files duration player ks s =
     (if sm_running s then Some (True, s)
      else if \<not> device_ok then Some (False, s)
      else (let chunk = 6144; frame = 16 * unat channels div 8;
                samples = unat (rate * ucast duration) div chunk * chunk;
                s = s\<lparr>sm_rate := rate, sm_channels := channels, sm_files := files, sm_duration := duration,
                      sm_player := player, sm_chunk := chunk, sm_frame := frame, sm_samples := samples,
                      sm_buffer := replicate (samples * frame) 0, sm_offset := 0, sm_total := (\<lambda>_. 0),
                      sm_file := 0, sm_counter := 0, sm_running := True\<rparr>
            in map_option (\<lambda>s. (True, s)) (open_files C cfg_rate ks s)))"

definition overwrite :: "u8 list \<Rightarrow> nat \<Rightarrow> u8 list \<Rightarrow> u8 list" where
  "overwrite buf pos bs = take pos buf @ bs @ drop (pos + length bs) buf"

text \<open>One turn: the chunk goes into the buffer and to the sinks; when no other chunk fits, the files
  are closed and the next ones opened.\<close>

definition capture_turn ::
  "'e codec_lib \<Rightarrow> u32 \<Rightarrow> stream_sink list \<Rightarrow> u8 list \<Rightarrow> 'e streamer \<Rightarrow> 'e streamer option" where
  "capture_turn C rate ks bs s =
     do { let s = s\<lparr>sm_buffer := overwrite (sm_buffer s) (unat (sm_offset s) * sm_frame s) bs\<rparr>;
          s \<leftarrow> save_files ks s;
          let s = s\<lparr>sm_offset := sm_offset s + word_of_nat (sm_chunk s)\<rparr>;
          if unat (sm_offset s) + sm_chunk s > sm_samples s
          then do { s \<leftarrow> close_files C (sm_file s) ks s;
                    if sm_files s = 0 then None
                    else (let s = s\<lparr>sm_file := word_of_nat ((unat (sm_file s) + 1) mod unat (sm_files s)), sm_counter := sm_counter s + 1,
                                   sm_offset := 0\<rparr>
                          in open_files C rate ks s) }
          else Some s }"

fun capture_loop :: "'e codec_lib \<Rightarrow> u32 \<Rightarrow> stream_sink list \<Rightarrow> u8 list list \<Rightarrow> 'e streamer \<Rightarrow> 'e streamer option" where
  "capture_loop C rate ks [] s = Some s"
| "capture_loop C rate ks (bs # bss) s =
     do { s \<leftarrow> capture_turn C rate ks bs s; capture_loop C rate ks bss s }"

definition close_codecs :: "stream_sink list \<Rightarrow> 'e streamer \<Rightarrow> 'e streamer" where
  "close_codecs ks s = fold (\<lambda>k s. s\<lparr>sm_faac := (sm_faac s)(snk_id k := None)\<rparr>) ks s"

definition stop_capture :: "stream_sink list \<Rightarrow> 'e streamer \<Rightarrow> bool \<times> 'e streamer" where
  "stop_capture ks s =
     (if \<not> sm_running s then (True, s) else (True, close_codecs ks (s\<lparr>sm_running := False\<rparr>)))"

definition on_sink_remove :: "u8 \<Rightarrow> 'e streamer \<Rightarrow> bool \<times> 'e streamer" where
  "on_sink_remove i s =
     (True, s\<lparr>sm_faac := (sm_faac s)(i := None), sm_total := (sm_total s)(i := 0)\<rparr>)"

subsection \<open>Queries\<close>

definition streamer_ready :: "stream_sink \<Rightarrow> 'e streamer \<Rightarrow> error_code" where
  "streamer_ready k s =
     (if \<not> sm_running s then daemon_err streamer_not_running
      else if list_ex (\<lambda>ch. ch \<ge> sm_channels s) (snk_map k) then daemon_err streamer_invalid_ch
      else if sm_total s (snk_id k) < sm_samples s * (unat (sm_files s) - 1) then daemon_err streamer_retry_later
      else no_error)"

definition start_file_id :: "'e streamer \<Rightarrow> u8" where
  "start_file_id s = word_of_nat ((unat (sm_file s) + unat (sm_files s) div 2) mod unat (sm_files s))"

text \<open>\<open>get_info\<close>: the code and, on success, the files, the position and the channels; the sample format
  is always ``s16''.\<close>

definition get_info ::
  "u32 \<Rightarrow> stream_sink \<Rightarrow> 'e streamer \<Rightarrow> error_code + (u16 \<times> u8 \<times> u8 \<times> u32 \<times> u8 \<times> u8 \<times> u8 \<times> string)" where
  "get_info cfg_rate k s =
     (let e = streamer_ready k s
      in if e \<noteq> no_error then Inl e
         else Inr (sm_duration s, sm_files s, sm_player s, cfg_rate, word_of_nat (length (snk_map k)),
                   start_file_id s, sm_file s, ''s16''))"

definition get_stream ::
  "stream_sink \<Rightarrow> u8 \<Rightarrow> 'e streamer \<Rightarrow> error_code + (u8 \<times> u8 \<times> u32 \<times> u8 list)" where
  "get_stream k fid s =
     (let e = streamer_ready k s
      in if e \<noteq> no_error then Inl e
         else Inr (sm_file s, start_file_id s, sm_ids s fid, sm_out s (snk_id k, fid)))"

definition live_stream_init ::
  "stream_sink \<Rightarrow> string \<times> int \<Rightarrow> 'e streamer \<Rightarrow> error_code \<times> 'e streamer" where
  "live_stream_init k remote s =
     (let e = streamer_ready k s
      in if e \<noteq> no_error then (e, s)
         else (no_error, s\<lparr>sm_live := (sm_live s)(remote \<mapsto>
                 \<lparr>li_sink = snk_id k,
                  li_file = word_of_nat ((unat (sm_file s) + 1) mod unat (sm_files s)),
                  li_unwriteble = 0\<rparr>)\<rparr>))"

text \<open>\<open>live_stream_wait\<close>, when asked with the file it would send: \<open>Waits\<close> while that is the one being
  written, otherwise the result and what is sent.\<close>

datatype live_turn = Waits | Goes_on "u8 list option" | Ends

definition live_stream_wait :: "bool \<Rightarrow> string \<times> int \<Rightarrow> 'e streamer \<Rightarrow> live_turn \<times> 'e streamer" where
  "live_stream_wait writable remote s =
     (case sm_live s remote of
        None \<Rightarrow> (Ends, s)
      | Some info \<Rightarrow>
          if li_file info = sm_file s then (Waits, s)
          else if writable
          then (Goes_on (Some (sm_out s (li_sink info, li_file info))),
                s\<lparr>sm_live := (sm_live s)(remote \<mapsto>
                    info\<lparr>li_file := word_of_nat ((unat (li_file info) + 1) mod unat (sm_files s)),
                         li_unwriteble := 0\<rparr>)\<rparr>)
          else (let n = li_unwriteble info + 1
                in if n \<ge> sm_files s div 2 then (Ends, s\<lparr>sm_live := (sm_live s)(remote := None)\<rparr>)
                   else (Goes_on None, s\<lparr>sm_live := (sm_live s)(remote \<mapsto> info\<lparr>li_unwriteble := n\<rparr>)\<rparr>)))"

subsection \<open>Where the loop is\<close>

lemma u32_add_small: "unat (x :: u32) + c < 2 ^ 32 \<Longrightarrow> unat (x + word_of_nat c) = unat x + c"
  by (simp add: unat_word_ariths unat_of_nat)

lemma unat_u8_less_256: "unat (x :: u8) < 256"
  using unsigned_less[of x] by simp

text \<open>What the three loops over the sinks leave alone.\<close>

definition position :: "'e streamer \<Rightarrow> u8 \<times> u32 \<times> u32 \<times> nat \<times> u8 \<times> nat \<times> nat \<times> u8" where
  "position s = (sm_file s, sm_counter s, sm_offset s, sm_samples s, sm_files s, sm_chunk s, sm_frame s, sm_channels s)"

lemma setup_codec_position: "setup_codec C rate k s = Some (b, s') \<Longrightarrow> position s' = position s"
  by (auto simp: setup_codec_def Let_def position_def split: option.splits if_splits)

lemma open_files_position: "open_files C rate ks s = Some s' \<Longrightarrow> position s' = position s"
proof (induction ks arbitrary: s)
  case (Cons k ks)
  then show ?case
    by (auto simp: Let_def split: if_splits option.splits prod.splits dest!: setup_codec_position)
       (auto simp: position_def)
qed simp

lemma save_files_position: "save_files ks s = Some s' \<Longrightarrow> position s' = position s"
proof (induction ks arbitrary: s)
  case (Cons k ks)
  then show ?case
    by (auto simp: Let_def split: option.splits) (auto simp: position_def)
qed simp

lemma close_file_position: "close_file C fid k s = Some s' \<Longrightarrow> position s' = position s"
  by (auto simp: close_file_def Let_def position_def split: option.splits)

lemma close_files_position: "close_files C fid ks s = Some s' \<Longrightarrow> position s' = position s"
  by (induction ks arbitrary: s) (auto split: option.splits dest!: close_file_position)

text \<open>After \<open>n\<close> chunks; \<open>per\<close> chunks make a file.\<close>

definition at_chunk :: "nat \<Rightarrow> nat \<Rightarrow> 'e streamer \<Rightarrow> bool" where
  "at_chunk per n s \<longleftrightarrow>
     sm_counter s = word_of_nat (n div per) \<and> unat (sm_file s) = n div per mod unat (sm_files s) \<and>
     unat (sm_offset s) = n mod per * sm_chunk s"

lemma capture_turn_position:
  assumes "capture_turn C rate ks bs s = Some s'" "at_chunk per n s" "0 < per" "0 < sm_chunk s"
    "sm_samples s = per * sm_chunk s" "sm_samples s < 2 ^ 32"
  shows "at_chunk per (Suc n) s' \<and> sm_samples s' = sm_samples s \<and> sm_chunk s' = sm_chunk s \<and>
    sm_files s' = sm_files s"
proof -
  let ?w = "s\<lparr>sm_buffer := overwrite (sm_buffer s) (unat (sm_offset s) * sm_frame s) bs\<rparr>"
  obtain s1 where s1: "save_files ks ?w = Some s1"
    using assms(1) by (auto simp: capture_turn_def bind_eq_Some_conv)
  have p1: "position s1 = position s"
    using save_files_position[OF s1] by (simp add: position_def)
  have m: "n mod per < per" using assms(3) by simp
  have le: "(n mod per + 1) * sm_chunk s \<le> sm_samples s"
    unfolding assms(5) by (rule mult_le_mono1) (use m in simp)
  have off: "unat (sm_offset s1 + word_of_nat (sm_chunk s1)) = (n mod per + 1) * sm_chunk s"
  proof -
    have "unat (sm_offset s) = n mod per * sm_chunk s" using assms(2) by (simp add: at_chunk_def)
    moreover have "(n mod per + 1) * sm_chunk s < 2 ^ 32" using le assms(6) by linarith
    ultimately have "unat (sm_offset s + word_of_nat (sm_chunk s)) = n mod per * sm_chunk s + sm_chunk s"
      by (subst u32_add_small) simp_all
    then show ?thesis using p1 by (simp add: position_def)
  qed
  show ?thesis
  proof (cases "(n mod per + 1) * sm_chunk s + sm_chunk s > sm_samples s")
    case True
    then have "n mod per + 1 = per"
      using m assms(4,5) by (metis Suc_eq_plus1 Suc_leI add.commute le_neq_implies_less linorder_not_less mult_Suc mult_le_mono1)
    then have d: "Suc n div per = Suc (n div per)" "Suc n mod per = 0"
      by (metis Suc_eq_plus1 div_Suc mod_Suc)+
    let ?s2 = "s1\<lparr>sm_offset := sm_offset s1 + word_of_nat (sm_chunk s1)\<rparr>"
    have c: "unat (sm_offset ?s2) + sm_chunk s1 > sm_samples s1"
      using True off p1 by (simp add: position_def)
    obtain s3 where s3: "close_files C (sm_file s1) ks ?s2 = Some s3"
      and s4: "sm_files s3 \<noteq> 0"
        "open_files C rate ks (s3\<lparr>sm_file := word_of_nat ((unat (sm_file s3) + 1) mod unat (sm_files s3)),
           sm_counter := sm_counter s3 + 1, sm_offset := 0\<rparr>) = Some s'"
      using assms(1) s1 c by (auto simp: capture_turn_def Let_def bind_eq_Some_conv split: if_splits)
    have p3: "position s3 = position ?s2" using close_files_position[OF s3] .
    have "unat (word_of_nat ((unat (sm_file s) + 1) mod unat (sm_files s)) :: u8) =
        (unat (sm_file s) + 1) mod unat (sm_files s)"
    proof -
      have "unat (sm_files s) \<noteq> 0" using s4(1) p3 p1 by (simp add: position_def unat_eq_0)
      then have "(unat (sm_file s) + 1) mod unat (sm_files s) < 256"
        using unat_u8_less_256[of "sm_files s"] by (meson mod_less_divisor neq0_conv order.strict_trans)
      then show ?thesis by (simp add: unat_of_nat)
    qed
    then show ?thesis
      using open_files_position[OF s4(2)] p3 p1 assms(2) d
      by (simp add: position_def at_chunk_def mod_Suc_eq)
  next
    case False
    then have "n mod per + 1 \<noteq> per"
    proof -
      have "\<not> per * sm_chunk s + sm_chunk s > sm_samples s" if "n mod per + 1 = per"
        using False that by metis
      then show ?thesis using assms(4,5) by auto
    qed
    then have d: "Suc n div per = n div per" "Suc n mod per = Suc (n mod per)"
      by (simp_all add: div_Suc mod_Suc)
    have "s' = s1\<lparr>sm_offset := sm_offset s1 + word_of_nat (sm_chunk s1)\<rparr>"
      using assms(1) s1 False off p1 by (simp add: capture_turn_def Let_def position_def)
    then show ?thesis
      using p1 assms(2) d off by (simp add: position_def at_chunk_def)
  qed
qed

lemma capture_loop_position:
  assumes "capture_loop C rate ks bss s = Some s'" "at_chunk per n s" "0 < per" "0 < sm_chunk s"
    "sm_samples s = per * sm_chunk s" "sm_samples s < 2 ^ 32"
  shows "at_chunk per (n + length bss) s' \<and> sm_samples s' = sm_samples s \<and> sm_chunk s' = sm_chunk s \<and>
    sm_files s' = sm_files s"
  using assms
proof (induction bss arbitrary: s n)
  case (Cons bs bss)
  obtain s1 where s1: "capture_turn C rate ks bs s = Some s1" "capture_loop C rate ks bss s1 = Some s'"
    using Cons.prems(1) by (auto simp: bind_eq_Some_conv)
  note t = capture_turn_position[OF s1(1) Cons.prems(2-6)]
  with Cons.IH[OF s1(2), of "Suc n"] Cons.prems show ?case by simp
qed simp

text \<open>C28: However many chunks the capture loop has read, the file being written, the number of files
  finished and the place in the buffer are those of that number of chunks: with \<open>p\<close> chunks to a
  file, after \<open>n\<close> of them the file is \<open>n div p\<close> modulo the size of the ring, so that the place is
  always one where a whole chunk fits.\<close>

theorem capture_position:
  assumes "start_capture C True cfg_rate rate channels files duration player ks s = Some (True, s0)"
    and "\<not> sm_running s" and "6144 \<le> sm_samples s0" and "capture_loop C cfg_rate ks bss s0 = Some s'"
  shows "sm_counter s' = word_of_nat (length bss div (sm_samples s0 div 6144)) \<and>
    unat (sm_file s') = length bss div (sm_samples s0 div 6144) mod unat files \<and>
    unat (sm_offset s') = length bss mod (sm_samples s0 div 6144) * 6144 \<and>
    unat (sm_offset s') + 6144 \<le> sm_samples s'"
proof -
  define per where "per = sm_samples s0 div 6144"
  obtain n where p: "position s0 = (0, 0, 0, n div 6144 * 6144, files, 6144, 16 * unat channels div 8, channels)"
    and n: "n < 2 ^ 32"
  proof -
    let ?n = "unat (rate * ucast duration)"
    have "position s0 = (0, 0, 0, ?n div 6144 * 6144, files, 6144, 16 * unat channels div 8, channels)"
      using assms(1,2) by (auto simp: start_capture_def Let_def dest!: open_files_position) (auto simp: position_def)
    moreover have "?n < 2 ^ 32" using unsigned_less[of "rate * ucast duration"] by simp
    ultimately show ?thesis by (rule that)
  qed
  have s0: "sm_samples s0 = per * 6144" "sm_chunk s0 = 6144" "0 < per" "sm_files s0 = files"
    "sm_samples s0 < 2 ^ 32" "at_chunk per 0 s0"
    using p n assms(3) by (auto simp: position_def per_def at_chunk_def)
  have "at_chunk per (length bss) s' \<and> sm_samples s' = per * 6144 \<and> sm_chunk s' = 6144 \<and> sm_files s' = files"
    using capture_loop_position[OF assms(4) s0(6,3)] s0 by simp
  moreover have "length bss mod per * 6144 + 6144 \<le> per * 6144"
  proof -
    have "(length bss mod per + 1) * 6144 \<le> per * 6144"
      by (rule mult_le_mono1) (use s0(3) in \<open>simp add: Suc_leI\<close>)
    then show ?thesis by simp
  qed
  ultimately show ?thesis
    by (simp add: at_chunk_def per_def)
qed
subsection \<open>Encoding\<close>

text \<open>With a codec that takes samples the loop ends, whatever the encoder answers.\<close>

lemma encode_loop_ends:
  assumes "0 < per" "per < 2 ^ 16"
  shows "\<exists>r. encode_loop enc pcm width amount per done e out = Some r"
proof (induction "amount - done" arbitrary: "done" e out rule: less_induct)
  case less
  show ?case
  proof (cases "done + per \<ge> amount")
    case True
    then show ?thesis
      by (subst encode_loop.simps) (simp add: Let_def split: prod.split option.split)
  next
    case False
    then have "amount - (done + per) < amount - done" using assms(1) by simp
    from less[OF this] False show ?thesis
      by (subst encode_loop.simps) (simp add: Let_def split: prod.split option.split)
  qed
qed

lemma encode_loop_stuck:
  assumes never: "\<And>e bs n. fst (enc0 e bs n) \<noteq> None" and "amount > done"
    and ret: "encode_loop enc0 pcm width amount 0 done e out = Some r"
  shows False
proof -
  have "enc = enc0 \<longrightarrow> per = 0 \<longrightarrow> done < amount \<longrightarrow> False"
    if "encode_loop enc pcm width amount per done e out = Some r"
    for enc pcm width amount per "done" e out r
  proof (rule encode_loop.raw_induct [where P = "\<lambda>enc pcm width amount per done e out r.
      enc = enc0 \<longrightarrow> per = 0 \<longrightarrow> done < amount \<longrightarrow> False", OF _ that])
    fix loop enc pcm width amount per "done" e out r
    assume IH: "\<And>enc pcm width amount per done e out r. loop enc pcm width amount per done e out = Some r \<Longrightarrow>
        enc = enc0 \<longrightarrow> per = 0 \<longrightarrow> done < amount \<longrightarrow> False"
      and step: "(let last_one = amount \<le> done + per; n = if last_one then (amount - done) mod 2 ^ 16 else per
        in case enc e (drop (done * width) pcm) n of
             (None, e) \<Rightarrow> Some (None, e)
           | (Some bs, e) \<Rightarrow> if last_one then Some (Some (out @ bs), e)
                           else loop enc pcm width amount per (done + n) e (out @ bs)) = Some r"
    show "enc = enc0 \<longrightarrow> per = 0 \<longrightarrow> done < amount \<longrightarrow> False"
    proof (intro impI)
      assume a: "enc = enc0" "per = 0" "done < amount"
      obtain bs e' where e: "enc e (drop (done * width) pcm) 0 = (Some bs, e')"
        using never[of e "drop (done * width) pcm" 0] a(1) by (metis not_None_eq prod.collapse)
      with step a have "loop enc pcm width amount 0 done e' (out @ bs) = Some r" by (simp add: Let_def)
      from IH[OF this] a show False by simp
    qed
  qed
  from this[OF ret] assms(2) show ?thesis by simp
qed


text \<open>An encoder that gives one byte for each call and counts the samples.\<close>

definition counting_encoder :: "nat \<Rightarrow> u8 list \<Rightarrow> nat \<Rightarrow> u8 list option \<times> nat" where
  "counting_encoder seen bs n = (Some [1], seen + n)"


text \<open>What it encodes: all of the samples, each once.\<close>

lemma encode_loop_counts:
  assumes "0 < per" "per < 2 ^ 16" "done \<le> amount"
  shows "\<exists>bs. encode_loop counting_encoder pcm width amount per done seen out = Some (Some bs, seen + (amount - done))"
  using assms(3)
proof (induction "amount - done" arbitrary: "done" seen out rule: less_induct)
  case less
  show ?case
  proof (cases "done + per \<ge> amount")
    case True
    then have "(amount - done) mod 2 ^ 16 = amount - done" using assms(2) by (intro mod_less) linarith
    with True show ?thesis
      by (subst encode_loop.simps) (simp add: Let_def counting_encoder_def)
  next
    case False
    then have "amount - (done + per) < amount - done" "done + per \<le> amount" using assms(1) by simp_all
    from less.hyps[OF this, of "seen + per" "out @ [1]"] False show ?thesis
      by (subst encode_loop.simps) (simp add: Let_def counting_encoder_def)
  qed
qed

subsection \<open>The capture buffer\<close>

lemma frame_samples_ok:
  "start + channels * width \<le> length buf \<Longrightarrow> \<forall>ch\<in>set chs. unat ch < channels \<Longrightarrow> frame_samples buf start width chs \<noteq> None"
proof (induction chs)
  case (Cons ch chs)
  have "(unat ch + 1) * width \<le> channels * width"
    by (rule mult_le_mono1) (use Cons.prems(2) in simp)
  then have "start + unat ch * width + width \<le> length buf" using Cons.prems(1) by simp
  then show ?case using Cons by (auto simp: slice_def)
qed simp

lemma frame_samples_over:
  "ch \<in> set chs \<Longrightarrow> start + unat ch * width + width > length buf \<Longrightarrow> frame_samples buf start width chs = None"
  by (induction chs) (auto simp: slice_def bind_eq_None_conv split: if_splits)

lemma chunk_samples_ok:
  "(base + n) * (channels * width) \<le> length buf \<Longrightarrow> \<forall>ch\<in>set chs. unat ch < channels \<Longrightarrow>
   chunk_samples buf base (channels * width) width n chs \<noteq> None"
proof (induction n arbitrary: base)
  case (Suc n)
  have "base * (channels * width) + channels * width \<le> (base + Suc n) * (channels * width)"
    by (simp add: add_mult_distrib)
  from frame_samples_ok[OF order.trans[OF this Suc.prems(1)] Suc.prems(2)]
  have "frame_samples buf (base * (channels * width)) width chs \<noteq> None" .
  moreover have "chunk_samples buf (Suc base) (channels * width) width n chs \<noteq> None"
    by (rule Suc.IH) (use Suc.prems in simp_all)
  ultimately show ?case by auto
qed simp

lemma chunk_samples_over:
  "ch \<in> set chs \<Longrightarrow> unat ch \<ge> channels \<Longrightarrow> 0 < width \<Longrightarrow> 0 < n \<Longrightarrow> length buf = (base + n) * (channels * width) \<Longrightarrow>
   chunk_samples buf base (channels * width) width n chs = None"
proof (induction n arbitrary: base)
  case (Suc n)
  show ?case
  proof (cases n)
    case 0
    have "length buf = base * (channels * width) + channels * width"
      using Suc.prems(5) 0 by (simp add: add_mult_distrib)
    then have "base * (channels * width) + unat ch * width + width > length buf"
      using mult_le_mono1[OF Suc.prems(2), of width] Suc.prems(3) by linarith
    then show ?thesis using Suc.prems(1) by (simp add: frame_samples_over)
  next
    case (Suc m)
    then have "0 < n" by simp
    have "length buf = (Suc base + n) * (channels * width)" using Suc.prems(5) by simp
    from Suc.IH[OF Suc.prems(1-3) \<open>0 < n\<close> this]
    have "chunk_samples buf (Suc base) (channels * width) width n chs = None" .
    then show ?thesis by (simp add: bind_eq_None_conv)
  qed
qed simp


lemma save_files_ok:
  assumes "sm_frame s = unat (sm_channels s) * 2" "0 < unat (sm_channels s)"
    "length (sm_buffer s) = sm_samples s * sm_frame s" "unat (sm_offset s) + sm_chunk s \<le> sm_samples s"
    "\<forall>k\<in>set ks. \<forall>ch\<in>set (snk_map k). unat ch < unat (sm_channels s)"
  shows "save_files ks s \<noteq> None"
  using assms
proof (induction ks arbitrary: s)
  case (Cons k ks)
  have w: "sm_frame s div unat (sm_channels s) = 2" using Cons.prems(1,2) by simp
  have "(unat (sm_offset s) + sm_chunk s) * (unat (sm_channels s) * 2) \<le> length (sm_buffer s)"
    unfolding Cons.prems(3) Cons.prems(1) by (rule mult_le_mono1[OF Cons.prems(4)])
  then have "chunk_samples (sm_buffer s) (unat (sm_offset s)) (sm_frame s) 2 (sm_chunk s) (snk_map k) \<noteq> None"
    unfolding Cons.prems(1) by (rule chunk_samples_ok) (use Cons.prems(5) in simp)
  then obtain bs where b: "chunk_samples (sm_buffer s) (unat (sm_offset s)) (sm_frame s) 2 (sm_chunk s) (snk_map k) = Some bs"
    by blast
  let ?s = "s\<lparr>sm_total := (sm_total s)(snk_id k := sm_total s (snk_id k) + sm_chunk s),
      sm_tmp := (sm_tmp s)(snk_id k := sm_tmp s (snk_id k) @ bs)\<rparr>"
  have "save_files ks ?s \<noteq> None"
    by (rule Cons.IH) (use Cons.prems in simp_all)
  then show ?case by (simp add: Let_def w b)
qed simp

lemma save_files_over:
  assumes "sm_frame s = unat (sm_channels s) * 2" "0 < unat (sm_channels s)" "0 < sm_chunk s"
    "length (sm_buffer s) = sm_samples s * sm_frame s" "unat (sm_offset s) + sm_chunk s = sm_samples s"
    "k \<in> set ks" "ch \<in> set (snk_map k)" "unat (sm_channels s) \<le> unat ch"
  shows "save_files ks s = None"
  using assms
proof (induction ks arbitrary: s)
  case (Cons k' ks)
  have w: "sm_frame s div unat (sm_channels s) = 2" using Cons.prems(1,2) by simp
  show ?case
  proof (cases "chunk_samples (sm_buffer s) (unat (sm_offset s)) (sm_frame s) 2 (sm_chunk s) (snk_map k')")
    case None
    then show ?thesis by (simp add: Let_def w)
  next
    case (Some bs)
    have "chunk_samples (sm_buffer s) (unat (sm_offset s)) (sm_frame s) 2 (sm_chunk s) (snk_map k) = None"
      unfolding Cons.prems(1)
      by (rule chunk_samples_over[OF Cons.prems(7,8) _ Cons.prems(3)])
         (use Cons.prems(1,4,5) in simp_all)
    with Some Cons.prems(6) have "k \<in> set ks" by auto
    let ?s = "s\<lparr>sm_total := (sm_total s)(snk_id k' := sm_total s (snk_id k') + sm_chunk s),
        sm_tmp := (sm_tmp s)(snk_id k' := sm_tmp s (snk_id k') @ bs)\<rparr>"
    have "save_files ks ?s = None"
      by (rule Cons.IH) (use Cons.prems \<open>k \<in> set ks\<close> in simp_all)
    then show ?thesis by (simp add: Let_def w Some)
  qed
qed simp

text \<open>Taking the samples of the sinks out of the capture buffer stays inside it for sinks whose
  channels are captured; for the last chunk of a file, a sink with a channel that is not captured
  (which only the queries check) is read past the end of the buffer.\<close>

theorem save_files_bounds:
  assumes "sm_frame s = 16 * unat (sm_channels s) div 8" "0 < sm_channels s" "0 < sm_chunk s"
    and "length (sm_buffer s) = sm_samples s * sm_frame s" "unat (sm_offset s) + sm_chunk s \<le> sm_samples s"
  shows "((\<forall>k\<in>set ks. \<forall>ch\<in>set (snk_map k). ch < sm_channels s) \<longrightarrow> save_files ks s \<noteq> None) \<and>
    (unat (sm_offset s) + sm_chunk s = sm_samples s \<and> (\<exists>k\<in>set ks. \<exists>ch\<in>set (snk_map k). sm_channels s \<le> ch)
       \<longrightarrow> save_files ks s = None)"
proof -
  have f: "sm_frame s = unat (sm_channels s) * 2" using assms(1) by simp
  have c: "0 < unat (sm_channels s)" using assms(2) by (simp add: word_less_nat_alt)
  show ?thesis
    using save_files_ok[OF f c assms(4,5), of ks] save_files_over[OF f c assms(3,4)]
    by (auto simp: word_less_nat_alt word_le_nat_alt)
qed

definition sample_capture :: "u8 list \<Rightarrow> unit streamer \<times> stream_sink" where
  "sample_capture chans =
     (streamer_init\<lparr>sm_chunk := 1, sm_frame := 4, sm_samples := 2, sm_offset := 1, sm_channels := 2,
        sm_buffer := [1, 2, 3, 4, 5, 6, 7, 8]\<rparr>,
      \<lparr>snk_id = 0, snk_name = [], snk_io = [], snk_use_sdp = True, snk_source = [], snk_sdp = [], snk_delay = 0,
       snk_ignore_refclk_gmid = False, snk_map = chans\<rparr>)"

theorem save_files_bounds_witness:
  "save_files [snd (sample_capture [0, 1])] (fst (sample_capture [])) \<noteq> None \<and>
   save_files [snd (sample_capture [2])] (fst (sample_capture [])) = None"
  using save_files_bounds[of "fst (sample_capture [])" "[snd (sample_capture [0, 1])]"]
    save_files_bounds[of "fst (sample_capture [])" "[snd (sample_capture [2])]"]
  by (simp add: sample_capture_def streamer_init_def)

text \<open>A codec that takes 6144 samples and gives one byte, and a sink of two channels.\<close>

definition sample_codec :: "nat codec_lib" where
  "sample_codec = \<lparr>cl_open = (\<lambda>_ _. Some (0, 6144, 8192)), cl_get_config = (\<lambda>_. True),
     cl_set_config = (\<lambda>e _ _. Some e), cl_encode = counting_encoder\<rparr>"

theorem capture_position_witness:
  "\<exists>s0 s'. start_capture sample_codec True 48000 48000 8 8 1 1 [] streamer_init = Some (True, s0) \<and>
     capture_loop sample_codec 48000 [] (replicate 20 []) s0 = Some s' \<and> sm_file s' = 2 \<and> unat (sm_offset s') = 36864"
proof -
  obtain s0 where s0: "start_capture sample_codec True 48000 48000 8 8 1 1 [] streamer_init = Some (True, s0)"
    and n: "sm_samples s0 = 43008" "sm_files s0 = 8"
    by (simp add: start_capture_def streamer_init_def Let_def)
  have t: "\<exists>s'. capture_turn C r [] bs s = Some s' \<and> sm_files s' = sm_files s" if "sm_files s \<noteq> 0"
    for C :: "nat codec_lib" and r bs and s :: "nat streamer"
    using that by (auto simp: capture_turn_def Let_def)
  have "\<exists>s'. capture_loop C r [] bss s = Some s'" if "sm_files s \<noteq> 0"
    for C :: "nat codec_lib" and r bss and s :: "nat streamer"
    using that
  proof (induction bss arbitrary: s)
    case (Cons bs bss)
    from t[OF Cons.prems, of C r bs] obtain s1 where "capture_turn C r [] bs s = Some s1" "sm_files s1 = sm_files s" by blast
    with Cons show ?case by auto
  qed simp
  from this[of s0 sample_codec 48000 "replicate 20 []"] obtain s' where s': "capture_loop sample_codec 48000 [] (replicate 20 []) s0 = Some s'"
    using n by auto
  have "\<not> sm_running (streamer_init :: nat streamer)" by (simp add: streamer_init_def)
  from capture_position[OF s0 this _ s'] n have "unat (sm_file s') = 2" "unat (sm_offset s') = 36864" by simp_all
  moreover from this have "sm_file s' = 2" by (simp add: word_unat_eq_iff)
  ultimately show ?thesis using s0 s' by blast
qed

end
