(* ===== verification/Channel_Map.thy ===== *)
theory Channel_Map
  imports Json_Props "HOL-Library.Signed_Division"
begin

text \<open>
  \<open>daemon/nmos_is08.cpp\<close>: the channel mapping interface (AMWA IS-08).  The sinks and the capture
  channels of the sound card are inputs, the sources and its playback channels are outputs; an
  activation rewrites the channel maps of sources and sinks, at once or at a later time, and a
  scheduled activation locks the outputs it names.  The handlers run over the session manager's
  own sources and sinks; what is kept besides is the map of pending activations and a counter.

  Parameters: the driver's two operations, the SHA-1 name generator of Boost (\<open>ce_uuid\<close>), the
  property tree reader of \<open>Json\<close> and its compact writer (\<^const>\<open>None\<close> is the exception of
  \<open>write_json\<close>).  Time is the value of \<open>is08_now_ns\<close> during the call.
\<close>

subsection \<open>Environment and state\<close>

record 'd cm_env =
  ce_add :: "rtp_stream_info \<Rightarrow> 'd \<Rightarrow> error_code \<times> u64 \<times> 'd"
  ce_rm :: "u64 \<Rightarrow> 'd \<Rightarrow> error_code \<times> 'd"
  ce_session :: session_env
  ce_alsa_channels :: u8
  ce_lib :: ptree_lib
  ce_write :: "ptree \<Rightarrow> string option"
  ce_uuid :: "string \<Rightarrow> string \<Rightarrow> string"
  ce_node_id :: string

record pending_activation =
  pa_mode :: string
  pa_requested_time :: string
  pa_activation_time :: string
  pa_deadline_ns :: int
  pa_action_json :: string
  pa_locked_outputs :: "string set"

record 'd cm =
  cm_session :: "'d session"
  cm_activations :: "(string \<times> pending_activation) list"
  cm_counter :: u64

record cm_response =
  cr_status :: int
  cr_body :: string

text \<open>What ends a call otherwise than by returning: an exception, or what C++ leaves undefined.\<close>

datatype cm_fault = Cm_throws | Cm_undefined

datatype cm_result = Cm_reply cm_response | Cm_fails cm_fault

definition cm_ok :: "string \<Rightarrow> cm_response" where
  "cm_ok body = \<lparr>cr_status = 200, cr_body = body\<rparr>"

definition cm_error_body :: "int \<Rightarrow> string \<Rightarrow> string" where
  "cm_error_body code msg = ''{'' @ quoted ''code'' @ '': '' @ show_int code @ '', '' @ quoted ''error'' @
     '': '' @ quoted msg @ '', '' @ quoted ''debug'' @ '': '' @ quoted [] @ ''}''"

definition cm_not_found :: cm_response where
  "cm_not_found = \<lparr>cr_status = 404, cr_body = cm_error_body 404 ''Not Found''\<rparr>"

definition cm_bad_request :: "string \<Rightarrow> cm_response" where
  "cm_bad_request msg = \<lparr>cr_status = 400, cr_body = cm_error_body 400 msg\<rparr>"

definition cm_locked :: "string \<Rightarrow> cm_response" where
  "cm_locked msg = \<lparr>cr_status = 423, cr_body = cm_error_body 423 msg\<rparr>"

definition cm_no_content :: cm_response where
  "cm_no_content = \<lparr>cr_status = 204, cr_body = []\<rparr>"

subsection \<open>Times\<close>

text \<open>Division truncates; \<open>std::stoll\<close> throws without digits and outside 64 bits.\<close>

definition in_int64 :: "int \<Rightarrow> bool" where
  "in_int64 i \<longleftrightarrow> - (2 ^ 63) \<le> i \<and> i < 2 ^ 63"

definition ns_to_tai_str :: "int \<Rightarrow> string" where
  "ns_to_tai_str ns =
     (let secs = ns sdiv 1000000000; nsec = ns smod 1000000000;
          (secs, nsec) = (if nsec < 0 then (secs - 1, nsec + 1000000000) else (secs, nsec))
      in show_int secs @ '':'' @ show_int nsec)"

definition stoll :: "string \<Rightarrow> int option" where
  "stoll s = (case strto s of None \<Rightarrow> None
     | Some (neg, n) \<Rightarrow> (let v = (if neg then - int n else int n) in if in_int64 v then Some v else None))"

text \<open>A time that is not one, one whose computation leaves 64 bits (undefined in C++), or a time.\<close>

datatype tai = Tai_bad | Tai_overflow | Tai int

definition parse_tai_str :: "string \<Rightarrow> tai" where
  "parse_tai_str s =
     (case find_str '':'' s of
        None \<Rightarrow> Tai_bad
      | Some colon \<Rightarrow>
          (case (stoll (take colon s), stoll (drop (colon + 1) s)) of
             (Some sec, Some nsec) \<Rightarrow>
               if in_int64 (sec * 1000000000) \<and> in_int64 (sec * 1000000000 + nsec)
               then Tai (sec * 1000000000 + nsec) else Tai_overflow
           | _ \<Rightarrow> Tai_bad))"

subsection \<open>Inputs and outputs\<close>

definition make_resource_uuid :: "'d cm_env \<Rightarrow> string \<Rightarrow> u8 \<Rightarrow> string" where
  "make_resource_uuid E type i = ce_uuid E (ce_node_id E) (type @ ''-'' @ show_u i)"

definition is08_input_id :: "'d cm_env \<Rightarrow> u8 \<Rightarrow> string" where
  "is08_input_id E i = make_resource_uuid E ''cm_input'' i"

definition is08_output_id :: "'d cm_env \<Rightarrow> u8 \<Rightarrow> string" where
  "is08_output_id E i = make_resource_uuid E ''cm_output'' i"

definition is08_alsa_input_id :: "'d cm_env \<Rightarrow> u8 \<Rightarrow> string" where
  "is08_alsa_input_id E ch = make_resource_uuid E ''cm_alsa_in'' ch"

definition is08_alsa_output_id :: "'d cm_env \<Rightarrow> u8 \<Rightarrow> string" where
  "is08_alsa_output_id E ch = make_resource_uuid E ''cm_alsa_out'' ch"

definition cm_sources :: "'d cm_env \<Rightarrow> 'd session \<Rightarrow> stream_source list" where
  "cm_sources E st = get_sources (ce_session E) st"

definition alsa_channels :: "'d cm_env \<Rightarrow> u8 list" where
  "alsa_channels E = map word_of_nat [0..<unat (ce_alsa_channels E)]"

definition find_cm_input_sink_id :: "'d cm_env \<Rightarrow> 'd session \<Rightarrow> string \<Rightarrow> u8 option" where
  "find_cm_input_sink_id E st uuid = List.find (\<lambda>i. is08_input_id E i = uuid) (map snk_id (get_sinks st))"

definition find_cm_output_source_id :: "'d cm_env \<Rightarrow> 'd session \<Rightarrow> string \<Rightarrow> u8 option" where
  "find_cm_output_source_id E st uuid = List.find (\<lambda>i. is08_output_id E i = uuid) (map src_id (cm_sources E st))"

definition find_alsa_input_channel :: "'d cm_env \<Rightarrow> string \<Rightarrow> u8 option" where
  "find_alsa_input_channel E uuid = List.find (\<lambda>ch. is08_alsa_input_id E ch = uuid) (alsa_channels E)"

definition find_alsa_output_channel :: "'d cm_env \<Rightarrow> string \<Rightarrow> u8 option" where
  "find_alsa_output_channel E uuid = List.find (\<lambda>ch. is08_alsa_output_id E ch = uuid) (alsa_channels E)"

subsection \<open>The active map\<close>

definition json_list :: "string list \<Rightarrow> string" where
  "json_list vs = ''['' @ join_with '', '' vs @ '']''"

definition json_map :: "(string \<times> string) list \<Rightarrow> string" where
  "json_map ms = ''{'' @ join_with '', '' (map (\<lambda>(k, v). quoted k @ '': '' @ v) ms) @ ''}''"

definition is08_channels_json :: "nat \<Rightarrow> string" where
  "is08_channels_json n = json_list (map (\<lambda>i. json_map [(''label'', quoted
     (if n = 2 then (if i = 0 then ''Left'' else ''Right'') else ''Ch'' @ show_nat (i + 1)))]) [0..<n])"

text \<open>The first sink channel that stands on a channel of the sound card, in the order of the sinks
  and of their channels.\<close>

definition sink_channels :: "'d session \<Rightarrow> (u8 \<times> nat \<times> u8) list" where
  "sink_channels st = concat (map (\<lambda>k. map (\<lambda>c. (snk_id k, c, snk_map k ! c)) [0..<length (snk_map k)]) (get_sinks st))"

definition find_sink_for_alsa_channel :: "'d session \<Rightarrow> u8 \<Rightarrow> (u8 \<times> nat) option" where
  "find_sink_for_alsa_channel st alsa =
     map_option (\<lambda>(i, c, _). (i, c)) (List.find (\<lambda>(_, _, a). a = alsa) (sink_channels st))"

definition crosspoint :: "string \<Rightarrow> string \<Rightarrow> string" where
  "crosspoint input channel = json_map [(''input'', input), (''channel_index'', channel)]"

definition source_crosspoint :: "'d cm_env \<Rightarrow> 'd session \<Rightarrow> u8 \<Rightarrow> string" where
  "source_crosspoint E st alsa =
     (case find_sink_for_alsa_channel st alsa of
        Some (i, c) \<Rightarrow> crosspoint (quoted (is08_input_id E i)) (show_nat c)
      | None \<Rightarrow> crosspoint (quoted (is08_alsa_input_id E alsa)) ''0'')"

definition alsa_crosspoint :: "'d cm_env \<Rightarrow> 'd session \<Rightarrow> u8 \<Rightarrow> string" where
  "alsa_crosspoint E st alsa =
     (case find_sink_for_alsa_channel st alsa of
        Some (i, c) \<Rightarrow> crosspoint (quoted (is08_input_id E i)) (show_nat c)
      | None \<Rightarrow> crosspoint ''null'' ''null'')"

definition active_map :: "'d cm_env \<Rightarrow> 'd session \<Rightarrow> (string \<times> string) list" where
  "active_map E st =
     map (\<lambda>s. (is08_output_id E (src_id s),
               json_map (map (\<lambda>c. (show_nat c, source_crosspoint E st (src_map s ! c))) [0..<length (src_map s)])))
         (cm_sources E st) @
     map (\<lambda>ch. (is08_alsa_output_id E ch, json_map [(''0'', alsa_crosspoint E st ch)])) (alsa_channels E)"

definition is08_map_active_json :: "'d cm_env \<Rightarrow> 'd session \<Rightarrow> string" where
  "is08_map_active_json E st = json_map
     [(''activation'', json_map [(''mode'', ''null''), (''requested_time'', ''null''), (''activation_time'', ''null'')]),
      (''map'', json_map (active_map E st))]"

subsection \<open>Applying an action\<close>

text \<open>One validated entry (\<open>Is08WorkItem\<close>).\<close>

record work_item =
  wi_is_sender_output :: bool
  wi_output_id :: u8
  wi_output_channel :: int
  wi_clear :: bool
  wi_input_is_sink :: bool
  wi_input_id :: u8
  wi_input_channel :: int

text \<open>\<open>get_optional<std::string>\<close> of a path of two names, and of one.\<close>

definition opt_text :: "string \<Rightarrow> ptree \<Rightarrow> string option" where
  "opt_text k t = map_option tree_data (map_of (tree_kids t) k)"

definition opt_text2 :: "string \<Rightarrow> string \<Rightarrow> ptree \<Rightarrow> string option" where
  "opt_text2 k l t = (case map_of (tree_kids t) k of None \<Rightarrow> None | Some c \<Rightarrow> opt_text l c)"

text \<open>The id of an output: a source, or a playback channel.\<close>

definition resolve_output ::
  "'d cm_env \<Rightarrow> 'd session \<Rightarrow> string \<Rightarrow> string + bool \<times> u8 \<times> nat" where
  "resolve_output E st uuid =
     (case find_cm_output_source_id E st uuid of
        Some i \<Rightarrow> (case get_source (ce_session E) i st of
                     Inl _ \<Rightarrow> Inl (''Unknown output '' @ [CHR 0x27] @ uuid @ [CHR 0x27])
                   | Inr src \<Rightarrow> Inr (True, i, length (src_map src)))
      | None \<Rightarrow> (case find_alsa_output_channel E uuid of
                   Some ch \<Rightarrow> Inr (False, ch, 1)
                 | None \<Rightarrow> Inl (''Unknown output '' @ [CHR 0x27] @ uuid @ [CHR 0x27])))"

text \<open>The input of an entry: whether it is a sink, its id, and the channel.\<close>

definition resolve_input ::
  "'d cm_env \<Rightarrow> 'd session \<Rightarrow> bool \<Rightarrow> string \<Rightarrow> string \<Rightarrow> int \<Rightarrow> string + bool \<times> u8" where
  "resolve_input E st is_sender output uuid channel =
     (case find_cm_input_sink_id E st uuid of
        Some i \<Rightarrow>
          (case get_sink i st of
             Inl _ \<Rightarrow> Inl (''Unknown input '' @ [CHR 0x27] @ uuid @ [CHR 0x27])
           | Inr sink \<Rightarrow>
               if channel < 0 \<or> int (length (snk_map sink)) \<le> channel
               then Inl (''Channel index '' @ show_int channel @ '' out of range for input '' @
                         [CHR 0x27] @ uuid @ [CHR 0x27])
               else Inr (True, i))
      | None \<Rightarrow>
          (case find_alsa_input_channel E uuid of
             None \<Rightarrow> Inl (''Unknown input '' @ [CHR 0x27] @ uuid @ [CHR 0x27])
           | Some ch \<Rightarrow>
               if \<not> is_sender
               then Inl (''Input '' @ [CHR 0x27] @ uuid @ [CHR 0x27] @ '' is not routable to output '' @
                         [CHR 0x27] @ output @ [CHR 0x27])
               else Inr (False, ch)))"

text \<open>One channel of an output: the work item, and its member of the canonical action.\<close>

definition resolve_channel ::
  "'d cm_env \<Rightarrow> 'd session \<Rightarrow> string \<Rightarrow> bool \<times> u8 \<times> nat \<Rightarrow> string \<times> ptree \<Rightarrow>
   string + work_item \<times> string \<times> string" where
  "resolve_channel E st output x y =
     (let (is_sender, out_id, count) = x; (channel_str, entry) = y
      in case stoi channel_str of
           None \<Rightarrow> Inl (''Invalid channel index '' @ [CHR 0x27] @ channel_str @ [CHR 0x27] @ '' for output '' @
                        [CHR 0x27] @ output @ [CHR 0x27])
         | Some oc \<Rightarrow>
             if oc < 0 \<or> int count \<le> oc
             then Inl (''Channel index '' @ channel_str @ '' out of range for output '' @
                       [CHR 0x27] @ output @ [CHR 0x27])
             else
               (case opt_text ''input'' entry of
                  Some uuid \<Rightarrow>
                    if uuid \<noteq> ''null'' \<and> uuid \<noteq> []
                    then (let ic = get_or (pl_int (ce_lib E)) ''channel_index'' 0 entry
                          in map_sum id (\<lambda>(is_sink, i).
                               (\<lparr>wi_is_sender_output = is_sender, wi_output_id = out_id, wi_output_channel = oc,
                                 wi_clear = False, wi_input_is_sink = is_sink, wi_input_id = i,
                                 wi_input_channel = ic\<rparr>,
                                channel_str, crosspoint (quoted uuid) (show_int ic)))
                             (resolve_input E st is_sender output uuid ic))
                    else Inr (\<lparr>wi_is_sender_output = is_sender, wi_output_id = out_id, wi_output_channel = oc,
                               wi_clear = True, wi_input_is_sink = False, wi_input_id = 0,
                               wi_input_channel = 0\<rparr>,
                              channel_str, crosspoint ''null'' ''null'')
                | None \<Rightarrow>
                    Inr (\<lparr>wi_is_sender_output = is_sender, wi_output_id = out_id, wi_output_channel = oc,
                          wi_clear = True, wi_input_is_sink = False, wi_input_id = 0,
                          wi_input_channel = 0\<rparr>,
                         channel_str, crosspoint ''null'' ''null'')))"

fun each_ok :: "('a \<Rightarrow> 'e + 'b) \<Rightarrow> 'a list \<Rightarrow> 'e + 'b list" where
  "each_ok f [] = Inr []"
| "each_ok f (x # xs) = andthen (f x) (\<lambda>y. andthen (each_ok f xs) (\<lambda>ys. Inr (y # ys)))"

text \<open>All entries of an action, or the first error; the canonical text of an output replaces an
  earlier one of the same name.\<close>

definition resolve_entry ::
  "'d cm_env \<Rightarrow> 'd session \<Rightarrow> string \<times> ptree \<Rightarrow> string + work_item list \<times> string \<times> string" where
  "resolve_entry E st x =
     (let (output, channels) = x
      in andthen (resolve_output E st output)
           (\<lambda>out. andthen (each_ok (resolve_channel E st output out) (tree_kids channels))
             (\<lambda>ws. Inr (map fst ws, output, json_map (map snd ws)))))"

definition resolve_action :: "'d cm_env \<Rightarrow> 'd session \<Rightarrow> ptree \<Rightarrow> string + work_item list \<times> string" where
  "resolve_action E st action =
     andthen (each_ok (resolve_entry E st) (tree_kids action))
       (\<lambda>os. Inr (concat (map fst os),
                  json_map (fold (\<lambda>(_, k, v). smap_upd k v) os [])))"

text \<open>Applying one item: a source or a sink that is gone meanwhile is skipped, and so is what
  \<open>add_source\<close> and \<open>add_sink\<close> answer; an index outside a channel map is undefined.\<close>

definition of_outcome :: "outcome \<times> 's \<Rightarrow> cm_fault option \<times> 's" where
  "of_outcome r = (case r of
     (Returns _, s) \<Rightarrow> (None, s) | (Throws, s) \<Rightarrow> (Some Cm_throws, s) | (Undefined_behaviour, s) \<Rightarrow> (Some Cm_undefined, s))"

definition set_chan :: "int \<Rightarrow> u8 \<Rightarrow> u8 list \<Rightarrow> u8 list option" where
  "set_chan c v m = (if 0 \<le> c \<and> c < int (length m) then Some (m[nat c := v]) else None)"

definition get_chan :: "int \<Rightarrow> u8 list \<Rightarrow> u8 option" where
  "get_chan c m = (if 0 \<le> c \<and> c < int (length m) then Some (m ! nat c) else None)"

definition apply_item :: "'d cm_env \<Rightarrow> work_item \<Rightarrow> 'd session \<Rightarrow> cm_fault option \<times> 'd session" where
  "apply_item E w st =
     (if wi_is_sender_output w
      then (case get_source (ce_session E) (wi_output_id w) st of
              Inl _ \<Rightarrow> (None, st)
            | Inr src \<Rightarrow>
                if wi_clear w then (None, st)
                else if wi_input_is_sink w
                then (case get_sink (wi_input_id w) st of
                        Inl _ \<Rightarrow> (None, st)
                      | Inr sink \<Rightarrow>
                          (case get_chan (wi_input_channel w) (snk_map sink) of
                             None \<Rightarrow> (Some Cm_undefined, st)
                           | Some v \<Rightarrow>
                               (case set_chan (wi_output_channel w) v (src_map src) of
                                  None \<Rightarrow> (Some Cm_undefined, st)
                                | Some m \<Rightarrow> of_outcome (add_source (ce_add E) (ce_rm E) (ce_session E)
                                                         (src\<lparr>src_map := m\<rparr>) st))))
                else (case set_chan (wi_output_channel w) (wi_input_id w) (src_map src) of
                        None \<Rightarrow> (Some Cm_undefined, st)
                      | Some m \<Rightarrow> of_outcome (add_source (ce_add E) (ce_rm E) (ce_session E)
                                               (src\<lparr>src_map := m\<rparr>) st)))
      else if wi_clear w then (None, st)
      else (case get_sink (wi_input_id w) st of
              Inl _ \<Rightarrow> (None, st)
            | Inr sink \<Rightarrow>
                (case set_chan (wi_input_channel w) (wi_output_id w) (snk_map sink) of
                   None \<Rightarrow> (Some Cm_undefined, st)
                 | Some m \<Rightarrow> of_outcome (add_sink (ce_add E) (ce_rm E) (ce_session E)
                                          (sink\<lparr>snk_map := m\<rparr>) st))))"

fun apply_items :: "'d cm_env \<Rightarrow> work_item list \<Rightarrow> 'd session \<Rightarrow> cm_fault option \<times> 'd session" where
  "apply_items E [] st = (None, st)"
| "apply_items E (w # ws) st =
     (case apply_item E w st of (Some f, st') \<Rightarrow> (Some f, st') | (None, st') \<Rightarrow> apply_items E ws st')"

datatype applied = Refused string | Applied string | Faulted cm_fault

definition is08_apply_action_json ::
  "'d cm_env \<Rightarrow> string \<Rightarrow> bool \<Rightarrow> 'd session \<Rightarrow> applied \<times> 'd session" where
  "is08_apply_action_json E action_json dry_run st =
     (case pl_read (ce_lib E) action_json of
        Inl _ \<Rightarrow> (Refused ''Could not match the request to the schema'', st)
      | Inr action \<Rightarrow>
          (case resolve_action E st action of
             Inl err \<Rightarrow> (Refused err, st)
           | Inr (work, canonical) \<Rightarrow>
               if dry_run then (Applied canonical, st)
               else (case apply_items E work st of
                       (Some f, st') \<Rightarrow> (Faulted f, st')
                     | (None, st') \<Rightarrow> (Applied canonical, st'))))"

subsection \<open>Activations\<close>

definition is08_output_locked :: "(string \<times> pending_activation) list \<Rightarrow> string \<Rightarrow> string option" where
  "is08_output_locked acts output =
     (if list_ex (\<lambda>(_, pa). output \<in> pa_locked_outputs pa) acts
      then Some (''Output '' @ [CHR 0x27] @ output @ [CHR 0x27] @
                 '' is locked by another activation. No changes will be made.'')
      else None)"

definition or_null :: "string \<Rightarrow> string" where
  "or_null s = (if s = [] then ''null'' else quoted s)"

definition is08_activation_json :: "pending_activation \<Rightarrow> string" where
  "is08_activation_json pa = json_map
     [(''activation'', json_map [(''mode'', quoted (pa_mode pa)),
         (''requested_time'', or_null (pa_requested_time pa)),
         (''activation_time'', or_null (pa_activation_time pa))]),
      (''action'', pa_action_json pa)]"

text \<open>\<open>is08_process_scheduled_activations\<close>: those due are taken out of the map first, then applied in
  the order of the map; an error is ignored, an exception ends the worker.\<close>

fun apply_due :: "'d cm_env \<Rightarrow> pending_activation list \<Rightarrow> 'd session \<Rightarrow> cm_fault option \<times> 'd session" where
  "apply_due E [] st = (None, st)"
| "apply_due E (pa # due) st =
     (case is08_apply_action_json E (pa_action_json pa) False st of
        (Faulted f, st') \<Rightarrow> (Some f, st')
      | (_, st') \<Rightarrow> apply_due E due st')"

definition is08_process_scheduled_activations :: "'d cm_env \<Rightarrow> int \<Rightarrow> 'd cm \<Rightarrow> cm_fault option \<times> 'd cm" where
  "is08_process_scheduled_activations E now s =
     (let due = map snd (filter (\<lambda>(_, pa). pa_deadline_ns pa \<le> now) (cm_activations s));
          rest = filter (\<lambda>(_, pa). \<not> pa_deadline_ns pa \<le> now) (cm_activations s);
          (f, st) = apply_due E due (cm_session s)
      in (f, s\<lparr>cm_activations := rest, cm_session := st\<rparr>))"

text \<open>The POST of an activation, in the handler's three parts: the checks before the counter, an
  immediate activation, and a scheduled one.\<close>

definition activate_now :: "'d cm_env \<Rightarrow> int \<Rightarrow> string \<Rightarrow> string \<Rightarrow> 'd cm \<Rightarrow> cm_result \<times> 'd cm" where
  "activate_now E now i raw s =
     (let (r, st) = is08_apply_action_json E raw False (cm_session s); s = s\<lparr>cm_session := st\<rparr>
      in case r of
           Faulted f \<Rightarrow> (Cm_fails f, s)
         | Refused err \<Rightarrow> (Cm_reply (cm_bad_request err), s)
         | Applied canonical \<Rightarrow>
             (Cm_reply (cm_ok (json_map [(i, is08_activation_json
                \<lparr>pa_mode = ''activate_immediate'', pa_requested_time = [],
                 pa_activation_time = ns_to_tai_str now, pa_deadline_ns = 0,
                 pa_action_json = canonical, pa_locked_outputs = {}\<rparr>)])), s))"

definition schedule ::
  "'d cm_env \<Rightarrow> int \<Rightarrow> string \<Rightarrow> string \<Rightarrow> string \<Rightarrow> ptree \<Rightarrow> ptree \<Rightarrow> 'd cm \<Rightarrow> cm_result \<times> 'd cm" where
  "schedule E now i mode raw pt action s =
     (let (r, st) = is08_apply_action_json E raw True (cm_session s); s = s\<lparr>cm_session := st\<rparr>
      in case r of
           Faulted f \<Rightarrow> (Cm_fails f, s)
         | Refused err \<Rightarrow> (Cm_reply (cm_bad_request err), s)
         | Applied canonical \<Rightarrow>
             (let requested = (case opt_text2 ''activation'' ''requested_time'' pt of None \<Rightarrow> [] | Some t \<Rightarrow> t)
              in case parse_tai_str requested of
                   Tai_bad \<Rightarrow> (Cm_reply (cm_bad_request ''Invalid or missing requested_time''), s)
                 | Tai_overflow \<Rightarrow> (Cm_fails Cm_undefined, s)
                 | Tai t \<Rightarrow>
                     (let relative = (mode = ''activate_scheduled_relative'');
                          deadline = (if relative then now + t else t)
                      in if \<not> in_int64 deadline then (Cm_fails Cm_undefined, s)
                         else (let pa = \<lparr>pa_mode = mode, pa_requested_time = requested,
                                         pa_activation_time = (if relative then ns_to_tai_str deadline else requested),
                                         pa_deadline_ns = deadline, pa_action_json = canonical,
                                         pa_locked_outputs = set (map fst (tree_kids action))\<rparr>
                               in (Cm_reply (cm_ok (json_map [(i, is08_activation_json pa)])\<lparr>cr_status := 202\<rparr>),
                                   s\<lparr>cm_activations := smap_upd i pa (cm_activations s)\<rparr>)))))"

definition post_activation :: "'d cm_env \<Rightarrow> int \<Rightarrow> string \<Rightarrow> 'd cm \<Rightarrow> cm_result \<times> 'd cm" where
  "post_activation E now body s =
     (let bad = (Cm_reply (cm_bad_request ''Could not match the request to the schema''), s)
      in case pl_read (ce_lib E) body of
           Inl _ \<Rightarrow> bad
         | Inr pt \<Rightarrow>
             (let mode = (case opt_text2 ''activation'' ''mode'' pt of None \<Rightarrow> [] | Some m \<Rightarrow> m)
              in if mode \<noteq> ''activate_immediate'' \<and> mode \<noteq> ''activate_scheduled_relative'' \<and>
                    mode \<noteq> ''activate_scheduled_absolute'' then bad
                 else case map_of (tree_kids pt) ''action'' of
                        None \<Rightarrow> bad
                      | Some action \<Rightarrow>
                          (case ce_write E action of
                             None \<Rightarrow> (Cm_fails Cm_throws, s)
                           | Some raw \<Rightarrow>
                               (case List.find (\<lambda>l. l \<noteq> None)
                                       (map (is08_output_locked (cm_activations s) \<circ> fst) (tree_kids action)) of
                                  Some (Some err) \<Rightarrow> (Cm_reply (cm_locked err), s)
                                | _ \<Rightarrow>
                                    (let s = s\<lparr>cm_counter := cm_counter s + 1\<rparr>; i = show_u (cm_counter s)
                                     in if mode = ''activate_immediate'' then activate_now E now i raw s
                                        else schedule E now i mode raw pt action s)))))"

subsection \<open>The routes\<close>

text \<open>Requests are already routed, with what the regular expression matched.\<close>

datatype cm_request =
    Get_root | Get_version | Get_map | Get_inputs | Get_outputs | Get_active | Get_activations
  | Get_input_caps string | Get_input_parent string | Get_input_channels string | Get_input_properties string
  | Get_output_caps string | Get_output_sourceid string | Get_output_channels string | Get_output_properties string
  | Get_activation string | Delete_activation string | Post_activation string

definition find_input :: "'d cm_env \<Rightarrow> 'd session \<Rightarrow> string \<Rightarrow> (u8 + u8) option" where
  "find_input E st uuid =
     (case find_cm_input_sink_id E st uuid of
        Some i \<Rightarrow> Some (Inl i) | None \<Rightarrow> map_option Inr (find_alsa_input_channel E uuid))"

definition find_output :: "'d cm_env \<Rightarrow> 'd session \<Rightarrow> string \<Rightarrow> (u8 + u8) option" where
  "find_output E st uuid =
     (case find_cm_output_source_id E st uuid of
        Some i \<Rightarrow> Some (Inl i) | None \<Rightarrow> map_option Inr (find_alsa_output_channel E uuid))"

definition named :: "string \<Rightarrow> string" where
  "named name = json_map [(''name'', quoted name), (''description'', quoted [])]"

definition input_reply :: "'d cm_env \<Rightarrow> 'd session \<Rightarrow> string \<Rightarrow> (u8 \<Rightarrow> cm_response) \<Rightarrow> (u8 \<Rightarrow> cm_response) \<Rightarrow> cm_response" where
  "input_reply E st uuid f g =
     (case find_input E st uuid of Some (Inl i) \<Rightarrow> f i | Some (Inr ch) \<Rightarrow> g ch | None \<Rightarrow> cm_not_found)"

definition output_reply :: "'d cm_env \<Rightarrow> 'd session \<Rightarrow> string \<Rightarrow> (u8 \<Rightarrow> cm_response) \<Rightarrow> (u8 \<Rightarrow> cm_response) \<Rightarrow> cm_response" where
  "output_reply E st uuid f g =
     (case find_output E st uuid of Some (Inl i) \<Rightarrow> f i | Some (Inr ch) \<Rightarrow> g ch | None \<Rightarrow> cm_not_found)"

definition of_sink :: "'d session \<Rightarrow> u8 \<Rightarrow> (stream_sink \<Rightarrow> string) \<Rightarrow> cm_response" where
  "of_sink st i f = (case get_sink i st of Inl _ \<Rightarrow> cm_not_found | Inr k \<Rightarrow> cm_ok (f k))"

definition of_source :: "'d cm_env \<Rightarrow> 'd session \<Rightarrow> u8 \<Rightarrow> (stream_source \<Rightarrow> string) \<Rightarrow> cm_response" where
  "of_source E st i f = (case get_source (ce_session E) i st of Inl _ \<Rightarrow> cm_not_found | Inr x \<Rightarrow> cm_ok (f x))"

definition routable_inputs :: "'d cm_env \<Rightarrow> 'd session \<Rightarrow> bool \<Rightarrow> string" where
  "routable_inputs E st alsa = json_map [(''routable_inputs'', json_list (''null'' #
     map (\<lambda>k. quoted (is08_input_id E (snk_id k))) (get_sinks st) @
     (if alsa then map (\<lambda>ch. quoted (is08_alsa_input_id E ch)) (alsa_channels E) else [])))]"

definition get_activations :: "(string \<times> pending_activation) list \<Rightarrow> cm_response" where
  "get_activations acts = cm_ok (json_map (map (\<lambda>(i, pa). (i, is08_activation_json pa)) acts))"

definition get_activation :: "string \<Rightarrow> (string \<times> pending_activation) list \<Rightarrow> cm_response" where
  "get_activation i acts =
     (case map_of acts i of None \<Rightarrow> cm_not_found | Some pa \<Rightarrow> cm_ok (is08_activation_json pa))"

definition is08_get :: "'d cm_env \<Rightarrow> cm_request \<Rightarrow> 'd cm \<Rightarrow> cm_response" where
  "is08_get E req s =
     (let st = cm_session s in
      case req of
        Get_version \<Rightarrow> cm_ok (json_list (map quoted [''inputs/'', ''outputs/'', ''map/'']))
      | Get_map \<Rightarrow> cm_ok (json_list (map quoted [''active/'', ''activations/'']))
      | Get_inputs \<Rightarrow> cm_ok (json_list
          (map (\<lambda>k. quoted (is08_input_id E (snk_id k) @ ''/'')) (get_sinks st) @
           map (\<lambda>ch. quoted (is08_alsa_input_id E ch @ ''/'')) (alsa_channels E)))
      | Get_outputs \<Rightarrow> cm_ok (json_list
          (map (\<lambda>x. quoted (is08_output_id E (src_id x) @ ''/'')) (cm_sources E st) @
           map (\<lambda>ch. quoted (is08_alsa_output_id E ch @ ''/'')) (alsa_channels E)))
      | Get_active \<Rightarrow> cm_ok (is08_map_active_json E st)
      | Get_activations \<Rightarrow> get_activations (cm_activations s)
      | Get_input_caps u \<Rightarrow>
          (let caps = cm_ok (json_map [(''reordering'', ''false''), (''block_size'', ''1'')])
           in input_reply E st u (\<lambda>_. caps) (\<lambda>_. caps))
      | Get_input_parent u \<Rightarrow> input_reply E st u
          (\<lambda>i. cm_ok (json_map [(''id'', quoted (make_resource_uuid E ''receiver'' i)), (''type'', quoted ''receiver'')]))
          (\<lambda>_. cm_ok (json_map [(''id'', ''null''), (''type'', ''null'')]))
      | Get_input_channels u \<Rightarrow> input_reply E st u
          (\<lambda>i. of_sink st i (\<lambda>k. is08_channels_json (length (snk_map k)))) (\<lambda>_. cm_ok (is08_channels_json 1))
      | Get_input_properties u \<Rightarrow> input_reply E st u
          (\<lambda>i. of_sink st i (\<lambda>k. named (''Stream Rx: '' @ snk_name k)))
          (\<lambda>ch. cm_ok (named (''ALSA Capture '' @ show_u ch)))
      | Get_output_caps u \<Rightarrow> output_reply E st u
          (\<lambda>_. cm_ok (routable_inputs E st True)) (\<lambda>_. cm_ok (routable_inputs E st False))
      | Get_output_sourceid u \<Rightarrow> output_reply E st u
          (\<lambda>i. cm_ok (quoted (make_resource_uuid E ''source'' i))) (\<lambda>_. cm_ok ''null'')
      | Get_output_channels u \<Rightarrow> output_reply E st u
          (\<lambda>i. of_source E st i (\<lambda>x. is08_channels_json (length (src_map x)))) (\<lambda>_. cm_ok (is08_channels_json 1))
      | Get_output_properties u \<Rightarrow> output_reply E st u
          (\<lambda>i. of_source E st i (\<lambda>x. named (''Stream Tx: '' @ src_name x)))
          (\<lambda>ch. cm_ok (named (''ALSA Playback '' @ show_u ch)))
      | Get_activation i \<Rightarrow> get_activation i (cm_activations s)
      | _ \<Rightarrow> cm_ok (json_list [quoted ''v1.0/'']))"

definition delete_activation :: "string \<Rightarrow> 'd cm \<Rightarrow> cm_response \<times> 'd cm" where
  "delete_activation i s =
     (if map_of (cm_activations s) i = None then (cm_not_found, s)
      else (cm_no_content, s\<lparr>cm_activations := smap_del i (cm_activations s)\<rparr>))"

definition is08_handle :: "'d cm_env \<Rightarrow> int \<Rightarrow> cm_request \<Rightarrow> 'd cm \<Rightarrow> cm_result \<times> 'd cm" where
  "is08_handle E now req s =
     (case req of
        Post_activation body \<Rightarrow> post_activation E now body s
      | Delete_activation i \<Rightarrow> (case delete_activation i s of (r, s') \<Rightarrow> (Cm_reply r, s'))
      | _ \<Rightarrow> (Cm_reply (is08_get E req s), s))"

subsection \<open>Times are read as written\<close>

lemma sdiv_floor:
  fixes a b :: int assumes "0 < b"
  shows "(if a smod b < 0 then a sdiv b - 1 else a sdiv b) = a div b"
    and "(if a smod b < 0 then a smod b + b else a smod b) = a mod b"
proof -
  define q r where "q = a sdiv b" and "r = a smod b"
  have e: "a = q * b + r" by (simp add: q_def r_def sdiv_mult_smod_eq)
  have l: "\<bar>r\<bar> < b"
    unfolding r_def using assms smod_int_range[of b a] by (simp add: abs_less_iff)
  have s: "0 \<le> a \<Longrightarrow> 0 \<le> r"
    unfolding r_def using assms smod_int_compares(2)[of a b] by simp
  have "(if r < 0 then q - 1 else q) = a div b \<and> (if r < 0 then r + b else r) = a mod b"
  proof (cases "r < 0")
    case True
    have "a = b * (q - 1) + (r + b)" "0 \<le> r + b" "r + b < b" using e l True by (auto simp: algebra_simps)
    then have "a div b = q - 1" "a mod b = r + b"
      by (rule int_div_pos_eq, rule int_mod_pos_eq)
    with True show ?thesis by simp
  next
    case False
    then have "a = b * q + r" "0 \<le> r" "r < b" using e l by (auto simp: algebra_simps)
    then have "a div b = q" "a mod b = r"
      by (rule int_div_pos_eq, rule int_mod_pos_eq)
    with False show ?thesis by simp
  qed
  then show "(if a smod b < 0 then a sdiv b - 1 else a sdiv b) = a div b"
    "(if a smod b < 0 then a smod b + b else a smod b) = a mod b"
    unfolding q_def r_def by blast+
qed

lemma ns_to_tai_floor: "ns_to_tai_str ns = show_int (ns div 1000000000) @ '':'' @ show_int (ns mod 1000000000)"
  using sdiv_floor[of 1000000000 ns] by (simp add: ns_to_tai_str_def Let_def split: if_splits)

lemma stoll_show_int: "in_int64 i \<Longrightarrow> stoll (show_int i) = Some i"
  by (auto simp: stoll_def show_int_def strto_neg Let_def)

lemma show_int_colon: "CHR '':'' \<notin> set (show_int i)"
proof -
  have "\<not> is_digit (CHR '':'')" by (simp add: is_digit_def)
  then show ?thesis by (auto simp: show_int_def dest: show_nat_digits)
qed

lemma find_colon: "CHR '':'' \<notin> set a \<Longrightarrow> find_str '':'' (a @ '':'' @ b) = Some (length a)"
  by (induction a) (auto simp: starts_with_def)

text \<open>A time printed for an activation is read back as the same number of nanoseconds, except for
  the last second before the smallest 64-bit value, where reading it overflows.\<close>

theorem tai_roundtrip:
  assumes "in_int64 ns"
  shows "parse_tai_str (ns_to_tai_str ns) = (if - 9223372036000000000 \<le> ns then Tai ns else Tai_overflow)"
proof -
  let ?q = "ns div 1000000000" and ?r = "ns mod 1000000000"
  have r: "0 \<le> ?r" "?r < 1000000000" by simp_all
  have "in_int64 ?q" "in_int64 ?r"
    using assms r by (auto simp: in_int64_def)
  then have "parse_tai_str (ns_to_tai_str ns) =
     (if in_int64 (?q * 1000000000) \<and> in_int64 (?q * 1000000000 + ?r) then Tai (?q * 1000000000 + ?r) else Tai_overflow)"
    unfolding ns_to_tai_floor parse_tai_str_def find_colon[OF show_int_colon] by (simp add: stoll_show_int)
  moreover have "?q * 1000000000 + ?r = ns" by simp
  moreover have "in_int64 (?q * 1000000000) \<longleftrightarrow> - 9223372036000000000 \<le> ns"
  proof -
    define q where "q = ?q"
    have e: "q * 1000000000 + ?r = ns" by (simp add: q_def)
    have b: "- 9223372036854775808 \<le> ns" "ns < 9223372036854775808" using assms by (simp_all add: in_int64_def)
    have "- 9223372036854775808 \<le> q * 1000000000 \<longleftrightarrow> - 9223372036000000000 \<le> ns"
      using e b r by (cases "- 9223372036 \<le> q") simp_all
    moreover have "q * 1000000000 < 9223372036854775808"
      using e b r by linarith
    ultimately show ?thesis by (simp add: in_int64_def flip: q_def)
  qed
  ultimately show ?thesis using assms by simp
qed

theorem tai_roundtrip_witness:
  "parse_tai_str (ns_to_tai_str 1700000000000000005) = Tai 1700000000000000005 \<and>
   parse_tai_str (ns_to_tai_str (- 9223372036000000001)) = Tai_overflow"
  using tai_roundtrip[of 1700000000000000005] tai_roundtrip[of "- 9223372036000000001"]
  by (simp add: in_int64_def)

subsection \<open>Errors change nothing\<close>

lemma apply_action_kept:
  "is08_apply_action_json E js dry st = (r, st') \<Longrightarrow> dry \<or> (\<exists>err. r = Refused err) \<Longrightarrow> st' = st"
  by (auto simp: is08_apply_action_json_def split: sum.splits prod.splits option.splits if_splits)

definition cm_error :: "cm_response \<Rightarrow> bool" where
  "cm_error r \<longleftrightarrow> cr_status r \<in> {400, 404, 423}"

definition cm_proper :: "'d cm \<Rightarrow> cm_result \<times> 'd cm \<Rightarrow> bool" where
  "cm_proper s x \<longleftrightarrow> (\<forall>r. fst x = Cm_reply r \<longrightarrow>
     cr_status r \<in> {200, 202, 204} \<or>
     cm_error r \<and> cm_session (snd x) = cm_session s \<and> cm_activations (snd x) = cm_activations s)"

lemma cm_proper_simps [simp]:
  "cm_proper s (Cm_reply (cm_ok b), s')" "cm_proper s (Cm_reply (cm_ok b\<lparr>cr_status := 202\<rparr>), s')"
  "cm_proper s (Cm_reply cm_no_content, s')" "cm_proper s (Cm_fails f, s')"
  by (simp_all add: cm_proper_def cm_ok_def cm_no_content_def)

lemma cm_proper_error [simp]:
  assumes "cm_session s' = cm_session s" "cm_activations s' = cm_activations s"
  shows "cm_proper s (Cm_reply (cm_bad_request m), s')" "cm_proper s (Cm_reply (cm_locked m), s')"
    "cm_proper s (Cm_reply cm_not_found, s')"
  using assms by (simp_all add: cm_proper_def cm_error_def cm_bad_request_def cm_locked_def cm_not_found_def)

lemma cm_proper_now:
  assumes "cm_session s' = cm_session s" "cm_activations s' = cm_activations s"
  shows "cm_proper s (activate_now E now i raw s')"
proof -
  obtain r st where a: "is08_apply_action_json E raw False (cm_session s') = (r, st)" by fastforce
  show ?thesis
    unfolding activate_now_def a Let_def prod.case using assms apply_action_kept[OF a] by (cases r) simp_all
qed

lemma cm_proper_schedule:
  assumes "cm_session s' = cm_session s" "cm_activations s' = cm_activations s"
  shows "cm_proper s (schedule E now i mode raw pt action s')"
proof -
  obtain r st where a: "is08_apply_action_json E raw True (cm_session s') = (r, st)" by fastforce
  then have "st = cm_session s'" using apply_action_kept by blast
  with assms show ?thesis
    unfolding schedule_def a Let_def prod.case by (cases r) (simp_all split: tai.split)
qed

lemma cm_proper_post: "cm_proper s (post_activation E now body s)"
proof -
  have "cm_proper s (Cm_reply (cm_bad_request m), s)" for m by simp
  then show ?thesis
    unfolding post_activation_def Let_def
    by (auto intro!: cm_proper_now cm_proper_schedule split: sum.split option.split)
qed

definition got :: "cm_response \<Rightarrow> bool" where "got r \<longleftrightarrow> cr_status r = 200 \<or> cr_status r = 404"

lemma got_simps [simp]: "got (cm_ok b)" "got cm_not_found" "got (of_sink st i h)" "got (of_source E st i h')"
  by (simp_all add: got_def cm_ok_def cm_not_found_def of_sink_def of_source_def split: sum.split)

lemma got_activations [simp]: "got (get_activations acts)" "got (get_activation i acts)"
  by (simp_all add: get_activations_def get_activation_def split: option.split)

lemma got_reply:
  "(\<And>i. got (f i)) \<Longrightarrow> (\<And>i. got (g i)) \<Longrightarrow> got (input_reply E st u f g)"
  "(\<And>i. got (f i)) \<Longrightarrow> (\<And>i. got (g i)) \<Longrightarrow> got (output_reply E st u f g)"
  by (simp_all add: input_reply_def output_reply_def split: option.split sum.split)

lemma got_get: "got (is08_get E req s)"
  by (cases req) (simp_all add: is08_get_def Let_def got_reply split: option.split)

text \<open>Every reply of the channel mapping interface has one of six statuses, and an error reply (400,
  404 or 423), even one for an action whose first entries were good, leaves the sources, the
  sinks and the pending activations as they were.\<close>

theorem is08_errors_change_nothing:
  assumes "is08_handle E now req s = (Cm_reply r, s')"
  shows "cr_status r \<in> {200, 202, 204} \<or>
    cr_status r \<in> {400, 404, 423} \<and> cm_session s' = cm_session s \<and> cm_activations s' = cm_activations s"
proof -
  have "cm_proper s (is08_handle E now req s)"
  proof (cases req)
    case (Post_activation body)
    then show ?thesis by (simp add: is08_handle_def cm_proper_post)
  next
    case (Delete_activation i)
    then show ?thesis by (simp add: is08_handle_def delete_activation_def)
  qed (insert got_get[of E req s], auto simp: is08_handle_def cm_proper_def cm_error_def got_def)
  with assms show ?thesis by (simp add: cm_proper_def cm_error_def)
qed

subsection \<open>Locks\<close>

text \<open>A step: a request, a turn of the worker, or a change of the sources and sinks from elsewhere.\<close>

inductive cm_step :: "'d cm_env \<Rightarrow> 'd cm \<Rightarrow> 'd cm \<Rightarrow> bool" for E where
  cm_request: "cm_step E s (snd (is08_handle E now req s))"
| cm_worker: "cm_step E s (snd (is08_process_scheduled_activations E now s))"
| cm_elsewhere: "cm_step E s (s\<lparr>cm_session := st\<rparr>)"

definition cm_init :: "'d session \<Rightarrow> 'd cm" where
  "cm_init st = \<lparr>cm_session = st, cm_activations = [], cm_counter = 0\<rparr>"

definition locks_ok :: "(string \<times> pending_activation) list \<Rightarrow> bool" where
  "locks_ok acts \<longleftrightarrow> smap_ok acts \<and>
     (\<forall>(i, p) \<in> set acts. \<forall>(j, q) \<in> set acts. i \<noteq> j \<longrightarrow> pa_locked_outputs p \<inter> pa_locked_outputs q = {})"

lemma locked_iff: "is08_output_locked acts out \<noteq> None \<longleftrightarrow> (\<exists>(i, pa) \<in> set acts. out \<in> pa_locked_outputs pa)"
  by (auto simp: is08_output_locked_def list_ex_iff)

lemma smap_ok_filter [inv_intro]: "smap_ok m \<Longrightarrow> smap_ok (filter P m)"
  by (induction m) (auto simp: smap_ok_def)

lemma locks_ok_subset: "locks_ok acts \<Longrightarrow> smap_ok acts' \<Longrightarrow> set acts' \<subseteq> set acts \<Longrightarrow> locks_ok acts'"
  unfolding locks_ok_def by blast

lemma locks_okD:
  "locks_ok acts \<Longrightarrow> (j, p) \<in> set acts \<Longrightarrow> (k, q) \<in> set acts \<Longrightarrow> j \<noteq> k \<Longrightarrow>
     pa_locked_outputs p \<inter> pa_locked_outputs q = {}"
  unfolding locks_ok_def by blast

lemma locks_ok_upd:
  assumes "locks_ok acts" "\<forall>out \<in> pa_locked_outputs pa. is08_output_locked acts out = None"
  shows "locks_ok (smap_upd i pa acts)"
proof -
  have d: "pa_locked_outputs pa \<inter> pa_locked_outputs q = {}" if "(j, q) \<in> set acts" for j q
    using assms(2) locked_iff[of acts] that by blast
  have "pa_locked_outputs p \<inter> pa_locked_outputs q = {}"
    if x: "(j, p) \<in> set (smap_upd i pa acts)" "(k, q) \<in> set (smap_upd i pa acts)" "j \<noteq> k" for j k p q
  proof -
    have "(j, p) = (i, pa) \<or> (j, p) \<in> set acts" "(k, q) = (i, pa) \<or> (k, q) \<in> set acts"
      using x(1,2) set_smap_upd[of i pa acts] by auto
    then show ?thesis
      using d[of j p] d[of k q] x(3) locks_okD[OF assms(1), of j p k q] by (elim disjE) auto
  qed
  moreover have "smap_ok (smap_upd i pa acts)"
    using smap_ok_upd[of acts i pa] assms(1) by (simp add: locks_ok_def)
  ultimately show ?thesis
    unfolding locks_ok_def by blast
qed

lemma schedule_locks:
  assumes "locks_ok (cm_activations s)" "\<forall>out \<in> set (map fst (tree_kids action)). is08_output_locked (cm_activations s) out = None"
  shows "locks_ok (cm_activations (snd (schedule E now i mode raw pt action s)))"
proof -
  obtain r st where a: "is08_apply_action_json E raw True (cm_session s) = (r, st)" by fastforce
  show ?thesis
    using assms unfolding schedule_def a Let_def prod.case
    by (cases r) (auto simp: locks_ok_upd split: tai.split)
qed

lemma activate_now_activations [simp]:
  "cm_activations (snd (activate_now E now i raw s)) = cm_activations s"
  by (simp add: activate_now_def Let_def split: prod.split applied.split)

lemma find_locked:
  assumes "\<forall>err. List.find (\<lambda>l. l \<noteq> None) (map (is08_output_locked acts \<circ> fst) kids) \<noteq> Some (Some err)"
  shows "\<forall>out \<in> set (map fst kids). is08_output_locked acts out = None"
  using assms by (induction kids) (auto split: if_splits)

lemma post_locks:
  assumes "locks_ok (cm_activations s)"
  shows "locks_ok (cm_activations (snd (post_activation E now body s)))"
proof -
  have "locks_ok (cm_activations (snd (case List.find (\<lambda>l. l \<noteq> None) (map (is08_output_locked (cm_activations s) \<circ> fst) (tree_kids action)) of
      Some (Some err) \<Rightarrow> (Cm_reply (cm_locked err), s)
    | _ \<Rightarrow> (if mode = ''activate_immediate'' then activate_now E now i raw (s\<lparr>cm_counter := n\<rparr>)
            else schedule E now i mode raw pt action (s\<lparr>cm_counter := n\<rparr>)))))"
    (is "locks_ok (cm_activations (snd (case ?f of Some (Some err) \<Rightarrow> _ | _ \<Rightarrow> _)))")
    for action mode i raw n pt
  proof (cases "\<exists>err. ?f = Some (Some err)")
    case False
    then have "\<forall>out \<in> set (map fst (tree_kids action)). is08_output_locked (cm_activations (s\<lparr>cm_counter := n\<rparr>)) out = None"
      using find_locked by simp
    then show ?thesis
      using assms schedule_locks[of "s\<lparr>cm_counter := n\<rparr>"] by (simp split: option.split)
  qed (use assms in auto)
  then show ?thesis
    unfolding post_activation_def Let_def using assms by (simp split: sum.split option.split)
qed

lemma cm_step_locks: "cm_step E s s' \<Longrightarrow> locks_ok (cm_activations s) \<Longrightarrow> locks_ok (cm_activations s')"
proof (induction rule: cm_step.induct)
  case (cm_request s now req)
  then have "locks_ok (smap_del i (cm_activations s))" for i
    by (rule locks_ok_subset) (use cm_request in \<open>auto simp: locks_ok_def intro: smap_ok_del\<close>)
  then show ?case
    using cm_request post_locks[OF cm_request, of E now]
    by (simp add: is08_handle_def delete_activation_def split: cm_request.split)
next
  case (cm_worker s now)
  show ?case
    by (rule locks_ok_subset[OF cm_worker])
       (use cm_worker in \<open>auto simp: is08_process_scheduled_activations_def Let_def locks_ok_def intro: smap_ok_filter split: prod.split\<close>)
qed simp

lemma reachable_locks: "(cm_step E)\<^sup>*\<^sup>* (cm_init st) s \<Longrightarrow> locks_ok (cm_activations s)"
proof (induction rule: rtranclp_induct)
  case base
  show ?case by (simp add: cm_init_def locks_ok_def)
next
  case (step y z)
  then show ?case using cm_step_locks by blast
qed


text \<open>Locks end with the deadline.  Once the worker has looked at the pending activations after
  the deadline of one of them, whether its action could still be applied or not, it is gone and
  none of its outputs is locked; those that are not due stay as they are.\<close>

theorem is08_deadline_unlocks:
  assumes "(cm_step E)\<^sup>*\<^sup>* (cm_init st) s"
    and "map_of (cm_activations s) i = Some p" "pa_deadline_ns p \<le> now" "out \<in> pa_locked_outputs p"
    and "is08_process_scheduled_activations E now s = (f, s')"
  shows "map_of (cm_activations s') i = None \<and> is08_output_locked (cm_activations s') out = None \<and>
    (\<forall>j q. map_of (cm_activations s) j = Some q \<longrightarrow> now < pa_deadline_ns q \<longrightarrow>
       map_of (cm_activations s') j = Some q)"
proof -
  have ok: "locks_ok (cm_activations s)" by (rule reachable_locks[OF assms(1)])
  then have m: "smap_ok (cm_activations s)" by (simp add: locks_ok_def)
  have a: "cm_activations s' = filter (\<lambda>(_, pa). \<not> pa_deadline_ns pa \<le> now) (cm_activations s)"
    using assms(5) by (auto simp: is08_process_scheduled_activations_def Let_def split: prod.splits)
  then have mem: "map_of (cm_activations s') j = Some q \<longleftrightarrow>
      map_of (cm_activations s) j = Some q \<and> now < pa_deadline_ns q" for j q
    using smap_mem[OF m, of j q] smap_mem[of "cm_activations s'" j q] smap_ok_filter[OF m] by auto
  have "i' = i" if "map_of (cm_activations s) i' = Some q" "out \<in> pa_locked_outputs q" for i' q
    using ok that assms(2,4) unfolding locks_ok_def by (blast dest: map_of_SomeD)
  then have "\<not> (\<exists>(j, q) \<in> set (cm_activations s'). out \<in> pa_locked_outputs q)"
    using mem smap_mem[of "cm_activations s'"] smap_ok_filter[OF m] assms(2,3) unfolding a by fastforce
  then have "is08_output_locked (cm_activations s') out = None"
    using locked_iff by blast
  moreover have "map_of (cm_activations s') i = None"
    using mem[of i] assms(2,3) by (metis not_Some_eq option.inject not_less)
  ultimately show ?thesis using mem by blast
qed

subsection \<open>A routed channel\<close>

lemma find_SomeD: "List.find P xs = Some y \<Longrightarrow> P y \<and> y \<in> set xs"
  by (auto simp: find_Some_iff)

definition routed :: "u8 list \<Rightarrow> stream_info \<Rightarrow> bool" where
  "routed m info \<longleftrightarrow> m_byNbOfChannels (leg info 0) = word_of_nat (length m) \<and> m_aui32Routing (leg info 0) = m"

lemma stored_source [simp]:
  "map_of (ss_sources (set_source i info (on_add_source E src info' st))) i = Some info"
  "ss_sinks (set_source i info (on_add_source E src info' st)) = ss_sinks st"
  by (simp_all add: set_source_def)

lemma add_source_leg2_stored:
  assumes "add_source_leg2 add_rtp rm_rtp E src old info st = (Returns no_error, st')" "routed m info"
  shows "ss_sinks st' = ss_sinks st \<and> (\<exists>info'. map_of (ss_sources st') (src_id src) = Some info' \<and> routed m info')"
  using assms
  by (auto simp: add_source_leg2_def Let_def routed_def erase_source_def
      split: if_splits option.splits prod.splits)

lemma drop_old_sinks [simp]: "ss_sinks (drop_old_source rm_rtp E info st) = ss_sinks st"
  by (simp add: drop_old_source_def on_remove_source_def Let_def)

lemma add_source_locked_stored:
  assumes "add_source_locked add_rtp rm_rtp E src info st = (Returns no_error, st')" "routed m info"
  shows "ss_sinks st' = ss_sinks st \<and> (\<exists>info'. map_of (ss_sources st') (src_id src) = Some info' \<and> routed m info')"
proof -
  have r: "routed m (info\<lparr>si_handle := h\<rparr>)" for h using assms(2) by (simp add: routed_def)
  show ?thesis
    using assms unfolding add_source_locked_def Let_def
    by (auto simp: set_source_def split: if_split_asm option.split_asm prod.split_asm
        dest!: add_source_leg2_stored[OF _ r])
qed

lemma add_source_stored:
  assumes "add_source add_rtp rm_rtp E src st = (Returns no_error, st')"
  shows "ss_sinks st' = ss_sinks st \<and> (\<exists>info. map_of (ss_sources st') (src_id src) = Some info \<and> routed (src_map src) info)"
proof -
  have r: "routed (src_map src) (source_info E src v (source_leg E src dest mac ttl))" for v dest mac ttl
    by (simp add: routed_def source_info_def source_leg_def new_info_def)
  show ?thesis
    using assms unfolding add_source_def
    by (auto split: if_splits option.splits prod.splits dest!: add_source_locked_stored[OF _ r])
qed

lemma get_source_routed:
  assumes "map_of (ss_sources st) i = Some info" "routed m info" "length m < 256"
  shows "\<exists>src. get_source E i st = Inr src \<and> src_id src = i \<and> src_map src = m"
  using assms by (simp add: get_source_def get_source_of_def routed_def unsigned_of_nat take_bit_nat_eq_self)

lemma get_source_short: "get_source E i st = Inr src \<Longrightarrow> src_id src = i \<and> length (src_map src) < 256"
proof (cases "map_of (ss_sources st) i")
  case (Some info)
  assume "get_source E i st = Inr src"
  moreover have "unat (m_byNbOfChannels (leg info 0)) < 256"
    using unsigned_less[of "m_byNbOfChannels (leg info 0)", where 'a = nat] by simp
  ultimately show ?thesis
    by (auto simp: get_source_def get_source_of_def Some min.strict_coboundedI2)
qed (simp add: get_source_def)

text \<open>An activation of one crosspoint that names a channel of a source and a channel of a sink, and
  whose update the session manager accepts, gives the source's channel the sound card channel of
  the sink's: the source is read back with that map, all sinks are as before, and the active map
  shows a sink's channel there that stands on the same sound card channel.\<close>

theorem is08_routes_channel:
  assumes "pl_read (ce_lib E) js = Inr (Ptree d [(out, Ptree d' [(ch, entry)])])"
    and "find_cm_output_source_id E st out = Some i" "get_source (ce_session E) i st = Inr src"
    and "stoi ch = Some (int c)" "c < length (src_map src)"
    and "opt_text ''input'' entry = Some u" "u \<noteq> ''null''" "u \<noteq> []"
    and "find_cm_input_sink_id E st u = Some j" "get_sink j st = Inr sink"
    and "get_or (pl_int (ce_lib E)) ''channel_index'' 0 entry = int k" "k < length (snk_map sink)"
    and "add_source (ce_add E) (ce_rm E) (ce_session E) (src\<lparr>src_map := (src_map src)[c := snk_map sink ! k]\<rparr>) st
           = (Returns no_error, st')"
  shows "\<exists>canonical src' j' k' sink'.
    is08_apply_action_json E js False st = (Applied canonical, st') \<and>
    get_source (ce_session E) i st' = Inr src' \<and> src_map src' = (src_map src)[c := snk_map sink ! k] \<and>
    get_sinks st' = get_sinks st \<and>
    source_crosspoint E st' (src_map src' ! c) = crosspoint (quoted (is08_input_id E j')) (show_nat k') \<and>
    sink' \<in> set (get_sinks st') \<and> snk_id sink' = j' \<and> k' < length (snk_map sink') \<and>
    snk_map sink' ! k' = snk_map sink ! k"
proof -
  have s: "src_id src = i" "length (src_map src) < 256" using get_source_short[OF assms(3)] by auto
  obtain info where st': "ss_sinks st' = ss_sinks st" "map_of (ss_sources st') i = Some info"
    "routed ((src_map src)[c := snk_map sink ! k]) info"
    using add_source_stored[OF assms(13)] s by auto
  obtain src' where src': "get_source (ce_session E) i st' = Inr src'" "src_map src' = (src_map src)[c := snk_map sink ! k]"
    using get_source_routed[OF st'(2,3)] s by auto
  have sinks: "get_sinks st' = get_sinks st" by (simp add: get_sinks_def st'(1))
  have sink: "sink \<in> set (get_sinks st)"
    using assms(10) by (force simp: get_sink_def get_sinks_def split: option.splits dest: map_of_SomeD)
  have "(snk_id sink, k, snk_map sink ! k) \<in> set (sink_channels st')"
    using sink assms(12) by (force simp: sink_channels_def sinks)
  then obtain y where y: "List.find (\<lambda>(_, _, a). a = snk_map sink ! k) (sink_channels st') = Some y"
    by (cases "List.find (\<lambda>(_, _, a). a = snk_map sink ! k) (sink_channels st')") (auto simp: find_None_iff)
  obtain j' k' a where "y = (j', k', a)" by (cases y)
  then have f: "List.find (\<lambda>(_, _, a). a = snk_map sink ! k) (sink_channels st') = Some (j', k', a)"
    "(j', k', a) \<in> set (sink_channels st')" "a = snk_map sink ! k"
    using y find_SomeD[OF y] by auto
  then obtain sink' where k': "sink' \<in> set (get_sinks st')" "snk_id sink' = j'" "k' < length (snk_map sink')"
    "snk_map sink' ! k' = snk_map sink ! k"
    by (auto simp: sink_channels_def)
  have x: "source_crosspoint E st' (src_map src' ! c) = crosspoint (quoted (is08_input_id E j')) (show_nat k')"
    using f(1) assms(5) by (simp add: source_crosspoint_def find_sink_for_alsa_channel_def src'(2))
  have "apply_item E \<lparr>wi_is_sender_output = True, wi_output_id = i, wi_output_channel = int c, wi_clear = False,
      wi_input_is_sink = True, wi_input_id = j, wi_input_channel = int k\<rparr> st = (None, st')"
    using assms(3,5,10,12,13) by (simp add: apply_item_def get_chan_def set_chan_def of_outcome_def)
  then have "\<exists>canonical. is08_apply_action_json E js False st = (Applied canonical, st')"
    using assms(1-12)
    by (simp add: is08_apply_action_json_def resolve_action_def resolve_entry_def resolve_output_def
        resolve_channel_def resolve_input_def Let_def)
  with src' sinks x k' show ?thesis by blast
qed

subsection \<open>The text kept for a scheduled activation\<close>

lemma join_blank: "join_with '', '' (x # xs) = join_with '','' (x # map ((@) '' '') xs)"
  by (induction xs arbitrary: x) (simp, case_tac xs, simp_all)

lemma reads_json_map:
  assumes "list_all (\<lambda>(k, v, t). plain k \<and> reads v t) ms"
  shows "reads (json_map (map (\<lambda>(k, v, t). (k, v)) ms)) (Ptree [] (map (\<lambda>(k, v, t). (k, t)) ms))"
proof (cases ms)
  case Nil
  have "json_val n (''{}'' @ r) = Some (leaf [], r)" if "2 \<le> n" for n r
    using that by (cases n) (simp_all add: starts_with_def)
  then show ?thesis by (simp add: Nil json_map_def reads_def)
next
  case (Cons m rest)
  obtain k v t where m: "m = (k, v, t)" by (cases m)
  let ?b = "map (\<lambda>(k, v, t). ('' '', k, v, t)) rest"
  have "reads (json_object [] (map member_text (([], k, v, t) # ?b)) []) (Ptree [] (map member_tree (([], k, v, t) # ?b)))"
    using assms by (intro reads_members) (auto simp: good_member_def list_all_iff Cons m)
  moreover have "json_object [] (map member_text (([], k, v, t) # ?b)) [] = json_map (map (\<lambda>(k, v, t). (k, v)) ms)"
    unfolding json_map_def json_object_def Cons m map_map list.map(2) join_blank
    by (simp add: member_text_def member_def case_prod_beta comp_def)
  moreover have "map member_tree (([], k, v, t) # ?b) = map (\<lambda>(k, v, t). (k, t)) ms"
    by (auto simp: member_tree_def Cons m)
  ultimately show ?thesis by (simp only:)
qed

lemma reads_null: "reads ''null'' (leaf ''null'')"
  by (rule reads_lit) (auto simp: json_scalar_def json_lit_def)

lemma plain_keys: "plain ''input''" "plain ''channel_index''"
  by code_simp+

lemma reads_crosspoint:
  assumes "reads v t" "reads c x"
  shows "reads (crosspoint v c) (Ptree [] [(''input'', t), (''channel_index'', x)])"
  using reads_json_map[of "[(''input'', v, t), (''channel_index'', c, x)]"] assms
  by (simp add: crosspoint_def plain_keys)

text \<open>The library, and the names: documented of Boost are the range of an \<open>int\<close> and that a name is 36
  hexadecimal digits and dashes.\<close>

definition cm_lib_ok :: "'d cm_env \<Rightarrow> bool" where
  "cm_lib_ok E \<longleftrightarrow> reads_json (ce_lib E) \<and>
     (\<forall>s i. pl_int (ce_lib E) s = Some i \<longrightarrow> - (2 ^ 31) \<le> i \<and> i < 2 ^ 31) \<and>
     (\<forall>n s. plain (ce_uuid E n s))"

lemma uuid_plain:
  assumes "cm_lib_ok E"
  shows "find_cm_input_sink_id E st u = Some i \<Longrightarrow> plain u"
    "find_cm_output_source_id E st u = Some i \<Longrightarrow> plain u"
    "find_alsa_input_channel E u = Some i \<Longrightarrow> plain u"
    "find_alsa_output_channel E u = Some i \<Longrightarrow> plain u"
  using assms
  by (auto simp: cm_lib_ok_def find_cm_input_sink_id_def find_cm_output_source_id_def
      find_alsa_input_channel_def find_alsa_output_channel_def is08_input_id_def is08_output_id_def
      is08_alsa_input_id_def is08_alsa_output_id_def make_resource_uuid_def dest!: find_SomeD)

lemma resolve_plain:
  assumes "cm_lib_ok E"
  shows "resolve_output E st u = Inr x \<Longrightarrow> plain u" "resolve_input E st b out u c = Inr y \<Longrightarrow> plain u"
  using uuid_plain[OF assms]
  by (auto simp: resolve_output_def resolve_input_def split: option.splits)

lemma channel_index_int:
  assumes "cm_lib_ok E"
  shows "get_or (pl_int (ce_lib E)) ''channel_index'' 0 (Ptree d [(''input'', t),
    (''channel_index'', leaf (show_int (get_or (pl_int (ce_lib E)) ''channel_index'' 0 entry)))]) =
    get_or (pl_int (ce_lib E)) ''channel_index'' 0 entry"
proof -
  let ?i = "get_or (pl_int (ce_lib E)) ''channel_index'' 0 entry"
  have "- (2 ^ 31) \<le> ?i \<and> ?i < 2 ^ 31"
  proof (cases "get_at (pl_int (ce_lib E)) ''channel_index'' entry")
    case (Inr i)
    then obtain s where "pl_int (ce_lib E) s = Some i"
      by (auto simp: get_at_def get_child_def get_value_def split: option.splits)
    then show ?thesis using assms by (auto simp: cm_lib_ok_def get_or_def Inr)
  qed (simp add: get_or_def)
  then have "pl_int (ce_lib E) (show_int ?i) = Some ?i"
    using assms by (simp add: cm_lib_ok_def reads_json_def)
  then show ?thesis
    by (simp add: get_or_def[of _ _ _ "Ptree d z" for z] get_at_def[of _ _ "Ptree d z" for z] get_child_def get_value_def)
qed

lemma canonical_channel:
  assumes ok: "cm_lib_ok E" and r: "resolve_channel E st out x (cs, entry) = Inr (w, cs', txt)"
  shows "cs' = cs \<and> (\<exists>t. reads txt t \<and> resolve_channel E st out x (cs, t) = Inr (w, cs, txt))"
proof (cases "\<exists>u. opt_text ''input'' entry = Some u \<and> u \<noteq> ''null'' \<and> u \<noteq> []")
  case True
  then obtain u where u: "opt_text ''input'' entry = Some u" "u \<noteq> ''null''" "u \<noteq> []" by blast
  let ?ic = "get_or (pl_int (ce_lib E)) ''channel_index'' 0 entry"
  let ?t = "Ptree [] [(''input'', leaf u), (''channel_index'', leaf (show_int ?ic))]"
  obtain s oi n where x: "x = (s, oi, n)" by (cases x)
  obtain y where y: "resolve_input E st s out u ?ic = Inr y"
  proof (cases "resolve_input E st s out u ?ic")
    case (Inl e)
    then show ?thesis using r u by (simp add: resolve_channel_def x Let_def split: option.split_asm if_split_asm)
  qed
  obtain is_sink i where y': "y = (is_sink, i)" by (cases y)
  have t: "txt = crosspoint (quoted u) (show_int ?ic)" "cs' = cs"
    using r u y by (simp_all add: y' resolve_channel_def x Let_def split: option.split_asm if_split_asm)
  have "reads txt ?t"
    unfolding t using resolve_plain(2)[OF ok y] by (intro reads_crosspoint reads_plain reads_int)
  moreover have "resolve_channel E st out x (cs, ?t) = resolve_channel E st out x (cs, entry)"
  proof -
    have "opt_text ''input'' ?t = Some u" by (simp add: opt_text_def)
    then show ?thesis
      using channel_index_int[OF ok, of "[]" "leaf u" entry]
      unfolding resolve_channel_def x Let_def prod.case u(1) by (simp only:)
  qed
  ultimately show ?thesis using r t by auto
next
  case False
  let ?t = "Ptree [] [(''input'', leaf ''null''), (''channel_index'', leaf ''null'')]"
  obtain s oi n where x: "x = (s, oi, n)" by (cases x)
  have o: "opt_text ''input'' ?t = Some ''null''" by (simp add: opt_text_def)
  have f: "opt_text ''input'' entry = None \<or> opt_text ''input'' entry = Some ''null'' \<or> opt_text ''input'' entry = Some []"
    using False by (cases "opt_text ''input'' entry") auto
  then have "txt = crosspoint ''null'' ''null'' \<and> cs' = cs"
    using r by (elim disjE) (simp_all add: resolve_channel_def x Let_def split: option.split_asm if_split_asm)
  moreover have "resolve_channel E st out x (cs, ?t) = resolve_channel E st out x (cs, entry)"
    using f by (elim disjE) (simp_all add: resolve_channel_def x Let_def o split: option.split)
  ultimately show ?thesis using r reads_crosspoint[OF reads_null reads_null] by auto
qed

lemma canonical_channels:
  assumes ok: "cm_lib_ok E"
  shows "each_ok (resolve_channel E st out x) kids = Inr ws \<Longrightarrow> \<forall>k \<in> fst ` set kids. plain k \<Longrightarrow>
    \<exists>ms. map (\<lambda>(k, v, t). (k, v)) ms = map snd ws \<and> list_all (\<lambda>(k, v, t). plain k \<and> reads v t) ms \<and>
      each_ok (resolve_channel E st out x) (map (\<lambda>(k, v, t). (k, t)) ms) = Inr ws"
proof (induction kids arbitrary: ws)
  case (Cons y kids)
  obtain cs entry where y: "y = (cs, entry)" by (cases y)
  obtain w cs' tx where r: "resolve_channel E st out x (cs, entry) = Inr (w, cs', tx)"
    using Cons.prems(1) unfolding y by (cases "resolve_channel E st out x (cs, entry)") auto
  obtain vs where vs: "each_ok (resolve_channel E st out x) kids = Inr vs" "ws = (w, cs', tx) # vs"
    using Cons.prems(1) r unfolding y by (cases "each_ok (resolve_channel E st out x) kids") auto
  obtain t where t: "cs' = cs" "reads tx t" "resolve_channel E st out x (cs, t) = Inr (w, cs, tx)"
    using canonical_channel[OF ok r] by blast
  obtain ms where "map (\<lambda>(k, v, t). (k, v)) ms = map snd vs" "list_all (\<lambda>(k, v, t). plain k \<and> reads v t) ms"
    "each_ok (resolve_channel E st out x) (map (\<lambda>(k, v, t). (k, t)) ms) = Inr vs"
    using Cons.IH[OF vs(1)] Cons.prems(2) by auto
  then show ?case
    using t vs(2) Cons.prems(2) by (intro exI[of _ "(cs, tx, t) # ms"]) (simp add: y)
qed simp

lemma canonical_entry:
  assumes ok: "cm_lib_ok E" and r: "resolve_entry E st (out, channels) = Inr (ws, out', tx)"
    and p: "\<forall>k \<in> fst ` set (tree_kids channels). plain k"
  shows "out' = out \<and> plain out \<and> (\<exists>t. reads tx t \<and> resolve_entry E st (out, t) = Inr (ws, out, tx))"
proof -
  obtain x where x: "resolve_output E st out = Inr x"
    using r by (cases "resolve_output E st out") (auto simp: resolve_entry_def)
  obtain vs where vs: "each_ok (resolve_channel E st out x) (tree_kids channels) = Inr vs"
    "ws = map fst vs" "out' = out" "tx = json_map (map snd vs)"
    using r x by (cases "each_ok (resolve_channel E st out x) (tree_kids channels)") (auto simp: resolve_entry_def)
  obtain ms where ms: "map (\<lambda>(k, v, t). (k, v)) ms = map snd vs" "list_all (\<lambda>(k, v, t). plain k \<and> reads v t) ms"
    "each_ok (resolve_channel E st out x) (map (\<lambda>(k, v, t). (k, t)) ms) = Inr vs"
    using canonical_channels[OF ok vs(1) p] by blast
  show ?thesis
    using reads_json_map[OF ms(2)] ms(1,3) x vs resolve_plain(1)[OF ok x]
    by (auto simp: resolve_entry_def intro!: exI[of _ "Ptree [] (map (\<lambda>(k, v, t). (k, t)) ms)"])
qed

lemma canonical_entries:
  assumes ok: "cm_lib_ok E"
  shows "each_ok (resolve_entry E st) kids = Inr os \<Longrightarrow>
      \<forall>(k, c) \<in> set kids. \<forall>l \<in> fst ` set (tree_kids c). plain l \<Longrightarrow>
    map (\<lambda>a. fst (snd a)) os = map fst kids \<and>
    (\<exists>ms. map (\<lambda>(k, v, t). (k, v)) ms = map snd os \<and> list_all (\<lambda>(k, v, t). plain k \<and> reads v t) ms \<and>
      each_ok (resolve_entry E st) (map (\<lambda>(k, v, t). (k, t)) ms) = Inr os)"
proof (induction kids arbitrary: os)
  case (Cons y kids)
  obtain out channels where y: "y = (out, channels)" by (cases y)
  obtain ws out' tx where r: "resolve_entry E st (out, channels) = Inr (ws, out', tx)"
    using Cons.prems(1) unfolding y by (cases "resolve_entry E st (out, channels)") auto
  obtain vs where vs: "each_ok (resolve_entry E st) kids = Inr vs" "os = (ws, out', tx) # vs"
    using Cons.prems(1) r unfolding y by (cases "each_ok (resolve_entry E st) kids") auto
  obtain t where t: "out' = out" "plain out" "reads tx t" "resolve_entry E st (out, t) = Inr (ws, out, tx)"
    using canonical_entry[OF ok r] Cons.prems(2) by (auto simp: y)
  obtain ms where "map (\<lambda>a. fst (snd a)) vs = map fst kids" "map (\<lambda>(k, v, t). (k, v)) ms = map snd vs"
    "list_all (\<lambda>(k, v, t). plain k \<and> reads v t) ms"
    "each_ok (resolve_entry E st) (map (\<lambda>(k, v, t). (k, t)) ms) = Inr vs"
    using Cons.IH[OF vs(1)] Cons.prems(2) by auto
  then show ?case
    using t vs(2) by (auto simp: y intro!: exI[of _ "(out, tx, t) # ms"])
qed simp

lemma smap_upd_last: "\<forall>j \<in> fst ` set m. j < k \<Longrightarrow> smap_upd k v m = m @ [(k, v)]"
  by (induction m) auto

lemma fold_smap_sorted:
  "sorted_wrt (<) (map fst (m @ xs)) \<Longrightarrow> fold (\<lambda>(k, v). smap_upd k v) xs m = m @ xs"
proof (induction xs arbitrary: m)
  case (Cons x xs)
  obtain k v where x: "x = (k, v)" by (cases x)
  have "smap_upd k v m = m @ [(k, v)]"
    using Cons.prems by (intro smap_upd_last) (auto simp: x sorted_wrt_append)
  then show ?case using Cons.IH[of "m @ [x]"] Cons.prems by (simp add: x)
qed simp


subsection \<open>A concrete run\<close>

definition sample_cm_env :: "fake_driver cm_env" where
  "sample_cm_env = \<lparr>ce_add = fake_add_rtp_stream, ce_rm = fake_remove_rtp_stream, ce_session = sample_senv,
     ce_alsa_channels = 8, ce_lib = sample_lib\<lparr>pl_int := stoi\<rparr>,
     ce_write = (\<lambda>t. Some (json_map [(fst (hd (tree_kids t)), json_map [(''0'', crosspoint (quoted ''cm_input-5'') (show_int 1))])])),
     ce_uuid = (\<lambda>_ s. filter (\<lambda>c. c \<noteq> dquote \<and> c \<noteq> backslash) s), ce_node_id = ''node''\<rparr>"

text \<open>A disabled source 3 on the channels 0 and 1, and a sink 5 on the channels 6 and 7.\<close>

definition sample_leg_on :: "u8 list \<Rightarrow> stream_info" where
  "sample_leg_on m = new_info\<lparr>si_enabled := False, si_stream := [zero_stream
     \<lparr>m_ui32DestIP := 0xEF010005, m_byNbOfChannels := 2, m_aui32Routing := m\<rparr>, zero_stream]\<rparr>"

definition sample_cm_session :: "fake_driver session" where
  "sample_cm_session = (session_init (fake_driver_init 48000) 0 46 7)
     \<lparr>ss_sources := [(3, sample_leg_on [0, 1])], ss_sinks := [(5, sample_leg_on [6, 7])]\<rparr>"

definition sample_action :: string where
  "sample_action = json_map [(''cm_output-3'', json_map [(''0'', crosspoint (quoted ''cm_input-5'') (show_int 1))])]"

definition sample_action_tree :: ptree where
  "sample_action_tree = Ptree [] [(''cm_output-3'', Ptree [] [(''0'',
     Ptree [] [(''input'', leaf ''cm_input-5''), (''channel_index'', leaf ''1'')])])]"

definition sample_body :: string where
  "sample_body = json_map [(''activation'', json_map [(''mode'', quoted ''activate_scheduled_absolute''),
     (''requested_time'', quoted ''100:0'')]), (''action'', sample_action)]"

lemma sample_plain: "plain ''cm_output-3''" "plain ''0''" "plain ''cm_input-5''" "plain ''activation''" "plain ''mode''"
  "plain ''requested_time''" "plain ''action''" "plain ''activate_scheduled_absolute''" "plain ''100:0''"
  by code_simp+

lemma show_int_1: "show_int 1 = ''1''" by code_simp

lemma reads_sample_action: "reads sample_action sample_action_tree"
  using reads_json_map[of "[(''cm_output-3'', json_map [(''0'', crosspoint (quoted ''cm_input-5'') (show_int 1))],
      Ptree [] [(''0'', Ptree [] [(''input'', leaf ''cm_input-5''), (''channel_index'', leaf (show_int 1))])])]"]
    reads_json_map[of "[(''0'', crosspoint (quoted ''cm_input-5'') (show_int 1),
      Ptree [] [(''input'', leaf ''cm_input-5''), (''channel_index'', leaf (show_int 1))])]"]
    reads_crosspoint[OF reads_plain[OF sample_plain(3)] reads_int[of 1]]
  by (simp add: sample_plain sample_action_def sample_action_tree_def show_int_1)

lemma read_sample_body: "json_read sample_body = Some (Ptree [] [(''activation'', Ptree []
    [(''mode'', leaf ''activate_scheduled_absolute''), (''requested_time'', leaf ''100:0'')]), (''action'', sample_action_tree)])"
proof -
  have "reads (json_map [(''mode'', quoted ''activate_scheduled_absolute''), (''requested_time'', quoted ''100:0'')])
      (Ptree [] [(''mode'', leaf ''activate_scheduled_absolute''), (''requested_time'', leaf ''100:0'')])"
    using reads_json_map[of "[(''mode'', quoted ''activate_scheduled_absolute'', leaf ''activate_scheduled_absolute''),
        (''requested_time'', quoted ''100:0'', leaf ''100:0'')]"]
    by (simp add: sample_plain reads_plain)
  with reads_json_map[of "[(''activation'', json_map [(''mode'', quoted ''activate_scheduled_absolute''), (''requested_time'', quoted ''100:0'')],
        Ptree [] [(''mode'', leaf ''activate_scheduled_absolute''), (''requested_time'', leaf ''100:0'')]),
      (''action'', sample_action, sample_action_tree)]"] reads_sample_action
  have "reads sample_body (Ptree [] [(''activation'', Ptree []
    [(''mode'', leaf ''activate_scheduled_absolute''), (''requested_time'', leaf ''100:0'')]), (''action'', sample_action_tree)])"
    by (simp add: sample_plain sample_body_def)
  from json_read_text[OF this, of "[]"] show ?thesis by simp
qed

lemma read_sample_action: "pl_read (ce_lib sample_cm_env) sample_action = Inr sample_action_tree"
  using json_read_text[OF reads_sample_action, of "[]"]
  by (simp add: sample_cm_env_def sample_lib_def)

lemma stoi_show_int: "- (2 ^ 31) \<le> i \<Longrightarrow> i < 2 ^ 31 \<Longrightarrow> stoi (show_int i) = Some i"
  by (auto simp: stoi_def show_int_def strto_neg Let_def)

lemma sample_cm_lib_ok: "cm_lib_ok sample_cm_env"
proof -
  have "reads_json (ce_lib sample_cm_env)"
    using sample_lib_reads stoi_show_int by (simp add: reads_json_def sample_cm_env_def)
  moreover have "pl_int (ce_lib sample_cm_env) s = Some i \<Longrightarrow> - (2 ^ 31) \<le> i \<and> i < 2 ^ 31" for s i
    by (auto simp: sample_cm_env_def stoi_def Let_def split: option.splits if_splits)
  moreover have "plain (ce_uuid sample_cm_env n s)" for n s
    by (simp add: sample_cm_env_def plain_def list_all_iff)
  ultimately show ?thesis unfolding cm_lib_ok_def by blast
qed

lemma show_u_35: "show_u (3::u8) = ''3''" "show_u (5::u8) = ''5''"
  unfolding show_u_def by code_simp+

lemma sample_cm_found:
  "find_cm_output_source_id sample_cm_env sample_cm_session ''cm_output-3'' = Some 3"
  "find_cm_input_sink_id sample_cm_env sample_cm_session ''cm_input-5'' = Some 5"
  "get_source sample_senv 3 sample_cm_session = Inr (get_source_of sample_senv 3 (sample_leg_on [0, 1]))"
  "get_sink 5 sample_cm_session = Inr (get_sink_of 5 (sample_leg_on [6, 7]))"
  by (simp_all add: find_cm_output_source_id_def find_cm_input_sink_id_def cm_sources_def get_sources_def get_sinks_def
      sample_cm_session_def sample_cm_env_def is08_output_id_def is08_input_id_def make_resource_uuid_def
      get_source_of_def get_sink_of_def show_u_35 get_source_def get_sink_def)

lemma sample_maps:
  "src_map (get_source_of sample_senv 3 (sample_leg_on [0, 1])) = [0, 1]"
  "snk_map (get_sink_of 5 (sample_leg_on [6, 7])) = [6, 7]"
  by (simp_all add: get_source_of_def get_sink_of_def sample_leg_on_def)

lemma sample_update:
  "\<exists>st'. add_source fake_add_rtp_stream fake_remove_rtp_stream sample_senv
     (get_source_of sample_senv 3 (sample_leg_on [0, 1])\<lparr>src_map := [7, 1]\<rparr>) sample_cm_session = (Returns no_error, st')"
  by (simp add: add_source_def dest_or_base_def get_source_of_def sample_leg_on_def new_info_def stream_id_max_def
      sample_senv_def in_multicast_def add_source_locked_def sample_cm_session_def source_info_def Let_def drop_old_source_def)

theorem is08_errors_change_nothing_witness:
  "\<exists>r s'. is08_handle sample_cm_env 0 (Delete_activation ''9'') (cm_init sample_cm_session) = (Cm_reply r, s') \<and>
     cr_status r = 404 \<and> cm_session s' = sample_cm_session"
proof -
  have h: "is08_handle sample_cm_env 0 (Delete_activation ''9'') (cm_init sample_cm_session) = (Cm_reply cm_not_found, cm_init sample_cm_session)"
    by (simp add: is08_handle_def delete_activation_def cm_init_def)
  with is08_errors_change_nothing[OF h] show ?thesis by (simp add: cm_not_found_def cm_init_def)
qed

lemma sample_resolved:
  "resolve_action sample_cm_env sample_cm_session sample_action_tree =
     Inr ([\<lparr>wi_is_sender_output = True, wi_output_id = 3, wi_output_channel = 0, wi_clear = False,
            wi_input_is_sink = True, wi_input_id = 5, wi_input_channel = 1\<rparr>], sample_action)"
proof -
  have s: "stoi ''0'' = Some 0" "stoi ''1'' = Some 1" by code_simp+
  have e: "ce_session sample_cm_env = sample_senv" "pl_int (ce_lib sample_cm_env) = stoi"
    by (simp_all add: sample_cm_env_def)
  show ?thesis
    by (simp add: resolve_action_def resolve_entry_def resolve_output_def resolve_channel_def resolve_input_def
        sample_action_tree_def sample_cm_found sample_maps s e opt_text_def get_or_def get_at_def get_child_def get_value_def
        sample_action_def)
qed

lemma sample_dry_run: "is08_apply_action_json sample_cm_env sample_action True sample_cm_session = (Applied sample_action, sample_cm_session)"
  by (simp add: is08_apply_action_json_def read_sample_action sample_resolved)

theorem is08_routes_channel_witness:
  "\<exists>st' src'. is08_apply_action_json sample_cm_env sample_action False sample_cm_session = (Applied sample_action, st') \<and>
     get_source sample_senv 3 st' = Inr src' \<and> src_map src' = [7, 1]"
proof -
  have s: "stoi ''0'' = Some (int 0)" "stoi ''1'' = Some (int 1)" by code_simp+
  have e: "ce_session sample_cm_env = sample_senv" "pl_int (ce_lib sample_cm_env) = stoi"
    "ce_add sample_cm_env = fake_add_rtp_stream" "ce_rm sample_cm_env = fake_remove_rtp_stream"
    by (simp_all add: sample_cm_env_def)
  let ?src = "get_source_of sample_senv 3 (sample_leg_on [0, 1])" and ?sink = "get_sink_of 5 (sample_leg_on [6, 7])"
  obtain st' where u: "add_source fake_add_rtp_stream fake_remove_rtp_stream sample_senv
     (?src\<lparr>src_map := [7, 1]\<rparr>) sample_cm_session = (Returns no_error, st')"
    using sample_update by blast
  have "\<exists>canonical src' j' k' sink'.
    is08_apply_action_json sample_cm_env sample_action False sample_cm_session = (Applied canonical, st') \<and>
    get_source (ce_session sample_cm_env) 3 st' = Inr src' \<and> src_map src' = (src_map ?src)[0 := snk_map ?sink ! 1] \<and>
    get_sinks st' = get_sinks sample_cm_session \<and>
    source_crosspoint sample_cm_env st' (src_map src' ! 0) = crosspoint (quoted (is08_input_id sample_cm_env j')) (show_nat k') \<and>
    sink' \<in> set (get_sinks st') \<and> snk_id sink' = j' \<and> k' < length (snk_map sink') \<and> snk_map sink' ! k' = snk_map ?sink ! 1"
    by (rule is08_routes_channel[where out = "''cm_output-3''" and ch = "''0''" and u = "''cm_input-5''" and j = 5
        and entry = "Ptree [] [(''input'', leaf ''cm_input-5''), (''channel_index'', leaf ''1'')]"])
       (use u in \<open>simp_all add: read_sample_action sample_action_tree_def opt_text_def get_or_def get_at_def get_child_def
          get_value_def s e sample_maps sample_cm_found\<close>)
  moreover have "canonical = sample_action"
    if "is08_apply_action_json sample_cm_env sample_action False sample_cm_session = (Applied canonical, st')" for canonical
    using that by (auto simp: is08_apply_action_json_def read_sample_action sample_resolved split: prod.splits option.splits)
  ultimately show ?thesis using e(1) by (auto simp: sample_maps)
qed


definition sample_pending :: pending_activation where
  "sample_pending = \<lparr>pa_mode = ''activate_scheduled_absolute'', pa_requested_time = ''100:0'', pa_activation_time = ''100:0'',
     pa_deadline_ns = 100000000000, pa_action_json = sample_action, pa_locked_outputs = {''cm_output-3''}\<rparr>"

definition sample_cm :: "fake_driver cm" where
  "sample_cm = \<lparr>cm_session = sample_cm_session, cm_activations = [(''1'', sample_pending)], cm_counter = 1\<rparr>"

lemma sample_cm_reached: "(cm_step sample_cm_env)\<^sup>*\<^sup>* (cm_init sample_cm_session) sample_cm"
proof -
  have r: "pl_read (ce_lib sample_cm_env) sample_body = Inr (Ptree [] [(''activation'', Ptree []
    [(''mode'', leaf ''activate_scheduled_absolute''), (''requested_time'', leaf ''100:0'')]), (''action'', sample_action_tree)])"
    using read_sample_body by (simp add: sample_cm_env_def sample_lib_def)
  have w: "ce_write sample_cm_env sample_action_tree = Some sample_action"
    by (simp add: sample_cm_env_def sample_action_tree_def sample_action_def)
  have t: "parse_tai_str ''100:0'' = Tai 100000000000" by code_simp
  have o: "show_u (1::u64) = ''1''" unfolding show_u_def by code_simp
  obtain x where k: "tree_kids sample_action_tree = [(''cm_output-3'', x)]"
    by (simp add: sample_action_tree_def)
  have "snd (is08_handle sample_cm_env 0 (Post_activation sample_body) (cm_init sample_cm_session)) = sample_cm"
    by (simp add: is08_handle_def post_activation_def r w k opt_text2_def opt_text_def cm_init_def is08_output_locked_def
        schedule_def sample_dry_run t in_int64_def o sample_cm_def sample_pending_def Let_def)
  then show ?thesis using cm_request[of sample_cm_env "cm_init sample_cm_session" 0 "Post_activation sample_body"] by auto
qed


theorem is08_deadline_unlocks_witness:
  "\<exists>s'. s' = snd (is08_process_scheduled_activations sample_cm_env 100000000000 sample_cm) \<and>
     is08_output_locked (cm_activations sample_cm) ''cm_output-3'' \<noteq> None \<and>
     is08_output_locked (cm_activations s') ''cm_output-3'' = None"
proof -
  have p: "map_of (cm_activations sample_cm) ''1'' = Some sample_pending" "pa_deadline_ns sample_pending \<le> 100000000000"
    "''cm_output-3'' \<in> pa_locked_outputs sample_pending"
    by (simp_all add: sample_cm_def sample_pending_def)
  have "is08_output_locked (cm_activations sample_cm) ''cm_output-3'' \<noteq> None"
    by (simp add: is08_output_locked_def sample_cm_def sample_pending_def)
  then show ?thesis
    using is08_deadline_unlocks[OF sample_cm_reached p prod.collapse[symmetric]] by auto
qed

end
