(* ===== verification/Rtsp_Client.thy ===== *)
theory Rtsp_Client
  imports Rtsp
begin

text \<open>
  \<open>daemon/rtsp_client.cpp\<close>: the client side of RTSP, with which the daemon fetches the SDP of a
  remote source and stays to be told of its updates.  The connection is the text that will
  still arrive on it (\<open>ci_in\<close>; the peer closes behind it); \<open>ci_end\<close> is that reading has met the
  end, which sets \<open>eofbit\<close> and the error code.  The \<open>failbit\<close> alone is only ever set by a status code
  that is not a number, after which the connection is not used again.  Whether the client is still
  registered when \<open>is_active\<close> is called the \<open>n\<close>-th time is a parameter, as is the percent coding of
  cpp-httplib.

  \<open>std::copy_n\<close> does not advance behind the last character it copies, so that the last character
  of a body is read again as the start of what follows it.
\<close>

subsection \<open>Reading the connection\<close>

record cstream =
  ci_in :: string
  ci_end :: bool

definition stream_of :: "string \<Rightarrow> cstream" where
  "stream_of s = \<lparr>ci_in = s, ci_end = False\<rparr>"

text \<open>\<open>std::getline\<close>; \<^const>\<open>None\<close> when the stream is not good and the string stays as it is.\<close>

definition cgetline :: "cstream \<Rightarrow> string option \<times> cstream" where
  "cgetline s =
     (if ci_end s then (None, s)
      else (let l = takeWhile (\<lambda>c. c \<noteq> newline) (ci_in s)
            in if l = ci_in s then (Some l, s\<lparr>ci_in := [], ci_end := True\<rparr>)
               else (Some l, s\<lparr>ci_in := drop (length l + 1) (ci_in s)\<rparr>)))"

text \<open>\<open>s >> word\<close>, and \<open>s >> number\<close> for an \<open>unsigned int\<close>; \<^const>\<open>None\<close> sets the \<open>failbit\<close>.\<close>

definition read_word :: "cstream \<Rightarrow> string \<times> cstream" where
  "read_word s =
     (let t = dropWhile is_space (ci_in s); w = takeWhile (\<lambda>c. \<not> is_space c) t
      in (w, s\<lparr>ci_in := drop (length w) t, ci_end := (w = t)\<rparr>))"

definition read_unsigned :: "cstream \<Rightarrow> (u32 \<times> cstream) option" where
  "read_unsigned s =
     (let t = dropWhile is_space (ci_in s);
          neg = (t \<noteq> [] \<and> hd t = CHR ''-'');
          u = (if t \<noteq> [] \<and> (hd t = CHR ''-'' \<or> hd t = CHR ''+'') then tl t else t);
          ds = takeWhile is_digit u; n = nat_of_digits ds
      in if ci_end s \<or> ds = [] \<or> 2 ^ 32 \<le> n then None
         else Some (if neg then - word_of_nat n else word_of_nat n,
                    s\<lparr>ci_in := drop (length ds) u, ci_end := (ds = u)\<rparr>))"

lemma cgetline_shorter:
  assumes "cgetline s = (Some l, s')" "l \<noteq> [] \<or> \<not> ci_end s'"
  shows "length (ci_in s') < length (ci_in s)"
proof (cases "ci_in s")
  case Nil
  then show ?thesis using assms by (auto simp: cgetline_def split: if_split_asm)
next
  case (Cons c r)
  then show ?thesis
    using assms(1) by (simp add: cgetline_def Let_def split: if_split_asm) (auto simp: Let_def split: if_split_asm)
qed

subsection \<open>Responses and announcements\<close>

definition max_body_length :: nat where "max_body_length = 4096"

record rtsp_response =
  rp_cseq :: int
  rp_content_type :: string
  rp_content_length :: u64
  rp_body :: string

definition no_response :: rtsp_response where
  "no_response = \<lparr>rp_cseq = -1, rp_content_type = [], rp_content_length = 0, rp_body = []\<rparr>"

text \<open>A header line, and the header loop; a number that \<open>std::stoi\<close> refuses ends it.\<close>

definition header_line :: "string \<Rightarrow> rtsp_response \<Rightarrow> rtsp_response option" where
  "header_line h r =
     (let t = trim (map tolower h)
      in if starts_with ''cseq:'' t then map_option (\<lambda>v. r\<lparr>rp_cseq := v\<rparr>) (stoi (drop 5 t))
         else if starts_with ''content-type:'' t then Some (r\<lparr>rp_content_type := trim (drop 13 t)\<rparr>)
         else if starts_with ''content-length:'' t
         then map_option (\<lambda>v. r\<lparr>rp_content_length := word_of_int v\<rparr>) (stoi (drop 15 t))
         else Some r)"

function read_headers :: "cstream \<Rightarrow> rtsp_response \<Rightarrow> rtsp_response \<times> cstream" where
  "read_headers s r =
     (case cgetline s of
        (None, s') \<Rightarrow> (r, s')
      | (Some h, s') \<Rightarrow>
          if h = [] \<or> h = [carriage_return] then (r, s')
          else (case header_line h r of None \<Rightarrow> (r, s') | Some r' \<Rightarrow> read_headers s' r'))"
  by pat_completeness auto
termination
  by (relation "measure (\<lambda>(s, r). length (ci_in s))") (auto dest!: cgetline_shorter[OF sym])

declare read_headers.simps [simp del]

text \<open>\<open>read_response\<close>; \<^const>\<open>None\<close> when the body ends too early (the iterator is read at its end).\<close>

definition read_response :: "cstream \<Rightarrow> (rtsp_response \<times> cstream) option" where
  "read_response s =
     (let (r, s) = read_headers s no_response; n = unat (rp_content_length r)
      in if 0 < n \<and> n < max_body_length
         then (if ci_end s \<or> length (ci_in s) < n then None
               else Some (r\<lparr>rp_body := take n (ci_in s)\<rparr>, s\<lparr>ci_in := drop (n - 1) (ci_in s)\<rparr>))
         else Some (r, s))"

subsection \<open>The client\<close>

definition show_hex :: "u16 \<Rightarrow> string" where
  "show_hex w = (let t = dropWhile (\<lambda>c. c = CHR ''0'') (show_hex_pad 4 (unat w)) in if t = [] then ''0'' else t)"

definition source_of_body :: "string \<Rightarrow> string \<Rightarrow> rtsp_source" where
  "source_of_body dst body = \<lparr>rt_id = ''rtsp:'' @ show_hex (crc16 (map byte_of_char body)),
     rt_source = ''mDNS'', rt_address = dst, rt_sdp = body\<rparr>"

definition no_rtsp_source :: rtsp_source where
  "no_rtsp_source = \<lparr>rt_id = [], rt_source = [], rt_address = [], rt_sdp = []\<rparr>"

record client_call =
  cc_callback :: bool
  cc_name :: string
  cc_domain :: string
  cc_path :: string
  cc_address :: string
  cc_port :: string
  cc_wait :: bool

record client =
  cl_source :: rtsp_source
  cl_seen :: "(string \<times> string \<times> rtsp_source) list"
  cl_sent :: "string list"

datatype client_end = Client_returns bool client | Client_undefined

definition reply_text :: "string \<Rightarrow> int \<Rightarrow> string" where
  "reply_text status cseq = ''RTSP/1.0 '' @ status @ crlf @ ''CSeq: '' @ show_int cseq @ crlf @ crlf"

text \<open>The request line of an update, with the blank lines before it skipped: the line, the
  connection and the number of calls of \<open>is_active\<close>.\<close>

function next_request :: "(nat \<Rightarrow> bool) \<Rightarrow> string \<Rightarrow> cstream \<Rightarrow> nat \<Rightarrow> string \<times> cstream \<times> nat" where
  "next_request act req s n =
     (case cgetline s of
        (l, s') \<Rightarrow>
          (let req = (case l of None \<Rightarrow> req | Some r \<Rightarrow> r)
           in if req = [] \<and> \<not> ci_end s'
              then (if act n then next_request act req s' (n + 1) else (req, s', n + 1))
              else (req, s', n)))"
  by pat_completeness auto
termination
  by (relation "measure (\<lambda>(act, req, s, n). length (ci_in s))") (auto simp: cgetline_def Let_def split: if_split_asm dest: length_pos_if_in_set)

declare next_request.simps [simp del]

text \<open>One pass of the \<open>do\<close> loop up to the wait: the response is checked, the source taken over, the
  server answered and the callback made.  \<open>Inl\<close> is an end of \<open>process\<close>.  An empty callback
  throws, which the \<open>catch\<close> of \<open>process\<close> takes.\<close>

definition take_response ::
  "client_call \<Rightarrow> u16 \<Rightarrow> bool \<Rightarrow> bool \<Rightarrow> string \<Rightarrow> rtsp_response \<Rightarrow> client \<Rightarrow> bool \<times> client + client" where
  "take_response cc cseq is_announce is_describe announced res cl =
     (if is_describe \<and> rp_cseq res \<noteq> int (unat cseq) then Inl (False, cl)
      else if rp_content_type res \<noteq> [] \<and> \<not> starts_with ''application/sdp'' (rp_content_type res)
      then (if is_describe then Inl (False, cl) else Inr cl)
      else
        (let src = source_of_body (cc_address cc) (rp_body res);
             cl = cl\<lparr>cl_source := src,
                     cl_sent := cl_sent cl @
                       (if is_announce then [reply_text ''200 OK'' (rp_cseq res)]
                        else if \<not> is_describe then [reply_text ''405 Method Not Allowed'' (rp_cseq res)] else [])\<rparr>;
             name = (if is_announce \<and> announced = [] then sdp_get_subject (rp_body res) else announced)
         in if is_announce \<or> is_describe
            then (if cc_callback cc
                  then Inr (cl\<lparr>cl_seen := cl_seen cl @ [(if name = [] then cc_name cc else name, cc_domain cc, src)]\<rparr>)
                  else Inl (True, cl))
            else Inr cl))"

text \<open>What the request line of an update announces: \<^const>\<open>None\<close> when \<open>parse_url\<close> or \<open>substr\<close> throws,
  otherwise whether it is an announcement and the name in its URL (looked for only when the path
  that was asked for is one by name).\<close>

definition announced_name :: "(string \<Rightarrow> string) \<Rightarrow> client_call \<Rightarrow> string \<Rightarrow> (bool \<times> string) option" where
  "announced_name decode_url cc request =
     (let fields = split_on (\<lambda>c. c = CHR '' '') (trim request)
      in if 2 \<le> length fields \<and> fields ! 0 = ''ANNOUNCE''
         then (case parse_url decode_url (fields ! 1) of
                 None \<Rightarrow> None
               | Some (ok, _, _, _, lpath) \<Rightarrow>
                   if ok \<and> find_str ''/by-name/'' (cc_path cc) \<noteq> None
                   then map_option (\<lambda>nm. (True, nm)) (substr_from lpath 9)
                   else Some (True, []))
         else Some (False, []))"

lemma cgetline_le: "length (ci_in (snd (cgetline s))) \<le> length (ci_in s)"
  by (simp add: cgetline_def Let_def)

lemma read_headers_shorter: "length (ci_in (snd (read_headers s r))) \<le> length (ci_in s)"
proof (induction s r rule: read_headers.induct)
  case (1 s r)
  obtain l s' where c: "cgetline s = (l, s')" by fastforce
  have k: "length (ci_in s') \<le> length (ci_in s)"
    using cgetline_le[of s] c by simp
  show ?case
  proof (cases l)
    case None
    then show ?thesis using k by (subst read_headers.simps) (simp add: c)
  next
    case (Some h)
    show ?thesis
    proof (cases "h = [] \<or> h = [carriage_return]")
      case True
      then show ?thesis using k by (subst read_headers.simps) (auto simp: c Some)
    next
      case False
      note IH = 1[OF c[symmetric] Some False]
      show ?thesis
        using k IH False by (subst read_headers.simps) (auto simp: c Some split: option.split intro: order_trans)
    qed
  qed
qed

lemma read_response_shorter: "read_response s = Some (r, s') \<Longrightarrow> length (ci_in s') \<le> length (ci_in s)"
  using read_headers_shorter[of s no_response]
  by (auto simp: read_response_def Let_def split: prod.splits if_split_asm)

lemma next_request_shorter:
  "next_request act req s n = (r, s', n') \<Longrightarrow> \<not> ci_end s' \<Longrightarrow> length (ci_in s') < length (ci_in s) \<and> \<not> ci_end s"
proof (induction act req s n rule: next_request.induct)
  case (1 act req s n)
  obtain l t where c: "cgetline s = (l, t)" by fastforce
  show ?case
  proof (cases l)
    case None
    then have "t = s" "ci_end s" using c by (auto simp: cgetline_def Let_def split: if_split_asm)
    then show ?thesis using 1(2,3) c None by (subst (asm) next_request.simps) simp
  next
    case (Some h)
    have e: "\<not> ci_end s" using c Some by (auto simp: cgetline_def split: if_split_asm)
    show ?thesis
    proof (cases "ci_end t")
      case True
      then show ?thesis using 1(2,3) by (subst (asm) next_request.simps) (simp add: c Some)
    next
      case False
      then have k: "length (ci_in t) < length (ci_in s)" using cgetline_shorter c Some by blast
      show ?thesis
        using 1(1)[OF c[symmetric] refl] 1(2,3) k e
        by (subst (asm) next_request.simps) (auto simp: c Some split: if_split_asm)
    qed
  qed
qed

text \<open>The \<open>do\<close> loop of \<open>process\<close>.\<close>

function client_loop ::
  "(string \<Rightarrow> string) \<Rightarrow> (nat \<Rightarrow> bool) \<Rightarrow> client_call \<Rightarrow> u16 \<Rightarrow> bool \<Rightarrow> bool \<Rightarrow> string \<Rightarrow> string \<Rightarrow>
   cstream \<Rightarrow> nat \<Rightarrow> client \<Rightarrow> client_end" where
  "client_loop decode_url act cc cseq is_announce is_describe announced request s n cl =
     (case read_response s of
        None \<Rightarrow> Client_undefined
      | Some (res, s1) \<Rightarrow>
          (case take_response cc cseq is_announce is_describe announced res cl of
             Inl (ok, cl) \<Rightarrow> Client_returns ok cl
           | Inr cl \<Rightarrow>
               if \<not> cc_wait cc then Client_returns True cl
               else (case next_request act request s1 n of
                       (req, s2, n2) \<Rightarrow>
                         if ci_end s2 \<or> \<not> act n2 then Client_returns True cl
                         else (case announced_name decode_url cc req of
                                 None \<Rightarrow> Client_returns True cl
                               | Some (ann, nm) \<Rightarrow>
                                   if act (n2 + 1)
                                   then client_loop decode_url act cc cseq ann False nm (trim req) s2 (n2 + 2) cl
                                   else Client_returns True cl))))"
  by pat_completeness auto
termination
  by (relation "measure (\<lambda>(d, a, cc, cs, ia, is, an, rq, s, n, cl). length (ci_in s))")
    (auto dest!: read_response_shorter next_request_shorter[OF sym])

declare client_loop.simps [simp del]

text \<open>\<open>process\<close>: \<open>incoming\<close> is what arrives when the connection could be made.\<close>

definition describe_request :: "(string \<Rightarrow> string) \<Rightarrow> client_call \<Rightarrow> u16 \<Rightarrow> string" where
  "describe_request encode_url cc cseq =
     ''DESCRIBE rtsp://'' @ cc_address cc @ '':'' @ cc_port cc @ encode_url (cc_path cc) @ '' RTSP/1.0'' @ crlf @
     ''CSeq: '' @ show_u cseq @ crlf @ ''User-Agent: aes67-daemon'' @ crlf @ ''Accept: application/sdp'' @ crlf @ crlf"

definition rtsp_process ::
  "(string \<Rightarrow> string) \<Rightarrow> (string \<Rightarrow> string) \<Rightarrow> (nat \<Rightarrow> bool) \<Rightarrow> u16 \<Rightarrow> client_call \<Rightarrow> string option \<Rightarrow> client_end" where
  "rtsp_process encode_url decode_url act cseq cc incoming =
     (let cl = \<lparr>cl_source = no_rtsp_source, cl_seen = [], cl_sent = []\<rparr>
      in case incoming of
           None \<Rightarrow> Client_returns False cl
         | Some txt \<Rightarrow>
             (let cl = cl\<lparr>cl_sent := [describe_request encode_url cc cseq]\<rparr>;
                  (version, s) = read_word (stream_of txt)
              in case read_unsigned s of
                   None \<Rightarrow> Client_returns False cl
                 | Some (status, s) \<Rightarrow>
                     (case cgetline s of
                        (l, s) \<Rightarrow>
                          if ci_end s \<or> take 5 version \<noteq> ''RTSP/'' then Client_returns False cl
                          else if status \<noteq> 200 then Client_returns False cl
                          else client_loop decode_url act cc cseq False True []
                                 (case l of None \<Rightarrow> [] | Some r \<Rightarrow> r) s 0 cl)))"

definition rtsp_describe ::
  "(string \<Rightarrow> string) \<Rightarrow> (string \<Rightarrow> string) \<Rightarrow> (nat \<Rightarrow> bool) \<Rightarrow> u16 \<Rightarrow> string \<Rightarrow> string \<Rightarrow> string \<Rightarrow>
   string option \<Rightarrow> client_end" where
  "rtsp_describe encode_url decode_url act cseq path dst port incoming =
     rtsp_process encode_url decode_url act cseq
       \<lparr>cc_callback = False, cc_name = [], cc_domain = [], cc_path = path, cc_address = dst, cc_port = port,
        cc_wait = False\<rparr> incoming"

subsection \<open>The clients that are waiting\<close>

text \<open>\<open>g_active_clients\<close>, from name and domain to the stream; the constructor and the destructor of
  \<open>RtspActiveClientRemover\<close>, \<open>is_active\<close>, and \<open>stop\<close> and \<open>stop_all\<close> with the streams they shut down.
  Each runs under the lock of the table.\<close>

type_synonym registry = "((string \<times> string) \<times> nat) list"

definition register_client :: "bool \<Rightarrow> string \<times> string \<Rightarrow> nat \<Rightarrow> registry \<Rightarrow> registry" where
  "register_client wait_for_updates key stream m = (if wait_for_updates then (key, stream) # smap_del key m else m)"

definition unregister_client :: "bool \<Rightarrow> string \<times> string \<Rightarrow> nat \<Rightarrow> registry \<Rightarrow> registry" where
  "unregister_client wait_for_updates key stream m =
     (if wait_for_updates \<and> map_of m key = Some stream then smap_del key m else m)"

definition is_active :: "string \<times> string \<Rightarrow> registry \<Rightarrow> bool" where
  "is_active key m \<longleftrightarrow> map_of m key \<noteq> None"

definition stop_client :: "string \<times> string \<Rightarrow> registry \<Rightarrow> nat list \<times> registry" where
  "stop_client key m = (case map_of m key of None \<Rightarrow> ([], m) | Some stream \<Rightarrow> ([stream], smap_del key m))"

definition stop_all :: "registry \<Rightarrow> nat list \<times> registry" where
  "stop_all m = (map snd m, [])"

text \<open>A client that was replaced under its key by a later one leaves the later one registered.\<close>

lemma later_client_kept:
  "t \<noteq> stream \<Longrightarrow> map_of (unregister_client True key stream (register_client True key t m)) key = Some t"
  by (simp add: unregister_client_def register_client_def)

lemma stopped_inactive: "\<not> is_active key (snd (stop_client key m))"
  by (simp add: stop_client_def is_active_def split: option.split)

subsection \<open>Reading what the server writes\<close>

lemma cgetline_line:
  "\<not> ci_end s \<Longrightarrow> newline \<notin> set l \<Longrightarrow> ci_in s = l @ newline # rest \<Longrightarrow> cgetline s = (Some l, s\<lparr>ci_in := rest\<rparr>)"
proof -
  assume a: "\<not> ci_end s" "newline \<notin> set l" "ci_in s = l @ newline # rest"
  then have "takeWhile (\<lambda>c. c \<noteq> newline) (ci_in s) = l"
    by (simp add: takeWhile_tail takeWhile_eq_all_conv) (metis takeWhile_append2 append_Nil2 takeWhile.simps)
  then show ?thesis using a by (simp add: cgetline_def)
qed

fun header_lines :: "string list \<Rightarrow> rtsp_response \<Rightarrow> rtsp_response option" where
  "header_lines [] r = Some r"
| "header_lines (h # hs) r = (case header_line h r of None \<Rightarrow> None | Some r' \<Rightarrow> header_lines hs r')"

definition lines_text :: "string list \<Rightarrow> string" where
  "lines_text ls = concat (map (\<lambda>l. l @ [newline]) ls)"

lemma read_headers_lines:
  assumes "\<forall>h \<in> set hs. newline \<notin> set h \<and> h \<noteq> [] \<and> h \<noteq> [carriage_return]" "header_lines hs r = Some r'"
    and "\<not> ci_end s" "ci_in s = lines_text hs @ carriage_return # newline # rest"
  shows "read_headers s r = (r', s\<lparr>ci_in := rest\<rparr>)"
  using assms
proof (induction hs arbitrary: r s)
  case Nil
  then show ?case
    using cgetline_line[of s "[carriage_return]" rest] by (subst read_headers.simps) (simp add: lines_text_def)
next
  case (Cons h hs)
  obtain r1 where h: "header_line h r = Some r1" "header_lines hs r1 = Some r'"
    using Cons.prems(2) by (auto split: option.splits)
  let ?rest = "lines_text hs @ carriage_return # newline # rest"
  have c: "cgetline s = (Some h, s\<lparr>ci_in := ?rest\<rparr>)"
    using Cons.prems by (intro cgetline_line) (auto simp: lines_text_def)
  show ?case
    using Cons.IH[OF _ h(2), of "s\<lparr>ci_in := ?rest\<rparr>"] Cons.prems
    by (subst read_headers.simps) (simp add: c h)
qed

definition length_line :: "nat \<Rightarrow> string" where
  "length_line n = ''Content-Length: '' @ show_nat n @ [carriage_return]"

definition type_line :: string where
  "type_line = ''Content-Type: application/sdp'' @ [carriage_return]"

lemma type_line_read: "trim (map tolower type_line) = ''content-type: application/sdp''"
  by code_simp

lemma length_line_read:
  assumes "n < 2 ^ 31"
  shows "trim (map tolower (length_line n)) = ''content-length: '' @ show_nat n"
    and "stoi (drop 15 (''content-length: '' @ show_nat n)) = Some (int n)"
proof -
  have low: "map tolower (show_nat n) = show_nat n"
    using show_nat_digits[of _ n] by (intro map_idI) (force simp: tolower_def is_digit_def Let_def)
  have l: "map tolower (length_line n) = ''content-length: '' @ show_nat n @ [carriage_return]"
    using low by (simp add: length_line_def) (simp add: tolower_def char_of_eq_iff)
  have last: "\<not> is_space (last (show_nat n))"
    using show_nat_digits[of "last (show_nat n)" n] by (auto dest: digit_not_special(1))
  have "trim (''content-length: '' @ show_nat n @ [carriage_return]) = trim (''content-length: '' @ show_nat n)"
    using trim_append_space[of carriage_return "''content-length: '' @ show_nat n"] by (simp add: is_space_def)
  also have "\<dots> = ''content-length: '' @ show_nat n"
    using last by (intro trim_no_space) (simp add: is_space_def)
  finally show "trim (map tolower (length_line n)) = ''content-length: '' @ show_nat n"
    by (simp only: l)
  have "strto (CHR '' '' # show_nat n) = strto (show_nat n)"
    by (simp add: strto_def is_space_def)
  then show "stoi (drop 15 (''content-length: '' @ show_nat n)) = Some (int n)"
    using stoi_show_nat[of n "[]"] assms by (simp add: stoi_def)
qed

lemma header_line_type: "header_line type_line r = Some (r\<lparr>rp_content_type := ''application/sdp''\<rparr>)"
proof -
  have "trim '' application/sdp'' = ''application/sdp''" by code_simp
  then show ?thesis by (simp add: header_line_def type_line_read Let_def starts_with_def)
qed

lemma header_line_length:
  "n < 2 ^ 31 \<Longrightarrow> header_line (length_line n) r = Some (r\<lparr>rp_content_length := word_of_nat n\<rparr>)"
  using length_line_read[of n] by (simp add: header_line_def Let_def starts_with_def)

lemma header_line_cseq:
  "n < 2 ^ 31 \<Longrightarrow> header_line (cseq_line n) r = Some (r\<lparr>rp_cseq := int n\<rparr>)"
  using cseq_line_read[of n] by (simp add: header_line_def Let_def)

lemma header_line_other:
  "header_line (''User-Agent: aes67-daemon'' @ [carriage_return]) r = Some r"
  "header_line (''connection: Keep-Alive'' @ [carriage_return]) r = Some r"
proof -
  have "trim (map tolower (''User-Agent: aes67-daemon'' @ [carriage_return])) = ''user-agent: aes67-daemon''"
    "trim (map tolower (''connection: Keep-Alive'' @ [carriage_return])) = ''connection: keep-alive''"
    by code_simp+
  then show "header_line (''User-Agent: aes67-daemon'' @ [carriage_return]) r = Some r"
    "header_line (''connection: Keep-Alive'' @ [carriage_return]) r = Some r"
    unfolding header_line_def Let_def by (simp_all add: starts_with_def)
qed

lemma clean_lines:
  "newline \<notin> set (length_line n) \<and> length_line n \<noteq> [] \<and> length_line n \<noteq> [carriage_return]"
  "newline \<notin> set (cseq_line n) \<and> cseq_line n \<noteq> [] \<and> cseq_line n \<noteq> [carriage_return]"
  "newline \<notin> set type_line \<and> type_line \<noteq> [] \<and> type_line \<noteq> [carriage_return]"
  using show_nat_digits[of newline n]
  by (auto simp: length_line_def cseq_line_def type_line_def is_digit_def)

text \<open>Headers, a blank line and a body, as both kinds of server message have them.\<close>

lemma read_response_message:
  assumes "header_lines hs no_response = Some r" "\<forall>h \<in> set hs. newline \<notin> set h \<and> h \<noteq> [] \<and> h \<noteq> [carriage_return]"
    and "\<not> ci_end s" "ci_in s = lines_text hs @ carriage_return # newline # body @ rest"
    and "rp_content_length r = word_of_nat (length body)" "0 < length body" "length body < 4096"
  shows "read_response s = Some (r\<lparr>rp_body := body\<rparr>, s\<lparr>ci_in := last body # rest\<rparr>)"
proof -
  have n: "unat (rp_content_length r) = length body"
    using assms(5,7) by (simp add: unsigned_of_nat take_bit_nat_eq_self)
  have "drop (length body - 1) (body @ rest) = last body # rest"
    using assms(6) by (cases body rule: rev_cases) auto
  then show ?thesis
    using read_headers_lines[OF assms(2,1,3,4)] assms(3,6,7) n
    by (simp add: read_response_def max_body_length_def)
qed

subsection \<open>Client and server together\<close>

definition client_headers :: "u16 \<Rightarrow> string list" where
  "client_headers cseq = [cseq_line (unat cseq), ''User-Agent: aes67-daemon'' @ [carriage_return],
     ''Accept: application/sdp'' @ [carriage_return]]"

definition client_url :: "(string \<Rightarrow> string) \<Rightarrow> client_call \<Rightarrow> string" where
  "client_url encode_url cc = ''rtsp://'' @ cc_address cc @ '':'' @ cc_port cc @ encode_url (cc_path cc)"

lemma describe_request_text:
  "describe_request encode_url cc cseq = request_text (describe_line (client_url encode_url cc)) (client_headers cseq)"
  by (simp add: describe_request_def request_text_def describe_line_def client_url_def client_headers_def
      cseq_line_def show_u_def crlf_def)

lemma u16_small: "unat (w :: u16) < 2 ^ 31"
  using unsigned_less[of w, where 'a = nat] by simp

lemma client_request_clean:
  assumes "\<forall>c \<in> set (client_url encode_url cc). \<not> is_space c \<and> c \<noteq> CHR 0x00"
  shows "clean_request (describe_line (client_url encode_url cc)) (client_headers cseq)"
    and "header_cseq (client_headers cseq) cs = int (unat cseq)"
proof -
  have t: "trim (map tolower (''User-Agent: aes67-daemon'' @ [carriage_return])) = ''user-agent: aes67-daemon''"
    "trim (map tolower (''Accept: application/sdp'' @ [carriage_return])) = ''accept: application/sdp''"
    by code_simp+
  note c = describe_clean[OF assms u16_small[of cseq]]
  show "clean_request (describe_line (client_url encode_url cc)) (client_headers cseq)"
    using c(1) t unfolding clean_request_def client_headers_def by (simp add: starts_with_def)
  show "header_cseq (client_headers cseq) cs = int (unat cseq)"
    using c(2)[of cs] t unfolding client_headers_def by (simp add: starts_with_def Let_def)
qed

lemma server_answers_client:
  assumes "\<forall>c \<in> set (client_url encode_url cc). \<not> is_space c \<and> c \<noteq> CHR 0x00" "rq_data s = []"
    and "parse_url (e_decode_url E) (client_url encode_url cc) = Some (True, proto, host, port, by_name_base E @ name)"
    and "get_source_id name st = i" "i \<le> stream_id_max" "get_source_sdp E (ucast i) st = Inr sdp"
  shows "\<exists>s'. rtsp_receive E st (describe_request encode_url cc cseq) s = Rtsp_idle s' \<and>
    rq_sent s' = rq_sent s @ [describe_text (int (unat cseq)) sdp]"
proof -
  let ?first = "describe_line (client_url encode_url cc)" and ?hs = "client_headers cseq"
  have id: "path_source_id E st (by_name_base E @ name) = i" "i \<noteq> stream_id_max + 1"
    using find_str_prefix[of "by_name_base E" name] assms(4,5) by (auto simp: path_source_id_def stream_id_max_def)
  have cs: "rq_cseq (requested ?first ?hs s) = int (unat cseq)"
    using client_request_clean(2)[OF assms(1)] by (simp add: requested_def)
  have "answer_request E st [''DESCRIBE'', client_url encode_url cc, ''RTSP/1.0''] (requested ?first ?hs s) =
      Some ((send_response (describe_text (int (unat cseq)) sdp) (requested ?first ?hs s))
        \<lparr>rq_source_ids := insert i (rq_source_ids s)\<rparr>)"
    using describe_line_fields(3)[of "client_url encode_url cc"] assms(1,3,6) id cs
    by (simp add: answer_request_def build_response_def Let_def) (simp add: requested_def)
  then show ?thesis
    using rtsp_receive_clean[OF client_request_clean(1)[OF assms(1)] assms(2), of E st]
      describe_line_fields(2)[of "client_url encode_url cc"] assms(1)
    by (simp add: describe_request_text) (simp add: requested_def)
qed

lemma describe_text_lines:
  "describe_text (int n) sdp = ''RTSP/1.0'' @ '' 200'' @ '' OK'' @ carriage_return # newline #
     lines_text [cseq_line n, length_line (length sdp), type_line] @ carriage_return # newline # sdp"
  by (simp add: describe_text_def lines_text_def cseq_line_def length_line_def type_line_def show_int_def crlf_def)

text \<open>The status line, and the response to the DESCRIBE.\<close>

definition ok_line :: string where "ok_line = '' OK'' @ [carriage_return]"

lemma read_status_line:
  "\<exists>s1. read_word (stream_of (''RTSP/1.0'' @ '' 200'' @ '' OK'' @ carriage_return # newline # rest)) = (''RTSP/1.0'', s1) \<and>
     (\<exists>s2. read_unsigned s1 = Some (200, s2) \<and> cgetline s2 = (Some ok_line, stream_of rest))"
proof -
  let ?r = "'' OK'' @ carriage_return # newline # rest"
  have w: "read_word (stream_of (''RTSP/1.0'' @ '' 200'' @ ?r)) = (''RTSP/1.0'', stream_of ('' 200'' @ ?r))"
    by (simp add: read_word_def stream_of_def is_space_def Let_def)
  have "nat_of_digits ''200'' = 200" by code_simp
  then have u: "read_unsigned (stream_of ('' 200'' @ ?r)) = Some (200, stream_of ?r)"
    by (simp add: read_unsigned_def stream_of_def is_space_def is_digit_def Let_def)
  have "cgetline (stream_of ?r) = (Some ok_line, stream_of rest)"
    using cgetline_line[of "stream_of ?r" "'' OK'' @ [carriage_return]" rest] by (simp add: stream_of_def ok_line_def)
  with w u show ?thesis by blast
qed

definition sdp_response :: "nat \<Rightarrow> string \<Rightarrow> rtsp_response" where
  "sdp_response n sdp = \<lparr>rp_cseq = int n, rp_content_type = ''application/sdp'',
     rp_content_length = word_of_nat (length sdp), rp_body = sdp\<rparr>"

lemma read_describe_response:
  assumes "n < 2 ^ 31" "0 < length sdp" "length sdp < 4096"
  shows "read_response (stream_of (lines_text [cseq_line n, length_line (length sdp), type_line] @
      carriage_return # newline # sdp @ rest)) = Some (sdp_response n sdp, stream_of (last sdp # rest))"
proof -
  have "header_lines [cseq_line n, length_line (length sdp), type_line] no_response =
      Some ((sdp_response n sdp)\<lparr>rp_body := []\<rparr>)"
    using assms header_line_length[of "length sdp"] header_line_cseq[of n]
    by (simp add: header_line_type no_response_def sdp_response_def)
  from read_response_message[OF this _ _ _ _ assms(2,3), of "stream_of _"]
  show ?thesis using clean_lines by (simp add: stream_of_def sdp_response_def)
qed

lemma process_reads_describe:
  assumes "0 < length sdp" "length sdp < 4096"
  shows "rtsp_process encode_url decode_url act cseq cc (Some (describe_text (int (unat cseq)) sdp @ further)) =
    (case take_response cc cseq False True [] (sdp_response (unat cseq) sdp)
            \<lparr>cl_source = no_rtsp_source, cl_seen = [], cl_sent = [describe_request encode_url cc cseq]\<rparr> of
       Inl (ok, cl) \<Rightarrow> Client_returns ok cl
     | Inr cl \<Rightarrow>
         if \<not> cc_wait cc then Client_returns True cl
         else (case next_request act ok_line (stream_of (last sdp # further)) 0 of
                 (req, s2, n2) \<Rightarrow>
                   if ci_end s2 \<or> \<not> act n2 then Client_returns True cl
                   else (case announced_name decode_url cc req of
                           None \<Rightarrow> Client_returns True cl
                         | Some (ann, nm) \<Rightarrow>
                             if act (n2 + 1)
                             then client_loop decode_url act cc cseq ann False nm (trim req) s2 (n2 + 2) cl
                             else Client_returns True cl)))"
proof -
  let ?rest = "lines_text [cseq_line (unat cseq), length_line (length sdp), type_line] @ carriage_return # newline # sdp @ further"
  have t: "describe_text (int (unat cseq)) sdp @ further = ''RTSP/1.0'' @ '' 200'' @ '' OK'' @ carriage_return # newline # ?rest"
    by (simp only: describe_text_lines append_assoc append_Cons)
  obtain s1 s2 where "read_word (stream_of (describe_text (int (unat cseq)) sdp @ further)) = (''RTSP/1.0'', s1)"
    "read_unsigned s1 = Some (200, s2)" "cgetline s2 = (Some ok_line, stream_of ?rest)"
    unfolding t using read_status_line[of ?rest] by blast
  moreover have "ci_end (stream_of ?rest) = False" by (simp add: stream_of_def)
  ultimately show ?thesis
    using read_describe_response[OF u16_small[of cseq] assms]
    unfolding rtsp_process_def Let_def
    by (simp add: client_loop.simps[of _ _ _ _ _ _ _ _ "stream_of _"])
qed


subsection \<open>Updates\<close>

text \<open>An update of a source: the server's sequence number, the source's name and its new SDP; the
  message is the one \<open>RtspSession::announce\<close> writes.\<close>

type_synonym update = "nat \<times> string \<times> string"

definition update_text :: "(string \<Rightarrow> string) \<Rightarrow> session_env \<Rightarrow> u16 \<Rightarrow> update \<Rightarrow> string" where
  "update_text encode_url E port u = (case u of (k, name, sdp) \<Rightarrow> announce_text encode_url E port (int k) name sdp)"

definition update_url :: "(string \<Rightarrow> string) \<Rightarrow> session_env \<Rightarrow> u16 \<Rightarrow> update \<Rightarrow> string" where
  "update_url encode_url E port u = (case u of (k, name, sdp) \<Rightarrow>
     ''rtsp://'' @ e_ip_addr_str (e_sdp E) @ '':'' @ show_nat (unat port) @ encode_url (by_name_base E @ name))"

definition good_update ::
  "(string \<Rightarrow> string) \<Rightarrow> (string \<Rightarrow> string) \<Rightarrow> session_env \<Rightarrow> u16 \<Rightarrow> update \<Rightarrow> bool" where
  "good_update encode_url decode_url E port u \<longleftrightarrow> (case u of (k, name, sdp) \<Rightarrow>
     k < 2 ^ 31 \<and> sdp \<noteq> [] \<and> last sdp = newline \<and> length sdp < 4096 \<and>
     (\<forall>c \<in> set (update_url encode_url E port u). \<not> is_space c) \<and>
     (\<exists>proto host pt. parse_url decode_url (update_url encode_url E port u) =
        Some (True, proto, host, pt, by_name_base E @ name)))"

definition announce_line :: "string \<Rightarrow> string" where
  "announce_line url = ''ANNOUNCE '' @ url @ '' RTSP/1.0'' @ [carriage_return]"

definition announce_headers :: "nat \<Rightarrow> string \<Rightarrow> string list" where
  "announce_headers k sdp = [''User-Agent: aes67-daemon'' @ [carriage_return], ''connection: Keep-Alive'' @ [carriage_return],
     cseq_line k, length_line (length sdp), type_line]"

lemma update_text_lines:
  "update_text encode_url E port (k, name, sdp) = announce_line (update_url encode_url E port (k, name, sdp)) @ newline #
     lines_text (announce_headers k sdp) @ carriage_return # newline # sdp"
  by (simp add: update_text_def announce_text_def update_url_def announce_line_def announce_headers_def lines_text_def
      cseq_line_def length_line_def type_line_def show_int_def crlf_def)

lemma announce_line_fields:
  assumes "\<forall>c \<in> set url. \<not> is_space c"
  shows "split_on (\<lambda>c. c = CHR '' '') (trim (announce_line url)) = [''ANNOUNCE'', url, ''RTSP/1.0'']"
proof -
  have "trim (announce_line url) = trim (''ANNOUNCE '' @ url @ '' RTSP/1.0'')"
    using trim_append_space[of carriage_return "''ANNOUNCE '' @ url @ '' RTSP/1.0''"]
    by (simp add: announce_line_def is_space_def)
  also have "\<dots> = ''ANNOUNCE '' @ url @ '' RTSP/1.0''" by (rule trim_no_space) (simp add: is_space_def)
  finally have t: "trim (announce_line url) = ''ANNOUNCE '' @ url @ '' RTSP/1.0''" .
  have u: "\<forall>c \<in> set url. c \<noteq> CHR '' ''" using assms by (auto simp: is_space_def)
  have "split_on (\<lambda>c. c = CHR '' '') (''ANNOUNCE'' @ CHR '' '' # url @ CHR '' '' # ''RTSP/1.0'') = [''ANNOUNCE'', url, ''RTSP/1.0'']"
    using u by (subst split_on_append, simp, simp, subst split_on_append) auto
  then show ?thesis by (simp only: t append.simps)
qed

lemma next_request_line:
  assumes "newline \<notin> set l" "l \<noteq> []"
  shows "next_request (\<lambda>_. True) req (stream_of (newline # l @ newline # rest)) n = (l, stream_of rest, n + 1)"
  using cgetline_line[of "stream_of (newline # l @ newline # rest)" "[]" "l @ newline # rest"]
    cgetline_line[of "stream_of (l @ newline # rest)" l rest] assms
  by (subst next_request.simps, subst next_request.simps) (simp add: stream_of_def)

lemma next_request_end:
  "\<exists>s'. next_request (\<lambda>_. True) req (stream_of [newline]) n = ([], s', n + 1) \<and> ci_end s'"
proof -
  have "cgetline (stream_of [newline]) = (Some [], stream_of [])" "cgetline (stream_of []) = (Some [], \<lparr>ci_in = [], ci_end = True\<rparr>)"
    by (simp_all add: cgetline_def stream_of_def)
  then show ?thesis
    by (subst next_request.simps, subst next_request.simps) (simp add: stream_of_def)
qed

lemma read_update:
  assumes "k < 2 ^ 31" "0 < length sdp" "length sdp < 4096"
  shows "read_response (stream_of (lines_text (announce_headers k sdp) @ carriage_return # newline # sdp @ rest)) =
    Some (sdp_response k sdp, stream_of (last sdp # rest))"
proof -
  have "header_lines (announce_headers k sdp) no_response = Some ((sdp_response k sdp)\<lparr>rp_body := []\<rparr>)"
    using assms header_line_length[of "length sdp"] header_line_cseq[of k]
    unfolding announce_headers_def header_lines.simps header_line_other
    by (simp add: header_line_type no_response_def sdp_response_def)
  moreover have "\<forall>h \<in> set (announce_headers k sdp). newline \<notin> set h \<and> h \<noteq> [] \<and> h \<noteq> [carriage_return]"
    unfolding announce_headers_def list.set ball_simps using clean_lines by simp
  ultimately show ?thesis
    using read_response_message[of "announce_headers k sdp" _ "stream_of _", OF _ _ _ _ _ assms(2,3)]
    by (simp add: stream_of_def sdp_response_def)
qed

definition told :: "session_env \<Rightarrow> client_call \<Rightarrow> update list \<Rightarrow> client \<Rightarrow> client" where
  "told E cc us cl = foldl (\<lambda>cl (k, name, sdp). cl\<lparr>cl_source := source_of_body (cc_address cc) sdp,
     cl_sent := cl_sent cl @ [reply_text ''200 OK'' (int k)],
     cl_seen := cl_seen cl @ [(e_node_id (e_sdp E) @ '' '' @ name, cc_domain cc, source_of_body (cc_address cc) sdp)]\<rparr>) cl us"

lemma announced_update:
  assumes "good_update encode_url decode_url E port (k, name, sdp)" "find_str ''/by-name/'' (cc_path cc) \<noteq> None"
  shows "announced_name decode_url cc (announce_line (update_url encode_url E port (k, name, sdp))) =
    Some (True, e_node_id (e_sdp E) @ '' '' @ name)"
  using assms announce_line_fields[of "update_url encode_url E port (k, name, sdp)"]
  by (auto simp: announced_name_def good_update_def Let_def substr_from_def by_name_base_def)

lemma take_update:
  assumes "cc_callback cc"
  shows "take_response cc cseq True False (e_node_id (e_sdp E) @ '' '' @ name) (sdp_response k sdp) cl = Inr (told E cc [(k, name, sdp)] cl)"
  using assms by (simp add: take_response_def sdp_response_def starts_with_def told_def Let_def)

lemma client_updates:
  assumes "cc_callback cc" "cc_wait cc" "find_str ''/by-name/'' (cc_path cc) \<noteq> None"
    and "\<forall>u \<in> set us. good_update encode_url decode_url E port u"
  shows "(case next_request (\<lambda>_. True) req (stream_of (newline # concat (map (update_text encode_url E port) us))) n of
       (req, s2, n2) \<Rightarrow>
         if ci_end s2 \<or> \<not> (\<lambda>_. True) n2 then Client_returns True cl
         else (case announced_name decode_url cc req of
                 None \<Rightarrow> Client_returns True cl
               | Some (ann, nm) \<Rightarrow>
                   if (\<lambda>_. True) (n2 + 1)
                   then client_loop decode_url (\<lambda>_. True) cc cseq ann False nm (trim req) s2 (n2 + 2) cl
                   else Client_returns True cl)) = Client_returns True (told E cc us cl)"
  using assms(4)
proof (induction us arbitrary: req n cl)
  case Nil
  show ?case using next_request_end[of req n] by (auto simp: told_def)
next
  case (Cons u us)
  obtain k name sdp where u: "u = (k, name, sdp)" by (cases u)
  have g: "good_update encode_url decode_url E port (k, name, sdp)" using Cons.prems by (simp add: u)
  let ?line = "announce_line (update_url encode_url E port (k, name, sdp))"
    and ?more = "concat (map (update_text encode_url E port) us)"
    and ?nm = "e_node_id (e_sdp E) @ '' '' @ name"
  let ?rest = "lines_text (announce_headers k sdp) @ carriage_return # newline # sdp @ ?more"
  have sdp: "k < 2 ^ 31" "0 < length sdp" "length sdp < 4096" "last sdp = newline"
    using g by (auto simp: good_update_def)
  have "\<forall>c \<in> set (update_url encode_url E port (k, name, sdp)). \<not> is_space c"
    using g by (simp add: good_update_def)
  then have l: "newline \<notin> set ?line" "?line \<noteq> []"
    by (auto simp: announce_line_def is_space_def)
  have t: "concat (map (update_text encode_url E port) (u # us)) = ?line @ newline # ?rest"
    by (simp add: u update_text_lines)
  have "client_loop decode_url (\<lambda>_. True) cc cseq True False ?nm (trim ?line) (stream_of ?rest) (n + 1 + 2) cl =
      Client_returns True (told E cc us (told E cc [(k, name, sdp)] cl))"
    unfolding client_loop.simps[of _ _ _ _ _ _ _ _ "stream_of ?rest"] read_update[OF sdp(1-3)] option.case prod.case
      take_update[OF assms(1)] sum.case sdp(4)
    using Cons.IH[where req = "trim ?line" and n = "n + 1 + 2" and cl = "told E cc [(k, name, sdp)] cl"] Cons.prems assms(2) by simp
  moreover have "told E cc us (told E cc [(k, name, sdp)] cl) = told E cc (u # us) cl"
    by (simp add: told_def u)
  ultimately show ?case
    unfolding t next_request_line[OF l] prod.case announced_update[OF g assms(3)] option.case
    by (simp add: stream_of_def)
qed

lemma told_fields:
  "cl_seen (told E cc us cl) = cl_seen cl @ map (\<lambda>(k, name, sdp).
     (e_node_id (e_sdp E) @ '' '' @ name, cc_domain cc, source_of_body (cc_address cc) sdp)) us"
  "cl_sent (told E cc us cl) = cl_sent cl @ map (\<lambda>(k, name, sdp). reply_text ''200 OK'' (int k)) us"
  by (induction us arbitrary: cl) (auto simp: told_def)

text \<open>C21: A client that stays connected is told of every update, once and in order: it makes one
  callback for the source it asked for and one for each announcement the server then sends, under
  the announced name and with the announced SDP, and answers each with 200 and its number.  (The
  SDP texts end with a newline, as all that the daemon writes do.)\<close>

theorem client_follows_updates:
  assumes "cc_callback cc" "cc_wait cc" "find_str ''/by-name/'' (cc_path cc) \<noteq> None"
    and "sdp \<noteq> []" "last sdp = newline" "length sdp < 4096"
    and "\<forall>u \<in> set us. good_update encode_url decode_url E port u"
  shows "\<exists>cl. rtsp_process encode_url decode_url (\<lambda>_. True) cseq cc
      (Some (describe_text (int (unat cseq)) sdp @ concat (map (update_text encode_url E port) us))) = Client_returns True cl \<and>
    cl_seen cl = (cc_name cc, cc_domain cc, source_of_body (cc_address cc) sdp) # map (\<lambda>(k, name, sdp).
      (e_node_id (e_sdp E) @ '' '' @ name, cc_domain cc, source_of_body (cc_address cc) sdp)) us \<and>
    cl_sent cl = describe_request encode_url cc cseq # map (\<lambda>(k, name, sdp). reply_text ''200 OK'' (int k)) us"
proof -
  let ?cl = "\<lparr>cl_source = source_of_body (cc_address cc) sdp, cl_seen = [(cc_name cc, cc_domain cc, source_of_body (cc_address cc) sdp)],
    cl_sent = [describe_request encode_url cc cseq]\<rparr>"
  have "take_response cc cseq False True [] (sdp_response (unat cseq) sdp)
      \<lparr>cl_source = no_rtsp_source, cl_seen = [], cl_sent = [describe_request encode_url cc cseq]\<rparr> = Inr ?cl"
    using assms(1) by (simp add: take_response_def sdp_response_def starts_with_def Let_def)
  then have "rtsp_process encode_url decode_url (\<lambda>_. True) cseq cc
      (Some (describe_text (int (unat cseq)) sdp @ concat (map (update_text encode_url E port) us))) =
      Client_returns True (told E cc us ?cl)"
    using process_reads_describe[of sdp encode_url decode_url "\<lambda>_. True" cseq cc] assms(2,4,5,6)
      client_updates[OF assms(1-3,7), where req = ok_line and n = 0 and cl = ?cl and cseq = cseq]
    by simp
  then show ?thesis by (simp add: told_fields)
qed

subsection \<open>A concrete exchange\<close>

text \<open>Percent coding that leaves the sample's texts as they are.\<close>

definition sample_call :: client_call where
  "sample_call = \<lparr>cc_callback = True, cc_name = ''node src'', cc_domain = ''local'', cc_path = ''/by-name/node src'',
     cc_address = ''10.0.0.1'', cc_port = ''8854'', cc_wait = True\<rparr>"

definition sample_encode :: "string \<Rightarrow> string" where
  "sample_encode s = map (\<lambda>c. if c = CHR '' '' then CHR ''+'' else c) s"

definition sample_decode :: "string \<Rightarrow> string" where
  "sample_decode s = map (\<lambda>c. if c = CHR ''+'' then CHR '' '' else c) s"

definition client_senv :: session_env where
  "client_senv = sample_senv\<lparr>e_decode_url := sample_decode, e_sdp := (e_sdp sample_senv)\<lparr>e_ip_addr_str := ''10.0.0.1''\<rparr>\<rparr>"

lemma client_url_sample:
  "client_url sample_encode sample_call = ''rtsp://10.0.0.1:8854/by-name/node+src''"
  by (simp add: client_url_def sample_call_def sample_encode_def)

lemma sample_parsed:
  "parse_url sample_decode ''rtsp://10.0.0.1:8854/by-name/node+src'' =
     Some (True, ''rtsp'', ''10.0.0.1'', ''8854'', ''/by-name/node src'')"
  using parse_url_sep[of "''rtsp''" sample_decode "''rtsp://10.0.0.1:8854/by-name/node+src''" "''10.0.0.1:8854/by-name/node src''"]
    parse_url_rest_port_path[of "''10.0.0.1''" "''8854''" "''rtsp''" "''by-name/node src''"]
  by (simp add: sample_decode_def)

lemma client_base: "by_name_base client_senv @ ''src'' = ''/by-name/node src''"
  by (simp add: by_name_base_def client_senv_def sample_senv_def sample_env_def)

lemma sample_client_sdp:
  "0 < length (get_source_sdp_text (sdp_env_of client_senv named_state) sample_info)"
  "length (get_source_sdp_text (sdp_env_of client_senv named_state) sample_info) < 4096"
proof -
  have n: "length (show_nat 48000) \<le> 5" "length (show_nat 98) \<le> 5" "length (show_nat 5004) \<le> 5"
    "length (show_nat 48) \<le> 5" "length (show_nat 0) \<le> 5" "length (show_nat 2) \<le> 5"
    "length (show_nat 7) \<le> 5" "length (show_nat 8) \<le> 5" "length (show_nat 15) \<le> 5"
    using length_show_nat[of _ 4] by simp_all
  have e: "sdp_env_of client_senv named_state = sample_env\<lparr>e_ip_addr_str := ''10.0.0.1'', e_ptp_domain := 0, e_ptp_gmid := ss_ptp_gmid named_state\<rparr>"
    by (simp add: sdp_env_of_def client_senv_def sample_senv_def named_state_def session_init_def)
  have g: "length (ss_ptp_gmid named_state) \<le> 23" by (simp add: named_state_def session_init_def)
  show "length (get_source_sdp_text (sdp_env_of client_senv named_state) sample_info) < 4096"
    unfolding e get_source_sdp_text_def unlines_def source_sdp_lines_def Let_def media_lines_def
      conn_line_def refclk_line_def sample_info_def sample_env_def
    using n g length_dotted[of 0] length_dotted[of "0xEF010001"]
    by (simp add: ptime_48k_48 dup_entry_def show_u_def new_info_def sample_leg_def zero_stream_def)
  show "0 < length (get_source_sdp_text (sdp_env_of client_senv named_state) sample_info)"
    by (simp add: get_source_sdp_text_def unlines_def source_sdp_lines_def Let_def)
qed

lemma sample_url_clean: "\<forall>c \<in> set ''rtsp://10.0.0.1:8854/by-name/node+src''. \<not> is_space c \<and> c \<noteq> CHR 0x00"
  by (simp add: is_space_def)


theorem client_follows_updates_witness:
  "\<exists>cl. rtsp_process sample_encode sample_decode (\<lambda>_. True) 7 sample_call
      (Some (describe_text 7 [newline] @ update_text sample_encode client_senv 8854 (0, ''src'', ''v=0'' @ [newline]))) =
      Client_returns True cl \<and> length (cl_seen cl) = 2 \<and> length (cl_sent cl) = 2"
proof -
  have url: "update_url sample_encode client_senv 8854 (0, ''src'', ''v=0'' @ [newline]) = ''rtsp://10.0.0.1:8854/by-name/node+src''"
  proof -
    have "show_nat 8854 = ''8854''" by (simp add: show_nat.simps digit_char_def char_of_eq_iff)
    then show ?thesis
      unfolding update_url_def prod.case client_base by (simp add: client_senv_def sample_encode_def)
  qed
  have g: "good_update sample_encode sample_decode client_senv 8854 (0, ''src'', ''v=0'' @ [newline])"
    unfolding good_update_def prod.case url client_base using sample_parsed sample_url_clean by (simp add: is_space_def)
  have c: "cc_callback sample_call" "cc_wait sample_call" "find_str ''/by-name/'' (cc_path sample_call) \<noteq> None"
    by (simp_all add: sample_call_def starts_with_def)
  let ?us = "[(0 :: nat, ''src'', ''v=0'' @ [newline])]"
  obtain cl where cl: "rtsp_process sample_encode sample_decode (\<lambda>_. True) 7 sample_call
      (Some (describe_text (int (unat (7::u16))) [newline] @ concat (map (update_text sample_encode client_senv 8854) ?us))) =
      Client_returns True cl"
    and l: "length (cl_seen cl) = Suc (length ?us)" "length (cl_sent cl) = Suc (length ?us)"
    using client_follows_updates[OF c, where sdp = "[newline]" and us = ?us and encode_url = sample_encode
        and decode_url = sample_decode and E = client_senv and port = 8854 and cseq = 7] g by fastforce
  have "int (unat (7::u16)) = 7" by simp
  then show ?thesis using cl l by auto
qed

end
