(* ===== verification/Ptp_Clock.thy ===== *)
theory Ptp_Clock
  imports Prelude
begin

text \<open>
  The shared memory between the PTP clock manager and the daemon: its layout
  (\<open>ptp-clock-manager/shm_clock.h\<close>), what the clock manager writes into it (\<open>shm_create\<close> and
  \<open>shm_publish\<close> of \<open>ptp-clock-manager/main.cpp\<close>) and how the daemon reads it
  (\<open>daemon/ptp_clock_shm.cpp\<close>).  Writer and reader run at the same time: each byte written, each
  byte copied and each access to the update count is a step of its own, and the steps of the two
  interleave.  Within a publish and within a \<open>memcpy\<close> the bytes come in any order.  The
  steps of one process are seen by the other in the order they are made.
\<close>

subsection \<open>Layout\<close>

record ptp_clock_shm =
  sh_magic :: u32
  sh_version :: u32
  sh_lock_state :: u8
  sh_gmid :: "u8 list"
  sh_offset_ns :: u64
  sh_freq_ppb :: u64
  sh_tai_ns :: u64
  sh_monotonic_ns :: u64
  sh_network_jitter :: u32
  sh_clock_jitter :: u32

definition ptp_clock_shm_magic :: u32 where
  "ptp_clock_shm_magic = 0x50544343"

definition ptp_clock_shm_version :: u32 where
  "ptp_clock_shm_version = 1"

definition shm_size :: nat where
  "shm_size = 72"

definition at_offset :: "nat \<Rightarrow> nat \<Rightarrow> u8 list \<Rightarrow> u8 list" where
  "at_offset a n bs = take n (drop a bs)"

text \<open>The count, at the offsets 8 to 11, is not a part of the record.\<close>

definition shm_of_bytes :: "u8 list \<Rightarrow> ptp_clock_shm" where
  "shm_of_bytes bs =
     \<lparr>sh_magic = of_le (at_offset 0 4 bs), sh_version = of_le (at_offset 4 4 bs),
      sh_lock_state = of_le (at_offset 12 1 bs), sh_gmid = at_offset 16 8 bs,
      sh_offset_ns = of_le (at_offset 24 8 bs), sh_freq_ppb = of_le (at_offset 32 8 bs),
      sh_tai_ns = of_le (at_offset 40 8 bs), sh_monotonic_ns = of_le (at_offset 48 8 bs),
      sh_network_jitter = of_le (at_offset 56 4 bs), sh_clock_jitter = of_le (at_offset 60 4 bs)\<rparr>"

subsection \<open>The writer\<close>

definition shm_create :: "u8 list" where
  "shm_create = le_bytes 4 ptp_clock_shm_magic @ le_bytes 4 ptp_clock_shm_version @ replicate 64 0"

text \<open>What one round publishes: the status of the driver, the correction and two clock readings.\<close>

record ptp_publish =
  pb_lock_state :: int
  pb_gmid :: u64
  pb_offset_ns :: u64
  pb_freq_ppb :: u64
  pb_network_jitter :: u32
  pb_clock_jitter :: u32
  pb_tai_ns :: u64
  pb_monotonic_ns :: u64

definition field_bytes :: "nat \<Rightarrow> u8 list \<Rightarrow> (nat \<times> u8) list" where
  "field_bytes a bs = enumerate a bs"

definition shm_publish :: "ptp_publish \<Rightarrow> (nat \<times> u8) list" where
  "shm_publish p =
     field_bytes 12 [word_of_int (pb_lock_state p)] @ field_bytes 16 (le_bytes 8 (pb_gmid p)) @
     field_bytes 24 (le_bytes 8 (pb_offset_ns p)) @ field_bytes 32 (le_bytes 8 (pb_freq_ppb p)) @
     field_bytes 56 (le_bytes 4 (pb_network_jitter p)) @ field_bytes 60 (le_bytes 4 (pb_clock_jitter p)) @
     field_bytes 40 (le_bytes 8 (pb_tai_ns p)) @ field_bytes 48 (le_bytes 8 (pb_monotonic_ns p))"

subsection \<open>The reader\<close>

text \<open>An attempt reads the count, copies the segment and reads the count again.  It is made at
  most five times; an attempt that finds an odd count is used up without copying.\<close>

fun read_attempts :: "nat \<Rightarrow> (u32 \<times> u8 list \<times> u32) list \<Rightarrow> u8 list option" where
  "read_attempts 0 obs = None"
| "read_attempts n [] = None"
| "read_attempts (Suc n) ((before, copy, after) # obs) =
     (if before AND 1 \<noteq> 0 then read_attempts n obs
      else if after = before then Some copy
      else read_attempts n obs)"

definition read_ptp_clock_shm :: "(u32 \<times> u8 list \<times> u32) list \<Rightarrow> ptp_clock_shm option" where
  "read_ptp_clock_shm obs =
     (case read_attempts 5 obs of
        None \<Rightarrow> None
      | Some copy \<Rightarrow>
          (let out = shm_of_bytes copy
           in if sh_magic out = ptp_clock_shm_magic \<and> sh_version out = ptp_clock_shm_version then Some out else None))"

text \<open>\<open>now_ns\<close> is the monotonic clock; the age allowed is three seconds.\<close>

definition read_ptp_clock_shm_fresh :: "int \<Rightarrow> (u32 \<times> u8 list \<times> u32) list \<Rightarrow> ptp_clock_shm option" where
  "read_ptp_clock_shm_fresh now_ns obs =
     (case read_ptp_clock_shm obs of
        None \<Rightarrow> None
      | Some out \<Rightarrow> if now_ns - sint (sh_monotonic_ns out) \<le> 3000000000 then Some out else None)"

subsection \<open>Both at the same time\<close>

text \<open>The count, the bytes, what the writer has yet to write (\<^const>\<open>None\<close> between two publishes) and
  what it has published so far, the count the reader began with and the bytes it has copied.\<close>

record shm_run =
  sm_count :: u32
  sm_bytes :: "u8 list"
  sm_pending :: "(nat \<times> u8) list option"
  sm_published :: "ptp_publish list"
  sm_before :: u32
  sm_copied :: "(nat \<times> u8) list"

definition shm_init :: shm_run where
  "shm_init = \<lparr>sm_count = 0, sm_bytes = shm_create, sm_pending = None, sm_published = [], sm_before = 0, sm_copied = []\<rparr>"

inductive shm_step :: "shm_run \<Rightarrow> shm_run \<Rightarrow> bool" where
  sh_begin: "sm_pending s = None \<Longrightarrow> shm_step s (s\<lparr>sm_count := sm_count s + 1, sm_pending := Some (shm_publish p),
     sm_published := sm_published s @ [p]\<rparr>)"
| sh_write: "sm_pending s = Some (xs @ (i, b) # ys) \<Longrightarrow>
     shm_step s (s\<lparr>sm_bytes := (sm_bytes s)[i := b], sm_pending := Some (xs @ ys)\<rparr>)"
| sh_end: "sm_pending s = Some [] \<Longrightarrow> shm_step s (s\<lparr>sm_count := sm_count s + 1, sm_pending := None\<rparr>)"
| sh_copy: "i < shm_size \<Longrightarrow> i \<notin> fst ` set (sm_copied s) \<Longrightarrow>
     shm_step s (s\<lparr>sm_copied := (i, sm_bytes s ! i) # sm_copied s\<rparr>)"

text \<open>An attempt of the reader: from the state in which it reads the count to the state in which
  it reads it again, by steps of both.\<close>

definition start_attempt :: "shm_run \<Rightarrow> shm_run" where
  "start_attempt s = s\<lparr>sm_before := sm_count s, sm_copied := []\<rparr>"

definition copied_bytes :: "shm_run \<Rightarrow> u8 list" where
  "copied_bytes s = map (\<lambda>i. the (map_of (sm_copied s) i)) [0..<shm_size]"

definition attempt :: "shm_run \<Rightarrow> u32 \<times> u8 list \<times> u32 \<Rightarrow> shm_run \<Rightarrow> bool" where
  "attempt s ob s' \<longleftrightarrow> (\<exists>n < 2 ^ 32. (shm_step ^^ n) (start_attempt s) s' \<and>
     fst ` set (sm_copied s') = {..<shm_size} \<and> ob = (sm_count s, copied_bytes s', sm_count s'))"

inductive attempts :: "shm_run \<Rightarrow> (u32 \<times> u8 list \<times> u32) list \<Rightarrow> shm_run \<Rightarrow> bool" where
  at_done: "shm_step\<^sup>*\<^sup>* s s' \<Longrightarrow> attempts s [] s'"
| at_next: "shm_step\<^sup>*\<^sup>* s s1 \<Longrightarrow> attempt s1 ob s2 \<Longrightarrow> attempts s2 obs s' \<Longrightarrow> attempts s (ob # obs) s'"

subsection \<open>The content of the segment\<close>

text \<open>The segment after a publish; before the first one it is what \<open>shm_create\<close> made.\<close>

definition segment :: "ptp_publish \<Rightarrow> u8 list" where
  "segment p = map (\<lambda>i. case map_of (shm_publish p) i of Some b \<Rightarrow> b | None \<Rightarrow> shm_create ! i) [0..<shm_size]"

definition shm_content :: "ptp_publish list \<Rightarrow> u8 list" where
  "shm_content ps = (if ps = [] then shm_create else segment (last ps))"

lemma length_shm_create [simp]: "length shm_create = shm_size"
  by (simp add: shm_create_def shm_size_def)

lemma length_shm_content [simp]: "length (shm_content ps) = shm_size"
  by (simp add: shm_content_def segment_def)

lemma publish_indices:
  "fst ` set (shm_publish p) = {12} \<union> {16..<64}"
proof -
  have "fst ` set (enumerate a bs) = {a..<a + length bs}" for a :: nat and bs :: "u8 list"
    by (metis map_fst_enumerate set_map set_upt)
  then show ?thesis
    by (simp add: shm_publish_def field_bytes_def image_Un) auto
qed

lemma distinct_publish: "distinct (map fst (shm_publish p))"
  by (simp add: shm_publish_def field_bytes_def)

lemma segment_outside:
  assumes "i < shm_size" "i \<notin> fst ` set (shm_publish p)"
  shows "segment p ! i = shm_create ! i"
proof -
  have "map_of (shm_publish p) i = None" using assms(2) by (simp add: map_of_eq_None_iff)
  then show ?thesis using assms(1) by (simp add: segment_def)
qed

lemma segment_inside:
  assumes "i < shm_size" "(i, b) \<in> set (shm_publish p)"
  shows "segment p ! i = b"
  using assms distinct_publish map_of_is_SomeI by (fastforce simp: segment_def)

lemma shm_content_outside:
  assumes "i < shm_size" "i \<notin> {12} \<union> {16..<64}"
  shows "shm_content ps ! i = shm_create ! i"
  using assms segment_outside[of i "last ps"] by (simp add: shm_content_def publish_indices)

subsection \<open>Writer and content\<close>

definition shm_ok :: "shm_run \<Rightarrow> bool" where
  "shm_ok s \<longleftrightarrow> length (sm_bytes s) = shm_size \<and> (sm_count s AND 1 = 0 \<longleftrightarrow> sm_pending s = None) \<and>
     (case sm_pending s of
        None \<Rightarrow> sm_bytes s = shm_content (sm_published s)
      | Some ws \<Rightarrow> sm_published s \<noteq> [] \<and> set ws \<subseteq> set (shm_publish (last (sm_published s))) \<and>
          (\<forall>i < shm_size. i \<notin> fst ` set ws \<longrightarrow> sm_bytes s ! i = segment (last (sm_published s)) ! i))"

lemma next_parity: "(c + 1) AND 1 = (0 :: u32) \<longleftrightarrow> c AND 1 \<noteq> 0"
  by (simp add: and_one_eq even_iff_mod_2_eq_zero[symmetric])

lemma shm_ok_init: "shm_ok shm_init"
  by (simp add: shm_ok_def shm_init_def shm_content_def)

lemma shm_step_ok:
  assumes "shm_step s s'" "shm_ok s"
  shows "shm_ok s'"
  using assms
proof cases
  case (sh_begin p)
  then show ?thesis
    using assms(2) shm_content_outside[of _ "sm_published s"] segment_outside[of _ p]
    by (auto simp: shm_ok_def next_parity publish_indices)
next
  case (sh_write xs i b ys)
  have "(i, b) \<in> set (shm_publish (last (sm_published s)))"
    using assms(2) sh_write(2) by (simp add: shm_ok_def)
  then have "segment (last (sm_published s)) ! i = b" if "i < shm_size" using segment_inside that by blast
  then have "(sm_bytes s)[i := b] ! j = segment (last (sm_published s)) ! j"
    if "j < shm_size" "j \<notin> fst ` (set xs \<union> set ys)" for j
    using assms(2) sh_write(2) that by (cases "j = i") (auto simp: shm_ok_def)
  then show ?thesis
    using assms(2) sh_write by (auto simp: shm_ok_def)
next
  case sh_end
  then show ?thesis
    using assms(2) by (auto simp: shm_ok_def next_parity shm_content_def segment_def intro!: nth_equalityI)
next
  case (sh_copy i)
  then show ?thesis using assms(2) by (cases "sm_pending s") (simp_all add: shm_ok_def)
qed

lemma shm_steps_ok: "shm_step\<^sup>*\<^sup>* s s' \<Longrightarrow> shm_ok s \<Longrightarrow> shm_ok s'"
  by (induction rule: rtranclp_induct) (auto dest: shm_step_ok)

lemma shm_steps_published: "shm_step\<^sup>*\<^sup>* s s' \<Longrightarrow> \<exists>ps. sm_published s' = sm_published s @ ps"
  by (induction rule: rtranclp_induct) (auto elim!: shm_step.cases)

subsection \<open>One attempt\<close>

text \<open>Within \<open>n\<close> steps the count has gone up at most \<open>n\<close> times; as long as it has not, nothing was
  written and what has been copied is what was there at the start.\<close>

lemma attempt_steps:
  assumes "(shm_step ^^ n) s s'" "sm_pending s = None" "sm_copied s = []"
  shows "\<exists>m \<le> n. sm_count s' = sm_count s + of_nat m \<and>
    (m = 0 \<longrightarrow> sm_pending s' = None \<and> sm_bytes s' = sm_bytes s \<and> (\<forall>(i, b) \<in> set (sm_copied s'). b = sm_bytes s ! i))"
  using assms(1)
proof (induction n arbitrary: s')
  case 0
  then show ?case using assms(2,3) by simp
next
  case (Suc n)
  then obtain t where t: "(shm_step ^^ n) s t" "shm_step t s'" by auto
  then obtain m where m: "m \<le> n" "sm_count t = sm_count s + of_nat m"
    "m = 0 \<longrightarrow> sm_pending t = None \<and> sm_bytes t = sm_bytes s \<and> (\<forall>(i, b) \<in> set (sm_copied t). b = sm_bytes s ! i)"
    using Suc.IH by blast
  from t(2) show ?case
  proof cases
    case (sh_begin p)
    then show ?thesis using m by (intro exI[of _ "Suc m"]) simp
  next
    case sh_end
    then show ?thesis using m by (intro exI[of _ "Suc m"]) simp
  next
    case (sh_write xs i b ys)
    then show ?thesis using m by (intro exI[of _ m]) auto
  next
    case (sh_copy i)
    then show ?thesis using m by (intro exI[of _ m]) auto
  qed
qed

lemma attempt_exact:
  assumes "attempt s (before, copy, after) s'" "shm_ok s" "before AND 1 = 0" "after = before"
  shows "copy = shm_content (sm_published s)"
proof -
  obtain n where n: "n < 2 ^ 32" "(shm_step ^^ n) (start_attempt s) s'" "fst ` set (sm_copied s') = {..<shm_size}"
    "before = sm_count s" "copy = copied_bytes s'" "after = sm_count s'"
    using assms(1) by (auto simp: attempt_def)
  have idle: "sm_pending s = None" "sm_bytes s = shm_content (sm_published s)"
    using assms(2,3) n(4) by (auto simp: shm_ok_def)
  obtain m where m: "m \<le> n" "sm_count s' = sm_count s + of_nat m"
    "m = 0 \<longrightarrow> (\<forall>(i, b) \<in> set (sm_copied s'). b = sm_bytes s ! i)"
    using attempt_steps[OF n(2)] idle(1) by (auto simp: start_attempt_def)
  have "of_nat m = (0 :: u32)" using m(2) assms(4) n(4,6) by simp
  moreover have "m < 2 ^ 32" using m(1) n(1) by simp
  ultimately have "m = 0" by (simp add: unat_eq_0[symmetric] unat_of_nat take_bit_nat_eq_self)
  then have "the (map_of (sm_copied s') i) = sm_bytes s ! i" if "i < shm_size" for i
    using m(3) that n(3) by (fastforce dest: map_of_SomeD simp: map_of_eq_None_iff split: option.split
        intro: option.exhaust[of "map_of (sm_copied s') i"])
  then show ?thesis
    unfolding n(5) copied_bytes_def using idle(2) by (auto intro!: nth_equalityI)
qed

subsection \<open>What the reader gets\<close>

definition created_record :: ptp_clock_shm where
  "created_record = shm_of_bytes shm_create"

definition published_record :: "ptp_publish \<Rightarrow> ptp_clock_shm" where
  "published_record p =
     \<lparr>sh_magic = ptp_clock_shm_magic, sh_version = ptp_clock_shm_version,
      sh_lock_state = word_of_int (pb_lock_state p), sh_gmid = le_bytes 8 (pb_gmid p),
      sh_offset_ns = pb_offset_ns p, sh_freq_ppb = pb_freq_ppb p, sh_tai_ns = pb_tai_ns p,
      sh_monotonic_ns = pb_monotonic_ns p, sh_network_jitter = pb_network_jitter p,
      sh_clock_jitter = pb_clock_jitter p\<rparr>"

lemma at_offset_field:
  assumes "a + length bs \<le> shm_size" "set (field_bytes a bs) \<subseteq> set (shm_publish p)"
  shows "at_offset a (length bs) (segment p) = bs"
proof (rule nth_equalityI)
  show "length (at_offset a (length bs) (segment p)) = length bs"
    using assms(1) by (simp add: at_offset_def segment_def)
  fix i
  assume "i < length (at_offset a (length bs) (segment p))"
  then have i: "i < length bs" by (simp add: at_offset_def)
  then have "(a + i, bs ! i) \<in> set (field_bytes a bs)"
    by (auto simp: field_bytes_def enumerate_eq_zip in_set_conv_nth intro!: exI[of _ i])
  then have "segment p ! (a + i) = bs ! i"
    using assms i by (intro segment_inside) auto
  then show "at_offset a (length bs) (segment p) ! i = bs ! i"
    using i assms(1) by (simp add: at_offset_def segment_def)
qed

lemma at_offset_header:
  assumes "a + n \<le> 12"
  shows "at_offset a n (segment p) = at_offset a n shm_create"
proof (rule nth_equalityI)
  have len: "length (segment p) = shm_size" by (simp add: segment_def)
  show "length (at_offset a n (segment p)) = length (at_offset a n shm_create)"
    by (simp add: at_offset_def len)
  fix i
  assume "i < length (at_offset a n (segment p))"
  then have "i < n" by (simp add: at_offset_def)
  then have "a + i < shm_size" "a + i \<notin> fst ` set (shm_publish p)"
    using assms by (auto simp: publish_indices shm_size_def)
  then show "at_offset a n (segment p) ! i = at_offset a n shm_create ! i"
    using \<open>i < n\<close> segment_outside[of "a + i" p] by (simp add: at_offset_def len)
qed

lemma segment_record: "shm_of_bytes (segment p) = published_record p"
proof -
  have header: "of_le (at_offset 0 4 (segment p)) = ptp_clock_shm_magic" "of_le (at_offset 4 4 (segment p)) = ptp_clock_shm_version"
    by (simp_all add: at_offset_header) (simp_all add: at_offset_def shm_create_def of_le_bytes)
  have fields: "set (field_bytes 12 [word_of_int (pb_lock_state p)]) \<subseteq> set (shm_publish p)"
    "set (field_bytes 16 (le_bytes 8 (pb_gmid p))) \<subseteq> set (shm_publish p)"
    "set (field_bytes 24 (le_bytes 8 (pb_offset_ns p))) \<subseteq> set (shm_publish p)"
    "set (field_bytes 32 (le_bytes 8 (pb_freq_ppb p))) \<subseteq> set (shm_publish p)"
    "set (field_bytes 56 (le_bytes 4 (pb_network_jitter p))) \<subseteq> set (shm_publish p)"
    "set (field_bytes 60 (le_bytes 4 (pb_clock_jitter p))) \<subseteq> set (shm_publish p)"
    "set (field_bytes 40 (le_bytes 8 (pb_tai_ns p))) \<subseteq> set (shm_publish p)"
    "set (field_bytes 48 (le_bytes 8 (pb_monotonic_ns p))) \<subseteq> set (shm_publish p)"
    by (auto simp: shm_publish_def)
  show ?thesis
    using fields[THEN at_offset_field[rotated], simplified]
    by (simp add: shm_of_bytes_def published_record_def header of_le_bytes shm_size_def)
qed

lemma attempts_published:
  assumes "attempts s obs s'" "shm_ok s" "read_attempts n obs = Some copy"
  shows "\<exists>ps qs. sm_published s' = sm_published s @ ps @ qs \<and> copy = shm_content (sm_published s @ ps)"
  using assms
proof (induction arbitrary: n rule: attempts.induct)
  case (at_done s s')
  then show ?case by (cases n) auto
next
  case (at_next s s1 ob s2 obs s')
  obtain before c after where ob: "ob = (before, c, after)" by (cases ob)
  obtain k where n: "n = Suc k" using at_next.prems by (cases n) auto
  have ok1: "shm_ok s1" using at_next by (auto dest: shm_steps_ok)
  have start: "shm_ok (start_attempt s1)" using ok1 by (cases "sm_pending s1") (simp_all add: shm_ok_def start_attempt_def)
  have run: "shm_step\<^sup>*\<^sup>* (start_attempt s1) s2" using at_next(2) by (auto simp: attempt_def ob relpowp_imp_rtranclp)
  have ok2: "shm_ok s2" using shm_steps_ok[OF run start] .
  obtain ps1 where ps1: "sm_published s1 = sm_published s @ ps1" using at_next(1) shm_steps_published by blast
  obtain ps2 where ps2: "sm_published s2 = sm_published s1 @ ps2"
    using shm_steps_published[OF run] by (auto simp: start_attempt_def)
  show ?case
  proof (cases "before AND 1 = 0 \<and> after = before")
    case True
    then have "c = shm_content (sm_published s1)" using attempt_exact at_next(2) ok1 ob by blast
    moreover have "copy = c" using at_next.prems(2) True by (simp add: n ob)
    moreover obtain qs where "sm_published s' = sm_published s2 @ qs"
      using at_next(3) by (induction rule: attempts.induct)
        (auto simp: attempt_def start_attempt_def dest!: shm_steps_published relpowp_imp_rtranclp)
    ultimately show ?thesis using ps1 ps2 by auto
  next
    case False
    then have "read_attempts k obs = Some copy" using at_next.prems(2) by (auto simp: n ob split: if_splits)
    from at_next.IH[OF ok2 this] show ?thesis using ps1 ps2 by (metis append.assoc)
  qed
qed

text \<open>C19: the daemon never sees a torn clock status.  Whenever the reader accepts what it copied, while
  the clock manager went on writing, it is the record of one single publish - lock state,
  grandmaster, offset, correction and clock readings of the same moment - or the record that
  was there before the first publish; and it is not older than the last one that had
  begun when the reading started.  Only the bytes' order of arrival is assumed, and that the
  count does not go through all its values within one attempt.\<close>

theorem clock_status_not_torn:
  assumes "shm_step\<^sup>*\<^sup>* shm_init s" "attempts s obs s'" "read_ptp_clock_shm obs = Some r"
  shows "\<exists>ps qs. sm_published s' = sm_published s @ ps @ qs \<and>
    r = (if sm_published s @ ps = [] then created_record else published_record (last (sm_published s @ ps)))"
proof -
  obtain copy where c: "read_attempts 5 obs = Some copy" "r = shm_of_bytes copy"
    using assms(3) by (auto simp: read_ptp_clock_shm_def Let_def split: option.splits if_splits)
  have "shm_ok s" using shm_steps_ok[OF assms(1)] shm_ok_init by simp
  from attempts_published[OF assms(2) this c(1)] show ?thesis
    using c(2) by (auto simp: shm_content_def created_record_def segment_record)
qed

subsection \<open>Undisturbed runs\<close>

lemma copy_steps:
  assumes "sm_copied s = []" "n \<le> shm_size"
  shows "(shm_step ^^ n) s (s\<lparr>sm_copied := rev (map (\<lambda>i. (i, sm_bytes s ! i)) [0..<n])\<rparr>)"
  using assms(2)
proof (induction n)
  case 0
  have "s\<lparr>sm_copied := []\<rparr> = s" using assms(1) by simp
  then show ?case by simp
next
  case (Suc n)
  have "shm_step (s\<lparr>sm_copied := rev (map (\<lambda>i. (i, sm_bytes s ! i)) [0..<n])\<rparr>)
      (s\<lparr>sm_copied := rev (map (\<lambda>i. (i, sm_bytes s ! i)) [0..<Suc n])\<rparr>)"
    using sh_copy[of n "s\<lparr>sm_copied := rev (map (\<lambda>i. (i, sm_bytes s ! i)) [0..<n])\<rparr>"] Suc.prems by force
  then show ?case using Suc by auto
qed

lemma undisturbed_attempt:
  assumes "length (sm_bytes s) = shm_size"
  shows "\<exists>s'. attempt s (sm_count s, sm_bytes s, sm_count s) s' \<and> sm_published s' = sm_published s"
proof -
  let ?s' = "(start_attempt s)\<lparr>sm_copied := rev (map (\<lambda>i. (i, sm_bytes s ! i)) [0..<shm_size])\<rparr>"
  have "(shm_step ^^ shm_size) (start_attempt s) ?s'"
    using copy_steps[of "start_attempt s" shm_size] by (simp add: start_attempt_def)
  moreover have "map_of (sm_copied ?s') i = Some (sm_bytes s ! i)" if "i < shm_size" for i
    using that by (intro map_of_is_SomeI) (auto simp: rev_map[symmetric] comp_def)
  then have "copied_bytes ?s' = sm_bytes s"
    using assms by (auto simp: copied_bytes_def intro!: nth_equalityI)
  moreover have "fst ` set (sm_copied ?s') = {..<shm_size}" by (force simp: image_image)
  ultimately have "attempt s (sm_count s, sm_bytes s, sm_count s) ?s'"
    by (auto simp: attempt_def start_attempt_def shm_size_def intro!: exI[of _ 72])
  then show ?thesis by (intro exI[of _ ?s']) (simp add: start_attempt_def)
qed

lemma write_steps:
  "sm_pending s = Some ws \<Longrightarrow> \<exists>bs. shm_step\<^sup>*\<^sup>* s (s\<lparr>sm_bytes := bs, sm_pending := Some []\<rparr>)"
proof (induction ws arbitrary: s)
  case Nil
  then have "s\<lparr>sm_bytes := sm_bytes s, sm_pending := Some []\<rparr> = s" by simp
  then show ?case by (metis rtranclp.rtrancl_refl)
next
  case (Cons w ws)
  obtain i b where w: "w = (i, b)" by (cases w)
  let ?t = "s\<lparr>sm_bytes := (sm_bytes s)[i := b], sm_pending := Some ws\<rparr>"
  have "shm_step s ?t" using sh_write[of s "[]" i b ws] Cons.prems by (simp add: w)
  moreover obtain bs where "shm_step\<^sup>*\<^sup>* ?t (?t\<lparr>sm_bytes := bs, sm_pending := Some []\<rparr>)"
    using Cons.IH[of ?t] by auto
  ultimately show ?case by (auto intro: converse_rtranclp_into_rtranclp)
qed

lemma publish_completes:
  assumes "sm_pending s = None"
  shows "\<exists>s'. shm_step\<^sup>*\<^sup>* s s' \<and> sm_pending s' = None \<and> sm_published s' = sm_published s @ [p]"
proof -
  let ?t = "s\<lparr>sm_count := sm_count s + 1, sm_pending := Some (shm_publish p), sm_published := sm_published s @ [p]\<rparr>"
  obtain bs where w: "shm_step\<^sup>*\<^sup>* ?t (?t\<lparr>sm_bytes := bs, sm_pending := Some []\<rparr>)" using write_steps[of ?t] by auto
  let ?u = "?t\<lparr>sm_bytes := bs, sm_pending := Some []\<rparr>"
  have "shm_step\<^sup>*\<^sup>* s ?u" using sh_begin[OF assms] w by (meson converse_rtranclp_into_rtranclp)
  moreover have "shm_step ?u (?u\<lparr>sm_count := sm_count ?u + 1, sm_pending := None\<rparr>)" by (rule sh_end) simp
  ultimately show ?thesis by (intro exI[of _ "?u\<lparr>sm_count := sm_count ?u + 1, sm_pending := None\<rparr>"]) auto
qed

definition sample_publish :: ptp_publish where
  "sample_publish = \<lparr>pb_lock_state = 2, pb_gmid = 0x0011223344556677, pb_offset_ns = - 40, pb_freq_ppb = 12,
     pb_network_jitter = 100, pb_clock_jitter = 20, pb_tai_ns = 5000000000, pb_monotonic_ns = 4000000000\<rparr>"

text \<open>A publish, and then an attempt that reads it.\<close>

lemma sample_read:
  obtains s obs s' where "shm_step\<^sup>*\<^sup>* shm_init s" "sm_published s = [sample_publish]" "attempts s obs s'"
    "sm_published s' = [sample_publish]" "read_ptp_clock_shm obs = Some (published_record sample_publish)"
proof -
  obtain s where s: "shm_step\<^sup>*\<^sup>* shm_init s" "sm_pending s = None" "sm_published s = [sample_publish]"
    using publish_completes[of shm_init sample_publish] by (auto simp: shm_init_def)
  have ok: "shm_ok s" using shm_steps_ok[OF s(1)] shm_ok_init by simp
  then have b: "sm_bytes s = segment sample_publish" "sm_count s AND 1 = 0" "length (sm_bytes s) = shm_size"
    using s(2,3) by (auto simp: shm_ok_def shm_content_def)
  obtain s' where s': "attempt s (sm_count s, sm_bytes s, sm_count s) s'" "sm_published s' = sm_published s"
    using undisturbed_attempt[OF b(3)] by blast
  have "attempts s [(sm_count s, sm_bytes s, sm_count s)] s'"
    using s'(1) by (auto intro: attempts.intros)
  moreover have "read_attempts 5 [(sm_count s, sm_bytes s, sm_count s)] = Some (segment sample_publish)"
    using b(1,2) by (simp add: eval_nat_numeral)
  then have "read_ptp_clock_shm [(sm_count s, sm_bytes s, sm_count s)] = Some (published_record sample_publish)"
    by (simp add: read_ptp_clock_shm_def segment_record) (simp add: published_record_def)
  ultimately show thesis using that s(1,3) s'(2) by simp
qed

theorem clock_status_not_torn_witness:
  "\<exists>s obs s'. attempts s obs s' \<and> read_ptp_clock_shm obs = Some (published_record sample_publish) \<and>
     sm_published s' = [sample_publish] \<and> sh_gmid (published_record sample_publish) = [0x77, 0x66, 0x55, 0x44, 0x33, 0x22, 0x11, 0]"
proof -
  obtain s obs s' where s: "shm_step\<^sup>*\<^sup>* shm_init s" "sm_published s = [sample_publish]" "attempts s obs s'"
    "sm_published s' = [sample_publish]" "read_ptp_clock_shm obs = Some (published_record sample_publish)"
    by (rule sample_read)
  obtain ps qs where "sm_published s' = sm_published s @ ps @ qs"
    "published_record sample_publish = (if sm_published s @ ps = [] then created_record else published_record (last (sm_published s @ ps)))"
    using clock_status_not_torn[OF s(1,3,5)] by blast
  moreover have "sh_gmid (published_record sample_publish) = [0x77, 0x66, 0x55, 0x44, 0x33, 0x22, 0x11, 0]"
    by (simp add: published_record_def sample_publish_def le_bytes_def upt_rec)
  ultimately show ?thesis using s by auto
qed

end
