(* ===== verification/Node_Resources.thy ===== *)
theory Node_Resources
  imports Channel_Map Manager Ptp_Clock
begin

text \<open>
  The resource part of \<open>daemon/nmos_manager.cpp\<close> (AMWA IS-04): the node's senders and receivers,
  one per source and sink of the session manager, their JSON documents, what a registry is told
  of them, and the local tables that the connection interface of \<open>Connection\<close> works on.

  Parameters: what the channel mapping needs (\<open>ne_cm\<close>), the configuration, the host name, the
  address parser, the other process's clock state, and the HTTP answers of other hosts.
  \<open>now\<close> is the system clock in nanoseconds during a call; every \<open>make_version\<close> of the call
  reads it.
\<close>

subsection \<open>State\<close>

record sender_tp =
  tp_source_ip :: string
  tp_destination_ip :: string
  tp_source_port :: u16
  tp_destination_port :: u16
  tp_rtp_enabled :: bool

record receiver_tp =
  rt_interface_ip :: string
  rt_multicast_ip :: string
  rt_destination_port :: u16
  rt_source_ip :: string
  rt_rtp_enabled :: bool

record is05_activation =
  ac_mode :: string
  ac_requested_time :: string
  ac_activation_time :: string
  ac_deadline_ns :: int

record sender_resources =
  sr_source_id :: string
  sr_flow_id :: string
  sr_sender_id :: string
  sr_source_json :: string
  sr_flow_json :: string
  sr_sender_json :: string
  sr_staged_master_enable :: bool
  sr_staged_receiver_id :: string
  sr_staged_act :: is05_activation
  sr_staged_tp :: "sender_tp list"
  sr_active_master_enable :: bool
  sr_active_receiver_id :: string
  sr_active_act :: is05_activation
  sr_active_tp :: "sender_tp list"

record receiver_resources =
  rr_receiver_id :: string
  rr_sink :: stream_sink
  rr_staged_master_enable :: bool
  rr_staged_sender_id :: string
  rr_staged_act :: is05_activation
  rr_staged_tp :: "receiver_tp list"
  rr_active_master_enable :: bool
  rr_active_sender_id :: string
  rr_active_act :: is05_activation
  rr_active_tp :: "receiver_tp list"

record pending_is05 =
  pd_is_sender :: bool
  pd_daemon_id :: u8
  pd_deadline_ns :: int

datatype node_event =
    SourceAdded u8
  | SourceRemoved u8
  | SinkAdded u8
  | SinkRemoved u8
  | RegistryUpdated
  | RegistryLost

record subscription =
  sb_id :: string
  sb_resource_path :: string
  sb_source_id :: string
  sb_flow_id :: string
  sb_persist :: bool

text \<open>A call of the registry: method, host, port, path and body.\<close>

record http_call =
  hc_method :: string
  hc_host :: string
  hc_port :: u16
  hc_path :: string
  hc_body :: string

text \<open>\<open>ne_clock\<close> is what \<open>read_ptp_clock_shm_fresh\<close> of \<open>Ptp_Clock\<close> returns during the call.\<close>

record 'd node_env =
  ne_cm :: "'d cm_env"
  ne_config :: config
  ne_hostname :: string
  ne_pton :: "string \<Rightarrow> u32 option"
  ne_clock :: "ptp_clock_shm option"
  ne_ptp :: ptp_status
  ne_sec_ip_str :: string
  ne_sec_mac_str :: string
  ne_answer :: "http_call \<Rightarrow> int option"
  ne_get :: "string \<Rightarrow> u16 \<Rightarrow> string \<Rightarrow> (int \<times> string) option"

record 'd node =
  nd_session :: "'d session"
  nd_senders :: "(u8 \<times> sender_resources) list"
  nd_receivers :: "(u8 \<times> receiver_resources) list"
  nd_device_json :: string
  nd_node_json :: string
  nd_pending :: "pending_is05 list"
  nd_preserved :: "u8 \<Rightarrow> string option"
  nd_events :: "node_event list"
  nd_activations :: "(string \<times> pending_activation) list"
  nd_counter :: u64
  nd_subscriptions :: "(string \<times> subscription) list"
  nd_discovered :: "string \<times> u16"
  nd_calls :: "http_call list"

definition no_activation :: is05_activation where
  "no_activation = \<lparr>ac_mode = [], ac_requested_time = [], ac_activation_time = [], ac_deadline_ns = - 1\<rparr>"

definition no_sink :: stream_sink where
  "no_sink = \<lparr>snk_id = 0, snk_name = [], snk_io = [], snk_use_sdp = False, snk_source = [], snk_sdp = [],
     snk_delay = 0, snk_ignore_refclk_gmid = False, snk_map = []\<rparr>"

definition new_sender :: sender_resources where
  "new_sender = \<lparr>sr_source_id = [], sr_flow_id = [], sr_sender_id = [], sr_source_json = [], sr_flow_json = [],
     sr_sender_json = [], sr_staged_master_enable = True, sr_staged_receiver_id = [],
     sr_staged_act = no_activation, sr_staged_tp = [], sr_active_master_enable = True,
     sr_active_receiver_id = [], sr_active_act = no_activation, sr_active_tp = []\<rparr>"

definition new_receiver :: receiver_resources where
  "new_receiver = \<lparr>rr_receiver_id = [], rr_sink = no_sink, rr_staged_master_enable = False,
     rr_staged_sender_id = [], rr_staged_act = no_activation, rr_staged_tp = [],
     rr_active_master_enable = False, rr_active_sender_id = [], rr_active_act = no_activation,
     rr_active_tp = []\<rparr>"

abbreviation node_session_env :: "'d node_env \<Rightarrow> session_env" where
  "node_session_env E \<equiv> ce_session (ne_cm E)"

abbreviation node_ip :: "'d node_env \<Rightarrow> string" where
  "node_ip E \<equiv> cf_ip_str (ne_config E)"

abbreviation node_port :: "'d node_env \<Rightarrow> string" where
  "node_port E \<equiv> show_u (cf_nmos_node_port (ne_config E))"

abbreviation node_id :: "'d node_env \<Rightarrow> string" where
  "node_id E \<equiv> ce_node_id (ne_cm E)"

definition device_id :: "'d node_env \<Rightarrow> string" where
  "device_id E = ce_uuid (ne_cm E) (node_id E) ''device''"

definition is_dual_leg :: "'d node_env \<Rightarrow> bool" where
  "is_dual_leg E \<longleftrightarrow> get_interface_name 1 (ne_config E) \<noteq> []"

subsection \<open>Static helpers\<close>

definition colon_to_dash_mac :: "string \<Rightarrow> string" where
  "colon_to_dash_mac mac = map (\<lambda>c. if c = CHR '':'' then CHR ''-'' else c) mac"

definition eui64_to_dash_hex :: "u8 list \<Rightarrow> string" where
  "eui64_to_dash_hex bs = join_with ''-'' (map (\<lambda>b. [hex_char (unat b div 16), hex_char (unat b mod 16)]) bs)"

definition make_nmos_label :: "string \<Rightarrow> u8 list \<Rightarrow> string" where
  "make_nmos_label h m =
     (if m = [] then h @ '' ALSA''
      else h @ '' ALSA '' @ show_nat (unat (hd m) + 1) @ ''-'' @ show_nat (unat (List.last m) + 1))"

definition make_version :: "nat \<Rightarrow> string" where
  "make_version now = show_nat (now div 1000000000) @ '':'' @ show_nat (now mod 1000000000)"

definition make_tai_timestamp :: "nat \<Rightarrow> string" where
  "make_tai_timestamp now = show_nat (now div 1000000000 + 37) @ '':'' @ show_nat (now mod 1000000000)"

definition is_multicast :: "'d node_env \<Rightarrow> string \<Rightarrow> bool" where
  "is_multicast E addr = (case ne_pton E addr of None \<Rightarrow> False | Some ip \<Rightarrow> 0xE0000000 \<le> ip \<and> ip \<le> 0xEFFFFFFF)"

definition codec_to_nmos :: "string \<Rightarrow> string \<times> nat" where
  "codec_to_nmos codec =
     (if codec = ''L16'' then (''audio/L16'', 16) else if codec = ''AM824'' then (''audio/AM824'', 32)
      else (''audio/L24'', 24))"

text \<open>The documents are written with one member per line, \<open>n\<close> blanks deep, or on one line.\<close>

definition obj_lines :: "nat \<Rightarrow> (string \<times> string) list \<Rightarrow> string" where
  "obj_lines n ms = ''{'' @ join_with '','' (map (\<lambda>(k, v). nl (replicate n CHR '' '') @ quoted k @ '': '' @ v) ms) @
     nl (replicate (n - 2) CHR '' '') @ ''}''"

definition obj_flat :: "(string \<times> string) list \<Rightarrow> string" where
  "obj_flat ms = ''{'' @ join_with '','' (map (\<lambda>(k, v). quoted k @ '': '' @ v) ms) @ ''}''"

definition make_channels_json :: "u8 list \<Rightarrow> string" where
  "make_channels_json m = json_list (map (\<lambda>i. json_map [(''label'', quoted
     (if length m = 2 then (if i = 0 then ''Left'' else ''Right'') else ''Ch'' @ show_nat (i + 1)))])
     [0..<length m])"

subsection \<open>Documents\<close>

definition interface_entry :: "string \<Rightarrow> string \<Rightarrow> string" where
  "interface_entry name mac = json_map [(''name'', quoted name), (''port_id'', quoted (colon_to_dash_mac mac)),
     (''chassis_id'', quoted (colon_to_dash_mac mac))]"

text \<open>The clock: the clock manager's word when it runs, the session manager's status otherwise.\<close>

record ptp_sync_info =
  py_available :: bool
  py_locked :: bool
  py_locking :: bool
  py_gmid_dash :: string
  py_offset_ns :: int
  py_freq_ppb :: int

definition get_ptp_clock_manager_sync :: "'d node_env \<Rightarrow> ptp_sync_info" where
  "get_ptp_clock_manager_sync E =
     (case ne_clock E of
        None \<Rightarrow> \<lparr>py_available = False, py_locked = False, py_locking = False, py_gmid_dash = [], py_offset_ns = 0, py_freq_ppb = 0\<rparr>
      | Some shm \<Rightarrow> \<lparr>py_available = True, py_locked = (sh_lock_state shm = 2), py_locking = (sh_lock_state shm = 1),
          py_gmid_dash = eui64_to_dash_hex (sh_gmid shm), py_offset_ns = sint (sh_offset_ns shm),
          py_freq_ppb = sint (sh_freq_ppb shm)\<rparr>)"

definition node_clock :: "'d node_env \<Rightarrow> bool \<times> string" where
  "node_clock E =
     (let pcm = get_ptp_clock_manager_sync E;
          (locked, gmid) = (if py_available pcm then (py_locked pcm, py_gmid_dash pcm)
            else (pt_status (ne_ptp E) = ''locked'', colon_to_dash_mac (pt_gmid (ne_ptp E))))
      in (locked, if locked then gmid else ''00-00-00-00-00-00-00-00''))"

definition build_node_json :: "'d node_env \<Rightarrow> nat \<Rightarrow> string" where
  "build_node_json E now =
     (let c = ne_config E; (locked, gmid) = node_clock E
      in obj_lines 2
        [(''id'', quoted (node_id E)),
         (''version'', quoted (make_version now)),
         (''label'', quoted (cf_nmos_label c)),
         (''description'', quoted ''AES67 Linux Daemon''),
         (''tags'', ''{}''),
         (''href'', quoted (''http://'' @ node_ip E @ '':'' @ node_port E @ ''/'')),
         (''hostname'', quoted (ne_hostname E)),
         (''api'', obj_lines 4
           [(''versions'', ''['' @ quoted ''v1.3'' @ '']''),
            (''endpoints'', ''['' @ obj_lines 6
              [(''host'', quoted (node_ip E)), (''port'', node_port E), (''protocol'', quoted ''http''),
               (''authorization'', ''false'')] @ '']'')]),
         (''services'', ''[]''),
         (''caps'', ''{}''),
         (''clocks'', ''['' @ obj_lines 4
           [(''name'', quoted ''clk0''), (''ref_type'', quoted ''ptp''), (''traceable'', show_bool locked),
            (''version'', quoted ''IEEE1588-2008''), (''gmid'', quoted gmid), (''locked'', show_bool locked)] @ '']''),
         (''interfaces'', json_list
           (interface_entry (get_interface_name 0 c) (cf_mac_str c) #
            (if get_interface_name 1 c \<noteq> [] then [interface_entry (get_interface_name 1 c) (ne_sec_mac_str E)] else [])))])"

definition control_entry :: "string \<Rightarrow> string \<Rightarrow> string" where
  "control_entry href type = nl ''    '' @ ''{'' @ quoted ''href'' @ '': '' @ quoted href @ '','' @ '' '' @
     quoted ''type'' @ '': '' @ quoted type @ '','' @ '' '' @ quoted ''authorization'' @ '': false}''"

definition device_json ::
  "'d node_env \<Rightarrow> nat \<Rightarrow> (u8 \<times> sender_resources) list \<Rightarrow> (u8 \<times> receiver_resources) list \<Rightarrow> string" where
  "device_json E now snds rcvs =
     (let base = ''http://'' @ node_ip E @ '':'' @ node_port E; ws = ''ws://'' @ node_ip E @ '':'' @ node_port E
      in obj_lines 2
        [(''id'', quoted (device_id E)),
         (''version'', quoted (make_version now)),
         (''label'', quoted (cf_nmos_label (ne_config E) @ '' Device'')),
         (''description'', quoted []),
         (''tags'', ''{}''),
         (''type'', quoted ''urn:x-nmos:device:generic''),
         (''node_id'', quoted (node_id E)),
         (''senders'', json_list (map (\<lambda>(_, sr). quoted (sr_sender_id sr)) snds)),
         (''receivers'', json_list (map (\<lambda>(_, rr). quoted (rr_receiver_id rr)) rcvs)),
         (''controls'', ''['' @ join_with '',''
           ([control_entry (base @ ''/x-nmos/connection/v1.1/'') ''urn:x-nmos:control:sr-ctrl/v1.1'',
             control_entry (base @ ''/x-manifest/'') ''urn:x-nmos:control:manifest-base/v1.0''] @
            (if cf_is12_enabled (ne_config E)
             then [control_entry (ws @ ''/x-nmos/ncp/v1.0/'') ''urn:x-nmos:control:ncp/v1.0''] else []) @
            (if cf_is08_enabled (ne_config E)
             then [control_entry (base @ ''/x-nmos/channelmapping/v1.0/'') ''urn:x-nmos:control:cm-ctrl/v1.0''] else [])) @
           nl ''  ]'')])"

definition rebuild_device_json :: "'d node_env \<Rightarrow> nat \<Rightarrow> 'd node \<Rightarrow> 'd node" where
  "rebuild_device_json E now s = s\<lparr>nd_device_json := device_json E now (nd_senders s) (nd_receivers s)\<rparr>"

definition packet_samples :: "u32 \<Rightarrow> u32" where
  "packet_samples n = (if 0 < n then n else 48)"

definition build_source_json :: "'d node_env \<Rightarrow> nat \<Rightarrow> stream_source \<Rightarrow> string \<Rightarrow> string" where
  "build_source_json E now src source_id = obj_lines 2
     [(''id'', quoted source_id),
      (''version'', quoted (make_version now)),
      (''label'', quoted (make_nmos_label (ne_hostname E) (src_map src))),
      (''description'', quoted []),
      (''tags'', json_map [(''aes67-daemon:source-id'', ''['' @ quoted (show_u (src_id src)) @ '']'')]),
      (''device_id'', quoted (device_id E)),
      (''parents'', ''[]''),
      (''clock_name'', quoted ''clk0''),
      (''grain_rate'', json_map [(''numerator'', show_u (cf_sample_rate (ne_config E))),
         (''denominator'', show_u (packet_samples (src_max_samples_per_packet src)))]),
      (''caps'', ''{}''),
      (''format'', quoted ''urn:x-nmos:format:audio''),
      (''channels'', make_channels_json (src_map src))]"

definition build_flow_json :: "'d node_env \<Rightarrow> nat \<Rightarrow> stream_source \<Rightarrow> string \<Rightarrow> string \<Rightarrow> string" where
  "build_flow_json E now src source_id flow_id =
     (let rate = show_u (cf_sample_rate (ne_config E)); (media_type, bit_depth) = codec_to_nmos (src_codec src)
      in obj_lines 2
        [(''id'', quoted flow_id),
         (''version'', quoted (make_version now)),
         (''label'', quoted (make_nmos_label (ne_hostname E) (src_map src))),
         (''description'', quoted []),
         (''tags'', ''{}''),
         (''grain_rate'', json_map [(''numerator'', rate),
            (''denominator'', show_u (packet_samples (src_max_samples_per_packet src)))]),
         (''source_id'', quoted source_id),
         (''parents'', ''[]''),
         (''device_id'', quoted (device_id E)),
         (''format'', quoted ''urn:x-nmos:format:audio''),
         (''media_type'', quoted media_type),
         (''sample_rate'', json_map [(''numerator'', rate), (''denominator'', ''1'')]),
         (''bit_depth'', show_nat bit_depth),
         (''channels'', make_channels_json (src_map src))])"

definition interface_bindings :: "'d node_env \<Rightarrow> string" where
  "interface_bindings E = json_list (quoted (get_interface_name 0 (ne_config E)) #
     (if is_dual_leg E then [quoted (get_interface_name 1 (ne_config E))] else []))"

definition build_sender_json ::
  "'d node_env \<Rightarrow> nat \<Rightarrow> stream_source \<Rightarrow> string \<Rightarrow> string \<Rightarrow> string \<Rightarrow> string" where
  "build_sender_json E now src flow_id sender_id receiver_id = obj_lines 2
     [(''id'', quoted sender_id),
      (''version'', quoted (make_version now)),
      (''label'', quoted (make_nmos_label (ne_hostname E) (src_map src))),
      (''description'', quoted []),
      (''tags'', ''{}''),
      (''flow_id'', quoted flow_id),
      (''transport'', quoted (if is_multicast E (src_address src) then ''urn:x-nmos:transport:rtp.mcast''
                              else ''urn:x-nmos:transport:rtp.ucast'')),
      (''device_id'', quoted (device_id E)),
      (''manifest_href'', quoted (''http://'' @ node_ip E @ '':'' @ node_port E @
         ''/x-manifest/senders/'' @ sender_id @ ''/manifest'')),
      (''interface_bindings'', interface_bindings E),
      (''subscription'', json_map [(''receiver_id'', or_null receiver_id), (''active'', show_bool (src_enabled src))])]"

text \<open>The packet times of AES67 that give a whole number of samples, not more than the configured
  frame; each time in milliseconds as a double and as \<open>operator<<\<close> prints it.\<close>

definition aes67_ptimes_ms :: "(dbl \<times> string) list" where
  "aes67_ptimes_ms = [((1, 8), ''0.125''), ((1, 4), ''0.25''), ((1, 1), ''1''), ((4, 1), ''4'')]"

definition packet_times :: "u32 \<Rightarrow> u32 \<Rightarrow> string list" where
  "packet_times rate max_samples =
     map snd (filter (\<lambda>(p, _).
       (let samples = dbl_div (dbl_mult p (dbl_of_nat (unat rate))) (dbl_of_nat 1000)
        in snd samples dvd fst samples \<and> dbl_trunc samples \<le> unat max_samples)) aes67_ptimes_ms)"

definition build_receiver_json :: "'d node_env \<Rightarrow> nat \<Rightarrow> stream_sink \<Rightarrow> string \<Rightarrow> string \<Rightarrow> string" where
  "build_receiver_json E now sink receiver_id sender_id =
     (let c = ne_config E; channels = (if 0 < length (snk_map sink) then length (snk_map sink) else 8)
      in obj_lines 2
        [(''id'', quoted receiver_id),
         (''version'', quoted (make_version now)),
         (''label'', quoted (make_nmos_label (ne_hostname E) (snk_map sink))),
         (''description'', quoted []),
         (''tags'', json_map [(''aes67-daemon:sink-id'', ''['' @ quoted (show_u (snk_id sink)) @ '']'')]),
         (''device_id'', quoted (device_id E)),
         (''transport'', quoted ''urn:x-nmos:transport:rtp.mcast''),
         (''interface_bindings'', interface_bindings E),
         (''format'', quoted ''urn:x-nmos:format:audio''),
         (''caps'', obj_lines 4
           [(''media_types'', json_list [quoted ''audio/L24'', quoted ''audio/L16'', quoted ''audio/AM824'']),
            (''constraint_sets'', ''['' @ obj_lines 6
              [(''urn:x-nmos:cap:format:channel_count'', json_map [(''minimum'', ''1''), (''maximum'', show_nat channels)]),
               (''urn:x-nmos:cap:format:sample_depth'', json_map [(''enum'', json_list [''16'', ''24'', ''32''])]),
               (''urn:x-nmos:cap:format:sample_rate'', json_map [(''enum'', json_list
                  [json_map [(''denominator'', ''1''), (''numerator'', show_u (cf_sample_rate c))]])]),
               (''urn:x-nmos:cap:transport:packet_time'', json_map [(''enum'', json_list
                  (packet_times (cf_sample_rate c) (cf_max_tic_frame_size c)))])] @ '']'')]),
         (''subscription'', json_map [(''sender_id'', or_null sender_id), (''active'', show_bool (sender_id \<noteq> []))])])"

definition receiver_json :: "'d node_env \<Rightarrow> nat \<Rightarrow> receiver_resources \<Rightarrow> string" where
  "receiver_json E now rr = build_receiver_json E now (rr_sink rr) (rr_receiver_id rr) (rr_active_sender_id rr)"

definition subscription_json :: "'d node_env \<Rightarrow> subscription \<Rightarrow> string" where
  "subscription_json E sub = obj_flat
     [(''id'', quoted (sb_id sub)), (''resource_path'', quoted (sb_resource_path sub)), (''params'', ''{}''),
      (''persist'', show_bool (sb_persist sub)), (''secure'', ''false''), (''authorization'', ''false''),
      (''max_update_rate_ms'', ''100''),
      (''ws_href'', quoted (''ws://'' @ node_ip E @ '':'' @ node_port E @ ''/x-nmos/query/v1.3/subscriptions/'' @ sb_id sub))]"

text \<open>The resources of a path, each with its id; of any other path there are none.\<close>

definition resources_of :: "'d node_env \<Rightarrow> nat \<Rightarrow> string \<Rightarrow> 'd node \<Rightarrow> (string \<times> string) list" where
  "resources_of E now path s =
     (if path = ''/nodes'' then [(node_id E, build_node_json E now)]
      else if path = ''/devices'' then (if nd_device_json s \<noteq> [] then [(device_id E, nd_device_json s)] else [])
      else if path = ''/sources'' then map (\<lambda>(_, sr). (sr_source_id sr, sr_source_json sr)) (nd_senders s)
      else if path = ''/flows'' then map (\<lambda>(_, sr). (sr_flow_id sr, sr_flow_json sr)) (nd_senders s)
      else if path = ''/senders'' then map (\<lambda>(_, sr). (sr_sender_id sr, sr_sender_json sr)) (nd_senders s)
      else if path = ''/receivers'' then map (\<lambda>(_, rr). (rr_receiver_id rr, receiver_json E now rr)) (nd_receivers s)
      else [])"

definition build_initial_grain :: "'d node_env \<Rightarrow> nat \<Rightarrow> string \<Rightarrow> string \<Rightarrow> string \<Rightarrow> 'd node \<Rightarrow> string" where
  "build_initial_grain E now path source_id flow_id s =
     (let ts = quoted (make_tai_timestamp now)
      in obj_flat
        [(''grain_type'', quoted ''event''), (''source_id'', quoted source_id), (''flow_id'', quoted flow_id),
         (''origin_timestamp'', ts), (''sync_timestamp'', ts), (''creation_timestamp'', ts),
         (''rate'', json_map [(''numerator'', ''0''), (''denominator'', ''1'')]),
         (''duration'', json_map [(''numerator'', ''0''), (''denominator'', ''1'')]),
         (''grain'', obj_flat
           [(''type'', quoted ''urn:x-nmos:format:data.event''), (''topic'', quoted (path @ ''/'')),
            (''data'', json_list (map (\<lambda>(i, j). json_map [(''path'', quoted (''/'' @ i)), (''post'', j)])
               (resources_of E now path s)))])])"

subsection \<open>The registry\<close>

definition effective_registry_address :: "'d node_env \<Rightarrow> 'd node \<Rightarrow> string" where
  "effective_registry_address E s =
     (if cf_nmos_registry_auto_discover (ne_config E) \<and> fst (nd_discovered s) \<noteq> [] then fst (nd_discovered s)
      else cf_nmos_registry_address (ne_config E))"

definition effective_registry_port :: "'d node_env \<Rightarrow> 'd node \<Rightarrow> u16" where
  "effective_registry_port E s =
     (if cf_nmos_registry_auto_discover (ne_config E) \<and> fst (nd_discovered s) \<noteq> [] then snd (nd_discovered s)
      else cf_nmos_registry_port (ne_config E))"

definition effective_registry_query_port :: "'d node_env \<Rightarrow> 'd node \<Rightarrow> u16" where
  "effective_registry_query_port E s =
     (if cf_nmos_registry_auto_discover (ne_config E) \<and> fst (nd_discovered s) \<noteq> [] then snd (nd_discovered s)
      else cf_nmos_registry_query_port (ne_config E))"

definition registry_call :: "'d node_env \<Rightarrow> string \<Rightarrow> string \<Rightarrow> string \<Rightarrow> 'd node \<Rightarrow> int option \<times> 'd node" where
  "registry_call E meth path body s =
     (let c = \<lparr>hc_method = meth, hc_host = effective_registry_address E s,
               hc_port = effective_registry_port E s, hc_path = path, hc_body = body\<rparr>
      in (ne_answer E c, s\<lparr>nd_calls := nd_calls s @ [c]\<rparr>))"

definition register_resource :: "'d node_env \<Rightarrow> string \<Rightarrow> string \<Rightarrow> 'd node \<Rightarrow> bool \<times> 'd node" where
  "register_resource E type data s =
     (let (r, s) = registry_call E ''POST'' ''/x-nmos/registration/v1.3/resource''
            (json_map [(''type'', quoted type), (''data'', data)]) s
      in (r = Some 200 \<or> r = Some 201, s))"

definition unregister_resource :: "'d node_env \<Rightarrow> string \<Rightarrow> string \<Rightarrow> 'd node \<Rightarrow> bool \<times> 'd node" where
  "unregister_resource E type i s =
     (let (r, s) = registry_call E ''DELETE'' (''/x-nmos/registration/v1.3/resource/'' @ type @ ''s/'' @ i) [] s
      in (r = Some 204, s))"

fun register_all :: "'d node_env \<Rightarrow> (string \<times> string) list \<Rightarrow> 'd node \<Rightarrow> 'd node" where
  "register_all E [] s = s"
| "register_all E ((type, data) # rs) s = register_all E rs (snd (register_resource E type data s))"

text \<open>What the DNS-SD callbacks do once the registry's address is known or the registry is gone.\<close>

definition on_registry_resolved :: "string \<Rightarrow> u16 \<Rightarrow> 'd node \<Rightarrow> 'd node" where
  "on_registry_resolved addr port s =
     s\<lparr>nd_discovered := (addr, port), nd_events := nd_events s @ [RegistryUpdated]\<rparr>"

definition on_registry_removed :: "'d node \<Rightarrow> 'd node" where
  "on_registry_removed s = s\<lparr>nd_discovered := ([], 0), nd_events := nd_events s @ [RegistryLost]\<rparr>"

subsection \<open>Reading an SDP\<close>

text \<open>\<open>s.find(key, pos)\<close>, and the loop that finds its occurrence number \<open>leg + 1\<close>.\<close>

definition find_from :: "string \<Rightarrow> nat \<Rightarrow> string \<Rightarrow> nat option" where
  "find_from key pos s = map_option ((+) pos) (find_str key (drop pos s))"

fun find_leg :: "string \<Rightarrow> nat \<Rightarrow> nat \<Rightarrow> nat \<Rightarrow> string \<Rightarrow> nat option" where
  "find_leg key step 0 pos s = find_from key pos s"
| "find_leg key step (Suc k) pos s =
     (case find_from key pos s of None \<Rightarrow> None | Some p \<Rightarrow> find_leg key step k (p + step) s)"

definition sdp_has_dup :: "string \<Rightarrow> bool" where
  "sdp_has_dup sdp \<longleftrightarrow> find_str ''a=group:DUP'' sdp \<noteq> None"

definition sdp_connection_ip :: "string \<Rightarrow> nat \<Rightarrow> string" where
  "sdp_connection_ip sdp k =
     (case find_leg ''m=audio '' 1 k 0 sdp of
        None \<Rightarrow> []
      | Some pos \<Rightarrow>
          (case find_from ''c=IN IP4 '' pos sdp of
             None \<Rightarrow> []
           | Some c \<Rightarrow>
               (case find_from (nl ''m='') (pos + 1) sdp of
                  Some next_m \<Rightarrow> if next_m < c then []
                    else takeWhile (\<lambda>x. x \<notin> set (''/'' @ crlf)) (drop (c + 9) sdp)
                | None \<Rightarrow> takeWhile (\<lambda>x. x \<notin> set (''/'' @ crlf)) (drop (c + 9) sdp))))"

definition sdp_media_port :: "string \<Rightarrow> nat \<Rightarrow> u16" where
  "sdp_media_port sdp k =
     (case find_leg ''m=audio '' 1 k 0 sdp of
        None \<Rightarrow> 5004
      | Some pos \<Rightarrow> (case stoi (takeWhile (\<lambda>x. x \<noteq> CHR '' '') (drop (pos + 8) sdp)) of
                       None \<Rightarrow> 5004 | Some i \<Rightarrow> word_of_int i))"

definition source_filter_prefix :: string where
  "source_filter_prefix = ''a=source-filter: incl IN IP4 ''"

definition sdp_source_filter_ip :: "string \<Rightarrow> nat \<Rightarrow> string" where
  "sdp_source_filter_ip sdp k =
     (case find_leg source_filter_prefix (length source_filter_prefix) k 0 sdp of
        None \<Rightarrow> []
      | Some pos \<Rightarrow>
          (case find_from '' '' (pos + length source_filter_prefix) sdp of
             None \<Rightarrow> []
           | Some sp \<Rightarrow> takeWhile (\<lambda>x. x \<notin> set crlf) (drop (sp + 1) sdp)))"

subsection \<open>Transport parameters\<close>

definition text_of :: "'e + string \<Rightarrow> string" where
  "text_of r = (case r of Inl _ \<Rightarrow> [] | Inr s \<Rightarrow> s)"

definition build_sender_tp :: "'d node_env \<Rightarrow> 'd session \<Rightarrow> stream_source \<Rightarrow> sender_tp list" where
  "build_sender_tp E st src =
     (let c = ne_config E;
          sdp = text_of (get_source_sdp (node_session_env E) (ucast (src_id src)) st);
          (ip1, port1) = (if sdp_has_dup sdp then (sdp_connection_ip sdp 1, sdp_media_port sdp 1)
                          else (src_address src, cf_rtp_port_sec c))
      in \<lparr>tp_source_ip = node_ip E, tp_destination_ip = src_address src, tp_source_port = cf_rtp_port c,
          tp_destination_port = cf_rtp_port c, tp_rtp_enabled = src_enabled src\<rparr> #
         (if is_dual_leg E
          then [\<lparr>tp_source_ip = ne_sec_ip_str E, tp_destination_ip = ip1, tp_source_port = port1,
                 tp_destination_port = port1, tp_rtp_enabled = src_enabled src\<rparr>]
          else []))"

definition or_auto :: "string \<Rightarrow> string" where
  "or_auto s = (if s = [] then ''auto'' else s)"

definition receiver_leg :: "'d node_env \<Rightarrow> string \<Rightarrow> string \<Rightarrow> nat \<Rightarrow> receiver_tp" where
  "receiver_leg E ip sdp k =
     \<lparr>rt_interface_ip = ip,
      rt_multicast_ip = (if is_multicast E (sdp_connection_ip sdp k) then sdp_connection_ip sdp k else []),
      rt_destination_port = sdp_media_port sdp k, rt_source_ip = or_auto (sdp_source_filter_ip sdp k),
      rt_rtp_enabled = True\<rparr>"

definition empty_receiver_leg :: "string \<Rightarrow> receiver_tp" where
  "empty_receiver_leg ip = \<lparr>rt_interface_ip = ip, rt_multicast_ip = [], rt_destination_port = 5004,
     rt_source_ip = ''auto'', rt_rtp_enabled = False\<rparr>"

definition build_receiver_tp_from_sdp :: "'d node_env \<Rightarrow> string \<Rightarrow> receiver_tp list" where
  "build_receiver_tp_from_sdp E sdp =
     receiver_leg E (node_ip E) sdp 0 #
     (if is_dual_leg E
      then [if sdp_has_dup sdp then receiver_leg E (ne_sec_ip_str E) sdp 1 else empty_receiver_leg (ne_sec_ip_str E)]
      else [])"

subsection \<open>Local registration\<close>

definition node_uuid :: "'d node_env \<Rightarrow> string \<Rightarrow> u8 \<Rightarrow> string" where
  "node_uuid E type i = make_resource_uuid (ne_cm E) type i"

abbreviation sender_of :: "u8 \<Rightarrow> 'd node \<Rightarrow> sender_resources" where
  "sender_of i s \<equiv> case_option new_sender id (map_of (nd_senders s) i)"

abbreviation receiver_of :: "u8 \<Rightarrow> 'd node \<Rightarrow> receiver_resources" where
  "receiver_of i s \<equiv> case_option new_receiver id (map_of (nd_receivers s) i)"

definition register_source_local :: "'d node_env \<Rightarrow> nat \<Rightarrow> u8 \<Rightarrow> 'd node \<Rightarrow> bool \<times> 'd node" where
  "register_source_local E now i s =
     (case get_source (node_session_env E) i (nd_session s) of
        Inl _ \<Rightarrow> (False, s)
      | Inr src \<Rightarrow>
          (let source_id = node_uuid E ''source'' i; flow_id = node_uuid E ''flow'' i;
               sender_id = node_uuid E ''sender'' i; tp = build_sender_tp E (nd_session s) src;
               sr = (sender_of i s)
                 \<lparr>sr_source_id := source_id, sr_flow_id := flow_id, sr_sender_id := sender_id,
                  sr_source_json := build_source_json E now src source_id,
                  sr_flow_json := build_flow_json E now src source_id flow_id,
                  sr_sender_json := build_sender_json E now src flow_id sender_id [],
                  sr_staged_master_enable := src_enabled src, sr_staged_tp := tp,
                  sr_active_master_enable := src_enabled src, sr_active_tp := tp\<rparr>
           in (True, rebuild_device_json E now (s\<lparr>nd_senders := smap_upd i sr (nd_senders s)\<rparr>))))"

definition sink_connected :: "stream_sink \<Rightarrow> bool" where
  "sink_connected sink \<longleftrightarrow> snk_use_sdp sink \<and> snk_sdp sink \<noteq> []"

definition sink_tps :: "'d node_env \<Rightarrow> stream_sink \<Rightarrow> receiver_tp list" where
  "sink_tps E sink =
     (if sink_connected sink then build_receiver_tp_from_sdp E (snk_sdp sink)
      else empty_receiver_leg (node_ip E) #
           (if is_dual_leg E then [empty_receiver_leg (ne_sec_ip_str E)] else []))"

definition register_sink_local :: "'d node_env \<Rightarrow> nat \<Rightarrow> u8 \<Rightarrow> 'd node \<Rightarrow> bool \<times> 'd node" where
  "register_sink_local E now i s =
     (case get_sink i (nd_session s) of
        Inl _ \<Rightarrow> (False, s)
      | Inr sink \<Rightarrow>
          (let rr = (receiver_of i s)
                 \<lparr>rr_receiver_id := node_uuid E ''receiver'' i, rr_sink := sink,
                  rr_staged_master_enable := sink_connected sink, rr_staged_tp := sink_tps E sink,
                  rr_active_master_enable := sink_connected sink, rr_active_tp := sink_tps E sink,
                  rr_active_sender_id := case_option [] id (nd_preserved s i)\<rparr>
           in (True, rebuild_device_json E now
                 (s\<lparr>nd_receivers := smap_upd i rr (nd_receivers s), nd_preserved := (nd_preserved s)(i := None)\<rparr>))))"

subsection \<open>Registration\<close>

definition register_source :: "'d node_env \<Rightarrow> nat \<Rightarrow> u8 \<Rightarrow> 'd node \<Rightarrow> bool \<times> 'd node" where
  "register_source E now i s =
     (case register_source_local E now i s of
        (False, s) \<Rightarrow> (False, s)
      | (True, s) \<Rightarrow>
          (case map_of (nd_senders s) i of
             None \<Rightarrow> (False, s)
           | Some sr \<Rightarrow> (True, register_all E
               [(''source'', sr_source_json sr), (''flow'', sr_flow_json sr), (''sender'', sr_sender_json sr),
                (''device'', nd_device_json s)] s)))"

definition unregister_source :: "'d node_env \<Rightarrow> nat \<Rightarrow> u8 \<Rightarrow> 'd node \<Rightarrow> 'd node" where
  "unregister_source E now i s =
     (case map_of (nd_senders s) i of
        None \<Rightarrow> s
      | Some sr \<Rightarrow>
          (let s = rebuild_device_json E now (s\<lparr>nd_senders := smap_del i (nd_senders s)\<rparr>);
               s = snd (register_resource E ''device'' (nd_device_json s) s);
               s = snd (unregister_resource E ''sender'' (sr_sender_id sr) s);
               s = snd (unregister_resource E ''flow'' (sr_flow_id sr) s)
           in snd (unregister_resource E ''source'' (sr_source_id sr) s)))"

definition register_sink :: "'d node_env \<Rightarrow> nat \<Rightarrow> u8 \<Rightarrow> 'd node \<Rightarrow> bool \<times> 'd node" where
  "register_sink E now i s =
     (case register_sink_local E now i s of
        (False, s) \<Rightarrow> (False, s)
      | (True, s) \<Rightarrow>
          (case map_of (nd_receivers s) i of
             None \<Rightarrow> (False, s)
           | Some rr \<Rightarrow> (True, register_all E
               [(''receiver'', receiver_json E now rr), (''device'', nd_device_json s)] s)))"

definition unregister_sink :: "'d node_env \<Rightarrow> nat \<Rightarrow> u8 \<Rightarrow> 'd node \<Rightarrow> 'd node" where
  "unregister_sink E now i s =
     (case map_of (nd_receivers s) i of
        None \<Rightarrow> s
      | Some rr \<Rightarrow>
          (let s = rebuild_device_json E now (s\<lparr>nd_receivers := smap_del i (nd_receivers s)\<rparr>);
               s = snd (register_resource E ''device'' (nd_device_json s) s)
           in snd (unregister_resource E ''receiver'' (rr_receiver_id rr) s)))"

fun register_locals :: "('d node_env \<Rightarrow> nat \<Rightarrow> u8 \<Rightarrow> 'd node \<Rightarrow> bool \<times> 'd node) \<Rightarrow> 'd node_env \<Rightarrow> nat \<Rightarrow> u8 list \<Rightarrow> 'd node \<Rightarrow> 'd node" where
  "register_locals reg E now [] s = s"
| "register_locals reg E now (i # is) s = register_locals reg E now is (snd (reg E now i s))"

definition sync_local :: "'d node_env \<Rightarrow> nat \<Rightarrow> 'd node \<Rightarrow> 'd node" where
  "sync_local E now s =
     (let s = register_locals register_source_local E now
            (map src_id (get_sources (node_session_env E) (nd_session s))) s
      in register_locals register_sink_local E now (map snk_id (get_sinks (nd_session s))) s)"

definition full_registration :: "'d node_env \<Rightarrow> nat \<Rightarrow> 'd node \<Rightarrow> bool \<times> 'd node" where
  "full_registration E now s =
     (let s = sync_local E now s; s = s\<lparr>nd_node_json := build_node_json E now\<rparr>
      in (True, register_all E
           ((''node'', nd_node_json s) # (''device'', nd_device_json s) #
            concat (map (\<lambda>(_, sr). [(''source'', sr_source_json sr), (''flow'', sr_flow_json sr),
                                     (''sender'', sr_sender_json sr)]) (nd_senders s)) @
            map (\<lambda>(_, rr). (''receiver'', receiver_json E now rr)) (nd_receivers s)) s))"

definition heartbeat :: "'d node_env \<Rightarrow> nat \<Rightarrow> 'd node \<Rightarrow> bool \<times> 'd node" where
  "heartbeat E now s =
     (let (r, s) = registry_call E ''POST'' (''/x-nmos/registration/v1.3/health/nodes/'' @ node_id E) [] s
      in if r = Some 404 then full_registration E now s else (r = Some 200, s))"

subsection \<open>Observers and events\<close>

text \<open>The observers of the session manager put an event into the queue while the node runs; the
  calls a session operation made are the end of its log.\<close>

fun event_of :: "session_event \<Rightarrow> node_event list" where
  "event_of (Source_added i _ _) = [SourceAdded i]"
| "event_of (Source_removed i _) = [SourceRemoved i]"
| "event_of (Source_updated _ _ _) = []"
| "event_of (Sink_added i _) = [SinkAdded i]"
| "event_of (Sink_removed i _) = [SinkRemoved i]"

definition observed :: "'d session \<Rightarrow> 'd session \<Rightarrow> node_event list" where
  "observed st st' = concat (map event_of (drop (length (ss_log st)) (ss_log st')))"

definition run_session :: "'d session \<Rightarrow> 'd node \<Rightarrow> 'd node" where
  "run_session st' s = s\<lparr>nd_session := st', nd_events := nd_events s @ observed (nd_session s) st'\<rparr>"

fun handle_event :: "'d node_env \<Rightarrow> nat \<Rightarrow> node_event \<Rightarrow> 'd node \<Rightarrow> 'd node" where
  "handle_event E now (SourceAdded i) s = snd (register_source E now i s)"
| "handle_event E now (SourceRemoved i) s = unregister_source E now i s"
| "handle_event E now (SinkAdded i) s = snd (register_sink E now i s)"
| "handle_event E now (SinkRemoved i) s = unregister_sink E now i s"
| "handle_event E now RegistryUpdated s = snd (full_registration E now s)"
| "handle_event E now RegistryLost s = s"

text \<open>The worker takes one event from the front of the queue and handles it without the lock of the
  queue.\<close>

definition take_event :: "'d node_env \<Rightarrow> nat \<Rightarrow> 'd node \<Rightarrow> 'd node" where
  "take_event E now s = (case nd_events s of [] \<Rightarrow> s
     | ev # evs \<Rightarrow> handle_event E now ev (s\<lparr>nd_events := evs\<rparr>))"

fun drain_events :: "'d node_env \<Rightarrow> nat \<Rightarrow> node_event list \<Rightarrow> 'd node \<Rightarrow> 'd node" where
  "drain_events E now [] s = s"
| "drain_events E now (ev # evs) s = drain_events E now evs (handle_event E now ev (s\<lparr>nd_events := evs\<rparr>))"

definition node_init :: "'d node_env \<Rightarrow> nat \<Rightarrow> 'd session \<Rightarrow> 'd node" where
  "node_init E now st =
     (let E0 = E\<lparr>ne_sec_ip_str := [], ne_sec_mac_str := []\<rparr>;
          s = \<lparr>nd_session = st, nd_senders = [], nd_receivers = [], nd_device_json = [], nd_node_json = [],
               nd_pending = [], nd_preserved = Map.empty, nd_events = [], nd_activations = [], nd_counter = 0,
               nd_subscriptions = [], nd_discovered = ([], 0), nd_calls = []\<rparr>;
          s = rebuild_device_json E0 now s;
          s = s\<lparr>nd_node_json := build_node_json E0 now\<rparr>
      in sync_local E0 now s)"

end
