(* ===== verification/Connection.thy ===== *)
theory Connection
  imports Node_Resources
begin

text \<open>
  The connection interface of \<open>daemon/nmos_manager.cpp\<close> (AMWA IS-05).  Every sender and receiver of
  the node has staged and active parameters: a PATCH merges its document into the staged ones and
  may activate them, at once or when a time has come.  Activating a receiver fetches the SDP of
  the sender it is to follow, from the session manager or from another node through the registry,
  and reconfigures the sink; this in turn puts events into the queue of the registration worker.

  \<open>tick\<close> is the steady clock in nanoseconds.  A deadline whose computation leaves 64 bits is
  undefined in C++; an exception of the session manager ends the request or the worker.
\<close>

subsection \<open>Documents\<close>

definition tp_sender_json :: "sender_tp \<Rightarrow> string" where
  "tp_sender_json tp = json_map
     [(''source_ip'', quoted (tp_source_ip tp)), (''destination_ip'', quoted (tp_destination_ip tp)),
      (''source_port'', show_u (tp_source_port tp)), (''destination_port'', show_u (tp_destination_port tp)),
      (''rtp_enabled'', show_bool (tp_rtp_enabled tp))]"

definition tp_receiver_json :: "receiver_tp \<Rightarrow> string" where
  "tp_receiver_json tp = json_map
     [(''interface_ip'', quoted (rt_interface_ip tp)), (''multicast_ip'', or_null (rt_multicast_ip tp)),
      (''destination_port'', show_u (rt_destination_port tp)), (''source_ip'', quoted (rt_source_ip tp)),
      (''rtp_enabled'', show_bool (rt_rtp_enabled tp))]"

definition activation_json :: "is05_activation \<Rightarrow> string" where
  "activation_json act = json_map
     [(''mode'', or_null (ac_mode act)), (''requested_time'', or_null (ac_requested_time act)),
      (''activation_time'', or_null (ac_activation_time act))]"

definition parameters_json :: "bool \<Rightarrow> string \<Rightarrow> string \<Rightarrow> is05_activation \<Rightarrow> string list \<Rightarrow> string" where
  "parameters_json enable peer peer_id act tps = json_map
     [(''master_enable'', show_bool enable), (peer, or_null peer_id), (''activation'', activation_json act),
      (''transport_params'', json_list tps)]"

definition staged_sender_json :: "sender_resources \<Rightarrow> string" where
  "staged_sender_json sr = parameters_json (sr_staged_master_enable sr) ''receiver_id''
     (sr_staged_receiver_id sr) (sr_staged_act sr) (map tp_sender_json (sr_staged_tp sr))"

definition active_sender_json :: "sender_resources \<Rightarrow> string" where
  "active_sender_json sr = parameters_json (sr_active_master_enable sr) ''receiver_id''
     (sr_active_receiver_id sr) (sr_active_act sr) (map tp_sender_json (sr_active_tp sr))"

definition staged_receiver_json :: "receiver_resources \<Rightarrow> string" where
  "staged_receiver_json rr = parameters_json (rr_staged_master_enable rr) ''sender_id''
     (rr_staged_sender_id rr) (rr_staged_act rr) (map tp_receiver_json (rr_staged_tp rr))"

definition active_receiver_json :: "receiver_resources \<Rightarrow> string" where
  "active_receiver_json rr = parameters_json (rr_active_master_enable rr) ''sender_id''
     (rr_active_sender_id rr) (rr_active_act rr) (map tp_receiver_json (rr_active_tp rr))"

subsection \<open>Merging a PATCH\<close>

definition opt_value :: "(string \<Rightarrow> 'a option) \<Rightarrow> string \<Rightarrow> ptree \<Rightarrow> 'a option" where
  "opt_value conv k t = Option.bind (opt_text k t) conv"

definition merged :: "'a option \<Rightarrow> 'a \<Rightarrow> 'a" where
  "merged v x = (case v of None \<Rightarrow> x | Some y \<Rightarrow> y)"

definition not_null :: "string option \<Rightarrow> string option" where
  "not_null v = map_option (\<lambda>t. if t = ''null'' then [] else t) v"

text \<open>The loop over the legs of the document ends with the shorter of the two lists.\<close>

fun merge_legs :: "(ptree \<Rightarrow> 'a \<Rightarrow> 'a) \<Rightarrow> (string \<times> ptree) list \<Rightarrow> 'a list \<Rightarrow> 'a list" where
  "merge_legs f ((_, t) # ts) (x # xs) = f t x # merge_legs f ts xs"
| "merge_legs f _ xs = xs"

definition merge_tps :: "(ptree \<Rightarrow> 'a \<Rightarrow> 'a) \<Rightarrow> ptree \<Rightarrow> 'a list \<Rightarrow> 'a list" where
  "merge_tps f pt tps = (case map_of (tree_kids pt) ''transport_params'' of
     None \<Rightarrow> tps | Some c \<Rightarrow> merge_legs f (tree_kids c) tps)"

definition merge_act :: "ptree \<Rightarrow> is05_activation \<Rightarrow> is05_activation" where
  "merge_act pt act = act
     \<lparr>ac_mode := merged (not_null (opt_text2 ''activation'' ''mode'' pt)) (ac_mode act),
      ac_requested_time := merged (not_null (opt_text2 ''activation'' ''requested_time'' pt)) (ac_requested_time act)\<rparr>"

definition merge_sender_tp :: "ptree_lib \<Rightarrow> ptree \<Rightarrow> sender_tp \<Rightarrow> sender_tp" where
  "merge_sender_tp lib t tp = tp
     \<lparr>tp_source_ip := merged (opt_text ''source_ip'' t) (tp_source_ip tp),
      tp_destination_ip := merged (opt_text ''destination_ip'' t) (tp_destination_ip tp),
      tp_source_port := merged (opt_value (pl_u16 lib) ''source_port'' t) (tp_source_port tp),
      tp_destination_port := merged (opt_value (pl_u16 lib) ''destination_port'' t) (tp_destination_port tp),
      tp_rtp_enabled := merged (opt_value (pl_bool lib) ''rtp_enabled'' t) (tp_rtp_enabled tp)\<rparr>"

definition merge_sender :: "ptree_lib \<Rightarrow> ptree \<Rightarrow> sender_resources \<Rightarrow> sender_resources" where
  "merge_sender lib pt sr = sr
     \<lparr>sr_staged_master_enable := merged (opt_value (pl_bool lib) ''master_enable'' pt) (sr_staged_master_enable sr),
      sr_staged_receiver_id := merged (not_null (opt_text ''receiver_id'' pt)) (sr_staged_receiver_id sr),
      sr_staged_act := merge_act pt (sr_staged_act sr),
      sr_staged_tp := merge_tps (merge_sender_tp lib) pt (sr_staged_tp sr)\<rparr>"

definition merge_receiver_tp :: "ptree_lib \<Rightarrow> ptree \<Rightarrow> receiver_tp \<Rightarrow> receiver_tp" where
  "merge_receiver_tp lib t tp = tp
     \<lparr>rt_interface_ip := merged (opt_text ''interface_ip'' t) (rt_interface_ip tp),
      rt_multicast_ip := merged (not_null (opt_text ''multicast_ip'' t)) (rt_multicast_ip tp),
      rt_destination_port := merged (opt_value (pl_u16 lib) ''destination_port'' t) (rt_destination_port tp),
      rt_source_ip := merged (opt_text ''source_ip'' t) (rt_source_ip tp),
      rt_rtp_enabled := merged (opt_value (pl_bool lib) ''rtp_enabled'' t) (rt_rtp_enabled tp)\<rparr>"

definition merge_receiver :: "ptree_lib \<Rightarrow> ptree \<Rightarrow> receiver_resources \<Rightarrow> receiver_resources" where
  "merge_receiver lib pt rr = rr
     \<lparr>rr_staged_master_enable := merged (opt_value (pl_bool lib) ''master_enable'' pt) (rr_staged_master_enable rr),
      rr_staged_sender_id := merged (not_null (opt_text ''sender_id'' pt)) (rr_staged_sender_id rr),
      rr_staged_act := merge_act pt (rr_staged_act rr),
      rr_staged_tp := merge_tps (merge_receiver_tp lib) pt (rr_staged_tp rr)\<rparr>"

subsection \<open>When to activate\<close>

datatype act_plan = Act_none | Act_now | Act_at int | Act_undefined

definition relative_deadline :: "int \<Rightarrow> string \<Rightarrow> act_plan" where
  "relative_deadline tick t =
     (let (s, n) = (case find_str '':'' t of
            Some colon \<Rightarrow> (stoll (take colon t), stoll (drop (colon + 1) t))
          | None \<Rightarrow> (stoll t, Some 0))
      in case (s, n) of
           (Some s, Some n) \<Rightarrow>
             if in_int64 (s * 1000000000) \<and> in_int64 (tick + s * 1000000000) \<and> in_int64 (tick + s * 1000000000 + n)
             then Act_at (tick + s * 1000000000 + n) else Act_undefined
         | _ \<Rightarrow> Act_at (tick + 1000000000))"

definition plan_activation :: "int \<Rightarrow> is05_activation \<Rightarrow> act_plan" where
  "plan_activation tick act =
     (if ac_mode act = ''activate_immediate'' then Act_now
      else if ac_mode act = ''activate_scheduled_relative'' \<or> ac_mode act = ''activate_scheduled_absolute''
      then (if ac_mode act = ''activate_scheduled_relative'' \<and> ac_requested_time act \<noteq> []
            then relative_deadline tick (ac_requested_time act)
            else Act_at (tick + 1000000000))
      else Act_none)"

subsection \<open>The tables\<close>

definition set_sender :: "u8 \<Rightarrow> (sender_resources \<Rightarrow> sender_resources) \<Rightarrow> 'd node \<Rightarrow> 'd node" where
  "set_sender i f s = (case map_of (nd_senders s) i of
     None \<Rightarrow> s | Some sr \<Rightarrow> s\<lparr>nd_senders := smap_upd i (f sr) (nd_senders s)\<rparr>)"

definition set_receiver :: "u8 \<Rightarrow> (receiver_resources \<Rightarrow> receiver_resources) \<Rightarrow> 'd node \<Rightarrow> 'd node" where
  "set_receiver i f s = (case map_of (nd_receivers s) i of
     None \<Rightarrow> s | Some rr \<Rightarrow> s\<lparr>nd_receivers := smap_upd i (f rr) (nd_receivers s)\<rparr>)"

definition find_sender :: "string \<Rightarrow> 'd node \<Rightarrow> u8 option" where
  "find_sender uuid s = map_option fst (List.find (\<lambda>(_, sr). sr_sender_id sr = uuid) (nd_senders s))"

definition find_receiver :: "string \<Rightarrow> 'd node \<Rightarrow> u8 option" where
  "find_receiver uuid s = map_option fst (List.find (\<lambda>(_, rr). rr_receiver_id rr = uuid) (nd_receivers s))"

subsection \<open>Activating a sender\<close>

definition promote_sender :: "sender_resources \<Rightarrow> sender_resources" where
  "promote_sender sr = sr
     \<lparr>sr_active_master_enable := sr_staged_master_enable sr, sr_active_receiver_id := sr_staged_receiver_id sr,
      sr_active_act := sr_staged_act sr, sr_active_tp := sr_staged_tp sr\<rparr>"

definition apply_sender_activation :: "'d node_env \<Rightarrow> nat \<Rightarrow> u8 \<Rightarrow> 'd node \<Rightarrow> 'd node" where
  "apply_sender_activation E now i s =
     (if map_of (nd_senders s) i = None then s
      else (let s = set_sender i promote_sender s
            in case get_source (node_session_env E) i (nd_session s) of
                 Inl _ \<Rightarrow> s
               | Inr src \<Rightarrow> set_sender i (\<lambda>sr. sr\<lparr>sr_sender_json :=
                   build_sender_json E now src (sr_flow_id sr) (sr_sender_id sr) (sr_active_receiver_id sr)\<rparr>) s))"

subsection \<open>The SDP of a sender elsewhere\<close>

definition manifest_key :: string where
  "manifest_key = quoted ''manifest_href'' @ '':'' @ [dquote]"

definition manifest_href_of :: "string \<Rightarrow> string" where
  "manifest_href_of body =
     (case find_str manifest_key body of
        None \<Rightarrow> []
      | Some pos \<Rightarrow> (let rest = drop (pos + length manifest_key) body
                    in case find_str [dquote] rest of None \<Rightarrow> [] | Some n \<Rightarrow> take n rest))"

definition trim_http :: "string \<Rightarrow> string \<times> u16 \<times> string" where
  "trim_http url =
     (let after = (if take 7 url = ''http://'' then drop 7 url else url);
          (host_port, path) = (case find_str ''/'' after of
             Some slash \<Rightarrow> (take slash after, drop slash after) | None \<Rightarrow> (after, ''/''))
      in case find_str '':'' host_port of
           None \<Rightarrow> (host_port, 80, path)
         | Some colon \<Rightarrow> (take colon host_port,
             case stoi (drop (colon + 1) host_port) of None \<Rightarrow> 80 | Some p \<Rightarrow> word_of_int p, path))"

definition fetch_remote_sender_sdp :: "'d node_env \<Rightarrow> string \<Rightarrow> 'd node \<Rightarrow> string" where
  "fetch_remote_sender_sdp E uuid s =
     (let href = (case ne_get E (effective_registry_address E s) (effective_registry_query_port E s)
                         (''/x-nmos/query/v1.3/senders/'' @ uuid) of
                    Some (st, body) \<Rightarrow> if st = 200 then manifest_href_of body else []
                  | None \<Rightarrow> [])
      in if href = [] then []
         else (let (host, port, path) = trim_http href
               in case ne_get E host port path of
                    Some (st, body) \<Rightarrow> if st = 200 \<or> st = 206 then body else []
                  | None \<Rightarrow> []))"

subsection \<open>Activating a receiver\<close>

definition sender_sdp :: "'d node_env \<Rightarrow> string \<Rightarrow> 'd node \<Rightarrow> string" where
  "sender_sdp E uuid s =
     (case find_sender uuid s of
        Some sid \<Rightarrow> text_of (get_source_sdp (node_session_env E) (ucast sid) (nd_session s))
      | None \<Rightarrow> fetch_remote_sender_sdp E uuid s)"

definition promote_receiver :: "receiver_tp list \<Rightarrow> receiver_resources \<Rightarrow> receiver_resources" where
  "promote_receiver tps rr = rr
     \<lparr>rr_active_master_enable := rr_staged_master_enable rr,
      rr_active_sender_id := (if rr_staged_master_enable rr then rr_staged_sender_id rr else []),
      rr_active_act := (rr_active_act rr)\<lparr>ac_mode := ac_mode (rr_staged_act rr),
                                          ac_activation_time := ac_activation_time (rr_staged_act rr)\<rparr>,
      rr_active_tp := tps\<rparr>"

text \<open>The call of \<open>add_sink\<close> with the new SDP; what it answers is not looked at.\<close>

definition set_sink_sdp :: "'d node_env \<Rightarrow> u8 \<Rightarrow> bool \<Rightarrow> string \<Rightarrow> 'd node \<Rightarrow> cm_fault option \<times> 'd node" where
  "set_sink_sdp E i use_sdp sdp s =
     (case get_sink i (nd_session s) of
        Inl _ \<Rightarrow> (None, s)
      | Inr sink \<Rightarrow>
          (let (f, st) = of_outcome (add_sink (ce_add (ne_cm E)) (ce_rm (ne_cm E)) (node_session_env E)
                 (sink\<lparr>snk_use_sdp := use_sdp, snk_sdp := sdp, snk_source := []\<rparr>) (nd_session s))
           in (f, run_session st s)))"

definition refresh_sink :: "u8 \<Rightarrow> 'd node \<Rightarrow> 'd node" where
  "refresh_sink i s = (case get_sink i (nd_session s) of
     Inl _ \<Rightarrow> s | Inr sink \<Rightarrow> set_receiver i (\<lambda>rr. rr\<lparr>rr_sink := sink\<rparr>) s)"

definition connect_sink :: "'d node_env \<Rightarrow> u8 \<Rightarrow> bool \<Rightarrow> string \<Rightarrow> 'd node \<Rightarrow> cm_fault option \<times> 'd node" where
  "connect_sink E i enable sdp s =
     (case (if enable \<and> sdp \<noteq> [] then set_sink_sdp E i True sdp s
            else if \<not> enable then set_sink_sdp E i False [] s
            else (None, s)) of
        (Some f, s) \<Rightarrow> (Some f, s)
      | (None, s) \<Rightarrow> (None, refresh_sink i s))"

definition apply_receiver_activation :: "'d node_env \<Rightarrow> u8 \<Rightarrow> 'd node \<Rightarrow> cm_fault option \<times> 'd node" where
  "apply_receiver_activation E i s =
     (case map_of (nd_receivers s) i of
        None \<Rightarrow> (None, s)
      | Some rr \<Rightarrow>
          (let enable = rr_staged_master_enable rr; uuid = rr_staged_sender_id rr;
               sdp = (if enable \<and> uuid \<noteq> [] then sender_sdp E uuid s else [])
           in if enable \<and> uuid \<noteq> [] \<and> sdp = [] then (None, s)
              else if enable \<and> sdp \<noteq> [] \<and> find_str ''m=audio'' sdp = None then (None, s)
              else (let tps = (if sdp \<noteq> [] then build_receiver_tp_from_sdp E sdp else rr_staged_tp rr);
                        s = set_receiver i (promote_receiver tps) s;
                        s = s\<lparr>nd_preserved := (nd_preserved s)(i \<mapsto> (if enable then uuid else []))\<rparr>
                    in connect_sink E i enable sdp s)))"

subsection \<open>The PATCH requests\<close>

datatype patch_result = Patch_error string | Patch_ok string | Patch_fails cm_fault

abbreviation node_lib :: "'d node_env \<Rightarrow> ptree_lib" where
  "node_lib E \<equiv> ce_lib (ne_cm E)"

definition clear_sender_act :: "sender_resources \<Rightarrow> sender_resources" where
  "clear_sender_act sr = sr\<lparr>sr_staged_act := no_activation\<rparr>"

definition clear_receiver_act :: "receiver_resources \<Rightarrow> receiver_resources" where
  "clear_receiver_act rr = rr\<lparr>rr_staged_act := no_activation\<rparr>"

definition stamp :: "nat \<Rightarrow> is05_activation \<Rightarrow> is05_activation" where
  "stamp now act = act\<lparr>ac_activation_time := make_version now\<rparr>"

definition stamp_sender :: "nat \<Rightarrow> sender_resources \<Rightarrow> sender_resources" where
  "stamp_sender now sr = sr\<lparr>sr_staged_act := stamp now (sr_staged_act sr)\<rparr>"

definition stamp_receiver :: "nat \<Rightarrow> receiver_resources \<Rightarrow> receiver_resources" where
  "stamp_receiver now rr = rr\<lparr>rr_staged_act := stamp now (rr_staged_act rr)\<rparr>"

definition push_pending :: "bool \<Rightarrow> u8 \<Rightarrow> int \<Rightarrow> 'd node \<Rightarrow> 'd node" where
  "push_pending is_sender i deadline s = s\<lparr>nd_pending := nd_pending s @
     [\<lparr>pd_is_sender = is_sender, pd_daemon_id = i, pd_deadline_ns = deadline\<rparr>]\<rparr>"

definition patch_sender_staged :: "'d node_env \<Rightarrow> nat \<Rightarrow> int \<Rightarrow> u8 \<Rightarrow> string \<Rightarrow> 'd node \<Rightarrow> patch_result \<times> 'd node" where
  "patch_sender_staged E now tick i body s =
     (case pl_read (node_lib E) body of
        Inl (n, m) \<Rightarrow> (Patch_error (pl_what (node_lib E) (Json_error n m)), s)
      | Inr pt \<Rightarrow>
          (case map_of (nd_senders s) i of
             None \<Rightarrow> (Patch_error ''not found'', s)
           | Some sr \<Rightarrow>
               (let sr = merge_sender (node_lib E) pt sr; json = staged_sender_json sr;
                    s = set_sender i (\<lambda>_. sr) s
                in case plan_activation tick (sr_staged_act sr) of
                     Act_none \<Rightarrow> (Patch_ok json, s)
                   | Act_now \<Rightarrow>
                       (let s = set_sender i (stamp_sender now) s;
                            s = apply_sender_activation E now i s
                        in (Patch_ok json, set_sender i clear_sender_act s))
                   | Act_at t \<Rightarrow>
                       (let s = set_sender i (\<lambda>sr. sr\<lparr>sr_staged_act := (sr_staged_act sr)\<lparr>ac_deadline_ns := t\<rparr>\<rparr>) s
                        in (Patch_ok json, push_pending True i t s))
                   | Act_undefined \<Rightarrow> (Patch_fails Cm_undefined, s))))"

definition patch_receiver_staged :: "'d node_env \<Rightarrow> nat \<Rightarrow> int \<Rightarrow> u8 \<Rightarrow> string \<Rightarrow> 'd node \<Rightarrow> patch_result \<times> 'd node" where
  "patch_receiver_staged E now tick i body s =
     (case pl_read (node_lib E) body of
        Inl (n, m) \<Rightarrow> (Patch_error (pl_what (node_lib E) (Json_error n m)), s)
      | Inr pt \<Rightarrow>
          (case map_of (nd_receivers s) i of
             None \<Rightarrow> (Patch_error ''not found'', s)
           | Some rr \<Rightarrow>
               (let rr = merge_receiver (node_lib E) pt rr; json = staged_receiver_json rr;
                    s = set_receiver i (\<lambda>_. rr) s
                in case plan_activation tick (rr_staged_act rr) of
                     Act_none \<Rightarrow> (Patch_ok json, s)
                   | Act_now \<Rightarrow>
                       (case apply_receiver_activation E i (set_receiver i (stamp_receiver now) s) of
                          (Some f, s) \<Rightarrow> (Patch_fails f, s)
                        | (None, s) \<Rightarrow> (Patch_ok json, set_receiver i clear_receiver_act s))
                   | Act_at t \<Rightarrow>
                       (let s = set_receiver i (\<lambda>rr. rr\<lparr>rr_staged_act := (rr_staged_act rr)\<lparr>ac_deadline_ns := t\<rparr>\<rparr>) s
                        in (Patch_ok json, push_pending False i t s))
                   | Act_undefined \<Rightarrow> (Patch_fails Cm_undefined, s))))"

subsection \<open>Scheduled activations\<close>

definition run_pending :: "'d node_env \<Rightarrow> nat \<Rightarrow> pending_is05 \<Rightarrow> 'd node \<Rightarrow> cm_fault option \<times> 'd node" where
  "run_pending E now pa s =
     (let i = pd_daemon_id pa
      in if pd_is_sender pa
         then (None, set_sender i clear_sender_act
                 (apply_sender_activation E now i (set_sender i (stamp_sender now) s)))
         else (case apply_receiver_activation E i (set_receiver i (stamp_receiver now) s) of
                 (Some f, s) \<Rightarrow> (Some f, s)
               | (None, s) \<Rightarrow> (None, set_receiver i clear_receiver_act s)))"

fun run_all_pending :: "'d node_env \<Rightarrow> nat \<Rightarrow> pending_is05 list \<Rightarrow> 'd node \<Rightarrow> cm_fault option \<times> 'd node" where
  "run_all_pending E now [] s = (None, s)"
| "run_all_pending E now (pa # due) s =
     (case run_pending E now pa s of
        (Some f, s) \<Rightarrow> (Some f, s)
      | (None, s) \<Rightarrow> run_all_pending E now due s)"

definition process_scheduled_activations :: "'d node_env \<Rightarrow> nat \<Rightarrow> int \<Rightarrow> 'd node \<Rightarrow> cm_fault option \<times> 'd node" where
  "process_scheduled_activations E now tick s =
     (let due = filter (\<lambda>pa. \<not> tick < pd_deadline_ns pa) (nd_pending s);
          later = filter (\<lambda>pa. tick < pd_deadline_ns pa) (nd_pending s)
      in run_all_pending E now due (s\<lparr>nd_pending := later\<rparr>))"

subsection \<open>The interface\<close>

text \<open>The requests by what the path and the method select; \<^const>\<open>True\<close> is the side of the senders.\<close>

datatype conn_request =
    Conn_root
  | Conn_version
  | Conn_single
  | Conn_bulk
  | Conn_list bool
  | Conn_index bool string
  | Conn_constraints bool string
  | Conn_staged bool string
  | Conn_patch bool string string
  | Conn_active bool string
  | Conn_transportfile string
  | Conn_transporttype bool string
  | Conn_bulk_get bool
  | Conn_bulk_post bool string

datatype conn_result = Conn_reply cm_response | Conn_fails cm_fault

definition conn_bad_request :: "string \<Rightarrow> cm_response" where
  "conn_bad_request msg = \<lparr>cr_status = 400, cr_body = ''{'' @ quoted ''code'' @ '':400,'' @ quoted ''error'' @ '':'' @
     quoted ''Bad Request'' @ '','' @ quoted ''debug'' @ '':'' @ quoted msg @ ''}''\<rparr>"

definition conn_not_allowed :: cm_response where
  "conn_not_allowed = \<lparr>cr_status = 405, cr_body = ''{'' @ quoted ''code'' @ '':405,'' @ quoted ''error'' @ '':'' @
     quoted ''Method Not Allowed'' @ '','' @ quoted ''debug'' @ '':'' @ quoted [] @ ''}''\<rparr>"

definition found_sender :: "string \<Rightarrow> 'd node \<Rightarrow> sender_resources option" where
  "found_sender uuid s = map_option snd (List.find (\<lambda>(_, sr). sr_sender_id sr = uuid) (nd_senders s))"

definition found_receiver :: "string \<Rightarrow> 'd node \<Rightarrow> receiver_resources option" where
  "found_receiver uuid s = map_option snd (List.find (\<lambda>(_, rr). rr_receiver_id rr = uuid) (nd_receivers s))"

definition of_resource :: "'a option \<Rightarrow> ('a \<Rightarrow> string) \<Rightarrow> cm_response" where
  "of_resource r f = (case r of None \<Rightarrow> cm_not_found | Some x \<Rightarrow> cm_ok (f x))"

definition side :: "bool \<Rightarrow> string \<Rightarrow> (sender_resources \<Rightarrow> string) \<Rightarrow> (receiver_resources \<Rightarrow> string) \<Rightarrow> 'd node \<Rightarrow> cm_response" where
  "side is_sender uuid f g s =
     (if is_sender then of_resource (found_sender uuid s) f else of_resource (found_receiver uuid s) g)"

definition index_json :: "bool \<Rightarrow> string" where
  "index_json is_sender = json_list (map quoted ([''constraints/'', ''staged/'', ''active/''] @
     (if is_sender then [''transportfile/''] else []) @ [''transporttype'']))"

definition conn_get :: "'d node_env \<Rightarrow> conn_request \<Rightarrow> 'd node \<Rightarrow> cm_response" where
  "conn_get E rq s = (case rq of
     Conn_root \<Rightarrow> cm_ok (json_list [quoted ''v1.1/''])
   | Conn_version \<Rightarrow> cm_ok (json_list [quoted ''single/'', quoted ''bulk/''])
   | Conn_single \<Rightarrow> cm_ok (json_list [quoted ''senders/'', quoted ''receivers/''])
   | Conn_bulk \<Rightarrow> cm_ok (json_list [quoted ''senders/'', quoted ''receivers/''])
   | Conn_list b \<Rightarrow> cm_ok (json_list
       (if b then map (\<lambda>(_, sr). quoted (sr_sender_id sr @ ''/'')) (nd_senders s)
        else map (\<lambda>(_, rr). quoted (rr_receiver_id rr @ ''/'')) (nd_receivers s)))
   | Conn_index b uuid \<Rightarrow> side b uuid (\<lambda>_. index_json True) (\<lambda>_. index_json False) s
   | Conn_constraints b uuid \<Rightarrow>
       side b uuid (\<lambda>sr. json_list (map (\<lambda>_. ''{}'') (sr_staged_tp sr)))
         (\<lambda>rr. json_list (map (\<lambda>_. ''{}'') (rr_staged_tp rr))) s
   | Conn_staged b uuid \<Rightarrow> side b uuid staged_sender_json staged_receiver_json s
   | Conn_active b uuid \<Rightarrow> side b uuid active_sender_json active_receiver_json s
   | Conn_transportfile uuid \<Rightarrow>
       (case (find_sender uuid s, found_sender uuid s) of
          (Some i, Some sr) \<Rightarrow>
            if \<not> sr_active_master_enable sr then cm_not_found
            else (case get_source_sdp (node_session_env E) (ucast i) (nd_session s) of
                    Inl _ \<Rightarrow> cm_not_found | Inr sdp \<Rightarrow> cm_ok sdp)
        | _ \<Rightarrow> cm_not_found)
   | Conn_transporttype b uuid \<Rightarrow>
       side b uuid (\<lambda>_. quoted ''urn:x-nmos:transport:rtp.mcast'') (\<lambda>_. quoted ''urn:x-nmos:transport:rtp.mcast'') s
   | _ \<Rightarrow> conn_not_allowed)"

definition patch_staged ::
  "'d node_env \<Rightarrow> nat \<Rightarrow> int \<Rightarrow> bool \<Rightarrow> u8 \<Rightarrow> string \<Rightarrow> 'd node \<Rightarrow> patch_result \<times> 'd node" where
  "patch_staged E now tick is_sender i body s =
     (if is_sender then patch_sender_staged E now tick i body s else patch_receiver_staged E now tick i body s)"

definition find_resource :: "bool \<Rightarrow> string \<Rightarrow> 'd node \<Rightarrow> u8 option" where
  "find_resource is_sender uuid s = (if is_sender then find_sender uuid s else find_receiver uuid s)"

definition conn_patch ::
  "'d node_env \<Rightarrow> nat \<Rightarrow> int \<Rightarrow> bool \<Rightarrow> string \<Rightarrow> string \<Rightarrow> 'd node \<Rightarrow> conn_result \<times> 'd node" where
  "conn_patch E now tick is_sender uuid body s =
     (case find_resource is_sender uuid s of
        None \<Rightarrow> (Conn_reply cm_not_found, s)
      | Some i \<Rightarrow>
          (case patch_staged E now tick is_sender i body s of
             (Patch_error err, s) \<Rightarrow> (Conn_reply (conn_bad_request err), s)
           | (Patch_ok json, s) \<Rightarrow> (Conn_reply (cm_ok json), s)
           | (Patch_fails f, s) \<Rightarrow> (Conn_fails f, s)))"

text \<open>The bulk requests: the items one after the other, each with its own code; the parameters of an
  item are written out again for the PATCH, in the pretty form of \<open>write_json\<close> (\<open>w\<close>).\<close>

definition bulk_entry :: "string \<Rightarrow> nat \<Rightarrow> string \<Rightarrow> string" where
  "bulk_entry uuid code err = json_map ([(''id'', quoted uuid), (''code'', show_nat code)] @
     (if err \<noteq> [] then [(''error'', quoted err)] else []))"

definition bulk_item ::
  "(ptree \<Rightarrow> string option) \<Rightarrow> 'd node_env \<Rightarrow> nat \<Rightarrow> int \<Rightarrow> bool \<Rightarrow> ptree \<Rightarrow> 'd node \<Rightarrow> (cm_fault + string) \<times> 'd node" where
  "bulk_item w E now tick is_sender item s =
     (let uuid = case_option [] id (opt_text ''id'' item);
          params = case_option ''{}'' id (Option.bind (map_of (tree_kids item) ''params'') w)
      in case find_resource is_sender uuid s of
           None \<Rightarrow> (Inr (bulk_entry uuid 404 ''not found''), s)
         | Some i \<Rightarrow>
             (case patch_staged E now tick is_sender i params s of
                (Patch_error err, s) \<Rightarrow> (Inr (bulk_entry uuid 400 err), s)
              | (Patch_ok _, s) \<Rightarrow> (Inr (bulk_entry uuid 200 []), s)
              | (Patch_fails f, s) \<Rightarrow> (Inl f, s)))"

fun bulk_items ::
  "(ptree \<Rightarrow> string option) \<Rightarrow> 'd node_env \<Rightarrow> nat \<Rightarrow> int \<Rightarrow> bool \<Rightarrow> (string \<times> ptree) list \<Rightarrow> 'd node \<Rightarrow>
   (cm_fault + string list) \<times> 'd node" where
  "bulk_items w E now tick b [] s = (Inr [], s)"
| "bulk_items w E now tick b ((_, item) # items) s =
     (case bulk_item w E now tick b item s of
        (Inl f, s) \<Rightarrow> (Inl f, s)
      | (Inr out, s) \<Rightarrow>
          (case bulk_items w E now tick b items s of
             (Inl f, s) \<Rightarrow> (Inl f, s)
           | (Inr outs, s) \<Rightarrow> (Inr (out # outs), s)))"

definition conn_bulk ::
  "(ptree \<Rightarrow> string option) \<Rightarrow> 'd node_env \<Rightarrow> nat \<Rightarrow> int \<Rightarrow> bool \<Rightarrow> string \<Rightarrow> 'd node \<Rightarrow> conn_result \<times> 'd node" where
  "conn_bulk w E now tick is_sender body s =
     (case pl_read (node_lib E) body of
        Inl _ \<Rightarrow> (Conn_reply (conn_bad_request ''invalid JSON''), s)
      | Inr pt \<Rightarrow> (case bulk_items w E now tick is_sender (tree_kids pt) s of
                     (Inl f, s) \<Rightarrow> (Conn_fails f, s)
                   | (Inr outs, s) \<Rightarrow> (Conn_reply (cm_ok (json_list outs)), s)))"

definition conn_handle ::
  "(ptree \<Rightarrow> string option) \<Rightarrow> 'd node_env \<Rightarrow> nat \<Rightarrow> int \<Rightarrow> conn_request \<Rightarrow> 'd node \<Rightarrow> conn_result \<times> 'd node" where
  "conn_handle w E now tick rq s = (case rq of
     Conn_patch b uuid body \<Rightarrow> conn_patch E now tick b uuid body s
   | Conn_bulk_post b body \<Rightarrow> conn_bulk w E now tick b body s
   | _ \<Rightarrow> (Conn_reply (conn_get E rq s), s))"

end
