(* ===== verification/Node.thy ===== *)
theory Node
  imports Connection
begin

text \<open>
  The rest of \<open>daemon/nmos_manager.cpp\<close>: the registration worker, the node and query interfaces
  of AMWA IS-04, the subscriptions of the query interface, and the step relation of the whole
  node.  A request names what the path selects; the routes are in \<open>Node_Server\<close>.  Each handler, each event and each scheduled activation is one step; in the code the
  lock of the tables is released between the parts of an activation.
\<close>

subsection \<open>The registration worker\<close>

definition process_is08 :: "'d node_env \<Rightarrow> nat \<Rightarrow> 'd node \<Rightarrow> cm_fault option \<times> 'd node" where
  "process_is08 E now s =
     (if \<not> cf_is08_enabled (ne_config E) then (None, s)
      else (let (f, c) = is08_process_scheduled_activations (ne_cm E) (int now)
                  \<lparr>cm_session = nd_session s, cm_activations = nd_activations s, cm_counter = nd_counter s\<rparr>
            in (f, (run_session (cm_session c) s)\<lparr>nd_activations := cm_activations c, nd_counter := cm_counter c\<rparr>)))"

definition send_heartbeat :: "'d node_env \<Rightarrow> nat \<Rightarrow> 'd node \<Rightarrow> 'd node" where
  "send_heartbeat E now s =
     (let s = snd (heartbeat E now s); s = s\<lparr>nd_node_json := build_node_json E now\<rparr>
      in snd (register_resource E ''node'' (nd_node_json s) s))"

text \<open>One turn of the loop; an exception ends the worker.\<close>

definition worker_turn :: "'d node_env \<Rightarrow> nat \<Rightarrow> int \<Rightarrow> bool \<Rightarrow> 'd node \<Rightarrow> cm_fault option \<times> 'd node" where
  "worker_turn E now tick heartbeat_due s =
     (let s = drain_events E now (nd_events s) s
      in case process_scheduled_activations E now tick s of
           (Some f, s) \<Rightarrow> (Some f, s)
         | (None, s) \<Rightarrow>
             (case process_is08 E now s of
                (Some f, s) \<Rightarrow> (Some f, s)
              | (None, s) \<Rightarrow> (None, if heartbeat_due then send_heartbeat E now s else s)))"

fun worker_turns :: "'d node_env \<Rightarrow> (nat \<times> int \<times> bool) list \<Rightarrow> 'd node \<Rightarrow> cm_fault option \<times> 'd node" where
  "worker_turns E [] s = (None, s)"
| "worker_turns E ((now, tick, hb) # ts) s =
     (case worker_turn E now tick hb s of
        (Some f, s) \<Rightarrow> (Some f, s)
      | (None, s) \<Rightarrow> worker_turns E ts s)"

definition registration_worker :: "'d node_env \<Rightarrow> nat \<Rightarrow> (nat \<times> int \<times> bool) list \<Rightarrow> 'd node \<Rightarrow> cm_fault option \<times> 'd node" where
  "registration_worker E now turns s =
     (case worker_turns E turns (snd (full_registration E now s)) of
        (Some f, s) \<Rightarrow> (Some f, s)
      | (None, s) \<Rightarrow> (None, snd (unregister_resource E ''node'' (node_id E) s)))"

subsection \<open>The node interface\<close>

datatype res_kind = Devices | Sources | Flows | Senders | Receivers

fun of_kind :: "'d node_env \<Rightarrow> nat \<Rightarrow> res_kind \<Rightarrow> 'd node \<Rightarrow> (string \<times> string) list" where
  "of_kind E now Devices s = [(device_id E, nd_device_json s)]"
| "of_kind E now Sources s = map (\<lambda>(_, sr). (sr_source_id sr, sr_source_json sr)) (nd_senders s)"
| "of_kind E now Flows s = map (\<lambda>(_, sr). (sr_flow_id sr, sr_flow_json sr)) (nd_senders s)"
| "of_kind E now Senders s = map (\<lambda>(_, sr). (sr_sender_id sr, sr_sender_json sr)) (nd_senders s)"
| "of_kind E now Receivers s = map (\<lambda>(_, rr). (rr_receiver_id rr, receiver_json E now rr)) (nd_receivers s)"

definition single :: "(string \<times> string) list \<Rightarrow> string \<Rightarrow> cm_response" where
  "single rs uuid = (case List.find (\<lambda>(i, _). i = uuid) rs of None \<Rightarrow> cm_not_found | Some (_, j) \<Rightarrow> cm_ok j)"

definition sender_sdp_reply :: "'d node_env \<Rightarrow> string \<Rightarrow> 'd node \<Rightarrow> cm_response" where
  "sender_sdp_reply E uuid s =
     (case find_sender uuid s of
        None \<Rightarrow> cm_not_found
      | Some i \<Rightarrow> (case get_source_sdp (node_session_env E) (ucast i) (nd_session s) of
                     Inl _ \<Rightarrow> cm_not_found | Inr sdp \<Rightarrow> cm_ok sdp))"

datatype node_request =
    Nr_options
  | Nr_root
  | Nr_node
  | Nr_version
  | Nr_self
  | Nr_list res_kind
  | Nr_single res_kind string
  | Nr_sdp string
  | Nr_manifest string

definition node_get :: "'d node_env \<Rightarrow> nat \<Rightarrow> node_request \<Rightarrow> 'd node \<Rightarrow> cm_response" where
  "node_get E now rq s = (case rq of
     Nr_options \<Rightarrow> cm_ok []
   | Nr_root \<Rightarrow> cm_ok (json_list [quoted ''node/'', quoted ''connection/'', quoted ''query/''])
   | Nr_node \<Rightarrow> cm_ok (json_list [quoted ''v1.3/''])
   | Nr_version \<Rightarrow> cm_ok (json_list (map quoted [''self/'', ''devices/'', ''sources/'', ''flows/'', ''senders/'', ''receivers/'']))
   | Nr_self \<Rightarrow> cm_ok (build_node_json E now)
   | Nr_list k \<Rightarrow> cm_ok (json_list (map snd (of_kind E now k s)))
   | Nr_single k uuid \<Rightarrow> single (of_kind E now k s) uuid
   | Nr_sdp uuid \<Rightarrow> sender_sdp_reply E uuid s
   | Nr_manifest uuid \<Rightarrow> sender_sdp_reply E uuid s)"

subsection \<open>The query interface\<close>

text \<open>\<open>get_param_value\<close>: the first occurrence of \<open>key=\<close> at the start of the query string or after
  an ampersand.\<close>

fun param_value :: "string \<Rightarrow> bool \<Rightarrow> string \<Rightarrow> string" where
  "param_value kv start [] = []"
| "param_value kv start (c # cs) =
     (if start \<and> starts_with kv (c # cs)
      then takeWhile (\<lambda>x. x \<noteq> CHR ''&'') (drop (length kv) (c # cs))
      else param_value kv (c = CHR ''&'') cs)"

definition get_param_value :: "string \<Rightarrow> string \<Rightarrow> string" where
  "get_param_value key qs = param_value (key @ ''='') True qs"

definition has_rql :: "string \<Rightarrow> bool" where
  "has_rql qs \<longleftrightarrow> get_param_value ''query.rql'' qs \<noteq> [] \<or> get_param_value ''query.ancestry_id'' qs \<noteq> []"

definition json_field_matches :: "string \<Rightarrow> string \<Rightarrow> string \<Rightarrow> bool" where
  "json_field_matches json key val \<longleftrightarrow> find_str (quoted key @ '': '' @ quoted val) json \<noteq> None"

definition status_body :: "int \<Rightarrow> string \<Rightarrow> string \<Rightarrow> cm_response" where
  "status_body code err tail = \<lparr>cr_status = code, cr_body = ''{'' @ quoted ''code'' @ '':'' @ show_int code @ '','' @
     quoted ''error'' @ '':'' @ quoted err @ tail @ ''}''\<rparr>"

definition not_implemented :: cm_response where
  "not_implemented = status_body 501 ''Not Implemented'' ('','' @ quoted ''debug'' @ '':'' @ quoted ''RQL not supported'')"

text \<open>The list of a kind: the answer, and the count in its paging header.\<close>

definition query_kind :: "'d node_env \<Rightarrow> nat \<Rightarrow> res_kind option \<Rightarrow> 'd node \<Rightarrow> (string \<times> string) list" where
  "query_kind E now k s = (case k of None \<Rightarrow> [(node_id E, build_node_json E now)] | Some k \<Rightarrow> of_kind E now k s)"

definition query_match :: "string \<Rightarrow> string \<times> string \<Rightarrow> bool" where
  "query_match qs r \<longleftrightarrow>
     (let i = get_param_value ''id'' qs; l = get_param_value ''label'' qs
      in (i = [] \<or> fst r = i) \<and> (l = [] \<or> json_field_matches (snd r) ''label'' l))"

definition query_list :: "'d node_env \<Rightarrow> nat \<Rightarrow> res_kind option \<Rightarrow> string \<Rightarrow> 'd node \<Rightarrow> cm_response \<times> nat option" where
  "query_list E now k qs s =
     (if has_rql qs then (not_implemented, None)
      else (let rs = filter (query_match qs) (query_kind E now k s)
            in (cm_ok (json_list (map snd rs)), Some (length rs))))"

definition query_single :: "'d node_env \<Rightarrow> nat \<Rightarrow> res_kind option \<Rightarrow> string \<Rightarrow> 'd node \<Rightarrow> cm_response" where
  "query_single E now k uuid s = single (query_kind E now k s) uuid"

text \<open>Subscriptions, kept in the order of their ids.\<close>

definition valid_paths :: "string list" where
  "valid_paths = [''/nodes'', ''/devices'', ''/sources'', ''/flows'', ''/senders'', ''/receivers'']"

definition new_subscription :: "'d node_env \<Rightarrow> string \<Rightarrow> bool \<Rightarrow> nat \<Rightarrow> subscription" where
  "new_subscription E path persist n =
     (let i = ce_uuid (ne_cm E) (node_id E) (''subscription-'' @ path @ ''-'' @ show_nat n)
      in \<lparr>sb_id = i, sb_resource_path = path, sb_source_id = ce_uuid (ne_cm E) i ''ws-source'',
          sb_flow_id = ce_uuid (ne_cm E) i ''ws-flow'', sb_persist = persist\<rparr>)"

definition post_subscription :: "'d node_env \<Rightarrow> string \<Rightarrow> 'd node \<Rightarrow> cm_response \<times> 'd node" where
  "post_subscription E body s =
     (case pl_read (node_lib E) body of
        Inl _ \<Rightarrow> (status_body 400 ''Bad Request'' [], s)
      | Inr pt \<Rightarrow>
          (let path = get_or Some ''resource_path'' [] pt; persist = get_or (pl_bool (node_lib E)) ''persist'' False pt
           in if path \<notin> set valid_paths then (status_body 400 ''Invalid resource_path'' [], s)
              else (let sub = new_subscription E path persist (length (nd_subscriptions s))
                    in (\<lparr>cr_status = 201, cr_body = subscription_json E sub\<rparr>,
                        s\<lparr>nd_subscriptions := smap_upd (sb_id sub) sub (nd_subscriptions s)\<rparr>))))"

definition get_subscriptions :: "'d node_env \<Rightarrow> 'd node \<Rightarrow> cm_response" where
  "get_subscriptions E s = cm_ok (json_list (map (\<lambda>(_, sub). subscription_json E sub) (nd_subscriptions s)))"

definition get_subscription :: "'d node_env \<Rightarrow> string \<Rightarrow> 'd node \<Rightarrow> cm_response" where
  "get_subscription E i s = (case map_of (nd_subscriptions s) i of
     None \<Rightarrow> cm_not_found | Some sub \<Rightarrow> cm_ok (subscription_json E sub))"

definition delete_subscription :: "string \<Rightarrow> 'd node \<Rightarrow> cm_response \<times> 'd node" where
  "delete_subscription i s = (case map_of (nd_subscriptions s) i of
     None \<Rightarrow> (cm_not_found, s)
   | Some sub \<Rightarrow>
       if sb_persist sub then (status_body 403 ''Persistent subscriptions cannot be deleted'' [], s)
       else (cm_no_content, s\<lparr>nd_subscriptions := smap_del i (nd_subscriptions s)\<rparr>))"

text \<open>A client of a subscription's WebSocket: what it is sent first, and the end of its connection.\<close>

definition ws_prefix :: string where
  "ws_prefix = ''/x-nmos/query/v1.3/subscriptions/''"

definition ws_sub_id :: "string \<Rightarrow> string" where
  "ws_sub_id target = (if starts_with ws_prefix target
     then rev (dropWhile (\<lambda>c. c = CHR ''/'') (rev (drop (length ws_prefix) target))) else [])"

definition ws_connect :: "'d node_env \<Rightarrow> nat \<Rightarrow> string \<Rightarrow> 'd node \<Rightarrow> string option" where
  "ws_connect E now target s =
     map_option (\<lambda>sub. build_initial_grain E now (sb_resource_path sub) (sb_source_id sub) (sb_flow_id sub) s)
       (map_of (nd_subscriptions s) (ws_sub_id target))"

definition ws_disconnect :: "string \<Rightarrow> 'd node \<Rightarrow> 'd node" where
  "ws_disconnect target s = (case map_of (nd_subscriptions s) (ws_sub_id target) of
     None \<Rightarrow> s
   | Some sub \<Rightarrow> if sb_persist sub then s
       else s\<lparr>nd_subscriptions := smap_del (ws_sub_id target) (nd_subscriptions s)\<rparr>)"

end
