(* ===== verification/Node_Events.thy ===== *)
theory Node_Events
  imports Node
begin

text \<open>
  The events between the session manager and the node.  The session manager changes its sinks and
  tells the observers; the node's worker reads the events later and builds its receivers.  The
  invariant of this theory ties the two: played forward, the waiting events turn the receivers
  that are there into exactly the sinks of the session manager.
\<close>

subsection \<open>What a session operation tells about the sinks\<close>

fun sink_step :: "u8 \<Rightarrow> node_event \<Rightarrow> bool \<Rightarrow> bool" where
  "sink_step i (SinkAdded j) b = (b \<or> i = j)"
| "sink_step i (SinkRemoved j) b = (b \<and> i \<noteq> j)"
| "sink_step i _ b = b"

fun sink_after :: "u8 \<Rightarrow> node_event list \<Rightarrow> bool \<Rightarrow> bool" where
  "sink_after i [] b = b"
| "sink_after i (ev # evs) b = sink_after i evs (sink_step i ev b)"

lemma sink_after_append [simp]: "sink_after i (evs @ evs') b = sink_after i evs' (sink_after i evs b)"
  by (induction evs arbitrary: b) auto

lemma sink_step_mono: "sink_step i ev b \<Longrightarrow> (b \<Longrightarrow> b') \<Longrightarrow> sink_step i ev b'"
  by (cases ev) auto

lemma sink_after_mono: "sink_after i evs b \<Longrightarrow> (b \<Longrightarrow> b') \<Longrightarrow> sink_after i evs b'"
proof (induction evs arbitrary: b b')
  case (Cons ev evs)
  then show ?case using sink_step_mono[of i ev b b'] by simp
qed simp

abbreviation has_sink :: "'d session \<Rightarrow> u8 \<Rightarrow> bool" where
  "has_sink st i \<equiv> map_of (ss_sinks st) i \<noteq> None"

text \<open>The driver's records of the sinks carry their ids, and the log tells what happened to the table.\<close>

definition uids_ok :: "'d session \<Rightarrow> bool" where
  "uids_ok st \<longleftrightarrow> (\<forall>i info. map_of (ss_sinks st) i = Some info \<longrightarrow> ucast (m_uiId (leg info 0)) = i)"

definition told_sinks :: "'d session \<Rightarrow> 'd session \<Rightarrow> bool" where
  "told_sinks st st' \<longleftrightarrow> (uids_ok st \<longrightarrow> uids_ok st' \<and> (\<exists>evs. ss_log st' = ss_log st @ evs \<and>
     (\<forall>i. sink_after i (concat (map event_of evs)) (has_sink st i) = has_sink st' i)))"

lemma told_refl [simp]: "told_sinks st st"
  by (auto simp: told_sinks_def)

lemma told_trans: "told_sinks st st' \<Longrightarrow> told_sinks st' st'' \<Longrightarrow> told_sinks st st''"
  by (fastforce simp: told_sinks_def)

lemma log_fields [simp]:
  "ss_log (on_add_source E src info st) = ss_log st @
     [Source_added (src_id src) (src_name src) (get_source_sdp_text (sdp_env_of E st) info)]"
  "ss_log (on_remove_source E info st) = ss_log st @ [Source_removed (ucast (m_uiId (leg info 0))) (m_cName (leg info 0))]"
  "ss_log (on_add_sink E snk info st) = ss_log st @ [Sink_added (snk_id snk) (snk_name snk)]"
  "ss_log (on_remove_sink E info st) = ss_log st @ [Sink_removed (ucast (m_uiId (leg info 0))) (m_cName (leg info 0))]"
  "ss_log (set_source i info st) = ss_log st" "ss_log (erase_source i st) = ss_log st"
  "ss_log (set_sink i info st) = ss_log st" "ss_log (erase_sink i st) = ss_log st"
  by (simp_all add: on_add_source_def on_remove_source_def on_add_sink_def on_remove_sink_def Let_def
      set_source_def erase_source_def set_sink_def erase_sink_def)

text \<open>Operations on sources leave the sinks alone and tell nothing about them.\<close>

lemma told_quiet:
  assumes "told_sinks st st'" "ss_sinks st'' = ss_sinks st'" "ss_log st'' = ss_log st' @ evs"
    "\<forall>i b. sink_after i (concat (map event_of evs)) b = b"
  shows "told_sinks st st''"
proof (rule told_trans[OF assms(1)])
  show "told_sinks st' st''" using assms(2-4) by (auto simp: told_sinks_def uids_ok_def)
qed

lemma told_source_ops:
  assumes "told_sinks st st'"
  shows "told_sinks st (st'\<lparr>ss_driver := d\<rparr>)" "told_sinks st (st'\<lparr>ss_version := v\<rparr>)"
    "told_sinks st (set_source i info st')" "told_sinks st (erase_source i st')"
    "told_sinks st (on_add_source E src info st')" "told_sinks st (on_remove_source E info st')"
  using told_quiet[OF assms, where evs = "[]"] told_quiet[OF assms, where evs = "[_]"] by simp_all

lemma told_drop_source: "told_sinks st st' \<Longrightarrow> told_sinks st (drop_old_source rm_rtp E old st')"
  by (auto simp: drop_old_source_def intro!: told_source_ops)

lemma told_add_source [inv_intro]: "told_sinks st (snd (add_source add_rtp rm_rtp E src st))"
proof -
  have leg2: "told_sinks st (snd (add_source_leg2 add_rtp rm_rtp E src old info st'))"
    if "told_sinks st st'" for old info st'
    using that by (auto simp: add_source_leg2_def Let_def split: option.split prod.split intro!: told_source_ops)
  have locked: "told_sinks st (snd (add_source_locked add_rtp rm_rtp E src info st'))" if "told_sinks st st'" for info st'
    using that by (auto simp: add_source_locked_def Let_def split: option.split prod.split
        intro!: told_source_ops told_drop_source leg2)
  then show ?thesis
    by (auto simp: add_source_def Let_def split: option.split prod.split intro!: told_source_ops locked)
qed

lemma told_remove_source [inv_intro]: "told_sinks st (snd (remove_source rm_rtp E i st))"
  by (auto simp: remove_source_def Let_def split: option.split prod.split intro!: told_source_ops)

subsection \<open>The id in the driver's record\<close>

lemma uids_upd_leg: "(\<And>x. m_uiId (f x) = m_uiId x) \<Longrightarrow>
  map m_uiId (si_stream (upd_leg k f info)) = map m_uiId (si_stream info)"
  by (cases "k < length (si_stream info)") (simp_all add: upd_leg_def map_update list_update_beyond list_update_same_conv)

lemma sdp_line_uids:
  assumes "sdp_line e l p = Next q"
  shows "map m_uiId (si_stream (sp_info q)) = map m_uiId (si_stream (sp_info p))"
proof -
  have on_leg: "(\<And>x. m_uiId (f x) = m_uiId x) \<Longrightarrow>
      map m_uiId (si_stream (sp_info (on_leg f r))) = map m_uiId (si_stream (sp_info r))" for f r
    by (simp add: on_leg_def uids_upd_leg)
  show ?thesis
    using assms
    by (auto simp: sdp_line_defs sdp_set_dest_def Let_def on_leg uids_upd_leg
        split: if_splits option.splits prod.splits sdp_parser_status.splits)
qed


lemma sdp_lines_uids:
  "sdp_lines e ls p = Next q \<Longrightarrow> map m_uiId (si_stream (sp_info q)) = map m_uiId (si_stream (sp_info p))"
  by (induction ls arbitrary: p) (auto simp: sdp_line_uids split: if_splits sdp_step.splits dest: sdp_line_uids)

lemma parse_sdp_uids:
  "parse_sdp e sdp info = Sdp_parsed info' \<Longrightarrow> map m_uiId (si_stream info') = map m_uiId (si_stream info)"
  by (auto simp: parse_sdp_def split: sdp_step.splits dest!: sdp_lines_uids)

definition uid_is :: "u8 \<Rightarrow> stream_info \<Rightarrow> bool" where
  "uid_is i info \<longleftrightarrow> map m_uiId (si_stream info) = [ucast i, ucast i]"

lemma uid_is_leg: "uid_is i info \<Longrightarrow> ucast (m_uiId (leg info 0)) = i"
  by (cases "si_stream info") (auto simp: uid_is_def)

lemma uid_is_upd [simp]:
  "(\<And>x. m_uiId (f x) = m_uiId x) \<Longrightarrow> uid_is i (upd_leg k f info) = uid_is i info"
  "uid_is i (info\<lparr>si_handle := hs\<rparr>) = uid_is i info" "uid_is i (info\<lparr>si_st20227_enabled := b\<rparr>) = uid_is i info"
  "uid_is i (info\<lparr>si_sink_sdp := t, si_sink_source := t', si_sink_use_sdp := b\<rparr>) = uid_is i info"
  by (simp_all add: uid_is_def uids_upd_leg)

lemma uid_is_finish [simp]: "uid_is i (finish_legs E info) = uid_is i info"
  by (simp add: finish_legs_def finish_leg_def Let_def)

lemma uid_is_parsed: "parse_sdp e sdp (sink_info E sink) = Sdp_parsed info \<Longrightarrow> uid_is (snk_id sink) info"
  by (auto simp: uid_is_def sink_info_def sink_leg_def dest!: parse_sdp_uids)

subsection \<open>What the operations on sinks tell\<close>

lemma told_sinksI:
  assumes "uids_ok st \<Longrightarrow> uids_ok st'" "uids_ok st \<Longrightarrow> ss_log st' = ss_log st @ evs"
    "\<And>i. uids_ok st \<Longrightarrow> sink_after i (concat (map event_of evs)) (has_sink st i) = has_sink st' i"
  shows "told_sinks st st'"
  using assms by (auto simp: told_sinks_def)

lemma told_drop_sink: "ss_log (drop_old_sink rm_rtp E old st) = ss_log st @ [Sink_removed (ucast (m_uiId (leg old 0))) (m_cName (leg old 0))]"
  by (simp add: drop_old_sink_def)

lemma told_add_sink_leg2:
  assumes "uid_is (snk_id sink) info" "ss_sinks st' = ss_sinks st"
    "uids_ok st \<Longrightarrow> ss_log st' = ss_log st @ (case old of None \<Rightarrow> [] | Some o' \<Rightarrow> [Sink_removed (snk_id sink) n])"
    "old = map_of (ss_sinks st) (snk_id sink)"
  shows "told_sinks st (snd (add_sink_leg2 add_rtp rm_rtp E sink old info st'))"
proof -
  have i2: "uid_is (snk_id sink) (upd_leg 1 (sink_leg2 E) info)"
    using assms(1) by (simp add: sink_leg2_def Let_def)
  have fin: "told_sinks st (set_sink (snk_id sink) info' (on_add_sink E sink info' st''))"
    if "uid_is (snk_id sink) info'" "ss_sinks st'' = ss_sinks st" "ss_log st'' = ss_log st'" for info' st''
    using that assms(3,4)
    by (intro told_sinksI[where evs = "(case old of None \<Rightarrow> [] | Some o' \<Rightarrow> [Sink_removed (snk_id sink) n]) @ [Sink_added (snk_id sink) (snk_name sink)]"])
      (auto simp: uids_ok_def uid_is_leg split: option.splits)
  have gone: "told_sinks st (erase_sink (snk_id sink) (st'\<lparr>ss_driver := d\<rparr>))" if "old \<noteq> None" for d
    using that assms(2,3,4)
    by (intro told_sinksI[where evs = "[Sink_removed (snk_id sink) n]"]) (auto simp: uids_ok_def)
  have same: "told_sinks st (st'\<lparr>ss_driver := d\<rparr>)" if "old = None" for d
    using that assms(2,3) by (intro told_sinksI[where evs = "[]"]) (auto simp: uids_ok_def)
  show ?thesis
    using assms(1,2) i2
    by (auto simp: add_sink_leg2_def Let_def split: prod.split intro!: fin gone same)
qed

lemma told_add_sink_locked:
  assumes "uid_is (snk_id sink) info"
  shows "told_sinks st (snd (add_sink_locked add_rtp rm_rtp E sink info st))"
proof -
  let ?old = "map_of (ss_sinks st) (snk_id sink)"
  define st1 where "st1 = (case ?old of Some o' \<Rightarrow> drop_old_sink rm_rtp E o' st | None \<Rightarrow> st)"
  have st1: "ss_sinks st1 = ss_sinks st"
    "uids_ok st \<Longrightarrow> ss_log st1 = ss_log st @ (case ?old of None \<Rightarrow> [] | Some o' \<Rightarrow> [Sink_removed (snk_id sink) (m_cName (leg o' 0))])"
    by (auto simp: st1_def told_drop_sink uids_ok_def split: option.split)
  define n where "n = (case ?old of None \<Rightarrow> [] | Some o' \<Rightarrow> m_cName (leg o' 0))"
  have log: "uids_ok st \<Longrightarrow> ss_log st1 = ss_log st @ (case ?old of None \<Rightarrow> [] | Some o' \<Rightarrow> [Sink_removed (snk_id sink) n])"
    using st1(2) by (simp add: n_def split: option.splits)
  have leg2: "told_sinks st (snd (add_sink_leg2 add_rtp rm_rtp E sink ?old (info\<lparr>si_handle := hs\<rparr>) (st1\<lparr>ss_driver := d\<rparr>)))" for hs d
    using assms st1(1) log by (intro told_add_sink_leg2) simp_all
  have gone: "told_sinks st (erase_sink (snk_id sink) (st1\<lparr>ss_driver := d\<rparr>))" if "?old \<noteq> None" for d
    using that st1(1) log
    by (intro told_sinksI[where evs = "[Sink_removed (snk_id sink) n]"]) (auto simp: uids_ok_def)
  have same: "told_sinks st (st1\<lparr>ss_driver := d\<rparr>)" if "?old = None" for d
    using that st1(1) log by (intro told_sinksI[where evs = "[]"]) (auto simp: uids_ok_def)
  show ?thesis
    unfolding add_sink_locked_def Let_def st1_def[symmetric]
    using leg2 gone same by (cases ?old) (auto split: prod.split)
qed

lemma told_add_sink [inv_intro]: "told_sinks st (snd (add_sink add_rtp rm_rtp E sink st))"
  by (auto simp: add_sink_def uid_is_parsed split: sdp_fetch.split sdp_result.split intro!: told_add_sink_locked)

lemma told_remove_sink [inv_intro]: "told_sinks st (snd (remove_sink rm_rtp E i st))"
proof (cases "ucast stream_id_max < i \<or> map_of (ss_sinks st) (ucast i) = None")
  case False
  then obtain info where info: "\<not> ucast stream_id_max < i" "map_of (ss_sinks st) (ucast i) = Some info" by auto
  have "told_sinks st (erase_sink (ucast i) (on_remove_sink E info (st\<lparr>ss_driver := d\<rparr>)))" for d
    using info by (intro told_sinksI[where evs = "[Sink_removed (ucast i) (m_cName (leg info 0))]"]) (auto simp: uids_ok_def)
  then show ?thesis
    using info by (auto simp: remove_sink_def Let_def split: prod.split intro!: told_source_ops)
qed (auto simp: remove_sink_def split: option.split)

lemma told_of_outcome: "told_sinks st (snd r) \<Longrightarrow> told_sinks st (snd (of_outcome r))"
  by (auto simp: of_outcome_def split: prod.split outcome.split)

lemma told_apply_item: "told_sinks st (snd (apply_item E w st))"
  by (auto simp: apply_item_def split: sum.split option.split intro!: told_of_outcome inv_intro)

lemma told_apply_items: "told_sinks st (snd (apply_items E ws st))"
proof (induction ws arbitrary: st)
  case (Cons w ws)
  show ?case using told_apply_item[of st E w] Cons.IH
    by (auto split: prod.split option.split intro: told_trans)
qed simp

lemma told_apply_action: "told_sinks st (snd (is08_apply_action_json E action dry st))"
proof -
  have "told_sinks st st'" if "apply_items E ws st = (f, st')" for ws f st'
    using told_apply_items[of st E ws] that by simp
  then show ?thesis
    by (auto simp: is08_apply_action_json_def split: sum.split prod.split option.split)
qed

lemma told_apply_due: "told_sinks st (snd (apply_due E due st))"
proof (induction due arbitrary: st)
  case (Cons pa due)
  show ?case using told_apply_action[of st E "pa_action_json pa" False] Cons.IH
    by (auto split: prod.split applied.split intro: told_trans)
qed simp

lemma told_is08_due: "told_sinks (cm_session c) (cm_session (snd (is08_process_scheduled_activations E now c)))"
proof -
  have "told_sinks st st'" if "apply_due E due st = (f, st')" for st due f st'
    using told_apply_due[of st E due] that by simp
  then show ?thesis
    by (auto simp: is08_process_scheduled_activations_def Let_def split: prod.split)
qed

lemma told_is08_handle: "told_sinks (cm_session c) (cm_session (snd (is08_handle E now rq c)))"
proof -
  have act: "told_sinks (cm_session c) st'" if "is08_apply_action_json E a d (cm_session c) = (r, st')" for a d r st' c
    using told_apply_action[of "cm_session c" E a d] that by simp
  have now: "told_sinks (cm_session c) (cm_session (snd (activate_now E now i raw c)))" for i raw c
    by (auto simp: activate_now_def Let_def split: prod.split applied.split intro: act)
  have sched: "told_sinks (cm_session c) (cm_session (snd (schedule E now i mode raw pt action c)))" for i mode raw pt action c
    unfolding schedule_def Let_def
    by (auto split: prod.split applied.split tai.split intro: act)
  have "told_sinks (cm_session c) (cm_session (snd (post_activation E now body c)))" for body
    using now[of "c\<lparr>cm_counter := cm_counter c + 1\<rparr>"] sched[of "c\<lparr>cm_counter := cm_counter c + 1\<rparr>"]
    unfolding post_activation_def Let_def
    by (auto split: sum.split option.split)
  then show ?thesis
    by (auto simp: is08_handle_def delete_activation_def split: cm_request.split)
qed

subsection \<open>The node's receivers and the waiting events\<close>

definition receiver_ids :: "'d node \<Rightarrow> u8 set" where
  "receiver_ids s = dom (map_of (nd_receivers s))"

definition waiting_ok :: "'d node \<Rightarrow> bool" where
  "waiting_ok s \<longleftrightarrow> uids_ok (nd_session s) \<and>
     (\<forall>i. sink_after i (nd_events s) (i \<in> receiver_ids s) = has_sink (nd_session s) i)"

definition kept :: "'d node \<Rightarrow> 'd node \<Rightarrow> bool" where
  "kept s s' \<longleftrightarrow> (waiting_ok s \<longrightarrow> waiting_ok s')"

lemma kept_refl [simp]: "kept s s"
  by (simp add: kept_def)

lemma kept_trans: "kept s s' \<Longrightarrow> kept s' s'' \<Longrightarrow> kept s s''"
  by (simp add: kept_def)

lemma kept_run: "told_sinks (nd_session s) st \<Longrightarrow> kept s (run_session st s)"
  by (auto simp: kept_def waiting_ok_def told_sinks_def run_session_def observed_def receiver_ids_def)

lemma kept_frame:
  assumes "kept s s'" "nd_session s'' = nd_session s'" "nd_events s'' = nd_events s'" "receiver_ids s'' = receiver_ids s'"
  shows "kept s s''"
  using assms by (simp add: kept_def waiting_ok_def)

lemma set_receiver_frame [simp]:
  "nd_session (set_receiver i f s) = nd_session s" "nd_events (set_receiver i f s) = nd_events s"
  "receiver_ids (set_receiver i f s) = receiver_ids s" "nd_senders (set_receiver i f s) = nd_senders s"
  "nd_preserved (set_receiver i f s) = nd_preserved s" "nd_pending (set_receiver i f s) = nd_pending s"
  by (auto simp: set_receiver_def receiver_ids_def split: option.splits)

lemma receiver_ids_upd [simp]:
  "receiver_ids (s\<lparr>nd_session := x1\<rparr>) = receiver_ids s" "receiver_ids (s\<lparr>nd_senders := x2\<rparr>) = receiver_ids s"
  "receiver_ids (s\<lparr>nd_device_json := x3\<rparr>) = receiver_ids s" "receiver_ids (s\<lparr>nd_node_json := x3\<rparr>) = receiver_ids s"
  "receiver_ids (s\<lparr>nd_pending := x4\<rparr>) = receiver_ids s" "receiver_ids (s\<lparr>nd_preserved := x5\<rparr>) = receiver_ids s"
  "receiver_ids (s\<lparr>nd_events := x6\<rparr>) = receiver_ids s" "receiver_ids (s\<lparr>nd_activations := x7\<rparr>) = receiver_ids s"
  "receiver_ids (s\<lparr>nd_counter := x8\<rparr>) = receiver_ids s" "receiver_ids (s\<lparr>nd_subscriptions := x9\<rparr>) = receiver_ids s"
  "receiver_ids (s\<lparr>nd_discovered := y1\<rparr>) = receiver_ids s" "receiver_ids (s\<lparr>nd_calls := y2\<rparr>) = receiver_ids s"
  by (simp_all add: receiver_ids_def)

lemma set_sender_frame [simp]:
  "nd_session (set_sender i f s) = nd_session s" "nd_events (set_sender i f s) = nd_events s"
  "nd_receivers (set_sender i f s) = nd_receivers s" "nd_preserved (set_sender i f s) = nd_preserved s"
  "nd_pending (set_sender i f s) = nd_pending s" "receiver_ids (set_sender i f s) = receiver_ids s"
  by (auto simp: set_sender_def split: option.splits)

lemma push_pending_frame [simp]:
  "nd_session (push_pending b i t s) = nd_session s" "nd_events (push_pending b i t s) = nd_events s"
  "nd_receivers (push_pending b i t s) = nd_receivers s" "nd_senders (push_pending b i t s) = nd_senders s"
  "receiver_ids (push_pending b i t s) = receiver_ids s"
  by (simp_all add: push_pending_def)

lemma kept_ops:
  assumes "kept s s'"
  shows "kept s (set_receiver i f s')" "kept s (set_sender i g s')" "kept s (push_pending b i t s')"
    "kept s (s'\<lparr>nd_preserved := pr\<rparr>)" "kept s (s'\<lparr>nd_pending := pd\<rparr>)"
  by (rule kept_frame[OF assms]; simp)+

lemma kept_set_sink:
  assumes "kept s s'" "set_sink_sdp E i u t s' = (f, s'')"
  shows "kept s s''"
proof (cases "get_sink i (nd_session s')")
  case (Inr sink)
  let ?r = "of_outcome (add_sink (ce_add (ne_cm E)) (ce_rm (ne_cm E)) (node_session_env E)
    (sink\<lparr>snk_use_sdp := u, snk_sdp := t, snk_source := []\<rparr>) (nd_session s'))"
  have "s'' = run_session (snd ?r) s'"
    using assms(2) Inr by (auto simp: set_sink_sdp_def split: prod.splits)
  moreover have "told_sinks (nd_session s') (snd ?r)"
    by (intro told_of_outcome inv_intro)
  ultimately show ?thesis using assms(1) kept_run kept_trans by metis
qed (use assms in \<open>simp add: set_sink_sdp_def\<close>)

lemma kept_refresh: "kept s s' \<Longrightarrow> kept s (refresh_sink i s')"
  by (auto simp: refresh_sink_def intro!: kept_ops split: sum.split)

lemma kept_connect:
  assumes "kept s s'" "connect_sink E i enable sdp s' = (f, s'')"
  shows "kept s s''"
  using assms(2) kept_set_sink[OF assms(1)] assms(1) unfolding connect_sink_def
  by (auto split: prod.splits option.splits if_splits intro: kept_refresh)

lemma kept_receiver_activation:
  assumes "kept s s'" "apply_receiver_activation E i s' = (f, s'')"
  shows "kept s s''"
proof -
  have "kept s ((set_receiver i g s')\<lparr>nd_preserved := pr\<rparr>)" for g pr
    using assms(1) by (intro kept_ops)
  note c = kept_connect[OF this]
  show ?thesis
    using assms c unfolding apply_receiver_activation_def Let_def
    by (simp split: option.splits if_splits)
qed

lemma kept_sender_activation: "kept s s' \<Longrightarrow> kept s (apply_sender_activation E now i s')"
  by (auto simp: apply_sender_activation_def Let_def split: sum.splits intro!: kept_ops)

lemma kept_patch_sender:
  assumes "kept s s'"
  shows "kept s (snd (patch_sender_staged E now tick i body s'))"
  using assms unfolding patch_sender_staged_def Let_def
  by (auto split: sum.split option.split act_plan.split intro!: kept_ops kept_sender_activation)

lemma kept_patch_receiver:
  assumes "kept s s'"
  shows "kept s (snd (patch_receiver_staged E now tick i body s'))"
proof -
  have "kept s s3" if "apply_receiver_activation E i (set_receiver i g (set_receiver i h s')) = (f, s3)" for g h f s3
    using that assms by (intro kept_receiver_activation[OF _ that] kept_ops)
  then show ?thesis
    using assms unfolding patch_receiver_staged_def Let_def
    by (auto split: sum.split option.split act_plan.split prod.split intro!: kept_ops)
qed

lemma kept_patch: "kept s s' \<Longrightarrow> patch_staged E now tick b i body s' = (r, s'') \<Longrightarrow> kept s s''"
  using kept_patch_sender[of s s' E now tick i body] kept_patch_receiver[of s s' E now tick i body]
  by (simp add: patch_staged_def split: if_splits)

lemma kept_conn_patch: "kept s s' \<Longrightarrow> conn_patch E now tick b uuid body s' = (r, s'') \<Longrightarrow> kept s s''"
  by (auto simp: conn_patch_def split: option.splits prod.splits patch_result.splits dest: kept_patch)

lemma kept_bulk_item: "kept s s' \<Longrightarrow> bulk_item w E now tick b item s' = (r, s'') \<Longrightarrow> kept s s''"
  by (auto simp: bulk_item_def Let_def split: option.splits prod.splits patch_result.splits dest: kept_patch)

lemma kept_bulk: "kept s s' \<Longrightarrow> bulk_items w E now tick b items s' = (r, s'') \<Longrightarrow> kept s s''"
proof (induction items arbitrary: s' r s'')
  case (Cons x items)
  obtain k item where x: "x = (k, item)" by fastforce
  obtain r1 s1 where 1: "bulk_item w E now tick b item s' = (r1, s1)" by fastforce
  obtain r2 s2 where 2: "bulk_items w E now tick b items s1 = (r2, s2)" by fastforce
  have "kept s s1" using Cons.prems(1) 1 by (rule kept_bulk_item)
  moreover from Cons.IH[OF this 2] have "kept s s2" .
  ultimately show ?case
    using Cons.prems(2) by (auto simp: x 1 2 split: sum.splits)
qed simp

lemma kept_conn_handle: "kept s (snd (conn_handle w E now tick rq s))"
proof -
  have "kept s s'" if "conn_handle w E now tick rq s = (r, s')" for r s'
    using that kept_conn_patch[OF kept_refl] kept_bulk[OF kept_refl]
    by (cases rq) (auto simp: conn_handle_def conn_bulk_def split: sum.splits prod.splits)
  then show ?thesis by (metis prod.collapse)
qed

lemma kept_run_pending:
  assumes "kept s s'" "run_pending E now pa s' = (f, s'')"
  shows "kept s s''"
proof -
  have a: "kept s s3" if "apply_receiver_activation E i (set_receiver i g s') = (f, s3)" for i g f s3
    using that assms by (intro kept_receiver_activation[OF _ that] kept_ops)
  show ?thesis
  proof (cases "pd_is_sender pa")
    case True
    then show ?thesis
      using assms by (auto simp: run_pending_def Let_def intro!: kept_ops kept_sender_activation)
  next
    case False
    then show ?thesis
      using assms(2) a by (auto simp: run_pending_def Let_def split: prod.splits option.splits intro!: kept_ops)
  qed
qed

lemma kept_run_all: "kept s s' \<Longrightarrow> run_all_pending E now due s' = (f, s'') \<Longrightarrow> kept s s''"
  by (induction due arbitrary: s') (auto split: prod.splits option.splits dest: kept_run_pending)

lemma kept_scheduled: "kept s (snd (process_scheduled_activations E now tick s))"
proof -
  obtain f s' where r: "process_scheduled_activations E now tick s = (f, s')" by fastforce
  have "kept s s'"
    using r unfolding process_scheduled_activations_def Let_def
    by (rule kept_run_all[rotated]) (intro kept_ops kept_refl)
  then show ?thesis by (simp add: r)
qed

subsection \<open>Events\<close>

lemma registry_frame [simp]:
  "nd_session (snd (registry_call E m p b s)) = nd_session s" "nd_events (snd (registry_call E m p b s)) = nd_events s"
  "nd_receivers (snd (registry_call E m p b s)) = nd_receivers s" "nd_senders (snd (registry_call E m p b s)) = nd_senders s"
  "nd_preserved (snd (registry_call E m p b s)) = nd_preserved s"
  by (simp_all add: registry_call_def Let_def)

lemma register_frame [simp]:
  "nd_session (snd (register_resource E t d s)) = nd_session s" "nd_events (snd (register_resource E t d s)) = nd_events s"
  "nd_receivers (snd (register_resource E t d s)) = nd_receivers s" "nd_senders (snd (register_resource E t d s)) = nd_senders s"
  "nd_preserved (snd (register_resource E t d s)) = nd_preserved s"
  "nd_session (snd (unregister_resource E t d s)) = nd_session s" "nd_events (snd (unregister_resource E t d s)) = nd_events s"
  "nd_receivers (snd (unregister_resource E t d s)) = nd_receivers s" "nd_senders (snd (unregister_resource E t d s)) = nd_senders s"
  "nd_preserved (snd (unregister_resource E t d s)) = nd_preserved s"
  by (simp_all add: register_resource_def unregister_resource_def split_def Let_def)

lemma register_all_frame [simp]:
  "nd_session (register_all E rs s) = nd_session s" "nd_events (register_all E rs s) = nd_events s"
  "nd_receivers (register_all E rs s) = nd_receivers s" "nd_senders (register_all E rs s) = nd_senders s"
  "nd_preserved (register_all E rs s) = nd_preserved s"
  by (induction E rs s rule: register_all.induct) simp_all

lemma rebuild_frame [simp]:
  "nd_session (rebuild_device_json E now s) = nd_session s" "nd_events (rebuild_device_json E now s) = nd_events s"
  "nd_receivers (rebuild_device_json E now s) = nd_receivers s" "nd_senders (rebuild_device_json E now s) = nd_senders s"
  "nd_preserved (rebuild_device_json E now s) = nd_preserved s"
  by (simp_all add: rebuild_device_json_def)

lemma registry_ids [simp]:
  "receiver_ids (snd (registry_call E m p b s)) = receiver_ids s" "receiver_ids (snd (register_resource E t d s)) = receiver_ids s"
  "receiver_ids (snd (unregister_resource E t d s)) = receiver_ids s" "receiver_ids (register_all E rs s) = receiver_ids s"
  "receiver_ids (rebuild_device_json E now s) = receiver_ids s"
  by (simp_all add: receiver_ids_def)

lemma register_source_frame [simp]:
  "nd_session (snd (register_source_local E now i s)) = nd_session s" "nd_events (snd (register_source_local E now i s)) = nd_events s"
  "nd_receivers (snd (register_source_local E now i s)) = nd_receivers s"
  "nd_session (snd (register_source E now i s)) = nd_session s" "nd_events (snd (register_source E now i s)) = nd_events s"
  "nd_receivers (snd (register_source E now i s)) = nd_receivers s"
  "nd_session (unregister_source E now i s) = nd_session s" "nd_events (unregister_source E now i s) = nd_events s"
  "nd_receivers (unregister_source E now i s) = nd_receivers s"
  by (auto simp: register_source_def register_source_local_def unregister_source_def Let_def
      split: sum.split prod.split option.split bool.split)

lemma register_sink_local_frame:
  "nd_session (snd (register_sink_local E now i s)) = nd_session s" "nd_events (snd (register_sink_local E now i s)) = nd_events s"
  "receiver_ids (snd (register_sink_local E now i s)) = receiver_ids s \<union> (if has_sink (nd_session s) i then {i} else {})"
  by (auto simp: register_sink_local_def Let_def receiver_ids_def get_sink_def split: sum.split option.splits)

lemma register_sink_frame:
  "nd_session (snd (register_sink E now i s)) = nd_session s" "nd_events (snd (register_sink E now i s)) = nd_events s"
  "receiver_ids (snd (register_sink E now i s)) = receiver_ids s \<union> (if has_sink (nd_session s) i then {i} else {})"
proof -
  obtain b s1 where r: "register_sink_local E now i s = (b, s1)" by fastforce
  note f = register_sink_local_frame[of E now i s, unfolded r snd_conv]
  show "nd_session (snd (register_sink E now i s)) = nd_session s" "nd_events (snd (register_sink E now i s)) = nd_events s"
    "receiver_ids (snd (register_sink E now i s)) = receiver_ids s \<union> (if has_sink (nd_session s) i then {i} else {})"
    using f by (simp_all add: register_sink_def r receiver_ids_def split: bool.split option.split)
qed

lemma unregister_sink_frame:
  "nd_session (unregister_sink E now i s) = nd_session s" "nd_events (unregister_sink E now i s) = nd_events s"
  "receiver_ids (unregister_sink E now i s) = receiver_ids s - {i}"
  by (auto simp: unregister_sink_def receiver_ids_def Let_def split: option.split)

lemma register_sinks_frame:
  "nd_session (register_locals register_sink_local E now is s) = nd_session s \<and>
   nd_events (register_locals register_sink_local E now is s) = nd_events s \<and>
   receiver_ids (register_locals register_sink_local E now is s) =
     receiver_ids s \<union> {i \<in> set is. has_sink (nd_session s) i}"
  by (induction "is" arbitrary: s) (auto simp: register_sink_local_frame)

lemma register_sources_frame:
  "nd_session (register_locals register_source_local E now is s) = nd_session s \<and>
   nd_events (register_locals register_source_local E now is s) = nd_events s \<and>
   nd_receivers (register_locals register_source_local E now is s) = nd_receivers s"
  by (induction "is" arbitrary: s) simp_all

lemma sync_local_frame:
  "nd_session (sync_local E now s) = nd_session s" "nd_events (sync_local E now s) = nd_events s"
  "receiver_ids (sync_local E now s) = receiver_ids s \<union> {i. has_sink (nd_session s) i}"
proof -
  define s1 where "s1 = register_locals register_source_local E now (map src_id (get_sources (node_session_env E) (nd_session s))) s"
  have s1: "nd_session s1 = nd_session s" "nd_events s1 = nd_events s" "receiver_ids s1 = receiver_ids s"
    by (simp_all add: s1_def receiver_ids_def register_sources_frame)
  have "sync_local E now s = register_locals register_sink_local E now (map snk_id (get_sinks (nd_session s1))) s1"
    by (simp add: sync_local_def s1_def Let_def)
  moreover have "{i \<in> set (map snk_id (get_sinks (nd_session s))). has_sink (nd_session s) i} = {i. has_sink (nd_session s) i}"
    by (auto simp: dom_map_of_conv_image_fst[symmetric])
  ultimately show "nd_session (sync_local E now s) = nd_session s" "nd_events (sync_local E now s) = nd_events s"
    "receiver_ids (sync_local E now s) = receiver_ids s \<union> {i. has_sink (nd_session s) i}"
    by (simp_all add: s1 register_sinks_frame)
qed

lemma full_registration_frame:
  "nd_session (snd (full_registration E now s)) = nd_session s" "nd_events (snd (full_registration E now s)) = nd_events s"
  "receiver_ids (snd (full_registration E now s)) = receiver_ids s \<union> {i. has_sink (nd_session s) i}"
  by (simp_all add: full_registration_def Let_def sync_local_frame del: register_all.simps)

text \<open>Reading one event keeps the receivers and the remaining events in step with the sinks: an event
  for a sink that has gone meanwhile does nothing, and then its removal waits further back.\<close>

lemma handle_event_kept:
  assumes "waiting_ok s" "nd_events s = ev # evs"
  shows "waiting_ok (handle_event E now ev (s\<lparr>nd_events := evs\<rparr>))"
proof -
  let ?s = "s\<lparr>nd_events := evs\<rparr>" and ?s' = "handle_event E now ev (s\<lparr>nd_events := evs\<rparr>)"
  have w: "sink_after i evs (sink_step i ev (i \<in> receiver_ids s)) = has_sink (nd_session s) i" for i
    using assms by (simp add: waiting_ok_def)
  have f: "nd_session ?s' = nd_session s" "nd_events ?s' = evs"
    by (cases ev; simp add: register_sink_frame unregister_sink_frame full_registration_frame)+
  have step: "sink_after i evs (i \<in> receiver_ids ?s') = has_sink (nd_session s) i" for i
  proof (cases ev)
    case (SinkAdded j)
    then have r: "i \<in> receiver_ids ?s' \<longleftrightarrow> i \<in> receiver_ids s \<or> i = j \<and> has_sink (nd_session s) j"
      by (simp add: register_sink_frame)
    show ?thesis
    proof (cases "i = j \<and> \<not> has_sink (nd_session s) j")
      case True
      then have "\<not> sink_after i evs True" using w[of i] SinkAdded by simp
      then show ?thesis using True sink_after_mono[of i evs "i \<in> receiver_ids ?s'" True] by auto
    next
      case False
      then have "(i \<in> receiver_ids ?s') = sink_step i ev (i \<in> receiver_ids s)" unfolding r using SinkAdded by auto
      then show ?thesis using w[of i] by simp
    qed
  next
    case (SinkRemoved j)
    then show ?thesis using w[of i] by (simp add: unregister_sink_frame)
  next
    case RegistryUpdated
    then have r: "i \<in> receiver_ids ?s' \<longleftrightarrow> i \<in> receiver_ids s \<or> has_sink (nd_session s) i"
      by (simp add: full_registration_frame)
    show ?thesis
      unfolding r using w[of i] RegistryUpdated sink_after_mono[of i evs "i \<in> receiver_ids s" "i \<in> receiver_ids s \<or> has_sink (nd_session s) i"]
      by auto
  qed (use w[of i] in \<open>simp_all add: receiver_ids_def\<close>)
  show ?thesis
    using assms(1) step by (simp add: waiting_ok_def f)
qed

lemma kept_take_event: "kept s (take_event E now s)"
  using handle_event_kept[of s _ _ E now] by (auto simp: kept_def take_event_def split: list.split)

lemma drain_kept: "waiting_ok s \<Longrightarrow> nd_events s = evs \<Longrightarrow>
  waiting_ok (drain_events E now evs s) \<and> nd_events (drain_events E now evs s) = [] \<and>
  nd_session (drain_events E now evs s) = nd_session s"
proof (induction evs arbitrary: s)
  case (Cons ev evs)
  let ?s' = "handle_event E now ev (s\<lparr>nd_events := evs\<rparr>)"
  have f: "nd_session ?s' = nd_session s" "nd_events ?s' = evs"
    by (cases ev; simp add: register_sink_frame unregister_sink_frame full_registration_frame)+
  show ?case
    using Cons.IH[of ?s'] handle_event_kept[OF Cons.prems(1)] Cons.prems(2) f by simp
qed simp

subsection \<open>The node's steps\<close>

text \<open>A change of the sources and sinks through the HTTP interface or the session manager's own worker,
  a request of the connection, channel mapping or query interface, one event or one round of the
  worker, a word from DNS-SD.\<close>

inductive session_change :: "'d node_env \<Rightarrow> 'd session \<Rightarrow> 'd session \<Rightarrow> bool" for E where
  ch_add_source: "session_change E st (snd (add_source (ce_add (ne_cm E)) (ce_rm (ne_cm E)) (node_session_env E) src st))"
| ch_remove_source: "session_change E st (snd (remove_source (ce_rm (ne_cm E)) (node_session_env E) k st))"
| ch_add_sink: "session_change E st (snd (add_sink (ce_add (ne_cm E)) (ce_rm (ne_cm E)) (node_session_env E) snk st))"
| ch_remove_sink: "session_change E st (snd (remove_sink (ce_rm (ne_cm E)) (node_session_env E) k st))"

inductive node_step :: "'d node_env \<Rightarrow> 'd node \<Rightarrow> 'd node \<Rightarrow> bool" for E where
  st_session: "session_change E (nd_session s) st \<Longrightarrow> node_step E s (run_session st s)"
| st_conn: "node_step E s (snd (conn_handle w E now tick rq s))"
| st_is08: "c = \<lparr>cm_session = nd_session s, cm_activations = nd_activations s, cm_counter = nd_counter s\<rparr> \<Longrightarrow>
    c' = snd (is08_handle (ne_cm E) t rq8 c) \<Longrightarrow>
    node_step E s ((run_session (cm_session c') s)\<lparr>nd_activations := cm_activations c', nd_counter := cm_counter c'\<rparr>)"
| st_event: "node_step E s (take_event E now s)"
| st_scheduled: "node_step E s (snd (process_scheduled_activations E now tick s))"
| st_is08_due: "node_step E s (snd (process_is08 E now s))"
| st_heartbeat: "node_step E s (send_heartbeat E now s)"
| st_resolved: "node_step E s (on_registry_resolved addr port s)"
| st_removed: "node_step E s (on_registry_removed s)"
| st_subscribe: "node_step E s (snd (post_subscription E body s))"
| st_unsubscribe: "node_step E s (snd (delete_subscription k s))"
| st_ws_closed: "node_step E s (ws_disconnect target s)"

lemma kept_heartbeat: "kept s (send_heartbeat E now s)"
proof -
  obtain r s1 where c: "registry_call E ''POST'' (''/x-nmos/registration/v1.3/health/nodes/'' @ node_id E) [] s = (r, s1)" by fastforce
  note s1 = registry_frame(1,2)[of E "''POST''" "''/x-nmos/registration/v1.3/health/nodes/'' @ node_id E" "[]" s, unfolded c snd_conv]
    registry_ids(1)[of E "''POST''" "''/x-nmos/registration/v1.3/health/nodes/'' @ node_id E" "[]" s, unfolded c snd_conv]
  have full: "kept s (snd (full_registration E now s1))"
    using sink_after_mono by (fastforce simp: kept_def waiting_ok_def full_registration_frame s1)
  have "kept s (snd (heartbeat E now s))"
    unfolding heartbeat_def c Let_def prod.case using full kept_frame[OF kept_refl s1] by simp
  then show ?thesis
    unfolding send_heartbeat_def Let_def by (rule kept_frame) (simp_all add: receiver_ids_def)
qed

lemma node_step_kept:
  assumes "node_step E s s'"
  shows "kept s s'"
  using assms
proof cases
  case (st_session st)
  from st_session(2) have "told_sinks (nd_session s) st"
    by cases (auto intro: inv_intro)
  then show ?thesis unfolding st_session(1) by (rule kept_run)
next
  case (st_is08 c c' t rq8)
  have "told_sinks (nd_session s) (cm_session c')"
    using told_is08_handle[of c "ne_cm E" t rq8] by (simp add: st_is08(2,3))
  from kept_run[OF this] show ?thesis
    unfolding st_is08(1) by (rule kept_frame) (simp_all add: receiver_ids_def)
next
  case (st_is08_due now)
  let ?c = "\<lparr>cm_session = nd_session s, cm_activations = nd_activations s, cm_counter = nd_counter s\<rparr>"
  have "told_sinks (nd_session s) (cm_session (snd (is08_process_scheduled_activations (ne_cm E) (int now) ?c)))"
    using told_is08_due[of ?c] by simp
  note k = kept_run[OF this]
  show ?thesis
    unfolding st_is08_due process_is08_def
    by (auto simp: split_def Let_def intro: kept_frame[OF k])
next
  case st_resolved
  then show ?thesis by (auto simp: kept_def waiting_ok_def on_registry_resolved_def receiver_ids_def)
next
  case st_removed
  then show ?thesis by (auto simp: kept_def waiting_ok_def on_registry_removed_def receiver_ids_def)
next
  case (st_subscribe body)
  then show ?thesis
    by (auto simp: post_subscription_def Let_def split: sum.split intro!: kept_frame[OF kept_refl])
next
  case (st_unsubscribe k)
  then show ?thesis
    by (auto simp: delete_subscription_def split: option.split intro!: kept_frame[OF kept_refl])
next
  case (st_ws_closed target)
  then show ?thesis
    by (auto simp: ws_disconnect_def split: option.split intro!: kept_frame[OF kept_refl])
qed (simp_all add: kept_conn_handle kept_take_event kept_scheduled kept_heartbeat)

lemma node_init_waiting: "waiting_ok (node_init E now (session_init d domain dscp v))"
  by (simp add: node_init_def Let_def waiting_ok_def sync_local_frame uids_ok_def session_init_def) (auto simp: receiver_ids_def)

lemma node_reachable_waiting:
  assumes "(node_step E)\<^sup>*\<^sup>* (node_init E now (session_init d domain dscp v)) s"
  shows "waiting_ok s"
  using assms by induction (auto simp: node_init_waiting dest: node_step_kept[unfolded kept_def])

text \<open>C5: the receivers the node publishes follow the sinks.  Whatever happened before - sources and
  sinks changed over HTTP, activations of the connection and channel mapping interfaces, lost and
  found registries, events read or still waiting - once the worker has read its queue, the node
  has a receiver for exactly the sinks the session manager has, and the sinks are untouched.\<close>

theorem receivers_follow_sinks:
  assumes "(node_step E)\<^sup>*\<^sup>* (node_init E now (session_init d domain dscp v)) s"
  shows "let s' = drain_events E later (nd_events s) s
         in nd_events s' = [] \<and> nd_session s' = nd_session s \<and>
            fst ` set (nd_receivers s') = fst ` set (ss_sinks (nd_session s))"
proof -
  let ?s' = "drain_events E later (nd_events s) s"
  have d: "waiting_ok ?s'" "nd_events ?s' = []" "nd_session ?s' = nd_session s"
    using drain_kept[OF node_reachable_waiting[OF assms] refl] by auto
  then have "receiver_ids ?s' = dom (map_of (ss_sinks (nd_session s)))"
    by (auto simp: waiting_ok_def)
  then show ?thesis
    using d by (simp add: Let_def receiver_ids_def dom_map_of_conv_image_fst)
qed

end
