(* ===== verification/Node_Props.thy ===== *)
theory Node_Props
  imports Node_Events
begin

text \<open>
  What the connection interface of the node does: connecting a receiver to a sender of the same
  daemon, what a refused or a disabling activation leaves behind, scheduled activations, and what
  a new registration makes of the subscriptions.
\<close>

subsection \<open>A sink that is given the SDP of a source\<close>

text \<open>A stream \<open>t\<close> of a sink takes the packets of the stream \<open>s\<close> of a source.\<close>

definition follows :: "sdp_env \<Rightarrow> nat \<Rightarrow> rtp_stream_info \<Rightarrow> rtp_stream_info \<Rightarrow> bool" where
  "follows e n s t \<longleftrightarrow> m_ui32DestIP t = m_ui32DestIP s \<and> m_usDestPort t = m_usDestPort s \<and>
     m_byPayloadType t = m_byPayloadType s \<and> m_cCodec t = strncpy (e_codec_cap e) (m_cCodec s) \<and>
     m_byWordLength t = get_codec_word_length (m_cCodec s) \<and> m_ui32SamplingRate t = e_sample_rate e \<and>
     m_ui32MaxSamplesPerPacket t = word_of_nat n"

lemma follows_received [simp]: "follows e n s (received_leg e s n t)"
  by (simp add: follows_def received_leg_def)

lemma follows_upd [simp]:
  "follows e n s (t\<lparr>m_ui32FrameSize := f\<rparr>) = follows e n s t" "follows e n s (t\<lparr>m_ui8DestMAC := m\<rparr>) = follows e n s t"
  "follows e n s (t\<lparr>m_ui32RTCPSrcIP := a\<rparr>) = follows e n s t" "follows e n s (t\<lparr>m_uiIfPortId := k\<rparr>) = follows e n s t"
  by (simp_all add: follows_def)

lemma follows_leg2 [simp]: "follows e n s (sink_leg2 E t) = follows e n s t"
  by (simp add: sink_leg2_def Let_def)

definition sink_follows :: "sdp_env \<Rightarrow> nat \<Rightarrow> stream_info \<Rightarrow> stream_info \<Rightarrow> bool" where
  "sink_follows e n src snk \<longleftrightarrow> follows e n (leg src 0) (leg snk 0) \<and>
     (si_st20227_enabled snk \<longrightarrow> follows e n (leg src 1) (leg snk 1))"

lemma finish_leg_fields [simp]:
  "si_st20227_enabled (finish_leg E k info) = si_st20227_enabled info" "length (si_stream (finish_leg E k info)) = length (si_stream info)"
  "si_sink_sdp (finish_leg E k info) = si_sink_sdp info"
  by (simp_all add: finish_leg_def Let_def)

lemma follows_finish_leg:
  assumes "length (si_stream info) = 2" "j < 2" "k < 2"
  shows "follows e n s (leg (finish_leg E k info) j) = follows e n s (leg info j)"
  using assms by (simp add: finish_leg_def Let_def)

lemma sink_follows_finish:
  assumes "length (si_stream info) = 2" "sink_follows e n src info"
  shows "sink_follows e n src (finish_legs E info)"
  using assms by (simp add: finish_legs_def sink_follows_def Let_def follows_finish_leg)

lemma finish_legs_fields [simp]:
  "length (si_stream (finish_legs E info)) = length (si_stream info)" "si_sink_sdp (finish_legs E info) = si_sink_sdp info"
  "si_st20227_enabled (finish_legs E info) = si_st20227_enabled info"
  by (simp_all add: finish_legs_def Let_def)

text \<open>The sink is replaced, and the observers are told of its removal and of its return.\<close>

lemma add_sink_follows:
  assumes snk: "snk_use_sdp sink" "snk_sdp sink = get_source_sdp_text (sdp_env_of E st) src" "snk_id sink \<le> stream_id_max"
    and src: "clean_source (sdp_env_of E st) src n"
    and old: "map_of (ss_sinks st) (snk_id sink) = Some old"
    and drv: "\<forall>si d. fst (add_rtp si d) = no_error"
  obtains st' info where "add_sink add_rtp rm_rtp E sink st = (Returns no_error, st')"
    "map_of (ss_sinks st') (snk_id sink) = Some info" "si_sink_sdp info = snk_sdp sink" "si_sink_use_sdp info"
    "sink_follows (sdp_env_of E st) n src info"
    "ss_log st' = ss_log st @ [Sink_removed (ucast (m_uiId (leg old 0))) (m_cName (leg old 0)), Sink_added (snk_id sink) (snk_name sink)]"
    "ss_sources st' = ss_sources st"
proof -
  let ?e = "sdp_env_of E st"
  define p where "p = (if dup_entry ?e src
      then upd_leg 1 (received_leg ?e (leg src 1) n) (upd_leg 0 (received_leg ?e (leg src 0) n) (sink_info E sink))
      else upd_leg 0 (received_leg ?e (leg src 0) n) (sink_info E sink))
     \<lparr>si_origin := source_origin ?e src, si_st20227_enabled := dup_entry ?e src\<rparr>"
  have len: "length (si_stream (sink_info E sink)) = 2" by (simp add: sink_info_def)
  have parsed: "parse_sdp ?e (snk_sdp sink) (sink_info E sink) = Sdp_parsed p"
    unfolding snk(2) p_def using src by (intro sdp_parse_generated) (simp_all add: sink_info_def new_info_def)
  define q where "q = finish_legs E (p\<lparr>si_sink_sdp := snk_sdp sink, si_sink_source := snk_source sink, si_sink_use_sdp := True\<rparr>)"
  have plen: "length (si_stream p) = 2" using len by (simp add: p_def)
  have "sink_follows ?e n src p"
    using len by (simp add: p_def sink_follows_def)
  then have q: "sink_follows ?e n src q" "length (si_stream q) = 2" "si_sink_sdp q = snk_sdp sink" "si_sink_use_sdp q"
    using plen unfolding q_def by (auto intro!: sink_follows_finish simp: sink_follows_def finish_legs_def finish_leg_def Let_def)
  define st1 where "st1 = drop_old_sink rm_rtp E old st"
  obtain h d where a1: "add_rtp (leg q 0) (ss_driver st1) = (no_error, h, d)"
    using drv by (metis prod.collapse)
  define q1 where "q1 = q\<lparr>si_handle := [h, si_handle q ! 1]\<rparr>"
  have q1: "sink_follows ?e n src q1" "length (si_stream q1) = 2" "si_sink_sdp q1 = snk_sdp sink" "si_sink_use_sdp q1"
    using q by (simp_all add: q1_def sink_follows_def)
  have call: "add_sink add_rtp rm_rtp E sink st =
      add_sink_leg2 add_rtp rm_rtp E sink (Some old) q1 (st1\<lparr>ss_driver := d\<rparr>)"
    using snk(3) old a1 unfolding add_sink_def fetch_sdp_def by (simp add: snk(1) not_less[symmetric] parsed q_def[symmetric] add_sink_locked_def st1_def q1_def)
  show thesis
  proof (cases "e_if_name1 E \<noteq> [] \<and> si_st20227_enabled q1 \<and> e_sec_ip_str (e_sdp E) \<noteq> []")
    case True
    obtain h2 d2 where a2: "add_rtp (leg (upd_leg 1 (sink_leg2 E) q1) 1) d = (no_error, h2, d2)"
      using drv by (metis prod.collapse)
    define info where "info = (upd_leg 1 (sink_leg2 E) q1)\<lparr>si_handle := [si_handle q1 ! 0, h2]\<rparr>"
    show thesis
    proof (rule that)
      show "add_sink add_rtp rm_rtp E sink st =
          (Returns no_error, set_sink (snk_id sink) info (on_add_sink E sink info (st1\<lparr>ss_driver := d2\<rparr>)))"
        using True a2 by (simp add: call add_sink_leg2_def info_def)
      show "sink_follows ?e n src info" using q1 by (simp add: info_def sink_follows_def)
    qed (use q1 in \<open>simp_all add: info_def st1_def told_drop_sink\<close>)
  next
    case False
    show thesis
    proof (rule that)
      show "add_sink add_rtp rm_rtp E sink st = (Returns no_error, set_sink (snk_id sink) (q1\<lparr>si_st20227_enabled := False\<rparr>)
          (on_add_sink E sink (q1\<lparr>si_st20227_enabled := False\<rparr>) (st1\<lparr>ss_driver := d\<rparr>)))"
        using False by (auto simp: call add_sink_leg2_def)
      show "sink_follows ?e n src (q1\<lparr>si_st20227_enabled := False\<rparr>)" using q1 by (simp add: sink_follows_def)
    qed (use q1 in \<open>simp_all add: st1_def told_drop_sink\<close>)
  qed
qed

subsection \<open>The SDP of a source has a media section\<close>

lemma find_str_inside: "find_str p (a @ p @ b) \<noteq> None"
proof (induction a)
  case Nil
  have "starts_with p (p @ b)" by (simp add: starts_with_def)
  then show ?case by (cases "p @ b") auto
next
  case (Cons x a)
  then show ?case by (auto simp: starts_with_def)
qed

lemma unlines_inside: "l \<in> set ls \<Longrightarrow> \<exists>a b. unlines ls = a @ l @ b"
  by (induction ls) (auto simp: unlines_def, metis append.assoc append_Cons)

lemma source_sdp_media: "find_str ''m=audio'' (get_source_sdp_text e info) \<noteq> None"
proof -
  let ?l = "''m=audio'' @ '' '' @ show_u (m_usDestPort (leg info 0)) @ '' RTP/AVP '' @ show_u (m_byPayloadType (leg info 0))"
  have "?l \<in> set (source_sdp_lines e info)"
    by (simp add: source_sdp_lines_def media_lines_def Let_def)
  then obtain a b where "get_source_sdp_text e info = a @ ?l @ b"
    unfolding get_source_sdp_text_def using unlines_inside by blast
  then show ?thesis using find_str_inside[of "''m=audio''" a] by simp
qed

subsection \<open>The worker after a reconnected sink\<close>

lemma register_sink_found:
  assumes "get_sink i (nd_session s) = Inr sink"
  shows "map_of (nd_receivers (snd (register_sink E now i s))) i = Some ((receiver_of i s)
     \<lparr>rr_receiver_id := node_uuid E ''receiver'' i, rr_sink := sink,
      rr_staged_master_enable := sink_connected sink, rr_staged_tp := sink_tps E sink,
      rr_active_master_enable := sink_connected sink, rr_active_tp := sink_tps E sink,
      rr_active_sender_id := case_option [] id (nd_preserved s i)\<rparr>)"
  using assms by (simp add: register_sink_def register_sink_local_def Let_def)

lemma unregister_sink_gone [simp]:
  "map_of (nd_receivers (unregister_sink E now i s)) i = None" "nd_preserved (unregister_sink E now i s) = nd_preserved s"
  by (auto simp: unregister_sink_def Let_def split: option.split)

lemma drain_reconnected:
  assumes "nd_events s = [SinkRemoved i, SinkAdded i]" "get_sink i (nd_session s) = Inr sink"
  shows "\<exists>rr. map_of (nd_receivers (drain_events E now (nd_events s) s)) i = Some rr \<and>
    rr_active_sender_id rr = case_option [] id (nd_preserved s i) \<and>
    rr_active_master_enable rr = sink_connected sink \<and> rr_active_tp rr = sink_tps E sink \<and> rr_sink rr = sink"
  using assms register_sink_found[of i "(unregister_sink E now i (s\<lparr>nd_events := [SinkAdded i]\<rparr>))\<lparr>nd_events := []\<rparr>" sink E now]
  by (simp add: unregister_sink_frame)

subsection \<open>Connecting a receiver to a sender of the same daemon\<close>

lemma set_receiver_map:
  "map_of (nd_receivers (set_receiver i f s)) j =
     (if j = i then map_option f (map_of (nd_receivers s) i) else map_of (nd_receivers s) j)"
  by (simp add: set_receiver_def split: option.split)

lemma set_sender_map:
  "map_of (nd_senders (set_sender i f s)) j =
     (if j = i then map_option f (map_of (nd_senders s) i) else map_of (nd_senders s) j)"
  by (simp add: set_sender_def split: option.split)

lemma find_sender_receiver [simp]: "find_sender uuid (set_receiver i f s) = find_sender uuid s"
  by (simp add: find_sender_def)

text \<open>An activation of a receiver whose sender is local, up to the events it leaves.\<close>

lemma activate_local:
  assumes rr: "map_of (nd_receivers s) i = Some rr" "rr_staged_master_enable rr" "rr_staged_sender_id rr = uuid" "uuid \<noteq> []"
    and snd: "find_sender uuid s = Some j" "map_of (ss_sources (nd_session s)) j = Some info"
      "clean_source (sdp_env_of (node_session_env E) (nd_session s)) info n"
    and snk: "map_of (ss_sinks (nd_session s)) i = Some old" "i \<le> stream_id_max" "uids_ok (nd_session s)"
    and drv: "\<forall>si d. fst (ce_add (ne_cm E) si d) = no_error"
  obtains s' info' where "apply_receiver_activation E i s = (None, s')"
    "map_of (ss_sinks (nd_session s')) i = Some info'" "si_sink_use_sdp info'"
    "si_sink_sdp info' = get_source_sdp_text (sdp_env_of (node_session_env E) (nd_session s)) info"
    "sink_follows (sdp_env_of (node_session_env E) (nd_session s)) n info info'"
    "nd_events s' = nd_events s @ [SinkRemoved i, SinkAdded i]" "nd_preserved s' = (nd_preserved s)(i \<mapsto> uuid)"
    "map_of (nd_receivers s') i \<noteq> None"
proof -
  let ?st = "nd_session s" and ?SE = "node_session_env E"
  let ?sdp = "get_source_sdp_text (sdp_env_of ?SE ?st) info"
  let ?sink = "(get_sink_of i old)\<lparr>snk_use_sdp := True, snk_sdp := ?sdp, snk_source := []\<rparr>"
  have uid: "ucast (m_uiId (leg old 0)) = i" using snk by (auto simp: uids_ok_def)
  obtain st' info' where add: "add_sink (ce_add (ne_cm E)) (ce_rm (ne_cm E)) ?SE ?sink ?st = (Returns no_error, st')"
    "map_of (ss_sinks st') i = Some info'" "si_sink_sdp info' = ?sdp" "si_sink_use_sdp info'"
    "sink_follows (sdp_env_of ?SE ?st) n info info'"
    "ss_log st' = ss_log ?st @ [Sink_removed i (m_cName (leg old 0)), Sink_added i (snk_name ?sink)]"
    "ss_sources st' = ss_sources ?st"
    using add_sink_follows[of ?sink ?SE ?st info n old "ce_add (ne_cm E)" "ce_rm (ne_cm E)"] snk(1,2) snd(3) drv uid
    by (auto simp: get_sink_of_def)
  have sdp: "sender_sdp E uuid s = ?sdp"
    using snd(1,2) by (simp add: sender_sdp_def get_source_sdp_def text_of_def)
  obtain m where media: "find_str ''m=audio'' ?sdp = Some m" using source_sdp_media by blast
  then have ne: "?sdp \<noteq> []" by auto
  define s1 where "s1 = (set_receiver i (promote_receiver (build_receiver_tp_from_sdp E ?sdp)) s)
     \<lparr>nd_preserved := (nd_preserved s)(i \<mapsto> uuid)\<rparr>"
  define s2 where "s2 = refresh_sink i (run_session st' s1)"
  have s1: "nd_session s1 = ?st" "nd_events s1 = nd_events s" by (simp_all add: s1_def)
  have set: "set_sink_sdp E i True ?sdp s1 = (None, run_session st' s1)"
    using snk(1) add(1) by (simp add: set_sink_sdp_def s1 get_sink_def of_outcome_def)
  have act: "apply_receiver_activation E i s = (None, s2)"
    unfolding apply_receiver_activation_def Let_def rr(1) option.case
    using rr(2-4) ne media by (simp add: sdp s1_def[symmetric] connect_sink_def set s2_def)
  have get: "get_sink i st' = Inr (get_sink_of i info')" using add(2) by (simp add: get_sink_def)
  have "nd_session s2 = st'" "nd_events s2 = nd_events s @ [SinkRemoved i, SinkAdded i]" "nd_preserved s2 = (nd_preserved s)(i \<mapsto> uuid)"
    by (simp_all add: s2_def refresh_sink_def run_session_def get s1 observed_def add(6)) (simp add: s1_def)
  moreover have "map_of (nd_receivers s2) i \<noteq> None"
    using rr(1) by (simp add: s2_def refresh_sink_def run_session_def get s1_def set_receiver_map)
  ultimately show thesis using act add by (intro that[of s2 info']) simp_all
qed

lemma patch_local:
  assumes body: "pl_read (node_lib E) body = Inr pt" "map_of (nd_receivers s) i = Some rr"
      "rr' = merge_receiver (node_lib E) pt rr" "ac_mode (rr_staged_act rr') = ''activate_immediate''"
      "rr_staged_master_enable rr'" "rr_staged_sender_id rr' = uuid" "uuid \<noteq> []"
    and snd: "find_sender uuid s = Some j" "map_of (ss_sources (nd_session s)) j = Some info"
      "clean_source (sdp_env_of (node_session_env E) (nd_session s)) info n"
    and snk: "map_of (ss_sinks (nd_session s)) i = Some old" "i \<le> stream_id_max" "uids_ok (nd_session s)"
    and drv: "\<forall>si d. fst (ce_add (ne_cm E) si d) = no_error"
  obtains s1 info1 where "patch_receiver_staged E now tick i body s = (Patch_ok (staged_receiver_json rr'), s1)"
    "map_of (ss_sinks (nd_session s1)) i = Some info1" "si_sink_use_sdp info1"
    "si_sink_sdp info1 = get_source_sdp_text (sdp_env_of (node_session_env E) (nd_session s)) info"
    "sink_follows (sdp_env_of (node_session_env E) (nd_session s)) n info info1"
    "nd_events s1 = nd_events s @ [SinkRemoved i, SinkAdded i]" "nd_preserved s1 i = Some uuid"
proof -
  let ?s0 = "set_receiver i (stamp_receiver now) (set_receiver i (\<lambda>_. rr') s)"
  have r0: "map_of (nd_receivers ?s0) i = Some (stamp_receiver now rr')"
    using body(2) by (simp add: set_receiver_map)
  show thesis
  proof (rule activate_local[OF r0, of uuid j info E n old])
    fix s' info'
    assume a: "apply_receiver_activation E i ?s0 = (None, s')" "map_of (ss_sinks (nd_session s')) i = Some info'"
      "si_sink_use_sdp info'" "si_sink_sdp info' = get_source_sdp_text (sdp_env_of (node_session_env E) (nd_session ?s0)) info"
      "sink_follows (sdp_env_of (node_session_env E) (nd_session ?s0)) n info info'"
      "nd_events s' = nd_events ?s0 @ [SinkRemoved i, SinkAdded i]" "nd_preserved s' = (nd_preserved ?s0)(i \<mapsto> uuid)"
    have "patch_receiver_staged E now tick i body s = (Patch_ok (staged_receiver_json rr'), set_receiver i clear_receiver_act s')"
      using body(1-4) a(1) by (simp add: patch_receiver_staged_def Let_def plan_activation_def)
    then show thesis using a by (intro that[of "set_receiver i clear_receiver_act s'" info']) simp_all
  qed (use body(5-7) snd snk drv in \<open>simp_all add: stamp_receiver_def\<close>)
qed


subsection \<open>Activations that do not reach the sink\<close>

definition same_active :: "receiver_resources \<Rightarrow> receiver_resources \<Rightarrow> bool" where
  "same_active rr rr' \<longleftrightarrow> rr_active_master_enable rr' = rr_active_master_enable rr \<and>
     rr_active_sender_id rr' = rr_active_sender_id rr \<and> rr_active_act rr' = rr_active_act rr \<and>
     rr_active_tp rr' = rr_active_tp rr"

lemma same_active_simps [simp]:
  "same_active rr (merge_receiver lib pt rr)" "same_active rr (stamp_receiver now rr') = same_active rr rr'"
  "same_active rr (clear_receiver_act rr') = same_active rr rr'"
  by (simp_all add: same_active_def merge_receiver_def stamp_receiver_def clear_receiver_act_def)

lemma activation_refused:
  assumes "map_of (nd_receivers s) i = Some rr" "rr_staged_master_enable rr" "rr_staged_sender_id rr \<noteq> []"
    "find_str ''m=audio'' (sender_sdp E (rr_staged_sender_id rr) s) = None"
  shows "apply_receiver_activation E i s = (None, s)"
  using assms by (simp add: apply_receiver_activation_def Let_def)

lemma sender_sdp_receiver [simp]: "sender_sdp E uuid (set_receiver i f s) = sender_sdp E uuid s"
proof -
  have "nd_discovered (set_receiver i f s) = nd_discovered s"
    by (simp add: set_receiver_def split: option.split)
  then have "fetch_remote_sender_sdp E uuid (set_receiver i f s) = fetch_remote_sender_sdp E uuid s"
    by (simp add: fetch_remote_sender_sdp_def effective_registry_address_def effective_registry_query_port_def)
  then show ?thesis by (simp add: sender_sdp_def split: option.split)
qed

text \<open>C11: an activation that cannot find the SDP of the sender - the registry does not answer, does not
  know it, its manifest is gone - or that finds one without audio leaves what was connected as it
  was: the active parameters, the sink and its streams, and no event.  The request itself is
  still answered with 200.\<close>

theorem unresolved_activation_keeps:
  assumes "pl_read (node_lib E) body = Inr pt" "map_of (nd_receivers s) i = Some rr"
    "rr' = merge_receiver (node_lib E) pt rr" "ac_mode (rr_staged_act rr') = ''activate_immediate''"
    "rr_staged_master_enable rr'" "rr_staged_sender_id rr' \<noteq> []"
    "find_str ''m=audio'' (sender_sdp E (rr_staged_sender_id rr') s) = None"
  shows "\<exists>s' rr1. patch_receiver_staged E now tick i body s = (Patch_ok (staged_receiver_json rr'), s') \<and>
    map_of (nd_receivers s') i = Some rr1 \<and> same_active rr rr1 \<and>
    nd_session s' = nd_session s \<and> nd_events s' = nd_events s \<and> nd_preserved s' = nd_preserved s"
proof -
  let ?s0 = "set_receiver i (stamp_receiver now) (set_receiver i (\<lambda>_. rr') s)"
  have r0: "map_of (nd_receivers ?s0) i = Some (stamp_receiver now rr')"
    using assms(2) by (simp add: set_receiver_map)
  have "apply_receiver_activation E i ?s0 = (None, ?s0)"
    using assms(5-7) by (intro activation_refused[OF r0]) (simp_all add: stamp_receiver_def)
  then have "patch_receiver_staged E now tick i body s =
      (Patch_ok (staged_receiver_json rr'), set_receiver i clear_receiver_act ?s0)"
    using assms(1-4) by (simp add: patch_receiver_staged_def Let_def plan_activation_def)
  then show ?thesis
    using assms(2) by (simp add: set_receiver_map assms(3))
qed

text \<open>The empty source of a disabling activation is not a URL.\<close>

lemma disable_refused:
  assumes "e_decode_url E [] = []" "\<not> snk_use_sdp sink" "snk_source sink = []"
  shows "\<exists>e. add_sink add_rtp rm_rtp E sink st = (Returns e, st)"
  using assms by (simp add: add_sink_def fetch_sdp_def parse_url_def)

lemma set_sink_disabled:
  assumes "e_decode_url (node_session_env E) [] = []"
  shows "set_sink_sdp E i False [] s = (None, s)"
proof (cases "get_sink i (nd_session s)")
  case (Inr sink)
  have "run_session (nd_session s) s = s" by (simp add: run_session_def observed_def)
  then show ?thesis
    using disable_refused[OF assms, of "sink\<lparr>snk_use_sdp := False, snk_sdp := [], snk_source := []\<rparr>"
        "ce_add (ne_cm E)" "ce_rm (ne_cm E)" "nd_session s"]
    by (auto simp: set_sink_sdp_def Inr of_outcome_def)
qed (simp add: set_sink_sdp_def)

text \<open>Disabling a receiver does not stop it.  The activation with \<open>master_enable\<close> false is
  answered with 200 and the receiver is published as inactive, without a sender; but
  \<open>add_sink\<close> refuses the empty URL it is given, so the sink, its streams in the driver and
  its group memberships are what they were: the audio goes on.\<close>

theorem disable_keeps_stream:
  assumes "pl_read (node_lib E) body = Inr pt" "map_of (nd_receivers s) i = Some rr"
    "rr' = merge_receiver (node_lib E) pt rr" "ac_mode (rr_staged_act rr') = ''activate_immediate''"
    "\<not> rr_staged_master_enable rr'" "e_decode_url (node_session_env E) [] = []"
  shows "\<exists>s' rr1. patch_receiver_staged E now tick i body s = (Patch_ok (staged_receiver_json rr'), s') \<and>
    map_of (nd_receivers s') i = Some rr1 \<and> \<not> rr_active_master_enable rr1 \<and> rr_active_sender_id rr1 = [] \<and>
    nd_session s' = nd_session s \<and> nd_events s' = nd_events s"
proof -
  let ?s0 = "set_receiver i (stamp_receiver now) (set_receiver i (\<lambda>_. rr') s)"
  let ?s1 = "(set_receiver i (promote_receiver (rr_staged_tp rr')) ?s0)\<lparr>nd_preserved := (nd_preserved s)(i \<mapsto> [])\<rparr>"
  have r0: "map_of (nd_receivers ?s0) i = Some (stamp_receiver now rr')"
    using assms(2) by (simp add: set_receiver_map)
  have "set_sink_sdp E i False [] ?s1 = (None, ?s1)" by (rule set_sink_disabled[OF assms(6)])
  then have a: "apply_receiver_activation E i ?s0 = (None, refresh_sink i ?s1)"
    unfolding apply_receiver_activation_def r0 Let_def option.case
    using assms(5) by (simp add: stamp_receiver_def connect_sink_def)
  let ?s2 = "set_receiver i clear_receiver_act (refresh_sink i ?s1)"
  have "patch_receiver_staged E now tick i body s = (Patch_ok (staged_receiver_json rr'), ?s2)"
    using assms(1-4) a by (simp add: patch_receiver_staged_def Let_def plan_activation_def)
  moreover have "nd_session ?s2 = nd_session s" "nd_events ?s2 = nd_events s"
    by (simp_all add: refresh_sink_def split: sum.split)
  moreover have "\<exists>rr1. map_of (nd_receivers ?s2) i = Some rr1 \<and> \<not> rr_active_master_enable rr1 \<and> rr_active_sender_id rr1 = []"
    using assms(2,5)
    by (simp add: refresh_sink_def set_receiver_map split: sum.split)
      (simp add: set_receiver_def clear_receiver_act_def promote_receiver_def stamp_receiver_def)
  ultimately show ?thesis by auto
qed

subsection \<open>Registering again\<close>

lemma register_sinks_forget:
  assumes "i \<in> set is" "get_sink i (nd_session s) = Inr sink" "nd_preserved s i = None"
  shows "\<exists>rr. map_of (nd_receivers (register_locals register_sink_local E now is s)) i = Some rr \<and>
    rr_active_sender_id rr = [] \<and> rr_sink rr = sink"
proof -
  have keep: "\<exists>rr. map_of (nd_receivers (snd (register_sink_local E now k s1))) i = Some rr \<and> rr_active_sender_id rr = [] \<and> rr_sink rr = sink"
    if "k = i \<or> (\<exists>rr. map_of (nd_receivers s1) i = Some rr \<and> rr_active_sender_id rr = [] \<and> rr_sink rr = sink)"
      "get_sink i (nd_session s1) = Inr sink" "nd_preserved s1 i = None" for k s1
    using that by (auto simp: register_sink_local_def Let_def split: sum.split)
  have pres: "nd_preserved (snd (register_sink_local E now k s1)) i = None" if "nd_preserved s1 i = None" for k s1
    using that by (simp add: register_sink_local_def Let_def split: sum.split)
  have "\<exists>rr. map_of (nd_receivers (register_locals register_sink_local E now is s1)) i = Some rr \<and> rr_active_sender_id rr = [] \<and> rr_sink rr = sink"
    if "i \<in> set is \<or> (\<exists>rr. map_of (nd_receivers s1) i = Some rr \<and> rr_active_sender_id rr = [] \<and> rr_sink rr = sink)"
      "get_sink i (nd_session s1) = Inr sink" "nd_preserved s1 i = None" for s1
    using that
  proof (induction "is" arbitrary: s1)
    case (Cons k ks)
    show ?case
      using Cons.IH[of "snd (register_sink_local E now k s1)"] Cons.prems keep[of k s1] pres[of s1 k]
      by (auto simp: register_sink_local_frame)
  qed simp
  then show ?thesis using assms by blast
qed

text \<open>C40: a registry that has forgotten the node makes the node forget its subscriptions.  When a
  heartbeat is answered with 404 the node registers everything again, and this replaces the
  active sender of every receiver with none, while the sinks go on receiving; the new
  registration tells the registry so.\<close>

theorem reregistration_forgets:
  assumes "registry_call E ''POST'' (''/x-nmos/registration/v1.3/health/nodes/'' @ node_id E) [] s = (Some 404, s1)"
    and "map_of (ss_sinks (nd_session s)) i = Some info" "nd_preserved s i = None"
  shows "\<exists>rr. map_of (nd_receivers (snd (heartbeat E now s))) i = Some rr \<and> rr_active_sender_id rr = [] \<and>
    rr_sink rr = get_sink_of i info \<and> nd_session (snd (heartbeat E now s)) = nd_session s"
proof -
  have h: "heartbeat E now s = full_registration E now s1"
    unfolding heartbeat_def assms(1) by simp
  note s1 = registry_frame[of E "''POST''" "''/x-nmos/registration/v1.3/health/nodes/'' @ node_id E" "[]" s, unfolded assms(1) snd_conv]
  define s2 where "s2 = register_locals register_source_local E now (map src_id (get_sources (node_session_env E) (nd_session s1))) s1"
  have p: "nd_preserved (register_locals register_source_local E now ks x) = nd_preserved x" for ks x
    by (induction ks arbitrary: x) (simp_all add: register_source_local_def Let_def split: sum.split)
  have s2: "nd_session s2 = nd_session s" "nd_preserved s2 = nd_preserved s"
    by (simp_all add: s2_def register_sources_frame p s1)
  have f: "nd_receivers (snd (full_registration E now s1)) =
      nd_receivers (register_locals register_sink_local E now (map snk_id (get_sinks (nd_session s2))) s2)"
    by (simp add: full_registration_def sync_local_def Let_def s2_def del: register_all.simps)
  have "i \<in> set (map snk_id (get_sinks (nd_session s2)))"
    using assms(2) by (auto simp: s2 dom_map_of_conv_image_fst[symmetric])
  from register_sinks_forget[OF this, of s2 "get_sink_of i info" E now] show ?thesis
    unfolding h f using assms(2,3) by (simp add: s2 get_sink_def full_registration_frame s1)
qed

subsection \<open>Scheduled activations\<close>

definition promoted :: "sender_resources \<Rightarrow> sender_resources \<Rightarrow> bool" where
  "promoted staged sr \<longleftrightarrow> sr_active_master_enable sr = sr_staged_master_enable staged \<and>
     sr_active_receiver_id sr = sr_staged_receiver_id staged \<and> sr_active_tp sr = sr_staged_tp staged \<and>
     sr_staged_act sr = no_activation"

lemma run_pending_sender:
  assumes "map_of (nd_senders s) i = Some sr" "pd_is_sender pa" "pd_daemon_id pa = i"
  shows "\<exists>s' sr'. run_pending E now pa s = (None, s') \<and> map_of (nd_senders s') i = Some sr' \<and> promoted sr sr' \<and>
    ac_activation_time (sr_active_act sr') = make_version now \<and> nd_session s' = nd_session s \<and>
    nd_receivers s' = nd_receivers s \<and> nd_pending s' = nd_pending s"
  using assms
  by (simp add: run_pending_def Let_def apply_sender_activation_def set_sender_map split: sum.split)
    (simp add: promoted_def promote_sender_def stamp_sender_def clear_sender_act_def stamp_def)

text \<open>C6: a scheduled activation of a sender is made once, at its time.  A PATCH that schedules one
  \<open>secs:nanos\<close> from now leaves the active parameters alone and puts it into the queue; every
  round of the worker before the deadline leaves the node as it is, and the first one at or
  after the deadline makes the staged parameters active, stamps them with the time of that
  round, clears the staged activation and empties the queue.\<close>

theorem scheduled_activation_runs:
  assumes body: "pl_read (node_lib E) body = Inr pt" "map_of (nd_senders s) i = Some sr"
      "sr' = merge_sender (node_lib E) pt sr" "ac_mode (sr_staged_act sr') = ''activate_scheduled_relative''"
      "ac_requested_time (sr_staged_act sr') = show_int secs @ '':'' @ show_int nanos"
    and fits: "in_int64 secs" "in_int64 nanos" "in_int64 (secs * 1000000000)" "in_int64 (tick + secs * 1000000000)"
      "in_int64 (tick + secs * 1000000000 + nanos)"
    and idle: "nd_pending s = []"
  defines "t \<equiv> tick + secs * 1000000000 + nanos"
  shows "\<exists>s1. patch_sender_staged E now tick i body s = (Patch_ok (staged_sender_json sr'), s1) \<and>
    nd_pending s1 = [\<lparr>pd_is_sender = True, pd_daemon_id = i, pd_deadline_ns = t\<rparr>] \<and>
    (\<forall>now' tick'. tick' < t \<longrightarrow> process_scheduled_activations E now' tick' s1 = (None, s1)) \<and>
    (\<forall>now' tick'. t \<le> tick' \<longrightarrow> (\<exists>s2 sr2. process_scheduled_activations E now' tick' s1 = (None, s2) \<and>
       map_of (nd_senders s2) i = Some sr2 \<and> promoted sr' sr2 \<and>
       ac_activation_time (sr_active_act sr2) = make_version now' \<and> nd_pending s2 = []))"
proof -
  let ?f = "\<lambda>sr. sr\<lparr>sr_staged_act := (sr_staged_act sr)\<lparr>ac_deadline_ns := t\<rparr>\<rparr>"
  let ?pa = "\<lparr>pd_is_sender = True, pd_daemon_id = i, pd_deadline_ns = t\<rparr>"
  define s1 where "s1 = push_pending True i t (set_sender i ?f (set_sender i (\<lambda>_. sr') s))"
  have "ac_requested_time (sr_staged_act sr') \<noteq> []" using body(5) by simp
  moreover have "relative_deadline tick (show_int secs @ '':'' @ show_int nanos) = Act_at t"
    using fits find_colon[OF show_int_colon, of secs "show_int nanos"]
    by (simp add: relative_deadline_def stoll_show_int t_def)
  ultimately have plan: "plan_activation tick (sr_staged_act sr') = Act_at t"
    using body(4,5) by (simp add: plan_activation_def)
  have patch: "patch_sender_staged E now tick i body s = (Patch_ok (staged_sender_json sr'), s1)"
    using body(1-3) plan by (simp add: patch_sender_staged_def Let_def s1_def)
  have p1: "nd_pending s1 = [?pa]" using idle by (simp add: s1_def push_pending_def)
  have m1: "map_of (nd_senders s1) i = Some (?f sr')"
    using body(2) by (simp add: s1_def set_sender_map)
  have same: "s1\<lparr>nd_pending := nd_pending s1\<rparr> = s1" by simp
  have early: "process_scheduled_activations E now' tick' s1 = (None, s1)" if "tick' < t" for now' tick'
    using that same[unfolded p1] by (simp add: process_scheduled_activations_def p1)
  have late: "\<exists>s2 sr2. process_scheduled_activations E now' tick' s1 = (None, s2) \<and>
       map_of (nd_senders s2) i = Some sr2 \<and> promoted sr' sr2 \<and>
       ac_activation_time (sr_active_act sr2) = make_version now' \<and> nd_pending s2 = []" if "t \<le> tick'" for now' tick'
  proof -
    have m: "map_of (nd_senders (s1\<lparr>nd_pending := []\<rparr>)) i = Some (?f sr')" using m1 by simp
    obtain s2 sr2 where "run_pending E now' ?pa (s1\<lparr>nd_pending := []\<rparr>) = (None, s2)" "map_of (nd_senders s2) i = Some sr2"
      "promoted (?f sr') sr2" "ac_activation_time (sr_active_act sr2) = make_version now'" "nd_pending s2 = []"
      using run_pending_sender[OF m, of ?pa E now'] by auto
    then show ?thesis
      using that by (simp add: process_scheduled_activations_def p1 promoted_def)
  qed
  show ?thesis using patch p1 early late by auto
qed

subsection \<open>Activating before the events are read\<close>

lemma drain_twice:
  assumes "nd_events s = [SinkRemoved i, SinkAdded i, SinkRemoved i, SinkAdded i]" "get_sink i (nd_session s) = Inr sink"
  shows "\<exists>rr. map_of (nd_receivers (drain_events E now (nd_events s) s)) i = Some rr \<and>
    rr_active_sender_id rr = [] \<and> rr_active_master_enable rr = sink_connected sink"
proof -
  define s1 where "s1 = snd (register_sink E now i ((unregister_sink E now i (s\<lparr>nd_events := [SinkAdded i, SinkRemoved i, SinkAdded i]\<rparr>))
      \<lparr>nd_events := [SinkRemoved i, SinkAdded i]\<rparr>))"
  have "drain_events E now (nd_events s) s = drain_events E now (nd_events s1) s1"
    by (simp add: assms(1) s1_def register_sink_frame)
  moreover have "nd_events s1 = [SinkRemoved i, SinkAdded i]" "nd_session s1 = nd_session s"
    by (simp_all add: s1_def register_sink_frame unregister_sink_frame)
  moreover have "nd_preserved s1 i = None"
    using assms(2) by (simp add: s1_def register_sink_def register_sink_local_def Let_def unregister_sink_frame)
  ultimately show ?thesis using drain_reconnected[of s1 i sink E now] assms(2) by auto
qed

text \<open>An activation that follows another change of the same sink too soon loses its subscription.
  While the events of the earlier change still wait, a PATCH that connects the receiver
  reconfigures the sink and is answered with 200; but the one remembered sender is used up
  by the earlier pair of events, so that the receiver ends up enabled, receiving the
  source's streams, and published as following nobody.\<close>

theorem early_activation_forgotten:
  assumes body: "pl_read (node_lib E) body = Inr pt" "map_of (nd_receivers s) i = Some rr"
      "rr' = merge_receiver (node_lib E) pt rr" "ac_mode (rr_staged_act rr') = ''activate_immediate''"
      "rr_staged_master_enable rr'" "rr_staged_sender_id rr' = uuid" "uuid \<noteq> []"
    and snd: "find_sender uuid s = Some j" "map_of (ss_sources (nd_session s)) j = Some info"
      "clean_source (sdp_env_of (node_session_env E) (nd_session s)) info n"
    and snk: "map_of (ss_sinks (nd_session s)) i = Some old" "i \<le> stream_id_max" "uids_ok (nd_session s)"
    and drv: "\<forall>si d. fst (ce_add (ne_cm E) si d) = no_error"
    and waiting: "nd_events s = [SinkRemoved i, SinkAdded i]"
  shows "\<exists>s1 rr1 info1. patch_receiver_staged E now tick i body s = (Patch_ok (staged_receiver_json rr'), s1) \<and>
    (let s2 = drain_events E later (nd_events s1) s1
     in map_of (nd_receivers s2) i = Some rr1 \<and> rr_active_master_enable rr1 \<and> rr_active_sender_id rr1 = [] \<and>
        map_of (ss_sinks (nd_session s2)) i = Some info1 \<and>
        sink_follows (sdp_env_of (node_session_env E) (nd_session s)) n info info1)"
proof -
  let ?SE = "sdp_env_of (node_session_env E) (nd_session s)"
  obtain s1 info1 where a: "patch_receiver_staged E now tick i body s = (Patch_ok (staged_receiver_json rr'), s1)"
    "map_of (ss_sinks (nd_session s1)) i = Some info1" "si_sink_use_sdp info1" "si_sink_sdp info1 = get_source_sdp_text ?SE info"
    "sink_follows ?SE n info info1" "nd_events s1 = nd_events s @ [SinkRemoved i, SinkAdded i]"
    using body snd snk drv by (rule patch_local)
  have "get_source_sdp_text ?SE info \<noteq> []" using source_sdp_media[of ?SE info] by auto
  then have con: "sink_connected (get_sink_of i info1)"
    using a(3,4) by (simp add: sink_connected_def get_sink_of_def)
  have get: "get_sink i (nd_session s1) = Inr (get_sink_of i info1)" using a(2) by (simp add: get_sink_def)
  have ev: "nd_events s1 = [SinkRemoved i, SinkAdded i, SinkRemoved i, SinkAdded i]" using a(6) waiting by simp
  obtain rr1 where "map_of (nd_receivers (drain_events E later (nd_events s1) s1)) i = Some rr1"
    "rr_active_sender_id rr1 = []" "rr_active_master_enable rr1"
    using drain_twice[OF ev get, of E later] con by auto
  moreover have "nd_session (drain_events E later (nd_events s1) s1) = nd_session s1"
    by (simp add: ev register_sink_frame unregister_sink_frame)
  ultimately show ?thesis
    using a(1,2,5) by (simp add: Let_def)
qed

subsection \<open>Senders of disabled sources\<close>

text \<open>The sender of a disabled source outlives it.  A source that is registered while it is
  disabled - at start, or when the node registers again - and is then removed is taken out of
  the session manager without any word to the observers: the node goes on publishing its
  sender, and asking for the sender's SDP says that it is not found.\<close>

theorem disabled_source_ghost:
  assumes "map_of (ss_sources (nd_session s)) j = Some info" "\<not> si_enabled info" "j \<le> stream_id_max"
    "map_of (nd_senders s) j = Some sr" "find_sender (sr_sender_id sr) s = Some j" "nd_events s = []"
    "st = snd (remove_source (ce_rm (ne_cm E)) (node_session_env E) (ucast j) (nd_session s))"
  shows "let s' = drain_events E later (nd_events (run_session st s)) (run_session st s)
    in (\<forall>e. get_source e j (nd_session s') = Inl (daemon_err stream_id_not_in_use)) \<and>
       map_of (nd_senders s') j = Some sr \<and> sr_sender_json sr \<in> set (map snd (of_kind E later Senders s')) \<and>
       node_get E later (Nr_manifest (sr_sender_id sr)) s' = cm_not_found"
proof -
  have st: "st = erase_source j (nd_session s)"
    using assms(1-3) by (simp add: assms(7) remove_source_def not_less)
  have r: "run_session st s = s\<lparr>nd_session := st\<rparr>"
    by (simp add: run_session_def observed_def st)
  have "(j, sr) \<in> set (nd_senders s)" using assms(4) by (rule map_of_SomeD)
  then have "sr_sender_json sr \<in> snd ` (\<lambda>(_, sr). (sr_sender_id sr, sr_sender_json sr)) ` set (nd_senders s)"
    by force
  moreover have "find_sender (sr_sender_id sr) (s\<lparr>nd_session := st\<rparr>) = Some j"
    using assms(5) by (simp add: find_sender_def)
  then have "node_get E later (Nr_manifest (sr_sender_id sr)) (s\<lparr>nd_session := st\<rparr>) = cm_not_found"
    by (simp add: node_get_def sender_sdp_reply_def get_source_sdp_def st)
  ultimately show ?thesis
    using assms(4,6) unfolding r by (simp add: Let_def st get_source_def image_image)
qed

subsection \<open>Subscriptions\<close>

text \<open>The id of a query subscription is made of its path and of the number of subscriptions, so
  that it is taken twice.  After two subscriptions to a path and the deletion of the first,
  a third one gets the id of the second and replaces it: there is one subscription where
  there should be two, whatever the name generator.\<close>

theorem subscription_id_reused:
  assumes "nd_subscriptions s = []" "pl_read (node_lib E) body = Inr pt" "path \<in> set valid_paths"
    "get_or Some ''resource_path'' [] pt = path" "\<not> get_or (pl_bool (node_lib E)) ''persist'' False pt"
    "first = sb_id (new_subscription E path False 0)" "second = sb_id (new_subscription E path False 1)" "first \<noteq> second"
  shows "let s1 = snd (post_subscription E body s); s2 = snd (post_subscription E body s1);
       s3 = snd (delete_subscription first s2)
     in map_of (nd_subscriptions s2) first \<noteq> None \<and> map_of (nd_subscriptions s2) second \<noteq> None \<and>
        nd_subscriptions (snd (post_subscription E body s3)) = nd_subscriptions s3 \<and>
        length (nd_subscriptions s3) = 1"
proof -
  let ?n = "new_subscription E path False"
  have post: "snd (post_subscription E body t) = t\<lparr>nd_subscriptions :=
      smap_upd (sb_id (?n (length (nd_subscriptions t)))) (?n (length (nd_subscriptions t))) (nd_subscriptions t)\<rparr>" for t
    using assms(2-5) by (simp add: post_subscription_def Let_def)
  define s2 where "s2 = snd (post_subscription E body (snd (post_subscription E body s)))"
  have s2: "nd_subscriptions s2 = smap_upd second (?n 1) [(first, ?n 0)]"
    unfolding s2_def post by (simp add: assms(1,6,7))
  have "\<not> sb_persist (?n 0)" by (simp add: new_subscription_def Let_def)
  then have s3: "nd_subscriptions (snd (delete_subscription first s2)) = [(second, ?n 1)]"
    using assms(8) by (auto simp: delete_subscription_def s2 smap_del_def)
  have "nd_subscriptions (snd (post_subscription E body (snd (delete_subscription first s2)))) = [(second, ?n 1)]"
    unfolding post by (simp add: s3 assms(7))
  then show ?thesis
    using assms(8) s2 s3 by (simp add: Let_def s2_def[symmetric])
qed

subsection \<open>A concrete node\<close>

text \<open>A node with the source of the SDP sample as number 3 and a sink as number 5.  The registry
  answers every call with 404 and gives no documents.\<close>

definition sample_node_env :: "fake_driver node_env" where
  "sample_node_env = \<lparr>ne_cm = sample_cm_env, ne_config = config_default, ne_hostname = ''daemon'',
     ne_pton = (\<lambda>_. None), ne_clock = None, 
     ne_ptp = \<lparr>pt_status = ''unlocked'', pt_gmid = [], pt_jitter = 0, pt_active_leg = 0,
       pt_leg0_status = [], pt_leg1_status = [], pt_leg0_gmid = [], pt_leg1_gmid = [], pt_legs_aligned = False\<rparr>,
     ne_sec_ip_str = [],
     ne_sec_mac_str = [], ne_answer = (\<lambda>_. Some 404), ne_get = (\<lambda>_ _ _. None)\<rparr>"

definition sample_stream_session :: "fake_driver session" where
  "sample_stream_session = (session_init (fake_driver_init 48000) 0 46 0)\<lparr>ss_ptp_gmid := ''00-1D-C1'',
     ss_sources := [(3, sample_info)], ss_sinks := [(5, upd_leg 0 (\<lambda>x. x\<lparr>m_uiId := 5\<rparr>) new_info)]\<rparr>"

definition sample_node :: "fake_driver node" where
  "sample_node = \<lparr>nd_session = sample_stream_session, nd_senders = [(3, new_sender\<lparr>sr_sender_id := ''sender-3''\<rparr>)],
     nd_receivers = [(5, new_receiver\<lparr>rr_receiver_id := ''receiver-5''\<rparr>)], nd_device_json = [], nd_node_json = [],
     nd_pending = [], nd_preserved = Map.empty, nd_events = [], nd_activations = [], nd_counter = 0,
     nd_subscriptions = [], nd_discovered = ([], 0), nd_calls = []\<rparr>"

definition sample_patch :: "bool \<Rightarrow> string \<Rightarrow> string" where
  "sample_patch b uuid = json_map [(''master_enable'', show_bool b), (''sender_id'', quoted uuid),
     (''activation'', json_map [(''mode'', quoted ''activate_immediate'')])]"

definition sample_patch_tree :: "bool \<Rightarrow> string \<Rightarrow> ptree" where
  "sample_patch_tree b uuid = Ptree [] [(''master_enable'', leaf (show_bool b)), (''sender_id'', leaf uuid),
     (''activation'', Ptree [] [(''mode'', leaf ''activate_immediate'')])]"

lemma sample_words: "plain ''master_enable''" "plain ''sender_id''" "plain ''activate_immediate''" "plain ''sender-3''"
  "plain ''sender-9''" "plain ''requested_time''" "plain ''activate_scheduled_relative''" "plain ''0:5''" "plain ''resource_path''"
  "plain ''/senders''"
  by code_simp+

lemma sample_node_lib: "node_lib sample_node_env = sample_lib\<lparr>pl_int := stoi\<rparr>" "node_session_env sample_node_env = sample_senv"
  "ce_add (ne_cm sample_node_env) = fake_add_rtp_stream" "ce_rm (ne_cm sample_node_env) = fake_remove_rtp_stream"
  by (simp_all add: sample_node_env_def sample_cm_env_def)

lemma read_sample_patch:
  assumes "plain uuid"
  shows "pl_read (node_lib sample_node_env) (sample_patch b uuid) = Inr (sample_patch_tree b uuid)"
proof -
  have "reads (json_map [(''mode'', quoted ''activate_immediate'')]) (Ptree [] [(''mode'', leaf ''activate_immediate'')])"
    using reads_json_map[of "[(''mode'', quoted ''activate_immediate'', leaf ''activate_immediate'')]"]
    by (simp add: sample_plain sample_words reads_plain)
  then have "reads (sample_patch b uuid) (sample_patch_tree b uuid)"
    using assms reads_json_map[of "[(''master_enable'', show_bool b, leaf (show_bool b)), (''sender_id'', quoted uuid, leaf uuid),
      (''activation'', json_map [(''mode'', quoted ''activate_immediate'')], Ptree [] [(''mode'', leaf ''activate_immediate'')])]"]
    by (simp add: sample_plain sample_words reads_plain reads_bool sample_patch_def sample_patch_tree_def)
  from json_read_text[OF this, of "[]"] show ?thesis
    by (simp add: sample_node_lib) (simp add: sample_lib_def)
qed

lemma sample_merge:
  assumes "uuid \<noteq> ''null''"
  shows "rr_staged_master_enable (merge_receiver (node_lib sample_node_env) (sample_patch_tree b uuid) rr) = b"
    "rr_staged_sender_id (merge_receiver (node_lib sample_node_env) (sample_patch_tree b uuid) rr) = uuid"
    "ac_mode (rr_staged_act (merge_receiver (node_lib sample_node_env) (sample_patch_tree b uuid) rr)) = ''activate_immediate''"
proof -
  let ?rr = "merge_receiver (node_lib sample_node_env) (sample_patch_tree b uuid) rr"
  have "pl_bool (node_lib sample_node_env) (show_bool b) = Some b"
    by (simp add: sample_node_lib) (simp add: sample_lib_def show_bool_def)
  then show "rr_staged_master_enable ?rr = b"
    by (simp add: merge_receiver_def sample_patch_tree_def opt_value_def merged_def opt_text_def)
  show "rr_staged_sender_id ?rr = uuid" "ac_mode (rr_staged_act ?rr) = ''activate_immediate''"
    using assms by (simp_all add: merge_receiver_def sample_patch_tree_def merged_def opt_text_def not_null_def merge_act_def
        opt_text2_def)
qed

lemma sample_node_fields [simp]:
  "map_of (nd_receivers sample_node) 5 = Some (new_receiver\<lparr>rr_receiver_id := ''receiver-5''\<rparr>)"
  "map_of (nd_senders sample_node) 3 = Some (new_sender\<lparr>sr_sender_id := ''sender-3''\<rparr>)"
  "find_sender ''sender-3'' sample_node = Some 3" "find_sender ''sender-9'' sample_node = None"
  "map_of (ss_sources (nd_session sample_node)) 3 = Some sample_info"
  "map_of (ss_sinks (nd_session sample_node)) 5 = Some (upd_leg 0 (\<lambda>x. x\<lparr>m_uiId := 5\<rparr>) new_info)"
  "nd_events sample_node = []" "nd_pending sample_node = []" "nd_subscriptions sample_node = []" "nd_preserved sample_node = Map.empty"
  by (simp_all add: sample_node_def sample_stream_session_def find_sender_def)

lemma sample_node_uids: "uids_ok (nd_session sample_node)"
  by (simp add: uids_ok_def sample_node_def sample_stream_session_def) (simp add: new_info_def upd_leg_def)

lemma sample_node_clean: "clean_source (sdp_env_of (node_session_env sample_node_env) (nd_session sample_node)) sample_info 48"
proof -
  have "sdp_env_of (node_session_env sample_node_env) (nd_session sample_node) = sample_env"
    unfolding sample_node_lib
    by (simp add: sdp_env_of_def sample_senv_def sample_node_def sample_stream_session_def session_init_def sample_env_def)
  with sample_clean show ?thesis by simp
qed

lemma sample_driver_adds: "\<forall>si d. fst (ce_add (ne_cm sample_node_env) si d) = no_error"
  unfolding sample_node_lib using fake_add_no_error by (metis fst_conv)

lemmas sample_patch_facts = read_sample_patch sample_merge sample_node_fields(1)


theorem unresolved_activation_keeps_witness:
  "\<exists>s' rr1. patch_receiver_staged sample_node_env 7 9 5 (sample_patch True ''sender-9'') sample_node =
     (Patch_ok (staged_receiver_json (merge_receiver (node_lib sample_node_env) (sample_patch_tree True ''sender-9'')
        (new_receiver\<lparr>rr_receiver_id := ''receiver-5''\<rparr>))), s') \<and>
    map_of (nd_receivers s') 5 = Some rr1 \<and> \<not> rr_active_master_enable rr1 \<and> nd_session s' = nd_session sample_node"
proof -
  have n: "''sender-9'' \<noteq> ''null''" "''sender-9'' \<noteq> []" by simp_all
  have sdp: "find_str ''m=audio'' (sender_sdp sample_node_env ''sender-9'' sample_node) = None"
    by (simp add: sender_sdp_def fetch_remote_sender_sdp_def sample_node_env_def)
  from unresolved_activation_keeps[OF read_sample_patch[OF sample_words(5), of True] sample_node_fields(1) refl
      sample_merge(3)[OF n(1)], of 7 9]
  show ?thesis
    unfolding sample_merge(1,2)[OF n(1)] using n(2) sdp by (auto simp: same_active_def new_receiver_def)
qed

theorem disable_keeps_stream_witness:
  "\<exists>s' rr1. patch_receiver_staged sample_node_env 7 9 5 (sample_patch False ''sender-3'') sample_node =
     (Patch_ok (staged_receiver_json (merge_receiver (node_lib sample_node_env) (sample_patch_tree False ''sender-3'')
        (new_receiver\<lparr>rr_receiver_id := ''receiver-5''\<rparr>))), s') \<and>
    map_of (nd_receivers s') 5 = Some rr1 \<and> \<not> rr_active_master_enable rr1 \<and> nd_session s' = nd_session sample_node"
proof -
  have n: "''sender-3'' \<noteq> ''null''" by simp
  have d: "e_decode_url (node_session_env sample_node_env) [] = []"
    unfolding sample_node_lib by (simp add: sample_senv_def)
  from disable_keeps_stream[OF read_sample_patch[OF sample_words(4), of False] sample_node_fields(1) refl
      sample_merge(3)[OF n(1)] _ d, of 7 9]
  show ?thesis unfolding sample_merge(1)[OF n(1)] by blast
qed

theorem reregistration_forgets_witness:
  "\<exists>rr. map_of (nd_receivers (snd (heartbeat sample_node_env 7 sample_node))) 5 = Some rr \<and> rr_active_sender_id rr = []"
proof -
  have c: "\<exists>s1. registry_call sample_node_env ''POST'' (''/x-nmos/registration/v1.3/health/nodes/'' @ node_id sample_node_env) [] sample_node
      = (Some 404, s1)"
    by (simp add: registry_call_def sample_node_env_def)
  then obtain s1 where "registry_call sample_node_env ''POST'' (''/x-nmos/registration/v1.3/health/nodes/'' @ node_id sample_node_env) [] sample_node
      = (Some 404, s1)" by blast
  from reregistration_forgets[OF this sample_node_fields(6)] show ?thesis by auto
qed

text \<open>The same node with its source disabled.\<close>

definition sample_disabled :: "fake_driver node" where
  "sample_disabled = sample_node\<lparr>nd_session := sample_stream_session\<lparr>ss_sources := [(3, sample_info\<lparr>si_enabled := False\<rparr>)]\<rparr>\<rparr>"

theorem disabled_source_ghost_witness:
  "\<exists>st. st = snd (remove_source (ce_rm (ne_cm sample_node_env)) (node_session_env sample_node_env) 3 (nd_session sample_disabled)) \<and>
    node_get sample_node_env 8 (Nr_manifest ''sender-3'') (drain_events sample_node_env 8
      (nd_events (run_session st sample_disabled)) (run_session st sample_disabled)) = cm_not_found"
proof -
  have s: "map_of (ss_sources (nd_session sample_disabled)) 3 = Some (sample_info\<lparr>si_enabled := False\<rparr>)"
    "map_of (nd_senders sample_disabled) 3 = Some (new_sender\<lparr>sr_sender_id := ''sender-3''\<rparr>)"
    "find_sender (sr_sender_id (new_sender\<lparr>sr_sender_id := ''sender-3''\<rparr>)) sample_disabled = Some 3" "nd_events sample_disabled = []"
    by (simp_all add: find_sender_def sample_disabled_def sample_node_def)
  have n: "\<not> si_enabled (sample_info\<lparr>si_enabled := False\<rparr>)" "(3::u8) \<le> stream_id_max" by (simp_all add: stream_id_max_def)
  have c: "ucast (3::u8) = (3::32 word)" by simp
  from disabled_source_ghost[OF s(1) n s(2-4) refl, of sample_node_env 8]
  show ?thesis by (simp add: Let_def)
qed

text \<open>The same node with the events of a change of its sink still waiting.\<close>

definition sample_waiting :: "fake_driver node" where
  "sample_waiting = sample_node\<lparr>nd_events := [SinkRemoved 5, SinkAdded 5]\<rparr>"

lemma sample_waiting_fields:
  "map_of (nd_receivers sample_waiting) 5 = Some (new_receiver\<lparr>rr_receiver_id := ''receiver-5''\<rparr>)"
  "find_sender ''sender-3'' sample_waiting = Some 3" "nd_session sample_waiting = nd_session sample_node"
  "nd_events sample_waiting = [SinkRemoved 5, SinkAdded 5]"
  using sample_node_fields(3) by (simp_all add: sample_waiting_def find_sender_def)

theorem early_activation_forgotten_witness:
  "\<exists>s1 rr1. s1 = snd (patch_receiver_staged sample_node_env 7 9 5 (sample_patch True ''sender-3'') sample_waiting) \<and>
    map_of (nd_receivers (drain_events sample_node_env 8 (nd_events s1) s1)) 5 = Some rr1 \<and>
    rr_active_master_enable rr1 \<and> rr_active_sender_id rr1 = []"
proof -
  have n: "''sender-3'' \<noteq> ''null''" "''sender-3'' \<noteq> []" "(5::u8) \<le> stream_id_max" by (simp_all add: stream_id_max_def)
  note same = sample_waiting_fields(3)
  from early_activation_forgotten[OF read_sample_patch[OF sample_words(4), of True] sample_waiting_fields(1) refl
      sample_merge(3)[OF n(1)] _ sample_merge(2)[OF n(1)] n(2) sample_waiting_fields(2)
      sample_node_fields(5)[folded same] sample_node_clean[folded same] sample_node_fields(6)[folded same] n(3)
      sample_node_uids[folded same] sample_driver_adds sample_waiting_fields(4), of 7 9 8]
  show ?thesis
    unfolding sample_merge(1)[OF n(1)] Let_def by (metis snd_conv)
qed

text \<open>A PATCH that schedules an activation.\<close>

definition sample_schedule :: string where
  "sample_schedule = json_map [(''activation'', json_map [(''mode'', quoted ''activate_scheduled_relative''),
     (''requested_time'', quoted ''0:5'')])]"

definition sample_schedule_tree :: ptree where
  "sample_schedule_tree = Ptree [] [(''activation'', Ptree [] [(''mode'', leaf ''activate_scheduled_relative''),
     (''requested_time'', leaf ''0:5'')])]"

lemma read_sample_schedule: "pl_read (node_lib sample_node_env) sample_schedule = Inr sample_schedule_tree"
proof -
  have "reads (json_map [(''mode'', quoted ''activate_scheduled_relative''), (''requested_time'', quoted ''0:5'')])
      (Ptree [] [(''mode'', leaf ''activate_scheduled_relative''), (''requested_time'', leaf ''0:5'')])"
    using reads_json_map[of "[(''mode'', quoted ''activate_scheduled_relative'', leaf ''activate_scheduled_relative''),
      (''requested_time'', quoted ''0:5'', leaf ''0:5'')]"]
    by (simp add: sample_plain sample_words reads_plain)
  then have "reads sample_schedule sample_schedule_tree"
    using reads_json_map[of "[(''activation'', json_map [(''mode'', quoted ''activate_scheduled_relative''), (''requested_time'', quoted ''0:5'')],
      Ptree [] [(''mode'', leaf ''activate_scheduled_relative''), (''requested_time'', leaf ''0:5'')])]"]
    by (simp add: sample_plain sample_words sample_schedule_def sample_schedule_tree_def)
  from json_read_text[OF this, of "[]"] show ?thesis
    by (simp add: sample_node_lib) (simp add: sample_lib_def)
qed

theorem scheduled_activation_runs_witness:
  "\<exists>s1 s2 sr2. snd (patch_sender_staged sample_node_env 7 9 3 sample_schedule sample_node) = s1 \<and>
    process_scheduled_activations sample_node_env 8 13 s1 = (None, s1) \<and>
    process_scheduled_activations sample_node_env 8 14 s1 = (None, s2) \<and> map_of (nd_senders s2) 3 = Some sr2 \<and>
    ac_activation_time (sr_active_act sr2) = make_version 8"
proof -
  let ?sr = "merge_sender (node_lib sample_node_env) sample_schedule_tree (new_sender\<lparr>sr_sender_id := ''sender-3''\<rparr>)"
  have t: "show_int 0 @ '':'' @ show_int 5 = ''0:5''" by code_simp
  have m: "ac_mode (sr_staged_act ?sr) = ''activate_scheduled_relative''"
    "ac_requested_time (sr_staged_act ?sr) = show_int 0 @ '':'' @ show_int 5"
    unfolding t by (simp_all add: merge_sender_def sample_schedule_tree_def merge_act_def merged_def not_null_def opt_text2_def opt_text_def)
  have f: "in_int64 0" "in_int64 5" "in_int64 (0 * 1000000000)" "in_int64 (9 + 0 * 1000000000)" "in_int64 (9 + 0 * 1000000000 + 5)"
    by (simp_all add: in_int64_def)
  from scheduled_activation_runs[OF read_sample_schedule sample_node_fields(2) refl m f sample_node_fields(8), of 7]
  show ?thesis by force
qed

definition sample_subscription :: string where
  "sample_subscription = json_map [(''resource_path'', quoted ''/senders'')]"

theorem subscription_id_reused_witness:
  "\<exists>s1 s2 s3. s1 = snd (post_subscription sample_node_env sample_subscription sample_node) \<and>
     s2 = snd (post_subscription sample_node_env sample_subscription s1) \<and>
     s3 = snd (delete_subscription ''subscription-/senders-0'' s2) \<and> length (nd_subscriptions s3) = 1 \<and>
     nd_subscriptions (snd (post_subscription sample_node_env sample_subscription s3)) = nd_subscriptions s3"
proof -
  have "reads sample_subscription (Ptree [] [(''resource_path'', leaf ''/senders'')])"
    using reads_json_map[of "[(''resource_path'', quoted ''/senders'', leaf ''/senders'')]"]
    by (simp add: sample_words reads_plain sample_subscription_def)
  from json_read_text[OF this, of "[]"]
  have r: "pl_read (node_lib sample_node_env) sample_subscription = Inr (Ptree [] [(''resource_path'', leaf ''/senders'')])"
    by (simp add: sample_node_lib) (simp add: sample_lib_def)
  have g: "get_or Some ''resource_path'' [] (Ptree [] [(''resource_path'', leaf ''/senders'')]) = ''/senders''"
    "\<not> get_or (pl_bool (node_lib sample_node_env)) ''persist'' False (Ptree [] [(''resource_path'', leaf ''/senders'')])"
    "''/senders'' \<in> set valid_paths"
    by (simp_all add: get_or_def get_at_def get_child_def get_value_def valid_paths_def)
  have z: "show_nat 0 = ''0''" "show_nat (Suc 0) = ''1''" by code_simp+
  have n: "''subscription-/senders-0'' = sb_id (new_subscription sample_node_env ''/senders'' False 0)"
    "''subscription-/senders-1'' = sb_id (new_subscription sample_node_env ''/senders'' False 1)"
    by (simp_all add: new_subscription_def Let_def sample_node_env_def sample_cm_env_def z)
  from subscription_id_reused[OF sample_node_fields(9) r g(3,1,2) n] show ?thesis by (simp add: Let_def)
qed

lemma add_sink_listed:
  assumes "snk_use_sdp sink" "parse_sdp (sdp_env_of E st) (snk_sdp sink) (sink_info E sink) = Sdp_parsed p" "snk_id sink \<le> stream_id_max"
    "ss_sink_names st (snk_name sink) = None" "map_of (ss_sinks st) (snk_id sink) = None" "\<forall>si d. fst (add_rtp si d) = no_error"
  shows "map_of (ss_sinks (snd (add_sink add_rtp rm_rtp E sink st))) (snk_id sink) \<noteq> None"
proof -
  have ok: "add_rtp si d = (ret, h, d') \<Longrightarrow> ret = no_error" for si d ret h d'
    using assms(6) by (metis fst_conv)
  have leg2: "has_sink (snd (add_sink_leg2 add_rtp rm_rtp E sink None info st')) (snk_id sink)" for info st'
    unfolding add_sink_leg2_def Let_def by (auto dest: ok split: prod.split)
  have locked: "has_sink (snd (add_sink_locked add_rtp rm_rtp E sink info st)) (snk_id sink)" for info
    unfolding add_sink_locked_def Let_def using leg2 assms(4,5) by (auto dest: ok split: prod.split)
  show ?thesis
    using assms(1,3) locked unfolding add_sink_def fetch_sdp_def by (simp add: not_less[symmetric] assms(2))
qed

text \<open>A sink that is given the SDP of the sample source.\<close>

definition sample_sdp_sink :: stream_sink where
  "sample_sdp_sink = no_sink\<lparr>snk_id := 5, snk_use_sdp := True, snk_sdp := get_source_sdp_text (sample_env\<lparr>e_ptp_gmid := []\<rparr>) sample_info\<rparr>"

lemma sample_sink_parsed:
  obtains p where "parse_sdp (sdp_env_of sample_senv (session_init d 0 dscp v)) (snk_sdp sample_sdp_sink) (sink_info sample_senv sample_sdp_sink)
     = Sdp_parsed p"
proof -
  have "clean_source (sample_env\<lparr>e_ptp_gmid := []\<rparr>) sample_info 48"
    using sample_clean by (simp add: clean_source_def clean_leg_def clean_addr_def)
  moreover have "sdp_env_of sample_senv (session_init d 0 dscp v) = sample_env\<lparr>e_ptp_gmid := []\<rparr>"
    by (simp add: sdp_env_of_def sample_senv_def session_init_def sample_env_def)
  moreover have "length (si_stream (sink_info sample_senv sample_sdp_sink)) = 2" "\<not> si_st20227_enabled (sink_info sample_senv sample_sdp_sink)"
    by (simp_all add: sink_info_def new_info_def)
  ultimately show thesis
    using that sdp_parse_generated by (simp add: sample_sdp_sink_def)
qed

theorem receivers_follow_sinks_witness:
  "\<exists>s. (node_step sample_node_env)\<^sup>*\<^sup>* (node_init sample_node_env 0 (session_init (fake_driver_init 48000) 0 46 0)) s \<and>
    5 \<in> fst ` set (nd_receivers (drain_events sample_node_env 8 (nd_events s) s))"
proof -
  let ?st = "session_init (fake_driver_init 48000) 0 46 0" and ?s0 = "node_init sample_node_env 0 (session_init (fake_driver_init 48000) 0 46 0)"
  have f: "nd_session ?s0 = ?st" by (simp add: node_init_def Let_def sync_local_frame)
  define st where "st = snd (add_sink fake_add_rtp_stream fake_remove_rtp_stream sample_senv sample_sdp_sink ?st)"
  obtain p where p: "parse_sdp (sdp_env_of sample_senv ?st) (snk_sdp sample_sdp_sink) (sink_info sample_senv sample_sdp_sink) = Sdp_parsed p"
    by (rule sample_sink_parsed)
  have "has_sink st (snk_id sample_sdp_sink)"
    unfolding st_def
    by (rule add_sink_listed[OF _ p])
      (use sample_driver_adds in \<open>simp_all add: sample_node_lib sample_sdp_sink_def no_sink_def stream_id_max_def session_init_def\<close>)
  then have five: "5 \<in> fst ` set (ss_sinks st)"
    by (simp add: sample_sdp_sink_def map_of_eq_None_iff)
  have "node_step sample_node_env ?s0 (run_session st ?s0)"
    using ch_add_sink[of sample_node_env ?st sample_sdp_sink] by (intro st_session) (simp add: f st_def sample_node_lib)
  then have reach: "(node_step sample_node_env)\<^sup>*\<^sup>* ?s0 (run_session st ?s0)" by blast
  from receivers_follow_sinks[OF this, of 8] five
  have "5 \<in> fst ` set (nd_receivers (drain_events sample_node_env 8 (nd_events (run_session st ?s0)) (run_session st ?s0)))"
    by (simp add: Let_def run_session_def)
  with reach show ?thesis by blast
qed

end
