(* ===== verification/Clock_Manager.thy ===== *)
theory Clock_Manager
  imports Ptp_Clock Fp "HOL-Library.Signed_Division"
begin

text \<open>
  The PTP clock manager (\<open>ptp-clock-manager/\<close>): the servo that disciplines the system clock, the
  drivers that use it, and the loop of \<open>main\<close>.  A signed double is a pair of an integer and a
  natural number, rounded like the unsigned ones of \<open>Fp\<close>.  The status comes from the kernel module
  and is an input, as are the readings of the clocks; the calls that set a clock are outputs.
  What ALSA, the resampler and PipeWire are asked is in \<open>Clock_Drivers\<close>.
\<close>

subsection \<open>Signed doubles\<close>

type_synonym sdbl = "int \<times> nat"

definition sfl :: "int \<times> nat \<Rightarrow> sdbl" where
  "sfl x = (case fl (nat \<bar>fst x\<bar>, snd x) of (p, q) \<Rightarrow> (sgn (fst x) * int p, q))"

definition sd_of_int :: "int \<Rightarrow> sdbl" where
  "sd_of_int i = sfl (i, 1)"

definition sd_neg :: "sdbl \<Rightarrow> sdbl" where
  "sd_neg x = (- fst x, snd x)"

definition sd_add :: "sdbl \<Rightarrow> sdbl \<Rightarrow> sdbl" where
  "sd_add x y = sfl (fst x * int (snd y) + fst y * int (snd x), snd x * snd y)"

definition sd_mult :: "sdbl \<Rightarrow> sdbl \<Rightarrow> sdbl" where
  "sd_mult x y = sfl (fst x * fst y, snd x * snd y)"

definition sd_div :: "sdbl \<Rightarrow> sdbl \<Rightarrow> sdbl" where
  "sd_div x y = sfl (fst x * int (snd y) * sgn (fst y), snd x * nat \<bar>fst y\<bar>)"

definition sd_less :: "sdbl \<Rightarrow> sdbl \<Rightarrow> bool" where
  "sd_less x y \<longleftrightarrow> fst x * int (snd y) < fst y * int (snd x)"

definition sd_trunc :: "sdbl \<Rightarrow> int" where
  "sd_trunc x = sgn (fst x) * (\<bar>fst x\<bar> div int (snd x))"

definition sd_clamp :: "sdbl \<Rightarrow> sdbl \<Rightarrow> sdbl \<Rightarrow> sdbl" where
  "sd_clamp x lo hi = (if sd_less x lo then lo else if sd_less hi x then hi else x)"

subsection \<open>The servo of the system clock\<close>

record discipline_config =
  dc_kp :: sdbl
  dc_ki :: sdbl
  dc_max_freq_ppb :: sdbl
  dc_step_threshold_ns :: sdbl

definition default_discipline :: discipline_config where
  "default_discipline = \<lparr>dc_kp = sfl (7, 10), dc_ki = sd_div (sfl (3, 10)) (30, 1), dc_max_freq_ppb = (500, 1),
     dc_step_threshold_ns = (1000, 1)\<rparr>"

record discipline =
  di_integral :: sdbl
  di_first :: bool

definition discipline_init :: discipline where
  "discipline_init = \<lparr>di_integral = (0, 1), di_first = True\<rparr>"

text \<open>The kernel is told a frequency in units of ppm shifted left by 16, or a new time.\<close>

datatype clock_call = Adj_frequency int | Set_time int int

definition apply_freq :: "sdbl \<Rightarrow> clock_call" where
  "apply_freq freq = Adj_frequency (sd_trunc (sd_div (sd_mult freq (65536, 1)) (1000, 1)))"

text \<open>\<open>std::clamp\<close> of the two sums of a proportional and integral controller.\<close>

definition pi_servo :: "sdbl \<Rightarrow> sdbl \<Rightarrow> sdbl \<Rightarrow> sdbl \<Rightarrow> sdbl \<Rightarrow> sdbl \<times> sdbl" where
  "pi_servo kp ki limit err integral =
     (let integral = sd_clamp (sd_add integral (sd_mult err ki)) (sd_neg limit) limit
      in (sd_clamp (sd_add (sd_mult kp err) integral) (sd_neg limit) limit, integral))"

text \<open>\<^const>\<open>None\<close> is the overflow of the negation of the least \<open>int64_t\<close>.\<close>

definition clock_step :: "int \<times> int \<Rightarrow> int \<Rightarrow> clock_call option" where
  "clock_step now offset_ns =
     (if offset_ns = - (2 ^ 63) then None
      else (let correction = - offset_ns;
                sec = fst now + correction sdiv 1000000000;
                nsec = snd now + correction smod 1000000000
            in Some (if 1000000000 \<le> nsec then Set_time (sec + 1) (nsec - 1000000000)
                     else if nsec < 0 then Set_time (sec - 1) (nsec + 1000000000)
                     else Set_time sec nsec)))"

definition servo_reset :: "discipline \<Rightarrow> discipline" where
  "servo_reset s = discipline_init"

definition servo_feed ::
  "discipline_config \<Rightarrow> int \<times> int \<Rightarrow> int \<Rightarrow> discipline \<Rightarrow> sdbl \<times> clock_call option \<times> discipline" where
  "servo_feed cfg now offset_ns s =
     (let off = sd_of_int offset_ns
      in if di_first s \<and> sd_less (dc_step_threshold_ns cfg) (\<bar>fst off\<bar>, snd off)
         then ((0, 1), clock_step now offset_ns, servo_reset s)
         else (let (freq, integral) = pi_servo (dc_kp cfg) (dc_ki cfg) (dc_max_freq_ppb cfg) (sd_neg off) (di_integral s)
               in (freq, Some (apply_freq freq), \<lparr>di_integral = integral, di_first = False\<rparr>)))"

subsection \<open>The drivers\<close>

record tai_driver =
  td_servo :: discipline
  td_was_locked :: bool

definition tai_init :: tai_driver where
  "tai_init = \<lparr>td_servo = discipline_init, td_was_locked = False\<rparr>"

text \<open>The result, the call of the kernel when one is made - inside, \<^const>\<open>None\<close> is undefined - and the
  driver.\<close>

definition tai_update ::
  "discipline_config \<Rightarrow> int \<times> int \<Rightarrow> int \<Rightarrow> bool \<Rightarrow> tai_driver \<Rightarrow> int \<times> clock_call option list \<times> tai_driver" where
  "tai_update cfg now offset_ns locked d =
     (if \<not> locked then
        (0, [], \<lparr>td_servo = (if td_was_locked d then servo_reset (td_servo d) else td_servo d), td_was_locked = False\<rparr>)
      else (let (freq, call, s) = servo_feed cfg now offset_ns (td_servo d)
            in (sd_trunc freq, [call], \<lparr>td_servo = s, td_was_locked = True\<rparr>)))"

text \<open>The resampling driver: what one period does to the ratio of the resampler, before the samples
  are written and, when it could be measured, with the delay of the sink.\<close>

record src_config =
  sc_period_frames :: nat
  sc_drift_kp :: sdbl
  sc_drift_ki :: sdbl
  sc_max_drift_ppb :: sdbl

record src_servo =
  sr_drift_integral :: sdbl
  sr_was_locked :: bool
  sr_ratio :: sdbl

definition src_lock :: "bool \<Rightarrow> src_servo \<Rightarrow> src_servo" where
  "src_lock locked s =
     (if \<not> locked then s\<lparr>sr_drift_integral := (0, 1), sr_ratio := (1, 1), sr_was_locked := False\<rparr>
      else if \<not> sr_was_locked s then s\<lparr>sr_drift_integral := (0, 1), sr_was_locked := True\<rparr>
      else s\<lparr>sr_was_locked := True\<rparr>)"

definition src_drift :: "src_config \<Rightarrow> bool \<Rightarrow> int option \<Rightarrow> src_servo \<Rightarrow> src_servo" where
  "src_drift cfg locked delay s =
     (case delay of
        None \<Rightarrow> s
      | Some d \<Rightarrow>
          if \<not> locked then s
          else (let target = sd_mult (sd_of_int (int (sc_period_frames cfg))) (2, 1);
                    level_error = sd_add target (sd_neg (sd_of_int d));
                    (drift_ppb, integral) = pi_servo (sc_drift_kp cfg) (sc_drift_ki cfg) (sc_max_drift_ppb cfg)
                      level_error (sr_drift_integral s)
                in s\<lparr>sr_drift_integral := integral,
                     sr_ratio := sd_add (1, 1) (sd_neg (sd_mult drift_ppb (sfl (1, 10 ^ 9))))\<rparr>))"

subsection \<open>The loop\<close>

record ravenna_status =
  rv_lock_state :: int
  rv_gmid :: u64
  rv_network_jitter :: u32
  rv_clock_jitter :: u32
  rv_ptp_offset_ns :: u64

record clock_manager =
  cl_tai :: "tai_driver option"
  cl_applied_freq_ppb :: int

text \<open>What a round is given: the status, when there is one, and the clocks: real time, TAI and
  monotonic.  Only the driver of the system clock returns anything but 0.\<close>

record clock_round =
  cr_status_in :: "ravenna_status option"
  cr_realtime :: "int \<times> int"
  cr_tai_ns :: u64
  cr_monotonic_ns :: u64

definition manager_round ::
  "discipline_config \<Rightarrow> clock_round \<Rightarrow> clock_manager \<Rightarrow> ptp_publish option \<times> clock_call option list \<times> clock_manager" where
  "manager_round cfg rd m =
     (case cr_status_in rd of
        None \<Rightarrow> (None, [], m)
      | Some st \<Rightarrow>
          (let locked = (rv_lock_state st = 2);
               applied = (if locked then cl_applied_freq_ppb m else 0);
               (r, calls, tai) = (case cl_tai m of
                  None \<Rightarrow> (0, [], None)
                | Some d \<Rightarrow> (case tai_update cfg (cr_realtime rd) (sint (rv_ptp_offset_ns st)) locked d of
                               (r, calls, d) \<Rightarrow> (r, calls, Some d)));
               applied = (if r \<noteq> 0 then r else applied)
           in (Some \<lparr>pb_lock_state = rv_lock_state st, pb_gmid = rv_gmid st, pb_offset_ns = rv_ptp_offset_ns st,
                     pb_freq_ppb = word_of_int applied, pb_network_jitter = rv_network_jitter st,
                     pb_clock_jitter = rv_clock_jitter st, pb_tai_ns = cr_tai_ns rd, pb_monotonic_ns = cr_monotonic_ns rd\<rparr>,
               calls, \<lparr>cl_tai = tai, cl_applied_freq_ppb = applied\<rparr>)))"

fun manager_rounds ::
  "discipline_config \<Rightarrow> clock_round list \<Rightarrow> clock_manager \<Rightarrow> ptp_publish list \<times> clock_call option list \<times> clock_manager" where
  "manager_rounds cfg [] m = ([], [], m)"
| "manager_rounds cfg (rd # rds) m =
     (let (p, calls, m) = manager_round cfg rd m; (ps, calls', m) = manager_rounds cfg rds m
      in ((case p of None \<Rightarrow> ps | Some p \<Rightarrow> p # ps), calls @ calls', m))"

definition manager_init :: "bool \<Rightarrow> clock_manager" where
  "manager_init do_tai = \<lparr>cl_tai = (if do_tai then Some tai_init else None), cl_applied_freq_ppb = 0\<rparr>"

subsection \<open>Bounds\<close>

lemma fl_up_pos: "0 < f \<Longrightarrow> 0 < snd (fl_up p q f)"
  by (induction p q f rule: fl_up.induct) (subst fl_up.simps, simp)

lemma snd_fl_pos [simp]: "0 < snd (fl x)"
  using fl_up_pos[of 1 "fst x" "snd x"] by (cases x) (auto simp: fl_def split: prod.splits)

lemma sfl_pos [simp]: "0 < snd (sfl x)"
  using snd_fl_pos[of "(nat \<bar>fst x\<bar>, snd x)"] by (auto simp: sfl_def simp del: snd_fl_pos split: prod.split)

lemma sd_pos [simp]: "0 < snd (sd_add x y)" "0 < snd (sd_mult x y)" "0 < snd (sd_of_int i)" "snd (sd_neg x) = snd x"
  by (simp_all add: sd_add_def sd_mult_def sd_of_int_def sd_neg_def)

text \<open>A double between \<open>- n\<close> and \<open>n\<close>.\<close>

definition sd_within :: "int \<Rightarrow> sdbl \<Rightarrow> bool" where
  "sd_within n x \<longleftrightarrow> 0 < snd x \<and> \<bar>fst x\<bar> \<le> n * int (snd x)"

lemma clamp_within: "0 < snd x \<Longrightarrow> 0 \<le> n \<Longrightarrow> sd_within n (sd_clamp x (sd_neg (n, 1)) (n, 1))"
  by (auto simp: sd_clamp_def sd_less_def sd_neg_def sd_within_def not_less)

lemma trunc_within:
  assumes "sd_within n x"
  shows "\<bar>sd_trunc x\<bar> \<le> n"
proof -
  have "\<bar>fst x\<bar> div int (snd x) \<le> n * int (snd x) div int (snd x)"
    using assms by (intro zdiv_mono1) (simp_all add: sd_within_def)
  also have "\<dots> = n" using assms by (simp add: sd_within_def)
  finally have "\<bar>fst x\<bar> div int (snd x) \<le> n" .
  moreover have "0 \<le> \<bar>fst x\<bar> div int (snd x)" using assms by (simp add: sd_within_def pos_imp_zdiv_nonneg_iff)
  ultimately show ?thesis by (auto simp: sd_trunc_def abs_mult abs_sgn_eq)
qed

lemma pi_within:
  assumes "0 \<le> n" "pi_servo kp ki (n, 1) err integral = (out, integral')"
  shows "sd_within n out" "sd_within n integral'"
  using assms(2) by (auto simp: pi_servo_def Let_def simp del: One_nat_def intro!: clamp_within assms(1))

definition servo_ok :: "int \<Rightarrow> discipline \<Rightarrow> bool" where
  "servo_ok n s \<longleftrightarrow> sd_within n (di_integral s)"

lemma servo_feed_within:
  assumes "0 \<le> n" "dc_max_freq_ppb cfg = (n, 1)" "servo_feed cfg now off s = (freq, call, s')"
  shows "sd_within n freq \<and> servo_ok n s'"
proof -
  obtain out int' where pi: "pi_servo (dc_kp cfg) (dc_ki cfg) (n, 1) (sd_neg (sd_of_int off)) (di_integral s) = (out, int')"
    by (metis prod.collapse)
  have w: "sd_within n out" "sd_within n int'" using pi_within[OF assms(1) pi] .
  have zero: "sd_within n (0, 1)" using assms(1) by (simp add: sd_within_def)
  show ?thesis
    using assms(3) w zero unfolding servo_feed_def assms(2) pi Let_def
    by (auto simp: servo_ok_def servo_reset_def discipline_init_def split: if_splits)
qed

definition manager_ok :: "int \<Rightarrow> clock_manager \<Rightarrow> bool" where
  "manager_ok n m \<longleftrightarrow> \<bar>cl_applied_freq_ppb m\<bar> \<le> n \<and>
     (\<forall>d. cl_tai m = Some d \<longrightarrow> servo_ok n (td_servo d))"

lemma manager_round_ok:
  assumes "0 \<le> n" "dc_max_freq_ppb cfg = (n, 1)" "manager_ok n m" "manager_round cfg rd m = (p, calls, m')"
  shows "manager_ok n m' \<and> (\<forall>q. p = Some q \<longrightarrow> pb_freq_ppb q = word_of_int (cl_applied_freq_ppb m'))"
proof -
  have upd: "\<bar>r\<bar> \<le> n \<and> servo_ok n (td_servo d')"
    if "tai_update cfg now off locked d = (r, cs, d')" "servo_ok n (td_servo d)" for now off locked d r cs d'
    using that assms(1) trunc_within servo_feed_within[OF assms(1,2), of now off "td_servo d"]
    by (auto simp: tai_update_def servo_reset_def servo_ok_def discipline_init_def sd_within_def split: if_splits prod.splits)
  show ?thesis
  proof (cases "cr_status_in rd")
    case None
    then show ?thesis using assms by (simp add: manager_round_def)
  next
    case (Some st)
    then show ?thesis
      using assms upd[of "cr_realtime rd" "sint (rv_ptp_offset_ns st)" "rv_lock_state st = 2"]
      by (auto simp: manager_round_def manager_ok_def Let_def split: option.splits prod.splits)
  qed
qed

lemma manager_rounds_ok:
  assumes "0 \<le> n" "dc_max_freq_ppb cfg = (n, 1)" "manager_ok n m" "manager_rounds cfg rds m = (ps, calls, m')"
  shows "manager_ok n m' \<and> (\<forall>q \<in> set ps. \<exists>f. \<bar>f\<bar> \<le> n \<and> pb_freq_ppb q = word_of_int f)"
  using assms(3,4)
proof (induction rds arbitrary: m ps calls)
  case (Cons rd rds)
  obtain p c m1 where 1: "manager_round cfg rd m = (p, c, m1)" by (metis prod_cases3)
  obtain ps2 c2 where 2: "manager_rounds cfg rds m1 = (ps2, c2, m')" using Cons.prems(2) 1 by (auto split: prod.splits)
  have r: "manager_ok n m1" "\<forall>q. p = Some q \<longrightarrow> pb_freq_ppb q = word_of_int (cl_applied_freq_ppb m1)"
    using manager_round_ok[OF assms(1,2) Cons.prems(1) 1] by auto
  have ps: "ps = (case p of None \<Rightarrow> ps2 | Some q \<Rightarrow> q # ps2)" using Cons.prems(2) 1 2 by simp
  show ?case
    using Cons.IH[OF r(1) 2] r ps by (auto simp: manager_ok_def split: option.splits)
qed simp

text \<open>The correction never leaves its limits.  Whatever offsets the driver reports, over any number of
  rounds and any losses of the lock, every frequency the clock manager publishes - the value
  the servo of the system clock was last told - is between -500 and 500 parts per billion, and
  so is what the servo has accumulated.\<close>

theorem correction_bounded:
  assumes "manager_rounds default_discipline rds (manager_init do_tai) = (ps, calls, m)"
  shows "(\<forall>q \<in> set ps. \<bar>sint (pb_freq_ppb q)\<bar> \<le> 500) \<and>
    (\<forall>d. cl_tai m = Some d \<longrightarrow> \<bar>fst (di_integral (td_servo d))\<bar> \<le> 500 * int (snd (di_integral (td_servo d))))"
proof -
  have "manager_ok 500 (manager_init do_tai)"
    by (simp add: manager_ok_def manager_init_def tai_init_def discipline_init_def servo_ok_def sd_within_def)
  with manager_rounds_ok[of 500 default_discipline "manager_init do_tai" rds ps calls m] assms
  have ok: "manager_ok 500 m" "\<forall>q \<in> set ps. \<exists>f. \<bar>f\<bar> \<le> 500 \<and> pb_freq_ppb q = word_of_int f"
    by (auto simp: default_discipline_def)
  have "sint (word_of_int f :: u64) = f" if "\<bar>f\<bar> \<le> 500" for f
    using that by (subst signed_of_int) (auto simp: signed_take_bit_int_eq_self_iff)
  then show ?thesis
    using ok by (auto simp: manager_ok_def servo_ok_def sd_within_def)
qed

text \<open>A step puts the clock where it belongs.  From a proper reading of the clock, the time it is set
  to is the reading less the measured offset, exactly, with the nanoseconds in range - except
  for the one offset that cannot be negated.\<close>

theorem clock_step_lands:
  assumes "0 \<le> nsec" "nsec < 1000000000" "offset_ns \<noteq> - (2 ^ 63)"
  shows "\<exists>s n. clock_step (sec, nsec) offset_ns = Some (Set_time s n) \<and> 0 \<le> n \<and> n < 1000000000 \<and>
    s * 1000000000 + n = sec * 1000000000 + nsec - offset_ns"
proof -
  define q r where "q = (- offset_ns) sdiv 1000000000" and "r = (- offset_ns) smod 1000000000"
  have c: "- offset_ns = q * 1000000000 + r" unfolding q_def r_def by (rule sdiv_mult_smod_eq[symmetric])
  have r: "- 1000000000 < r" "r < 1000000000"
    using smod_int_range[of 1000000000 "- offset_ns"] by (auto simp: r_def)
  have "clock_step (sec, nsec) offset_ns = Some (if 1000000000 \<le> nsec + r then Set_time (sec + q + 1) (nsec + r - 1000000000)
      else if nsec + r < 0 then Set_time (sec + q - 1) (nsec + r + 1000000000) else Set_time (sec + q) (nsec + r))"
    using assms(3) by (simp add: clock_step_def Let_def q_def r_def)
  then show ?thesis
    using assms(1,2) c r by auto
qed

text \<open>Three rounds: an offset that is stepped, one that drives the correction to its limit, a lost lock.\<close>

definition sample_round :: "int \<Rightarrow> int \<Rightarrow> clock_round" where
  "sample_round lock offset = \<lparr>cr_status_in = Some \<lparr>rv_lock_state = lock, rv_gmid = 1, rv_network_jitter = 0, rv_clock_jitter = 0,
     rv_ptp_offset_ns = word_of_int offset\<rparr>, cr_realtime = (5, 7), cr_tai_ns = 0, cr_monotonic_ns = 0\<rparr>"

lemma sample_frequencies:
  "map (\<lambda>q. sint (pb_freq_ppb q)) (fst (manager_rounds default_discipline [sample_round 2 5000, sample_round 2 900, sample_round 0 0]
     (manager_init True))) = [0, - 500, 0]"
  by (simp add: manager_round_def sample_round_def manager_init_def tai_init_def discipline_init_def tai_update_def servo_feed_def
      servo_reset_def default_discipline_def pi_servo_def sd_clamp_def sd_less_def sd_neg_def sd_trunc_def sd_add_def sd_mult_def
      sd_div_def sd_of_int_def sfl_def fl_eval Let_def)

theorem correction_bounded_witness:
  "\<exists>ps calls m. manager_rounds default_discipline [sample_round 2 5000, sample_round 2 900, sample_round 0 0] (manager_init True)
       = (ps, calls, m) \<and> map (\<lambda>q. sint (pb_freq_ppb q)) ps = [0, - 500, 0] \<and> (\<forall>q \<in> set ps. \<bar>sint (pb_freq_ppb q)\<bar> \<le> 500)"
proof -
  obtain ps calls m where r: "manager_rounds default_discipline [sample_round 2 5000, sample_round 2 900, sample_round 0 0]
      (manager_init True) = (ps, calls, m)" by (metis prod_cases3)
  show ?thesis using correction_bounded[OF r] sample_frequencies r by auto
qed

theorem clock_step_lands_witness:
  "\<exists>s n. clock_step (5, 999999999) (- 40) = Some (Set_time s n) \<and> s * 1000000000 + n = 6000000039"
  using clock_step_lands[of 999999999 "- 40" 5] by auto

end
