(* ===== verification/Control.thy ===== *)
theory Control
  imports Node_Events Interface
begin

text \<open>
  The control interface of the node (AMWA IS-12 and BCP-008, \<open>daemon/nmos_is12.cpp\<close>): a monitor
  object per receiver and sender whose statuses are computed when they are asked for, the
  commands and subscriptions of the clients, and the worker that once a second tells the
  subscribed clients what has changed.

  Parameters: the node's environment, the answers of the network interfaces, of the driver on the
  state of a stream, and the conversion of text to \<open>long\<close>.  A round of the worker is one step: the
  copy of the tables it takes and the properties it computes belong to the same moment.
\<close>

subsection \<open>State\<close>

record 'd control_env =
  ct_node :: "'d node_env"
  ct_net :: net_world
  ct_stream_status :: "u64 \<Rightarrow> 'd \<Rightarrow> error_code \<times> u32 \<times> int"
  ct_long :: "string \<Rightarrow> int option"

record nc_prop =
  np_level :: int
  np_index :: int
  np_value :: string

record monitor_counters =
  mc_link_status :: int
  mc_secondary_status :: int
  mc_sync_status :: int
  mc_tertiary_status :: int
  mc_link_transitions :: int
  mc_secondary_transitions :: int
  mc_sync_transitions :: int
  mc_tertiary_transitions :: int
  mc_auto_reset :: bool

definition new_counters :: monitor_counters where
  "new_counters = \<lparr>mc_link_status = - 1, mc_secondary_status = - 1, mc_sync_status = - 1, mc_tertiary_status = - 1,
     mc_link_transitions = 0, mc_secondary_transitions = 0, mc_sync_transitions = 0, mc_tertiary_transitions = 0,
     mc_auto_reset = True\<rparr>"

text \<open>The subscribed objects are kept in increasing order.\<close>

record is12_session =
  is_outbox :: "string list"
  is_subscribed :: "int list"

text \<open>\<open>co_last_known\<close> is the local variable of the worker.\<close>

record 'd control =
  co_node :: "'d node"
  co_counters :: "(int \<times> monitor_counters) list"
  co_sessions :: "is12_session list"
  co_last_known :: "(int \<times> nc_prop list) list"

definition health_inactive :: int where "health_inactive = 0"
definition health_healthy :: int where "health_healthy = 1"
definition health_partially_healthy :: int where "health_partially_healthy = 2"
definition health_unhealthy :: int where "health_unhealthy = 3"

lemmas health_defs = health_inactive_def health_healthy_def health_partially_healthy_def health_unhealthy_def

definition root_block_oid :: int where "root_block_oid = 1"
definition device_manager_oid :: int where "device_manager_oid = 2"
definition class_manager_oid :: int where "class_manager_oid = 3"
definition receiver_monitor_oid_base :: int where "receiver_monitor_oid_base = 100"
definition sender_monitor_oid_base :: int where "sender_monitor_oid_base = 200"

lemmas oid_defs = root_block_oid_def device_manager_oid_def class_manager_oid_def receiver_monitor_oid_base_def
  sender_monitor_oid_base_def

definition is_receiver_oid :: "int \<Rightarrow> bool" where
  "is_receiver_oid oid \<longleftrightarrow> receiver_monitor_oid_base \<le> oid \<and> oid < receiver_monitor_oid_base + 64"

definition is_sender_oid :: "int \<Rightarrow> bool" where
  "is_sender_oid oid \<longleftrightarrow> sender_monitor_oid_base \<le> oid \<and> oid < sender_monitor_oid_base + 64"

subsection \<open>Statuses\<close>

text \<open>A status comes with a message, which is a JSON value.\<close>

definition ncp_sync_status :: "'d control_env \<Rightarrow> int \<times> string" where
  "ncp_sync_status E =
     (let pcm = get_ptp_clock_manager_sync (ct_node E); ptp = ne_ptp (ct_node E); dual_leg = is_dual_leg (ct_node E)
      in if py_available pcm then
           (if py_locked pcm then (health_healthy, ''null'')
            else (if py_locking pcm then health_partially_healthy else health_unhealthy,
                  quoted (''PTP '' @ (if py_locking pcm then ''locking'' else ''unlocked'') @ '', offset '' @
                    show_int (py_offset_ns pcm) @ ''ns'')))
         else if dual_leg \<and> pt_status ptp = ''locked'' \<and> \<not> pt_legs_aligned ptp then
           (health_partially_healthy,
            quoted (''Red and Blue legs are locked to different grandmasters (red: '' @ pt_leg0_gmid ptp @
              '', blue: '' @ pt_leg1_gmid ptp @ '')''))
         else
           (if pt_status ptp = ''locked'' then health_healthy
            else if pt_status ptp = ''locking'' then health_partially_healthy else health_unhealthy,
            if pt_status ptp = ''locked'' \<and> dual_leg then
              quoted (''Locked via '' @ (if pt_active_leg ptp = 0 then ''primary (red)'' else ''secondary (blue)'') @ '' leg'')
            else if pt_status ptp = ''locked'' then ''null'' else quoted (''PTP '' @ pt_status ptp)))"

definition ncp_link_status :: "'d control_env \<Rightarrow> int \<times> string" where
  "ncp_link_status E =
     (let c = ne_config (ct_node E); link0_up = get_interface_link_up (ct_net E) (get_interface_name 0 c)
      in if \<not> is_dual_leg (ct_node E) then
           (if link0_up then (health_healthy, ''null'') else (health_unhealthy, quoted ''Interface link down''))
         else (let link1_up = get_interface_link_up (ct_net E) (get_interface_name 1 c)
               in if link0_up \<and> link1_up then (health_healthy, ''null'')
                  else if link0_up \<or> link1_up then
                    (health_partially_healthy,
                     if link0_up then quoted ''Secondary (blue) interface link down''
                     else quoted ''Primary (red) interface link down'')
                  else (health_unhealthy, quoted ''Both interface links down'')))"

definition connection_status :: "sink_stream_status \<Rightarrow> int \<times> string" where
  "connection_status s =
     (let leg0_ok = is_receiving_rtp_packet s;
          leg0_errs = is_rtp_seq_id_error s \<or> is_rtp_ssrc_error s \<or> is_rtp_payload_type_error s \<or> is_rtp_sac_error s;
          leg1_ok = leg2_is_receiving_rtp_packet s
      in if leg2_present s then
           (if leg0_ok \<and> leg1_ok then
              (if leg0_errs then (health_partially_healthy, quoted ''RTP stream errors detected on primary (red) leg'')
               else (health_healthy, ''null''))
            else if leg0_ok \<or> leg1_ok then
              (health_partially_healthy,
               if leg0_ok then quoted ''Receiving on primary (red) leg only'' else quoted ''Receiving on secondary (blue) leg only'')
            else (health_unhealthy, quoted ''Not receiving RTP packets on either leg''))
         else if \<not> leg0_ok then (health_unhealthy, quoted ''Not receiving RTP packets'')
         else if leg0_errs then (health_partially_healthy, quoted ''RTP stream errors detected'')
         else (health_healthy, ''null''))"

definition stream_status :: "sink_stream_status \<Rightarrow> int \<times> string" where
  "stream_status s =
     (if is_all_muted s then (health_unhealthy, quoted ''All channels muted'')
      else if is_some_muted s then (health_partially_healthy, quoted ''Some channels muted'')
      else (health_healthy, ''null''))"

definition transmission_status :: "source_stream_status \<Rightarrow> int \<times> string" where
  "transmission_status s =
     (let leg0_ok = is_transmitting s; leg0_underrun = is_underrun s; leg1_ok = leg2_is_transmitting s
      in if src_leg2_present s then
           (if leg0_ok \<and> leg1_ok then
              (if leg0_underrun then (health_partially_healthy, quoted ''Buffer underrun detected on primary (red) leg'')
               else (health_healthy, ''null''))
            else if leg0_ok \<or> leg1_ok then
              (health_partially_healthy,
               if leg0_ok then quoted ''Transmitting on primary (red) leg only''
               else quoted ''Transmitting on secondary (blue) leg only'')
            else (health_unhealthy, quoted ''Not transmitting RTP packets on either leg''))
         else if \<not> leg0_ok then (health_unhealthy, quoted ''Not transmitting RTP packets'')
         else if leg0_underrun then (health_partially_healthy, quoted ''Buffer underrun detected'')
         else (health_healthy, ''null''))"

definition essence_status :: "source_stream_status \<Rightarrow> int \<times> string" where
  "essence_status s = (if is_transmitting s then health_healthy else health_unhealthy, ''null'')"

definition sync_source_id :: "'d control_env \<Rightarrow> string" where
  "sync_source_id E =
     (let pcm = get_ptp_clock_manager_sync (ct_node E); ptp = ne_ptp (ct_node E)
      in if py_available pcm \<and> py_locked pcm then quoted (py_gmid_dash pcm)
         else if pt_status ptp = ''locked'' then quoted (colon_to_dash_mac (pt_gmid ptp)) else ''null'')"

subsection \<open>Counters\<close>

definition counters_of :: "int \<Rightarrow> (int \<times> monitor_counters) list \<Rightarrow> monitor_counters" where
  "counters_of oid m = (case map_of m oid of None \<Rightarrow> new_counters | Some c \<Rightarrow> c)"

definition count_change :: "int \<Rightarrow> int \<Rightarrow> int \<Rightarrow> int" where
  "count_change old new n = (if old \<noteq> - 1 \<and> old \<noteq> new then n + 1 else n)"

definition observe_statuses :: "int \<Rightarrow> int \<Rightarrow> int \<Rightarrow> int \<Rightarrow> monitor_counters \<Rightarrow> monitor_counters" where
  "observe_statuses link secondary sync tertiary c = c\<lparr>
     mc_link_transitions := count_change (mc_link_status c) link (mc_link_transitions c),
     mc_secondary_transitions := count_change (mc_secondary_status c) secondary (mc_secondary_transitions c),
     mc_sync_transitions := count_change (mc_sync_status c) sync (mc_sync_transitions c),
     mc_tertiary_transitions := count_change (mc_tertiary_status c) tertiary (mc_tertiary_transitions c),
     mc_link_status := link, mc_secondary_status := secondary, mc_sync_status := sync, mc_tertiary_status := tertiary\<rparr>"

definition update_monitor_counters :: "int \<Rightarrow> int \<Rightarrow> int \<Rightarrow> int \<Rightarrow> int \<Rightarrow> 'd control \<Rightarrow> 'd control" where
  "update_monitor_counters oid link secondary sync tertiary s =
     s\<lparr>co_counters := smap_upd oid (observe_statuses link secondary sync tertiary (counters_of oid (co_counters s))) (co_counters s)\<rparr>"

subsection \<open>Properties of the objects\<close>

abbreviation prop_entry :: "int \<Rightarrow> int \<Rightarrow> string \<Rightarrow> nc_prop" where
  "prop_entry l i v \<equiv> \<lparr>np_level = l, np_index = i, np_value = v\<rparr>"

text \<open>The seventeen properties of a monitor: its touchpoint, the four statuses with their messages, the
  synchronization source and the counters.\<close>

definition monitor_props ::
  "string \<Rightarrow> string \<Rightarrow> bool \<Rightarrow> int \<times> string \<Rightarrow> int \<times> string \<Rightarrow> int \<times> string \<Rightarrow> int \<times> string \<Rightarrow> string \<Rightarrow>
   monitor_counters \<Rightarrow> nc_prop list" where
  "monitor_props kind uuid active link secondary sync tertiary source c =
     [prop_entry 1 7 (json_list [json_map [(''resourceType'', quoted kind), (''id'', quoted uuid)]]),
      prop_entry 3 1 (show_int (if active then Max {fst link, fst secondary, fst sync, fst tertiary} else health_inactive)),
      prop_entry 3 2 ''null'',
      prop_entry 4 1 (show_int (fst link)), prop_entry 4 2 (snd link), prop_entry 4 3 (show_int (mc_link_transitions c)),
      prop_entry 4 4 (show_int (fst secondary)), prop_entry 4 5 (snd secondary), prop_entry 4 6 (show_int (mc_secondary_transitions c)),
      prop_entry 4 7 (show_int (fst sync)), prop_entry 4 8 (snd sync), prop_entry 4 9 (show_int (mc_sync_transitions c)),
      prop_entry 4 10 source,
      prop_entry 4 11 (show_int (fst tertiary)), prop_entry 4 12 (snd tertiary), prop_entry 4 13 (show_int (mc_tertiary_transitions c)),
      prop_entry 4 14 (show_bool (mc_auto_reset c))]"

definition inactive_status :: "int \<times> string" where
  "inactive_status = (health_inactive, ''null'')"

definition receiver_statuses :: "'d control_env \<Rightarrow> u8 \<Rightarrow> bool \<Rightarrow> 'd control \<Rightarrow> (int \<times> string) \<times> (int \<times> string) \<times> (int \<times> string) \<times> (int \<times> string) \<times> string" where
  "receiver_statuses E i active s =
     (if active then
        (let st = snd (get_sink_status (ct_stream_status E) (ucast i) (nd_session (co_node s)))
         in (ncp_link_status E, connection_status st, ncp_sync_status E, stream_status st, sync_source_id E))
      else (inactive_status, inactive_status, inactive_status, inactive_status, ''null''))"

definition sender_statuses :: "'d control_env \<Rightarrow> u8 \<Rightarrow> bool \<Rightarrow> 'd control \<Rightarrow> (int \<times> string) \<times> (int \<times> string) \<times> (int \<times> string) \<times> (int \<times> string) \<times> string" where
  "sender_statuses E i active s =
     (if active then
        (let st = snd (get_source_status (ct_stream_status E) (ucast i) (nd_session (co_node s)))
         in (ncp_link_status E, transmission_status st, ncp_sync_status E, essence_status st, sync_source_id E))
      else (inactive_status, inactive_status, inactive_status, inactive_status, ''null''))"

definition ncp_receiver_monitor_props :: "'d control_env \<Rightarrow> u8 \<Rightarrow> 'd control \<Rightarrow> nc_prop list \<times> 'd control" where
  "ncp_receiver_monitor_props E sink_id s =
     (case map_of (nd_receivers (co_node s)) sink_id of
        None \<Rightarrow> ([], s)
      | Some rr \<Rightarrow>
          (let active = rr_active_master_enable rr; oid = receiver_monitor_oid_base + uint sink_id;
               (link, connection, sync, stream, source) = receiver_statuses E sink_id active s;
               s = update_monitor_counters oid (fst link) (fst connection) (fst sync) (fst stream) s
           in (monitor_props ''receiver'' (rr_receiver_id rr) active link connection sync stream source
                 (counters_of oid (co_counters s)), s)))"

definition ncp_sender_monitor_props :: "'d control_env \<Rightarrow> u8 \<Rightarrow> 'd control \<Rightarrow> nc_prop list \<times> 'd control" where
  "ncp_sender_monitor_props E source_id s =
     (case map_of (nd_senders (co_node s)) source_id of
        None \<Rightarrow> ([], s)
      | Some sr \<Rightarrow>
          (let active = sr_active_master_enable sr; oid = sender_monitor_oid_base + uint source_id;
               (link, transmission, sync, essence, source) = sender_statuses E source_id active s;
               s = update_monitor_counters oid (fst link) (fst transmission) (fst sync) (fst essence) s
           in (monitor_props ''sender'' (sr_sender_id sr) active link transmission sync essence source
                 (counters_of oid (co_counters s)), s)))"

definition ncp_device_manager_props :: "'d control_env \<Rightarrow> nc_prop list" where
  "ncp_device_manager_props E =
     [prop_entry 3 1 (quoted ''v1.0.0''),
      prop_entry 3 2 (json_map [(''name'', quoted ''aes67-linux-daemon''), (''organizationId'', ''null''),
        (''website'', quoted ''https://github.com/bondagit/aes67-linux-daemon'')]),
      prop_entry 3 3 (json_map [(''name'', quoted (cf_nmos_label (ne_config (ct_node E)))), (''key'', quoted ''aes67-linux-daemon''),
        (''revisionLevel'', quoted ''1.0''), (''brandName'', quoted ''aes67-linux-daemon''),
        (''uuid'', quoted (node_id (ct_node E))), (''description'', quoted ''AES67 Linux Daemon'')]),
      prop_entry 3 4 (quoted (node_id (ct_node E))), prop_entry 3 5 ''null'', prop_entry 3 6 ''null'', prop_entry 3 7 ''null'',
      prop_entry 3 8 (json_map [(''generic'', ''1''), (''deviceSpecificDetails'', ''null'')]),
      prop_entry 3 9 ''0'', prop_entry 3 10 ''null'']"

subsection \<open>Object model\<close>

definition nc_members :: "'d control \<Rightarrow> (int \<times> string \<times> int list) list" where
  "nc_members s =
     [(device_manager_oid, ''DeviceManager'', [1, 3, 1]), (class_manager_oid, ''ClassManager'', [1, 3, 2])] @
     map (\<lambda>(i, _). (receiver_monitor_oid_base + uint i, ''ReceiverMonitor'' @ show_u i, [1, 2, 2, 1])) (nd_receivers (co_node s)) @
     map (\<lambda>(i, _). (sender_monitor_oid_base + uint i, ''SenderMonitor'' @ show_u i, [1, 2, 2, 2])) (nd_senders (co_node s))"

definition ncp_member_descriptors_json :: "'d control \<Rightarrow> string" where
  "ncp_member_descriptors_json s = json_list (map (\<lambda>(oid, role, cls).
     json_map [(''oid'', show_int oid), (''role'', quoted role), (''classId'', json_list (map show_int cls))]) (nc_members s))"

text \<open>A property: level, index, name, type, read only, nullable, sequence.\<close>

type_synonym prop_descriptor = "int \<times> int \<times> string \<times> string \<times> bool \<times> bool \<times> bool"

definition json_id :: "int \<Rightarrow> int \<Rightarrow> string" where
  "json_id l i = json_map [(''level'', show_int l), (''index'', show_int i)]"

fun json_prop_descriptor :: "prop_descriptor \<Rightarrow> string" where
  "json_prop_descriptor (l, i, name, type_name, read_only, nullable, sequence) =
     json_map [(''id'', json_id l i), (''name'', quoted name), (''typeName'', quoted type_name),
       (''isReadOnly'', show_bool read_only), (''isNullable'', show_bool nullable), (''isSequence'', show_bool sequence)]"

fun json_method_descriptor :: "int \<times> int \<times> string \<Rightarrow> string" where
  "json_method_descriptor (l, i, name) = json_map [(''id'', json_id l i), (''name'', quoted name)]"

definition status_monitor_descriptors :: "prop_descriptor list" where
  "status_monitor_descriptors =
     [(3, 1, ''overallStatus'', ''NcOverallStatus'', True, False, False),
      (3, 2, ''overallStatusMessage'', ''NcString'', True, True, False)]"

definition device_manager_descriptors :: "prop_descriptor list" where
  "device_manager_descriptors =
     [(3, 1, ''ncVersion'', ''NcString'', True, False, False),
      (3, 2, ''manufacturer'', ''NcManufacturer'', True, False, False),
      (3, 3, ''product'', ''NcProduct'', True, False, False),
      (3, 4, ''serialNumber'', ''NcString'', True, False, False),
      (3, 5, ''userInventoryCode'', ''NcString'', True, True, False),
      (3, 6, ''deviceName'', ''NcString'', True, True, False),
      (3, 7, ''deviceRole'', ''NcString'', True, True, False),
      (3, 8, ''operationalState'', ''NcDeviceOperationalState'', True, False, False),
      (3, 9, ''resetCause'', ''NcResetCause'', True, False, False),
      (3, 10, ''message'', ''NcString'', True, True, False)]"

text \<open>The names of the second and fourth status differ between the two kinds of monitor.\<close>

definition monitor_descriptors :: "string \<Rightarrow> string \<Rightarrow> string \<Rightarrow> string \<Rightarrow> prop_descriptor list" where
  "monitor_descriptors second second_type fourth fourth_type =
     [(1, 7, ''touchpoints'', ''NcTouchpoint'', True, True, True),
      (3, 1, ''overallStatus'', ''NcOverallStatus'', True, False, False),
      (3, 2, ''overallStatusMessage'', ''NcString'', True, True, False),
      (4, 1, ''linkStatus'', ''NcLinkStatus'', True, False, False),
      (4, 2, ''linkStatusMessage'', ''NcString'', True, True, False),
      (4, 3, ''linkStatusTransitionCounter'', ''NcUint32'', True, False, False),
      (4, 4, second, second_type, True, False, False),
      (4, 5, second @ ''Message'', ''NcString'', True, True, False),
      (4, 6, second @ ''TransitionCounter'', ''NcUint32'', True, False, False),
      (4, 7, ''externalSynchronizationStatus'', ''NcSynchronizationStatus'', True, False, False),
      (4, 8, ''externalSynchronizationStatusMessage'', ''NcString'', True, True, False),
      (4, 9, ''externalSynchronizationStatusTransitionCounter'', ''NcUint32'', True, False, False),
      (4, 10, ''synchronizationSourceId'', ''NcString'', True, True, False),
      (4, 11, fourth, fourth_type, True, False, False),
      (4, 12, fourth @ ''Message'', ''NcString'', True, True, False),
      (4, 13, fourth @ ''TransitionCounter'', ''NcUint32'', True, False, False),
      (4, 14, ''autoResetCountersAndMessages'', ''NcBoolean'', False, False, False)]"

definition nc_class :: "int list \<Rightarrow> (string \<times> prop_descriptor list \<times> (int \<times> int \<times> string) list) option" where
  "nc_class class_id =
     (if class_id = [1, 1] then Some (''NcBlock'', [], [(2, 1, ''GetMemberDescriptors'')])
      else if class_id = [1, 3, 2] then Some (''NcClassManager'', [], [(3, 1, ''GetControlClass'')])
      else if class_id = [1, 2, 2] then Some (''NcStatusMonitor'', status_monitor_descriptors, [])
      else if class_id = [1, 3, 1] then Some (''NcDeviceManager'', device_manager_descriptors, [])
      else if class_id = [1, 2, 2, 1] then
        Some (''NcReceiverMonitor'', monitor_descriptors ''connectionStatus'' ''NcConnectionStatus'' ''streamStatus'' ''NcStreamStatus'',
          [(4, 1, ''GetLostPacketCounters''), (4, 2, ''GetLatePacketCounters'')])
      else if class_id = [1, 2, 2, 2] then
        Some (''NcSenderMonitor'', monitor_descriptors ''transmissionStatus'' ''NcTransmissionStatus'' ''essenceStatus'' ''NcEssenceStatus'',
          [(4, 1, ''GetTransmissionErrorCounters'')])
      else None)"

definition ncp_class_descriptor_json :: "int list \<Rightarrow> string option" where
  "ncp_class_descriptor_json class_id =
     (case nc_class class_id of
        None \<Rightarrow> None
      | Some (name, properties, methods) \<Rightarrow>
          Some (json_map [(''classId'', json_list (map show_int class_id)), (''name'', quoted name),
            (''properties'', json_list (map json_prop_descriptor properties)),
            (''methods'', json_list (map json_method_descriptor methods))]))"

subsection \<open>Commands\<close>

text \<open>The result of a command: its status, value and error message.\<close>

type_synonym nc_result = "int \<times> string \<times> string"

definition nc_ok :: "string \<Rightarrow> nc_result" where "nc_ok v = (200, v, [])"

definition nc_error :: "int \<Rightarrow> string \<Rightarrow> nc_result" where "nc_error status m = (status, ''null'', m)"

definition get_path :: "(string \<Rightarrow> 'a option) \<Rightarrow> string \<Rightarrow> string \<Rightarrow> 'a \<Rightarrow> ptree option \<Rightarrow> 'a" where
  "get_path conv k l d t =
     (case t of None \<Rightarrow> d | Some t \<Rightarrow> (case get_child k t of Inl _ \<Rightarrow> d | Inr c \<Rightarrow> get_or conv l d c))"

text \<open>The numbers of a list; one that is none throws.\<close>

fun get_values :: "(string \<Rightarrow> 'a option) \<Rightarrow> (string \<times> ptree) list \<Rightarrow> json_exn + 'a list" where
  "get_values conv [] = Inr []"
| "get_values conv ((_, v) # vs) = andthen (get_value conv v) (\<lambda>x. andthen (get_values conv vs) (\<lambda>xs. Inr (x # xs)))"

definition get_control_class :: "'d control_env \<Rightarrow> ptree option \<Rightarrow> json_exn + nc_result" where
  "get_control_class E args =
     (let cid = (case args of None \<Rightarrow> [] | Some a \<Rightarrow> (case get_child ''classId'' a of Inl _ \<Rightarrow> [] | Inr c \<Rightarrow> tree_kids c))
      in andthen (get_values (pl_int (node_lib (ct_node E))) cid) (\<lambda>class_id. Inr
           (if class_id = [] then nc_error 404 ''Unknown classId''
            else case ncp_class_descriptor_json class_id of
                   None \<Rightarrow> nc_error 404 ''Unknown classId''
                 | Some d \<Rightarrow> nc_ok d)))"

definition props_of :: "'d control_env \<Rightarrow> int \<Rightarrow> 'd control \<Rightarrow> nc_prop list \<times> 'd control" where
  "props_of E oid s =
     (if oid = device_manager_oid then (ncp_device_manager_props E, s)
      else if is_receiver_oid oid then ncp_receiver_monitor_props E (word_of_int (oid - receiver_monitor_oid_base)) s
      else if is_sender_oid oid then ncp_sender_monitor_props E (word_of_int (oid - sender_monitor_oid_base)) s
      else ([], s))"

definition has_id :: "int \<Rightarrow> int \<Rightarrow> nc_prop \<Rightarrow> bool" where
  "has_id l i p \<longleftrightarrow> np_level p = l \<and> np_index p = i"

definition get_property :: "'d control_env \<Rightarrow> int \<Rightarrow> int \<Rightarrow> int \<Rightarrow> 'd control \<Rightarrow> nc_result \<times> 'd control" where
  "get_property E oid plevel pindex s =
     (case props_of E oid s of (props, s) \<Rightarrow>
        (case find (has_id plevel pindex) props of
           Some p \<Rightarrow> nc_ok (np_value p)
         | None \<Rightarrow> if props = [] then nc_error 404 ''Unknown oid'' else nc_error 501 ''PropertyNotImplemented'', s))"

definition set_property ::
  "'d control_env \<Rightarrow> int \<Rightarrow> int \<Rightarrow> int \<Rightarrow> ptree option \<Rightarrow> 'd control \<Rightarrow> nc_result \<times> 'd control" where
  "set_property E oid plevel pindex args s =
     (if (is_receiver_oid oid \<or> is_sender_oid oid) \<and> plevel = 4 \<and> pindex = 14 then
        (let b = (case args of None \<Rightarrow> True | Some a \<Rightarrow> get_or (pl_bool (node_lib (ct_node E))) ''value'' True a)
         in (nc_ok ''null'',
             s\<lparr>co_counters := smap_upd oid ((counters_of oid (co_counters s))\<lparr>mc_auto_reset := b\<rparr>) (co_counters s)\<rparr>))
      else (nc_error 405 ''PropertyReadOnly'', s))"

definition empty_counters :: "bool \<Rightarrow> nc_result" where
  "empty_counters known = (if known then nc_ok ''[]'' else nc_error 404 ''Unknown oid'')"

text \<open>The command given by the object, the method, the property and the arguments.\<close>

definition dispatch_command ::
  "'d control_env \<Rightarrow> int \<Rightarrow> int \<times> int \<Rightarrow> int \<times> int \<Rightarrow> ptree option \<Rightarrow> 'd control \<Rightarrow> (json_exn + nc_result) \<times> 'd control" where
  "dispatch_command E oid method prop args s =
     (if oid = root_block_oid \<and> method = (2, 1) then (Inr (nc_ok (ncp_member_descriptors_json s)), s)
      else if oid = class_manager_oid \<and> method = (3, 1) then (get_control_class E args, s)
      else if method = (1, 1) then (case get_property E oid (fst prop) (snd prop) s of (r, s) \<Rightarrow> (Inr r, s))
      else if method = (1, 2) then (case set_property E oid (fst prop) (snd prop) args s of (r, s) \<Rightarrow> (Inr r, s))
      else if method \<in> {(4, 1), (4, 2)} \<and> is_receiver_oid oid then
        (Inr (empty_counters (map_of (nd_receivers (co_node s)) (word_of_int (oid - receiver_monitor_oid_base)) \<noteq> None)), s)
      else if method = (4, 1) \<and> is_sender_oid oid then
        (Inr (empty_counters (map_of (nd_senders (co_node s)) (word_of_int (oid - sender_monitor_oid_base)) \<noteq> None)), s)
      else (Inr (nc_error 501 ''MethodNotImplemented''), s))"

definition get_id :: "'d control_env \<Rightarrow> string \<Rightarrow> ptree option \<Rightarrow> int \<times> int" where
  "get_id E k t = (get_path (pl_int (node_lib (ct_node E))) k ''level'' 0 t, get_path (pl_int (node_lib (ct_node E))) k ''index'' 0 t)"

definition run_command :: "'d control_env \<Rightarrow> ptree \<Rightarrow> 'd control \<Rightarrow> (json_exn + nc_result) \<times> 'd control" where
  "run_command E cmd s =
     (let args = map_of (tree_kids cmd) ''arguments''
      in dispatch_command E (get_or (ct_long E) ''oid'' 0 cmd) (get_id E ''methodId'' (Some cmd)) (get_id E ''id'' args) args s)"

definition response_entry :: "int \<Rightarrow> nc_result \<Rightarrow> string" where
  "response_entry h r =
     (case r of (status, v, m) \<Rightarrow> json_map [(''handle'', show_int h),
        (''result'', json_map [(''status'', show_int status), (''value'', v),
          (''errorMessage'', if m = [] then ''null'' else quoted m)])])"

definition command_handle :: "'d control_env \<Rightarrow> ptree \<Rightarrow> int" where
  "command_handle E cmd = get_or (pl_int (node_lib (ct_node E))) ''handle'' 0 cmd"

fun run_commands :: "'d control_env \<Rightarrow> (string \<times> ptree) list \<Rightarrow> 'd control \<Rightarrow> (json_exn + string list) \<times> 'd control" where
  "run_commands E [] s = (Inr [], s)"
| "run_commands E ((_, cmd) # cmds) s =
     (case run_command E cmd s of
        (Inl x, s) \<Rightarrow> (Inl x, s)
      | (Inr r, s) \<Rightarrow>
          (case run_commands E cmds s of
             (Inl x, s) \<Rightarrow> (Inl x, s)
           | (Inr rs, s) \<Rightarrow> (Inr (response_entry (command_handle E cmd) r # rs), s)))"

subsection \<open>Messages of the clients\<close>

definition at_session :: "nat \<Rightarrow> (is12_session \<Rightarrow> is12_session) \<Rightarrow> 'd control \<Rightarrow> 'd control" where
  "at_session n f s = s\<lparr>co_sessions := (co_sessions s)[n := f (co_sessions s ! n)]\<rparr>"

definition post :: "string \<Rightarrow> is12_session \<Rightarrow> is12_session" where
  "post m c = c\<lparr>is_outbox := is_outbox c @ [m]\<rparr>"

definition command_response :: "string list \<Rightarrow> string" where
  "command_response rs = json_map [(''messageType'', ''1''), (''responses'', json_list rs)]"

definition subscription_response :: "int list \<Rightarrow> string" where
  "subscription_response oids = json_map [(''messageType'', ''4''), (''subscriptions'', json_list (map show_int oids))]"

text \<open>The exception that leaves the function, when one does, and the state.\<close>

definition handle_is12_message :: "'d control_env \<Rightarrow> string \<Rightarrow> nat \<Rightarrow> 'd control \<Rightarrow> json_exn option \<times> 'd control" where
  "handle_is12_message E msg n s =
     (let lib = node_lib (ct_node E)
      in case pl_read lib msg of
           Inl _ \<Rightarrow> (None, s)
         | Inr pt \<Rightarrow>
             (let message_type = get_or (pl_int lib) ''messageType'' (- 1) pt
              in if message_type = 0 then
                   (case get_child ''commands'' pt of
                      Inl _ \<Rightarrow> (None, s)
                    | Inr commands \<Rightarrow>
                        (case run_commands E (tree_kids commands) s of
                           (Inl x, s) \<Rightarrow> (Some x, s)
                         | (Inr rs, s) \<Rightarrow> (None, at_session n (post (command_response rs)) s)))
                 else if message_type = 3 then
                   (case get_values (ct_long E) (case get_child ''subscriptions'' pt of Inl _ \<Rightarrow> [] | Inr subs \<Rightarrow> tree_kids subs) of
                      Inl x \<Rightarrow> (Some x, s)
                    | Inr oids \<Rightarrow>
                        (let new_subs = sorted_list_of_set (set oids)
                         in (None, at_session n (\<lambda>c. post (subscription_response new_subs) (c\<lparr>is_subscribed := new_subs\<rparr>)) s)))
                 else (None, s)))"

text \<open>A connection: a session of its own; its reader, which handles the messages one by one; its
  writer, which sends what the outbox holds.  An exception that leaves the reader destroys the
  running writer thread, which ends the process: the result is then \<^const>\<open>False\<close>.\<close>

definition is12_connect :: "'d control \<Rightarrow> 'd control" where
  "is12_connect s = s\<lparr>co_sessions := co_sessions s @ [\<lparr>is_outbox = [], is_subscribed = []\<rparr>]\<rparr>"

definition is12_disconnect :: "nat \<Rightarrow> 'd control \<Rightarrow> 'd control" where
  "is12_disconnect n s = s\<lparr>co_sessions := take n (co_sessions s) @ drop (Suc n) (co_sessions s)\<rparr>"

definition is12_write :: "nat \<Rightarrow> 'd control \<Rightarrow> string option \<times> 'd control" where
  "is12_write n s =
     (case is_outbox (co_sessions s ! n) of
        [] \<Rightarrow> (None, s)
      | m # ms \<Rightarrow> (Some m, at_session n (\<lambda>c. c\<lparr>is_outbox := ms\<rparr>) s))"

fun serve_is12_connection :: "'d control_env \<Rightarrow> nat \<Rightarrow> string list \<Rightarrow> 'd control \<Rightarrow> bool \<times> 'd control" where
  "serve_is12_connection E n [] s = (True, s)"
| "serve_is12_connection E n (msg # msgs) s =
     (case handle_is12_message E msg n s of
        (Some _, s) \<Rightarrow> (False, s)
      | (None, s) \<Rightarrow> serve_is12_connection E n msgs s)"

subsection \<open>Notifications\<close>

definition prop_changed :: "nc_prop list \<Rightarrow> nc_prop \<Rightarrow> bool" where
  "prop_changed prev p =
     (case find (has_id (np_level p) (np_index p)) prev of None \<Rightarrow> True | Some q \<Rightarrow> np_value q \<noteq> np_value p)"

definition notification :: "int \<Rightarrow> nc_prop \<Rightarrow> string" where
  "notification oid p = json_map [(''messageType'', ''2''), (''notifications'', json_list [json_map
     [(''oid'', show_int oid), (''eventId'', json_id 1 1), (''eventData'', json_map
       [(''propertyId'', json_id (np_level p) (np_index p)), (''changeType'', ''0''), (''value'', np_value p),
        (''sequenceItemIndex'', ''null'')])]])]"

definition notify_session :: "int \<Rightarrow> nc_prop list \<Rightarrow> is12_session \<Rightarrow> is12_session" where
  "notify_session oid ps c =
     (if oid \<in> set (is_subscribed c) then c\<lparr>is_outbox := is_outbox c @ map (notification oid) ps\<rparr> else c)"

definition changed_props :: "nc_prop list option \<Rightarrow> nc_prop list \<Rightarrow> nc_prop list" where
  "changed_props prev props = (case prev of None \<Rightarrow> [] | Some prev \<Rightarrow> filter (prop_changed prev) props)"

definition notify_object :: "int \<times> nc_prop list \<Rightarrow> 'd control \<Rightarrow> 'd control" where
  "notify_object op s =
     (case op of (oid, props) \<Rightarrow>
        s\<lparr>co_sessions := map (notify_session oid (changed_props (map_of (co_last_known s) oid) props)) (co_sessions s),
          co_last_known := smap_upd oid props (co_last_known s)\<rparr>)"

fun receiver_monitors :: "'d control_env \<Rightarrow> u8 list \<Rightarrow> 'd control \<Rightarrow> (int \<times> nc_prop list) list \<times> 'd control" where
  "receiver_monitors E [] s = ([], s)"
| "receiver_monitors E (i # is) s =
     (let (props, s) = ncp_receiver_monitor_props E i s; (ms, s) = receiver_monitors E is s
      in ((receiver_monitor_oid_base + uint i, props) # ms, s))"

fun sender_monitors :: "'d control_env \<Rightarrow> u8 list \<Rightarrow> 'd control \<Rightarrow> (int \<times> nc_prop list) list \<times> 'd control" where
  "sender_monitors E [] s = ([], s)"
| "sender_monitors E (i # is) s =
     (let (props, s) = ncp_sender_monitor_props E i s; (ms, s) = sender_monitors E is s
      in ((sender_monitor_oid_base + uint i, props) # ms, s))"

text \<open>One round of \<open>is12_notify_worker\<close>.\<close>

definition is12_notify_round :: "'d control_env \<Rightarrow> 'd control \<Rightarrow> 'd control" where
  "is12_notify_round E s =
     (let (rs, s1) = receiver_monitors E (map fst (nd_receivers (co_node s))) s;
          (ss, s2) = sender_monitors E (map fst (nd_senders (co_node s))) s1;
          s3 = fold notify_object (rs @ ss) s2
      in s3\<lparr>co_last_known := filter (\<lambda>(oid, _). oid \<in> fst ` set (rs @ ss)) (co_last_known s3)\<rparr>)"

end
