(* ===== verification/Control_Props.thy ===== *)
theory Control_Props
  imports Control
begin

text \<open>
  What the control interface guarantees: a client that follows its notifications knows what the
  worker knows, the transition counters count what the statuses do, what a class describes is what
  its objects answer, and which messages end the process.
\<close>

subsection \<open>Frames\<close>

definition prop_key :: "nc_prop \<Rightarrow> int \<times> int" where
  "prop_key p = (np_level p, np_index p)"

definition monitor_keys :: "(int \<times> int) list" where
  "monitor_keys = [(1, 7), (3, 1), (3, 2), (4, 1), (4, 2), (4, 3), (4, 4), (4, 5), (4, 6), (4, 7), (4, 8), (4, 9), (4, 10),
     (4, 11), (4, 12), (4, 13), (4, 14)]"

lemma distinct_monitor_keys [simp]: "distinct monitor_keys"
  by (simp add: monitor_keys_def)

lemma monitor_props_keys [simp]: "map prop_key (monitor_props kind uuid a l se sy t src c) = monitor_keys"
  by (simp add: monitor_props_def prop_key_def monitor_keys_def)

lemma update_frame [simp]:
  "co_node (update_monitor_counters oid a b c d s) = co_node s"
  "co_sessions (update_monitor_counters oid a b c d s) = co_sessions s"
  "co_last_known (update_monitor_counters oid a b c d s) = co_last_known s"
  by (simp_all add: update_monitor_counters_def)

definition frame :: "'d control \<Rightarrow> 'd control \<Rightarrow> bool" where
  "frame s s' \<longleftrightarrow> co_node s' = co_node s \<and> co_sessions s' = co_sessions s \<and> co_last_known s' = co_last_known s"

lemma frame_refl [simp]: "frame s s" by (simp add: frame_def)

lemma frame_trans: "frame s t \<Longrightarrow> frame t u \<Longrightarrow> frame s u" by (simp add: frame_def)

lemma receiver_props_frame: "frame s (snd (ncp_receiver_monitor_props E i s))"
  by (simp add: ncp_receiver_monitor_props_def frame_def Let_def split: option.split prod.split)

lemma sender_props_frame: "frame s (snd (ncp_sender_monitor_props E i s))"
  by (simp add: ncp_sender_monitor_props_def frame_def Let_def split: option.split prod.split)

lemma receiver_props_keys:
  "map_of (nd_receivers (co_node s)) i \<noteq> None \<Longrightarrow> map prop_key (fst (ncp_receiver_monitor_props E i s)) = monitor_keys"
  by (auto simp: ncp_receiver_monitor_props_def Let_def split: prod.split)

lemma sender_props_keys:
  "map_of (nd_senders (co_node s)) i \<noteq> None \<Longrightarrow> map prop_key (fst (ncp_sender_monitor_props E i s)) = monitor_keys"
  by (auto simp: ncp_sender_monitor_props_def Let_def split: prod.split)

lemma receiver_monitors_ok:
  assumes "\<forall>i \<in> set is. map_of (nd_receivers (co_node s)) i \<noteq> None"
  shows "frame s (snd (receiver_monitors E is s)) \<and> (\<forall>(oid, ps) \<in> set (fst (receiver_monitors E is s)). map prop_key ps = monitor_keys)"
  using assms
proof (induction "is" arbitrary: s)
  case (Cons i "is")
  obtain ps s1 where 1: "ncp_receiver_monitor_props E i s = (ps, s1)" by fastforce
  have f: "frame s s1" using receiver_props_frame[of s E i] 1 by simp
  have k: "map prop_key ps = monitor_keys" using receiver_props_keys[of s i E] Cons.prems 1 by simp
  obtain ms s2 where 2: "receiver_monitors E is s1 = (ms, s2)" by fastforce
  have "\<forall>i \<in> set is. map_of (nd_receivers (co_node s1)) i \<noteq> None" using Cons.prems f by (simp add: frame_def)
  from Cons.IH[OF this] 2 have "frame s1 s2" "\<forall>(oid, ps) \<in> set ms. map prop_key ps = monitor_keys" by auto
  then show ?case using 1 2 k frame_trans[OF f] by auto
qed simp

lemma sender_monitors_ok:
  assumes "\<forall>i \<in> set is. map_of (nd_senders (co_node s)) i \<noteq> None"
  shows "frame s (snd (sender_monitors E is s)) \<and> (\<forall>(oid, ps) \<in> set (fst (sender_monitors E is s)). map prop_key ps = monitor_keys)"
  using assms
proof (induction "is" arbitrary: s)
  case (Cons i "is")
  obtain ps s1 where 1: "ncp_sender_monitor_props E i s = (ps, s1)" by fastforce
  have f: "frame s s1" using sender_props_frame[of s E i] 1 by simp
  have k: "map prop_key ps = monitor_keys" using sender_props_keys[of s i E] Cons.prems 1 by simp
  obtain ms s2 where 2: "sender_monitors E is s1 = (ms, s2)" by fastforce
  have "\<forall>i \<in> set is. map_of (nd_senders (co_node s1)) i \<noteq> None" using Cons.prems f by (simp add: frame_def)
  from Cons.IH[OF this] 2 have "frame s1 s2" "\<forall>(oid, ps) \<in> set ms. map prop_key ps = monitor_keys" by auto
  then show ?case using 1 2 k frame_trans[OF f] by auto
qed simp

lemma snd_answer: "snd (case x of (r, s) \<Rightarrow> (Inr r, s)) = snd x"
  by (simp add: case_prod_beta)

lemma run_command_frame: "frame s (snd (run_command E cmd s))"
proof -
  have p: "frame s (snd (props_of E oid s))" for oid
    by (simp add: props_of_def receiver_props_frame sender_props_frame)
  have g: "frame s (snd (get_property E oid l i s))" for oid l i
    using p[of oid] by (cases "props_of E oid s") (simp add: get_property_def)
  have "frame s (snd (set_property E oid l i a s))" for oid l i a
    by (simp add: set_property_def Let_def frame_def)
  with g have "frame s (snd (dispatch_command E oid m p a s))" for oid m p a
    unfolding dispatch_command_def by (simp add: snd_answer)
  then show ?thesis by (simp add: run_command_def Let_def)
qed

lemma run_commands_frame: "frame s (snd (run_commands E cmds s))"
proof (induction E cmds s rule: run_commands.induct)
  case (2 E k cmd cmds s)
  obtain r s1 where 1: "run_command E cmd s = (r, s1)" by fastforce
  have f: "frame s s1" using run_command_frame[of s E cmd] 1 by simp
  show ?case
  proof (cases r)
    case (Inr x)
    then show ?thesis
      using "2.IH"[of r s1 x] 1 frame_trans[OF f] by (auto split: prod.splits sum.splits)
  qed (use 1 f in simp)
qed simp

subsection \<open>A client's copy\<close>

text \<open>What the outbox of a session receives, and what a client makes of it for one object.\<close>

datatype client_msg = Reply string | Notify int nc_prop

fun msg_text :: "client_msg \<Rightarrow> string" where
  "msg_text (Reply m) = m"
| "msg_text (Notify oid p) = notification oid p"

type_synonym prop_copy = "int \<times> int \<Rightarrow> string option"

definition copy_of :: "nc_prop list \<Rightarrow> prop_copy" where
  "copy_of ps = map_of (map (\<lambda>p. (prop_key p, np_value p)) ps)"

fun learn :: "int \<Rightarrow> client_msg \<Rightarrow> prop_copy \<Rightarrow> prop_copy" where
  "learn oid (Reply m) f = f"
| "learn oid (Notify j p) f = (if j = oid then f(prop_key p \<mapsto> np_value p) else f)"

lemma learn_other: "j \<noteq> oid \<Longrightarrow> fold (learn oid) (map (Notify j) ps) f = f"
  by (induction ps arbitrary: f) auto

lemma learn_same: "distinct (map prop_key ps) \<Longrightarrow> fold (learn oid) (map (Notify oid) ps) f = f ++ copy_of ps"
proof (induction ps arbitrary: f)
  case (Cons p ps)
  then have "prop_key p \<notin> dom (copy_of ps)" by (simp add: copy_of_def dom_map_of_conv_image_fst image_image)
  then show ?case using Cons by (auto simp: copy_of_def map_add_def fun_eq_iff split: option.splits)
qed (simp add: copy_of_def)

lemma find_has_id: "map_option np_value (find (has_id l i) ps) = copy_of ps (l, i)"
  by (induction ps) (auto simp: copy_of_def has_id_def prop_key_def)

lemma copy_mem: "distinct (map prop_key ps) \<Longrightarrow> p \<in> set ps \<Longrightarrow> copy_of ps (prop_key p) = Some (np_value p)"
  by (auto simp: copy_of_def comp_def intro!: map_of_is_SomeI)

lemma copy_Some: "copy_of ps k = Some v \<Longrightarrow> \<exists>p \<in> set ps. prop_key p = k \<and> np_value p = v"
  by (auto simp: copy_of_def dest!: map_of_SomeD)

lemma copy_dom: "dom (copy_of ps) = set (map prop_key ps)"
  by (simp add: copy_of_def dom_map_of_conv_image_fst image_image)

lemma changed_iff: "prop_changed prev p \<longleftrightarrow> copy_of prev (prop_key p) \<noteq> Some (np_value p)"
proof -
  have "copy_of prev (prop_key p) = map_option np_value (find (has_id (np_level p) (np_index p)) prev)"
    by (simp add: find_has_id prop_key_def)
  then show ?thesis by (auto simp: prop_changed_def split: option.split)
qed

lemma learn_changes:
  assumes "map prop_key prev = ks" "map prop_key ps = ks" "distinct ks"
  shows "fold (learn oid) (map (Notify oid) (filter (prop_changed prev) ps)) (copy_of prev) = copy_of ps"
proof -
  let ?c = "filter (prop_changed prev) ps"
  have d: "distinct (map prop_key ps)" "distinct (map prop_key ?c)" using assms by (auto intro: distinct_map_filter)
  have "(copy_of prev ++ copy_of ?c) k = copy_of ps k" for k
  proof (cases "copy_of ps k")
    case None
    then have k: "k \<notin> set (map prop_key ps)" by (metis copy_dom domIff)
    have "k \<notin> set (map prop_key prev)" using k assms(1,2) by simp
    moreover have "k \<notin> set (map prop_key ?c)" using k by auto
    ultimately have "k \<notin> dom (copy_of prev)" "k \<notin> dom (copy_of ?c)" unfolding copy_dom .
    then show ?thesis using None by (simp add: map_add_dom_app_simps(3) domIff)
  next
    case (Some v)
    then obtain p where p: "p \<in> set ps" "prop_key p = k" "np_value p = v" using copy_Some by blast
    show ?thesis
    proof (cases "prop_changed prev p")
      case True
      then have "copy_of ?c k = Some v" using copy_mem[OF d(2), of p] p by simp
      then show ?thesis using Some by simp
    next
      case False
      have "k \<notin> set (map prop_key ?c)"
      proof
        assume "k \<in> set (map prop_key ?c)"
        then obtain q where q: "q \<in> set ps" "prop_changed prev q" "prop_key q = k" by auto
        then have "np_value q = v" using copy_mem[OF d(1), of q] Some by simp
        then show False using q(2,3) False p by (simp add: changed_iff)
      qed
      then have "copy_of ?c k = None" using copy_dom[of ?c] by (auto simp: domIff)
      then show ?thesis using False p Some by (simp add: changed_iff map_add_def)
    qed
  qed
  then show ?thesis using learn_same[OF d(2), of oid "copy_of prev"] by (simp add: fun_eq_iff)
qed

text \<open>Session \<open>n\<close> listens to the object, of which the worker knows the properties.\<close>

definition listens :: "nat \<Rightarrow> int \<Rightarrow> 'd control \<Rightarrow> bool" where
  "listens n oid s \<longleftrightarrow> n < length (co_sessions s) \<and> oid \<in> set (is_subscribed (co_sessions s ! n)) \<and>
     map_of (co_last_known s) oid \<noteq> None"

definition known_copy :: "int \<Rightarrow> 'd control \<Rightarrow> prop_copy" where
  "known_copy oid s = copy_of (the (map_of (co_last_known s) oid))"

definition known_ok :: "'d control \<Rightarrow> bool" where
  "known_ok s \<longleftrightarrow> (\<forall>(oid, ps) \<in> set (co_last_known s). map prop_key ps = monitor_keys)"

definition told :: "nat \<Rightarrow> int \<Rightarrow> 'd control \<Rightarrow> 'd control \<Rightarrow> bool" where
  "told n oid s s' \<longleftrightarrow> (\<exists>ms. is_outbox (co_sessions s' ! n) = is_outbox (co_sessions s ! n) @ map msg_text ms \<and>
     fold (learn oid) ms (known_copy oid s) = known_copy oid s')"

lemma learned_trans: "told n oid s t \<Longrightarrow> told n oid t u \<Longrightarrow> told n oid s u"
  unfolding told_def by (metis append_assoc comp_apply fold_append map_append)

lemma learned_same:
  assumes "co_last_known s' = co_last_known s" "is_outbox (co_sessions s' ! n) = is_outbox (co_sessions s ! n)"
  shows "told n oid s s'"
  using assms by (intro exI[of _ "[]"] iffD2[OF told_def]) (simp add: known_copy_def)

lemma notify_object_told:
  assumes "listens n oid s" "known_ok s" "map prop_key (snd op) = monitor_keys"
  shows "told n oid s (notify_object op s) \<and> listens n oid (notify_object op s) \<and> known_ok (notify_object op s)"
proof -
  obtain j ps where op: "op = (j, ps)" by (cases op)
  let ?s = "notify_object (j, ps) s" and ?prev = "map_of (co_last_known s) j"
  let ?ms = "if j \<in> set (is_subscribed (co_sessions s ! n)) then map (Notify j) (changed_props ?prev ps) else []"
  have n: "n < length (co_sessions s)" and sub: "oid \<in> set (is_subscribed (co_sessions s ! n))"
    using assms(1) by (simp_all add: listens_def)
  have ses: "co_sessions ?s ! n = notify_session j (changed_props ?prev ps) (co_sessions s ! n)"
    and known: "co_last_known ?s = smap_upd j ps (co_last_known s)"
    using n by (simp_all add: notify_object_def)
  have "is_outbox (co_sessions ?s ! n) = is_outbox (co_sessions s ! n) @ map msg_text ?ms"
    by (simp add: ses notify_session_def)
  moreover have "fold (learn oid) ?ms (known_copy oid s) = known_copy oid ?s"
  proof (cases "j = oid")
    case True
    obtain prev where prev: "map_of (co_last_known s) oid = Some prev" using assms(1) by (auto simp: listens_def)
    then have "map prop_key prev = monitor_keys" using assms(2) map_of_SomeD[OF prev] by (auto simp: known_ok_def)
    then show ?thesis
      using learn_changes[of prev monitor_keys ps oid] assms(3) prev sub known unfolding True
      by (simp add: known_copy_def changed_props_def op)
  next
    case False
    then show ?thesis by (simp add: known_copy_def known learn_other)
  qed
  ultimately have t: "told n oid s ?s" unfolding told_def by blast
  have l: "listens n oid ?s"
    using assms(1) n sub by (auto simp: listens_def ses known notify_session_def) (auto simp: notify_object_def)
  have k: "known_ok ?s"
    using assms(2,3) set_smap_upd[of j ps "co_last_known s"] unfolding known_ok_def known op by (auto simp: op)
  show ?thesis using t l k by (simp add: op)
qed

lemma notify_objects_told:
  assumes "listens n oid s" "known_ok s" "\<forall>op \<in> set ops. map prop_key (snd op) = monitor_keys"
  shows "told n oid s (fold notify_object ops s) \<and> listens n oid (fold notify_object ops s) \<and> known_ok (fold notify_object ops s)"
  using assms
proof (induction ops arbitrary: s)
  case Nil
  then show ?case by (simp add: learned_same)
next
  case (Cons op ops)
  have 1: "told n oid s (notify_object op s)" "listens n oid (notify_object op s)" "known_ok (notify_object op s)"
    using notify_object_told[OF Cons.prems(1,2), of op] Cons.prems(3) by auto
  then show ?case using Cons.IH[OF 1(2,3)] Cons.prems(3) learned_trans[OF 1(1)] by simp
qed

text \<open>What happens around the sessions: messages of the clients, rounds of the worker, changes of the
  node by its other threads, new clients.  \<^const>\<open>None\<close> is the end of the process.\<close>

datatype 'd control_event =
    Message "'d control_env" nat string
  | Round "'d control_env"
  | Node_changes "'d node"
  | Connects

fun control_step :: "'d control_event \<Rightarrow> 'd control \<Rightarrow> 'd control option" where
  "control_step (Message E n msg) s =
     (if n < length (co_sessions s)
      then (case handle_is12_message E msg n s of (None, s) \<Rightarrow> Some s | (Some _, s) \<Rightarrow> None) else Some s)"
| "control_step (Round E) s = Some (is12_notify_round E s)"
| "control_step (Node_changes nd) s = Some (s\<lparr>co_node := nd\<rparr>)"
| "control_step Connects s = Some (is12_connect s)"

fun control_run :: "'d control_event list \<Rightarrow> 'd control \<Rightarrow> 'd control option" where
  "control_run [] s = Some s"
| "control_run (e # es) s = (case control_step e s of None \<Rightarrow> None | Some s \<Rightarrow> control_run es s)"

text \<open>A run after each of whose events session \<open>n\<close> still listens to the object.\<close>

fun listening_run :: "nat \<Rightarrow> int \<Rightarrow> 'd control_event list \<Rightarrow> 'd control \<Rightarrow> bool" where
  "listening_run n oid [] s \<longleftrightarrow> listens n oid s"
| "listening_run n oid (e # es) s \<longleftrightarrow>
     listens n oid s \<and> (case control_step e s of None \<Rightarrow> False | Some s \<Rightarrow> listening_run n oid es s)"

definition control_init :: "'d node \<Rightarrow> 'd control" where
  "control_init nd = \<lparr>co_node = nd, co_counters = [], co_sessions = [], co_last_known = []\<rparr>"

lemma map_of_keep: "map_of (filter (\<lambda>(k, _). k \<in> A) m) x = (if x \<in> A then map_of m x else None)"
  by (induction m) auto

lemma round_told:
  assumes "known_ok s"
  shows "known_ok (is12_notify_round E s)"
    "listens n oid s \<Longrightarrow> listens n oid (is12_notify_round E s) \<Longrightarrow> told n oid s (is12_notify_round E s)"
proof -
  obtain rs s1 where 1: "receiver_monitors E (map fst (nd_receivers (co_node s))) s = (rs, s1)" by fastforce
  obtain ss s2 where 2: "sender_monitors E (map fst (nd_senders (co_node s))) s1 = (ss, s2)" by fastforce
  let ?ops = "rs @ ss"
  let ?s3 = "fold notify_object ?ops s2"
  have keys: "\<forall>i \<in> set (map fst m). map_of m i \<noteq> None" for m :: "(u8 \<times> 'b) list"
    by (auto simp: map_of_eq_None_iff intro: rev_image_eqI)
  have r: "frame s s1" "\<forall>(oid, ps) \<in> set rs. map prop_key ps = monitor_keys"
    using receiver_monitors_ok[OF keys, of s E] 1 by auto
  have n1: "co_node s1 = co_node s" using r(1) by (simp add: frame_def)
  have t: "frame s s2" "\<forall>(oid, ps) \<in> set ss. map prop_key ps = monitor_keys"
    using sender_monitors_ok[of "map fst (nd_senders (co_node s))" s1 E] keys[of "nd_senders (co_node s)"] 2 frame_trans[OF r(1)]
    by (auto simp: n1)
  have ops: "\<forall>op \<in> set ?ops. map prop_key (snd op) = monitor_keys" using r(2) t(2) by auto
  have s2: "known_ok s2" using assms t(1) by (simp add: known_ok_def frame_def)
  have round: "is12_notify_round E s =
      ?s3\<lparr>co_last_known := filter (\<lambda>(oid, _). oid \<in> fst ` set ?ops) (co_last_known ?s3)\<rparr>"
    unfolding is12_notify_round_def by (simp add: 1 2 Let_def)
  have "known_ok (fold notify_object ops s2)" if "known_ok s2" "\<forall>op \<in> set ops. map prop_key (snd op) = monitor_keys" for ops s2
    using that
  proof (induction ops arbitrary: s2)
    case (Cons op ops)
    have "known_ok (notify_object op s2)"
      using Cons.prems set_smap_upd[of "fst op" "snd op" "co_last_known s2"]
      by (cases op) (auto simp: known_ok_def notify_object_def)
    then show ?case using Cons by simp
  qed simp
  from this[OF s2 ops] show "known_ok (is12_notify_round E s)" by (simp add: round known_ok_def)
  assume l: "listens n oid s" "listens n oid (is12_notify_round E s)"
  have l2: "listens n oid s2" using l(1) t(1) by (simp add: listens_def frame_def)
  have a: "told n oid s s2" using t(1) by (intro learned_same) (simp_all add: frame_def)
  have b: "told n oid s2 ?s3" using notify_objects_told[OF l2 s2 ops] by simp
  have "map_of (co_last_known (is12_notify_round E s)) oid = map_of (co_last_known ?s3) oid"
    using l(2) unfolding listens_def round by (simp add: map_of_keep split: if_splits)
  then have "told n oid ?s3 (is12_notify_round E s)"
    by (intro exI[of _ "[]"] iffD2[OF told_def]) (simp add: known_copy_def round)
  then show "told n oid s (is12_notify_round E s)" using a b learned_trans by blast
qed

lemma message_told:
  assumes "handle_is12_message E msg k s = (None, s')" "k < length (co_sessions s)" "n < length (co_sessions s)"
  shows "told n oid s s' \<and> co_last_known s' = co_last_known s"
proof -
  have posted: "told n oid t (at_session k (\<lambda>c. post m (f c)) t)"
    if "\<And>c. is_outbox (f c) = is_outbox c" "length (co_sessions t) = length (co_sessions s)" for f m and t :: "'a control"
    using that assms(2,3) unfolding told_def
    by (intro exI[of _ "if k = n then [Reply m] else []"]) (auto simp: at_session_def post_def known_copy_def)
  have same: "told n oid s t" if "frame s t" for t using that by (intro learned_same) (simp_all add: frame_def)
  have f: "frame s t" if "run_commands E cmds s = (r, t)" for cmds r t using run_commands_frame[of s E cmds] that by simp
  have "told n oid s (at_session k (post m) t)" if "run_commands E cmds s = (r, t)" for cmds r t m
    using learned_trans[OF same[OF f[OF that]] posted[of "\<lambda>c. c" t m]] f[OF that] by (simp add: frame_def)
  moreover have "co_last_known (at_session k g t) = co_last_known t" for g and t :: "'a control" by (simp add: at_session_def)
  ultimately show ?thesis
    using assms(1) same[of s] f posted[of "\<lambda>c. c\<lparr>is_subscribed := os\<rparr>" s for os]
    by (auto simp: handle_is12_message_def Let_def frame_def split: sum.splits prod.splits if_splits)
qed

lemma event_told:
  assumes "control_step e s = Some s'" "known_ok s"
  shows "known_ok s'" "listens n oid s \<Longrightarrow> listens n oid s' \<Longrightarrow> told n oid s s'"
proof -
  have m: "told n oid s s' \<and> co_last_known s' = co_last_known s"
    if "e = Message E k msg" "k < length (co_sessions s)" "n < length (co_sessions s)" for E k msg n
    using that assms(1) message_told[of E msg k s s' n oid] by (auto split: prod.splits option.splits)
  show "known_ok s'"
  proof (cases e)
    case (Message E k msg)
    then show ?thesis using assms m[OF Message, of k] by (cases "k < length (co_sessions s)") (auto simp: known_ok_def)
  next
    case (Round E)
    then show ?thesis using assms round_told(1)[of s E] by auto
  qed (use assms in \<open>auto simp: known_ok_def is12_connect_def\<close>)
  assume l: "listens n oid s" "listens n oid s'"
  then have n: "n < length (co_sessions s)" by (simp add: listens_def)
  show "told n oid s s'"
  proof (cases e)
    case (Message E k msg)
    then show ?thesis using assms m[OF Message _ n] learned_same[of s s n oid] by (cases "k < length (co_sessions s)") auto
  next
    case (Round E)
    then show ?thesis using assms l round_told(2)[of s n oid E] by auto
  qed (use assms n in \<open>auto simp: is12_connect_def nth_append intro!: learned_same\<close>)
qed

lemma run_known_ok: "control_run es s = Some s' \<Longrightarrow> known_ok s \<Longrightarrow> known_ok s'"
  by (induction es s rule: control_run.induct) (auto split: option.splits dest: event_told(1))

lemma run_told:
  "control_run es s = Some s' \<Longrightarrow> known_ok s \<Longrightarrow> listening_run n oid es s \<Longrightarrow> told n oid s s'"
proof (induction es s rule: control_run.induct)
  case (2 e es s)
  obtain t where t: "control_step e s = Some t" using "2.prems" by (auto split: option.splits)
  have l: "listens n oid s" "listening_run n oid es t" using "2.prems" t by auto
  moreover have "listens n oid t" using l(2) by (cases es) auto
  ultimately show ?case using "2.IH"[OF t] "2.prems" t event_told[OF t] learned_trans[of n oid s t s'] by auto
qed (simp add: learned_same)

text \<open>C10: a client that follows its notifications is never behind the worker.  However messages of
  clients, rounds of the worker, changes of the node and new connections follow one another:
  while a session stays subscribed to a monitor the worker knows, what is queued for
  the session, applied in order to the properties the worker knew at the beginning, gives
  exactly the properties the worker knows at the end.\<close>

theorem client_copy_current:
  assumes "control_run es0 (control_init nd) = Some s" "control_run es s = Some s'" "listening_run n oid es s"
  shows "\<exists>ms. is_outbox (co_sessions s' ! n) = is_outbox (co_sessions s ! n) @ map msg_text ms \<and>
    fold (learn oid) ms (known_copy oid s) = known_copy oid s'"
proof -
  have "known_ok s" by (rule run_known_ok[OF assms(1)]) (simp add: known_ok_def control_init_def)
  from run_told[OF assms(2) this assms(3)] show ?thesis unfolding told_def .
qed

subsection \<open>Descriptors and objects\<close>

lemma oid_back:
  assumes "(i :: u8) < 64"
  shows "is_receiver_oid (receiver_monitor_oid_base + uint i)" "\<not> is_sender_oid (receiver_monitor_oid_base + uint i)"
    "is_sender_oid (sender_monitor_oid_base + uint i)" "\<not> is_receiver_oid (sender_monitor_oid_base + uint i)"
    "receiver_monitor_oid_base + uint i \<noteq> device_manager_oid" "sender_monitor_oid_base + uint i \<noteq> device_manager_oid"
proof -
  have "0 \<le> uint i" "uint i < 64" using assms uint_ge_0[of i] by (auto simp: word_less_alt)
  then show "is_receiver_oid (receiver_monitor_oid_base + uint i)" "\<not> is_sender_oid (receiver_monitor_oid_base + uint i)"
    "is_sender_oid (sender_monitor_oid_base + uint i)" "\<not> is_receiver_oid (sender_monitor_oid_base + uint i)"
    "receiver_monitor_oid_base + uint i \<noteq> device_manager_oid" "sender_monitor_oid_base + uint i \<noteq> device_manager_oid"
    unfolding is_receiver_oid_def is_sender_oid_def oid_defs by linarith+
qed

lemma get_status: "fst (fst (get_property E oid l j s)) = 200 \<longleftrightarrow> (l, j) \<in> set (map prop_key (fst (props_of E oid s)))"
proof -
  obtain ps t where 1: "props_of E oid s = (ps, t)" by fastforce
  have "find (has_id l j) ps = None \<longleftrightarrow> (l, j) \<notin> set (map prop_key ps)"
    by (auto simp: find_None_iff has_id_def prop_key_def)
  then show ?thesis by (auto simp: get_property_def 1 nc_ok_def nc_error_def split: option.split)
qed

lemma set_status:
  "fst (fst (set_property E oid l j a s)) = 200 \<longleftrightarrow> (is_receiver_oid oid \<or> is_sender_oid oid) \<and> (l, j) = (4, 14)"
  by (auto simp: set_property_def Let_def nc_ok_def nc_error_def)

definition described :: "prop_descriptor list \<Rightarrow> (int \<times> int) list" where
  "described ds = map (\<lambda>(l, i, _). (l, i)) ds"

definition writable :: "prop_descriptor list \<Rightarrow> (int \<times> int) list" where
  "writable ds = map (\<lambda>(l, i, _). (l, i)) (filter (\<lambda>(_, _, _, _, read_only, _). \<not> read_only) ds)"

lemma monitor_described: "described (monitor_descriptors a b c d) = monitor_keys" "writable (monitor_descriptors a b c d) = [(4, 14)]"
  by (simp_all add: described_def writable_def monitor_descriptors_def monitor_keys_def)

text \<open>The control model is complete and its descriptors are true.  Every object the root block lists has a
  class the class manager describes; a Get on the object is answered with status 200 exactly
  for the properties described, and a Set exactly for those described as not read only.\<close>

theorem described_are_answered:
  assumes "(oid, role, cls) \<in> set (nc_members s)" "fst ` set (nd_receivers (co_node s)) \<union> fst ` set (nd_senders (co_node s)) \<subseteq> {..<64}"
  shows "\<exists>name ds ms. nc_class cls = Some (name, ds, ms) \<and> ncp_class_descriptor_json cls \<noteq> None \<and>
    (\<forall>l j. fst (fst (get_property E oid l j s)) = 200 \<longleftrightarrow> (l, j) \<in> set (described ds)) \<and>
    (\<forall>l j args. fst (fst (set_property E oid l j args s)) = 200 \<longleftrightarrow> (l, j) \<in> set (writable ds))"
proof -
  consider "oid = device_manager_oid" "cls = [1, 3, 1]" | "oid = class_manager_oid" "cls = [1, 3, 2]"
    | i rr where "(i, rr) \<in> set (nd_receivers (co_node s))" "oid = receiver_monitor_oid_base + uint i" "cls = [1, 2, 2, 1]"
    | i sr where "(i, sr) \<in> set (nd_senders (co_node s))" "oid = sender_monitor_oid_base + uint i" "cls = [1, 2, 2, 2]"
    using assms(1) by (auto simp: nc_members_def)
  then show ?thesis
  proof cases
    case 1
    have "fst (props_of E oid s) = ncp_device_manager_props E" by (simp add: props_of_def 1)
    then have "map prop_key (fst (props_of E oid s)) = described device_manager_descriptors"
      by (simp add: ncp_device_manager_props_def described_def device_manager_descriptors_def prop_key_def)
    moreover have "writable device_manager_descriptors = []" by (simp add: writable_def device_manager_descriptors_def)
    ultimately show ?thesis
      unfolding get_status set_status
      by (simp add: nc_class_def ncp_class_descriptor_json_def 1 is_receiver_oid_def is_sender_oid_def oid_defs)
  next
    case 2
    have "fst (props_of E oid s) = []" by (simp add: props_of_def 2 is_receiver_oid_def is_sender_oid_def oid_defs)
    then show ?thesis
      unfolding get_status set_status
      by (simp add: nc_class_def ncp_class_descriptor_json_def 2 is_receiver_oid_def is_sender_oid_def oid_defs described_def writable_def)
  next
    case 3
    have i: "i < 64" using assms(2) 3(1) by force
    have "map_of (nd_receivers (co_node s)) i \<noteq> None" using 3(1) by (auto simp: map_of_eq_None_iff intro: rev_image_eqI)
    from receiver_props_keys[OF this] have "map prop_key (fst (props_of E oid s)) = monitor_keys"
      using oid_back[OF i] by (simp add: props_of_def 3)
    then show ?thesis
      unfolding get_status set_status
      using oid_back[OF i] by (simp add: nc_class_def ncp_class_descriptor_json_def 3 monitor_described)
  next
    case 4
    have i: "i < 64" using assms(2) 4(1) by force
    have "map_of (nd_senders (co_node s)) i \<noteq> None" using 4(1) by (auto simp: map_of_eq_None_iff intro: rev_image_eqI)
    from sender_props_keys[OF this] have "map prop_key (fst (props_of E oid s)) = monitor_keys"
      using oid_back[OF i] by (simp add: props_of_def 4)
    then show ?thesis
      unfolding get_status set_status
      using oid_back[OF i] by (simp add: nc_class_def ncp_class_descriptor_json_def 4 monitor_described)
  qed
qed

subsection \<open>Commands and the process\<close>

lemma get_values_throw: "(\<exists>x. get_values conv vs = Inl x) \<longleftrightarrow> (\<exists>(k, v) \<in> set vs. conv (tree_data v) = None)"
proof (induction conv vs rule: get_values.induct)
  case (2 conv k v vs)
  then show ?case
    by (cases "get_value conv v"; cases "get_values conv vs") (auto simp: get_value_def split: option.splits)
qed simp

text \<open>A GetControlClass whose class id holds something that is not a number.\<close>

definition throwing_command :: "'d control_env \<Rightarrow> ptree \<Rightarrow> bool" where
  "throwing_command E cmd \<longleftrightarrow>
     get_or (ct_long E) ''oid'' 0 cmd = class_manager_oid \<and> get_id E ''methodId'' (Some cmd) = (3, 1) \<and>
     (\<exists>args cid. map_of (tree_kids cmd) ''arguments'' = Some args \<and> get_child ''classId'' args = Inr cid \<and>
        (\<exists>(k, v) \<in> set (tree_kids cid). pl_int (node_lib (ct_node E)) (tree_data v) = None))"

lemma get_control_class_throw:
  "(\<exists>x. get_control_class E args = Inl x) \<longleftrightarrow> (\<exists>a cid. args = Some a \<and> get_child ''classId'' a = Inr cid \<and>
     (\<exists>(k, v) \<in> set (tree_kids cid). pl_int (node_lib (ct_node E)) (tree_data v) = None))"
proof -
  have a: "(\<exists>x. andthen r (\<lambda>y. Inr (f y)) = Inl x) \<longleftrightarrow> (\<exists>x. r = Inl x)" for r :: "json_exn + int list" and f :: "int list \<Rightarrow> nc_result"
    by (cases r) auto
  show ?thesis
    unfolding get_control_class_def Let_def a get_values_throw
  proof (cases args)
    case (Some c)
    show "(\<exists>(k, v) \<in> set (case args of None \<Rightarrow> [] | Some a \<Rightarrow> (case get_child ''classId'' a of Inl _ \<Rightarrow> [] | Inr c \<Rightarrow> tree_kids c)).
        pl_int (node_lib (ct_node E)) (tree_data v) = None) \<longleftrightarrow> (\<exists>a cid. args = Some a \<and> get_child ''classId'' a = Inr cid \<and>
        (\<exists>(k, v) \<in> set (tree_kids cid). pl_int (node_lib (ct_node E)) (tree_data v) = None))"
      by (cases "get_child ''classId'' c") (simp_all add: Some)
  qed simp
qed

lemma fst_answer: "fst (case x of (r, s) \<Rightarrow> (Inr r, s)) = Inr (fst x)"
  by (simp add: case_prod_beta)

lemma dispatch_throw:
  "(\<exists>x. fst (dispatch_command E oid m p a s) = Inl x) \<longleftrightarrow>
     oid = class_manager_oid \<and> m = (3, 1) \<and> (\<exists>x. get_control_class E a = Inl x)"
  unfolding dispatch_command_def oid_defs by (cases "oid = 3 \<and> m = (3, 1)") (simp_all add: fst_answer, force)

lemma run_command_throw: "(\<exists>x. fst (run_command E cmd s) = Inl x) \<longleftrightarrow> throwing_command E cmd"
  unfolding run_command_def Let_def dispatch_throw get_control_class_throw throwing_command_def by simp

lemma run_commands_throw: "(\<exists>x. fst (run_commands E cmds s) = Inl x) \<longleftrightarrow> (\<exists>(k, cmd) \<in> set cmds. throwing_command E cmd)"
proof (induction cmds arbitrary: s)
  case (Cons kc cmds)
  obtain k cmd where kc: "kc = (k, cmd)" by (cases kc)
  obtain r s1 where 1: "run_command E cmd s = (r, s1)" by fastforce
  have t: "(\<exists>x. r = Inl x) \<longleftrightarrow> throwing_command E cmd" using run_command_throw[of E cmd s] 1 by simp
  obtain q s2 where 2: "run_commands E cmds s1 = (q, s2)" by fastforce
  have u: "(\<exists>x. q = Inl x) \<longleftrightarrow> (\<exists>(k, cmd) \<in> set cmds. throwing_command E cmd)" using Cons.IH[of s1] 2 by simp
  show ?case using 1 2 t u by (cases r; cases q) (auto simp: kc)
qed simp


subsection \<open>Answers\<close>

definition result_ok :: "nc_result \<Rightarrow> bool" where
  "result_ok r \<longleftrightarrow> (case r of (status, v, m) \<Rightarrow>
     (status = 200 \<and> m = []) \<or> (status \<in> {404, 405, 501} \<and> v = ''null'' \<and> m \<noteq> []))"

lemma result_ok_simps [simp]: "result_ok (nc_ok v)"
  "status \<in> {404, 405, 501} \<Longrightarrow> m \<noteq> [] \<Longrightarrow> result_ok (nc_error status m)"
  by (simp_all add: result_ok_def nc_ok_def nc_error_def)

lemma run_command_ok:
  assumes "run_command E cmd s = (Inr r, s')"
  shows "result_ok r"
proof -
  have g: "result_ok (fst (get_property E oid l i s))" for oid l i
    by (auto simp: get_property_def split: prod.split option.split)
  have t: "result_ok (fst (set_property E oid l i a s))" for oid l i a
    by (simp add: set_property_def Let_def)
  have c: "pred_sum (\<lambda>_. True) result_ok (get_control_class E a)" for a
    unfolding get_control_class_def Let_def
    by (cases "get_values (pl_int (node_lib (ct_node E))) (case a of None \<Rightarrow> [] | Some a \<Rightarrow> (case get_child ''classId'' a of Inl _ \<Rightarrow> [] | Inr c \<Rightarrow> tree_kids c))")
      (auto split: if_splits option.splits)
  have e: "result_ok (empty_counters b)" for b by (simp add: empty_counters_def)
  have d: "pred_sum (\<lambda>_. True) result_ok (fst (dispatch_command E oid m p a s))" for oid m p a
    unfolding dispatch_command_def by (simp add: fst_answer g t c e)
  have "pred_sum (\<lambda>_. True) result_ok (fst (run_command E cmd s))"
    by (simp add: run_command_def Let_def d)
  then show ?thesis using assms by simp
qed

lemma run_commands_results:
  assumes "run_commands E cmds s = (Inr rs, s')"
  shows "\<exists>results. length results = length cmds \<and>
    rs = map (\<lambda>((k, cmd), r). response_entry (command_handle E cmd) r) (zip cmds results) \<and> list_all result_ok results"
  using assms
proof (induction cmds arbitrary: s rs)
  case (Cons kc cmds)
  obtain k cmd where kc: "kc = (k, cmd)" by (cases kc)
  obtain r s1 where 1: "run_command E cmd s = (Inr r, s1)"
    using Cons.prems kc by (cases "run_command E cmd s"; cases "fst (run_command E cmd s)") auto
  obtain rs1 where 2: "run_commands E cmds s1 = (Inr rs1, s')" "rs = response_entry (command_handle E cmd) r # rs1"
    using Cons.prems kc 1 by (auto split: prod.splits sum.splits)
  from Cons.IH[OF 2(1)] obtain results where "length results = length cmds" "list_all result_ok results"
    "rs1 = map (\<lambda>((k, cmd), r). response_entry (command_handle E cmd) r) (zip cmds results)" by blast
  then show ?case using run_command_ok[OF 1] 2(2) kc by (intro exI[of _ "r # results"]) simp
qed simp

text \<open>C24: every command is answered.  A command message that does not end the process adds one message to
  the outbox of its client, with one response per command, in the order of the commands, each
  with the handle of its command and either status 200 without an error message or status
  404, 405 or 501 with one and no value.  No other session, no node resource and no
  baseline of the worker changes.\<close>

theorem every_command_answered:
  assumes "pl_read (node_lib (ct_node E)) msg = Inr pt" "get_or (pl_int (node_lib (ct_node E))) ''messageType'' (- 1) pt = 0"
    "get_child ''commands'' pt = Inr cmds" "handle_is12_message E msg n s = (None, s')" "n < length (co_sessions s)"
  shows "\<exists>results. length results = length (tree_kids cmds) \<and> list_all result_ok results \<and>
    co_sessions s' = (co_sessions s)[n := post (command_response
      (map (\<lambda>((k, cmd), r). response_entry (command_handle E cmd) r) (zip (tree_kids cmds) results))) (co_sessions s ! n)] \<and>
    co_node s' = co_node s \<and> co_last_known s' = co_last_known s"
proof -
  obtain rs s1 where r: "run_commands E (tree_kids cmds) s = (Inr rs, s1)" "s' = at_session n (post (command_response rs)) s1"
    using assms(1-4) by (auto simp: handle_is12_message_def Let_def split: prod.splits sum.splits)
  have f: "frame s s1" using run_commands_frame[of s E "tree_kids cmds"] r(1) by simp
  obtain results where "length results = length (tree_kids cmds)" "list_all result_ok results"
    "rs = map (\<lambda>((k, cmd), r). response_entry (command_handle E cmd) r) (zip (tree_kids cmds) results)"
    using run_commands_results[OF r(1)] by blast
  then show ?thesis using f r(2) by (intro exI[of _ results]) (simp add: at_session_def frame_def)
qed

subsection \<open>Transitions\<close>

text \<open>A receiver's properties read again and again, each time in an environment and a node of that time.\<close>

fun read_receiver :: "('d control_env \<times> 'd node) list \<Rightarrow> u8 \<Rightarrow> 'd control \<Rightarrow> nc_prop list list" where
  "read_receiver [] i s = []"
| "read_receiver ((E, nd) # xs) i s =
     (case ncp_receiver_monitor_props E i (s\<lparr>co_node := nd\<rparr>) of (ps, s) \<Rightarrow> ps # read_receiver xs i s)"

fun changes :: "'a list \<Rightarrow> nat" where
  "changes (x # y # xs) = (if x \<noteq> y then 1 else 0) + changes (y # xs)"
| "changes xs = 0"

definition value_at :: "int \<Rightarrow> int \<Rightarrow> nc_prop list \<Rightarrow> string" where
  "value_at l i ps = (case find (has_id l i) ps of None \<Rightarrow> [] | Some p \<Rightarrow> np_value p)"

text \<open>A status, its count, and where the properties show them.\<close>

definition counts :: "(monitor_counters \<Rightarrow> int) \<Rightarrow> (monitor_counters \<Rightarrow> int) \<Rightarrow> int \<Rightarrow> int \<Rightarrow> 'd itself \<Rightarrow> bool" where
  "counts st tr k c _ \<longleftrightarrow> (\<forall>(E :: 'd control_env) i s ps s'. map_of (nd_receivers (co_node s)) i \<noteq> None \<longrightarrow>
     ncp_receiver_monitor_props E i s = (ps, s') \<longrightarrow>
     (let m = counters_of (receiver_monitor_oid_base + uint i) (co_counters s);
          m' = counters_of (receiver_monitor_oid_base + uint i) (co_counters s')
      in 0 \<le> st m' \<and> value_at 4 k ps = show_int (st m') \<and> tr m' = count_change (st m) (st m') (tr m) \<and>
         value_at 4 c ps = show_int (tr m')))"

lemma status_nonneg:
  "0 \<le> fst (ncp_link_status E)" "0 \<le> fst (connection_status t)" "0 \<le> fst (ncp_sync_status E)" "0 \<le> fst (stream_status t)"
  "0 \<le> fst inactive_status"
  by (simp_all add: ncp_link_status_def connection_status_def ncp_sync_status_def stream_status_def inactive_status_def
      health_defs Let_def)

lemma counters_of_upd [simp]: "counters_of oid (smap_upd oid c m) = c"
  by (simp add: counters_of_def)

lemma monitor_values [simp]:
  "value_at 4 1 (monitor_props kind uuid a l se sy t src c) = show_int (fst l)"
  "value_at 4 3 (monitor_props kind uuid a l se sy t src c) = show_int (mc_link_transitions c)"
  "value_at 4 4 (monitor_props kind uuid a l se sy t src c) = show_int (fst se)"
  "value_at 4 6 (monitor_props kind uuid a l se sy t src c) = show_int (mc_secondary_transitions c)"
  "value_at 4 7 (monitor_props kind uuid a l se sy t src c) = show_int (fst sy)"
  "value_at 4 9 (monitor_props kind uuid a l se sy t src c) = show_int (mc_sync_transitions c)"
  "value_at 4 11 (monitor_props kind uuid a l se sy t src c) = show_int (fst t)"
  "value_at 4 13 (monitor_props kind uuid a l se sy t src c) = show_int (mc_tertiary_transitions c)"
  by (simp_all add: value_at_def monitor_props_def has_id_def)

lemma receiver_reads:
  assumes "map_of (nd_receivers (co_node s)) i \<noteq> None" "ncp_receiver_monitor_props E i s = (ps, s')"
  shows "\<exists>a b c d. 0 \<le> a \<and> 0 \<le> b \<and> 0 \<le> c \<and> 0 \<le> d \<and>
    (let m = counters_of (receiver_monitor_oid_base + uint i) (co_counters s); m' = observe_statuses a b c d m
     in counters_of (receiver_monitor_oid_base + uint i) (co_counters s') = m' \<and>
        value_at 4 1 ps = show_int a \<and> value_at 4 3 ps = show_int (mc_link_transitions m') \<and>
        value_at 4 4 ps = show_int b \<and> value_at 4 6 ps = show_int (mc_secondary_transitions m') \<and>
        value_at 4 7 ps = show_int c \<and> value_at 4 9 ps = show_int (mc_sync_transitions m') \<and>
        value_at 4 11 ps = show_int d \<and> value_at 4 13 ps = show_int (mc_tertiary_transitions m'))"
proof -
  obtain rr where rr: "map_of (nd_receivers (co_node s)) i = Some rr" using assms(1) by blast
  obtain a b c d src where st: "receiver_statuses E i (rr_active_master_enable rr) s = (a, b, c, d, src)" by (metis prod_cases5)
  have "0 \<le> fst a \<and> 0 \<le> fst b \<and> 0 \<le> fst c \<and> 0 \<le> fst d"
    using st by (auto simp: receiver_statuses_def Let_def status_nonneg split: if_splits)
  moreover have "s' = update_monitor_counters (receiver_monitor_oid_base + uint i) (fst a) (fst b) (fst c) (fst d) s"
    and "\<exists>kind uuid e. ps = monitor_props kind uuid e a b c d src (counters_of (receiver_monitor_oid_base + uint i) (co_counters s'))"
    using assms(2) by (auto simp: ncp_receiver_monitor_props_def rr st Let_def)
  ultimately show ?thesis
    unfolding Let_def by (intro exI[of _ "fst a"] exI[of _ "fst b"] exI[of _ "fst c"] exI[of _ "fst d"])
      (auto simp: update_monitor_counters_def)
qed

lemma countsI:
  assumes "\<And>a b x y m m' ps. \<lbrakk>0 \<le> a; 0 \<le> b; 0 \<le> x; 0 \<le> y; m' = observe_statuses a b x y m;
    value_at 4 1 ps = show_int a; value_at 4 3 ps = show_int (mc_link_transitions m');
    value_at 4 4 ps = show_int b; value_at 4 6 ps = show_int (mc_secondary_transitions m');
    value_at 4 7 ps = show_int x; value_at 4 9 ps = show_int (mc_sync_transitions m');
    value_at 4 11 ps = show_int y; value_at 4 13 ps = show_int (mc_tertiary_transitions m')\<rbrakk> \<Longrightarrow>
    0 \<le> st m' \<and> value_at 4 k ps = show_int (st m') \<and> tr m' = count_change (st m) (st m') (tr m) \<and> value_at 4 c ps = show_int (tr m')"
  shows "counts st tr k c TYPE('d)"
  unfolding counts_def Let_def
proof (intro allI impI)
  fix E :: "'d control_env" and i s ps s'
  assume "map_of (nd_receivers (co_node s)) i \<noteq> None" "ncp_receiver_monitor_props E i s = (ps, s')"
  from receiver_reads[OF this] obtain a b x y where "0 \<le> a" "0 \<le> b" "0 \<le> x" "0 \<le> y"
    and "let m = counters_of (receiver_monitor_oid_base + uint i) (co_counters s); m' = observe_statuses a b x y m
     in counters_of (receiver_monitor_oid_base + uint i) (co_counters s') = m' \<and>
        value_at 4 1 ps = show_int a \<and> value_at 4 3 ps = show_int (mc_link_transitions m') \<and>
        value_at 4 4 ps = show_int b \<and> value_at 4 6 ps = show_int (mc_secondary_transitions m') \<and>
        value_at 4 7 ps = show_int x \<and> value_at 4 9 ps = show_int (mc_sync_transitions m') \<and>
        value_at 4 11 ps = show_int y \<and> value_at 4 13 ps = show_int (mc_tertiary_transitions m')"
    by blast
  then show "0 \<le> st (counters_of (receiver_monitor_oid_base + uint i) (co_counters s')) \<and>
    value_at 4 k ps = show_int (st (counters_of (receiver_monitor_oid_base + uint i) (co_counters s'))) \<and>
    tr (counters_of (receiver_monitor_oid_base + uint i) (co_counters s')) =
      count_change (st (counters_of (receiver_monitor_oid_base + uint i) (co_counters s)))
        (st (counters_of (receiver_monitor_oid_base + uint i) (co_counters s')))
        (tr (counters_of (receiver_monitor_oid_base + uint i) (co_counters s))) \<and>
    value_at 4 c ps = show_int (tr (counters_of (receiver_monitor_oid_base + uint i) (co_counters s')))"
    unfolding Let_def by (intro assms[of a b x y]) simp_all
qed

lemma counts_all:
  "counts mc_link_status mc_link_transitions 1 3 TYPE('d)" "counts mc_secondary_status mc_secondary_transitions 4 6 TYPE('d)"
  "counts mc_sync_status mc_sync_transitions 7 9 TYPE('d)" "counts mc_tertiary_status mc_tertiary_transitions 11 13 TYPE('d)"
  by (rule countsI, simp add: observe_statuses_def)+

lemma show_int_inj: "0 \<le> a \<Longrightarrow> 0 \<le> b \<Longrightarrow> show_int a = show_int b \<longleftrightarrow> a = b"
  by (auto simp: show_int_def dest: arg_cong[of _ _ nat_of_digits])

text \<open>What was last observed, as the properties would show it.\<close>

definition last_shown :: "(monitor_counters \<Rightarrow> int) \<Rightarrow> monitor_counters \<Rightarrow> string list" where
  "last_shown st m = (if st m = - 1 then [] else [show_int (st m)])"

lemma reads_count:
  assumes "counts st tr k c TYPE('d)" "\<forall>(E, nd) \<in> set xs. map_of (nd_receivers nd) i \<noteq> None"
    "n < length (read_receiver xs i s)"
    "m = counters_of (receiver_monitor_oid_base + uint i) (co_counters (s :: 'd control))" "st m = - 1 \<or> 0 \<le> st m"
  shows "value_at 4 c (read_receiver xs i s ! n) =
    show_int (tr m + int (changes (last_shown st m @ map (value_at 4 k) (take (Suc n) (read_receiver xs i s)))))"
  using assms(2-)
proof (induction xs arbitrary: s n m)
  case (Cons x xs)
  obtain E nd where x: "x = (E, nd)" by (cases x)
  obtain ps s1 where 1: "ncp_receiver_monitor_props E i (s\<lparr>co_node := nd\<rparr>) = (ps, s1)" by fastforce
  let ?m1 = "counters_of (receiver_monitor_oid_base + uint i) (co_counters s1)"
  have m1: "0 \<le> st ?m1" "value_at 4 k ps = show_int (st ?m1)" "tr ?m1 = count_change (st m) (st ?m1) (tr m)"
    "value_at 4 c ps = show_int (tr ?m1)"
    using assms(1)[unfolded counts_def Let_def, rule_format, OF _ 1] Cons.prems(1,3) x by simp_all
  have step: "tr m + int (changes (last_shown st m @ show_int (st ?m1) # ys)) = tr ?m1 + int (changes (show_int (st ?m1) # ys))"
    for ys using m1(1,3) Cons.prems(4) by (auto simp: last_shown_def count_change_def show_int_inj)
  have l: "last_shown st ?m1 = [show_int (st ?m1)]" using m1(1) by (simp add: last_shown_def)
  show ?case
  proof (cases n)
    case 0
    then show ?thesis using step[of "[]"] m1 by (simp add: x 1)
  next
    case (Suc j)
    then have "j < length (read_receiver xs i s1)" using Cons.prems(2) by (simp add: x 1)
    from Cons.IH[OF _ this refl] Cons.prems(1) m1(1)
    have "value_at 4 c (read_receiver xs i s1 ! j) =
        show_int (tr ?m1 + int (changes (show_int (st ?m1) # map (value_at 4 k) (take (Suc j) (read_receiver xs i s1)))))"
      by (simp add: x l)
    then show ?thesis using step[of "map (value_at 4 k) (take (Suc j) (read_receiver xs i s1))"] m1(2) by (simp add: x 1 Suc)
  qed
qed simp

text \<open>C23: the transition counters count the transitions.  When the monitor of a receiver is read any number of times,
  whatever the links, the clock, the driver and the node do in between, each reading shows for
  each of its four statuses as its transition counter the number of times the status
  differs between one reading and the next so far.\<close>

theorem counters_count_transitions:
  assumes "\<forall>(E, nd) \<in> set xs. map_of (nd_receivers nd) i \<noteq> None"
    "map_of (co_counters s) (receiver_monitor_oid_base + uint i) = None" "n < length xs"
    "(k, c) \<in> {(1, 3), (4, 6), (7, 9), (11, 13)}"
  shows "value_at 4 c (read_receiver xs i s ! n) = show_int (int (changes (map (value_at 4 k) (take (Suc n) (read_receiver xs i s)))))"
proof -
  have len: "length (read_receiver xs i s) = length xs" for s
    by (induction xs arbitrary: s) (auto split: prod.split)
  have new: "counters_of (receiver_monitor_oid_base + uint i) (co_counters s) = new_counters"
    using assms(2) by (simp add: counters_of_def)
  have "value_at 4 c (read_receiver xs i s ! n) = show_int (int (changes (map (value_at 4 k) (take (Suc n) (read_receiver xs i s)))))"
    if "counts st tr k c TYPE('a)" "st new_counters = - 1" "tr new_counters = 0" for st tr
    using reads_count[OF that(1) assms(1), of n s new_counters] that(2,3) assms(3)
    by (simp add: len new last_shown_def)
  then show ?thesis
    using assms(4) counts_all[where 'd = 'a] by (auto simp: new_counters_def)
qed

end
