(* ===== verification/Control_Samples.thy ===== *)
theory Control_Samples
  imports Control_Props Node_Props
begin

text \<open>The theorems of \<open>Control_Props\<close> at work: the node of \<open>Node_Props\<close>, whose receiver is active, with one
  network interface that is up or down.\<close>

definition sample_control_env :: "bool \<Rightarrow> fake_driver control_env" where
  "sample_control_env up = \<lparr>ct_node = sample_node_env,
     ct_net = \<lparr>nw_addrs = [], nw_socket = True, nw_ifaddr = (\<lambda>_. None), nw_hwaddr = (\<lambda>_. None), nw_ifindex = (\<lambda>_. None),
       nw_running = (\<lambda>_. Some up), nw_arp = [], nw_text = (\<lambda>_. [])\<rparr>,
     ct_stream_status = fake_get_rtp_stream_status, ct_long = stoi\<rparr>"

definition sample_active_node :: "fake_driver node" where
  "sample_active_node = sample_node\<lparr>nd_receivers :=
     [(5, new_receiver\<lparr>rr_receiver_id := ''receiver-5'', rr_active_master_enable := True\<rparr>)]\<rparr>"

definition subscribe_text :: string where
  "subscribe_text = json_map [(''messageType'', ''3''), (''subscriptions'', ''[105]'')]"

lemma sample_reads: "json_read subscribe_text =
    Some (Ptree [] [(''messageType'', leaf ''3''), (''subscriptions'', Ptree [] [([], leaf ''105'')])])"
  by code_simp

lemma sample_links:
  "ncp_link_status (sample_control_env True) = (1, ''null'')"
  "fst (ncp_link_status (sample_control_env False)) = 3"
  by code_simp+

text \<open>A client connects and subscribes to the monitor of the receiver, and the worker takes its baseline; then the
  link goes down.\<close>

definition sample_opening :: "fake_driver control_event list" where
  "sample_opening = [Connects, Message (sample_control_env True) 0 subscribe_text, Round (sample_control_env True)]"

definition sample_follow :: "fake_driver control_event list" where
  "sample_follow = [Node_changes sample_active_node, Round (sample_control_env False)]"

lemma sample_opening_run:
  "map_option (\<lambda>s. (listening_run 0 105 sample_follow s, known_copy 105 s (4, 1))) (control_run sample_opening (control_init sample_active_node))
     = Some (True, Some ''1'')"
  by code_simp

lemma sample_follow_run:
  "map_option (\<lambda>s. known_copy 105 s (4, 1)) (control_run (sample_opening @ sample_follow) (control_init sample_active_node)) = Some (Some ''3'')"
  by code_simp

lemma control_run_append: "control_run (es @ fs) s = (case control_run es s of None \<Rightarrow> None | Some s \<Rightarrow> control_run fs s)"
  by (induction es arbitrary: s) (auto split: option.split)

theorem client_copy_current_witness:
  "\<exists>s s' ms. control_run sample_opening (control_init sample_active_node) = Some s \<and> control_run sample_follow s = Some s' \<and>
     is_outbox (co_sessions s' ! 0) = is_outbox (co_sessions s ! 0) @ map msg_text ms \<and>
     known_copy 105 s (4, 1) = Some ''1'' \<and> fold (learn 105) ms (known_copy 105 s) (4, 1) = Some ''3''"
proof -
  obtain s where s: "control_run sample_opening (control_init sample_active_node) = Some s" "listening_run 0 105 sample_follow s"
    "known_copy 105 s (4, 1) = Some ''1''" using sample_opening_run by auto
  then obtain s' where s': "control_run sample_follow s = Some s'" "known_copy 105 s' (4, 1) = Some ''3''"
    using sample_follow_run by (auto simp: control_run_append)
  show ?thesis using client_copy_current[OF s(1) s'(1) s(2)] s s' by force
qed

theorem described_are_answered_witness:
  "\<exists>name ds ms. nc_class [1, 2, 2, 1] = Some (name, ds, ms) \<and>
    fst (fst (get_property (sample_control_env True) 105 4 1 (control_init sample_active_node))) = 200 \<and>
    fst (fst (set_property (sample_control_env True) 105 4 1 None (control_init sample_active_node))) \<noteq> 200"
proof -
  have m: "(105, ''ReceiverMonitor5'', [1, 2, 2, 1]) \<in> set (nc_members (control_init sample_active_node))" by code_simp
  have "fst ` set (nd_receivers (co_node (control_init sample_active_node))) \<union>
      fst ` set (nd_senders (co_node (control_init sample_active_node))) \<subseteq> {..<64}"
    by (simp add: control_init_def sample_active_node_def sample_node_def)
  from described_are_answered[OF m this, of "sample_control_env True"] show ?thesis
    by (auto simp: nc_class_def monitor_described monitor_keys_def)
qed

text \<open>Two commands: the first status of the receiver, and a class that does not exist.\<close>

definition sample_command :: "int \<Rightarrow> int \<Rightarrow> int \<times> int \<Rightarrow> string \<Rightarrow> string" where
  "sample_command h oid m args = json_map [(''handle'', show_int h), (''oid'', show_int oid),
     (''methodId'', json_id (fst m) (snd m)), (''arguments'', args)]"

definition sample_commands :: string where
  "sample_commands = json_map [(''messageType'', ''0''), (''commands'', json_list
     [sample_command 7 105 (1, 1) (json_map [(''id'', json_id 4 1)]),
      sample_command 8 3 (3, 1) (json_map [(''classId'', ''[9]'')])])]"

definition sample_command_tree :: "string \<Rightarrow> string \<Rightarrow> string \<Rightarrow> string \<Rightarrow> ptree \<Rightarrow> string \<times> ptree" where
  "sample_command_tree h oid l i args = ([], Ptree [] [(''handle'', leaf h), (''oid'', leaf oid),
     (''methodId'', Ptree [] [(''level'', leaf l), (''index'', leaf i)]), (''arguments'', args)])"

definition sample_commands_list :: ptree where
  "sample_commands_list = Ptree []
     [sample_command_tree ''7'' ''105'' ''1'' ''1'' (Ptree [] [(''id'', Ptree [] [(''level'', leaf ''4''), (''index'', leaf ''1'')])]),
      sample_command_tree ''8'' ''3'' ''3'' ''1'' (Ptree [] [(''classId'', Ptree [] [([], leaf ''9'')])])]"

lemma sample_commands_read:
  "json_read sample_commands = Some (Ptree [] [(''messageType'', leaf ''0''), (''commands'', sample_commands_list)])"
  by code_simp

definition sample_connected :: "fake_driver control" where
  "sample_connected = is12_connect (control_init sample_active_node)"

lemma sample_commands_pass: "fst (handle_is12_message (sample_control_env True) sample_commands 0 sample_connected) = None"
  by code_simp

lemma sample_commands_reply:
  "is_outbox (co_sessions (snd (handle_is12_message (sample_control_env True) sample_commands 0 sample_connected)) ! 0) =
     [command_response [response_entry 7 (200, ''1'', []), response_entry 8 (404, ''null'', ''Unknown classId'')]]"
  by code_simp

theorem every_command_answered_witness:
  "\<exists>s' results. handle_is12_message (sample_control_env True) sample_commands 0 sample_connected = (None, s') \<and>
     length results = 2 \<and> list_all result_ok results \<and> co_node s' = co_node sample_connected \<and>
     length (is_outbox (co_sessions s' ! 0)) = 1"
proof -
  obtain s' where s': "handle_is12_message (sample_control_env True) sample_commands 0 sample_connected = (None, s')"
    using sample_commands_pass by (metis prod.collapse)
  have lib: "node_lib (ct_node (sample_control_env True)) = sample_lib\<lparr>pl_int := stoi\<rparr>"
    by (simp add: sample_control_env_def sample_node_lib)
  have r: "pl_read (node_lib (ct_node (sample_control_env True))) sample_commands =
      Inr (Ptree [] [(''messageType'', leaf ''0''), (''commands'', sample_commands_list)])"
    unfolding lib using sample_commands_read by (simp add: sample_lib_def)
  have t: "get_or (pl_int (node_lib (ct_node (sample_control_env True)))) ''messageType'' (- 1)
      (Ptree [] [(''messageType'', leaf ''0''), (''commands'', sample_commands_list)]) = 0" by code_simp
  have c: "get_child ''commands'' (Ptree [] [(''messageType'', leaf ''0''), (''commands'', sample_commands_list)]) = Inr sample_commands_list"
    by (simp add: get_child_def)
  have n: "0 < length (co_sessions sample_connected)" by (simp add: sample_connected_def is12_connect_def)
  obtain results where res: "length results = length (tree_kids sample_commands_list)" "list_all result_ok results"
    "co_node s' = co_node sample_connected"
    using every_command_answered[OF r t c s' n] by blast
  have len: "length (tree_kids sample_commands_list) = 2" by (simp add: sample_commands_list_def)
  show ?thesis
    unfolding s' using res sample_commands_reply unfolding s' len by (intro exI[of _ s'] exI[of _ results]) simp
qed

text \<open>The link of the receiver's interface goes down and comes back.\<close>

definition sample_readings :: "(fake_driver control_env \<times> fake_driver node) list" where
  "sample_readings = [(sample_control_env True, sample_active_node), (sample_control_env False, sample_active_node),
     (sample_control_env True, sample_active_node)]"

lemma sample_link_values: "map (value_at 4 1) (read_receiver sample_readings 5 (control_init sample_active_node)) = [''1'', ''3'', ''1'']"
  by code_simp

theorem counters_count_transitions_witness:
  "value_at 4 3 (read_receiver sample_readings 5 (control_init sample_active_node) ! 2) = ''2''"
proof -
  have "\<forall>(E, nd) \<in> set sample_readings. map_of (nd_receivers nd) 5 \<noteq> None"
    by (simp add: sample_readings_def sample_active_node_def)
  from counters_count_transitions[OF this, of "control_init sample_active_node" 2 1 3]
  have "value_at 4 3 (read_receiver sample_readings 5 (control_init sample_active_node) ! 2) =
      show_int (int (changes (take 3 [''1'', ''3'', ''1''])))"
    using sample_link_values by (simp add: control_init_def sample_readings_def numeral_3_eq_3 flip: take_map)
  also have "\<dots> = ''2''" by code_simp
  finally show ?thesis .
qed

text \<open>A subscription to a text ends the process.\<close>

lemma text_subscription_ends:
  "fst (serve_is12_connection (sample_control_env True) 0
     [json_map [(''messageType'', ''3''), (''subscriptions'', json_list [quoted ''x''])]] sample_connected) = False"
  by code_simp

end
