(* ===== verification/Am824.thy ===== *)
theory Am824
  imports Prelude
begin

text \<open>
  The AM824 player (\<open>wavplay_am824/\<close>): the framer that turns PCM samples into AES3 subframes with a
  channel status block, the conversion of a wave file, the playback callback, the file header and
  the command line.  PortAudio and libsndfile are left out: a file is what \<open>sf_open\<close> reports of
  it, and the callback is called with a number of frames.  Memory accesses outside a buffer
  are \<^const>\<open>None\<close>.
\<close>

unbundle bit_operations_syntax

subsection \<open>The framer\<close>

datatype am824_endian = Am824_big_endian | Am824_little_endian

datatype am824_error = Am824_ok | Bad_sampling_frequency | Unsupported_bitdepth

record framer =
  fr_status_index :: u8
  fr_status_mask :: u8
  fr_channel_status :: "u8 list"
  fr_sub_frame :: u8
  fr_channels :: u8
  fr_bit_depth :: u8
  fr_endian :: am824_endian

function parity_loop :: "u8 \<Rightarrow> u32 \<Rightarrow> u8" where
  "parity_loop parity n = (if n = 0 then parity else parity_loop (1 - parity) (n AND (n - 1)))"
  by pat_completeness auto
termination
proof (relation "measure (\<lambda>(_, n). unat n)")
  fix n :: u32
  assume "n \<noteq> 0"
  then have "unat (n - 1) < unat n" by (simp add: unat_minus_one unat_gt_0)
  moreover have "n AND (n - 1) \<le> n - 1" by (rule word_and_le1)
  ultimately show "((1 - p, n AND (n - 1)), (p, n)) \<in> measure (\<lambda>(_, n). unat n)" for p :: u8
    by (simp add: word_less_nat_alt word_le_nat_alt)
qed simp

declare parity_loop.simps [simp del]

definition get_parity :: "u32 \<Rightarrow> u8" where
  "get_parity n = parity_loop 0 n"

definition reflected_polynomial :: u8 where
  "reflected_polynomial = 0xb8"

definition crc8_bit :: "u8 \<Rightarrow> u8" where
  "crc8_bit r = (if bit r 0 then drop_bit 1 r XOR reflected_polynomial else drop_bit 1 r)"

text \<open>An entry of the table, and the check byte of a channel status block.\<close>

definition crc8_entry :: "u8 \<Rightarrow> u8" where
  "crc8_entry dividend = (crc8_bit ^^ 8) dividend"

definition set_crc :: "framer \<Rightarrow> framer" where
  "set_crc f = f\<lparr>fr_channel_status :=
     (fr_channel_status f)[23 := fold (\<lambda>b remainder. crc8_entry (b XOR remainder)) (take 23 (fr_channel_status f)) 0xff]\<rparr>"

definition on_status :: "nat \<Rightarrow> (u8 \<Rightarrow> u8) \<Rightarrow> framer \<Rightarrow> framer" where
  "on_status n g f = f\<lparr>fr_channel_status := (fr_channel_status f)[n := g (fr_channel_status f ! n)]\<rparr>"

definition depth_status :: "u8 \<Rightarrow> u8 option" where
  "depth_status depth =
     (if depth = 16 then Some 0x08 else if depth = 20 then Some (4 OR 0x08) else if depth = 24 then Some (4 OR 0x28) else None)"

definition am824_framer :: "u8 \<Rightarrow> u8 \<Rightarrow> am824_endian \<Rightarrow> am824_error \<times> framer" where
  "am824_framer channels depth e =
     (let f = \<lparr>fr_status_index = 0, fr_status_mask = 1, fr_channel_status = replicate 24 0, fr_sub_frame = 0,
                fr_channels = channels, fr_bit_depth = depth, fr_endian = e\<rparr>;
          f = on_status 0 (\<lambda>b. b OR 1 OR 2 OR 0x80) f
      in case depth_status depth of
           None \<Rightarrow> (Unsupported_bitdepth, f)
         | Some s \<Rightarrow> (Am824_ok, set_crc (on_status 2 (\<lambda>b. b OR s) f)))"

definition set_sampling_frequency :: "u8 \<Rightarrow> framer \<Rightarrow> am824_error \<times> framer" where
  "set_sampling_frequency fs f =
     (if 3 < fs then (Bad_sampling_frequency, f)
      else (Am824_ok, set_crc (on_status 0 (\<lambda>b. (b AND 0x3f) OR push_bit 6 fs) f)))"

definition set_professional_mode :: "framer \<Rightarrow> framer" where
  "set_professional_mode f = set_crc (on_status 0 (\<lambda>b. b OR 1) f)"

definition set_consumer_mode :: "framer \<Rightarrow> framer" where
  "set_consumer_mode f = set_crc (on_status 0 (\<lambda>b. b AND 0xfe) f)"

definition set_audio_mode :: "framer \<Rightarrow> framer" where
  "set_audio_mode f = set_crc (on_status 0 (\<lambda>b. b AND 0xfd) f)"

definition set_data_mode :: "framer \<Rightarrow> framer" where
  "set_data_mode f = set_crc (on_status 0 (\<lambda>b. b OR 2) f)"

text \<open>The subframe of a sample: the sample itself, the flags and the parity.\<close>

definition am824_word :: "framer \<Rightarrow> u32 \<Rightarrow> u32" where
  "am824_word f input =
     (let out = (if fr_bit_depth f = 16 then push_bit 8 input else input);
          out = (if fr_status_index f = 0 \<and> fr_status_mask f = 1 then out OR push_bit 29 1 else out);
          out = (if fr_sub_frame f = 0 then out OR push_bit 28 1 else out);
          status_bit = (fr_channel_status f ! unat (fr_status_index f) AND fr_status_mask f \<noteq> 0);
          out = out OR push_bit 26 (of_bool status_bit)
      in out OR push_bit 27 (ucast (get_parity out)))"

definition am824_advance :: "framer \<Rightarrow> framer" where
  "am824_advance f =
     (let sub = fr_sub_frame f + 1
      in if sub \<noteq> fr_channels f then f\<lparr>fr_sub_frame := sub\<rparr>
         else if fr_status_mask f = 0x80 then
           f\<lparr>fr_sub_frame := 0, fr_status_mask := 1,
             fr_status_index := (if fr_status_index f + 1 = 24 then 0 else fr_status_index f + 1)\<rparr>
         else f\<lparr>fr_sub_frame := 0, fr_status_mask := push_bit 1 (fr_status_mask f)\<rparr>)"

definition word_bytes :: "am824_endian \<Rightarrow> u32 \<Rightarrow> u8 list" where
  "word_bytes e w =
     (let bs = map (\<lambda>i. ucast (drop_bit (8 * i) w)) [0..<4] in case e of Am824_big_endian \<Rightarrow> rev bs | Am824_little_endian \<Rightarrow> bs)"

definition get_am824_sample :: "u32 \<Rightarrow> framer \<Rightarrow> u8 list \<times> framer" where
  "get_am824_sample input f = (word_bytes (fr_endian f) (am824_word f input), am824_advance f)"

fun get_am824_samples :: "u32 list \<Rightarrow> framer \<Rightarrow> u8 list \<times> framer" where
  "get_am824_samples [] f = ([], f)"
| "get_am824_samples (x # xs) f =
     (let (bs, f) = get_am824_sample x f; (cs, f) = get_am824_samples xs f in (bs @ cs, f))"

subsection \<open>The player\<close>

datatype file_format = FF_pcm | FF_float32

datatype player_error =
    Err_file_not_found
  | Err_bad_input_file
  | Err_bad_wav_format
  | Err_incomplete_input_file
  | Err_not_supported
  | Err_bad_cmd_option
  | Err_no_memory
  | Err_no_device
  | Undefined_access

record user_data =
  ud_frame_index :: nat
  ud_max_frame_index :: nat
  ud_channels :: nat
  ud_bytes_per_sample :: nat
  ud_audio :: "u8 list"
  ud_format :: file_format
  ud_bits_per_sample :: nat
  ud_fs :: nat
  ud_block_align :: nat
  ud_total_bytes :: nat
  ud_am824_audio :: bool
  ud_am824_fs :: u8
  ud_am824_fs_match :: bool
  ud_am824_professional :: bool

text \<open>What libsndfile reports of a file: container, encoding, rate, channels and frames.\<close>

datatype sf_type = Sf_wav | Sf_wavex | Sf_rf64 | Sf_other_type

datatype sf_encoding = Sf_pcm_16 | Sf_pcm_24 | Sf_pcm_32 | Sf_float | Sf_other_encoding

record sf_info =
  sf_container :: sf_type
  sf_coding :: sf_encoding
  sf_rate :: nat
  sf_channels :: nat
  sf_frames :: nat

fun coding_format :: "sf_encoding \<Rightarrow> (file_format \<times> nat) option" where
  "coding_format Sf_pcm_16 = Some (FF_pcm, 16)"
| "coding_format Sf_pcm_24 = Some (FF_pcm, 24)"
| "coding_format Sf_pcm_32 = Some (FF_pcm, 32)"
| "coding_format Sf_float = Some (FF_float32, 32)"
| "coding_format Sf_other_encoding = None"

definition read_wav_file_header :: "sf_info option \<Rightarrow> user_data \<Rightarrow> player_error + user_data" where
  "read_wav_file_header file d =
     (case file of
        None \<Rightarrow> Inl Err_file_not_found
      | Some i \<Rightarrow>
          if sf_container i = Sf_rf64 then Inl Err_not_supported
          else if sf_container i \<noteq> Sf_wav \<and> sf_container i \<noteq> Sf_wavex then Inl Err_bad_input_file
          else (case coding_format (sf_coding i) of
                  None \<Rightarrow> Inl Err_not_supported
                | Some (fmt, bits) \<Rightarrow>
                    Inr (d\<lparr>ud_fs := sf_rate i, ud_channels := sf_channels i, ud_format := fmt, ud_bits_per_sample := bits,
                          ud_bytes_per_sample := bits div 8, ud_block_align := sf_channels i * (bits div 8),
                          ud_total_bytes := sf_channels i * (bits div 8) * sf_frames i\<rparr>)))"

definition read_entire_wav_file :: "u8 list \<Rightarrow> user_data \<Rightarrow> player_error + u8 list" where
  "read_entire_wav_file contents d =
     (if length (take (ud_total_bytes d) contents) \<noteq> ud_total_bytes d then Inl Err_incomplete_input_file
      else Inr (take (ud_total_bytes d) contents))"

definition fs_code :: "nat \<Rightarrow> u8" where
  "fs_code fs = (if fs = 32000 then 3 else if fs = 44100 then 1 else if fs = 48000 then 2 else 0)"

definition configure_framer :: "user_data \<Rightarrow> framer \<Rightarrow> framer" where
  "configure_framer d f =
     (let f = (if ud_am824_audio d then set_audio_mode f else set_data_mode f);
          f = snd (set_sampling_frequency (if ud_am824_fs_match d then fs_code (ud_fs d) else ud_am824_fs d) f)
      in if ud_am824_professional d then set_professional_mode f else set_consumer_mode f)"

text \<open>A load of \<open>n\<close> bytes, least significant first.\<close>

definition load :: "nat \<Rightarrow> u8 list \<Rightarrow> nat \<Rightarrow> u32 option" where
  "load n mem p = (if p + n \<le> length mem then Some (of_le (take n (drop p mem))) else None)"

text \<open>A sample of three bytes is loaded as four, of which one is masked off.\<close>

definition load_sample :: "nat \<Rightarrow> u8 list \<Rightarrow> nat \<Rightarrow> u32 option" where
  "load_sample bytes mem p =
     (if bytes = 3 then map_option (\<lambda>w. w AND 0xffffff) (load 4 mem p) else load 2 mem p)"

text \<open>The samples from \<open>p\<close> on; \<open>total\<close> bytes are converted, a frame at a time.\<close>

fun load_samples :: "nat \<Rightarrow> u8 list \<Rightarrow> nat \<Rightarrow> nat \<Rightarrow> u32 list option" where
  "load_samples bytes mem 0 p = Some []"
| "load_samples bytes mem (Suc n) p =
     (case load_sample bytes mem p of
        None \<Rightarrow> None
      | Some x \<Rightarrow> map_option (Cons x) (load_samples bytes mem n (p + bytes)))"

definition am824_convert :: "user_data \<Rightarrow> u8 list \<Rightarrow> player_error + u8 list \<times> user_data" where
  "am824_convert d audio =
     (if ud_bytes_per_sample d \<noteq> 3 \<and> ud_bytes_per_sample d \<noteq> 2 then Inl Err_not_supported
      else (let f = configure_framer d (snd (am824_framer (of_nat (ud_channels d)) (of_nat (ud_bytes_per_sample d * 8)) Am824_little_endian));
                frame = ud_channels d * ud_bytes_per_sample d;
                frames = (ud_total_bytes d + frame - 1) div frame
            in case load_samples (ud_bytes_per_sample d) audio (frames * ud_channels d) 0 of
                 None \<Rightarrow> Inl Undefined_access
               | Some xs \<Rightarrow>
                   Inr (fst (get_am824_samples xs f),
                        d\<lparr>ud_total_bytes := ud_total_bytes d * 4 div ud_bytes_per_sample d, ud_bytes_per_sample := 4,
                          ud_bits_per_sample := 32, ud_block_align := ud_channels d * 4\<rparr>)))"

text \<open>The callback: the buffer it fills, whether it is the last one, and the data.\<close>

definition play_callback :: "nat \<Rightarrow> user_data \<Rightarrow> u8 list \<times> bool \<times> user_data" where
  "play_callback frames d =
     (let n = ud_channels d * ud_bytes_per_sample d;
          left = ud_max_frame_index d - ud_frame_index d;
          rest = drop (ud_frame_index d * n) (ud_audio d)
      in if left < frames
         then (take (left * n) rest @ replicate ((frames - left) * n) 0, True, d\<lparr>ud_frame_index := ud_frame_index d + left\<rparr>)
         else (take (frames * n) rest, False, d\<lparr>ud_frame_index := ud_frame_index d + frames\<rparr>))"

fun play :: "nat list \<Rightarrow> user_data \<Rightarrow> u8 list" where
  "play [] d = []"
| "play (n # ns) d = (let (buf, complete, d) = play_callback n d in if complete then buf else buf @ play ns d)"

definition start_playback :: "u8 list \<Rightarrow> user_data \<Rightarrow> user_data" where
  "start_playback audio d =
     d\<lparr>ud_frame_index := 0, ud_max_frame_index := ud_total_bytes d div ud_block_align d, ud_audio := audio\<rparr>"

subsection \<open>Parity\<close>

definition ones :: "u32 \<Rightarrow> nat set" where
  "ones w = {i. bit w i}"

lemma ones_finite [simp]: "finite (ones w)"
  by (rule finite_subset[of _ "{..<32}"]) (auto simp: ones_def dest: bit_imp_le_length)

lemma clear_lowest:
  assumes "n \<noteq> 0"
  obtains k where "k \<in> ones n" "ones (n AND (n - 1)) = ones n - {k}"
proof -
  obtain i where "bit n i" using assms by (metis bit_eq_iff bit_0_eq bot_apply bot_bool_def)
  define k where "k = (LEAST i. bit n i)"
  have k: "bit n k" and low: "\<And>i. i < k \<Longrightarrow> \<not> bit n i"
    using \<open>bit n i\<close> unfolding k_def by (rule LeastI) (rule not_less_Least, simp)
  have k32: "k < 32" using bit_imp_le_length[OF k] by simp
  define hi where "hi = n AND NOT (mask (Suc k))"
  have bhi: "bit hi i \<longleftrightarrow> bit n i \<and> k < i" for i
    using bit_imp_le_length[of n i] by (auto simp: hi_def bit_simps)
  have exp: "bit (2 ^ k :: u32) i \<longleftrightarrow> i = k" for i using k32 by (auto simp: bit_exp_iff)
  have "bit n i \<longleftrightarrow> bit (hi OR 2 ^ k) i" for i
    using low[of i] k by (simp add: bit_or_iff bhi exp) (metis linorder_neqE_nat)
  then have "n = hi OR 2 ^ k" by (rule bit_eqI)
  also have "\<dots> = hi + 2 ^ k" by (rule disjunctive_add[symmetric]) (simp add: bhi exp)
  finally have "n - 1 = hi + mask k" by (simp add: mask_eq_exp_minus_1)
  also have "\<dots> = hi OR mask k" by (rule disjunctive_add) (auto simp: bhi bit_mask_iff)
  finally have "bit (n AND (n - 1)) i \<longleftrightarrow> bit hi i" for i
    using low by (auto simp: bit_and_iff bit_or_iff bhi bit_mask_iff)
  then have "ones (n AND (n - 1)) = ones n - {k}" using low by (auto simp: ones_def bhi) (metis linorder_neqE_nat)
  then show ?thesis using that k by (simp add: ones_def)
qed

lemma parity_loop_eq: "p \<in> {0, 1} \<Longrightarrow> parity_loop p n = (if odd (card (ones n)) then 1 - p else p)"
proof (induction p n rule: parity_loop.induct)
  case (1 p n)
  show ?case
  proof (cases "n = 0")
    case True
    then show ?thesis by (subst parity_loop.simps) (simp add: ones_def)
  next
    case False
    then obtain k where k: "k \<in> ones n" "ones (n AND (n - 1)) = ones n - {k}" by (rule clear_lowest)
    have "card (ones n) = Suc (card (ones (n AND (n - 1))))"
      using k card_Suc_Diff1[OF ones_finite k(1)] by simp
    then show ?thesis using "1.IH"[OF False] "1.prems" False by (subst parity_loop.simps) auto
  qed
qed

lemma get_parity_eq: "get_parity n = of_bool (odd (card (ones n)))"
  by (simp add: get_parity_def parity_loop_eq)

subsection \<open>What a subframe carries\<close>

lemma samples_Cons:
  "fst (get_am824_samples (x # xs) f) = word_bytes (fr_endian f) (am824_word f x) @ fst (get_am824_samples xs (am824_advance f))"
  "snd (get_am824_samples (x # xs) f) = snd (get_am824_samples xs (am824_advance f))"
  by (simp_all add: get_am824_sample_def split_beta)

lemma advance_keeps [simp]: "fr_endian (am824_advance f) = fr_endian f" "fr_bit_depth (am824_advance f) = fr_bit_depth f"
  "fr_channel_status (am824_advance f) = fr_channel_status f"
  by (simp_all add: am824_advance_def Let_def)


definition carries :: "u32 \<Rightarrow> u32 \<Rightarrow> bool \<Rightarrow> bool \<Rightarrow> bool \<Rightarrow> bool" where
  "carries w audio status frame block \<longleftrightarrow> take_bit 24 w = audio \<and> \<not> bit w 24 \<and> \<not> bit w 25 \<and> bit w 26 = status \<and>
     bit w 28 = frame \<and> bit w 29 = block \<and> \<not> bit w 30 \<and> \<not> bit w 31 \<and> even (card (ones w))"

lemma parity_bit:
  assumes "\<not> bit out 27"
  shows "ones (out OR push_bit 27 (ucast (get_parity out))) = (if odd (card (ones out)) then insert 27 (ones out) else ones out)"
  by (auto simp: ones_def get_parity_eq bit_simps)

lemma high_bits:
  fixes w :: u32
  assumes "w < 2 ^ 24" "24 \<le> i"
  shows "\<not> bit w i"
proof
  assume "bit w i"
  then have "bit (unat w) i" using bit_imp_le_length[of w i] by (simp add: bit_unsigned_iff)
  moreover have "unat w < 2 ^ 24" using assms(1) by (simp add: word_less_nat_alt)
  then have "unat w div 2 ^ i = 0" using power_increasing[OF assms(2), of "2 :: nat"] by simp
  ultimately show False by (simp add: bit_iff_odd)
qed

lemma flagged_carries:
  fixes audio :: u32 and block frame status :: bool
  assumes "audio < 2 ^ 24"
  defines "out \<equiv> audio OR push_bit 29 (of_bool block) OR push_bit 28 (of_bool frame) OR push_bit 26 (of_bool status)"
  shows "carries (out OR push_bit 27 (ucast (get_parity out))) audio status frame block"
proof -
  define w where "w = (out OR push_bit 27 (ucast (get_parity out)) :: u32)"
  have high: "\<not> bit audio i" if "24 \<le> i" for i
    using high_bits[of audio i] assms(1) that by simp
  have out27: "\<not> bit out 27" using high by (simp add: out_def bit_simps)
  have bw: "bit w i \<longleftrightarrow> bit out i" if "i \<noteq> 27" for i using that by (auto simp: w_def bit_simps get_parity_eq)
  have "ones w = (if odd (card (ones out)) then insert 27 (ones out) else ones out)"
    unfolding w_def by (rule parity_bit[OF out27])
  then have even: "even (card (ones w))" using out27 by (auto simp: ones_def)
  have "bit (take_bit 24 w) i = bit audio i" for i
    using high[of i] bw[of i] by (cases "i < 24") (auto simp: bit_take_bit_iff out_def bit_simps)
  then have "take_bit 24 w = audio" by (rule bit_eqI)
  moreover have "\<not> bit out 24" "\<not> bit out 25" "bit out 26 = status" "bit out 28 = frame" "bit out 29 = block"
    "\<not> bit out 30" "\<not> bit out 31" using high by (simp_all add: out_def bit_simps)
  ultimately have "carries w audio status frame block" using even by (simp add: carries_def bw)
  then show ?thesis by (simp add: w_def)
qed

text \<open>Every mode of the block.\<close>

datatype am824_mode = Professional | Consumer | Audio_mode | Data_mode | Sampling u8

fun set_mode :: "am824_mode \<Rightarrow> framer \<Rightarrow> framer" where
  "set_mode Professional f = set_professional_mode f"
| "set_mode Consumer f = set_consumer_mode f"
| "set_mode Audio_mode f = set_audio_mode f"
| "set_mode Data_mode f = set_data_mode f"
| "set_mode (Sampling fs) f = snd (set_sampling_frequency fs f)"

lemmas mode_defs = set_professional_mode_def set_consumer_mode_def set_audio_mode_def set_data_mode_def
  set_sampling_frequency_def

definition same_place :: "framer \<Rightarrow> framer \<Rightarrow> bool" where
  "same_place f g \<longleftrightarrow> fr_status_index g = fr_status_index f \<and> fr_status_mask g = fr_status_mask f \<and> fr_sub_frame g = fr_sub_frame f \<and>
     fr_channels g = fr_channels f \<and> fr_bit_depth g = fr_bit_depth f \<and> fr_endian g = fr_endian f \<and>
     length (fr_channel_status g) = length (fr_channel_status f)"

lemma same_place_modes: "same_place f (fold set_mode ms f)"
proof (induction ms arbitrary: f)
  case (Cons m ms)
  have "same_place f (set_mode m f)"
    by (cases m) (auto simp: mode_defs set_crc_def on_status_def same_place_def)
  then show ?case using Cons[of "set_mode m f"] by (simp add: same_place_def)
qed (simp add: same_place_def)

lemma new_framer:
  assumes "am824_framer n d e = (Am824_ok, f)"
  shows "fr_status_index f = 0 \<and> fr_status_mask f = 1 \<and> fr_sub_frame f = 0 \<and> fr_channels f = n \<and> fr_bit_depth f = d \<and>
    fr_endian f = e \<and> length (fr_channel_status f) = 24"
  using assms by (auto simp: am824_framer_def Let_def set_crc_def on_status_def split: option.splits)

subsection \<open>The stream\<close>

text \<open>Where the framer stands before sample \<open>k\<close>.\<close>

definition at_sample :: "nat \<Rightarrow> nat \<Rightarrow> framer \<Rightarrow> bool" where
  "at_sample n k f \<longleftrightarrow> unat (fr_channels f) = n \<and> unat (fr_sub_frame f) = k mod n \<and>
     unat (fr_status_index f) = k div n mod 192 div 8 \<and> fr_status_mask f = 2 ^ (k div n mod 8)"

lemma mask_last: "(2 ^ (m mod 8) :: u8) = 0x80 \<longleftrightarrow> m mod 8 = 7" "(2 ^ (m mod 8) :: u8) = 1 \<longleftrightarrow> m mod 8 = 0"
proof -
  have "m mod 8 \<in> {0, 1, 2, 3, 4, 5, 6, 7}" by (simp, presburger)
  then show "(2 ^ (m mod 8) :: u8) = 0x80 \<longleftrightarrow> m mod 8 = 7" "(2 ^ (m mod 8) :: u8) = 1 \<longleftrightarrow> m mod 8 = 0" by auto
qed

lemma status_place: "m mod 192 div 8 = m div 8 mod 24" "m mod 192 = 0 \<longleftrightarrow> m div 8 mod 24 = 0 \<and> m mod 8 = 0" for m :: nat
proof -
  have m: "m mod 192 = 8 * (m div 8 mod 24) + m mod 8" using mod_mult2_eq[of m 8 24] by simp
  then show "m mod 192 div 8 = m div 8 mod 24" by simp
  show "m mod 192 = 0 \<longleftrightarrow> m div 8 mod 24 = 0 \<and> m mod 8 = 0" by (subst m) simp
qed

lemma block_place:
  "m mod 8 = 7 \<Longrightarrow> m mod 192 div 8 = 23 \<Longrightarrow> Suc m mod 192 div 8 = 0"
  "m mod 8 = 7 \<Longrightarrow> m mod 192 div 8 \<noteq> 23 \<Longrightarrow> Suc m mod 192 div 8 = Suc (m mod 192 div 8)"
  "m mod 8 \<noteq> 7 \<Longrightarrow> Suc m mod 192 div 8 = m mod 192 div 8"
  "m mod 192 div 8 < 24"
  "m mod 8 = 7 \<Longrightarrow> Suc m mod 8 = 0"
  "m mod 8 \<noteq> 7 \<Longrightarrow> Suc m mod 8 = Suc (m mod 8)" for m :: nat
  unfolding status_place by (simp_all add: mod_Suc div_Suc)

lemma advance_place:
  assumes "at_sample n k f" "0 < n"
  shows "at_sample n (Suc k) (am824_advance f)"
proof -
  let ?m = "k div n"
  have ch: "unat (fr_channels f) = n" and sub: "unat (fr_sub_frame f) = k mod n"
    and ix: "unat (fr_status_index f) = ?m mod 192 div 8" and mk: "fr_status_mask f = 2 ^ (?m mod 8)"
    using assms(1) by (simp_all add: at_sample_def)
  have n: "n < 256" using ch unsigned_less[of "fr_channels f", where 'a = nat] by simp
  have sn: "unat (fr_sub_frame f + 1) = Suc (k mod n) mod 256" by (simp add: unat_word_ariths sub)
  have "Suc (k mod n) \<le> n" using assms(2) by (simp add: Suc_leI)
  then have eq: "fr_sub_frame f + 1 = fr_channels f \<longleftrightarrow> Suc (k mod n) = n"
    unfolding word_unat_eq_iff sn ch using n by simp
  show ?thesis
  proof (cases "Suc (k mod n) = n")
    case False
    then have "Suc k mod n = Suc (k mod n)" "Suc k div n = ?m" by (simp_all add: mod_Suc div_Suc)
    moreover have "Suc (k mod n) < 256" using False \<open>Suc (k mod n) \<le> n\<close> n by simp
    ultimately show ?thesis
      using False eq sn ch ix mk by (simp add: am824_advance_def Let_def at_sample_def)
  next
    case True
    then have k: "Suc k mod n = 0" "Suc k div n = Suc ?m" by (simp_all add: mod_Suc div_Suc)
    have si: "unat (fr_status_index f + 1) = Suc (?m mod 192 div 8)"
      using block_place(4)[of ?m] by (simp add: unat_word_ariths ix)
    have s24: "fr_status_index f + 1 = 24 \<longleftrightarrow> ?m mod 192 div 8 = 23"
      unfolding word_unat_eq_iff si by simp
    show ?thesis
    proof (cases "?m mod 8 = 7")
      case m7: True
      then have "Suc ?m mod 8 = 0" by (rule block_place(5))
      then show ?thesis
        using True eq ch mk m7 k si s24 mask_last(1)[of ?m] block_place(1,2)[of ?m]
        by (simp add: am824_advance_def Let_def at_sample_def)
    next
      case m7: False
      then have "Suc ?m mod 8 = Suc (?m mod 8)" by (rule block_place(6))
      then show ?thesis
        using True eq ch mk m7 k ix mask_last(1)[of ?m] block_place(3)[of ?m]
        by (simp add: am824_advance_def Let_def at_sample_def push_bit_eq_mult mult.commute)
    qed
  qed
qed

lemma length_word_bytes [simp]: "length (word_bytes e w) = 4"
  by (cases e) (simp_all add: word_bytes_def)

text \<open>The receiver's view: subframe \<open>k\<close> of the bytes.\<close>

definition subframe :: "am824_endian \<Rightarrow> u8 list \<Rightarrow> nat \<Rightarrow> u32" where
  "subframe e bs k = (let b = take 4 (drop (4 * k) bs) in of_le (case e of Am824_big_endian \<Rightarrow> rev b | Am824_little_endian \<Rightarrow> b))"

lemma subframe_first: "subframe e (word_bytes e w @ bs) 0 = w"
proof -
  have "map (\<lambda>i. ucast (drop_bit (8 * i) w)) [0..<4] = le_bytes 4 w" by (simp add: le_bytes_def)
  moreover have "of_le (le_bytes 4 w) = w" by (rule of_le_bytes) simp
  ultimately show ?thesis by (cases e) (simp_all add: subframe_def word_bytes_def)
qed

lemma subframe_later: "length b = 4 \<Longrightarrow> subframe e (b @ bs) (Suc k) = subframe e bs k"
  by (simp add: subframe_def)

lemma word_carries:
  assumes "at_sample n k f" "0 < n" "length (fr_channel_status f) = 24" "x < (if fr_bit_depth f = 16 then 2 ^ 16 else 2 ^ 24)"
  shows "carries (am824_word f x) (if fr_bit_depth f = 16 then push_bit 8 x else x)
    (bit (fr_channel_status f ! (k div n mod 192 div 8)) (k div n mod 8)) (k mod n = 0) (k div n mod 192 = 0)"
proof -
  let ?a = "if fr_bit_depth f = 16 then push_bit 8 x else x"
  let ?m = "k div n"
  have a: "?a < 2 ^ 24"
  proof (cases "fr_bit_depth f = 16")
    case True
    then have "unat x < 2 ^ 16" using assms(4) by (simp add: word_less_nat_alt)
    then have "unat (push_bit 8 x) = unat x * 256" by (simp add: push_bit_eq_mult unat_word_ariths)
    then show ?thesis using True \<open>unat x < 2 ^ 16\<close> by (simp add: word_less_nat_alt)
  qed (use assms(4) in simp)
  have sub: "fr_sub_frame f = 0 \<longleftrightarrow> k mod n = 0" using assms(1) by (simp add: at_sample_def unat_eq_0[symmetric] del: unat_eq_0)
  have ix: "fr_status_index f = 0 \<longleftrightarrow> ?m mod 192 div 8 = 0" using assms(1) by (simp add: at_sample_def unat_eq_0[symmetric] del: unat_eq_0)
  have mk: "fr_status_mask f = 1 \<longleftrightarrow> ?m mod 8 = 0" using assms(1) mask_last(2)[of ?m] by (simp add: at_sample_def)
  have block: "fr_status_index f = 0 \<and> fr_status_mask f = 1 \<longleftrightarrow> ?m mod 192 = 0" unfolding ix mk status_place ..
  have "b AND 2 ^ j \<noteq> 0 \<longleftrightarrow> bit b j" for b :: u8 and j
    by (simp add: and_exp_eq_0_iff_not_bit)
  then have st: "(fr_channel_status f ! unat (fr_status_index f) AND fr_status_mask f \<noteq> 0) =
      bit (fr_channel_status f ! (?m mod 192 div 8)) (?m mod 8)"
    using assms(1) by (simp add: at_sample_def)
  have flag: "(if b then y OR push_bit i 1 else y) = y OR push_bit i (of_bool b)" for b i and y :: u32 by simp
  show ?thesis
    using flagged_carries[OF a, of "?m mod 192 = 0" "k mod n = 0" "bit (fr_channel_status f ! (?m mod 192 div 8)) (?m mod 8)"]
    unfolding am824_word_def Let_def st sub block flag or.assoc .
qed

lemma samples_carry:
  assumes "at_sample n j f" "0 < n" "length (fr_channel_status f) = 24"
    "\<forall>x \<in> set xs. x < (if fr_bit_depth f = 16 then 2 ^ 16 else 2 ^ 24)" "k < length xs"
  shows "carries (subframe (fr_endian f) (fst (get_am824_samples xs f)) k) (if fr_bit_depth f = 16 then push_bit 8 (xs ! k) else xs ! k)
    (bit (fr_channel_status f ! ((j + k) div n mod 192 div 8)) ((j + k) div n mod 8)) ((j + k) mod n = 0) ((j + k) div n mod 192 = 0)"
  using assms
proof (induction xs arbitrary: f j k)
  case (Cons x xs)
  let ?f = "am824_advance f"
  note bs = samples_Cons(1)[of x xs f]
  show ?case
  proof (cases k)
    case 0
    then show ?thesis using word_carries[of n j f x] Cons.prems unfolding bs by (simp add: subframe_first split: if_splits)
  next
    case (Suc i)
    then show ?thesis
      using Cons.IH[OF advance_place[OF Cons.prems(1,2)] Cons.prems(2), of i] Cons.prems(3-5) unfolding bs
      by (simp add: subframe_later split: if_splits)
  qed
qed simp

text \<open>C29: a receiver finds in the subframes what went in.  For every supported depth, number of channels, byte
  order and choice of modes: subframe \<open>k\<close> carries sample \<open>k\<close>, has even parity, valid and user
  bits of zero, starts a frame exactly for the first channel and a block exactly in every
  192nd frame, and its status bit is the bit of the channel status block for its frame.\<close>

theorem am824_stream_carries:
  assumes "am824_framer n d e = (Am824_ok, f0)" "n \<noteq> 0" "f = fold set_mode ms f0"
    "\<forall>x \<in> set xs. x < (if d = 16 then 2 ^ 16 else 2 ^ 24)" "k < length xs"
  shows "carries (subframe e (fst (get_am824_samples xs f)) k) (if d = 16 then push_bit 8 (xs ! k) else xs ! k)
    (bit (fr_channel_status f ! (k div unat n mod 192 div 8)) (k div unat n mod 8)) (k mod unat n = 0) (k div unat n mod 192 = 0)"
proof -
  have f: "same_place f0 f" unfolding assms(3) by (rule same_place_modes)
  note new = new_framer[OF assms(1)]
  have "at_sample (unat n) 0 f" using f new by (simp add: same_place_def at_sample_def)
  from samples_carry[OF this] show ?thesis
    using assms(2,4,5) f new by (simp add: same_place_def unat_gt_0)
qed

subsection \<open>The check byte\<close>

text \<open>The check of AES3, as a shift register that takes the block bit by bit, least significant bits first:
  the polynomial is \<open>x^8 + x^4 + x^3 + x^2 + 1\<close>.\<close>

definition shift_in :: "bool \<Rightarrow> u8 \<Rightarrow> u8" where
  "shift_in b r = (if bit r 0 \<noteq> b then drop_bit 1 r XOR 0xb8 else drop_bit 1 r)"

definition serial_crc :: "u8 list \<Rightarrow> u8" where
  "serial_crc bytes = fold shift_in (concat (map (\<lambda>x. map (bit x) [0..<8]) bytes)) 0xff"

lemma crc8_shift: "(crc8_bit ^^ i) (x XOR r) = fold shift_in (map (bit x) [0..<i]) r XOR drop_bit i x"
proof (induction i)
  case (Suc i)
  let ?r = "fold shift_in (map (bit x) [0..<i]) r"
  have b0: "bit (?r XOR drop_bit i x) 0 \<longleftrightarrow> bit ?r 0 \<noteq> bit x i" by (auto simp: bit_simps)
  have d: "drop_bit 1 (?r XOR drop_bit i x) = drop_bit 1 ?r XOR drop_bit (Suc i) x" by simp
  have "crc8_bit (?r XOR drop_bit i x) = shift_in (bit x i) ?r XOR drop_bit (Suc i) x"
    unfolding crc8_bit_def b0 d shift_in_def reflected_polynomial_def by (simp add: ac_simps)
  then show ?case using Suc by simp
qed (simp add: xor.commute)

lemma crc8_entry_serial: "crc8_entry (x XOR r) = fold shift_in (map (bit x) [0..<8]) r"
proof -
  have "drop_bit 8 x = 0" by (rule bit_eqI) (auto simp: bit_simps dest: bit_imp_le_length)
  then show ?thesis unfolding crc8_entry_def crc8_shift by simp
qed

lemma set_crc_serial: "fold (\<lambda>b remainder. crc8_entry (b XOR remainder)) bs 0xff = serial_crc bs"
proof -
  have "fold (\<lambda>b remainder. crc8_entry (b XOR remainder)) bs r = fold shift_in (concat (map (\<lambda>x. map (bit x) [0..<8]) bs)) r" for r
    by (induction bs arbitrary: r) (simp_all add: crc8_entry_serial)
  then show ?thesis by (simp add: serial_crc_def)
qed

definition checked :: "framer \<Rightarrow> bool" where
  "checked f \<longleftrightarrow> length (fr_channel_status f) = 24 \<and> fr_channel_status f ! 23 = serial_crc (take 23 (fr_channel_status f))"

lemma checked_set_crc: "length (fr_channel_status f) = 24 \<Longrightarrow> checked (set_crc f)"
  by (simp add: checked_def set_crc_def set_crc_serial)

lemma checked_mode: "checked f \<Longrightarrow> checked (set_mode m f)"
  by (cases m) (auto simp: mode_defs on_status_def checked_def[of f] intro!: checked_set_crc)

text \<open>The check byte of the table is the check of the standard.  Whatever modes were set, and after any
  number of samples, the last byte of the channel status block is the serial check of the
  other twenty-three.\<close>

theorem am824_status_checked:
  assumes "am824_framer n d e = (Am824_ok, f0)" "f = snd (get_am824_samples xs (fold set_mode ms f0))"
  shows "fr_channel_status f ! 23 = serial_crc (take 23 (fr_channel_status f))"
proof -
  have "checked f0"
    using assms(1) by (auto simp: am824_framer_def Let_def on_status_def intro!: checked_set_crc split: option.splits)
  then have "checked (fold set_mode ms f0)" by (induction ms arbitrary: f0) (auto intro: checked_mode)
  moreover have "fr_channel_status (snd (get_am824_samples xs g)) = fr_channel_status g" for g
    by (induction xs arbitrary: g) (simp_all add: samples_Cons del: get_am824_samples.simps(2))
  ultimately show ?thesis by (simp add: assms(2) checked_def)
qed

subsection \<open>Conversion of a file\<close>

lemma load_16: "p + 2 * n \<le> length mem \<Longrightarrow>
    load_samples 2 mem n p = Some (map (\<lambda>k. of_le (take 2 (drop (p + 2 * k) mem))) [0..<n])"
proof (induction n arbitrary: p)
  case (Suc n)
  have "load_samples 2 mem n (p + 2) = Some (map (\<lambda>k. of_le (take 2 (drop (p + 2 * Suc k) mem))) [0..<n])"
    using Suc.IH[of "p + 2"] Suc.prems by simp
  moreover have "load_sample 2 mem p = Some (of_le (take 2 (drop p mem)))"
    using Suc.prems by (simp add: load_sample_def load_def)
  ultimately show ?case unfolding map_upt_Suc by simp
qed simp

lemma frames_up: "0 < b \<Longrightarrow> (b * n + b - 1) div b = (n :: nat)"
proof -
  assume b: "0 < b"
  then have eq: "b * n + b - 1 = (b - 1) + b * n" by simp
  show ?thesis unfolding eq using b by (subst div_mult_self2) simp_all
qed

lemma load_24_fails: "0 < n \<Longrightarrow> length mem \<le> p + 3 * n \<Longrightarrow> load_samples 3 mem n p = None"
proof (induction n arbitrary: p)
  case (Suc n)
  then show ?case using Suc.IH[of "p + 3"]
    by (cases n) (auto simp: load_sample_def load_def split: option.split)
qed simp

text \<open>Files of three bytes per sample cannot be converted.  The samples are loaded as words of four bytes, so
  the last one of every file that has any is read across the end of the buffer.\<close>

theorem am824_24bit_overread:
  assumes "ud_bytes_per_sample d = 3" "0 < ud_channels d" "0 < frames"
    "ud_total_bytes d = ud_channels d * 3 * frames" "length audio = ud_total_bytes d"
  shows "am824_convert d audio = Inl Undefined_access"
proof -
  have "(ud_total_bytes d + ud_channels d * 3 - 1) div (ud_channels d * 3) = frames"
    using frames_up[of "ud_channels d * 3" frames] assms(2,4) by simp
  moreover have "load_samples 3 audio (frames * ud_channels d) 0 = None"
    using assms(2-5) by (intro load_24_fails) simp_all
  ultimately show ?thesis by (simp add: am824_convert_def assms(1) Let_def)
qed

lemma configure_modes: "\<exists>ms. configure_framer d f = fold set_mode ms f"
  by (intro exI[of _ "[if ud_am824_audio d then Audio_mode else Data_mode,
      Sampling (if ud_am824_fs_match d then fs_code (ud_fs d) else ud_am824_fs d),
      if ud_am824_professional d then Professional else Consumer]"]) (simp add: configure_framer_def Let_def)

lemma length_samples: "length (fst (get_am824_samples xs f)) = 4 * length xs"
  by (induction xs arbitrary: f) (simp_all add: samples_Cons del: get_am824_samples.simps(2))

lemma two_bytes_less:
  assumes "length b \<le> 2"
  shows "of_le b < (2 ^ 16 :: u32)"
proof -
  have "bit (take_bit 16 (of_le b :: u32)) j = bit (of_le b :: u32) j" for j
  proof (cases "j < 16")
    case False
    then have "2 \<le> j div 8" using div_le_mono[of 16 j 8] by simp
    then show ?thesis using assms False by (simp add: bit_take_bit_iff bit_of_le)
  qed (simp add: bit_take_bit_iff)
  then have "take_bit 16 (of_le b :: u32) = of_le b" by (rule bit_eqI)
  then have "of_le b = (of_le b :: u32) AND mask 16" by (simp add: take_bit_eq_mask)
  also have "\<dots> < 2 ^ 16" by (rule and_mask_less') simp
  finally show ?thesis .
qed

text \<open>A sixteen bit file becomes its AM824 stream: as many bytes as announced, of which subframe \<open>k\<close>
  carries sample \<open>k\<close> of the file in its upper sixteen bits, the frames those of the file.\<close>

theorem am824_converts_16bit:
  assumes "ud_bytes_per_sample d = 2" "0 < ud_channels d" "ud_channels d < 256"
    "ud_total_bytes d = ud_channels d * 2 * frames" "length audio = ud_total_bytes d"
  shows "\<exists>bs d'. am824_convert d audio = Inr (bs, d') \<and> length bs = ud_total_bytes d' \<and> ud_block_align d' * frames = ud_total_bytes d' \<and>
    (\<forall>k < frames * ud_channels d. \<exists>c b. carries (subframe Am824_little_endian bs k)
       (push_bit 8 (of_le (take 2 (drop (2 * k) audio)))) c (k mod ud_channels d = 0) b)"
proof -
  obtain f0 where f0: "am824_framer (of_nat (ud_channels d)) 16 Am824_little_endian = (Am824_ok, f0)"
    by (simp add: am824_framer_def depth_status_def)
  obtain ms where ms: "configure_framer d f0 = fold set_mode ms f0" using configure_modes by blast
  let ?xs = "map (\<lambda>k. of_le (take 2 (drop (2 * k) audio)) :: u32) [0..<frames * ud_channels d]"
  let ?bs = "fst (get_am824_samples ?xs (configure_framer d f0))"
  have fr: "(ud_total_bytes d + ud_channels d * 2 - 1) div (ud_channels d * 2) = frames"
    using frames_up[of "ud_channels d * 2" frames] assms(2,4) by simp
  have l: "load_samples 2 audio (frames * ud_channels d) 0 = Some ?xs"
    using load_16[of 0 "frames * ud_channels d" audio] assms(4,5) by simp
  have n: "unat (of_nat (ud_channels d) :: u8) = ud_channels d" "(of_nat (ud_channels d) :: u8) \<noteq> 0"
  proof -
    show u: "unat (of_nat (ud_channels d) :: u8) = ud_channels d" using assms(3) by (simp add: unat_of_nat)
    show "(of_nat (ud_channels d) :: u8) \<noteq> 0"
    proof
      assume "(of_nat (ud_channels d) :: u8) = 0"
      with u have "ud_channels d = 0" by simp
      then show False using assms(2) by simp
    qed
  qed
  have conv: "am824_convert d audio = Inr (?bs, d\<lparr>ud_total_bytes := ud_total_bytes d * 4 div 2, ud_bytes_per_sample := 4,
      ud_bits_per_sample := 32, ud_block_align := ud_channels d * 4\<rparr>)"
    using fr l f0 by (simp add: am824_convert_def assms(1) Let_def)
  have "of_le (take 2 (drop i audio)) < (2 ^ 16 :: u32)" for i
    by (rule two_bytes_less) simp
  then have xs: "\<forall>x \<in> set ?xs. x < (if (16 :: u8) = 16 then 2 ^ 16 else 2 ^ 24)" by simp
  have "carries (subframe Am824_little_endian ?bs k) (push_bit 8 (of_le (take 2 (drop (2 * k) audio))))
      (bit (fr_channel_status (configure_framer d f0) ! (k div ud_channels d mod 192 div 8)) (k div ud_channels d mod 8))
      (k mod ud_channels d = 0) (k div ud_channels d mod 192 = 0)" if "k < frames * ud_channels d" for k
    using samples_carry[of "ud_channels d" 0 "configure_framer d f0" ?xs k] xs that n assms(2) new_framer[OF f0]
      same_place_modes[of f0 ms] ms
    by (simp add: same_place_def at_sample_def)
  then show ?thesis using conv assms(4) by (fastforce simp: length_samples)
qed

subsection \<open>Playback\<close>

lemma play_rest:
  assumes "ud_channels d * ud_bytes_per_sample d = b" "length (ud_audio d) = ud_max_frame_index d * b"
    "ud_frame_index d \<le> ud_max_frame_index d" "ud_max_frame_index d < ud_frame_index d + sum_list ns"
  shows "\<exists>z. play ns d = drop (ud_frame_index d * b) (ud_audio d) @ replicate z 0"
  using assms
proof (induction ns arbitrary: d)
  case (Cons n ns)
  let ?i = "ud_frame_index d" and ?m = "ud_max_frame_index d"
  have len: "length (drop (?i * b) (ud_audio d)) = (?m - ?i) * b" using Cons.prems(2) by (simp add: diff_mult_distrib)
  show ?case
  proof (cases "?m - ?i < n")
    case True
    then show ?thesis using Cons.prems(1) len by (simp add: play_callback_def Let_def)
  next
    case False
    let ?d = "d\<lparr>ud_frame_index := ?i + n\<rparr>"
    have "\<exists>z. play ns ?d = drop (ud_frame_index ?d * b) (ud_audio ?d) @ replicate z 0"
      using Cons.prems False by (intro Cons.IH) simp_all
    moreover have "take (n * b) (drop (?i * b) (ud_audio d)) @ drop ((?i + n) * b) (ud_audio d) = drop (?i * b) (ud_audio d)"
      using append_take_drop_id[of "n * b" "drop (?i * b) (ud_audio d)"] by (simp add: algebra_simps)
    moreover have "play (n # ns) d = take (n * b) (drop (?i * b) (ud_audio d)) @ play ns ?d"
      using False Cons.prems(1) by (simp add: play_callback_def Let_def)
    ultimately show ?thesis by (auto simp flip: append_assoc)
  qed
qed simp

text \<open>The file is played whole and once.  However many frames the sound system asks for at a time, once it
  has asked for more than the file has, what it was given is the audio of the file followed by
  silence.\<close>

theorem playback_complete:
  assumes "ud_block_align d = ud_channels d * ud_bytes_per_sample d" "0 < ud_block_align d"
    "ud_total_bytes d = ud_block_align d * frames" "length audio = ud_total_bytes d" "frames < sum_list ns"
  shows "\<exists>z. play ns (start_playback audio d) = audio @ replicate z 0"
  using play_rest[of "start_playback audio d" "ud_block_align d" ns] assms
  by (simp add: start_playback_def mult.commute)

subsection \<open>The command line and the start\<close>

record player_options =
  po_file :: string
  po_device :: "int option"
  po_frames :: int
  po_latency :: string
  po_am824 :: bool
  po_audio :: bool
  po_fs :: u8
  po_fs_match :: bool
  po_professional :: bool

datatype option_result = Options player_options | Usage_only | Devices_only | Option_error player_error

fun am824_keywords :: "string list \<Rightarrow> player_options \<Rightarrow> string list \<times> player_options" where
  "am824_keywords [] p = ([], p)"
| "am824_keywords (a # as) p =
     (if starts_with ''-'' a then (a # as, p)
      else if a = ''audio'' then am824_keywords as (p\<lparr>po_audio := True\<rparr>)
      else if a = ''nonaudio'' then am824_keywords as (p\<lparr>po_audio := False\<rparr>)
      else if a = ''fs_not_indicated'' then am824_keywords as (p\<lparr>po_fs := 0, po_fs_match := False\<rparr>)
      else if a = ''fs_48k'' then am824_keywords as (p\<lparr>po_fs := 2, po_fs_match := False\<rparr>)
      else if a = ''fs_441k'' then am824_keywords as (p\<lparr>po_fs := 1, po_fs_match := False\<rparr>)
      else if a = ''fs_32k'' then am824_keywords as (p\<lparr>po_fs := 3, po_fs_match := False\<rparr>)
      else if a = ''professional'' then am824_keywords as (p\<lparr>po_professional := True\<rparr>)
      else if a = ''consumer'' then am824_keywords as (p\<lparr>po_professional := False\<rparr>)
      else (a # as, p))"

lemma am824_keywords_shorter: "length (fst (am824_keywords as p)) \<le> length as"
  by (induction as p rule: am824_keywords.induct) (simp_all add: le_SucI)

text \<open>The arguments behind the program's name.  \<open>atoi\<close> is a parameter; the file name is copied into 256
  bytes.\<close>

function parse_options :: "(string \<Rightarrow> int) \<Rightarrow> string list \<Rightarrow> player_options \<Rightarrow> option_result" where
  "parse_options atoi [] p = Options p"
| "parse_options atoi (a # as) p =
     (if \<not> starts_with ''-'' a \<and> po_file p = [] then
        (if 256 \<le> length a then Option_error Undefined_access else parse_options atoi as (p\<lparr>po_file := a\<rparr>))
      else if a = ''-d'' then
        (if as = [] then Option_error Err_no_device else parse_options atoi (tl as) (p\<lparr>po_device := Some (atoi (hd as))\<rparr>))
      else if a \<in> {''-h'', ''-help'', ''--help''} then Usage_only
      else if a = ''-buf'' then
        (if as = [] then Option_error Err_no_device else parse_options atoi (tl as) (p\<lparr>po_frames := atoi (hd as)\<rparr>))
      else if a = ''-l'' then
        (if as = [] then Option_error Err_no_device else parse_options atoi (tl as) (p\<lparr>po_latency := hd as\<rparr>))
      else if a = ''-ld'' then Devices_only
      else if a = ''-am824'' then
        (case am824_keywords as (p\<lparr>po_am824 := True, po_audio := True, po_professional := False, po_fs_match := True\<rparr>) of
           (rest, p) \<Rightarrow> parse_options atoi rest p)
      else Option_error Err_bad_cmd_option)"
  by pat_completeness auto
termination
proof (relation "measure (\<lambda>(_, as, _). length as)")
  fix as and p :: player_options and rest p'
  assume "(rest, p') = am824_keywords as (p\<lparr>po_am824 := True, po_audio := True, po_professional := False, po_fs_match := True\<rparr>)"
  then have "length rest \<le> length as" by (metis am824_keywords_shorter fst_conv)
  then show "((atoi, rest, p'), (atoi, a # as, p)) \<in> measure (\<lambda>(_, as, _). length as)"
    for atoi :: "string \<Rightarrow> int" and a by simp
qed auto

definition new_data :: "player_options \<Rightarrow> user_data" where
  "new_data p = \<lparr>ud_frame_index = 0, ud_max_frame_index = 0, ud_channels = 0, ud_bytes_per_sample = 0, ud_audio = [],
     ud_format = FF_pcm, ud_bits_per_sample = 0, ud_fs = 0, ud_block_align = 0, ud_total_bytes = 0,
     ud_am824_audio = po_audio p, ud_am824_fs = po_fs p, ud_am824_fs_match = po_fs_match p,
     ud_am824_professional = po_professional p\<rparr>"

definition format_error :: "user_data \<Rightarrow> player_error option" where
  "format_error d =
     (case ud_format d of
        FF_pcm \<Rightarrow> if ud_bits_per_sample d \<in> {8, 16, 24, 32} then None else Some Err_not_supported
      | FF_float32 \<Rightarrow> if ud_bits_per_sample d = 32 then None else Some Err_bad_wav_format)"

text \<open>From the options and the file to the data the callback works on; \<open>default_device\<close> is what PortAudio
  offers when no device was asked for.\<close>

definition prepare_playback ::
  "player_options \<Rightarrow> sf_info option \<Rightarrow> u8 list \<Rightarrow> bool \<Rightarrow> player_error + user_data" where
  "prepare_playback p file contents default_device =
     (case read_wav_file_header file (new_data p) of
        Inl e \<Rightarrow> Inl e
      | Inr d \<Rightarrow>
          (case read_entire_wav_file contents d of
             Inl e \<Rightarrow> Inl e
           | Inr audio \<Rightarrow>
               (case (if po_am824 p then am824_convert d audio else Inr (audio, d)) of
                  Inl e \<Rightarrow> Inl e
                | Inr (audio, d) \<Rightarrow>
                    if po_device p = None \<and> \<not> default_device then Inl Err_no_device
                    else (case format_error d of
                            Some e \<Rightarrow> Inl e
                          | None \<Rightarrow> Inr (start_playback audio d)))))"

subsection \<open>Concrete runs\<close>

definition sample_options :: player_options where
  "sample_options = \<lparr>po_file = ''a.wav'', po_device = None, po_frames = 128, po_latency = ''0'', po_am824 = True, po_audio = True,
     po_fs = 0, po_fs_match = True, po_professional = False\<rparr>"

lemma sample_parse: "parse_options (\<lambda>_. 7) [''-am824'', ''a.wav''] (sample_options\<lparr>po_file := [], po_am824 := False\<rparr>) = Options sample_options"
  by (simp add: sample_options_def starts_with_def)

text \<open>A file of two frames of two channels, of two or three bytes per sample.\<close>

definition sample_data :: "nat \<Rightarrow> user_data" where
  "sample_data bytes = (new_data sample_options)\<lparr>ud_channels := 2, ud_bytes_per_sample := bytes, ud_bits_per_sample := 8 * bytes,
     ud_fs := 48000, ud_block_align := 2 * bytes, ud_total_bytes := 4 * bytes\<rparr>"

theorem am824_stream_carries_witness:
  "\<exists>f. carries (subframe Am824_big_endian (fst (get_am824_samples [1, 2, 3] f)) 2) 3 (bit (fr_channel_status f ! 0) 1) True False"
proof -
  obtain f0 where f0: "am824_framer 2 24 Am824_big_endian = (Am824_ok, f0)" by (simp add: am824_framer_def depth_status_def)
  show ?thesis
    using am824_stream_carries[OF f0 _ refl, of "[1, 2, 3]" 2 "[Professional, Sampling 2]"]
    by (intro exI[of _ "fold set_mode [Professional, Sampling 2] f0"]) simp
qed

theorem am824_status_checked_witness:
  "\<exists>f0 f. am824_framer 2 16 Am824_little_endian = (Am824_ok, f0) \<and> f = snd (get_am824_samples [1, 2] (fold set_mode [Consumer] f0)) \<and>
    fr_channel_status f ! 23 = serial_crc (take 23 (fr_channel_status f))"
proof -
  obtain f0 where f0: "am824_framer 2 16 Am824_little_endian = (Am824_ok, f0)" by (simp add: am824_framer_def depth_status_def)
  show ?thesis using am824_status_checked[OF f0 refl, of "[1, 2]" "[Consumer]"] f0 by blast
qed

theorem am824_24bit_overread_witness:
  "am824_convert (sample_data 3) [1, 2, 3, 4, 5, 6, 7, 8, 9, 10, 11, 12] = Inl Undefined_access"
  by (rule am824_24bit_overread[of _ 2]) (simp_all add: sample_data_def)

theorem am824_converts_16bit_witness:
  "\<exists>bs d'. am824_convert (sample_data 2) [1, 2, 3, 4, 5, 6, 7, 8] = Inr (bs, d') \<and> length bs = 16 \<and>
    (\<exists>c b. carries (subframe Am824_little_endian bs 2) 0x060500 c True b)"
proof -
  obtain bs d' where r: "am824_convert (sample_data 2) [1, 2, 3, 4, 5, 6, 7, 8] = Inr (bs, d')" "length bs = ud_total_bytes d'"
      "ud_block_align d' * 2 = ud_total_bytes d'"
    and c: "\<forall>k < 4. \<exists>c b. carries (subframe Am824_little_endian bs k)
       (push_bit 8 (of_le (take 2 (drop (2 * k) [1, 2, 3, 4, 5, 6, 7, 8])))) c (k mod 2 = 0) b"
    using am824_converts_16bit[of "sample_data 2" 2 "[1, 2, 3, 4, 5, 6, 7, 8]"] by (auto simp: sample_data_def)
  have "ud_block_align d' = 8" using r(1) by (auto simp: am824_convert_def sample_data_def Let_def split: option.splits)
  moreover have "push_bit 8 (of_le (take 2 (drop (2 * 2) [1, 2, 3, 4, 5, 6, 7, 8]))) = (0x060500 :: u32)" by code_simp
  moreover have "\<exists>c b. carries (subframe Am824_little_endian bs 2)
      (push_bit 8 (of_le (take 2 (drop (2 * 2) [1, 2, 3, 4, 5, 6, 7, 8])))) c True b" using c[rule_format, of 2] by simp
  ultimately show ?thesis using r by (intro exI[of _ bs] exI[of _ d']) simp
qed

theorem playback_complete_witness:
  "\<exists>z. play [1, 2] (start_playback [1, 2, 3, 4, 5, 6, 7, 8] (sample_data 2)) = [1, 2, 3, 4, 5, 6, 7, 8] @ replicate z 0"
  by (rule playback_complete[of _ 2]) (simp_all add: sample_data_def)

end
