(* ===== verification/Mdns.thy ===== *)
theory Mdns
  imports Rtsp_Client Config
begin

text \<open>
  Service discovery: \<open>daemon/mdns_server.cpp\<close>, which publishes the node and a service per source, and
  \<open>daemon/mdns_client.cpp\<close>, which looks for the sources of other hosts and starts an RTSP client for
  each.  The Avahi library is a parameter: its answers to the calls of the server, and the
  events it reports to the callbacks of both.  Avahi calls back and the session manager notifies
  one at a time, as the poll lock ensures for the server.
\<close>

subsection \<open>The server\<close>

text \<open>What is added to an entry group: a service with name, type, port and records, or a subtype.\<close>

datatype mdns_entry =
    Service string string u16 "string list"
  | Subtype string string string

record 'a avahi_ops =
  av_group_new :: "'a \<Rightarrow> nat option \<times> 'a"
  av_add :: "nat \<Rightarrow> mdns_entry \<Rightarrow> 'a \<Rightarrow> int \<times> 'a"
  av_commit :: "nat \<Rightarrow> 'a \<Rightarrow> int \<times> 'a"
  av_group_free :: "nat \<Rightarrow> 'a \<Rightarrow> 'a"
  av_is_running :: "'a \<Rightarrow> bool"

text \<open>\<open>groups_\<close> is a \<open>boost::bimap\<close>: an insertion that repeats a name or a group does nothing.\<close>

record 'a mdns_server =
  ms_running :: bool
  ms_groups :: "(string \<times> nat) list"
  ms_avahi :: 'a
  ms_poll_quit :: bool

definition bimap_insert :: "string \<Rightarrow> nat \<Rightarrow> (string \<times> nat) list \<Rightarrow> (string \<times> nat) list" where
  "bimap_insert n g m = (if n \<in> fst ` set m \<or> g \<in> snd ` set m then m else (n, g) # m)"

text \<open>Entries that must all be accepted, and those whose refusal is only logged.\<close>

fun add_entries :: "'a avahi_ops \<Rightarrow> nat \<Rightarrow> mdns_entry list \<Rightarrow> 'a \<Rightarrow> bool \<times> 'a" where
  "add_entries A g [] a = (True, a)"
| "add_entries A g (x # xs) a = (case av_add A g x a of (r, a) \<Rightarrow> if r < 0 then (False, a) else add_entries A g xs a)"

fun try_entries :: "'a avahi_ops \<Rightarrow> nat \<Rightarrow> mdns_entry list \<Rightarrow> 'a \<Rightarrow> 'a" where
  "try_entries A g [] a = a"
| "try_entries A g (x # xs) a = try_entries A g xs (snd (av_add A g x a))"

definition nmos_entries :: "config \<Rightarrow> mdns_entry list" where
  "nmos_entries c =
     (if cf_nmos_enabled c \<and> cf_nmos_mdns_enabled c then
        [Service (get_node_id c) ''_nmos-node._tcp'' (cf_nmos_node_port c)
           [''api_proto=http'', ''api_ver=v1.3'', ''api_auth=false'', ''ver_slf=0'', ''ver_src=0'', ''ver_flw=0'', ''ver_dvc=0'',
            ''ver_snd=0'', ''ver_rcv=0''],
         Service (get_node_id c) ''_nmos-query._tcp'' (cf_nmos_node_port c)
           [''api_proto=http'', ''api_ver=v1.3'', ''api_auth=false'', ''pri=100'']]
      else [])"

definition base_entries :: "config \<Rightarrow> mdns_entry list" where
  "base_entries c =
     [Service (get_node_id c) ''_http._tcp'' (cf_http_port c) [],
      Subtype (get_node_id c) ''_http._tcp'' ''_ravenna._sub._http._tcp'',
      Service (get_node_id c) ''_rtsp._tcp'' (cf_rtsp_port c) [],
      Subtype (get_node_id c) ''_rtsp._tcp'' ''_ravenna._sub._rtsp._tcp'']"

definition session_entries :: "config \<Rightarrow> string \<Rightarrow> mdns_entry list" where
  "session_entries c name =
     [Service (get_node_id c @ '' '' @ name) ''_rtsp._tcp'' (cf_rtsp_port c) [],
      Subtype (get_node_id c @ '' '' @ name) ''_rtsp._tcp'' ''_ravenna_session._sub._rtsp._tcp'']"

text \<open>A group with its entries, committed and entered under a name; a group that fails is freed.\<close>

definition publish ::
  "'a avahi_ops \<Rightarrow> string \<Rightarrow> mdns_entry list \<Rightarrow> mdns_entry list \<Rightarrow> 'a mdns_server \<Rightarrow> bool \<times> 'a mdns_server" where
  "publish A name must may s =
     (case av_group_new A (ms_avahi s) of
        (None, a) \<Rightarrow> (False, s\<lparr>ms_avahi := a\<rparr>)
      | (Some g, a) \<Rightarrow>
          (case add_entries A g must a of
             (False, a) \<Rightarrow> (False, s\<lparr>ms_avahi := av_group_free A g a\<rparr>)
           | (True, a) \<Rightarrow>
               (case av_commit A g (try_entries A g may a) of
                  (r, a) \<Rightarrow>
                    if r < 0 then (False, s\<lparr>ms_avahi := av_group_free A g a\<rparr>)
                    else (True, s\<lparr>ms_avahi := a, ms_groups := bimap_insert name g (ms_groups s)\<rparr>))))"

definition create_services :: "'a avahi_ops \<Rightarrow> config \<Rightarrow> 'a mdns_server \<Rightarrow> bool \<times> 'a mdns_server" where
  "create_services A c s =
     (if \<not> cf_mdns_enabled c then (False, s) else publish A (get_node_id c) (base_entries c) (nmos_entries c) s)"

definition add_service :: "'a avahi_ops \<Rightarrow> config \<Rightarrow> string \<Rightarrow> 'a mdns_server \<Rightarrow> bool \<times> 'a mdns_server" where
  "add_service A c name s =
     (if \<not> ms_running s \<or> \<not> cf_mdns_enabled c \<or> \<not> av_is_running A (ms_avahi s) then (False, s)
      else publish A name (session_entries c name) [] s)"

definition remove_service :: "'a avahi_ops \<Rightarrow> config \<Rightarrow> string \<Rightarrow> 'a mdns_server \<Rightarrow> bool \<times> 'a mdns_server" where
  "remove_service A c name s =
     (if \<not> ms_running s \<or> \<not> cf_mdns_enabled c \<or> \<not> av_is_running A (ms_avahi s) then (False, s)
      else (case map_of (ms_groups s) name of
              None \<Rightarrow> (False, s)
            | Some g \<Rightarrow> (True, s\<lparr>ms_avahi := av_group_free A g (ms_avahi s), ms_groups := smap_del name (ms_groups s)\<rparr>)))"

datatype avahi_client_state = Client_failure | Client_registering | Client_running | Client_collision | Client_connecting

definition server_client_callback :: "'a avahi_ops \<Rightarrow> config \<Rightarrow> avahi_client_state \<Rightarrow> 'a mdns_server \<Rightarrow> 'a mdns_server" where
  "server_client_callback A c state s =
     (case state of
        Client_failure \<Rightarrow> s\<lparr>ms_poll_quit := True\<rparr>
      | Client_running \<Rightarrow> (case create_services A c s of (r, s) \<Rightarrow> if r then s else s\<lparr>ms_poll_quit := True\<rparr>)
      | _ \<Rightarrow> s)"

definition entry_group_callback :: "nat \<Rightarrow> bool \<Rightarrow> 'a mdns_server \<Rightarrow> 'a mdns_server" where
  "entry_group_callback g failure s =
     (if g \<notin> snd ` set (ms_groups s) then s else if failure then s\<lparr>ms_poll_quit := True\<rparr> else s)"

definition server_terminate :: "config \<Rightarrow> 'a mdns_server \<Rightarrow> 'a mdns_server" where
  "server_terminate c s =
     (if ms_running s then s\<lparr>ms_running := False, ms_groups := smap_del (get_node_id c) (ms_groups s)\<rparr> else s)"

text \<open>The observers registered at the session manager.\<close>

fun observe_source :: "'a avahi_ops \<Rightarrow> config \<Rightarrow> session_event \<Rightarrow> 'a mdns_server \<Rightarrow> 'a mdns_server" where
  "observe_source A c (Source_added i name sdp) s = snd (add_service A c name s)"
| "observe_source A c (Source_removed i name) s = snd (remove_service A c name s)"
| "observe_source A c _ s = s"

subsection \<open>The client\<close>

record mdns_client =
  mc_resolvers :: "(string \<times> string) list"
  mc_tasks :: "client_call list"
  mc_clients :: registry
  mc_browser :: browser
  mc_poll_quit :: bool
  mc_running :: bool

datatype browse_event = Browse_failure | Browse_new string string | Browse_remove string string | Browse_other

text \<open>\<open>started\<close> tells whether Avahi could start a resolver.\<close>

definition browse_callback :: "nat \<Rightarrow> bool \<Rightarrow> browse_event \<Rightarrow> mdns_client \<Rightarrow> mdns_client" where
  "browse_callback now started e m =
     (case e of
        Browse_failure \<Rightarrow> m\<lparr>mc_poll_quit := True\<rparr>
      | Browse_new name domain \<Rightarrow>
          if (name, domain) \<in> set (mc_resolvers m) \<or> \<not> started then m
          else m\<lparr>mc_resolvers := (name, domain) # mc_resolvers m\<rparr>
      | Browse_remove name domain \<Rightarrow>
          m\<lparr>mc_clients := snd (stop_client (name, domain) (mc_clients m)),
            mc_browser := on_remove_rtsp_source now name domain (mc_browser m)\<rparr>
      | Browse_other \<Rightarrow> m)"

text \<open>The resolved service: address as text, port, and whether it is one of this host.\<close>

record resolved =
  rv_name :: string
  rv_domain :: string
  rv_address :: string
  rv_port :: u16
  rv_local :: bool

definition resolved_call :: "config \<Rightarrow> resolved \<Rightarrow> client_call" where
  "resolved_call c r =
     \<lparr>cc_callback = True, cc_name = rv_name r, cc_domain = rv_domain r, cc_path = ''/by-name/'' @ rv_name r,
      cc_address = (if rv_local r \<and> get_interface_name 0 c = ''lo'' then take 39 (cf_ip_str c) else rv_address r),
      cc_port = show_nat (unat (rv_port r)), cc_wait = True\<rparr>"

text \<open>\<open>found\<close> is false when the resolver failed.\<close>

definition resolve_callback :: "config \<Rightarrow> bool \<Rightarrow> resolved \<Rightarrow> mdns_client \<Rightarrow> mdns_client" where
  "resolve_callback c found r m =
     (let m = (if found \<and> rv_local r = (get_interface_name 0 c = ''lo'')
               then m\<lparr>mc_tasks := mc_tasks m @ [resolved_call c r]\<rparr> else m)
      in m\<lparr>mc_resolvers := removeAll (rv_name r, rv_domain r) (mc_resolvers m)\<rparr>)"

text \<open>\<open>browser\<close> tells whether Avahi could create the browser.\<close>

definition client_callback :: "bool \<Rightarrow> avahi_client_state \<Rightarrow> mdns_client \<Rightarrow> mdns_client" where
  "client_callback browser state m =
     (case state of
        Client_failure \<Rightarrow> m\<lparr>mc_poll_quit := True\<rparr>
      | Client_connecting \<Rightarrow> m
      | _ \<Rightarrow> if browser then m else m\<lparr>mc_poll_quit := True\<rparr>)"

text \<open>\<open>ready\<close> tells which tasks have ended.\<close>

definition process_results :: "(client_call \<Rightarrow> bool) \<Rightarrow> mdns_client \<Rightarrow> mdns_client" where
  "process_results ready m = m\<lparr>mc_tasks := filter (\<lambda>t. \<not> ready t) (mc_tasks m)\<rparr>"

definition mdns_client_terminate :: "mdns_client \<Rightarrow> mdns_client" where
  "mdns_client_terminate m =
     (if mc_running m then m\<lparr>mc_running := False, mc_clients := snd (stop_all (mc_clients m)), mc_tasks := []\<rparr> else m)"

subsection \<open>What Avahi promises\<close>

text \<open>\<open>pub\<close> gives the entries of a group and whether they are published.  A call that fails changes
  nothing.\<close>

definition avahi_ok :: "'a avahi_ops \<Rightarrow> ('a \<Rightarrow> nat \<Rightarrow> (mdns_entry list \<times> bool) option) \<Rightarrow> bool" where
  "avahi_ok A pub \<longleftrightarrow>
     (\<forall>a g a'. av_group_new A a = (Some g, a') \<longrightarrow> pub a g = None \<and> pub a' = (pub a)(g \<mapsto> ([], False))) \<and>
     (\<forall>a a'. av_group_new A a = (None, a') \<longrightarrow> pub a' = pub a) \<and>
     (\<forall>a g es p x r a'. pub a g = Some (es, p) \<longrightarrow> av_add A g x a = (r, a') \<longrightarrow>
        pub a' = (if r < 0 then pub a else (pub a)(g \<mapsto> (es @ [x], p)))) \<and>
     (\<forall>a g es p r a'. pub a g = Some (es, p) \<longrightarrow> av_commit A g a = (r, a') \<longrightarrow>
        pub a' = (if r < 0 then pub a else (pub a)(g \<mapsto> (es, True)))) \<and>
     (\<forall>a g. pub (av_group_free A g a) = (pub a)(g := None))"

lemma avahi_okD:
  assumes "avahi_ok A pub"
  shows "av_group_new A a = (Some g, a') \<Longrightarrow> pub a g = None \<and> pub a' = (pub a)(g \<mapsto> ([], False))"
    "av_group_new A a = (None, a') \<Longrightarrow> pub a' = pub a"
    "pub a g = Some (es, p) \<Longrightarrow> av_add A g x a = (r, a') \<Longrightarrow> pub a' = (if r < 0 then pub a else (pub a)(g \<mapsto> (es @ [x], p)))"
    "pub a g = Some (es, p) \<Longrightarrow> av_commit A g a = (r, a') \<Longrightarrow> pub a' = (if r < 0 then pub a else (pub a)(g \<mapsto> (es, True)))"
    "pub (av_group_free A g a) = (pub a)(g := None)"
  using assms unfolding avahi_ok_def by blast+

lemma add_entries_pub:
  assumes "avahi_ok A pub" "pub a g = Some (es, p)" "add_entries A g xs a = (b, a')"
  shows "\<exists>ys. pub a' = (pub a)(g \<mapsto> (es @ ys, p)) \<and> (b \<longrightarrow> ys = xs)"
  using assms(2,3)
proof (induction xs arbitrary: a es)
  case Nil
  then show ?case by (intro exI[of _ "[]"]) (auto simp: fun_upd_idem)
next
  case (Cons x xs)
  obtain r a1 where 1: "av_add A g x a = (r, a1)" by fastforce
  show ?case
  proof (cases "r < 0")
    case True
    then have "pub a1 = pub a" using avahi_okD(3)[OF assms(1) Cons.prems(1) 1] by simp
    then show ?thesis using Cons.prems True 1 by (intro exI[of _ "[]"]) (auto simp: fun_upd_idem)
  next
    case False
    then have p: "pub a1 = (pub a)(g \<mapsto> (es @ [x], p))" using avahi_okD(3)[OF assms(1) Cons.prems(1) 1] by simp
    then have "pub a1 g = Some (es @ [x], p)" by simp
    moreover have "add_entries A g xs a1 = (b, a')" using Cons.prems(2) False 1 by simp
    ultimately obtain ys where "pub a' = (pub a1)(g \<mapsto> ((es @ [x]) @ ys, p))" "b \<longrightarrow> ys = xs"
      using Cons.IH[of a1 "es @ [x]"] by blast
    then show ?thesis using p by (intro exI[of _ "x # ys"]) simp
  qed
qed

lemma try_entries_pub:
  assumes "avahi_ok A pub" "pub a g = Some (es, p)"
  shows "\<exists>ys. pub (try_entries A g xs a) = (pub a)(g \<mapsto> (es @ ys, p)) \<and> length ys \<le> length xs"
  using assms(2)
proof (induction xs arbitrary: a es)
  case Nil
  then show ?case by (intro exI[of _ "[]"]) (auto simp: fun_upd_idem)
next
  case (Cons x xs)
  obtain r a1 where 1: "av_add A g x a = (r, a1)" by fastforce
  define es1 where "es1 = (if r < 0 then es else es @ [x])"
  have p: "pub a1 = (pub a)(g \<mapsto> (es1, p))"
    using avahi_okD(3)[OF assms(1) Cons.prems 1] Cons.prems by (auto simp: es1_def fun_upd_idem)
  then have "pub a1 g = Some (es1, p)" by simp
  then obtain ys where ys: "pub (try_entries A g xs a1) = (pub a1)(g \<mapsto> (es1 @ ys, p))" "length ys \<le> length xs"
    using Cons.IH[of a1 es1] by blast
  have "pub (try_entries A g (x # xs) a) = (pub a)(g \<mapsto> (es1 @ ys, p))" using ys(1) p 1 by simp
  then show ?case
    using ys(2) by (cases "r < 0") (auto simp: es1_def intro: exI[of _ ys] exI[of _ "x # ys"])
qed

text \<open>A publication either leaves everything as it was or adds one published group.\<close>

lemma publish_pub:
  assumes "avahi_ok A pub" "publish A name must may s = (b, s')"
  shows "ms_running s' = ms_running s \<and>
    (if b then \<exists>g ys. pub (ms_avahi s) g = None \<and> pub (ms_avahi s') = (pub (ms_avahi s))(g \<mapsto> (must @ ys, True)) \<and>
       length ys \<le> length may \<and> ms_groups s' = bimap_insert name g (ms_groups s)
     else pub (ms_avahi s') = pub (ms_avahi s) \<and> ms_groups s' = ms_groups s)"
proof -
  obtain r a1 where 1: "av_group_new A (ms_avahi s) = (r, a1)" by fastforce
  show ?thesis
  proof (cases r)
    case None
    then show ?thesis using assms(2) 1 avahi_okD(2)[OF assms(1)] by (auto simp: publish_def)
  next
    case (Some g)
    have new: "pub (ms_avahi s) g = None" "pub a1 = (pub (ms_avahi s))(g \<mapsto> ([], False))"
      using avahi_okD(1)[OF assms(1), of "ms_avahi s" g a1] 1 Some by auto
    have drop: "(pub (ms_avahi s))(g := None) = pub (ms_avahi s)" using new(1) by (rule fun_upd_idem)
    obtain ok a2 where 2: "add_entries A g must a1 = (ok, a2)" by fastforce
    obtain zs where zs: "pub a2 = (pub a1)(g \<mapsto> (zs, False))" "ok \<longrightarrow> zs = must"
      using add_entries_pub[OF assms(1) _ 2, of "[]" False] new(2) by auto
    show ?thesis
    proof (cases ok)
      case False
      then show ?thesis
        using assms(2) 1 2 Some new zs drop avahi_okD(5)[OF assms(1)] by (auto simp: publish_def)
    next
      case True
      obtain ys where ys: "pub (try_entries A g may a2) = (pub a2)(g \<mapsto> (must @ ys, False))" "length ys \<le> length may"
        using try_entries_pub[OF assms(1), of a2 g must False may] zs True by auto
      obtain k a3 where 3: "av_commit A g (try_entries A g may a2) = (k, a3)" by fastforce
      have a3: "pub a3 = (if k < 0 then pub (try_entries A g may a2) else (pub (try_entries A g may a2))(g \<mapsto> (must @ ys, True)))"
        using avahi_okD(4)[OF assms(1) _ 3, of "must @ ys" False] ys(1) by simp
      have "publish A name must may s = (if k < 0 then (False, s\<lparr>ms_avahi := av_group_free A g a3\<rparr>)
          else (True, s\<lparr>ms_avahi := a3, ms_groups := bimap_insert name g (ms_groups s)\<rparr>))"
        using 1 2 3 Some True by (simp add: publish_def)
      then show ?thesis
        using assms(2) new zs(1) ys a3 drop avahi_okD(5)[OF assms(1), of g a3] by (auto split: if_splits)
    qed
  qed
qed

subsection \<open>The table and what is published\<close>

definition group_ok :: "config \<Rightarrow> string \<Rightarrow> (mdns_entry list \<times> bool) option \<Rightarrow> bool" where
  "group_ok c name p \<longleftrightarrow>
     (if name = get_node_id c then \<exists>ys. p = Some (base_entries c @ ys, True) else p = Some (session_entries c name, True))"

definition server_ok :: "('a \<Rightarrow> nat \<Rightarrow> (mdns_entry list \<times> bool) option) \<Rightarrow> config \<Rightarrow> 'a mdns_server \<Rightarrow> bool" where
  "server_ok pub c s \<longleftrightarrow> distinct (map fst (ms_groups s)) \<and> distinct (map snd (ms_groups s)) \<and>
     dom (pub (ms_avahi s)) = snd ` set (ms_groups s) \<and> (\<forall>(name, g) \<in> set (ms_groups s). group_ok c name (pub (ms_avahi s) g))"

lemma publish_ok:
  assumes "avahi_ok A pub" "server_ok pub c s" "publish A name must may s = (b, s')" "name \<notin> fst ` set (ms_groups s)"
    "\<And>ys. length ys \<le> length may \<Longrightarrow> group_ok c name (Some (must @ ys, True))"
  shows "server_ok pub c s' \<and> fst ` set (ms_groups s') = (if b then insert name (fst ` set (ms_groups s)) else fst ` set (ms_groups s))"
proof (cases b)
  case False
  then show ?thesis using publish_pub[OF assms(1,3)] assms(2) by (simp add: server_ok_def)
next
  case True
  then obtain g ys where g: "pub (ms_avahi s) g = None" "pub (ms_avahi s') = (pub (ms_avahi s))(g \<mapsto> (must @ ys, True))"
    "length ys \<le> length may" "ms_groups s' = bimap_insert name g (ms_groups s)"
    using publish_pub[OF assms(1,3)] by auto
  have fresh: "g \<notin> snd ` set (ms_groups s)" using g(1) assms(2) by (auto simp: server_ok_def domIff)
  then have m: "ms_groups s' = (name, g) # ms_groups s" using assms(4) g(4) by (simp add: bimap_insert_def)
  have "\<forall>(n, h) \<in> set (ms_groups s). group_ok c n (pub (ms_avahi s') h)"
    using assms(2) fresh by (auto simp: server_ok_def g(2) intro: rev_image_eqI)
  moreover have "group_ok c name (pub (ms_avahi s') g)" using assms(5)[OF g(3)] by (simp add: g(2))
  moreover have "dom (pub (ms_avahi s')) = snd ` set (ms_groups s')"
    using assms(2) by (simp add: server_ok_def m g(2))
  moreover have "distinct (map fst (ms_groups s'))" "distinct (map snd (ms_groups s'))"
    using assms(2,4) fresh by (simp_all add: server_ok_def m)
  ultimately show ?thesis using True by (simp add: server_ok_def m)
qed

lemma remove_ok:
  assumes "avahi_ok A pub" "server_ok pub c s" "remove_service A c name s = (b, s')"
  shows "server_ok pub c s' \<and> fst ` set (ms_groups s') = (if b then fst ` set (ms_groups s) - {name} else fst ` set (ms_groups s))"
proof (cases b)
  case False
  then show ?thesis using assms(2,3) by (auto simp: remove_service_def split: if_splits option.splits)
next
  case True
  then obtain g where g: "map_of (ms_groups s) name = Some g"
    and s': "s' = s\<lparr>ms_avahi := av_group_free A g (ms_avahi s), ms_groups := smap_del name (ms_groups s)\<rparr>"
    using assms(3) by (auto simp: remove_service_def split: if_splits option.splits)
  have mem: "(name, g) \<in> set (ms_groups s)" using g by (rule map_of_SomeD)
  have dist: "distinct (map fst (ms_groups s))" "distinct (map snd (ms_groups s))" using assms(2) by (simp_all add: server_ok_def)
  have only: "h = g \<longleftrightarrow> n = name" if "(n, h) \<in> set (ms_groups s)" for n h
  proof
    assume "h = g"
    then show "n = name" using inj_onD[OF conjunct2[OF dist(2)[unfolded distinct_map]], of "(n, h)" "(name, g)"] that mem by simp
  next
    assume "n = name"
    then show "h = g" using that mem eq_key_imp_eq_value[OF dist(1)] by blast
  qed
  have del: "set (smap_del name (ms_groups s)) = {x \<in> set (ms_groups s). snd x \<noteq> g}"
  proof (rule set_eqI)
    fix x :: "string \<times> nat"
    show "x \<in> set (smap_del name (ms_groups s)) \<longleftrightarrow> x \<in> {x \<in> set (ms_groups s). snd x \<noteq> g}"
      using only[of "fst x" "snd x"] by (auto simp: smap_del_def)
  qed
  have 1: "snd ` set (smap_del name (ms_groups s)) = snd ` set (ms_groups s) - {g}" unfolding del by blast
  have 2: "fst ` set (smap_del name (ms_groups s)) = fst ` set (ms_groups s) - {name}" by (auto simp: smap_del_def)
  have 3: "distinct (map fst (smap_del name (ms_groups s)))" "distinct (map snd (smap_del name (ms_groups s)))"
    using dist by (simp_all add: smap_del_def distinct_map_filter)
  have ok: "\<forall>x \<in> set (ms_groups s). group_ok c (fst x) (pub (ms_avahi s) (snd x))"
    using assms(2) by (simp add: server_ok_def case_prod_unfold)
  have 4: "\<forall>x \<in> set (smap_del name (ms_groups s)). group_ok c (fst x) (((pub (ms_avahi s))(g := None)) (snd x))"
    unfolding del using ok by simp
  have p: "pub (ms_avahi s') = (pub (ms_avahi s))(g := None)" using avahi_okD(5)[OF assms(1)] s' by simp
  have m: "ms_groups s' = smap_del name (ms_groups s)" using s' by simp
  have "dom (pub (ms_avahi s')) = snd ` set (ms_groups s')"
    using assms(2) 1 by (simp add: server_ok_def p m)
  then show ?thesis
    using True 2 3 4 by (simp add: server_ok_def p m case_prod_unfold)
qed

lemma create_ok:
  assumes "avahi_ok A pub" "server_ok pub c s" "get_node_id c \<notin> fst ` set (ms_groups s)"
  shows "server_ok pub c (snd (create_services A c s)) \<and>
    fst ` set (ms_groups (snd (create_services A c s))) \<subseteq> insert (get_node_id c) (fst ` set (ms_groups s))"
proof (cases "cf_mdns_enabled c")
  case True
  obtain b s' where 1: "publish A (get_node_id c) (base_entries c) (nmos_entries c) s = (b, s')" by fastforce
  have "server_ok pub c s' \<and>
    fst ` set (ms_groups s') = (if b then insert (get_node_id c) (fst ` set (ms_groups s)) else fst ` set (ms_groups s))"
    by (rule publish_ok[OF assms(1,2) 1 assms(3)]) (simp add: group_ok_def)
  then show ?thesis using True by (auto simp: create_services_def 1)
qed (use assms(2) in \<open>auto simp: create_services_def\<close>)

text \<open>The names whose services are up, by what the observers answered.\<close>

fun names_up :: "'a avahi_ops \<Rightarrow> config \<Rightarrow> session_event list \<Rightarrow> 'a mdns_server \<Rightarrow> string set \<Rightarrow> string set" where
  "names_up A c [] s up = up"
| "names_up A c (Source_added i name sdp # es) s up =
     (case add_service A c name s of (b, s) \<Rightarrow> names_up A c es s (if b then insert name up else up))"
| "names_up A c (Source_removed i name # es) s up =
     (case remove_service A c name s of (b, s) \<Rightarrow> names_up A c es s (if b then up - {name} else up))"
| "names_up A c (e # es) s up = names_up A c es s up"

text \<open>No source is announced twice without a removal in between, and none has the name of the node.\<close>

fun orderly :: "'a avahi_ops \<Rightarrow> config \<Rightarrow> session_event list \<Rightarrow> 'a mdns_server \<Rightarrow> bool" where
  "orderly A c [] s \<longleftrightarrow> True"
| "orderly A c (Source_added i name sdp # es) s \<longleftrightarrow>
     name \<noteq> get_node_id c \<and> name \<notin> fst ` set (ms_groups s) \<and> orderly A c es (snd (add_service A c name s))"
| "orderly A c (Source_removed i name # es) s \<longleftrightarrow> name \<noteq> get_node_id c \<and> orderly A c es (snd (remove_service A c name s))"
| "orderly A c (e # es) s \<longleftrightarrow> orderly A c es s"

lemma add_ok:
  assumes "avahi_ok A pub" "server_ok pub c s" "name \<noteq> get_node_id c" "name \<notin> fst ` set (ms_groups s)"
    "add_service A c name s = (b, s')"
  shows "server_ok pub c s' \<and> fst ` set (ms_groups s') = (if b then insert name (fst ` set (ms_groups s)) else fst ` set (ms_groups s))"
proof (cases "ms_running s \<and> cf_mdns_enabled c \<and> av_is_running A (ms_avahi s)")
  case True
  then have "publish A name (session_entries c name) [] s = (b, s')" using assms(5) by (simp add: add_service_def)
  then show ?thesis by (rule publish_ok[OF assms(1,2) _ assms(4)]) (use assms(3) in \<open>simp add: group_ok_def\<close>)
next
  case False
  then have "b = False \<and> s' = s" using assms(5) by (auto simp: add_service_def)
  then show ?thesis using assms(2) by simp
qed

lemma observed_ok:
  assumes "avahi_ok A pub" "server_ok pub c s" "orderly A c es s" "fst ` set (ms_groups s) - {get_node_id c} = up"
  shows "server_ok pub c (fold (observe_source A c) es s) \<and>
    fst ` set (ms_groups (fold (observe_source A c) es s)) - {get_node_id c} = names_up A c es s up"
  using assms(2-)
proof (induction es arbitrary: s up)
  case Nil
  then show ?case by simp
next
  case (Cons e es)
  show ?case
  proof (cases e)
    case (Source_added i name sdp)
    obtain b s' where 1: "add_service A c name s = (b, s')" by fastforce
    have n: "name \<noteq> get_node_id c" "name \<notin> fst ` set (ms_groups s)" "orderly A c es s'"
      using Cons.prems(2) Source_added 1 by simp_all
    have 2: "server_ok pub c s'"
      "fst ` set (ms_groups s') = (if b then insert name (fst ` set (ms_groups s)) else fst ` set (ms_groups s))"
      using add_ok[OF assms(1) Cons.prems(1) n(1,2) 1] by simp_all
    have "fst ` set (ms_groups s') - {get_node_id c} = (if b then insert name up else up)"
      using 2(2) n(1) Cons.prems(3) by (simp add: insert_Diff_if)
    then show ?thesis using Cons.IH[OF 2(1) n(3)] Source_added 1 by simp
  next
    case (Source_removed i name)
    obtain b s' where 1: "remove_service A c name s = (b, s')" by fastforce
    have n: "orderly A c es s'" using Cons.prems(2) Source_removed 1 by simp
    have 2: "server_ok pub c s'"
      "fst ` set (ms_groups s') = (if b then fst ` set (ms_groups s) - {name} else fst ` set (ms_groups s))"
      using remove_ok[OF assms(1) Cons.prems(1) 1] by simp_all
    have "fst ` set (ms_groups s') - {get_node_id c} = (if b then up - {name} else up)"
      using 2(2) Cons.prems(3) by (simp, blast)
    then show ?thesis using Cons.IH[OF 2(1) n] Source_removed 1 by simp
  qed (use Cons in simp_all)
qed

subsection \<open>What is published follows the sources\<close>

text \<open>The entries published under the service name of a session.\<close>

definition session_published :: "('a \<Rightarrow> nat \<Rightarrow> (mdns_entry list \<times> bool) option) \<Rightarrow> config \<Rightarrow> string \<Rightarrow> 'a mdns_server \<Rightarrow> bool" where
  "session_published pub c name s \<longleftrightarrow> (\<exists>g. pub (ms_avahi s) g = Some (session_entries c name, True))"

lemma session_entries_inj [simp]: "session_entries c n = session_entries c m \<longleftrightarrow> n = m"
  by (auto simp: session_entries_def)

lemma session_not_base: "session_entries c n \<noteq> base_entries c @ ys"
  by (simp add: session_entries_def base_entries_def)

lemma published_iff:
  assumes "server_ok pub c s" "name \<noteq> get_node_id c"
  shows "session_published pub c name s \<longleftrightarrow> name \<in> fst ` set (ms_groups s)"
proof
  assume "session_published pub c name s"
  then obtain g where g: "pub (ms_avahi s) g = Some (session_entries c name, True)"
    by (auto simp: session_published_def)
  then have "g \<in> dom (pub (ms_avahi s))" by blast
  then obtain n where n: "(n, g) \<in> set (ms_groups s)" using assms(1) by (auto simp: server_ok_def)
  then have "group_ok c n (pub (ms_avahi s) g)" using assms(1) by (auto simp: server_ok_def)
  then have "n = name" using g session_not_base by (auto simp: group_ok_def split: if_splits)
  then show "name \<in> fst ` set (ms_groups s)" using n by force
next
  assume "name \<in> fst ` set (ms_groups s)"
  then obtain g where "(name, g) \<in> set (ms_groups s)" by force
  then have "group_ok c name (pub (ms_avahi s) g)" using assms(1) by (auto simp: server_ok_def)
  then show "session_published pub c name s" using assms(2) by (auto simp: group_ok_def session_published_def)
qed


text \<open>An Avahi that accepts every call and records it.\<close>

definition recorded :: "(mdns_entry list \<times> bool) option list \<Rightarrow> nat \<Rightarrow> (mdns_entry list \<times> bool) option" where
  "recorded a g = (if g < length a then a ! g else None)"

definition recorder :: "(mdns_entry list \<times> bool) option list avahi_ops" where
  "recorder =
     \<lparr>av_group_new = \<lambda>a. (Some (length a), a @ [Some ([], False)]),
      av_add = \<lambda>g x a. (case recorded a g of Some (es, p) \<Rightarrow> (0, a[g := Some (es @ [x], p)]) | None \<Rightarrow> (- 1, a)),
      av_commit = \<lambda>g a. (case recorded a g of Some (es, p) \<Rightarrow> (0, a[g := Some (es, True)]) | None \<Rightarrow> (- 1, a)),
      av_group_free = \<lambda>g a. a[g := None],
      av_is_running = \<lambda>a. True\<rparr>"

lemma recorded_update: "g < length a \<Longrightarrow> recorded (a[g := v]) = (recorded a)(g := v)"
  by (rule ext) (simp add: recorded_def nth_list_update)

lemma recorded_free: "recorded (a[g := None]) = (recorded a)(g := None)"
  by (rule ext) (simp add: recorded_def nth_list_update)

lemma recorded_new: "recorded (a @ [v]) = (recorded a)(length a := v)"
  by (rule ext) (simp add: recorded_def nth_append)

lemma recorded_some: "recorded a g = Some x \<Longrightarrow> g < length a"
  by (simp add: recorded_def split: if_splits)

lemma recorder_ok: "avahi_ok recorder recorded"
  unfolding avahi_ok_def
proof (intro conjI allI impI)
  show "\<And>a g a'. av_group_new recorder a = (Some g, a') \<Longrightarrow> recorded a g = None"
    by (auto simp: recorder_def recorded_def)
  show "\<And>a g a'. av_group_new recorder a = (Some g, a') \<Longrightarrow> recorded a' = (recorded a)(g \<mapsto> ([], False))"
    by (auto simp: recorder_def recorded_new)
  show "\<And>a a'. av_group_new recorder a = (None, a') \<Longrightarrow> recorded a' = recorded a"
    by (simp add: recorder_def)
  show "\<And>a g es p x r a'. recorded a g = Some (es, p) \<Longrightarrow> av_add recorder g x a = (r, a') \<Longrightarrow>
      recorded a' = (if r < 0 then recorded a else (recorded a)(g \<mapsto> (es @ [x], p)))"
    using recorded_some by (fastforce simp: recorder_def recorded_update)
  show "\<And>a g es p r a'. recorded a g = Some (es, p) \<Longrightarrow> av_commit recorder g a = (r, a') \<Longrightarrow>
      recorded a' = (if r < 0 then recorded a else (recorded a)(g \<mapsto> (es, True)))"
    using recorded_some by (fastforce simp: recorder_def recorded_update)
  show "\<And>a g. recorded (av_group_free recorder g a) = (recorded a)(g := None)"
    by (simp add: recorder_def recorded_free)
qed

definition recorder_config :: config where
  "recorder_config = config_default\<lparr>cf_custom_node_id := ''node'', cf_mdns_enabled := True, cf_nmos_enabled := True, cf_nmos_mdns_enabled := True\<rparr>"

definition recorder_server :: "(mdns_entry list \<times> bool) option list mdns_server" where
  "recorder_server = \<lparr>ms_running = True, ms_groups = [], ms_avahi = [], ms_poll_quit = False\<rparr>"

definition recorder_events :: "session_event list" where
  "recorder_events = [Source_added 0 ''one'' [], Source_added 1 ''two'' [], Source_removed 0 ''one'', Source_removed 0 ''one'']"


text \<open>A source announced under a name that is already in the table is published a second time, but the
  table keeps only the first group: once the source is removed its service is still published, its
  name is no longer in the table, and no later removal of it succeeds or changes anything.\<close>

theorem repeated_name_stays_published:
  assumes "avahi_ok A pub" "server_ok pub c s" "name \<in> fst ` set (ms_groups s)"
    "add_service A c name s = (True, s1)" "remove_service A c name s1 = (True, s2)"
  shows "session_published pub c name s2 \<and> remove_service A c name s2 = (False, s2)"
proof -
  have p: "publish A name (session_entries c name) [] s = (True, s1)"
    using assms(4) by (simp add: add_service_def split: if_splits)
  have same: "bimap_insert name g (ms_groups s) = ms_groups s" for g using assms(3) by (simp add: bimap_insert_def)
  obtain g where g: "pub (ms_avahi s) g = None" "pub (ms_avahi s1) = (pub (ms_avahi s))(g \<mapsto> (session_entries c name, True))"
    "ms_groups s1 = ms_groups s"
    using publish_pub[OF assms(1) p] same by auto
  obtain h where h: "map_of (ms_groups s1) name = Some h"
    and s2: "s2 = s1\<lparr>ms_avahi := av_group_free A h (ms_avahi s1), ms_groups := smap_del name (ms_groups s1)\<rparr>"
    using assms(5) by (auto simp: remove_service_def split: if_splits option.splits)
  have "h \<in> snd ` set (ms_groups s)" using map_of_SomeD[OF h] g(3) by force
  then have "h \<noteq> g" using g(1) assms(2) by (auto simp: server_ok_def domIff)
  then have "pub (ms_avahi s2) g = Some (session_entries c name, True)"
    using avahi_okD(5)[OF assms(1), of h "ms_avahi s1"] g(2) by (simp add: s2)
  then have "session_published pub c name s2" by (auto simp: session_published_def)
  moreover have "name \<notin> fst ` set (ms_groups s2)" by (auto simp: s2 smap_del_def)
  then have "map_of (ms_groups s2) name = None" by (simp add: map_of_eq_None_iff)
  then have "remove_service A c name s2 = (False, s2)" by (simp add: remove_service_def)
  ultimately show ?thesis by blast
qed

theorem repeated_name_stays_published_witness:
  "session_published recorded recorder_config ''one''
     (snd (remove_service recorder recorder_config ''one''
       (snd (add_service recorder recorder_config ''one'' (snd (add_service recorder recorder_config ''one'' recorder_server))))))"
proof -
  define s where "s = snd (add_service recorder recorder_config ''one'' recorder_server)"
  have n: "''one'' \<noteq> get_node_id recorder_config" by code_simp
  have "server_ok recorded recorder_config recorder_server"
    by (auto simp: server_ok_def recorder_server_def recorded_def)
  then have 1: "server_ok recorded recorder_config s"
    using add_ok[OF recorder_ok _ n, of recorder_server "fst (add_service recorder recorder_config ''one'' recorder_server)" s]
    by (simp add: s_def recorder_server_def)
  have 2: "''one'' \<in> fst ` set (ms_groups s)" unfolding s_def by code_simp
  have "fst (add_service recorder recorder_config ''one'' s)" unfolding s_def by code_simp
  then have 3: "add_service recorder recorder_config ''one'' s = (True, snd (add_service recorder recorder_config ''one'' s))"
    by (metis prod.collapse)
  have "fst (remove_service recorder recorder_config ''one'' (snd (add_service recorder recorder_config ''one'' s)))"
    unfolding s_def by code_simp
  then have 4: "remove_service recorder recorder_config ''one'' (snd (add_service recorder recorder_config ''one'' s)) =
      (True, snd (remove_service recorder recorder_config ''one'' (snd (add_service recorder recorder_config ''one'' s))))"
    by (metis prod.collapse)
  show ?thesis using repeated_name_stays_published[OF recorder_ok 1 2 3 4] by (simp add: s_def)
qed

subsection \<open>Which services the client asks for\<close>

text \<open>What Avahi and the timer do to the client, one callback at a time.\<close>

inductive mdns_client_step :: "config \<Rightarrow> mdns_client \<Rightarrow> mdns_client \<Rightarrow> bool" for c where
  browsed: "mdns_client_step c m (browse_callback now started e m)"
| resolved: "(rv_name r, rv_domain r) \<in> set (mc_resolvers m) \<Longrightarrow> mdns_client_step c m (resolve_callback c found r m)"
| polled: "mdns_client_step c m (process_results ready m)"
| client: "mdns_client_step c m (client_callback b state m)"
| ended: "mdns_client_step c m (mdns_client_terminate m)"

definition mdns_client_ok :: "config \<Rightarrow> mdns_client \<Rightarrow> bool" where
  "mdns_client_ok c m \<longleftrightarrow> distinct (mc_resolvers m) \<and>
     (\<forall>t \<in> set (mc_tasks m). \<exists>r. t = resolved_call c r \<and> (rv_local r \<longleftrightarrow> get_interface_name 0 c = ''lo''))"

lemma mdns_client_ok_resolvers:
  "mdns_client_ok c m \<Longrightarrow> mdns_client_ok c (m\<lparr>mc_resolvers := removeAll x (mc_resolvers m)\<rparr>)"
  by (simp add: mdns_client_ok_def distinct_removeAll)

lemma resolve_ok: "mdns_client_ok c m \<Longrightarrow> mdns_client_ok c (resolve_callback c found r m)"
  unfolding resolve_callback_def Let_def
  by (rule mdns_client_ok_resolvers) (auto simp: mdns_client_ok_def)

text \<open>Whatever Avahi reports, at most one resolver runs per service, and every RTSP client that was
  started is for a resolved service that is of this host exactly when the daemon runs on the loopback
  interface.\<close>

theorem clients_are_wanted:
  assumes "(mdns_client_step c)\<^sup>*\<^sup>* m m'" "mc_resolvers m = []" "mc_tasks m = []"
  shows "distinct (mc_resolvers m') \<and>
    (\<forall>t \<in> set (mc_tasks m'). \<exists>r. t = resolved_call c r \<and> (rv_local r \<longleftrightarrow> get_interface_name 0 c = ''lo''))"
proof -
  have "mdns_client_ok c m" using assms(2,3) by (simp add: mdns_client_ok_def)
  with assms(1) have "mdns_client_ok c m'"
  proof (induction rule: rtranclp_induct)
    case (step a b)
    then have ok: "mdns_client_ok c a" by blast
    from step(2) show ?case
    proof cases
      case (browsed now started e)
      then show ?thesis using ok by (cases e) (simp_all add: browse_callback_def mdns_client_ok_def)
    next
      case (resolved r found)
      then show ?thesis using ok resolve_ok by simp
    next
      case (client d state)
      then show ?thesis using ok by (cases state) (simp_all add: client_callback_def mdns_client_ok_def)
    qed (use ok in \<open>simp_all add: process_results_def mdns_client_terminate_def mdns_client_ok_def\<close>)
  qed
  then show ?thesis by (simp add: mdns_client_ok_def)
qed

definition idle_client :: mdns_client where
  "idle_client = \<lparr>mc_resolvers = [], mc_tasks = [], mc_clients = [], mc_browser = \<lparr>br_sources = [], br_last_update = 0\<rparr>, mc_poll_quit = False, mc_running = True\<rparr>"

definition found_service :: resolved where
  "found_service = \<lparr>rv_name = ''studio'', rv_domain = ''local'', rv_address = ''10.0.0.7'', rv_port = 8854, rv_local = False\<rparr>"

theorem clients_are_wanted_witness:
  "map cc_address (mc_tasks (resolve_callback config_default True found_service
       (browse_callback 0 True (Browse_new ''studio'' ''local'') idle_client))) = [''10.0.0.7''] \<and>
   (\<exists>r. resolved_call config_default found_service = resolved_call config_default r \<and>
      (rv_local r \<longleftrightarrow> get_interface_name 0 config_default = ''lo''))"
proof -
  define m where "m = browse_callback 0 True (Browse_new ''studio'' ''local'') idle_client"
  have m: "mc_resolvers m = [(''studio'', ''local'')]" "mc_tasks m = []"
    by (simp_all add: m_def browse_callback_def idle_client_def)
  have 1: "mdns_client_step config_default idle_client m" unfolding m_def by (rule browsed)
  have 2: "mdns_client_step config_default m (resolve_callback config_default True found_service m)"
    by (rule resolved) (simp add: m found_service_def)
  have i: "get_interface_name 0 config_default \<noteq> ''lo''" by (simp add: get_interface_name_def config_default_def)
  have t: "mc_tasks (resolve_callback config_default True found_service m) = [resolved_call config_default found_service]"
    using m i by (simp add: resolve_callback_def found_service_def)
  have "(mdns_client_step config_default)\<^sup>*\<^sup>* idle_client (resolve_callback config_default True found_service m)"
    using 1 2 by (meson rtranclp.rtrancl_into_rtrancl rtranclp.rtrancl_refl)
  from clients_are_wanted[OF this] have
    "\<exists>r. resolved_call config_default found_service = resolved_call config_default r \<and>
      (rv_local r \<longleftrightarrow> get_interface_name 0 config_default = ''lo'')"
    unfolding t by (simp add: idle_client_def)
  moreover have "map cc_address [resolved_call config_default found_service] = [''10.0.0.7'']"
    by (simp add: resolved_call_def found_service_def)
  ultimately show ?thesis unfolding m_def[symmetric] t by blast
qed

end
