(* ===== verification/Daemon.thy ===== *)
theory Daemon
  imports Config Interface
begin

text \<open>
  \<open>daemon/main.cpp\<close>: the parts of the daemon are started in a fixed order, the main loop waits for a
  signal, a new address or a saved configuration that needs a restart, and the parts are stopped;
  an exception leaves the block in which they are local variables.  What the parts answer, the
  networks and configurations that the loop sees and the signals are inputs, one record for each
  turn of the outer loop.  The notifications of systemd are left out.
\<close>

subsection \<open>Starting and stopping\<close>

datatype part =
    Driver_part | Browser_part | Session_part | Mdns_part | Rtsp_part | Streamer_part | Http_part | Nmos_part

text \<open>What \<open>main\<close> does in a lifetime: the calls of \<open>init\<close> and \<open>terminate\<close>, and those that read and write
  the status file.\<close>

datatype step = Start part | Load_status | Save_status | Stop part

text \<open>The parts in the order of their local variables, which is that of their calls of \<open>init\<close>.\<close>

definition start_steps :: "build \<Rightarrow> config \<Rightarrow> step list" where
  "start_steps b c =
     [Start Driver_part, Start Browser_part, Start Session_part] @
     (if get_mdns_enabled b c then [Start Mdns_part] else []) @
     [Start Rtsp_part] @
     (if get_streamer_enabled b c then [Start Streamer_part] else []) @
     [Start Http_part, Load_status] @
     (if cf_nmos_enabled c then [Start Nmos_part] else [])"

text \<open>The configuration is looked at again: it is the object that the HTTP server saves into.\<close>

definition stop_steps :: "build \<Rightarrow> bool \<Rightarrow> config \<Rightarrow> step list" where
  "stop_steps b nmos c =
     [Save_status] @
     (if cf_nmos_enabled c \<and> nmos then [Stop Nmos_part] else []) @
     [Stop Http_part] @
     (if get_streamer_enabled b c then [Stop Streamer_part] else []) @
     [Stop Rtsp_part] @
     (if get_mdns_enabled b c then [Stop Mdns_part] else []) @
     [Stop Session_part, Stop Browser_part, Stop Driver_part]"

text \<open>One after the other up to the first one that fails, which throws.\<close>

fun run_steps :: "(step \<Rightarrow> bool) \<Rightarrow> step list \<Rightarrow> step list \<times> bool" where
  "run_steps ok [] = ([], True)"
| "run_steps ok (x # xs) =
     (if ok x then (case run_steps ok xs of (ys, b) \<Rightarrow> (x # ys, b)) else ([x], False))"

text \<open>One turn of the inner loop: whether the signal has come, the network, the configuration.\<close>

record turn =
  tu_terminated :: bool
  tu_net :: net_world
  tu_config :: config

text \<open>The inputs of one turn of the outer loop.  \<open>lf_busy p\<close> says that the thread which \<open>init\<close> of \<open>p\<close>
  launched with \<open>std::async\<close> is at work as long as nobody stops \<open>p\<close>.\<close>

record lifetime =
  lf_terminated :: bool
  lf_net :: net_world
  lf_file :: config_file
  lf_init :: "part \<Rightarrow> bool"
  lf_load :: bool
  lf_turns :: "turn list"
  lf_term :: "part \<Rightarrow> bool"
  lf_busy :: "part \<Rightarrow> bool"

fun step_ok :: "lifetime \<Rightarrow> step \<Rightarrow> bool" where
  "step_ok l (Start p) = lf_init l p"
| "step_ok l Load_status = lf_load l"
| "step_ok l Save_status = True"
| "step_ok l (Stop p) = lf_term l p"

text \<open>The destructors at the end of the block, last part first.  No part has one that stops it; the
  future of \<open>std::async\<close> waits for its thread, so that a part which was started and not stopped blocks
  while its thread is at work.\<close>

definition destroyed_parts :: "part list" where
  "destroyed_parts =
     [Nmos_part, Http_part, Streamer_part, Rtsp_part, Mdns_part, Session_part, Browser_part, Driver_part]"

definition blocked :: "lifetime \<Rightarrow> step list \<Rightarrow> part option" where
  "blocked l log =
     find (\<lambda>p. Start p \<in> set log \<and> Stop p \<notin> set log \<and> lf_busy l p) destroyed_parts"

subsection \<open>The loops\<close>

text \<open>The inner loop: the configuration at its end and \<open>driver_restart\<close>; \<^const>\<open>None\<close> while it goes on.\<close>

fun main_loop :: "bool \<Rightarrow> turn list \<Rightarrow> (config \<times> bool) option" where
  "main_loop driver_restart [] = None"
| "main_loop driver_restart (t # ts) =
     (let c = tu_config t
      in if tu_terminated t then Some (c, driver_restart)
         else (case get_new_interface_ip (tu_net t) (get_interface_name 0 c) (cf_ip_str c) of
                 (_, _, is_new) \<Rightarrow>
                   if is_new then Some (c, driver_restart)
                   else if cf_daemon_restart c then Some (c, cf_driver_restart c)
                   else main_loop (cf_driver_restart c) ts))"

datatype life_end = Ended bool | Failed | Stuck part | Unfinished

definition run_lifetime :: "build \<Rightarrow> config \<Rightarrow> bool \<Rightarrow> lifetime \<Rightarrow> step list \<times> life_end" where
  "run_lifetime b c driver_restart l =
     (case run_steps (step_ok l) (start_steps b c) of
        (log, False) \<Rightarrow> (log, case blocked l log of Some p \<Rightarrow> Stuck p | None \<Rightarrow> Failed)
      | (log, True) \<Rightarrow>
          (case main_loop driver_restart (lf_turns l) of
             None \<Rightarrow> (log, Unfinished)
           | Some (c', driver_restart') \<Rightarrow>
               (case run_steps (step_ok l) (stop_steps b (cf_nmos_enabled c) c') of
                  (log', done) \<Rightarrow>
                    (log @ log',
                     case blocked l (log @ log') of
                       Some p \<Rightarrow> Stuck p
                     | None \<Rightarrow> if done then Ended driver_restart' else Failed))))"

text \<open>The command line: the file of the configuration and what it overrides.\<close>

record options =
  op_config :: string
  op_http_addr :: "string option"
  op_http_port :: "int option"

definition override :: "options \<Rightarrow> config \<Rightarrow> config" where
  "override o1 c =
     (let c = (case op_http_addr o1 of None \<Rightarrow> c | Some a \<Rightarrow> c\<lparr>cf_http_addr_str := a\<rparr>)
      in case op_http_port o1 of None \<Rightarrow> c | Some n \<Rightarrow> c\<lparr>cf_http_port := word_of_int n\<rparr>)"

text \<open>The outer loop: the logs of the lifetimes, and how the process ends.  Without an address it waits for
  the next turn.\<close>

datatype process_end = Exits int | Hangs part | Runs

fun daemon ::
  "(string \<Rightarrow> bool) \<Rightarrow> build \<Rightarrow> options \<Rightarrow> bool \<Rightarrow> lifetime list \<Rightarrow> step list list \<times> process_end" where
  "daemon addr_ok b o1 driver_restart [] = ([], Runs)"
| "daemon addr_ok b o1 driver_restart (l # ls) =
     (if lf_terminated l then ([], Exits 0)
      else (case config_parse addr_ok (lf_net l) (op_config o1) driver_restart (lf_file l) of
              None \<Rightarrow> ([], Exits 1)
            | Some c \<Rightarrow>
                (let c = override o1 c
                 in if cf_ip_str c = [] then daemon addr_ok b o1 driver_restart ls
                    else (case run_lifetime b c driver_restart l of
                            (log, Ended driver_restart') \<Rightarrow>
                              (case daemon addr_ok b o1 driver_restart' ls of (logs, r) \<Rightarrow> (log # logs, r))
                          | (log, Failed) \<Rightarrow> ([log], Exits 1)
                          | (log, Stuck p) \<Rightarrow> ([log], Hangs p)
                          | (log, Unfinished) \<Rightarrow> ([log], Runs)))))"

datatype command_line = Bad_options | Asked_version | Asked_help | Run_with options

definition main_entry :: "(string \<Rightarrow> bool) \<Rightarrow> build \<Rightarrow> command_line \<Rightarrow> lifetime list \<Rightarrow> step list list \<times> process_end" where
  "main_entry addr_ok b cmd ls =
     (case cmd of
        Bad_options \<Rightarrow> ([], Exits 1)
      | Asked_version \<Rightarrow> ([], Exits 0)
      | Asked_help \<Rightarrow> ([], Exits 0)
      | Run_with o1 \<Rightarrow> daemon addr_ok b o1 True ls)"

subsection \<open>What a lifetime does\<close>

fun starts_of :: "step list \<Rightarrow> part list" where
  "starts_of [] = []"
| "starts_of (Start p # xs) = p # starts_of xs"
| "starts_of (x # xs) = starts_of xs"

fun stops_of :: "step list \<Rightarrow> part list" where
  "stops_of [] = []"
| "stops_of (Stop p # xs) = p # stops_of xs"
| "stops_of (x # xs) = stops_of xs"

lemma starts_of_append [simp]: "starts_of (xs @ ys) = starts_of xs @ starts_of ys"
  by (induction xs rule: starts_of.induct) simp_all

lemma stops_of_append [simp]: "stops_of (xs @ ys) = stops_of xs @ stops_of ys"
  by (induction xs rule: stops_of.induct) simp_all

lemma in_starts_of: "p \<in> set (starts_of xs) \<longleftrightarrow> Start p \<in> set xs"
  by (induction xs rule: starts_of.induct) auto

lemma in_stops_of: "p \<in> set (stops_of xs) \<longleftrightarrow> Stop p \<in> set xs"
  by (induction xs rule: stops_of.induct) auto

lemma run_steps_ok: "\<forall>x \<in> set xs. ok x \<Longrightarrow> run_steps ok xs = (xs, True)"
  by (induction xs) simp_all

lemma run_steps_done: "run_steps ok xs = (ys, b) \<Longrightarrow> b \<longleftrightarrow> (\<forall>x \<in> set xs. ok x)"
  by (induction xs arbitrary: ys b) (auto split: prod.splits if_splits)

lemma run_steps_prefix: "run_steps ok (xs @ zs) = (ys, b) \<Longrightarrow> \<forall>x \<in> set xs. ok x \<Longrightarrow> \<exists>ws. ys = xs @ ws \<and> set ws \<subseteq> set zs"
proof (induction xs arbitrary: ys b)
  case Nil
  then show ?case by (induction zs arbitrary: ys b) (fastforce split: prod.splits if_splits)+
next
  case (Cons x xs)
  obtain us c where 1: "run_steps ok (xs @ zs) = (us, c)" by fastforce
  then show ?case using Cons.IH[OF 1] Cons.prems by auto
qed

lemma blocked_none: "(\<And>p. Start p \<in> set log \<Longrightarrow> Stop p \<notin> set log \<Longrightarrow> \<not> lf_busy l p) \<Longrightarrow> blocked l log = None"
  unfolding blocked_def find_None_iff by blast

lemma blocked_some:
  assumes "Start p \<in> set log" "Stop p \<notin> set log" "lf_busy l p"
  shows "\<exists>q. blocked l log = Some q"
proof -
  have "p \<in> set destroyed_parts" by (cases p) (simp_all add: destroyed_parts_def)
  then have "blocked l log \<noteq> None" unfolding blocked_def find_None_iff using assms by blast
  then show ?thesis by blast
qed

definition same_parts :: "build \<Rightarrow> config \<Rightarrow> config \<Rightarrow> bool" where
  "same_parts b c c' \<longleftrightarrow> get_mdns_enabled b c' = get_mdns_enabled b c \<and>
     get_streamer_enabled b c' = get_streamer_enabled b c \<and> cf_nmos_enabled c' = cf_nmos_enabled c"

lemma stops_reverse:
  "same_parts b c c' \<Longrightarrow> stops_of (stop_steps b (cf_nmos_enabled c) c') = rev (starts_of (start_steps b c))"
  by (simp add: same_parts_def stop_steps_def start_steps_def)

text \<open>C15: As long as the saved configuration switches no part on or off, a lifetime in which nothing fails
  starts its parts, reads the status file once after the session manager and before the NMOS node are
  started, writes it once before anything is stopped, and stops exactly the parts it started, in the
  reverse order; nothing is left for the destructors to wait for.\<close>

theorem lifetime_in_reverse:
  assumes "\<forall>p. lf_init l p" "lf_load l" "\<forall>p. lf_term l p"
    "main_loop dr (lf_turns l) = Some (c', dr')" "same_parts b c c'"
  shows "\<exists>ups downs. run_lifetime b c dr l = (ups @ Save_status # downs, Ended dr') \<and>
    downs = rev (map Stop (starts_of ups)) \<and> distinct (starts_of ups) \<and> stops_of ups = [] \<and>
    starts_of (takeWhile (\<lambda>x. x \<noteq> Load_status) ups) = filter (\<lambda>p. p \<noteq> Nmos_part) (starts_of ups) \<and>
    count_list ups Load_status = 1 \<and> Session_part \<in> set (starts_of ups)"
proof -
  define ups downs where "ups = start_steps b c" and "downs = tl (stop_steps b (cf_nmos_enabled c) c')"
  have ok: "step_ok l x" for x using assms(1-3) by (cases x) simp_all
  have s: "stop_steps b (cf_nmos_enabled c) c' = Save_status # downs"
    by (simp add: downs_def stop_steps_def)
  have r: "downs = rev (map Stop (starts_of ups))"
    using assms(5) by (simp add: downs_def ups_def stop_steps_def start_steps_def same_parts_def)
  have "blocked l (ups @ Save_status # downs) = None"
    by (rule blocked_none) (auto simp: r in_starts_of)
  then have "run_lifetime b c dr l = (ups @ Save_status # downs, Ended dr')"
    using ok assms(4) by (simp add: run_lifetime_def run_steps_ok s flip: ups_def)
  moreover have "distinct (starts_of ups)" "stops_of ups = []" "count_list ups Load_status = 1"
    "Session_part \<in> set (starts_of ups)"
    "starts_of (takeWhile (\<lambda>x. x \<noteq> Load_status) ups) = filter (\<lambda>p. p \<noteq> Nmos_part) (starts_of ups)"
    by (simp_all add: ups_def start_steps_def)
  ultimately show ?thesis using r by blast
qed

subsection \<open>Ends that never come\<close>

lemma started_first: "\<exists>zs. start_steps b c = [Start Driver_part, Start Browser_part] @ zs \<and> Stop p \<notin> set zs"
  by (simp add: start_steps_def)


lemma main_loop_restart:
  assumes "\<forall>t \<in> set ts. \<not> tu_terminated t \<and> \<not> cf_daemon_restart (tu_config t) \<and>
      \<not> snd (snd (get_new_interface_ip (tu_net t) (get_interface_name 0 (tu_config t)) (cf_ip_str (tu_config t))))"
    "\<not> tu_terminated t" "cf_daemon_restart (tu_config t)"
  shows "\<exists>dr'. main_loop dr (ts @ t # us) = Some (tu_config t, dr')"
  using assms
proof (induction ts arbitrary: dr)
  case Nil
  then show ?case by (auto simp: Let_def split: prod.split)
next
  case (Cons u ts)
  then show ?case by (auto simp: Let_def split: prod.split)
qed

text \<open>Saving a configuration that switches the streamer off, or the NMOS node, makes the daemon restart,
  and the restart never ends: the configuration is looked at again when the parts are stopped, the part
  that was switched off is not stopped, and the destructor waits for its worker.\<close>

theorem switching_off_hangs:
  assumes "config_save b True cur new = (True, cur', Some w)"
    "get_streamer_enabled b c \<and> get_streamer_enabled b cur \<and> \<not> get_streamer_enabled b new \<and> lf_busy l Streamer_part \<or>
     cf_nmos_enabled c \<and> cf_nmos_enabled cur \<and> \<not> cf_nmos_enabled new \<and> lf_busy l Nmos_part"
    "lf_turns l = ts @ t # us" "tu_config t = cur'" "\<not> tu_terminated t"
    "\<forall>t \<in> set ts. \<not> tu_terminated t \<and> \<not> cf_daemon_restart (tu_config t) \<and>
      \<not> snd (snd (get_new_interface_ip (tu_net t) (get_interface_name 0 (tu_config t)) (cf_ip_str (tu_config t))))"
    "\<forall>p. lf_init l p" "lf_load l" "\<forall>p. lf_term l p"
  shows "\<exists>log p. run_lifetime b c dr l = (log, Stuck p) \<and> p \<in> {Nmos_part, Streamer_part} \<and>
    Start p \<in> set log \<and> Stop p \<notin> set log"
proof -
  have cur': "cur' = new\<lparr>cf_daemon_restart := daemon_restart_needed b cur new\<rparr>"
    using assms(1) by (auto simp: config_save_def Let_def split: if_splits)
  have "daemon_restart_needed b cur new" using assms(2) by (auto simp: daemon_restart_needed_def)
  then have "cf_daemon_restart (tu_config t)" using assms(4) cur' by simp
  then obtain dr' where loop: "main_loop dr (lf_turns l) = Some (cur', dr')"
    using main_loop_restart[OF assms(6) assms(5)] assms(3,4) by metis
  have ok: "step_ok l x" for x using assms(7-9) by (cases x) simp_all
  define log where "log = start_steps b c @ stop_steps b (cf_nmos_enabled c) cur'"
  obtain q where q: "Start q \<in> set log" "Stop q \<notin> set log" "lf_busy l q" "q \<in> {Nmos_part, Streamer_part}"
  proof (cases "cf_nmos_enabled c \<and> \<not> cf_nmos_enabled new \<and> lf_busy l Nmos_part")
    case True
    then show ?thesis
      using that[of Nmos_part] by (simp add: log_def start_steps_def stop_steps_def cur')
  next
    case False
    then have "get_streamer_enabled b c \<and> \<not> get_streamer_enabled b new \<and> lf_busy l Streamer_part"
      using assms(2) by blast
    then show ?thesis
      using that[of Streamer_part] by (simp add: log_def start_steps_def stop_steps_def cur' get_streamer_enabled_def)
  qed
  then obtain p where p: "blocked l log = Some p" using blocked_some[of q log l] by blast
  then have sp: "Start p \<in> set log \<and> Stop p \<notin> set log" by (auto simp: blocked_def find_Some_iff)
  have others: "Start r \<in> set log \<Longrightarrow> Stop r \<notin> set log \<Longrightarrow> r \<in> {Nmos_part, Streamer_part, Mdns_part}" for r
    by (cases r) (auto simp: log_def stop_steps_def)
  have "p \<noteq> Mdns_part"
  proof
    assume "p = Mdns_part"
    then have "\<not> (Start q \<in> set log \<and> Stop q \<notin> set log \<and> lf_busy l q)"
      using p q(4) unfolding blocked_def destroyed_parts_def by (auto split: if_splits)
    then show False using q by blast
  qed
  then have "p \<in> {Nmos_part, Streamer_part}" using others[of p] sp by blast
  moreover have "run_lifetime b c dr l = (log, Stuck p)"
    using ok loop p by (simp add: run_lifetime_def run_steps_ok log_def)
  ultimately show ?thesis using sp by blast
qed


subsection \<open>Sample lifetimes\<close>

definition sample_net :: net_world where
  "sample_net = silent_net\<lparr>nw_addrs := [(''eth0'', 0x0A000001)], nw_ifaddr := (\<lambda>_. Some 0x0A000001)\<rparr>"

definition sample_build :: build where "sample_build = \<lparr>b_streamer = True, b_avahi = True\<rparr>"

definition sample_options1 :: options where
  "sample_options1 = \<lparr>op_config = ''daemon.conf'', op_http_addr = None, op_http_port = Some 8081\<rparr>"

definition sample_life :: "turn list \<Rightarrow> lifetime" where
  "sample_life ts =
     \<lparr>lf_terminated = False, lf_net = sample_net, lf_file = Config_json (config_default\<lparr>cf_streamer_enabled := True\<rparr>),
      lf_init = (\<lambda>p. True), lf_load = True, lf_turns = ts, lf_term = (\<lambda>p. True), lf_busy = (\<lambda>p. p \<noteq> Mdns_part)\<rparr>"

definition sample_turn :: "bool \<Rightarrow> config \<Rightarrow> turn" where
  "sample_turn stop c = \<lparr>tu_terminated = stop, tu_net = sample_net, tu_config = c\<rparr>"

lemma sample_life_parse:
  "\<exists>c. config_parse (\<lambda>a. True) sample_net file dr (Config_json (config_default\<lparr>cf_streamer_enabled := True\<rparr>)) = Some c \<and>
     cf_ip_str c = ''10.0.0.1'' \<and> cf_streamer_enabled c \<and> cf_mdns_enabled c \<and> \<not> cf_nmos_enabled c"
proof -
  let ?c = "config_default\<lparr>cf_streamer_enabled := True\<rparr>"
  let ?d = "split_interfaces (check_addresses (\<lambda>a. True) (check_numbers ?c))"
  have i: "split_compress (\<lambda>x. x = CHR '','') ''eth0'' = [''eth0'']" by code_simp
  have m: "get_interface_mac sample_net ''eth0'' = ([2, 0, 0, 0, 0, 1], ''02:00:00:00:00:01'')" by code_simp
  have a: "get_new_interface_ip sample_net ''eth0'' [] = (0x0A000001, ''10.0.0.1'', False)" by code_simp
  have d: "cf_interfaces ?d = [''eth0'']" "cf_ip_str ?d = []" "cf_streamer_enabled ?d" "cf_mdns_enabled ?d" "\<not> cf_nmos_enabled ?d"
    by (simp_all add: split_interfaces_def check_addresses_def check_numbers_def config_default_def Let_def i)
  show ?thesis
    using d by (simp add: config_parse_def config_network_def m a split_beta Let_def)
qed

theorem lifetime_in_reverse_witness:
  "\<exists>ups downs. run_lifetime sample_build config_default True (sample_life [sample_turn True config_default]) =
     (ups @ Save_status # downs, Ended True) \<and> downs = rev (map Stop (starts_of ups))"
  using lifetime_in_reverse[of "sample_life [sample_turn True config_default]" True config_default True sample_build config_default]
  by (auto simp: sample_life_def sample_turn_def same_parts_def)


theorem switching_off_hangs_witness:
  "\<exists>log p cur'. config_save sample_build True (config_default\<lparr>cf_streamer_enabled := True\<rparr>) config_default = (True, cur', Some config_default) \<and>
     run_lifetime sample_build (config_default\<lparr>cf_streamer_enabled := True\<rparr>) True (sample_life [sample_turn False cur']) = (log, Stuck p)"
proof -
  let ?c = "config_default\<lparr>cf_streamer_enabled := True\<rparr>"
  let ?cur = "config_default\<lparr>cf_daemon_restart := daemon_restart_needed sample_build ?c config_default\<rparr>"
  have neq: "config_neq sample_build ?c config_default"
    by (simp add: config_neq_def get_streamer_enabled_def sample_build_def config_default_def)
  have 1: "config_save sample_build True ?c config_default = (True, ?cur, Some config_default)"
    using neq by (simp add: config_save_def Let_def)
  have 2: "get_streamer_enabled sample_build ?c \<and> get_streamer_enabled sample_build ?c \<and> \<not> get_streamer_enabled sample_build config_default \<and>
      lf_busy (sample_life [sample_turn False ?cur]) Streamer_part"
    by (simp add: get_streamer_enabled_def sample_build_def config_default_def sample_life_def)
  have 3: "lf_turns (sample_life [sample_turn False ?cur]) = [] @ sample_turn False ?cur # []" by (simp add: sample_life_def)
  show ?thesis
    using switching_off_hangs[OF 1 disjI1[OF 2] 3, of True] 1
    by (auto simp: sample_turn_def sample_life_def)
qed


end
