(* ===== verification/Restart.thy ===== *)
theory Restart
  imports Manager Session_Props
begin

text \<open>
  What \<open>SessionManager::save_status\<close> and \<open>load_status\<close> keep over a restart of the daemon: the sources and
  sinks of the old session manager, loaded into a new one.
\<close>

subsection \<open>Sources\<close>

text \<open>A stored source as \<open>add_source\<close> leaves it, whose destination can still be reached.\<close>

definition source_kept :: "session_env \<Rightarrow> u8 \<times> stream_info \<Rightarrow> bool" where
  "source_kept E x \<longleftrightarrow>
     (let (i, info) = x; s = leg info 0
      in i \<le> stream_id_max \<and> strncpy (e_name_cap (e_sdp E)) (m_cName s) = m_cName s \<and>
         strncpy (e_codec_cap (e_sdp E)) (m_cCodec s) = m_cCodec s \<and>
         (in_multicast (m_ui32DestIP s) \<or>
          snd (arp_retry (e_arp E) (ntoa E (m_ui32DestIP s)) 0 3) \<noteq> [] \<and> m_byTTL s = 64) \<and>
         (si_st20227_enabled info \<longrightarrow> si_enabled info \<and> e_if_name1 E \<noteq> [] \<and> e_sec_ip_str (e_sdp E) \<noteq> []))"

definition addresses_read_back :: "session_env \<Rightarrow> bool" where
  "addresses_read_back E \<longleftrightarrow> (\<forall>a. aton E (ntoa E a) = Some a)"

lemma kept_map [simp]:
  "take (min (unat (word_of_nat (min (length xs) (unat n)) :: u8)) (unat (n :: u8))) xs = take (unat n) xs"
proof -
  have "unat n < 256" using unsigned_less[of n, where 'a = nat] by simp
  then have "min (length xs) (unat n) < 256" by (simp add: min_less_iff_disj)
  then have "unat (word_of_nat (min (length xs) (unat n)) :: u8) = min (length xs) (unat n)"
    by (simp add: unsigned_of_nat take_bit_nat_eq_self)
  then show ?thesis by (simp add: take_all min_def)
qed

lemma igmp_stream_ptp [simp]:
  "ss_ptp_domain (igmp_stream oper E info st) = ss_ptp_domain st" "ss_ptp_gmid (igmp_stream oper E info st) = ss_ptp_gmid st"
  by (simp_all add: igmp_stream_def Let_def)

lemma smap_upd_after: "\<forall>j \<in> fst ` set m. j < k \<Longrightarrow> smap_upd k v m = m @ [(k, v)]"
  by (induction k v m rule: smap_upd.induct) auto

lemma load_one_source:
  assumes "source_kept E (i, info)" "addresses_read_back E" "\<forall>si d. fst (add_rtp si d) = no_error"
    "map_of (ss_sources st) i = None" "ss_source_names st (m_cName (leg info 0)) = None"
  shows "\<exists>st' info'. add_source add_rtp rm_rtp E (get_source_of E i info) st = (Returns no_error, st') \<and>
    ss_sources st' = smap_upd i info' (ss_sources st) \<and> get_source_of E i info' = get_source_of E i info \<and>
    (\<forall>n. n \<noteq> m_cName (leg info 0) \<longrightarrow> ss_source_names st' n = ss_source_names st n) \<and>
    ss_sinks st' = ss_sinks st \<and> ss_sink_names st' = ss_sink_names st \<and>
    sdp_env_of E st' = sdp_env_of E st"
proof -
  let ?s = "get_source_of E i info" and ?l = "leg info 0"
  let ?mac = "if in_multicast (m_ui32DestIP ?l) then get_mcast_mac_addr (m_ui32DestIP ?l)
    else fst (arp_retry (e_arp E) (ntoa E (m_ui32DestIP ?l)) 0 3)"
  let ?leg = "source_leg E ?s (m_ui32DestIP ?l) ?mac (m_byTTL ?l)"
  let ?info = "source_info E ?s (ss_version st) ?leg"
  have k: "i \<le> stream_id_max" "strncpy (e_name_cap (e_sdp E)) (m_cName ?l) = m_cName ?l"
    "strncpy (e_codec_cap (e_sdp E)) (m_cCodec ?l) = m_cCodec ?l"
    "in_multicast (m_ui32DestIP ?l) \<or> snd (arp_retry (e_arp E) (ntoa E (m_ui32DestIP ?l)) 0 3) \<noteq> [] \<and> m_byTTL ?l = 64"
    "si_st20227_enabled info \<longrightarrow> si_enabled info \<and> e_if_name1 E \<noteq> [] \<and> e_sec_ip_str (e_sdp E) \<noteq> []"
    using assms(1) by (simp_all add: source_kept_def Let_def)
  have a: "aton E (ntoa E x) = Some x" for x using assms(2) by (simp add: addresses_read_back_def)
  have add: "add_source add_rtp rm_rtp E ?s st =
      add_source_locked add_rtp rm_rtp E ?s ?info (st\<lparr>ss_version := ss_version st + 1\<rparr>)"
    using k(1,4) a by (auto simp: add_source_def get_source_of_def dest_or_base_def Let_def)
  have same1: "get_source_of E i (?info\<lparr>si_handle := hs\<rparr>) = ?s" if "\<not> si_st20227_enabled info" for hs
    using that k(2,3) by (simp add: get_source_of_def source_info_def source_leg_def new_info_def)
  have same2: "get_source_of E i (?info\<lparr>si_stream := [?leg, source_leg2 E (m_ui32DestIP (leg info 1)) ?leg],
      si_handle := hs, si_st20227_enabled := True\<rparr>) = ?s" if "si_st20227_enabled info" for hs
    using that k(2,3,5)
    by (simp add: get_source_of_def source_info_def source_leg_def source_leg2_def new_info_def Let_def)
  have fields: "ss_sources (on_add_source E ?s fi t) = ss_sources t" "ss_sinks (on_add_source E ?s fi t) = ss_sinks t"
    "ss_sink_names (on_add_source E ?s fi t) = ss_sink_names t" "sdp_env_of E (on_add_source E ?s fi t) = sdp_env_of E t"
    "n \<noteq> m_cName ?l \<Longrightarrow> ss_source_names (on_add_source E ?s fi t) n = ss_source_names t n" for fi t n
    by (simp_all add: on_add_source_def Let_def igmp_stream_fields sdp_env_of_def get_source_of_def)
  have free: "ss_source_names st (src_name ?s) = None" "map_of (ss_sources st) (src_id ?s) = None"
    using assms(4,5) by (simp_all add: get_source_of_def)
  have finish: ?thesis if "add_source add_rtp rm_rtp E ?s st = (Returns no_error, set_source i fi t)" "get_source_of E i fi = ?s"
    "ss_sources t = ss_sources st" "\<forall>n. n \<noteq> m_cName ?l \<longrightarrow> ss_source_names t n = ss_source_names st n"
    "ss_sinks t = ss_sinks st" "ss_sink_names t = ss_sink_names st" "sdp_env_of E t = sdp_env_of E st" for fi t
    using that by (intro exI[of _ "set_source i fi t"] exI[of _ fi]) (simp add: set_source_def sdp_env_of_def)
  show ?thesis
  proof (cases "si_enabled info")
    case False
    then have e: "src_enabled ?s = False" "\<not> si_st20227_enabled info" using k(5) by (auto simp: get_source_of_def)
    have "add_source add_rtp rm_rtp E ?s st = (Returns no_error, set_source i ?info (st\<lparr>ss_version := ss_version st + 1\<rparr>))"
      using free e(1) unfolding add by (simp add: add_source_locked_def source_info_def get_source_of_def)
    then show ?thesis
      by (rule finish) (use same1[OF e(2), of "si_handle ?info"] in \<open>simp_all add: sdp_env_of_def\<close>)
  next
    case True
    then have e: "src_enabled ?s" by (simp add: get_source_of_def)
    obtain h0 d0 where 1: "add_rtp ?leg (ss_driver st) = (no_error, h0, d0)"
      using assms(3) by (metis prod.collapse)
    show ?thesis
    proof (cases "si_st20227_enabled info")
      case False
      let ?i = "?info\<lparr>si_handle := [h0, si_handle ?info ! 1]\<rparr>"
      have "add_source add_rtp rm_rtp E ?s st = (Returns no_error, set_source i ?i
          (on_add_source E ?s ?i (st\<lparr>ss_version := ss_version st + 1, ss_driver := d0\<rparr>)))"
        using free e False 1 unfolding add
        by (simp add: add_source_locked_def add_source_leg2_def source_info_def new_info_def get_source_of_def Let_def)
      then show ?thesis
        using same1[OF False] by (rule finish) (simp_all add: fields, simp add: sdp_env_of_def)
    next
      case True
      obtain h1 d1 where 2: "add_rtp (source_leg2 E (m_ui32DestIP (leg info 1)) ?leg) d0 = (no_error, h1, d1)"
        using assms(3) by (metis prod.collapse)
      let ?i = "?info\<lparr>si_stream := [?leg, source_leg2 E (m_ui32DestIP (leg info 1)) ?leg], si_handle := [h0, h1],
          si_st20227_enabled := True\<rparr>"
      have "add_source add_rtp rm_rtp E ?s st = (Returns no_error, set_source i ?i
          (on_add_source E ?s ?i (st\<lparr>ss_version := ss_version st + 1, ss_driver := d1\<rparr>)))"
        using free e True 1 2 k(5) a unfolding add
        by (simp add: add_source_locked_def add_source_leg2_def source_info_def new_info_def get_source_of_def
            dest_or_base_def Let_def)
      then show ?thesis
        using same2[OF True] by (rule finish) (simp_all add: fields, simp add: sdp_env_of_def)
    qed
  qed
qed

lemma load_sources_all:
  assumes "addresses_read_back E" "\<forall>si d. fst (add_rtp si d) = no_error"
    "\<forall>x \<in> set xs. source_kept E x" "sorted_wrt (<) (map fst xs)" "distinct (map (\<lambda>x. m_cName (leg (snd x) 0)) xs)"
    "\<forall>j \<in> fst ` set (ss_sources st). \<forall>x \<in> set xs. j < fst x" "\<forall>x \<in> set xs. ss_source_names st (m_cName (leg (snd x) 0)) = None"
  shows "\<exists>st'. load_sources add_rtp rm_rtp E (map (\<lambda>(i, info). get_source_of E i info) xs) st = (Returns no_error, st') \<and>
    get_sources E st' = get_sources E st @ map (\<lambda>(i, info). get_source_of E i info) xs \<and>
    ss_sinks st' = ss_sinks st \<and> ss_sink_names st' = ss_sink_names st \<and> sdp_env_of E st' = sdp_env_of E st"
  using assms(3-)
proof (induction xs arbitrary: st)
  case Nil
  then show ?case by simp
next
  case (Cons x xs)
  obtain i info where x: "x = (i, info)" by fastforce
  have new: "map_of (ss_sources st) i = None" using Cons.prems(4) x by (auto simp: map_of_eq_None_iff)
  obtain st1 info' where 1: "add_source add_rtp rm_rtp E (get_source_of E i info) st = (Returns no_error, st1)"
    "ss_sources st1 = smap_upd i info' (ss_sources st)" "get_source_of E i info' = get_source_of E i info"
    "\<forall>n. n \<noteq> m_cName (leg info 0) \<longrightarrow> ss_source_names st1 n = ss_source_names st n"
    "ss_sinks st1 = ss_sinks st" "ss_sink_names st1 = ss_sink_names st" "sdp_env_of E st1 = sdp_env_of E st"
    using load_one_source[of E i info add_rtp st rm_rtp] assms(1,2) Cons.prems(1,5) new x by auto
  have app: "ss_sources st1 = ss_sources st @ [(i, info')]"
    using Cons.prems(4) x 1(2) by (simp add: smap_upd_after)
  have "\<forall>j \<in> fst ` set (ss_sources st1). \<forall>y \<in> set xs. j < fst y"
    using Cons.prems(2,4) x by (auto simp: app)
  moreover have "\<forall>y \<in> set xs. ss_source_names st1 (m_cName (leg (snd y) 0)) = None"
  proof
    fix y assume y: "y \<in> set xs"
    then have "m_cName (leg (snd y) 0) \<noteq> m_cName (leg info 0)" using Cons.prems(3) x by force
    then show "ss_source_names st1 (m_cName (leg (snd y) 0)) = None" using 1(4) Cons.prems(5) y by simp
  qed
  ultimately obtain st' where 2: "load_sources add_rtp rm_rtp E (map (\<lambda>(i, info). get_source_of E i info) xs) st1 = (Returns no_error, st')"
    "get_sources E st' = get_sources E st1 @ map (\<lambda>(i, info). get_source_of E i info) xs"
    "ss_sinks st' = ss_sinks st1" "ss_sink_names st' = ss_sink_names st1" "sdp_env_of E st' = sdp_env_of E st1"
    using Cons.IH[of st1] Cons.prems(1-3) by auto
  show ?case using 1(1,3,5-) 2 x by (simp add: get_sources_def app)
qed

subsection \<open>Sinks\<close>

text \<open>What the parser of the SDP leaves alone: what a sink was given besides its SDP.\<close>

definition own_part :: "rtp_stream_info \<Rightarrow> string \<times> u8 \<times> u8 list \<times> u32" where
  "own_part s = (m_cName s, m_byNbOfChannels s, m_aui32Routing s, m_ui32PlayOutDelay s)"

definition own_parts :: "stream_info \<Rightarrow> (string \<times> u8 \<times> u8 list \<times> u32) list \<times> string \<times> bool" where
  "own_parts info = (map own_part (si_stream info), si_io info, si_ignore_refclk_gmid info)"

lemma own_parts_upd [simp]: "(\<And>s. own_part (f s) = own_part s) \<Longrightarrow> own_parts (upd_leg i f info) = own_parts info"
  by (cases "i < length (si_stream info)") (simp_all add: own_parts_def upd_leg_def map_update list_update_same_conv list_update_beyond)

lemma own_parts_leg [simp]: "(\<And>s. own_part (f s) = own_part s) \<Longrightarrow> own_parts (sp_info (on_leg f p)) = own_parts (sp_info p)"
  by (simp add: on_leg_def)

lemma attr_own: "sdp_attr_line e v p = Next q \<Longrightarrow> own_parts (sp_info q) = own_parts (sp_info p)"
proof -
  have a: "sdp_timestamp_offset u p = Next q \<Longrightarrow> own_parts (sp_info q) = own_parts (sp_info p)"
    "sdp_ptime u p = Next q \<Longrightarrow> own_parts (sp_info q) = own_parts (sp_info p)"
    "sdp_rtpmap e u p = Next q \<Longrightarrow> own_parts (sp_info q) = own_parts (sp_info p)"
    "sdp_refclk e u p = Next q \<Longrightarrow> own_parts (sp_info q) = own_parts (sp_info p)" for u
    by (auto simp: sdp_timestamp_offset_def sdp_ptime_def sdp_rtpmap_def sdp_refclk_def Let_def own_part_def
        split: option.splits if_splits prod.splits)
  have b: "sdp_mediaclk u p = Next q \<Longrightarrow> own_parts (sp_info q) = own_parts (sp_info p)" for u
    using a(1) by (auto simp: sdp_mediaclk_def Let_def split: if_splits)
  have "sdp_session_attr n u p = Next q \<Longrightarrow> own_parts (sp_info q) = own_parts (sp_info p)"
    "sdp_media_attr e n u p = Next q \<Longrightarrow> own_parts (sp_info q) = own_parts (sp_info p)" for n u
    using a b by (auto simp: sdp_session_attr_def sdp_media_attr_def split: if_splits)
  then show "sdp_attr_line e v p = Next q \<Longrightarrow> own_parts (sp_info q) = own_parts (sp_info p)"
    by (auto simp: sdp_attr_line_def Let_def split: option.splits sdp_parser_status.splits)
qed

lemma line_own: "sdp_line e l p = Next q \<Longrightarrow> own_parts (sp_info q) = own_parts (sp_info p)"
proof -
  have o: "sdp_origin_line v p = Next q \<Longrightarrow> own_parts (sp_info q) = own_parts (sp_info p)" for v
    by (auto simp: sdp_origin_line_def Let_def own_parts_def split: option.splits if_splits)
  have m: "sdp_media_line v p = Next q \<Longrightarrow> own_parts (sp_info q) = own_parts (sp_info p)" for v
    by (auto simp: sdp_media_line_def Let_def own_part_def split: option.splits if_splits)
  have c: "sdp_conn_line e v p = Next q \<Longrightarrow> own_parts (sp_info q) = own_parts (sp_info p)" for v
    by (auto simp: sdp_conn_line_def sdp_set_dest_def Let_def own_part_def split: option.splits if_splits)
  show "sdp_line e l p = Next q \<Longrightarrow> own_parts (sp_info q) = own_parts (sp_info p)"
    using o m c attr_own by (auto simp: sdp_line_def Let_def split: if_splits)
qed

lemma lines_own: "sdp_lines e ls p = Next q \<Longrightarrow> own_parts (sp_info q) = own_parts (sp_info p)"
proof (induction e ls p rule: sdp_lines.induct)
  case (2 e l ls p)
  then show ?case using line_own[of e "trim l" p] by (auto split: if_splits sdp_step.splits)
qed simp

lemma parse_own: "parse_sdp e sdp info = Sdp_parsed p \<Longrightarrow> own_parts p = own_parts info"
  by (auto simp: parse_sdp_def own_parts_def dest!: lines_own split: sdp_step.splits if_splits)

text \<open>A stored sink whose SDP is accepted in the environment of the new session manager.\<close>

definition sink_kept :: "sdp_env \<Rightarrow> session_env \<Rightarrow> u8 \<times> stream_info \<Rightarrow> bool" where
  "sink_kept e E x \<longleftrightarrow>
     (let (i, info) = x
      in i \<le> stream_id_max \<and> strncpy (e_name_cap (e_sdp E)) (m_cName (leg info 0)) = m_cName (leg info 0) \<and>
         si_sink_use_sdp info \<and>
         (case parse_sdp e (si_sink_sdp info) (sink_info E (get_sink_of i info)) of Sdp_parsed p \<Rightarrow> True | _ \<Rightarrow> False))"

lemma get_sink_own:
  assumes "own_parts f = own_parts (sink_info E (get_sink_of i info))"
    "strncpy (e_name_cap (e_sdp E)) (m_cName (leg info 0)) = m_cName (leg info 0)"
    "si_sink_use_sdp f = si_sink_use_sdp info" "si_sink_sdp f = si_sink_sdp info" "si_sink_source f = si_sink_source info"
  shows "get_sink_of i f = get_sink_of i info"
proof -
  obtain a b where "si_stream f = [a, b]" "own_part a = own_part (sink_leg E (get_sink_of i info))"
    using assms(1) by (auto simp: own_parts_def sink_info_def map_eq_Cons_conv)
  moreover have "si_io f = si_io info" "si_ignore_refclk_gmid f = si_ignore_refclk_gmid info"
    using assms(1) by (simp_all add: own_parts_def sink_info_def get_sink_of_def)
  ultimately show ?thesis
    using assms(2-) by (simp add: own_part_def sink_leg_def get_sink_of_def)
qed

lemma own_parts_fields [simp]:
  "own_parts (p\<lparr>si_sink_sdp := a\<rparr>) = own_parts p" "own_parts (p\<lparr>si_sink_source := a\<rparr>) = own_parts p"
  "own_parts (p\<lparr>si_sink_use_sdp := u\<rparr>) = own_parts p" "own_parts (p\<lparr>si_handle := hs\<rparr>) = own_parts p"
  "own_parts (p\<lparr>si_st20227_enabled := u\<rparr>) = own_parts p"
  by (simp_all add: own_parts_def)

lemma finish_leg_own [simp]: "own_parts (finish_leg E k p) = own_parts p"
  by (simp add: finish_leg_def Let_def own_part_def)

lemma finish_legs_own [simp]: "own_parts (finish_legs E p) = own_parts p"
  by (simp add: finish_legs_def Let_def)

lemma finish_legs_sdp [simp]:
  "si_sink_sdp (finish_legs E p) = si_sink_sdp p" "si_sink_source (finish_legs E p) = si_sink_source p"
  "si_sink_use_sdp (finish_legs E p) = si_sink_use_sdp p"
  by (simp_all add: finish_legs_def finish_leg_def Let_def upd_leg_def)

lemma sink_leg2_own [simp]: "own_part (sink_leg2 E s) = own_part s"
  by (simp add: sink_leg2_def Let_def own_part_def)

lemma load_one_sink:
  assumes "sink_kept (sdp_env_of E st) E (i, info)" "\<forall>si d. fst (add_rtp si d) = no_error"
    "map_of (ss_sinks st) i = None" "ss_sink_names st (m_cName (leg info 0)) = None"
  shows "\<exists>st' info'. add_sink add_rtp rm_rtp E (get_sink_of i info) st = (Returns no_error, st') \<and>
    ss_sinks st' = smap_upd i info' (ss_sinks st) \<and> get_sink_of i info' = get_sink_of i info \<and>
    (\<forall>n. n \<noteq> m_cName (leg info 0) \<longrightarrow> ss_sink_names st' n = ss_sink_names st n) \<and>
    ss_sources st' = ss_sources st \<and> sdp_env_of E st' = sdp_env_of E st"
proof -
  let ?s = "get_sink_of i info"
  obtain p where k: "i \<le> stream_id_max" "strncpy (e_name_cap (e_sdp E)) (m_cName (leg info 0)) = m_cName (leg info 0)"
    "si_sink_use_sdp info" "parse_sdp (sdp_env_of E st) (si_sink_sdp info) (sink_info E ?s) = Sdp_parsed p"
    using assms(1) by (auto simp: sink_kept_def Let_def split: sdp_result.splits)
  define f where "f = finish_legs E (p\<lparr>si_sink_sdp := si_sink_sdp info, si_sink_source := si_sink_source info, si_sink_use_sdp := True\<rparr>)"
  have own: "own_parts f = own_parts (sink_info E ?s)" using parse_own[OF k(4)] by (simp add: f_def)
  have sdp: "si_sink_sdp f = si_sink_sdp info" "si_sink_source f = si_sink_source info" "si_sink_use_sdp f = si_sink_use_sdp info"
    using k(3) by (simp_all add: f_def)
  have sel: "snk_id ?s = i" "snk_use_sdp ?s = si_sink_use_sdp info" "snk_sdp ?s = si_sink_sdp info" "snk_source ?s = si_sink_source info"
    by (simp_all add: get_sink_of_def)
  have add: "add_sink add_rtp rm_rtp E ?s st = add_sink_locked add_rtp rm_rtp E ?s f st"
    using k sel by (simp add: add_sink_def fetch_sdp_def f_def not_less[symmetric])
  have fields: "ss_sources (on_add_sink E ?s fi t) = ss_sources t" "ss_sinks (on_add_sink E ?s fi t) = ss_sinks t"
    "ss_ptp_domain (on_add_sink E ?s fi t) = ss_ptp_domain t" "ss_ptp_gmid (on_add_sink E ?s fi t) = ss_ptp_gmid t"
    "n \<noteq> m_cName (leg info 0) \<Longrightarrow> ss_sink_names (on_add_sink E ?s fi t) n = ss_sink_names t n" for fi t n
    by (simp_all add: on_add_sink_def Let_def get_sink_of_def)
  have finish: ?thesis if "add_sink add_rtp rm_rtp E ?s st = (Returns no_error, set_sink i fi (on_add_sink E ?s fi (st\<lparr>ss_driver := d\<rparr>)))"
    "own_parts fi = own_parts f" "si_sink_sdp fi = si_sink_sdp f" "si_sink_source fi = si_sink_source f"
    "si_sink_use_sdp fi = si_sink_use_sdp f" for fi d
  proof -
    have "get_sink_of i fi = ?s" by (rule get_sink_own) (use that own sdp k(2) in simp_all)
    then show ?thesis
      using that(1) by (intro exI[of _ "set_sink i fi (on_add_sink E ?s fi (st\<lparr>ss_driver := d\<rparr>))"] exI[of _ fi])
        (simp add: set_sink_def sdp_env_of_def fields)
  qed
  obtain h0 d0 where 1: "add_rtp (leg f 0) (ss_driver st) = (no_error, h0, d0)" using assms(2) by (metis prod.collapse)
  have locked: "add_sink_locked add_rtp rm_rtp E ?s f st =
      add_sink_leg2 add_rtp rm_rtp E ?s None (f\<lparr>si_handle := [h0, si_handle f ! 1]\<rparr>) (st\<lparr>ss_driver := d0\<rparr>)"
    using assms(3,4) 1 by (simp add: add_sink_locked_def get_sink_of_def Let_def)
  show ?thesis
  proof (cases "e_if_name1 E \<noteq> [] \<and> si_st20227_enabled f \<and> e_sec_ip_str (e_sdp E) \<noteq> []")
    case True
    let ?g = "upd_leg 1 (sink_leg2 E) (f\<lparr>si_handle := [h0, si_handle f ! 1]\<rparr>)"
    obtain h1 d1 where 2: "add_rtp (leg ?g 1) d0 = (no_error, h1, d1)" using assms(2) by (metis prod.collapse)
    let ?h = "?g\<lparr>si_handle := [si_handle ?g ! 0, h1]\<rparr>"
    have on: "e_if_name1 E \<noteq> []" "si_st20227_enabled f" "e_sec_ip_str (e_sdp E) \<noteq> []" using True by simp_all
    have "add_sink add_rtp rm_rtp E ?s st = (Returns no_error, set_sink i ?h (on_add_sink E ?s ?h (st\<lparr>ss_driver := d1\<rparr>)))"
      unfolding add locked using on 2 sel(1) by (simp add: add_sink_leg2_def Let_def)
    then show ?thesis by (rule finish) simp_all
  next
    case False
    let ?h = "f\<lparr>si_handle := [h0, si_handle f ! 1], si_st20227_enabled := False\<rparr>"
    have off: "\<not> (e_if_name1 E \<noteq> [] \<and> si_st20227_enabled (f\<lparr>si_handle := [h0, si_handle f ! 1]\<rparr>) \<and> e_sec_ip_str (e_sdp E) \<noteq> [])"
      using False by simp
    have "add_sink add_rtp rm_rtp E ?s st = (Returns no_error, set_sink i ?h (on_add_sink E ?s ?h (st\<lparr>ss_driver := d0\<rparr>)))"
      unfolding add locked add_sink_leg2_def Let_def if_not_P[OF off] using sel(1) by simp
    then show ?thesis by (rule finish) simp_all
  qed
qed

lemma load_sinks_all:
  assumes "\<forall>si d. fst (add_rtp si d) = no_error"
    "\<forall>x \<in> set xs. sink_kept (sdp_env_of E st) E x" "sorted_wrt (<) (map fst xs)" "distinct (map (\<lambda>x. m_cName (leg (snd x) 0)) xs)"
    "\<forall>j \<in> fst ` set (ss_sinks st). \<forall>x \<in> set xs. j < fst x" "\<forall>x \<in> set xs. ss_sink_names st (m_cName (leg (snd x) 0)) = None"
  shows "\<exists>st'. load_sinks add_rtp rm_rtp E (map (\<lambda>(i, info). get_sink_of i info) xs) st = (Returns no_error, st') \<and>
    get_sinks st' = get_sinks st @ map (\<lambda>(i, info). get_sink_of i info) xs \<and> ss_sources st' = ss_sources st"
  using assms(2-)
proof (induction xs arbitrary: st)
  case Nil
  then show ?case by simp
next
  case (Cons x xs)
  obtain i info where x: "x = (i, info)" by fastforce
  have new: "map_of (ss_sinks st) i = None" using Cons.prems(4) x by (auto simp: map_of_eq_None_iff)
  obtain st1 info' where 1: "add_sink add_rtp rm_rtp E (get_sink_of i info) st = (Returns no_error, st1)"
    "ss_sinks st1 = smap_upd i info' (ss_sinks st)" "get_sink_of i info' = get_sink_of i info"
    "\<forall>n. n \<noteq> m_cName (leg info 0) \<longrightarrow> ss_sink_names st1 n = ss_sink_names st n"
    "ss_sources st1 = ss_sources st" "sdp_env_of E st1 = sdp_env_of E st"
    using load_one_sink[of E st i info add_rtp rm_rtp] assms(1) Cons.prems(1,5) new x by auto
  have app: "ss_sinks st1 = ss_sinks st @ [(i, info')]"
    using Cons.prems(4) x 1(2) by (simp add: smap_upd_after)
  have "\<forall>j \<in> fst ` set (ss_sinks st1). \<forall>y \<in> set xs. j < fst y"
    using Cons.prems(2,4) x by (auto simp: app)
  moreover have "\<forall>y \<in> set xs. ss_sink_names st1 (m_cName (leg (snd y) 0)) = None"
  proof
    fix y assume y: "y \<in> set xs"
    then have "m_cName (leg (snd y) 0) \<noteq> m_cName (leg info 0)" using Cons.prems(3) x by force
    then show "ss_sink_names st1 (m_cName (leg (snd y) 0)) = None" using 1(4) Cons.prems(5) y by simp
  qed
  ultimately obtain st' where 2: "load_sinks add_rtp rm_rtp E (map (\<lambda>(i, info). get_sink_of i info) xs) st1 = (Returns no_error, st')"
    "get_sinks st' = get_sinks st1 @ map (\<lambda>(i, info). get_sink_of i info) xs" "ss_sources st' = ss_sources st1"
    using Cons.IH[of st1] Cons.prems(1-3) 1(6) by auto
  show ?case using 1(1,3,5-) 2 x by (simp add: get_sinks_def app)
qed

lemma sink_kept_same:
  assumes "get_sink_of i f = get_sink_of i info"
  shows "sink_kept e E (i, f) = sink_kept e E (i, info)"
proof -
  have "m_cName (leg f 0) = m_cName (leg info 0)" "si_sink_use_sdp f = si_sink_use_sdp info" "si_sink_sdp f = si_sink_sdp info"
    using assms by (simp_all add: get_sink_of_def)
  then show ?thesis using assms by (simp add: sink_kept_def)
qed

subsection \<open>The restart\<close>


subsection \<open>Another clock\<close>

text \<open>The description of a source that names its grandmaster, read by a session manager that knows another
  one, or none yet.\<close>

lemma refclk_foreign:
  assumes "\<not> si_refclk_ptp_traceable info" "CHR '':'' \<notin> set (e_ptp_gmid e)" "g \<noteq> e_ptp_gmid e" "sp_status p = Media"
    "\<not> si_ignore_refclk_gmid (sp_info p)"
  shows "sdp_line (e\<lparr>e_ptp_gmid := g\<rparr>) (trim (refclk_line e info)) p = Refuse"
  using sdp_attr_media[of "''ts-refclk''" "''ptp=IEEE1588-2008:'' @ e_ptp_gmid e @ '':'' @ show_u (e_ptp_domain e)" p "e\<lparr>e_ptp_gmid := g\<rparr>"] assms
  by (simp add: sdp_media_attr_def refclk_line_def sdp_refclk_def Let_def)

lemma sdp_lines_refuse: "sp_mid p < int media_max \<Longrightarrow> sdp_line e (trim l) p = Refuse \<Longrightarrow> sdp_lines e (l # ls) p = Refuse"
  by simp

lemma on_leg_ignore [simp]: "si_ignore_refclk_gmid (sp_info (on_leg f p)) = si_ignore_refclk_gmid (sp_info p)"
  by (simp add: on_leg_def upd_leg_def)

lemma clean_gmid:
  "clean_addr (e\<lparr>e_ptp_gmid := g\<rparr>) a = clean_addr e a" "clean_leg (e\<lparr>e_ptp_gmid := g\<rparr>) s = clean_leg e s"
proof -
  show a: "clean_addr (e\<lparr>e_ptp_gmid := g\<rparr>) a = clean_addr e a" for a
    by (cases e) (simp only: clean_addr_def sdp_env.select_convs sdp_env.update_convs)
  show "clean_leg (e\<lparr>e_ptp_gmid := g\<rparr>) s = clean_leg e s" by (simp only: clean_leg_def a)
qed

lemma media_block_foreign:
  assumes s: "clean_leg e s" and p: "length (si_stream (sp_info p)) = media_max"
      "-1 \<le> sp_mid p" "sp_mid p + 1 < int media_max"
    and pt: "ptime_samples (unat (e_sample_rate e)) pt = Some n" "n < 2 ^ 32"
      "\<forall>c \<in> set pt. is_digit c \<or> c = CHR ''.''"
    and g: "CHR '':'' \<notin> set (e_ptp_gmid e)" "g \<noteq> e_ptp_gmid e"
    and i: "\<not> si_refclk_ptp_traceable info" "\<not> si_ignore_refclk_gmid (sp_info p)"
  shows "sdp_lines (e\<lparr>e_ptp_gmid := g\<rparr>) (media_lines e info src pt s) p = Refuse"
proof -
  let ?e = "e\<lparr>e_ptp_gmid := g\<rparr>"
  define q where "q = p\<lparr>sp_status := Media, sp_mid := sp_mid p + 1\<rparr>"
  have q: "in_range q" using p by (simp add: q_def in_range_def)
  then have st: "sp_status q = Media" "sp_mid q < int media_max" "\<not> si_ignore_refclk_gmid (sp_info q)"
    using i(2) by (simp_all add: in_range_def q_def)
  have s': "clean_leg ?e s" using s by (simp only: clean_gmid)
  have c: "conn_line e s = conn_line ?e s" "e_sample_rate e = e_sample_rate ?e" by (simp_all add: conn_line_def)
  have m: "sdp_line ?e (trim (''m=audio '' @ show_u (m_usDestPort s) @ '' RTP/AVP '' @ show_u (m_byPayloadType s))) p
    = Next (on_leg (\<lambda>t. t\<lparr>m_usDestPort := m_usDestPort s, m_byPayloadType := m_byPayloadType s\<rparr>) q)"
    using line_m[OF p(3)] by (simp add: q_def on_leg_def)
  note step = sdp_lines_one
  show ?thesis
    unfolding media_lines_def c
    apply (rule step[OF _ m], use p in simp)
    apply (rule step[OF _ line_c[OF s']], use st in simp, use st in simp)
    apply (rule step[OF _ line_filter], use st in simp, use st in simp)
    apply (rule step[OF _ line_rtpmap[OF s']], use st in simp, use st in simp, use q in simp)
      apply (simp add: sdp_set_dest_def)
    apply (rule step[OF _ line_sync], use st in simp, use st in simp)
    apply (rule step[OF _ line_framecount], use st in simp, use st in simp)
    apply (rule step[OF _ line_ptime], use st in simp, use st in simp, use q pt in simp, rule pt, rule pt)
    apply (rule step[OF _ line_mediaclk], use st in simp, use st in simp)
    apply (rule step[OF _ line_domain], use st in simp, use st in simp)
    apply (rule sdp_lines_refuse[OF _ refclk_foreign[OF i(1) g]], use st in simp, use st in simp, use st in simp)
    done
qed

lemma foreign_clock_refused:
  assumes src: "clean_source e info n" "\<not> si_refclk_ptp_traceable info" and g: "g \<noteq> e_ptp_gmid e"
    and snk: "length (si_stream sink) = 2" "\<not> si_ignore_refclk_gmid sink"
  shows "parse_sdp (e\<lparr>e_ptp_gmid := g\<rparr>) (get_source_sdp_text e info) sink = Sdp_refused"
proof -
  let ?e = "e\<lparr>e_ptp_gmid := g\<rparr>"
  let ?pt = "ptime_text (unat (m_ui32MaxSamplesPerPacket (leg info 0))) (unat (e_sample_rate e))"
  have pt: "\<forall>c \<in> set ?pt. is_digit c \<or> c = CHR ''.''" using ptime_text_chars by blast
  note c = src(1)[unfolded clean_source_def]
  let ?p0 = "\<lparr>sp_info = sink, sp_status = Init, sp_mid = -1, sp_dup = False\<rparr>"
  define p1 where "p1 = \<lparr>sp_info = sink\<lparr>si_origin := source_origin e info\<rparr>, sp_status = Time, sp_mid = -1, sp_dup = dup_entry e info\<rparr>"
  have lines: "getlines (get_source_sdp_text e info) = source_sdp_lines e info"
    unfolding get_source_sdp_text_def
    using getlines_unlines source_sdp_lines_newline[OF src(1)] by blast
  have o: "clean_addr ?e (m_ui32SrcIP (leg info 0))" using c by (simp only: clean_gmid)
  have n: "e_ntoa e a = e_ntoa ?e a" for a by simp
  have head: "sdp_lines ?e [''v=0'',
        ''o=- '' @ show_u (si_session_id info) @ '' '' @ show_u (si_session_version info) @
          '' IN IP4 '' @ e_ntoa e (m_ui32SrcIP (leg info 0)),
        ''s='' @ e_node_id e @ '' '' @ m_cName (leg info 0), ''t=0 0''] ?p0 = Next (p1\<lparr>sp_dup := False\<rparr>)"
    unfolding n
    apply (rule sdp_lines_one[OF _ line_v], simp add: media_max_def)
    apply (rule sdp_lines_one[OF _ line_o[OF o]], simp add: media_max_def)
    apply (rule sdp_lines_one[OF _ line_s], simp add: media_max_def)
    apply (rule sdp_lines_one[OF _ line_t], simp add: media_max_def)
    apply (simp add: p1_def source_origin_def)
    done
  have dup: "sdp_lines ?e (if dup_entry e info then [''a=group:DUP 1 2''] else []) (p1\<lparr>sp_dup := False\<rparr>) = Next p1"
  proof (cases "dup_entry e info")
    case True
    show ?thesis
      unfolding if_P[OF True]
      by (rule sdp_lines_one[OF _ line_dup]) (simp_all add: p1_def True media_max_def)
  qed (simp add: p1_def)
  have m1: "sdp_lines ?e (media_lines e info (e_ip_addr_str e) ?pt (leg info 0)) p1 = Refuse"
    by (rule media_block_foreign[where n = n]) (use c pt snk g src(2) in \<open>simp_all add: p1_def media_max_def\<close>)
  have "sdp_lines ?e (source_sdp_lines e info) ?p0 = Refuse"
    unfolding source_sdp_lines_def Let_def sdp_lines_append head sdp_step.case dup m1 ..
  then show ?thesis unfolding parse_sdp_def lines by simp
qed

lemma load_sinks_refused:
  assumes "\<forall>k \<in> set ks. snk_use_sdp k \<and> parse_sdp (sdp_env_of E st) (snk_sdp k) (sink_info E k) = Sdp_refused"
  shows "load_sinks add_rtp rm_rtp E ks st = (Returns no_error, st)"
  using assms by (induction ks) (simp_all add: add_sink_def fetch_sdp_def)


subsection \<open>Sample restarts\<close>

definition restart_sink :: "string \<Rightarrow> bool \<Rightarrow> stream_sink" where
  "restart_sink gmid ignored = \<lparr>snk_id = 1, snk_name = ''far'', snk_io = ''Audio Device'', snk_use_sdp = True, snk_source = [],
     snk_sdp = get_source_sdp_text (sample_env\<lparr>e_ptp_gmid := gmid\<rparr>) sample_info, snk_delay = 384,
     snk_ignore_refclk_gmid = ignored, snk_map = [0, 1]\<rparr>"

definition restart_stored :: "string \<Rightarrow> bool \<Rightarrow> stream_info" where
  "restart_stored gmid ignored =
     (sink_info sample_senv (restart_sink gmid ignored))\<lparr>si_sink_sdp := snk_sdp (restart_sink gmid ignored), si_sink_use_sdp := True\<rparr>"

lemma restart_stored:
  "get_sink_of 1 (restart_stored g b) = restart_sink g b" "m_cName (leg (restart_stored g b) 0) = ''far''"
  by (simp_all add: restart_stored_def get_sink_of_def sink_info_def sink_leg_def new_info_def restart_sink_def
      strncpy_def sample_senv_def sample_env_def)

lemma sample_clean_gmid:
  assumes "newline \<notin> set g" "CHR '':'' \<notin> set g"
  shows "clean_source (sample_env\<lparr>e_ptp_gmid := g\<rparr>) sample_info 48"
proof -
  have e: "e_node_id (sample_env\<lparr>e_ptp_gmid := g\<rparr>) = e_node_id sample_env" "e_ip_addr_str (sample_env\<lparr>e_ptp_gmid := g\<rparr>) = e_ip_addr_str sample_env"
    "e_sec_ip_str (sample_env\<lparr>e_ptp_gmid := g\<rparr>) = e_sec_ip_str sample_env" "e_sample_rate (sample_env\<lparr>e_ptp_gmid := g\<rparr>) = e_sample_rate sample_env"
    "e_ptp_gmid (sample_env\<lparr>e_ptp_gmid := g\<rparr>) = g"
    by (simp_all only: sdp_env.update_convs sdp_env.select_convs sample_env_def)
  show ?thesis using sample_clean assms unfolding clean_source_def clean_gmid e by blast
qed

lemma sample_senv_read_back: "addresses_read_back sample_senv"
  by (simp add: addresses_read_back_def sample_senv_def)

lemma fake_adds: "\<forall>si d. fst (fake_add_rtp_stream si d) = no_error"
  by (simp add: fake_add_rtp_stream_def Let_def)

text \<open>The session manager with the redundant source of the samples and a sink that listens to a clock.\<close>

definition restart_state :: "string \<Rightarrow> bool \<Rightarrow> fake_driver session" where
  "restart_state g b = snd (add_sink fake_add_rtp_stream fake_remove_rtp_stream sample_senv (restart_sink g b)
     (sample_state\<lparr>ss_sink_names := Map.empty, ss_ptp_domain := 0, ss_ptp_gmid := g\<rparr>))"

lemma restart_kept:
  assumes "newline \<notin> set g" "CHR '':'' \<notin> set g"
  shows "sink_kept (sample_env\<lparr>e_ptp_domain := 0, e_ptp_gmid := g\<rparr>) sample_senv (1, restart_stored g b)"
proof -
  have d: "sample_env\<lparr>e_ptp_domain := 0, e_ptp_gmid := g\<rparr> = sample_env\<lparr>e_ptp_gmid := g\<rparr>"
    by (simp only: sample_env_def sdp_env.update_convs)
  show ?thesis
    unfolding sink_kept_def Let_def case_prod_conv restart_stored d
    using sdp_parse_generated[OF sample_clean_gmid[OF assms], of "sink_info sample_senv (restart_sink g b)"]
    by (simp add: restart_stored_def restart_sink_def sink_info_def new_info_def stream_id_max_def strncpy_def sample_senv_def sample_env_def)
qed

lemma restart_state:
  assumes "newline \<notin> set g" "CHR '':'' \<notin> set g"
  shows "\<exists>info. ss_sinks (restart_state g b) = [(1, info)] \<and> get_sink_of 1 info = restart_sink g b" (is ?A)
    "ss_sources (restart_state g b) = ss_sources sample_state" "tables_ok (restart_state g b)"
proof -
  let ?st = "sample_state\<lparr>ss_sink_names := Map.empty, ss_ptp_domain := 0, ss_ptp_gmid := g\<rparr>"
  have "sdp_env_of sample_senv ?st = sample_env\<lparr>e_ptp_domain := 0, e_ptp_gmid := g\<rparr>"
    by (simp add: sdp_env_of_def sample_senv_def)
  then have k: "sink_kept (sdp_env_of sample_senv ?st) sample_senv (1, restart_stored g b)" using restart_kept[OF assms] by simp
  obtain st' info where 1: "add_sink fake_add_rtp_stream fake_remove_rtp_stream sample_senv (restart_sink g b) ?st = (Returns no_error, st')"
    "ss_sinks st' = smap_upd 1 info (ss_sinks ?st)" "get_sink_of 1 info = restart_sink g b" "ss_sources st' = ss_sources ?st"
    using load_one_sink[OF k fake_adds, of fake_remove_rtp_stream] sample_added(3) restart_stored(1) by auto
  have s: "restart_state g b = st'" using 1(1) by (simp add: restart_state_def)
  show ?A using 1 sample_added(3) by (simp add: s)
  show src: "ss_sources (restart_state g b) = ss_sources sample_state" using 1(4) by (simp add: s)
  have "smap_ok (ss_sources sample_state)"
    using session_reachable[OF sample_reachable] by (simp add: ledger_def tables_ok_def)
  then show "tables_ok (restart_state g b)" using 1(2) sample_added(3) src by (simp add: tables_ok_def s smap_ok_def)
qed

lemma sample_sources: "ss_sources sample_state = [(3, dual_info sample_senv sample_source 0xEF010005 0xEF020006 7 1 2)]"
proof -
  let ?st = "session_init (fake_driver_init 48000) 0 46 7"
  let ?d1 = "(fake_driver_init 48000)\<lparr>fd_next := 1, fd_handles := {1}\<rparr>"
  have 1: "\<forall>si. fake_add_rtp_stream si (ss_driver ?st) = (no_error, 1, ?d1)"
    by (simp add: fake_add_rtp_stream_def session_init_def fake_driver_init_def)
  have 2: "\<forall>si. fake_add_rtp_stream si ?d1 = (no_error, 2, ?d1\<lparr>fd_next := 2, fd_handles := {1, 2}\<rparr>)"
    by (simp add: fake_add_rtp_stream_def fake_driver_init_def insert_commute)
  show ?thesis
    using add_source_dual[where E = sample_senv and src = sample_source and st = ?st and rm_rtp = fake_remove_rtp_stream
        and dest = "0xEF010005" and ?dest2.0 = "0xEF020006", OF _ _ _ _ _ _ _ _ _ _ 1 2]
    by (simp add: sample_state_def sample_senv_def sample_source_def session_init_def stream_id_max_def in_multicast_def
        set_source_def on_add_source_def Let_def)
qed

lemma sample_sources_kept: "\<forall>x \<in> set (ss_sources sample_state). source_kept sample_senv x"
  by (simp add: sample_sources source_kept_def dual_info_def source_info_def source_leg_def new_info_def Let_def
      sample_source_def stream_id_max_def strncpy_def in_multicast_def) (simp add: sample_senv_def sample_env_def)



subsection \<open>Disabling a redundant source\<close>

text \<open>A redundant source that is added while it is disabled is read back, and saved, without its second
  leg: the address and the choice of the second leg are gone when it is enabled again.\<close>

theorem disabled_forgets_leg:
  assumes "\<not> stream_id_max < src_id src" "aton E (src_address src) = Some dest" "in_multicast dest"
    "\<not> src_enabled src" "src_use_secondary src" "map_of (ss_sources st) (src_id src) = None"
    "ss_source_names st (src_name src) = None"
  shows "\<exists>st' s. add_source add_rtp rm_rtp E src st = (Returns no_error, st') \<and> get_source E (src_id src) st' = Inr s \<and>
    \<not> src_use_secondary s \<and> src_address_sec s = [] \<and> src_address s = ntoa E dest \<and> ss_driver st' = ss_driver st"
  unfolding add_source_multicast[OF assms(1-3)]
  using assms(4-)
  by (simp add: add_source_locked_def source_info_def new_info_def set_source_def get_source_def get_source_of_def
      source_leg_def Let_def)

theorem disabled_forgets_leg_witness:
  "\<exists>st' s. add_source fake_add_rtp_stream fake_remove_rtp_stream sample_senv (sample_source\<lparr>src_enabled := False\<rparr>)
      (session_init (fake_driver_init 48000) 0 46 7) = (Returns no_error, st') \<and>
    get_source sample_senv 3 st' = Inr s \<and> src_address_sec (sample_source\<lparr>src_enabled := False\<rparr>) \<noteq> [] \<and> src_address_sec s = []"
proof -
  let ?src = "sample_source\<lparr>src_enabled := False\<rparr>" and ?st = "session_init (fake_driver_init 48000) 0 46 7"
  have n: "src_address_sec ?src \<noteq> []" using clean_addr_sample[of "0xEF020006"] by (simp add: sample_source_def clean_addr_def)
  have a: "\<not> stream_id_max < src_id ?src" "aton sample_senv (src_address ?src) = Some 0xEF010005" "in_multicast 0xEF010005"
    "\<not> src_enabled ?src" "src_use_secondary ?src" "map_of (ss_sources ?st) (src_id ?src) = None"
    "ss_source_names ?st (src_name ?src) = None"
    by (simp_all add: sample_source_def sample_senv_def session_init_def stream_id_max_def in_multicast_def)
  have i: "src_id ?src = 3" by (simp add: sample_source_def)
  show ?thesis
    using disabled_forgets_leg[OF a, of fake_add_rtp_stream fake_remove_rtp_stream] n unfolding i by blast
qed

end
