(* ===== verification/Startup.thy ===== *)
theory Startup
  imports Driver Announce Streamer Mdns
begin

text \<open>
  How the parts of the daemon come up and what keeps them going: the whole interface of the fake driver
  manager (\<open>daemon/fake_driver_manager.cpp\<close>), the streamer's reactions to the PTP status and to the answers
  of ALSA (\<open>daemon/streamer.cpp\<close>), the turns of the browser's worker (\<open>daemon/browser.cpp\<close>) and the
  start of the mDNS client and server.
\<close>

subsection \<open>The fake driver manager\<close>

text \<open>The manager around the stream table of \<open>Driver\<close>: the PTP configuration and the current volume.\<close>

record fake_manager =
  fm_driver :: fake_driver
  fm_ptp :: "u8 \<times> u8"
  fm_volume :: int
  fm_switch :: int

definition fake_manager_new :: fake_manager where
  "fake_manager_new = \<lparr>fm_driver = fake_driver_init 0, fm_ptp = (0, 0), fm_volume = - 20, fm_switch = 0\<rparr>"

definition fake_ok :: "fake_manager \<Rightarrow> error_code \<times> fake_manager" where
  "fake_ok m = (no_error, m)"

definition fake_hello :: "fake_manager \<Rightarrow> error_code \<times> fake_manager" where "fake_hello m = fake_ok m"
definition fake_bye :: "fake_manager \<Rightarrow> error_code \<times> fake_manager" where "fake_bye m = fake_ok m"
definition fake_start :: "fake_manager \<Rightarrow> error_code \<times> fake_manager" where "fake_start m = fake_ok m"
definition fake_stop :: "fake_manager \<Rightarrow> error_code \<times> fake_manager" where "fake_stop m = fake_ok m"
definition fake_reset :: "fake_manager \<Rightarrow> error_code \<times> fake_manager" where "fake_reset m = fake_ok m"
definition fake_ping :: "fake_manager \<Rightarrow> error_code \<times> fake_manager" where "fake_ping m = fake_ok m"

definition fake_set_interface_name :: "string \<Rightarrow> fake_manager \<Rightarrow> error_code \<times> fake_manager" where
  "fake_set_interface_name ifname m = fake_ok m"

definition fake_set_ptp_config :: "u8 \<times> u8 \<Rightarrow> fake_manager \<Rightarrow> error_code \<times> fake_manager" where
  "fake_set_ptp_config c m = (no_error, m\<lparr>fm_ptp := c\<rparr>)"

definition fake_get_ptp_config :: "fake_manager \<Rightarrow> error_code \<times> u8 \<times> u8" where
  "fake_get_ptp_config m = (no_error, fm_ptp m)"

definition fake_get_ptp_status :: "fake_manager \<Rightarrow> error_code \<times> driver_ptp" where
  "fake_get_ptp_status m =
     (no_error,
      \<lparr>dp_lock = Ptp_unlocked, dp_gmid = 0xABABABABABABABAB, dp_jitter = 0, dp_active = 0,
       dp_leg_lock = (Ptp_unlocked, Ptp_unlocked), dp_leg_gmid = (0xABABABABABABABAB, 0)\<rparr>)"

definition fake_get_sample_rate :: "fake_manager \<Rightarrow> error_code \<times> u32" where
  "fake_get_sample_rate m = (no_error, fd_sample_rate (fm_driver m))"

definition fake_get_number_of_inputs :: "fake_manager \<Rightarrow> error_code \<times> int" where
  "fake_get_number_of_inputs m = (no_error, 8)"

definition fake_get_number_of_outputs :: "fake_manager \<Rightarrow> error_code \<times> int" where
  "fake_get_number_of_outputs m = (no_error, 8)"

text \<open>A setting of the stream table.\<close>

definition on_driver :: "(fake_driver \<Rightarrow> error_code \<times> fake_driver) \<Rightarrow> fake_manager \<Rightarrow> error_code \<times> fake_manager" where
  "on_driver f m = (case f (fm_driver m) of (e, d) \<Rightarrow> (e, m\<lparr>fm_driver := d\<rparr>))"

text \<open>\<open>a() || b() || ...\<close> on error codes.\<close>

fun first_error :: "(fake_manager \<Rightarrow> error_code \<times> fake_manager) list \<Rightarrow> fake_manager \<Rightarrow> bool \<times> fake_manager" where
  "first_error [] m = (False, m)"
| "first_error (f # fs) m = (case f m of (e, m) \<Rightarrow> if e \<noteq> no_error then (True, m) else first_error fs m)"

definition fake_init :: "config \<Rightarrow> fake_manager \<Rightarrow> bool \<times> fake_manager" where
  "fake_init c m =
     (let m = m\<lparr>fm_driver := (fm_driver m)\<lparr>fd_sample_rate := cf_sample_rate c\<rparr>\<rparr>
      in case fake_hello m of
           (e, m) \<Rightarrow>
             if e \<noteq> no_error then (False, m)
             else if cf_driver_restart c then
               (case first_error
                   [fake_start, fake_reset, fake_set_interface_name (cf_interface_name c),
                    fake_set_ptp_config (cf_ptp_domain c, cf_ptp_dscp c),
                    on_driver (fake_set_tic_frame_size_at_1fs (ucast (cf_tic_frame_size_at_1fs c))),
                    on_driver (fake_set_playout_delay (cf_playout_delay c)),
                    on_driver (fake_set_max_tic_frame_size (ucast (cf_max_tic_frame_size c)))] m of
                  (res, m) \<Rightarrow> (\<not> res, m))
             else (True, m))"

definition fake_terminate :: "config \<Rightarrow> fake_manager \<Rightarrow> bool \<times> fake_manager" where
  "fake_terminate c m =
     (let m = (if cf_driver_restart c then snd (fake_stop m) else m) in (True, snd (fake_bye m)))"

text \<open>The fake driver always comes up, keeps its streams, and with the restart flag has the settings of the
  configuration afterwards; without it only the sample rate.\<close>

theorem fake_init_settings:
  "\<exists>m'. fake_init c m = (True, m') \<and> fd_handles (fm_driver m') = fd_handles (fm_driver m) \<and>
     fd_sample_rate (fm_driver m') = cf_sample_rate c \<and>
     (if cf_driver_restart c
      then fm_ptp m' = (cf_ptp_domain c, cf_ptp_dscp c) \<and> fd_delay (fm_driver m') = cf_playout_delay c \<and>
        fd_frame_size (fm_driver m') = ucast (cf_tic_frame_size_at_1fs c) \<and>
        fd_max_frame_size (fm_driver m') = ucast (cf_max_tic_frame_size c)
      else fm_ptp m' = fm_ptp m \<and> fd_delay (fm_driver m') = fd_delay (fm_driver m) \<and>
        fd_frame_size (fm_driver m') = fd_frame_size (fm_driver m))"
  by (cases "cf_driver_restart c") (simp_all add: fake_init_def fake_hello_def fake_ok_def fake_start_def fake_reset_def fake_set_interface_name_def
      fake_set_ptp_config_def on_driver_def fake_set_tic_frame_size_at_1fs_def fake_set_playout_delay_def
      fake_set_max_tic_frame_size_def)

subsection \<open>The answers of ALSA\<close>

text \<open>\<open>pcm_xrun\<close>: what \<open>snd_pcm_status\<close> answers, the state it reports, what \<open>snd_pcm_prepare\<close> answers.\<close>

datatype pcm_state = Pcm_xrun | Pcm_draining | Pcm_other

definition pcm_xrun :: "int \<Rightarrow> pcm_state \<Rightarrow> int \<Rightarrow> bool" where
  "pcm_xrun status state prepare =
     (if status < 0 then False
      else if state = Pcm_xrun then \<not> prepare < 0
      else if state = Pcm_draining then \<not> prepare < 0
      else False)"

text \<open>\<open>pcm_suspend\<close>: the answers of \<open>snd_pcm_resume\<close>, one each second while it is \<open>-EAGAIN\<close>; \<^term>\<open>None\<close>
  while it has not returned.\<close>

fun pcm_suspend :: "int list \<Rightarrow> int \<Rightarrow> bool option" where
  "pcm_suspend [] prepare = None"
| "pcm_suspend (res # rs) prepare =
     (if res = - 11 then pcm_suspend rs prepare
      else if res < 0 then Some (\<not> prepare < 0)
      else Some True)"

text \<open>What a result \<open>r\<close> of \<open>snd_pcm_readi\<close> is to \<open>pcm_read\<close>: the errors are \<open>-EAGAIN\<close>, \<open>-EPIPE\<close> and
  \<open>-ESTRPIPE\<close>, and the two handlers say whether they recovered.\<close>

definition pcm_event_of :: "int \<Rightarrow> u8 list \<Rightarrow> bool \<Rightarrow> bool \<Rightarrow> pcm_event" where
  "pcm_event_of r bs xrun suspend =
     (if r = - 11 then Again
      else if r = - 32 then (if xrun then Recovered else Lost)
      else if r = - 86 then (if suspend then Recovered else Lost)
      else if r < 0 then Lost
      else Read (nat r) bs)"

subsection \<open>The streamer and the PTP status\<close>

text \<open>What \<open>start_capture\<close> finds: whether the device could be opened and configured, the rate it chose, and the
  configuration.\<close>

record capture_env =
  ce_device :: bool
  ce_cfg_rate :: u32
  ce_rate :: u32
  ce_channels :: u8
  ce_files :: u8
  ce_duration :: u16
  ce_player :: u8

definition on_ptp_status_change ::
  "'e codec_lib \<Rightarrow> capture_env \<Rightarrow> stream_sink list \<Rightarrow> string \<Rightarrow> 'e streamer \<Rightarrow> (bool \<times> 'e streamer) option" where
  "on_ptp_status_change C v ks status s =
     (if status = ''locked'' then
        start_capture C (ce_device v) (ce_cfg_rate v) (ce_rate v) (ce_channels v) (ce_files v) (ce_duration v) (ce_player v) ks s
      else if status = ''unlocked'' then Some (stop_capture ks s)
      else Some (True, s))"

text \<open>\<open>init\<close> with the status that the session manager has at that time; the result of the start is not
  looked at.\<close>

definition streamer_start ::
  "'e codec_lib \<Rightarrow> capture_env \<Rightarrow> stream_sink list \<Rightarrow> string \<Rightarrow> 'e streamer \<Rightarrow> (bool \<times> 'e streamer) option" where
  "streamer_start C v ks status s =
     map_option (\<lambda>(_, s). (True, s)) (on_ptp_status_change C v ks status (s\<lparr>sm_running := False\<rparr>))"

definition streamer_terminate :: "stream_sink list \<Rightarrow> 'e streamer \<Rightarrow> bool \<times> 'e streamer" where
  "streamer_terminate ks s = stop_capture ks s"

text \<open>The statuses the session manager reports after the start, each with the sinks and what the device does at
  that time.\<close>

fun ptp_reports ::
  "'e codec_lib \<Rightarrow> (capture_env \<times> stream_sink list \<times> string) list \<Rightarrow> 'e streamer \<Rightarrow> 'e streamer option" where
  "ptp_reports C [] s = Some s"
| "ptp_reports C ((v, ks, status) # rs) s =
     (case on_ptp_status_change C v ks status s of None \<Rightarrow> None | Some (_, s) \<Rightarrow> ptp_reports C rs s)"

text \<open>Whether it is running after the reports, when it was or was not before.\<close>

fun captures_after :: "(capture_env \<times> stream_sink list \<times> string) list \<Rightarrow> bool \<Rightarrow> bool" where
  "captures_after [] r = r"
| "captures_after ((v, ks, status) # rs) r =
     captures_after rs (if status = ''locked'' then r \<or> ce_device v else if status = ''unlocked'' then False else r)"

lemma setup_codec_defined:
  assumes "snk_map k \<noteq> []"
  shows "\<exists>r s'. setup_codec C rate k s = Some (r, s') \<and> sm_running s' = sm_running s"
  using assms by (auto simp: setup_codec_def Let_def split: option.split prod.split)

lemma open_files_defined:
  "\<forall>k \<in> set ks. snk_map k \<noteq> [] \<Longrightarrow> \<exists>s'. open_files C rate ks s = Some s' \<and> sm_running s' = sm_running s"
proof (induction ks arbitrary: s)
  case (Cons k ks)
  let ?s = "s\<lparr>sm_tmp := (sm_tmp s)(snk_id k := [])\<rparr>"
  show ?case
  proof (cases "sm_faac ?s (snk_id k) \<noteq> None")
    case True
    then show ?thesis using Cons.IH[of ?s] Cons.prems by simp
  next
    case False
    obtain r s' where a: "setup_codec C rate k ?s = Some (r, s')" "sm_running s' = sm_running ?s"
      using setup_codec_defined[of k C rate ?s] Cons.prems by auto
    then show ?thesis using False Cons.IH[of s'] Cons.prems by (simp add: Let_def)
  qed
qed simp

lemma close_codecs_running [simp]: "sm_running (close_codecs ks s) = sm_running s"
  unfolding close_codecs_def by (induction ks arbitrary: s) simp_all

lemma stop_capture_running [simp]: "\<not> sm_running (snd (stop_capture ks s))"
  by (simp add: stop_capture_def)

lemma ptp_change_running:
  assumes "\<forall>k \<in> set ks. snk_map k \<noteq> []"
  shows "\<exists>r s'. on_ptp_status_change C v ks status s = Some (r, s') \<and>
    sm_running s' = (if status = ''locked'' then sm_running s \<or> ce_device v
                     else if status = ''unlocked'' then False else sm_running s)"
proof (cases "status = ''locked'' \<and> \<not> sm_running s \<and> ce_device v")
  case True
  obtain s0 where s0: "start_capture C (ce_device v) (ce_cfg_rate v) (ce_rate v) (ce_channels v) (ce_files v) (ce_duration v)
      (ce_player v) ks s = map_option (\<lambda>s. (True, s)) (open_files C (ce_cfg_rate v) ks s0)" "sm_running s0"
    using True by (simp add: start_capture_def Let_def)
  moreover obtain s' where "open_files C (ce_cfg_rate v) ks s0 = Some s'" "sm_running s' = sm_running s0"
    using open_files_defined[OF assms] by blast
  ultimately show ?thesis using True by (auto simp: on_ptp_status_change_def)
next
  case False
  then show ?thesis
    by (cases "stop_capture ks s") (use stop_capture_running[of ks s] in \<open>auto simp: on_ptp_status_change_def start_capture_def\<close>)
qed

lemma reports_running:
  "\<forall>(v, ks, status) \<in> set rs. \<forall>k \<in> set ks. snk_map k \<noteq> [] \<Longrightarrow>
   \<exists>s2. ptp_reports C rs s = Some s2 \<and> sm_running s2 = captures_after rs (sm_running s)"
proof (induction rs arbitrary: s)
  case (Cons x rs)
  obtain v ks status where x: "x = (v, ks, status)" by (cases x)
  have k: "\<forall>k \<in> set ks. snk_map k \<noteq> []" and t: "\<forall>(v, ks, status) \<in> set rs. \<forall>k \<in> set ks. snk_map k \<noteq> []"
    using Cons.prems unfolding x by auto
  from ptp_change_running[OF k, of C v status s] obtain r s' where
    a: "on_ptp_status_change C v ks status s = Some (r, s')"
    "sm_running s' = (if status = ''locked'' then sm_running s \<or> ce_device v
                      else if status = ''unlocked'' then False else sm_running s)" by blast
  show ?case unfolding x ptp_reports.simps captures_after.simps a(1) a(2)[symmetric]
    using Cons.IH[OF t, of s'] by simp
qed simp

lemma started_running:
  assumes "\<forall>(v, ks, status) \<in> set ((v0, ks0, status0) # rs). \<forall>k \<in> set ks. snk_map k \<noteq> []"
  shows "\<exists>s1 s2. streamer_start C v0 ks0 status0 s = Some (True, s1) \<and> ptp_reports C rs s1 = Some s2 \<and>
    sm_running s2 = captures_after ((v0, ks0, status0) # rs) False"
proof -
  have k: "\<forall>k \<in> set ks0. snk_map k \<noteq> []" and t: "\<forall>(v, ks, status) \<in> set rs. \<forall>k \<in> set ks. snk_map k \<noteq> []"
    using assms by auto
  obtain r s1 where a: "on_ptp_status_change C v0 ks0 status0 (s\<lparr>sm_running := False\<rparr>) = Some (r, s1)"
    "sm_running s1 = (if status0 = ''locked'' then sm_running (s\<lparr>sm_running := False\<rparr>) \<or> ce_device v0
                        else if status0 = ''unlocked'' then False else sm_running (s\<lparr>sm_running := False\<rparr>))"
    using ptp_change_running[OF k, of C v0 status0 "s\<lparr>sm_running := False\<rparr>"] by blast
  have start: "streamer_start C v0 ks0 status0 s = Some (True, s1)" by (simp add: streamer_start_def a(1))
  have run: "captures_after ((v0, ks0, status0) # rs) False = captures_after rs (sm_running s1)"
    unfolding a(2) captures_after.simps by simp
  show ?thesis
    using reports_running[OF t, of C s1] start unfolding run by blast
qed

text \<open>C8: Whatever the status was at the start and whatever is reported after it, nothing is undefined while
  every sink has a channel, and the streamer is running exactly when the last report that decides (locked or
  unlocked) and that the device did not refuse was locked; a report of locking leaves it as it is.\<close>

theorem capture_follows_ptp:
  assumes "\<forall>(v, ks, status) \<in> set ((v0, ks0, status0) # rs). \<forall>k \<in> set ks. snk_map k \<noteq> []"
  shows "\<exists>s1 s2. streamer_start C v0 ks0 status0 s = Some (True, s1) \<and> ptp_reports C rs s1 = Some s2 \<and>
    sm_running s2 = captures_after ((v0, ks0, status0) # rs) False"
  using started_running[OF assms] by blast

text \<open>An encoder that takes 512 samples a call.\<close>

definition plain_codec :: "unit codec_lib" where
  "plain_codec =
     \<lparr>cl_open = (\<lambda>_ _. Some ((), 512, 100)), cl_get_config = (\<lambda>_. True), cl_set_config = (\<lambda>_ _ _. Some ()),
      cl_encode = (\<lambda>e bs n. (Some [], e))\<rparr>"

definition small_capture :: capture_env where
  "small_capture =
     \<lparr>ce_device = True, ce_cfg_rate = 48000, ce_rate = 48000, ce_channels = 2, ce_files = 4, ce_duration = 1, ce_player = 1\<rparr>"

theorem capture_follows_ptp_witness:
  "\<exists>s1 s2. streamer_start plain_codec small_capture [] ''unlocked'' streamer_init = Some (True, s1) \<and>
     ptp_reports plain_codec [(small_capture, [], ''locking''), (small_capture, [], ''locked''), (small_capture, [], ''locking'')] s1 = Some s2 \<and>
     sm_running s2"
  using capture_follows_ptp[of small_capture "[]" "''unlocked''"
      "[(small_capture, [], ''locking''), (small_capture, [], ''locked''), (small_capture, [], ''locking'')]" plain_codec streamer_init]
  by (simp add: small_capture_def)

subsection \<open>The worker of the browser\<close>

text \<open>The two time points of \<open>worker\<close> beside what the browser, an \<open>MDNSClient\<close>, holds.  Times are in
  nanoseconds since the start.\<close>

record browser_worker =
  bw_client :: mdns_client
  bw_sap :: nat
  bw_mdns :: nat

text \<open>What one turn of the loop meets: the packet that \<open>receive\<close> accepted before its deadline, if any, the
  tasks that have ended, and the time, at which all readings of the clock in the turn are taken.\<close>

record browser_turn =
  bt_packet :: "sap_packet option"
  bt_ready :: "client_call \<Rightarrow> bool"
  bt_now :: nat

definition interval_over :: "nat \<Rightarrow> nat \<Rightarrow> bool" where
  "interval_over now timepoint \<longleftrightarrow> timepoint + 10 * 10 ^ 9 < now"

definition on_browser :: "(browser \<Rightarrow> browser) \<Rightarrow> browser_worker \<Rightarrow> browser_worker" where
  "on_browser f w = w\<lparr>bw_client := (bw_client w)\<lparr>mc_browser := f (mc_browser (bw_client w))\<rparr>\<rparr>"

definition browser_turn_step :: "(u32 \<Rightarrow> string) \<Rightarrow> config \<Rightarrow> browser_turn \<Rightarrow> browser_worker \<Rightarrow> browser_worker" where
  "browser_turn_step addr_str c t w =
     (let w = (case bt_packet t of
                 None \<Rightarrow> w
               | Some p \<Rightarrow> on_browser (on_sap addr_str (cf_sap_interval c) (bt_now t) p) w);
          w = (if interval_over (bt_now t) (bw_sap w)
               then on_browser (sap_sweep (bt_now t)) (w\<lparr>bw_sap := bt_now t\<rparr>) else w)
      in if interval_over (bt_now t) (bw_mdns w)
         then w\<lparr>bw_mdns := bt_now t, bw_client := process_results (bt_ready t) (bw_client w)\<rparr> else w)"

fun browser_turns :: "(u32 \<Rightarrow> string) \<Rightarrow> config \<Rightarrow> browser_turn list \<Rightarrow> browser_worker \<Rightarrow> browser_worker" where
  "browser_turns addr_str c [] w = w"
| "browser_turns addr_str c (t # ts) w = browser_turns addr_str c ts (browser_turn_step addr_str c t w)"

definition worker_table :: "browser_worker \<Rightarrow> remote_source list" where
  "worker_table w = br_sources (mc_browser (bw_client w))"

text \<open>The last moment at which a sweep keeps the source.\<close>

definition kept_until :: "remote_source \<Rightarrow> nat" where
  "kept_until x = (unat (rs_last_seen x) + unat (rs_announce_period x * 10)) * 10 ^ 9"

lemma turn_table:
  "worker_table (browser_turn_step addr_str c t w) =
     (let b = (case bt_packet t of None \<Rightarrow> mc_browser (bw_client w)
               | Some p \<Rightarrow> on_sap addr_str (cf_sap_interval c) (bt_now t) p (mc_browser (bw_client w)))
      in br_sources (if interval_over (bt_now t) (bw_sap w) then sap_sweep (bt_now t) b else b))"
  "bw_sap (browser_turn_step addr_str c t w) = (if interval_over (bt_now t) (bw_sap w) then bt_now t else bw_sap w)"
  by (simp_all add: browser_turn_step_def worker_table_def on_browser_def process_results_def Let_def split: option.split)

lemma turn_inv: "browser_inv (worker_table w) \<Longrightarrow> browser_inv (worker_table (browser_turn_step addr_str c t w))"
  unfolding turn_table(1) Let_def unfolding worker_table_def
  by (cases "bt_packet t") (simp_all add: on_sap_inv sap_sweep_inv)

lemma sweep_find:
  assumes "browser_inv (br_sources b)"
  shows "mi_find k (br_sources (sap_sweep now b)) =
    (case mi_find k (br_sources b) of None \<Rightarrow> None | Some s \<Rightarrow> if sap_expired now s then None else Some s)"
  using mi_find_filter[of "br_sources b" k] assms
  by (auto simp: sap_sweep_def Let_def browser_inv_def split: option.split)

text \<open>A turn without a packet of that id.\<close>

lemma silent_turn:
  assumes inv: "browser_inv (worker_table w)"
    and p: "\<And>p. bt_packet t = Some p \<Longrightarrow> sap_id (p_addr p) (p_msg_id_hash p) \<noteq> i"
  shows "mi_find i (worker_table (browser_turn_step addr_str c t w)) =
    (case mi_find i (worker_table w) of
       None \<Rightarrow> None
     | Some x \<Rightarrow> if interval_over (bt_now t) (bw_sap w) \<and> sap_expired (bt_now t) x then None else Some x)"
proof -
  let ?old = "mc_browser (bw_client w)"
  let ?b = "case bt_packet t of None \<Rightarrow> ?old | Some p \<Rightarrow> on_sap addr_str (cf_sap_interval c) (bt_now t) p ?old"
  have i0: "browser_inv (br_sources ?old)" using inv by (simp add: worker_table_def)
  have b1: "mi_find i (br_sources ?b) = mi_find i (br_sources ?old)"
    using i0 p by (cases "bt_packet t") (auto simp: on_sap_find)
  have b2: "browser_inv (br_sources ?b)"
    using i0 by (cases "bt_packet t") (simp_all add: on_sap_inv)
  show ?thesis
    unfolding turn_table(1) Let_def using sweep_find[OF b2] b1
    by (auto simp: worker_table_def split: option.split)
qed

text \<open>C7: A source heard over SAP that falls silent is forgotten: ten seconds after its ten periods at the
  latest the worker has removed it, however its turns lie and whatever it hears of others.\<close>

theorem silent_source_forgotten:
  assumes inv: "browser_inv (worker_table w)"
    and x: "mi_find i (worker_table w) = Some x" "rs_source x = ''SAP''"
    and silent: "\<forall>t \<in> set ts. \<forall>p. bt_packet t = Some p \<longrightarrow> sap_id (p_addr p) (p_msg_id_hash p) \<noteq> i"
    and swept: "bw_sap w \<le> kept_until x"
    and late: "\<exists>t \<in> set ts. kept_until x + 10 * 10 ^ 9 < bt_now t"
  shows "mi_find i (worker_table (browser_turns addr_str c ts w)) = None"
proof -
  have gone: "mi_find i (worker_table (browser_turns addr_str c ts w)) = None"
    if "browser_inv (worker_table w)" "mi_find i (worker_table w) = None"
      "\<forall>t \<in> set ts. \<forall>p. bt_packet t = Some p \<longrightarrow> sap_id (p_addr p) (p_msg_id_hash p) \<noteq> i" for w ts
    using that
  proof (induction ts arbitrary: w)
    case (Cons t ts)
    have "mi_find i (worker_table (browser_turn_step addr_str c t w)) = None"
      using silent_turn[OF Cons.prems(1), of t i addr_str c] Cons.prems(2,3) by simp
    then show ?case using Cons.IH[OF turn_inv[OF Cons.prems(1)]] Cons.prems(3) by simp
  qed simp
  show ?thesis
    using inv x(1) silent swept late
  proof (induction ts arbitrary: w)
    case (Cons t ts)
    let ?w = "browser_turn_step addr_str c t w"
    have find: "mi_find i (worker_table ?w) =
        (if interval_over (bt_now t) (bw_sap w) \<and> kept_until x < bt_now t then None else Some x)"
      using silent_turn[OF Cons.prems(1), of t i addr_str c] Cons.prems(2,3) x(2)
      by (simp add: sap_expired_def kept_until_def)
    note inv' = turn_inv[OF Cons.prems(1), of addr_str c t]
    have rest: "\<forall>t \<in> set ts. \<forall>p. bt_packet t = Some p \<longrightarrow> sap_id (p_addr p) (p_msg_id_hash p) \<noteq> i"
      using Cons.prems(3) by simp
    show ?case
    proof (cases "interval_over (bt_now t) (bw_sap w) \<and> kept_until x < bt_now t")
      case True
      then show ?thesis using gone[OF inv' _ rest] find by simp
    next
      case False
      then have "bw_sap ?w \<le> kept_until x" "mi_find i (worker_table ?w) = Some x"
        using Cons.prems(4) find by (auto simp: turn_table(2))
      moreover have "\<exists>t \<in> set ts. kept_until x + 10 * 10 ^ 9 < bt_now t"
        using Cons.prems(4,5) False by (auto simp: interval_over_def)
      ultimately show ?thesis using Cons.IH[OF inv' _ rest] by simp
    qed
  qed simp
qed

definition fresh_worker :: browser_worker where
  "fresh_worker =
     \<lparr>bw_client = \<lparr>mc_resolvers = [], mc_tasks = [], mc_clients = [], mc_browser = empty_browser, mc_poll_quit = False,
                  mc_running = True\<rparr>,
      bw_sap = 0, bw_mdns = 0\<rparr>"

theorem silent_source_forgotten_witness:
  "mi_find (sap_id 9 7) (worker_table
      (browser_turns (\<lambda>_. []) config_default
         [\<lparr>bt_packet = None, bt_ready = (\<lambda>_. True), bt_now = 12 * 10 ^ 9\<rparr>,
          \<lparr>bt_packet = None, bt_ready = (\<lambda>_. True), bt_now = 400 * 10 ^ 9\<rparr>]
         (on_browser (on_sap (\<lambda>_. []) 30 1 (sample_packet True)) fresh_worker))) = None"
proof -
  let ?w = "on_browser (on_sap (\<lambda>_. []) 30 1 (sample_packet True)) fresh_worker"
  have inv: "browser_inv (worker_table ?w)"
    unfolding worker_table_def on_browser_def fresh_worker_def
    by (simp, rule on_sap_inv, simp add: empty_browser_def browser_inv_Nil)
  define x where "x = sap_new_source (\<lambda>_. []) 30 1 (sample_packet True)"
  have x: "mi_find (sap_id 9 7) (worker_table ?w) = Some x" "rs_source x = ''SAP''"
    by (simp_all add: x_def worker_table_def on_browser_def fresh_worker_def on_sap_def Let_def sample_packet_def
        empty_browser_def mi_find_def mi_insert_def sap_new_source_def)
  have k: "kept_until x = 300 * 10 ^ 9"
    by (simp add: x_def kept_until_def sap_new_source_def secs_of_def)
  have start: "bw_sap ?w = 0" by (simp add: on_browser_def fresh_worker_def)
  show ?thesis
    by (rule silent_source_forgotten[OF inv x]) (use start k in simp_all)
qed

subsection \<open>Starting and stopping the browser and the mDNS parts\<close>

text \<open>Whether Avahi gives a poll object and a client.\<close>

definition mdns_client_start :: "bool \<Rightarrow> bool \<Rightarrow> mdns_client \<Rightarrow> bool \<times> mdns_client" where
  "mdns_client_start poll client m =
     (if mc_running m then (True, m)
      else if \<not> poll then (False, m)
      else if \<not> client then (False, m)
      else (True, m\<lparr>mc_running := True\<rparr>))"

definition mdns_server_start :: "bool \<Rightarrow> bool \<Rightarrow> 'a mdns_server \<Rightarrow> bool \<times> 'a mdns_server" where
  "mdns_server_start poll client s =
     (if ms_running s then (True, s)
      else if \<not> poll then (False, s)
      else if \<not> client then (False, s)
      else (True, s\<lparr>ms_running := True\<rparr>))"

text \<open>The browser with its own flag; the worker it launches begins with both time points at that moment.\<close>

record browser_part =
  bp_running :: bool
  bp_worker :: browser_worker

definition reset_update :: "browser_part \<Rightarrow> browser_part" where
  "reset_update p = p\<lparr>bp_worker := on_browser (\<lambda>b. b\<lparr>br_last_update := 0\<rparr>) (bp_worker p)\<rparr>"

definition browser_start :: "config \<Rightarrow> bool \<Rightarrow> bool \<Rightarrow> nat \<Rightarrow> browser_part \<Rightarrow> bool \<times> browser_part" where
  "browser_start c poll client now p =
     (if bp_running p then (True, reset_update p)
      else (case (if cf_mdns_enabled c then mdns_client_start poll client (bw_client (bp_worker p))
                  else (True, bw_client (bp_worker p))) of
              (False, m) \<Rightarrow> (False, p\<lparr>bp_worker := (bp_worker p)\<lparr>bw_client := m\<rparr>\<rparr>)
            | (True, m) \<Rightarrow>
                (True, reset_update
                   (p\<lparr>bp_running := True, bp_worker := (bp_worker p)\<lparr>bw_client := m, bw_sap := now, bw_mdns := now\<rparr>\<rparr>))))"

definition browser_stop :: "config \<Rightarrow> browser_part \<Rightarrow> bool \<times> browser_part" where
  "browser_stop c p =
     (if \<not> bp_running p then (True, p)
      else (True, p\<lparr>bp_running := False,
                    bp_worker := (bp_worker p)\<lparr>bw_client :=
                      (if cf_mdns_enabled c then mdns_client_terminate (bw_client (bp_worker p)) else bw_client (bp_worker p))\<rparr>\<rparr>))"

text \<open>The browser comes up exactly when mDNS is off or Avahi answers (or it runs already); it then runs, keeps
  the sources it knew, and after it is stopped under the same configuration neither it nor a client of its own runs.\<close>

theorem browser_starts_and_stops:
  "\<exists>p1. browser_start c poll client now p =
        (bp_running p \<or> \<not> cf_mdns_enabled c \<or> mc_running (bw_client (bp_worker p)) \<or> poll \<and> client, p1) \<and>
     worker_table (bp_worker p1) = worker_table (bp_worker p) \<and>
     bp_running p1 = (bp_running p \<or> \<not> cf_mdns_enabled c \<or> mc_running (bw_client (bp_worker p)) \<or> poll \<and> client) \<and>
     (\<exists>p2. browser_stop c p1 = (True, p2) \<and> \<not> bp_running p2 \<and>
        worker_table (bp_worker p2) = worker_table (bp_worker p) \<and>
        (cf_mdns_enabled c \<and> bp_running p1 \<longrightarrow> \<not> mc_running (bw_client (bp_worker p2))))"
  by (auto simp: browser_start_def browser_stop_def mdns_client_start_def mdns_client_terminate_def reset_update_def
      on_browser_def worker_table_def split: prod.split bool.split)

subsection \<open>The daemon on the fake driver\<close>

lemma fake_status_shown: "pt_status (fst (ptp_update (snd (fake_get_ptp_status m)) p)) = ''unlocked''"
  by (simp add: fake_get_ptp_status_def ptp_update_def Let_def)

lemma fake_status_reported:
  "status \<in> {pt_status (fst (ptp_update (snd (fake_get_ptp_status m)) p)),
     fst (snd (ptp_update (snd (fake_get_ptp_status m)) p))} \<Longrightarrow> status \<noteq> ''locked''"
  by (auto simp: fake_get_ptp_status_def ptp_update_def Let_def split: if_splits)

lemma never_locked:
  "\<forall>(v, ks, status) \<in> set rs. status \<noteq> ''locked'' \<Longrightarrow> \<not> captures_after rs False"
  by (induction rs) auto

text \<open>On the fake driver the streamer never runs: whatever the reports that come out of its PTP status, every
  query of the streamer is answered with ``not running''.\<close>

theorem fake_driver_never_streams:
  assumes channels: "\<forall>(v, ks, status) \<in> set ((v0, ks0, status0) # rs). \<forall>k \<in> set ks. snk_map k \<noteq> []"
    and fake: "\<forall>(v, ks, status) \<in> set ((v0, ks0, status0) # rs).
      \<exists>m p. status \<in> {pt_status (fst (ptp_update (snd (fake_get_ptp_status m)) p)),
                      fst (snd (ptp_update (snd (fake_get_ptp_status m)) p))}"
  shows "\<exists>s1 s2. streamer_start C v0 ks0 status0 s = Some (True, s1) \<and> ptp_reports C rs s1 = Some s2 \<and>
    streamer_ready k s2 = daemon_err streamer_not_running"
proof -
  have "\<forall>(v, ks, status) \<in> set ((v0, ks0, status0) # rs). status \<noteq> ''locked''"
  proof (rule ballI)
    fix x assume x: "x \<in> set ((v0, ks0, status0) # rs)"
    obtain v ks status where e: "x = (v, ks, status)" by (cases x)
    from bspec[OF fake x] obtain m p where
      "status \<in> {pt_status (fst (ptp_update (snd (fake_get_ptp_status m)) p)),
        fst (snd (ptp_update (snd (fake_get_ptp_status m)) p))}"
      unfolding e prod.case by (elim exE)
    from fake_status_reported[OF this] show "case x of (v, ks, status) \<Rightarrow> status \<noteq> ''locked''"
      unfolding e prod.case .
  qed
  then have "\<not> captures_after ((v0, ks0, status0) # rs) False" by (rule never_locked)
  then show ?thesis
    using started_running[OF channels, of C s] by (auto simp: streamer_ready_def)
qed

theorem fake_driver_never_streams_witness:
  "\<exists>s1 s2. streamer_start plain_codec small_capture [] ''unlocked'' streamer_init = Some (True, s1) \<and>
     ptp_reports plain_codec [(small_capture, [], ''unlocked'')] s1 = Some s2 \<and>
     streamer_ready (snd (sample_capture [])) s2 = daemon_err streamer_not_running"
  by (rule fake_driver_never_streams) (simp_all add: fake_status_shown)

end
