(* ===== verification/Node_Server.thy ===== *)
theory Node_Server
  imports Node_Props
begin

text \<open>
  The server of \<open>daemon/nmos_manager.cpp\<close> in front of the node: the table of routes in the order in which
  the interfaces enter themselves, the match of a path against them, a request from its target to the
  handlers of \<open>Node\<close>, \<open>Connection\<close> and \<open>Channel_Map\<close>, the upgrade to a WebSocket and the loop that accepts
  connections.  The sockets, and the parsing of a request by Boost Beast, are not modelled.
\<close>

subsection \<open>Patterns\<close>

text \<open>The regular expressions that the routes use: characters, a dot (any character but the ends of a line), one
  segment of a path as a group, an optional slash, and any text.\<close>

datatype rx = Ch char | Any_char | Segment | Opt_slash | Any_text

fun compile :: "string \<Rightarrow> rx list" where
  "compile [] = []"
| "compile (c # cs) =
     (if starts_with ''([^/]+)'' (c # cs) then Segment # compile (drop 6 cs)
      else if starts_with [backslash, CHR ''.''] (c # cs) then Ch (CHR ''.'') # compile (drop 1 cs)
      else if starts_with ''/?'' (c # cs) then Opt_slash # compile (drop 1 cs)
      else if starts_with ''.*'' (c # cs) then Any_text # compile (drop 1 cs)
      else if c = CHR ''.'' then Any_char # compile cs
      else Ch c # compile cs)"

definition line_end :: "char \<Rightarrow> bool" where
  "line_end c \<longleftrightarrow> c = CHR 0x0A \<or> c = CHR 0x0D"

fun first_some :: "('a \<Rightarrow> 'b option) \<Rightarrow> 'a list \<Rightarrow> 'b option" where
  "first_some f [] = None"
| "first_some f (x # xs) = (case f x of None \<Rightarrow> first_some f xs | Some y \<Rightarrow> Some y)"

text \<open>The whole text against the pattern, the longest first: the groups.\<close>

primrec rx_match :: "rx list \<Rightarrow> string \<Rightarrow> string list option" where
  "rx_match [] xs = (if xs = [] then Some [] else None)"
| "rx_match (r # rs) xs =
     (case r of
        Ch c \<Rightarrow> (case xs of [] \<Rightarrow> None | x # ys \<Rightarrow> if x = c then rx_match rs ys else None)
      | Any_char \<Rightarrow> (case xs of [] \<Rightarrow> None | x # ys \<Rightarrow> if line_end x then None else rx_match rs ys)
      | Segment \<Rightarrow>
          first_some (\<lambda>k. map_option (\<lambda>ms. take k xs # ms) (rx_match rs (drop k xs)))
            (rev [1..<Suc (length (takeWhile (\<lambda>c. c \<noteq> CHR ''/'') xs))])
      | Opt_slash \<Rightarrow>
          first_some (\<lambda>k. rx_match rs (drop k xs)) (if starts_with ''/'' xs then [1, 0] else [0])
      | Any_text \<Rightarrow>
          first_some (\<lambda>k. rx_match rs (drop k xs)) (rev [0..<Suc (length (takeWhile (\<lambda>c. \<not> line_end c) xs))]))"

subsection \<open>The routes\<close>

text \<open>A handler by what it is called with: the first group, the body, the query string.\<close>

datatype node_call =
    Call_node node_request
  | Call_conn conn_request
  | Call_query_root
  | Call_query_version
  | Call_subscriptions
  | Call_post_subscription string
  | Call_subscription string
  | Call_delete_subscription string
  | Call_query_list "res_kind option" string
  | Call_query_single "res_kind option" string
  | Call_cm cm_request

type_synonym route = "string \<times> string \<times> (string \<Rightarrow> string \<Rightarrow> string \<Rightarrow> node_call)"

definition nmos_get :: "string \<Rightarrow> (string \<Rightarrow> string \<Rightarrow> string \<Rightarrow> node_call) \<Rightarrow> route" where
  "nmos_get p h = (''GET'', p, h)"

definition nmos_post :: "string \<Rightarrow> (string \<Rightarrow> string \<Rightarrow> string \<Rightarrow> node_call) \<Rightarrow> route" where
  "nmos_post p h = (''POST'', p, h)"

definition nmos_patch :: "string \<Rightarrow> (string \<Rightarrow> string \<Rightarrow> string \<Rightarrow> node_call) \<Rightarrow> route" where
  "nmos_patch p h = (''PATCH'', p, h)"

definition nmos_delete :: "string \<Rightarrow> (string \<Rightarrow> string \<Rightarrow> string \<Rightarrow> node_call) \<Rightarrow> route" where
  "nmos_delete p h = (''DELETE'', p, h)"

definition nmos_options :: "string \<Rightarrow> (string \<Rightarrow> string \<Rightarrow> string \<Rightarrow> node_call) \<Rightarrow> route" where
  "nmos_options p h = (''OPTIONS'', p, h)"

definition node_routes :: "route list" where
  "node_routes =
     [nmos_options ''.*'' (\<lambda>m b q. Call_node Nr_options),
      nmos_get ''/x-nmos/'' (\<lambda>m b q. Call_node Nr_root),
      nmos_get ''/x-nmos/node/'' (\<lambda>m b q. Call_node Nr_node),
      nmos_get ''/x-nmos/node/v1.3/'' (\<lambda>m b q. Call_node Nr_version),
      nmos_get (''/x-nmos/node/v1'' @ [backslash] @ ''.3/self/?'') (\<lambda>m b q. Call_node Nr_self),
      nmos_get ''/x-nmos/node/v1.3/devices/'' (\<lambda>m b q. Call_node (Nr_list Devices)),
      nmos_get ''/x-nmos/node/v1.3/devices/([^/]+)'' (\<lambda>m b q. Call_node (Nr_single Devices m)),
      nmos_get ''/x-nmos/node/v1.3/sources/'' (\<lambda>m b q. Call_node (Nr_list Sources)),
      nmos_get ''/x-nmos/node/v1.3/sources/([^/]+)'' (\<lambda>m b q. Call_node (Nr_single Sources m)),
      nmos_get ''/x-nmos/node/v1.3/flows/'' (\<lambda>m b q. Call_node (Nr_list Flows)),
      nmos_get ''/x-nmos/node/v1.3/flows/([^/]+)'' (\<lambda>m b q. Call_node (Nr_single Flows m)),
      nmos_get ''/x-nmos/node/v1.3/senders/([^/]+)/sdp'' (\<lambda>m b q. Call_node (Nr_sdp m)),
      nmos_get ''/x-nmos/node/v1.3/senders/'' (\<lambda>m b q. Call_node (Nr_list Senders)),
      nmos_get ''/x-nmos/node/v1.3/senders/([^/]+)'' (\<lambda>m b q. Call_node (Nr_single Senders m)),
      nmos_get ''/x-nmos/node/v1.3/receivers/'' (\<lambda>m b q. Call_node (Nr_list Receivers)),
      nmos_get ''/x-nmos/node/v1.3/receivers/([^/]+)'' (\<lambda>m b q. Call_node (Nr_single Receivers m)),
      nmos_get ''/x-manifest/senders/([^/]+)/manifest'' (\<lambda>m b q. Call_node (Nr_manifest m))]"

text \<open>The side of the senders and that of the receivers under \<open>single\<close>.\<close>

definition conn_path :: "string \<Rightarrow> string" where
  "conn_path p = ''/x-nmos/connection/v1'' @ [backslash] @ ''.1/single/'' @ p"

definition sender_routes :: "route list" where
  "sender_routes =
     [nmos_get ''/x-nmos/connection/v1.1/single/senders/'' (\<lambda>m b q. Call_conn (Conn_list True)),
      nmos_get (conn_path ''senders/([^/]+)/?'') (\<lambda>m b q. Call_conn (Conn_index True m)),
      nmos_get (conn_path ''senders/([^/]+)/constraints/?'') (\<lambda>m b q. Call_conn (Conn_constraints True m)),
      nmos_get (conn_path ''senders/([^/]+)/staged/?'') (\<lambda>m b q. Call_conn (Conn_staged True m)),
      nmos_patch (conn_path ''senders/([^/]+)/staged'') (\<lambda>m b q. Call_conn (Conn_patch True m b)),
      nmos_get (conn_path ''senders/([^/]+)/active/?'') (\<lambda>m b q. Call_conn (Conn_active True m)),
      nmos_get (conn_path ''senders/([^/]+)/transportfile/?'') (\<lambda>m b q. Call_conn (Conn_transportfile m)),
      nmos_get (conn_path ''senders/([^/]+)/transporttype'') (\<lambda>m b q. Call_conn (Conn_transporttype True m))]"

definition receiver_routes :: "route list" where
  "receiver_routes =
     [nmos_get ''/x-nmos/connection/v1.1/single/receivers/'' (\<lambda>m b q. Call_conn (Conn_list False)),
      nmos_get (conn_path ''receivers/([^/]+)/?'') (\<lambda>m b q. Call_conn (Conn_index False m)),
      nmos_get (conn_path ''receivers/([^/]+)/constraints/?'') (\<lambda>m b q. Call_conn (Conn_constraints False m)),
      nmos_get (conn_path ''receivers/([^/]+)/staged/?'') (\<lambda>m b q. Call_conn (Conn_staged False m)),
      nmos_patch (conn_path ''receivers/([^/]+)/staged'') (\<lambda>m b q. Call_conn (Conn_patch False m b)),
      nmos_get (conn_path ''receivers/([^/]+)/active/?'') (\<lambda>m b q. Call_conn (Conn_active False m)),
      nmos_get (conn_path ''receivers/([^/]+)/transporttype'') (\<lambda>m b q. Call_conn (Conn_transporttype False m))]"

definition connection_routes :: "route list" where
  "connection_routes =
     [nmos_get ''/x-nmos/connection/'' (\<lambda>m b q. Call_conn Conn_root),
      nmos_get ''/x-nmos/connection/v1.1/'' (\<lambda>m b q. Call_conn Conn_version),
      nmos_get ''/x-nmos/connection/v1.1/single/'' (\<lambda>m b q. Call_conn Conn_single),
      nmos_get ''/x-nmos/connection/v1.1/bulk/'' (\<lambda>m b q. Call_conn Conn_bulk)] @
     sender_routes @ receiver_routes @
     [nmos_get ''/x-nmos/connection/v1.1/bulk/senders'' (\<lambda>m b q. Call_conn (Conn_bulk_get True)),
      nmos_get ''/x-nmos/connection/v1.1/bulk/receivers'' (\<lambda>m b q. Call_conn (Conn_bulk_get False)),
      nmos_post ''/x-nmos/connection/v1.1/bulk/senders'' (\<lambda>m b q. Call_conn (Conn_bulk_post True b)),
      nmos_post ''/x-nmos/connection/v1.1/bulk/receivers'' (\<lambda>m b q. Call_conn (Conn_bulk_post False b))]"

definition query_routes :: "route list" where
  "query_routes =
     [nmos_get ''/x-nmos/query/'' (\<lambda>m b q. Call_query_root),
      nmos_get ''/x-nmos/query/v1.3/'' (\<lambda>m b q. Call_query_version),
      nmos_get ''/x-nmos/query/v1.3/subscriptions/'' (\<lambda>m b q. Call_subscriptions),
      nmos_post ''/x-nmos/query/v1.3/subscriptions/'' (\<lambda>m b q. Call_post_subscription b),
      nmos_get ''/x-nmos/query/v1.3/subscriptions/([^/]+)'' (\<lambda>m b q. Call_subscription m),
      nmos_delete ''/x-nmos/query/v1.3/subscriptions/([^/]+)'' (\<lambda>m b q. Call_delete_subscription m),
      nmos_get ''/x-nmos/query/v1.3/nodes/'' (\<lambda>m b q. Call_query_list None q),
      nmos_get ''/x-nmos/query/v1.3/nodes/([^/]+)'' (\<lambda>m b q. Call_query_single None m),
      nmos_get ''/x-nmos/query/v1.3/devices/'' (\<lambda>m b q. Call_query_list (Some Devices) q),
      nmos_get ''/x-nmos/query/v1.3/devices/([^/]+)'' (\<lambda>m b q. Call_query_single (Some Devices) m),
      nmos_get ''/x-nmos/query/v1.3/sources/'' (\<lambda>m b q. Call_query_list (Some Sources) q),
      nmos_get ''/x-nmos/query/v1.3/sources/([^/]+)'' (\<lambda>m b q. Call_query_single (Some Sources) m),
      nmos_get ''/x-nmos/query/v1.3/flows/'' (\<lambda>m b q. Call_query_list (Some Flows) q),
      nmos_get ''/x-nmos/query/v1.3/flows/([^/]+)'' (\<lambda>m b q. Call_query_single (Some Flows) m),
      nmos_get ''/x-nmos/query/v1.3/senders/'' (\<lambda>m b q. Call_query_list (Some Senders) q),
      nmos_get ''/x-nmos/query/v1.3/senders/([^/]+)'' (\<lambda>m b q. Call_query_single (Some Senders) m),
      nmos_get ''/x-nmos/query/v1.3/receivers/'' (\<lambda>m b q. Call_query_list (Some Receivers) q),
      nmos_get ''/x-nmos/query/v1.3/receivers/([^/]+)'' (\<lambda>m b q. Call_query_single (Some Receivers) m)]"

definition cm_path :: "string \<Rightarrow> string" where
  "cm_path p = ''/x-nmos/channelmapping/v1'' @ [backslash] @ ''.0/'' @ p"

definition is08_routes :: "route list" where
  "is08_routes =
     [nmos_get ''/x-nmos/channelmapping/'' (\<lambda>m b q. Call_cm Get_root),
      nmos_get ''/x-nmos/channelmapping/v1.0/'' (\<lambda>m b q. Call_cm Get_version),
      nmos_get ''/x-nmos/channelmapping/v1.0/map/'' (\<lambda>m b q. Call_cm Get_map),
      nmos_get ''/x-nmos/channelmapping/v1.0/inputs/'' (\<lambda>m b q. Call_cm Get_inputs),
      nmos_get (cm_path ''inputs/([^/]+)/caps/?'') (\<lambda>m b q. Call_cm (Get_input_caps m)),
      nmos_get (cm_path ''inputs/([^/]+)/parent/?'') (\<lambda>m b q. Call_cm (Get_input_parent m)),
      nmos_get (cm_path ''inputs/([^/]+)/channels/?'') (\<lambda>m b q. Call_cm (Get_input_channels m)),
      nmos_get (cm_path ''inputs/([^/]+)/properties/?'') (\<lambda>m b q. Call_cm (Get_input_properties m)),
      nmos_get ''/x-nmos/channelmapping/v1.0/outputs/'' (\<lambda>m b q. Call_cm Get_outputs),
      nmos_get (cm_path ''outputs/([^/]+)/caps/?'') (\<lambda>m b q. Call_cm (Get_output_caps m)),
      nmos_get (cm_path ''outputs/([^/]+)/sourceid/?'') (\<lambda>m b q. Call_cm (Get_output_sourceid m)),
      nmos_get (cm_path ''outputs/([^/]+)/channels/?'') (\<lambda>m b q. Call_cm (Get_output_channels m)),
      nmos_get (cm_path ''outputs/([^/]+)/properties/?'') (\<lambda>m b q. Call_cm (Get_output_properties m)),
      nmos_get (cm_path ''map/active/?'') (\<lambda>m b q. Call_cm Get_active),
      nmos_get ''/x-nmos/channelmapping/v1.0/map/activations/'' (\<lambda>m b q. Call_cm Get_activations),
      nmos_get (cm_path ''map/activations/([^/]+)/?'') (\<lambda>m b q. Call_cm (Get_activation m)),
      nmos_delete (cm_path ''map/activations/([^/]+)/?'') (\<lambda>m b q. Call_cm (Delete_activation m)),
      nmos_post (cm_path ''map/activations/?'') (\<lambda>m b q. Call_cm (Post_activation b))]"

text \<open>In the order in which the constructor sets the interfaces up.\<close>

definition nmos_routes :: "bool \<Rightarrow> route list" where
  "nmos_routes is08 = node_routes @ connection_routes @ query_routes @ (if is08 then is08_routes else [])"

subsection \<open>A request\<close>

text \<open>The first route of the method whose pattern matches the path, or the path with the slash that clients
  leave out; a handler without a group gets the empty text for it.\<close>

definition path_match :: "string \<Rightarrow> string \<Rightarrow> string list option" where
  "path_match p path =
     (case rx_match (compile p) path of
        Some ms \<Rightarrow> Some ms
      | None \<Rightarrow> if path = [] \<or> last path = CHR ''/'' then None else rx_match (compile p) (path @ ''/''))"

fun dispatch :: "route list \<Rightarrow> string \<Rightarrow> string \<Rightarrow> string \<Rightarrow> string \<Rightarrow> node_call option" where
  "dispatch [] meth path body qs = None"
| "dispatch ((m, p, h) # rs) meth path body qs =
     (if m \<noteq> meth then dispatch rs meth path body qs
      else (case path_match p path of
              Some ms \<Rightarrow> Some (h (case ms of [] \<Rightarrow> [] | x # _ \<Rightarrow> x) body qs)
            | None \<Rightarrow> dispatch rs meth path body qs))"

definition target_path :: "string \<Rightarrow> string" where
  "target_path target = takeWhile (\<lambda>c. c \<noteq> CHR ''?'') target"

definition target_query :: "string \<Rightarrow> string" where
  "target_query target = drop (Suc (length (target_path target))) target"

definition node_cm :: "'d node_env \<Rightarrow> nat \<Rightarrow> cm_request \<Rightarrow> 'd node \<Rightarrow> conn_result \<times> 'd node" where
  "node_cm E now rq s =
     (case is08_handle (ne_cm E) (int now) rq
         \<lparr>cm_session = nd_session s, cm_activations = nd_activations s, cm_counter = nd_counter s\<rparr> of
        (r, c) \<Rightarrow>
          (case r of Cm_reply x \<Rightarrow> Conn_reply x | Cm_fails f \<Rightarrow> Conn_fails f,
           (run_session (cm_session c) s)\<lparr>nd_activations := cm_activations c, nd_counter := cm_counter c\<rparr>))"

definition run_call ::
  "(ptree \<Rightarrow> string option) \<Rightarrow> 'd node_env \<Rightarrow> nat \<Rightarrow> int \<Rightarrow> node_call \<Rightarrow> 'd node \<Rightarrow> conn_result \<times> 'd node" where
  "run_call w E now tick c s = (case c of
     Call_node rq \<Rightarrow> (Conn_reply (node_get E now rq s), s)
   | Call_conn rq \<Rightarrow> conn_handle w E now tick rq s
   | Call_query_root \<Rightarrow> (Conn_reply (cm_ok (json_list [quoted ''v1.3/''])), s)
   | Call_query_version \<Rightarrow> (Conn_reply (cm_ok (json_list (map quoted
       [''nodes/'', ''devices/'', ''sources/'', ''flows/'', ''senders/'', ''receivers/'', ''subscriptions/'']))), s)
   | Call_subscriptions \<Rightarrow> (Conn_reply (get_subscriptions E s), s)
   | Call_post_subscription body \<Rightarrow> (case post_subscription E body s of (r, s) \<Rightarrow> (Conn_reply r, s))
   | Call_subscription i \<Rightarrow> (Conn_reply (get_subscription E i s), s)
   | Call_delete_subscription i \<Rightarrow> (case delete_subscription i s of (r, s) \<Rightarrow> (Conn_reply r, s))
   | Call_query_list k qs \<Rightarrow> (Conn_reply (fst (query_list E now k qs s)), s)
   | Call_query_single k i \<Rightarrow> (Conn_reply (query_single E now k i s), s)
   | Call_cm rq \<Rightarrow> node_cm E now rq s)"

definition no_route :: cm_response where
  "no_route = \<lparr>cr_status = 404, cr_body = ''{'' @ quoted ''code'' @ '':404,'' @ quoted ''error'' @ '':'' @ quoted ''Not Found'' @ ''}''\<rparr>"

text \<open>One HTTP request; an exception of a handler closes the connection without an answer.\<close>

definition serve_request ::
  "(ptree \<Rightarrow> string option) \<Rightarrow> 'd node_env \<Rightarrow> nat \<Rightarrow> int \<Rightarrow> string \<Rightarrow> string \<Rightarrow> string \<Rightarrow> 'd node \<Rightarrow> conn_result \<times> 'd node" where
  "serve_request w E now tick meth target body s =
     (case dispatch (nmos_routes (cf_is08_enabled (ne_config E))) meth (target_path target) body (target_query target) of
        None \<Rightarrow> (Conn_reply no_route, s)
      | Some c \<Rightarrow> run_call w E now tick c s)"

text \<open>The upgrade to a WebSocket.\<close>

datatype upgrade = Control_session | Subscription_feed string | No_subscription

definition ws_upgrade :: "'d node_env \<Rightarrow> nat \<Rightarrow> string \<Rightarrow> 'd node \<Rightarrow> upgrade" where
  "ws_upgrade E now target s =
     (if cf_is12_enabled (ne_config E) \<and> starts_with ''/x-nmos/ncp/v1.0'' target then Control_session
      else case ws_connect E now target s of None \<Rightarrow> No_subscription | Some grain \<Rightarrow> Subscription_feed grain)"

text \<open>The loop of \<open>server_worker\<close>: in each turn what \<open>accept\<close> came to and whether the node is still running
  after it.  The number of connections handed to a thread, and whether the loop has ended.\<close>

datatype accepted = Connection | Timed_out | Accept_error

fun server_worker :: "(accepted \<times> bool) list \<Rightarrow> nat \<times> bool" where
  "server_worker [] = (0, False)"
| "server_worker ((a, running) # ts) =
     (if \<not> running then (0, True)
      else (case a of
              Timed_out \<Rightarrow> server_worker ts
            | Accept_error \<Rightarrow> (0, True)
            | Connection \<Rightarrow> (case server_worker ts of (n, e) \<Rightarrow> (Suc n, e))))"

subsection \<open>What is served\<close>

lemma first_some_None: "\<forall>x \<in> set xs. f x = None \<Longrightarrow> first_some f xs = None"
  by (induction xs) simp_all

text \<open>A group is the whole segment when what follows the group cannot begin inside a segment.\<close>

lemma segment_match:
  assumes u: "u \<noteq> []" "CHR ''/'' \<notin> set u" and s: "s = [] \<or> hd s = CHR ''/''"
    and rest: "\<And>c ys. c \<noteq> CHR ''/'' \<Longrightarrow> rx_match rs (c # ys) = None"
  shows "rx_match (Segment # rs) (u @ s) = map_option (\<lambda>ms. u # ms) (rx_match rs s)"
proof -
  have t: "takeWhile (\<lambda>c. c \<noteq> CHR ''/'') (u @ s) = u"
    using u(2) s by (cases s) (auto simp: takeWhile_append takeWhile_eq_all_conv)
  have l: "rev [1..<Suc (length u)] = length u # rev [1..<length u]" using u(1) by (cases u) auto
  have n: "rx_match rs (drop k (u @ s)) = None" if k: "k \<in> set (rev [1..<length u])" for k
  proof -
    have "k < length u" using k by simp
    then have "drop k (u @ s) = u ! k # drop (Suc k) (u @ s)" by (simp add: Cons_nth_drop_Suc nth_append flip: Cons_nth_drop_Suc)
    moreover have "u ! k \<noteq> CHR ''/''" using \<open>k < length u\<close> u(2) nth_mem by metis
    ultimately show ?thesis using rest by simp
  qed
  have f: "first_some (\<lambda>k. map_option (\<lambda>ms. take k (u @ s) # ms) (rx_match rs (drop k (u @ s)))) (rev [1..<length u]) = None"
    using n by (intro first_some_None) simp
  show ?thesis
    unfolding rx_match.simps rx.case t l first_some.simps f by (simp split: option.split)
qed

lemma literal_match: "rx_match (map Ch p @ rs) (p @ xs) = rx_match rs xs"
  by (induction p) simp_all

definition path_segment :: "string \<Rightarrow> bool" where
  "path_segment u \<longleftrightarrow> u \<noteq> [] \<and> CHR ''/'' \<notin> set u"

lemma segment_ends: "path_segment u \<Longrightarrow> rx_match [Segment] u = Some [u]"
  using segment_match[of u "[]" "[]"] by (simp add: path_segment_def)

lemma segment_more: "path_segment u \<Longrightarrow> rx_match [Segment] (u @ CHR ''/'' # s) = None"
  using segment_match[of u "CHR ''/'' # s" "[]"] by (simp add: path_segment_def)

lemma segment_slash_ends: "path_segment u \<Longrightarrow> rx_match (Segment # Ch (CHR ''/'') # rs) u = None"
  using segment_match[of u "[]" "Ch (CHR ''/'') # rs"] by (simp add: path_segment_def)

lemma segment_slash_more:
  "path_segment u \<Longrightarrow> rx_match (Segment # Ch (CHR ''/'') # rs) (u @ CHR ''/'' # s) = map_option (\<lambda>ms. u # ms) (rx_match rs s)"
  using segment_match[of u "CHR ''/'' # s" "Ch (CHR ''/'') # rs"] by (simp add: path_segment_def)

lemma segment_opt_ends: "path_segment u \<Longrightarrow> rx_match [Segment, Opt_slash] u = Some [u]"
  using segment_match[of u "[]" "[Opt_slash]"] by (simp add: starts_with_def path_segment_def)

lemma segment_opt_more: "path_segment u \<Longrightarrow> rx_match [Segment, Opt_slash] (u @ CHR ''/'' # s) = (if s = [] then Some [u] else None)"
  using segment_match[of u "CHR ''/'' # s" "[Opt_slash]"] by (simp add: starts_with_def path_segment_def)

text \<open>Evaluation, one constructor at a time.\<close>

lemma rx_steps:
  "rx_match [] [] = Some []" "rx_match [] (x # ys) = None" "rx_match (Ch c # rs) [] = None"
  "rx_match (Ch c # rs) (x # ys) = (if x = c then rx_match rs ys else None)" "rx_match (Any_char # rs) [] = None"
  "rx_match (Any_char # rs) (x # ys) = (if line_end x then None else rx_match rs ys)"
  "rx_match [Opt_slash] [] = Some []" "rx_match [Opt_slash] (x # ys) = (if x = CHR ''/'' \<and> ys = [] then Some [] else None)"
  by (simp_all add: starts_with_def)

lemma rx_end_segment: "path_segment u \<Longrightarrow> rx_match [] u = None" "path_segment u \<Longrightarrow> rx_match [] (u @ s) = None"
  by (simp_all add: path_segment_def)

lemma segment_last: "path_segment u \<Longrightarrow> u \<noteq> [] \<and> last u \<noteq> CHR ''/''"
  unfolding path_segment_def by (metis last_in_set)

lemmas segment_rules = segment_ends segment_more segment_slash_ends segment_slash_more segment_opt_ends segment_opt_more
  rx_end_segment rx_steps

lemmas route_defs = nmos_get_def nmos_post_def nmos_patch_def nmos_delete_def nmos_options_def conn_path_def cm_path_def

lemma dispatch_append:
  "dispatch (xs @ ys) meth path body qs =
     (case dispatch xs meth path body qs of None \<Rightarrow> dispatch ys meth path body qs | Some c \<Rightarrow> Some c)"
  by (induction xs) (auto split: option.split)

definition route_of :: "bool \<Rightarrow> string \<Rightarrow> string \<Rightarrow> string \<Rightarrow> node_call option" where
  "route_of is08 meth target body = dispatch (nmos_routes is08) meth (target_path target) body (target_query target)"

definition id_text :: "string \<Rightarrow> bool" where
  "id_text u \<longleftrightarrow> u \<noteq> [] \<and> CHR ''/'' \<notin> set u \<and> CHR ''?'' \<notin> set u"

lemma id_text_segment: "id_text u \<Longrightarrow> path_segment u \<and> u \<noteq> [] \<and> last u \<noteq> CHR ''/''"
  using segment_last[of u] by (auto simp: id_text_def path_segment_def)

lemma target_parts:
  assumes "CHR ''?'' \<notin> set path"
  shows "target_path path = path" "target_query path = []"
    "target_path (path @ CHR ''?'' # q) = path" "target_query (path @ CHR ''?'' # q) = q"
proof -
  have a: "target_path path = path" "target_path (path @ CHR ''?'' # q) = path"
    using assms by (auto simp: target_path_def takeWhile_eq_all_conv takeWhile_append)
  then show "target_path path = path" "target_query path = []"
    "target_path (path @ CHR ''?'' # q) = path" "target_query (path @ CHR ''?'' # q) = q"
    by (simp_all add: target_query_def)
qed

lemma node_single_routes:
  assumes "id_text u"
  shows "dispatch node_routes ''GET'' (''/x-nmos/node/v1.3/senders/'' @ u) b q = Some (Call_node (Nr_single Senders u))"
    "dispatch node_routes ''GET'' (''/x-nmos/node/v1.3/receivers/'' @ u) b q = Some (Call_node (Nr_single Receivers u))"
    "dispatch node_routes ''GET'' (''/x-nmos/node/v1.3/senders/'' @ u @ ''/'') b q = None"
    "dispatch node_routes ''GET'' (''/x-nmos/node/v1.3/receivers/'' @ u @ ''/'') b q = None"
  using id_text_segment[OF assms]
  by (simp_all add: node_routes_def route_defs starts_with_def path_match_def segment_rules line_end_def del: rx_match.simps)

lemma node_not_connection:
  assumes "id_text u"
  shows "dispatch node_routes ''GET'' (''/x-nmos/connection/v1.1/single/senders/'' @ u @ t) b q = None"
    "dispatch node_routes ''GET'' (''/x-nmos/connection/v1.1/single/receivers/'' @ u @ t) b q = None"
    "dispatch node_routes ''PATCH'' path b q = None"
  by (simp_all add: node_routes_def route_defs starts_with_def path_match_def rx_steps line_end_def del: rx_match.simps)

lemma sender_staged_get:
  assumes "id_text u"
  shows "dispatch connection_routes ''GET'' (''/x-nmos/connection/v1.1/single/senders/'' @ u @ ''/staged'') b q = Some (Call_conn (Conn_staged True u))"
    "dispatch connection_routes ''GET'' (''/x-nmos/connection/v1.1/single/senders/'' @ u @ ''/staged/'') b q = Some (Call_conn (Conn_staged True u))"
  using id_text_segment[OF assms]
  by (simp_all add: connection_routes_def sender_routes_def receiver_routes_def route_defs starts_with_def path_match_def
      segment_rules line_end_def del: rx_match.simps)

lemma sender_staged_patch:
  assumes "id_text u"
  shows "dispatch connection_routes ''PATCH'' (''/x-nmos/connection/v1.1/single/senders/'' @ u @ ''/staged'') b q = Some (Call_conn (Conn_patch True u b))"
    "dispatch connection_routes ''PATCH'' (''/x-nmos/connection/v1.1/single/senders/'' @ u @ ''/staged/'') b q = None"
  using id_text_segment[OF assms]
  by (simp_all add: connection_routes_def sender_routes_def receiver_routes_def route_defs starts_with_def path_match_def
      segment_rules line_end_def del: rx_match.simps)

lemma receiver_staged_get:
  assumes "id_text u"
  shows "dispatch connection_routes ''GET'' (''/x-nmos/connection/v1.1/single/receivers/'' @ u @ ''/staged'') b q = Some (Call_conn (Conn_staged False u))"
    "dispatch connection_routes ''GET'' (''/x-nmos/connection/v1.1/single/receivers/'' @ u @ ''/staged/'') b q = Some (Call_conn (Conn_staged False u))"
  using id_text_segment[OF assms]
  by (simp_all add: connection_routes_def sender_routes_def receiver_routes_def route_defs starts_with_def path_match_def
      segment_rules line_end_def del: rx_match.simps)

lemma receiver_staged_patch:
  assumes "id_text u"
  shows "dispatch connection_routes ''PATCH'' (''/x-nmos/connection/v1.1/single/receivers/'' @ u @ ''/staged'') b q = Some (Call_conn (Conn_patch False u b))"
    "dispatch connection_routes ''PATCH'' (''/x-nmos/connection/v1.1/single/receivers/'' @ u @ ''/staged/'') b q = None"
  using id_text_segment[OF assms]
  by (simp_all add: connection_routes_def sender_routes_def receiver_routes_def route_defs starts_with_def path_match_def
      segment_rules line_end_def del: rx_match.simps)

text \<open>The side of the connection interface, as its paths name it.\<close>

definition side_path :: "bool \<Rightarrow> string" where
  "side_path is_sender = (if is_sender then ''senders/'' else ''receivers/'')"

lemma routed_target:
  assumes "CHR ''?'' \<notin> set path" "tail = [] \<or> hd tail = CHR ''?''"
  shows "route_of is08 meth (path @ tail) b = dispatch (nmos_routes is08) meth path b (drop 1 tail)"
  using target_parts[OF assms(1)] assms(2) by (cases tail) (auto simp: route_of_def)

lemma id_free: "id_text u \<Longrightarrow> CHR ''?'' \<notin> set u"
  by (simp add: id_text_def)

lemma side_node:
  assumes "id_text u"
  shows "dispatch node_routes ''GET'' (''/x-nmos/node/v1.3/'' @ side_path is_sender @ u) b q =
    Some (Call_node (Nr_single (if is_sender then Senders else Receivers) u))"
  using node_single_routes(1,2)[OF assms] by (cases is_sender) (simp_all add: side_path_def)

lemma side_not_node:
  assumes "id_text u"
  shows "dispatch node_routes ''GET'' (''/x-nmos/connection/v1.1/single/'' @ side_path is_sender @ u @ t) b q = None"
  using node_not_connection(1,2)[OF assms] by (cases is_sender) (simp_all add: side_path_def)

lemma side_staged:
  assumes "id_text u" "s = ''/staged'' \<or> s = ''/staged/''"
  shows "dispatch connection_routes ''GET'' (''/x-nmos/connection/v1.1/single/'' @ side_path is_sender @ u @ s) b q =
    Some (Call_conn (Conn_staged is_sender u))"
  using assms(2) sender_staged_get[OF assms(1)] receiver_staged_get[OF assms(1)] by (cases is_sender; elim disjE) (simp_all add: side_path_def)

lemma side_patch:
  assumes "id_text u"
  shows "dispatch connection_routes ''PATCH'' (''/x-nmos/connection/v1.1/single/'' @ side_path is_sender @ u @ ''/staged'') b q =
      Some (Call_conn (Conn_patch is_sender u b))"
    "dispatch connection_routes ''PATCH'' (''/x-nmos/connection/v1.1/single/'' @ side_path is_sender @ u @ ''/staged/'') b q = None"
  using sender_staged_patch[OF assms] receiver_staged_patch[OF assms] by (cases is_sender; simp_all add: side_path_def)+

lemma other_routes_not_patch:
  "dispatch query_routes ''PATCH'' path b q = None"
  "dispatch (if is08 then is08_routes else []) ''PATCH'' path b q = None"
  by (simp_all add: query_routes_def is08_routes_def route_defs)

lemma side_path_free: "CHR ''?'' \<notin> set (side_path is_sender)"
  by (simp add: side_path_def)

lemma routed_single:
  assumes u: "id_text u" and t: "tail = [] \<or> hd tail = CHR ''?''"
  shows "route_of is08 ''GET'' (''/x-nmos/node/v1.3/'' @ side_path is_sender @ u @ tail) b =
    Some (Call_node (Nr_single (if is_sender then Senders else Receivers) u))"
proof -
  have "CHR ''?'' \<notin> set (''/x-nmos/node/v1.3/'' @ side_path is_sender @ u)"
    using id_free[OF u] side_path_free by simp
  note r = routed_target[OF this t, unfolded append_assoc]
  show ?thesis unfolding r nmos_routes_def dispatch_append side_node[OF u] option.case ..
qed

lemma staged_target:
  assumes u: "id_text u" and t: "tail = [] \<or> hd tail = CHR ''?''" and s: "s = ''/staged'' \<or> s = ''/staged/''"
  shows "route_of is08 meth (''/x-nmos/connection/v1.1/single/'' @ side_path is_sender @ u @ s @ tail) b =
    dispatch (nmos_routes is08) meth (''/x-nmos/connection/v1.1/single/'' @ side_path is_sender @ u @ s) b (drop 1 tail)"
proof -
  have "CHR ''?'' \<notin> set (''/x-nmos/connection/v1.1/single/'' @ side_path is_sender @ u @ s)"
    using id_free[OF u] side_path_free s by auto
  from routed_target[OF this t, unfolded append_assoc] show ?thesis .
qed

lemma routed_staged:
  assumes u: "id_text u" and t: "tail = [] \<or> hd tail = CHR ''?''" and s: "s = ''/staged'' \<or> s = ''/staged/''"
  shows "route_of is08 ''GET'' (''/x-nmos/connection/v1.1/single/'' @ side_path is_sender @ u @ s @ tail) b =
    Some (Call_conn (Conn_staged is_sender u))"
  unfolding staged_target[OF u t s] nmos_routes_def dispatch_append side_not_node[OF u] side_staged[OF u s] option.case ..

lemma routed_patch:
  assumes u: "id_text u" and t: "tail = [] \<or> hd tail = CHR ''?''"
  shows "route_of is08 ''PATCH'' (''/x-nmos/connection/v1.1/single/'' @ side_path is_sender @ u @ ''/staged'' @ tail) b =
      Some (Call_conn (Conn_patch is_sender u b))"
    "route_of is08 ''PATCH'' (''/x-nmos/connection/v1.1/single/'' @ side_path is_sender @ u @ ''/staged/'' @ tail) b = None"
  unfolding staged_target[OF u t disjI1[OF refl]] staged_target[OF u t disjI2[OF refl]] nmos_routes_def dispatch_append
    node_not_connection(3)[OF u] side_patch[OF u] other_routes_not_patch option.case by (rule refl)+

lemma serve_unrouted:
  "route_of (cf_is08_enabled (ne_config E)) meth target b = None \<Longrightarrow>
   serve_request w E now tick meth target b s = (Conn_reply no_route, s)"
  by (simp add: serve_request_def route_of_def)

text \<open>C9: A sender or receiver is found under its id by the node interface, and its staged parameters are read
  and patched under its id by the connection interface; a query string changes none of that.  What is read may
  end in a slash, but a PATCH with that slash finds no route and is answered with 404, without an effect.\<close>

theorem staged_is_routed:
  assumes "id_text u" "tail = [] \<or> hd tail = CHR ''?''"
  shows "route_of is08 ''GET'' (''/x-nmos/node/v1.3/'' @ side_path is_sender @ u @ tail) b =
      Some (Call_node (Nr_single (if is_sender then Senders else Receivers) u)) \<and>
    route_of is08 ''GET'' (''/x-nmos/connection/v1.1/single/'' @ side_path is_sender @ u @ ''/staged'' @ tail) b =
      Some (Call_conn (Conn_staged is_sender u)) \<and>
    route_of is08 ''GET'' (''/x-nmos/connection/v1.1/single/'' @ side_path is_sender @ u @ ''/staged/'' @ tail) b =
      Some (Call_conn (Conn_staged is_sender u)) \<and>
    route_of is08 ''PATCH'' (''/x-nmos/connection/v1.1/single/'' @ side_path is_sender @ u @ ''/staged'' @ tail) b =
      Some (Call_conn (Conn_patch is_sender u b)) \<and>
    serve_request w E now tick ''PATCH'' (''/x-nmos/connection/v1.1/single/'' @ side_path is_sender @ u @ ''/staged/'' @ tail) b s =
      (Conn_reply no_route, s)"
  by (intro conjI routed_single[OF assms] routed_staged[OF assms disjI1[OF refl]] routed_staged[OF assms disjI2[OF refl]]
      routed_patch(1)[OF assms] serve_unrouted routed_patch(2)[OF assms])

theorem staged_is_routed_witness:
  "route_of True ''PATCH'' (''/x-nmos/connection/v1.1/single/'' @ side_path True @ ''ab12'' @ ''/staged'' @ ''?x=1'') ''{}'' =
     Some (Call_conn (Conn_patch True ''ab12'' ''{}''))"
proof -
  have "id_text ''ab12''" "''?x=1'' = [] \<or> hd ''?x=1'' = CHR ''?''" by (simp_all add: id_text_def)
  from staged_is_routed[OF this, THEN conjunct2, THEN conjunct2, THEN conjunct2, THEN conjunct1] show ?thesis .
qed

text \<open>The methods HEAD and PUT, which the answers name among those allowed, are never served: whatever the path,
  a request with a method other than GET, POST, PATCH, DELETE and OPTIONS is answered with 404.\<close>

lemma routes_methods:
  "fst ` set (nmos_routes is08) \<subseteq> {''GET'', ''POST'', ''PATCH'', ''DELETE'', ''OPTIONS''}"
  by (auto simp: nmos_routes_def node_routes_def connection_routes_def sender_routes_def receiver_routes_def query_routes_def
      is08_routes_def nmos_get_def nmos_post_def nmos_patch_def nmos_delete_def nmos_options_def split: if_splits)

lemma no_method: "meth \<notin> fst ` set rs \<Longrightarrow> dispatch rs meth path b q = None"
  by (induction rs) auto

theorem other_methods_not_served:
  assumes "meth \<notin> {''GET'', ''POST'', ''PATCH'', ''DELETE'', ''OPTIONS''}"
  shows "serve_request w E now tick meth target b s = (Conn_reply no_route, s)"
proof -
  have "meth \<notin> fst ` set (nmos_routes is08)" for is08
    using assms routes_methods[of is08] by blast
  then show ?thesis by (simp add: serve_request_def no_method)
qed

theorem other_methods_not_served_witness:
  "\<forall>s. serve_request (\<lambda>_. None) sample_node_env 0 0 ''HEAD'' ''/x-nmos/'' [] s = (Conn_reply no_route, s)"
  by (intro allI other_methods_not_served) simp

text \<open>A request over HTTP is at most one step of the node: whatever is sent, the node is where it was or where
  a step of its transition relation leads, so that what holds in every reachable state of the node holds
  whatever clients send.\<close>

lemma run_call_step: "snd (run_call w E now tick c s) = s \<or> node_step E s (snd (run_call w E now tick c s))"
proof (cases c)
  case (Call_conn rq)
  then show ?thesis by (simp add: run_call_def st_conn)
next
  case (Call_post_subscription b)
  then show ?thesis using st_subscribe[where body = b and s = s and E = E] by (cases "post_subscription E b s") (simp add: run_call_def)
next
  case (Call_delete_subscription i)
  then show ?thesis using st_unsubscribe[where k = i and s = s and E = E] by (cases "delete_subscription i s") (simp add: run_call_def)
next
  case (Call_cm rq)
  then show ?thesis using st_is08[OF refl refl, of E s "int now" rq]
    by (cases "is08_handle (ne_cm E) (int now) rq
         \<lparr>cm_session = nd_session s, cm_activations = nd_activations s, cm_counter = nd_counter s\<rparr>")
      (simp add: run_call_def node_cm_def)
qed (simp_all add: run_call_def)

theorem request_is_a_step:
  "snd (serve_request w E now tick meth target b s) = s \<or> node_step E s (snd (serve_request w E now tick meth target b s))"
proof (cases "dispatch (nmos_routes (cf_is08_enabled (ne_config E))) meth (target_path target) b (target_query target)")
  case (Some c)
  then show ?thesis using run_call_step[of w E now tick c s] by (simp add: serve_request_def)
qed (simp add: serve_request_def)

subsection \<open>Finding a registry\<close>

text \<open>What Avahi tells the browser of registries, and the resolver: the address and port, if it found them.\<close>

datatype registry_event = Registry_failure | Registry_new string | Registry_gone string | Registry_other

definition registry_browse_callback :: "registry_event \<Rightarrow> 'd node \<Rightarrow> 'd node" where
  "registry_browse_callback e s = (case e of Registry_gone name \<Rightarrow> on_registry_removed s | _ \<Rightarrow> s)"

definition registry_resolve_callback :: "(string \<times> u16) option \<Rightarrow> 'd node \<Rightarrow> 'd node" where
  "registry_resolve_callback r s = (case r of None \<Rightarrow> s | Some (addr, port) \<Rightarrow> on_registry_resolved addr port s)"

text \<open>The registry in use is given up when any registry goes away: the name in the removal is not compared with that
  of the one that was resolved, and the event that follows is handled without an effect, so that the node is
  left with the configured address until Avahi resolves a registry again.\<close>

theorem other_registry_gives_up:
  assumes "cf_nmos_registry_auto_discover (ne_config E)" "addr \<noteq> []"
  shows "let s1 = registry_resolve_callback (Some (addr, port)) s;
             s2 = registry_browse_callback (Registry_gone other) s1
         in effective_registry_address E s1 = addr \<and>
            effective_registry_address E s2 = cf_nmos_registry_address (ne_config E) \<and>
            nd_events s2 = nd_events s @ [RegistryUpdated, RegistryLost] \<and> handle_event E now RegistryLost s2 = s2"
  using assms
  by (simp add: registry_resolve_callback_def registry_browse_callback_def on_registry_resolved_def on_registry_removed_def
      effective_registry_address_def Let_def)

theorem other_registry_gives_up_witness:
  "\<forall>s. effective_registry_address sample_node_env
      (registry_browse_callback (Registry_gone ''lab'') (registry_resolve_callback (Some (''10.0.0.9'', 8010)) s)) =
    cf_nmos_registry_address config_default"
proof -
  have "cf_nmos_registry_auto_discover (ne_config sample_node_env)" "''10.0.0.9'' \<noteq> []"
    by (simp_all add: sample_node_env_def config_default_def)
  from other_registry_gives_up[OF this, of 8010 _ "''lab''"] show ?thesis
    by (simp add: Let_def sample_node_env_def)
qed

end
