(* ===== verification/Clock_Drivers.thy ===== *)
theory Clock_Drivers
  imports Clock_Manager "HOL-Library.Multiset"
begin

text \<open>
  The PTP clock manager around the loop of \<open>Clock_Manager\<close>: the query of the kernel module
  (\<open>ravenna_ptp.cpp\<close>), the start and the stop of the ALSA and PipeWire drivers with the objects of those libraries
  that they hold (\<open>drivers/alsa_src_driver.cpp\<close>, \<open>drivers/pipewire_driver.cpp\<close>), the loop of the resampling thread, the
  command line and the ends of \<open>main\<close>.  What the libraries answer is an input; of their objects
  the model knows whether they are open.
\<close>

subsection \<open>The query of the kernel module\<close>

text \<open>A datagram: the bytes received, the identifier, the error code and the size of the data that its header
  names, and the status that its data hold.  The layout of the messages is that of the headers of the module: the
  bytes before the data, the size of a status, the identifier of the query.\<close>

record ravenna_msg =
  rm_len :: nat
  rm_id :: int
  rm_err :: int
  rm_data_size :: int
  rm_status :: ravenna_status

record ravenna_layout =
  rl_header :: nat
  rl_status_size :: nat
  rl_get_status :: int

text \<open>The buffer is on the stack: a datagram that announces more data than it has is read past its end.\<close>

datatype status_answer = No_answer | Answer ravenna_status | Stack_bytes

definition parse_answer :: "ravenna_layout \<Rightarrow> ravenna_msg \<Rightarrow> status_answer" where
  "parse_answer L m =
     (if rm_len m < rl_header L then No_answer
      else if rm_id m \<noteq> rl_get_status L \<or> rm_err m \<noteq> 0 then No_answer
      else if rm_data_size m < int (rl_status_size L) then No_answer
      else if rm_len m < rl_header L + rl_status_size L then Stack_bytes
      else Answer (rm_status m))"

text \<open>One query: whether it could be sent, the datagrams that arrive before the timeout of half a second, and those
  that arrive later; the queue is that of the socket.\<close>

record ravenna_query =
  rq_sent :: bool
  rq_in_time :: "ravenna_msg list"
  rq_late :: "ravenna_msg list"

definition get_status :: "ravenna_layout \<Rightarrow> bool \<Rightarrow> ravenna_query \<Rightarrow> ravenna_msg list \<Rightarrow> status_answer \<times> ravenna_msg list" where
  "get_status L is_open q queue =
     (if \<not> is_open then (No_answer, queue)
      else if \<not> rq_sent q then (No_answer, queue @ rq_in_time q @ rq_late q)
      else (case queue @ rq_in_time q of
              [] \<Rightarrow> (No_answer, rq_late q)
            | m # ms \<Rightarrow> (parse_answer L m, ms @ rq_late q)))"

fun get_statuses :: "ravenna_layout \<Rightarrow> ravenna_query list \<Rightarrow> ravenna_msg list \<Rightarrow> status_answer list" where
  "get_statuses L [] queue = []"
| "get_statuses L (q # qs) queue = (case get_status L True q queue of (a, queue) \<Rightarrow> a # get_statuses L qs queue)"

definition in_time :: "ravenna_msg \<Rightarrow> ravenna_query" where
  "in_time m = \<lparr>rq_sent = True, rq_in_time = [m], rq_late = []\<rparr>"

definition too_late :: "ravenna_msg \<Rightarrow> ravenna_query" where
  "too_late m = \<lparr>rq_sent = True, rq_in_time = [], rq_late = [m]\<rparr>"

lemma in_time_statuses: "get_statuses L (map in_time ms) [] = map (parse_answer L) ms"
  by (induction ms) (simp_all add: get_status_def in_time_def)

lemma shifted_statuses: "get_statuses L (map in_time ms) [m] = map (parse_answer L) (butlast (m # ms))"
  by (induction ms arbitrary: m) (simp_all add: get_status_def in_time_def)

text \<open>C37: While every answer arrives in time, each query gets its own.  After a single answer that was late, every
  later query gets the answer of the one before it, for ever: nothing empties the socket or compares
  sequence numbers, so that the clock is disciplined with the offset of an earlier round.\<close>

theorem late_answer_shifts_all:
  "get_statuses L (map in_time before) [] = map (parse_answer L) before \<and>
   get_statuses L (too_late m # map in_time after) [] = No_answer # map (parse_answer L) (butlast (m # after))"
  by (simp add: in_time_statuses shifted_statuses get_status_def too_late_def del: butlast.simps)

subsection \<open>Objects of libraries\<close>

text \<open>The objects open, and whether one was closed that was not open.\<close>

record lib_world =
  lw_next :: nat
  lw_open :: "nat list"
  lw_bad :: bool

definition lib_open :: "lib_world \<Rightarrow> nat \<times> lib_world" where
  "lib_open w = (lw_next w, w\<lparr>lw_next := Suc (lw_next w), lw_open := lw_next w # lw_open w\<rparr>)"

definition lib_close :: "nat \<Rightarrow> lib_world \<Rightarrow> lib_world" where
  "lib_close h w = (if h \<in> set (lw_open w) then w\<lparr>lw_open := remove1 h (lw_open w)\<rparr> else w\<lparr>lw_bad := True\<rparr>)"

definition close_held :: "nat option \<Rightarrow> lib_world \<Rightarrow> lib_world" where
  "close_held h w = (case h of None \<Rightarrow> w | Some h \<Rightarrow> lib_close h w)"

subsection \<open>The ALSA driver\<close>

record alsa_driver =
  al_src :: "nat option"
  al_snk :: "nat option"
  al_soxr :: "nat option"
  al_running :: bool
  al_locked :: bool

definition alsa_new :: alsa_driver where
  "alsa_new = \<lparr>al_src = None, al_snk = None, al_soxr = None, al_running = False, al_locked = False\<rparr>"

text \<open>Whether the device could be opened, and be given its parameters.\<close>

definition open_pcm :: "bool \<times> bool \<Rightarrow> lib_world \<Rightarrow> nat option \<times> lib_world" where
  "open_pcm a w =
     (if \<not> fst a then (None, w)
      else (case lib_open w of (h, w) \<Rightarrow> if \<not> snd a then (None, lib_close h w) else (Some h, w)))"

record alsa_answers =
  aa_compiled :: bool
  aa_source :: "bool \<times> bool"
  aa_sink :: "bool \<times> bool"
  aa_soxr :: bool

definition alsa_start :: "string \<Rightarrow> alsa_answers \<Rightarrow> alsa_driver \<Rightarrow> lib_world \<Rightarrow> bool \<times> alsa_driver \<times> lib_world" where
  "alsa_start sink_device a d w =
     (if sink_device = [] then (False, d, w)
      else if \<not> aa_compiled a then (False, d, w)
      else (case open_pcm (aa_source a) w of
              (None, w) \<Rightarrow> (False, d, w)
            | (Some src, w) \<Rightarrow>
                (let d = d\<lparr>al_src := Some src\<rparr>
                 in case open_pcm (aa_sink a) w of
                      (None, w) \<Rightarrow> (False, d\<lparr>al_src := None\<rparr>, lib_close src w)
                    | (Some snk, w) \<Rightarrow>
                        (let d = d\<lparr>al_snk := Some snk\<rparr>
                         in if \<not> aa_soxr a
                            then (False, d\<lparr>al_src := None, al_snk := None\<rparr>, lib_close snk (lib_close src w))
                            else (case lib_open w of (sx, w) \<Rightarrow> (True, d\<lparr>al_soxr := Some sx, al_running := True\<rparr>, w))))))"

definition alsa_stop :: "alsa_driver \<Rightarrow> lib_world \<Rightarrow> alsa_driver \<times> lib_world" where
  "alsa_stop d w =
     (d\<lparr>al_running := False, al_soxr := None, al_snk := None, al_src := None\<rparr>,
      close_held (al_src d) (close_held (al_snk d) (close_held (al_soxr d) w)))"

definition alsa_on_ptp_update :: "bool \<Rightarrow> alsa_driver \<Rightarrow> int \<times> alsa_driver" where
  "alsa_on_ptp_update locked d = (0, d\<lparr>al_locked := locked\<rparr>)"

text \<open>One period of the resampling thread: what \<open>snd_pcm_readi\<close> answers, whether the clock is locked, what the resampler
  gives (\<^term>\<open>None\<close> is its error), the answers of \<open>snd_pcm_writei\<close>, each with the running flag that is read after it,
  and the delay of the sink when it can be measured.\<close>

record src_period =
  sp_read :: int
  sp_locked :: bool
  sp_resampled :: "nat option"
  sp_running :: bool
  sp_writes :: "(int \<times> bool) list"
  sp_delay :: "int option"

text \<open>The frames written, in the pieces in which the device takes them.\<close>

fun src_play :: "int \<Rightarrow> bool \<Rightarrow> (int \<times> bool) list \<Rightarrow> int list" where
  "src_play remaining running [] = []"
| "src_play remaining running ((w, running') # ws) =
     (if \<not> (0 < remaining \<and> running) then []
      else if w < 0 then []
      else w # src_play (remaining - w) running' ws)"

definition src_period_step :: "src_config \<Rightarrow> src_period \<Rightarrow> src_servo \<Rightarrow> int list \<times> src_servo" where
  "src_period_step cfg p s =
     (if sp_read p < 0 then ([], s)
      else (let s = src_lock (sp_locked p) s
            in case sp_resampled p of
                 None \<Rightarrow> ([], s)
               | Some n \<Rightarrow> (src_play (int n) (sp_running p) (sp_writes p), src_drift cfg (sp_locked p) (sp_delay p) s)))"

fun src_periods :: "src_config \<Rightarrow> src_period list \<Rightarrow> src_servo \<Rightarrow> src_servo" where
  "src_periods cfg [] s = s"
| "src_periods cfg (p # ps) s = src_periods cfg ps (snd (src_period_step cfg p s))"

definition src_servo_init :: src_servo where
  "src_servo_init = \<lparr>sr_drift_integral = (0, 1), sr_was_locked = False, sr_ratio = (1, 1)\<rparr>"

text \<open>What the servo keeps: the integral is within the limit, and the ratio is one or was computed
  from a drift within the limit.\<close>

definition src_ok :: "int \<Rightarrow> src_servo \<Rightarrow> bool" where
  "src_ok n s \<longleftrightarrow> sd_within n (sr_drift_integral s) \<and>
     (sr_ratio s = (1, 1) \<or>
      (\<exists>p. sd_within n p \<and> sr_ratio s = sd_add (1, 1) (sd_neg (sd_mult p (sfl (1, 10 ^ 9))))))"

lemma src_lock_ok: "0 \<le> n \<Longrightarrow> src_ok n s \<Longrightarrow> src_ok n (src_lock locked s)"
  by (auto simp: src_ok_def src_lock_def sd_within_def)

lemma src_drift_ok:
  assumes "0 \<le> n" "sc_max_drift_ppb cfg = (n, 1)" "src_ok n s"
  shows "src_ok n (src_drift cfg locked delay s)"
proof (cases "locked \<and> delay \<noteq> None")
  case True
  then obtain d where d: "delay = Some d" "locked" by auto
  let ?e = "sd_add (sd_mult (sd_of_int (int (sc_period_frames cfg))) (2, 1)) (sd_neg (sd_of_int d))"
  obtain p i where pi: "pi_servo (sc_drift_kp cfg) (sc_drift_ki cfg) (n, 1) ?e (sr_drift_integral s) = (p, i)" by (metis prod.collapse)
  have r: "src_drift cfg locked delay s = s\<lparr>sr_drift_integral := i,
      sr_ratio := sd_add (1, 1) (sd_neg (sd_mult p (sfl (1, 10 ^ 9))))\<rparr>"
    unfolding src_drift_def d option.case assms(2) Let_def pi prod.case using d(2) by (simp only: not_True_eq_False if_False)
  show ?thesis
    unfolding r src_ok_def using pi_within[OF assms(1) pi] by (intro conjI disjI2 exI[of _ p]) simp_all
qed (use assms(3) in \<open>auto simp: src_drift_def split: option.split\<close>)

lemma src_period_ok:
  assumes "0 \<le> n" "sc_max_drift_ppb cfg = (n, 1)" "src_ok n s"
  shows "src_ok n (snd (src_period_step cfg p s))"
  using src_lock_ok[OF assms(1,3)] src_drift_ok[OF assms(1,2)] assms(3)
  by (simp add: src_period_step_def Let_def split: option.split)

text \<open>Over any periods, whatever the devices answer and however the lock comes and goes, the drift correction of the
  resampler stays within its limit: the ratio is 1 or comes from a correction of at most 2000 parts per billion,
  and after a period without the lock that was captured it is 1.\<close>

theorem resampling_bounded:
  assumes "sc_max_drift_ppb cfg = (2000, 1)"
  shows "src_ok 2000 (src_periods cfg ps src_servo_init) \<and>
    sr_ratio (src_periods cfg (ps @ [\<lparr>sp_read = int k, sp_locked = False, sp_resampled = r, sp_running = b, sp_writes = ws, sp_delay = d\<rparr>])
      src_servo_init) = (1, 1)"
proof -
  have "src_ok 2000 (src_periods cfg ps s)" if "src_ok 2000 s" for s
    using that by (induction ps arbitrary: s) (simp_all add: src_period_ok[OF _ assms])
  moreover have "src_ok 2000 src_servo_init" by (simp add: src_ok_def src_servo_init_def sd_within_def)
  moreover have "src_periods cfg (ps @ [p]) s = snd (src_period_step cfg p (src_periods cfg ps s))" for p s
    by (induction ps arbitrary: s) simp_all
  ultimately show ?thesis
    by (simp add: src_period_step_def src_lock_def src_drift_def Let_def split: option.split)
qed

theorem resampling_bounded_witness:
  "sr_ratio (src_periods \<lparr>sc_period_frames = 256, sc_drift_kp = (1, 20), sc_drift_ki = (1, 1250), sc_max_drift_ppb = (2000, 1)\<rparr>
     ([] @ [\<lparr>sp_read = int 256, sp_locked = False, sp_resampled = Some 256, sp_running = True, sp_writes = [(256, True)], sp_delay = Some 100\<rparr>])
     src_servo_init) = (1, 1)"
  using resampling_bounded[of "\<lparr>sc_period_frames = 256, sc_drift_kp = (1, 20), sc_drift_ki = (1, 1250), sc_max_drift_ppb = (2000, 1)\<rparr>"
      "[]" 256 "Some 256" True "[(256, True)]" "Some 100"]
  by (simp del: append_Nil)

subsection \<open>The PipeWire driver\<close>

record pipewire_driver =
  pw_loop :: "nat option"
  pw_context :: "nat option"
  pw_core :: "nat option"
  pw_listening :: bool
  pw_thread :: bool
  pw_found :: bool
  pw_was_locked :: bool

definition pipewire_new :: pipewire_driver where
  "pipewire_new = \<lparr>pw_loop = None, pw_context = None, pw_core = None, pw_listening = False, pw_thread = False,
     pw_found = False, pw_was_locked = False\<rparr>"

record pipewire_answers =
  pa_compiled :: bool
  pa_loop :: bool
  pa_context :: bool
  pa_core :: bool
  pa_registry :: bool

text \<open>A start that fails leaves what it has got so far to \<open>stop\<close>; the registry belongs to the core.\<close>

definition pipewire_start :: "pipewire_answers \<Rightarrow> pipewire_driver \<Rightarrow> lib_world \<Rightarrow> bool \<times> pipewire_driver \<times> lib_world" where
  "pipewire_start a d w =
     (if \<not> pa_compiled a then (False, d, w)
      else if \<not> pa_loop a then (False, d\<lparr>pw_loop := None\<rparr>, w)
      else (case lib_open w of (l, w) \<Rightarrow>
        (let d = d\<lparr>pw_loop := Some l\<rparr>
         in if \<not> pa_context a then (False, d\<lparr>pw_context := None\<rparr>, w)
            else (case lib_open w of (x, w) \<Rightarrow>
              (let d = d\<lparr>pw_context := Some x\<rparr>
               in if \<not> pa_core a then (False, d\<lparr>pw_core := None\<rparr>, w)
                  else (case lib_open w of (c, w) \<Rightarrow>
                    (let d = d\<lparr>pw_core := Some c\<rparr>
                     in if \<not> pa_registry a then (False, d, w)
                        else (True, d\<lparr>pw_listening := True, pw_thread := True\<rparr>, w))))))))"

definition pipewire_stop :: "pipewire_driver \<Rightarrow> lib_world \<Rightarrow> pipewire_driver \<times> lib_world" where
  "pipewire_stop d w =
     (d\<lparr>pw_thread := False, pw_listening := False, pw_core := None, pw_context := None, pw_loop := None\<rparr>,
      close_held (pw_loop d) (close_held (pw_context d) (close_held (pw_core d) w)))"

text \<open>A node of the graph: its type, its clock and its name; the name that is looked for, if one is.\<close>

definition on_registry_global :: "string option \<Rightarrow> bool \<Rightarrow> string option \<Rightarrow> string option \<Rightarrow> pipewire_driver \<Rightarrow> pipewire_driver" where
  "on_registry_global wanted is_node clock_id node_name d =
     (if \<not> is_node then d
      else if clock_id \<noteq> Some ''tai'' then d
      else if wanted \<noteq> None \<and> node_name \<noteq> wanted then d
      else d\<lparr>pw_found := True\<rparr>)"

text \<open>Whether it warns that no node follows the clock.\<close>

definition pipewire_on_ptp_update :: "bool \<Rightarrow> pipewire_driver \<Rightarrow> int \<times> bool \<times> pipewire_driver" where
  "pipewire_on_ptp_update locked d =
     (0, pw_core d \<noteq> None \<and> locked \<and> \<not> pw_was_locked d \<and> \<not> pw_found d, d\<lparr>pw_was_locked := locked\<rparr>)"

subsection \<open>All drivers\<close>

datatype clock_driver = Tai_clock tai_driver | Alsa_clock string alsa_driver | Pipewire_clock pipewire_driver

text \<open>What the libraries answer to the start of a driver; the driver of the system clock asks nothing.\<close>

record start_answers =
  sa_alsa :: alsa_answers
  sa_pipewire :: pipewire_answers

definition start_driver :: "start_answers \<Rightarrow> clock_driver \<Rightarrow> lib_world \<Rightarrow> bool \<times> clock_driver \<times> lib_world" where
  "start_driver a d w =
     (case d of
        Tai_clock t \<Rightarrow> (True, d, w)
      | Alsa_clock sink al \<Rightarrow> (case alsa_start sink (sa_alsa a) al w of (r, al, w) \<Rightarrow> (r, Alsa_clock sink al, w))
      | Pipewire_clock p \<Rightarrow> (case pipewire_start (sa_pipewire a) p w of (r, p, w) \<Rightarrow> (r, Pipewire_clock p, w)))"

definition stop_driver :: "clock_driver \<Rightarrow> lib_world \<Rightarrow> clock_driver \<times> lib_world" where
  "stop_driver d w =
     (case d of
        Tai_clock t \<Rightarrow> (d, w)
      | Alsa_clock sink al \<Rightarrow> (case alsa_stop al w of (al, w) \<Rightarrow> (Alsa_clock sink al, w))
      | Pipewire_clock p \<Rightarrow> (case pipewire_stop p w of (p, w) \<Rightarrow> (Pipewire_clock p, w)))"

text \<open>A driver that does not start is only reported.\<close>

fun start_drivers :: "start_answers list \<Rightarrow> clock_driver list \<Rightarrow> lib_world \<Rightarrow> clock_driver list \<times> lib_world" where
  "start_drivers (a # as) (d # ds) w =
     (case start_driver a d w of (_, d, w) \<Rightarrow> (case start_drivers as ds w of (ds, w) \<Rightarrow> (d # ds, w)))"
| "start_drivers as ds w = (ds, w)"

fun stop_drivers :: "clock_driver list \<Rightarrow> lib_world \<Rightarrow> clock_driver list \<times> lib_world" where
  "stop_drivers [] w = ([], w)"
| "stop_drivers (d # ds) w = (case stop_driver d w of (d, w) \<Rightarrow> (case stop_drivers ds w of (ds, w) \<Rightarrow> (d # ds, w)))"

text \<open>The updates of a round, each driver with the frequency that the ones before it applied; \<open>tai\<close> is what the
  driver of the system clock does.\<close>

fun update_drivers ::
  "(tai_driver \<Rightarrow> int \<times> tai_driver) \<Rightarrow> bool \<Rightarrow> clock_driver list \<Rightarrow> int \<Rightarrow> clock_driver list \<times> int" where
  "update_drivers tai locked [] applied = ([], applied)"
| "update_drivers tai locked (d # ds) applied =
     (let (r, d) = (case d of
            Tai_clock t \<Rightarrow> (case tai t of (r, t) \<Rightarrow> (r, Tai_clock t))
          | Alsa_clock sink al \<Rightarrow> (case alsa_on_ptp_update locked al of (r, al) \<Rightarrow> (r, Alsa_clock sink al))
          | Pipewire_clock p \<Rightarrow> (case pipewire_on_ptp_update locked p of (r, _, p) \<Rightarrow> (r, Pipewire_clock p)));
          (ds, applied) = update_drivers tai locked ds (if r \<noteq> 0 then r else applied)
      in (d # ds, applied))"

subsection \<open>The command line and the process\<close>

record clock_options =
  ck_poll_ms :: u32
  ck_tai :: bool
  ck_pipewire :: bool
  ck_alsa_sinks :: "string list"

definition default_options :: clock_options where
  "default_options = \<lparr>ck_poll_ms = 250, ck_tai = True, ck_pipewire = False, ck_alsa_sinks = []\<rparr>"

text \<open>\<open>Throws\<close> is the exception of \<open>std::stoul\<close>, which nothing catches.\<close>

datatype clock_command = Runs_with clock_options | Shows_usage | Unknown_option string | Option_throws

fun parse_arguments :: "string list \<Rightarrow> clock_options \<Rightarrow> clock_command" where
  "parse_arguments [] k = Runs_with k"
| "parse_arguments (a # as) k =
     (if a = ''--help'' then Shows_usage
      else if a = ''--no-tai'' then parse_arguments as (k\<lparr>ck_tai := False\<rparr>)
      else if a = ''--pipewire'' then parse_arguments as (k\<lparr>ck_pipewire := True\<rparr>)
      else (case as of
              [] \<Rightarrow> Unknown_option a
            | v # bs \<Rightarrow>
                if a = ''--alsa-sink'' then parse_arguments bs (k\<lparr>ck_alsa_sinks := ck_alsa_sinks k @ [v]\<rparr>)
                else if a = ''--poll-ms'' then
                  (case stoull v of
                     None \<Rightarrow> Option_throws
                   | Some n \<Rightarrow> parse_arguments bs (k\<lparr>ck_poll_ms := ucast n\<rparr>))
                else Unknown_option a))"

definition driver_list :: "clock_options \<Rightarrow> clock_driver list" where
  "driver_list k =
     (if ck_tai k then [Tai_clock tai_init] else []) @
     map (\<lambda>dev. Alsa_clock dev alsa_new) (ck_alsa_sinks k) @
     (if ck_pipewire k then [Pipewire_clock pipewire_new] else [])"

text \<open>The inputs of a run: the answers at the start, whether the socket and the shared memory could be made, and for
  each round with a status what the system clock's driver does and whether the clock is locked.  The destructors of
  the drivers stop them once more when \<open>main\<close> returns.\<close>

record clock_run =
  kr_answers :: "start_answers list"
  kr_open :: bool
  kr_shm :: bool
  kr_rounds :: "((tai_driver \<Rightarrow> int \<times> tai_driver) \<times> bool) list"

fun run_rounds :: "((tai_driver \<Rightarrow> int \<times> tai_driver) \<times> bool) list \<Rightarrow> clock_driver list \<Rightarrow> int \<Rightarrow> clock_driver list" where
  "run_rounds [] ds applied = ds"
| "run_rounds ((tai, locked) # rs) ds applied =
     (case update_drivers tai locked ds (if locked then applied else 0) of (ds, applied) \<Rightarrow> run_rounds rs ds applied)"

definition clock_main :: "string list \<Rightarrow> clock_run \<Rightarrow> lib_world \<Rightarrow> int option \<times> lib_world" where
  "clock_main as r w =
     (case parse_arguments as default_options of
        Shows_usage \<Rightarrow> (Some 0, w)
      | Unknown_option _ \<Rightarrow> (Some 1, w)
      | Option_throws \<Rightarrow> (None, w)
      | Runs_with k \<Rightarrow>
          (case start_drivers (kr_answers r) (driver_list k) w of
             (ds, w) \<Rightarrow>
               if \<not> kr_open r then (Some 1, snd (stop_drivers ds w))
               else if \<not> kr_shm r then (Some 1, snd (stop_drivers ds w))
               else (case stop_drivers (run_rounds (kr_rounds r) ds 0) w of
                       (ds, w) \<Rightarrow> (Some 0, snd (stop_drivers ds w)))))"

subsection \<open>Nothing is left open\<close>

text \<open>The objects a driver holds.\<close>

definition held_of :: "nat option \<Rightarrow> nat list" where
  "held_of h = (case h of None \<Rightarrow> [] | Some h \<Rightarrow> [h])"

fun held :: "clock_driver \<Rightarrow> nat list" where
  "held (Tai_clock t) = []"
| "held (Alsa_clock sink d) = held_of (al_soxr d) @ held_of (al_snk d) @ held_of (al_src d)"
| "held (Pipewire_clock d) = held_of (pw_core d) @ held_of (pw_context d) @ held_of (pw_loop d)"

text \<open>The world holds the objects of \<open>hs\<close> beside those of \<open>base\<close>, and nothing was closed that was not open.\<close>

definition holds :: "nat multiset \<Rightarrow> nat list \<Rightarrow> lib_world \<Rightarrow> bool" where
  "holds base hs w \<longleftrightarrow> \<not> lw_bad w \<and> mset (lw_open w) = base + mset hs"

lemma holds_open: "holds base hs w \<Longrightarrow> lib_open w = (h, w') \<Longrightarrow> holds base (h # hs) w'"
  by (auto simp: holds_def lib_open_def)

lemma holds_close:
  assumes "holds base hs w" "h \<in> set hs"
  shows "holds base (remove1 h hs) (lib_close h w)"
proof -
  have "h \<in># mset (lw_open w)" using assms by (simp add: holds_def)
  then have "h \<in> set (lw_open w)" by simp
  then show ?thesis using assms by (simp add: holds_def lib_close_def)
qed

lemma holds_mset: "holds base hs w \<Longrightarrow> mset hs' = mset hs \<Longrightarrow> holds base hs' w"
  by (simp add: holds_def)

lemma open_pcm_holds:
  assumes "holds base hs w" "open_pcm a w = (r, w')"
  shows "holds base (case r of None \<Rightarrow> hs | Some h \<Rightarrow> h # hs) w'"
proof -
  obtain h w1 where o1: "lib_open w = (h, w1)" by fastforce
  have w1: "holds base (h # hs) w1" using holds_open[OF assms(1) o1] .
  show ?thesis
    using assms o1 w1 holds_close[OF w1, of h] by (auto simp: open_pcm_def split: if_splits)
qed

lemma held_of_simps [simp]: "held_of None = []" "held_of (Some h) = [h]"
  by (simp_all add: held_of_def)

lemma close_held_holds: "holds base (held_of h @ hs) w \<Longrightarrow> holds base hs (close_held h w)"
  using holds_close[of base "held_of h @ hs" w "the h"] by (cases h) (auto simp: close_held_def)

text \<open>What a driver holds after its start, and that it holds nothing after its stop.\<close>

lemma alsa_start_holds:
  assumes "holds base hs w" "alsa_start sink a alsa_new w = (r, d, w')"
  shows "holds base (held (Alsa_clock sink d) @ hs) w' \<and> (\<not> r \<longrightarrow> held (Alsa_clock sink d) = [])"
proof (cases "sink = [] \<or> \<not> aa_compiled a")
  case True
  then have "alsa_start sink a alsa_new w = (False, alsa_new, w)" by (elim disjE) (simp_all add: alsa_start_def)
  then have "r = False" "d = alsa_new" "w' = w" using assms(2) by simp_all
  then show ?thesis using assms(1) by (simp add: alsa_new_def)
next
  case False
  obtain s1 w1 where 1: "open_pcm (aa_source a) w = (s1, w1)" by fastforce
  note h1 = open_pcm_holds[OF assms(1) 1]
  show ?thesis
  proof (cases s1)
    case None
    then have "(r, d, w') = (False, alsa_new, w1)" using assms(2) False 1 by (simp add: alsa_start_def)
    then show ?thesis using h1 None by (simp add: alsa_new_def)
  next
    case s1: (Some src)
    obtain s2 w2 where 2: "open_pcm (aa_sink a) w1 = (s2, w2)" by fastforce
    have h2: "holds base (case s2 of None \<Rightarrow> src # hs | Some h \<Rightarrow> h # src # hs) w2"
      using open_pcm_holds[OF _ 2, of base "src # hs"] h1 s1 by simp
    show ?thesis
    proof (cases s2)
      case None
      then have "(r, d, w') = (False, alsa_new\<lparr>al_src := None\<rparr>, lib_close src w2)"
        using assms(2) False 1 2 s1 by (simp add: alsa_start_def Let_def)
      then show ?thesis using h2 None holds_close[of base "src # hs" w2 src] by (simp add: alsa_new_def)
    next
      case s2: (Some snk)
      have h2': "holds base (src # snk # hs) w2" "holds base (snk # src # hs) w2"
        using h2 s2 by (auto intro: holds_mset)
      obtain sx w3 where 3: "lib_open w2 = (sx, w3)" by fastforce
      show ?thesis
      proof (cases "aa_soxr a")
        case True
        then have "(r, d, w') = (True, alsa_new\<lparr>al_src := Some src, al_snk := Some snk, al_soxr := Some sx, al_running := True\<rparr>, w3)"
          using assms(2) False 1 2 3 s1 s2 by (simp add: alsa_start_def Let_def)
        then show ?thesis using holds_open[OF h2'(2) 3] by simp
      next
        case no: False
        then have "(r, d, w') = (False, alsa_new\<lparr>al_src := None, al_snk := None\<rparr>, lib_close snk (lib_close src w2))"
          using assms(2) False 1 2 s1 s2 by (simp add: alsa_start_def Let_def)
        then show ?thesis
          using holds_close[OF h2'(1), of src] holds_close[of base "snk # hs" "lib_close src w2" snk] by (simp add: alsa_new_def)
      qed
    qed
  qed
qed

lemma pipewire_start_holds:
  assumes "holds base hs w" "pipewire_start a pipewire_new w = (r, d, w')"
  shows "holds base (held (Pipewire_clock d) @ hs) w'"
proof -
  obtain l w1 where 1: "lib_open w = (l, w1)" by fastforce
  obtain x w2 where 2: "lib_open w1 = (x, w2)" by fastforce
  obtain c w3 where 3: "lib_open w2 = (c, w3)" by fastforce
  note h1 = holds_open[OF assms(1) 1] note h2 = holds_open[OF h1 2] note h3 = holds_open[OF h2 3]
  show ?thesis
    using assms h1 h2 h3 1 2 3
    by (auto simp: pipewire_start_def pipewire_new_def Let_def split: if_splits)
qed

lemma stop_driver_holds:
  assumes "holds base (held d @ hs) w" "stop_driver d w = (d', w')"
  shows "holds base hs w' \<and> held d' = []"
proof (cases d)
  case (Tai_clock t)
  then show ?thesis using assms by (auto simp: stop_driver_def)
next
  case (Alsa_clock sink al)
  have "holds base (held_of (al_soxr al) @ held_of (al_snk al) @ held_of (al_src al) @ hs) w"
    using assms(1) Alsa_clock by simp
  note c = close_held_holds[OF close_held_holds[OF close_held_holds[OF this]]]
  then show ?thesis using assms(2) Alsa_clock by (auto simp: stop_driver_def alsa_stop_def)
next
  case (Pipewire_clock p)
  have "holds base (held_of (pw_core p) @ held_of (pw_context p) @ held_of (pw_loop p) @ hs) w"
    using assms(1) Pipewire_clock by simp
  note c = close_held_holds[OF close_held_holds[OF close_held_holds[OF this]]]
  then show ?thesis using assms(2) Pipewire_clock by (auto simp: stop_driver_def pipewire_stop_def)
qed

text \<open>A driver as it is built.\<close>

fun fresh :: "clock_driver \<Rightarrow> bool" where
  "fresh (Tai_clock t) = True"
| "fresh (Alsa_clock sink d) = (d = alsa_new)"
| "fresh (Pipewire_clock d) = (d = pipewire_new)"

lemma start_driver_holds:
  assumes "holds base hs w" "fresh d" "start_driver a d w = (r, d', w')"
  shows "holds base (held d' @ hs) w'"
proof (cases d)
  case (Alsa_clock sink al)
  then show ?thesis
    using assms alsa_start_holds[OF assms(1)] by (fastforce simp: start_driver_def split: prod.splits)
next
  case (Pipewire_clock p)
  then show ?thesis
    using assms pipewire_start_holds[OF assms(1)] by (fastforce simp: start_driver_def split: prod.splits)
qed (use assms in \<open>auto simp: start_driver_def\<close>)

lemma fresh_held: "fresh d \<Longrightarrow> held d = []"
  by (cases d) (simp_all add: alsa_new_def pipewire_new_def)

lemma fresh_drivers_held: "list_all fresh ds \<Longrightarrow> concat (map held ds) = []"
  by (induction ds) (simp_all add: fresh_held)

lemma start_drivers_holds:
  "holds base hs w \<Longrightarrow> list_all fresh ds \<Longrightarrow> start_drivers as ds w = (ds', w') \<Longrightarrow>
   holds base (concat (map held ds') @ hs) w'"
proof (induction as ds w arbitrary: ds' w' hs rule: start_drivers.induct)
  case (1 a as d ds w)
  obtain r d1 w1 where 1: "start_driver a d w = (r, d1, w1)" by (metis prod_cases3)
  obtain ds1 w2 where 2: "start_drivers as ds w1 = (ds1, w2)" by fastforce
  have "holds base (concat (map held ds1) @ held d1 @ hs) w2"
    using "1.IH"[OF 1[symmetric] refl _ _ 2] start_driver_holds[OF "1.prems"(1) _ 1] "1.prems"(2) by simp
  then have "holds base ((held d1 @ concat (map held ds1)) @ hs) w2" by (rule holds_mset) simp
  then show ?case using "1.prems"(3) 1 2 by auto
qed (simp_all add: fresh_drivers_held)

lemma stop_drivers_holds:
  "holds base (concat (map held ds) @ hs) w \<Longrightarrow> stop_drivers ds w = (ds', w') \<Longrightarrow>
   holds base hs w' \<and> concat (map held ds') = []"
proof (induction ds arbitrary: w ds' w')
  case (Cons d ds)
  obtain d1 w1 where 1: "stop_driver d w = (d1, w1)" by fastforce
  obtain ds1 w2 where 2: "stop_drivers ds w1 = (ds1, w2)" by fastforce
  have d: "holds base (concat (map held ds) @ hs) w1 \<and> held d1 = []"
    using stop_driver_holds[OF _ 1, of base "concat (map held ds) @ hs"] Cons.prems(1) by simp
  show ?case using Cons.IH[OF _ 2] d Cons.prems(2) 1 2 by auto
qed simp

lemma update_held: "map held (fst (update_drivers tai locked ds applied)) = map held ds"
proof (induction ds arbitrary: applied)
  case (Cons d ds)
  have u: "map held (fst (case update_drivers tai locked ds a of (ds, ap) \<Rightarrow> (x # ds, ap))) = held x # map held ds" for x a
    using Cons.IH[of a] by (cases "update_drivers tai locked ds a") simp
  show ?case
    using u by (cases d) (simp_all add: Let_def alsa_on_ptp_update_def pipewire_on_ptp_update_def split: prod.split)
qed simp

lemma run_rounds_held: "map held (run_rounds rs ds applied) = map held ds"
proof (induction rs ds applied rule: run_rounds.induct)
  case (2 tai locked rs ds applied)
  obtain ds1 ap where 1: "update_drivers tai locked ds (if locked then applied else 0) = (ds1, ap)" by fastforce
  show ?case using "2.IH"[OF 1[symmetric]] update_held[of tai locked ds "if locked then applied else 0"] 1 by simp
qed simp

text \<open>C36: However the start of the drivers goes, whatever fails after it and however many rounds are run, the clock
  manager closes every object of ALSA, of the resampler and of PipeWire that it opened, and closes none twice.\<close>

theorem clock_main_closes_all:
  assumes "\<not> lw_bad w"
  shows "\<not> lw_bad (snd (clock_main as r w)) \<and> mset (lw_open (snd (clock_main as r w))) = mset (lw_open w)"
proof (cases "parse_arguments as default_options")
  case (Runs_with k)
  let ?b = "mset (lw_open w)"
  obtain ds w1 where 1: "start_drivers (kr_answers r) (driver_list k) w = (ds, w1)" by fastforce
  have "holds ?b [] w" using assms by (simp add: holds_def)
  moreover have "list_all fresh (driver_list k)" by (auto simp: driver_list_def list_all_iff)
  ultimately have h1: "holds ?b (concat (map held ds) @ []) w1" using start_drivers_holds[OF _ _ 1] by blast
  obtain ds2 w2 where 2: "stop_drivers ds w1 = (ds2, w2)" by fastforce
  have h2: "holds ?b [] w2" using stop_drivers_holds[OF h1 2] by simp
  obtain ds3 w3 where 3: "stop_drivers (run_rounds (kr_rounds r) ds 0) w1 = (ds3, w3)" by fastforce
  have h3: "holds ?b [] w3 \<and> concat (map held ds3) = []"
    using stop_drivers_holds[OF _ 3, of ?b "[]"] h1 by (simp add: run_rounds_held)
  obtain ds4 w4 where 4: "stop_drivers ds3 w3 = (ds4, w4)" by fastforce
  have h4: "holds ?b [] w4" using stop_drivers_holds[OF _ 4, of ?b "[]"] h3 by simp
  show ?thesis
    using Runs_with 1 2 3 4 h2 h4 by (auto simp: clock_main_def holds_def)
qed (use assms in \<open>simp_all add: clock_main_def\<close>)

definition sample_answers :: start_answers where
  "sample_answers =
     \<lparr>sa_alsa = \<lparr>aa_compiled = True, aa_source = (True, True), aa_sink = (True, False), aa_soxr = True\<rparr>,
      sa_pipewire = \<lparr>pa_compiled = True, pa_loop = True, pa_context = True, pa_core = False, pa_registry = True\<rparr>\<rparr>"

theorem clock_main_closes_all_witness:
  "\<exists>w'. clock_main [''--alsa-sink'', ''hw:2'', ''--pipewire'']
      \<lparr>kr_answers = [sample_answers, sample_answers, sample_answers], kr_open = True, kr_shm = False, kr_rounds = []\<rparr>
      \<lparr>lw_next = 7, lw_open = [3], lw_bad = False\<rparr> = (Some 1, w') \<and> \<not> lw_bad w' \<and> mset (lw_open w') = {#3#}"
proof -
  let ?as = "[''--alsa-sink'', ''hw:2'', ''--pipewire'']"
  let ?r = "\<lparr>kr_answers = [sample_answers, sample_answers, sample_answers], kr_open = True, kr_shm = False, kr_rounds = []\<rparr>"
  let ?w = "\<lparr>lw_next = 7, lw_open = [3], lw_bad = False\<rparr>"
  have "fst (clock_main ?as ?r ?w) = Some 1"
    by (simp add: clock_main_def default_options_def split: prod.split)
  moreover have "\<not> lw_bad ?w" by simp
  note clock_main_closes_all[OF this, of ?as ?r]
  ultimately show ?thesis by (cases "clock_main ?as ?r ?w") simp
qed

text \<open>Only the driver of the system clock applies a frequency, so that a round publishes what \<open>manager_round\<close> of
  \<open>Clock_Manager\<close> publishes.\<close>

fun is_tai :: "clock_driver \<Rightarrow> bool" where
  "is_tai (Tai_clock t) = True"
| "is_tai _ = False"

lemma others_apply_nothing: "\<forall>d \<in> set ds. \<not> is_tai d \<Longrightarrow> snd (update_drivers tai locked ds applied) = applied"
proof (induction ds)
  case (Cons d ds)
  then show ?case
    by (cases d; cases "update_drivers tai locked ds applied")
      (simp_all add: alsa_on_ptp_update_def pipewire_on_ptp_update_def)
qed simp

lemma applied_by_tai:
  "snd (update_drivers tai locked (driver_list k) applied) =
     (if ck_tai k \<and> fst (tai tai_init) \<noteq> 0 then fst (tai tai_init) else applied)"
proof -
  let ?others = "map (\<lambda>dev. Alsa_clock dev alsa_new) (ck_alsa_sinks k) @ (if ck_pipewire k then [Pipewire_clock pipewire_new] else [])"
  have "\<forall>d \<in> set ?others. \<not> is_tai d" by auto
  then have o: "snd (update_drivers tai locked ?others a) = a" for a by (rule others_apply_nothing)
  have first: "snd (update_drivers tai locked (Tai_clock tai_init # ds) a) =
      snd (update_drivers tai locked ds (if fst (tai tai_init) \<noteq> 0 then fst (tai tai_init) else a))" for ds a
    by (cases "tai tai_init") (simp add: Let_def split_beta)
  have "driver_list k = (if ck_tai k then [Tai_clock tai_init] else []) @ ?others" by (simp add: driver_list_def)
  then show ?thesis
    by (cases "ck_tai k") (simp_all only: if_True if_False append_Cons append_Nil first o simp_thms)
qed

end
