(* ===== verification/Spec2Isabelle.thy ===== *)
theory Spec2Isabelle
  imports Session_Props Announce Fp Driver Manager Rtsp Config Http Netlink Streamer Channel_Map Rtsp_Client Node_Props
    Clock_Manager Control_Samples Am824 Mdns Daemon Restart Startup Node_Server
    Clock_Drivers
begin

text \<open>
  A model of the nmos-aes67-daemon: an AES67 audio over IP daemon for Linux that is also an AMWA NMOS node,
  with the PTP clock manager and the AM824 player of the same repository.  The definitions are translated
  from the C++ sources under \<open>src/daemon\<close>, \<open>src/ptp-clock-manager\<close> and \<open>src/wavplay_am824\<close>; the web interface and
  the kernel module are not part of the model.

  \<^bold>\<open>The program.\<close>  The session manager (\<open>session_manager.cpp\<close>) is the centre: it keeps the sources, which send RTP
  streams, and the sinks, which receive them.  For each it opens streams at the driver manager, joins multicast
  groups (\<open>igmp.hpp\<close>), writes and reads SDP, and tells its observers.  A worker of it announces the sources over
  SAP (\<open>sap.cpp\<close>), follows the PTP status and updates sinks from remote sources.  The browser (\<open>browser.cpp\<close>) keeps
  the sources of other hosts, heard over SAP or found by mDNS (\<open>mdns_client.cpp\<close>) and fetched by RTSP
  (\<open>rtsp_client.cpp\<close>).  The RTSP server (\<open>rtsp_server.cpp\<close>) and the mDNS server (\<open>mdns_server.cpp\<close>) offer the own sources,
  the HTTP server (\<open>http_server.cpp\<close>, \<open>json.cpp\<close>) changes sources, sinks and the configuration (\<open>config.cpp\<close>), and the
  streamer (\<open>streamer.cpp\<close>) records sinks.  The NMOS manager observes the session manager and shows sources and
  sinks as senders and receivers (IS-04), connects receivers (IS-05, \<open>nmos_manager.cpp\<close>), maps channels (IS-08,
  \<open>nmos_is08.cpp\<close>) and is controlled and monitored (IS-12, \<open>nmos_is12.cpp\<close>).  \<open>main.cpp\<close> starts and stops all of these.
  The clock manager publishes its status to the daemon through shared memory (\<open>ptp_clock_shm.cpp\<close>).

  \<^bold>\<open>Theories.\<close>  Each holds the state of its part as a record, one definition per operation, and its lemmas.
  \<^item> Shared: \<open>Prelude\<close> (integers, strings, number conversions, sorted maps, the collection \<open>inv_intro\<close>), \<open>Errors\<close>
    (\<open>error_code\<close>), \<open>Utils\<close> (\<open>utils\<close>), \<open>Inet\<close> (address text), \<open>Fp\<close> (IEEE doubles as exact rationals with rounding).
  \<^item> Session manager: \<open>Streams\<close> (the records), \<open>Sessions\<close> (add, update, remove, query), \<open>Session_Props\<close> (their results on
    every branch), \<open>Ledger\<close> (which streams are open), \<open>Sdp\<close>, \<open>Sap\<close>, \<open>Igmp\<close>, \<open>Announce\<close> (\<open>process_sap\<close>, automatic updates, PTP
    status), \<open>Manager\<close> (status queries, settings, status file, the worker's turn, termination), \<open>Restart\<close> (what the
    status file keeps over a restart).
  \<^item> Drivers: \<open>Driver\<close> and \<open>Startup\<close> (\<open>fake_driver_manager\<close>), \<open>Netlink\<close> (\<open>driver_handler\<close>, \<open>driver_manager\<close>).
  \<^item> Discovery: \<open>Browser\<close>, \<open>Mdns\<close>, \<open>Rtsp\<close> (server), \<open>Rtsp_Client\<close>, \<open>Interface\<close>, and the composition in this theory.
  \<^item> Interfaces: \<open>Json\<close>, \<open>Json_Text\<close>, \<open>Json_Props\<close>, \<open>Http\<close>, \<open>Config\<close>, \<open>Streamer\<close>.
  \<^item> NMOS: \<open>Node_Resources\<close> (resources, registration, events), \<open>Connection\<close> (IS-05), \<open>Node\<close> (worker, node and query
    interface), \<open>Channel_Map\<close> (IS-08), \<open>Control\<close> (IS-12), \<open>Node_Server\<close> (routes, requests, upgrades); what they
    guarantee is in \<open>Node_Events\<close>, \<open>Node_Props\<close>, \<open>Control_Props\<close> and \<open>Control_Samples\<close>.
  \<^item> Processes: \<open>Daemon\<close> (\<open>main.cpp\<close>), \<open>Startup\<close> (start of the parts, workers of browser and streamer), \<open>Clock_Manager\<close>,
    \<open>Clock_Drivers\<close> and \<open>Ptp_Clock\<close> (the clock manager, its drivers and its shared memory), \<open>Am824\<close> (the player).

  \<^bold>\<open>Interfaces.\<close>  \<open>Driver\<close> states what the session manager needs of a driver as the locale \<open>rtp_driver\<close>, and what a
  driver that never refuses adds to it as \<open>reliable_driver\<close>; both are interpreted on the fake driver.  In \<open>Netlink\<close>
  the locale \<open>served_driver\<close> gives the netlink driver over any kernel that meets the contract, by a sublocale, and is
  interpreted on a kernel that serves the commands like the fake driver.  \<open>Browser\<close> has \<open>unique_index\<close> for the
  container of remote sources and \<open>Igmp\<close> has \<open>shared_membership\<close> for the counted groups.

  \<^bold>\<open>Lemmas.\<close>
  \<^item> Invariants of reachable states, by rule induction over step relations: the streams open in the driver are those
    of the tables, each owned once; the group counts are what the socket has joined; ids of remote sources are
    unique; channel locks are disjoint; playing the waiting events forward makes the node's receivers
    the session manager's sinks; the status file is that of the tables; a client of the control interface knows
    what the worker knows; the names published by mDNS are those of the sources.
  \<^item> Round trips: SDP, SAP, the JSON documents, the configuration, the status file over a restart, URLs, channel
    mapping actions, the AM824 framing against a decoder.
  \<^item> Refinements and equivalences: the netlink driver against the driver contract, the CRCs against their
    bitwise definitions, the reader of the shared clock against the writer under any interleaving of bytes,
    the membership counts against sets.
  \<^item> Behaviour over time: announcements until an entry is deleted three times, a scheduled activation until it
    runs, a silent source until it is forgotten, the capture position, the streamer under PTP reports, the
    clock correction and its bounds, the start and the stop of the daemon.
  \<^item> Errors: every answer of the interfaces is proper, refused requests change nothing, and, where the code does not
    do what it means to, a theorem that shows what it does instead.

  \<^bold>\<open>How the code is rendered.\<close>  Unsigned integers of the code are words of their width, signed ones and sizes are
  integers and naturals with the conversions written out; a \<open>std::map\<close> is an association list sorted by key, an
  unordered map a function or a list; exceptions and error codes are values, and undefined behaviour is \<^const>\<open>None\<close> or a
  constructor of its own.  Locks are not modelled: an operation that holds its lock is one step, and theories
  in which steps of several threads meet (\<open>Ptp_Clock\<close>, \<open>Node_Events\<close>, \<open>Control_Props\<close>) have them as relations.
  Time is an argument.  Loops of the code that may run for ever are \<open>partial_function\<close>
  (\<open>encode_loop\<close> of the streamer, whose termination is characterised), or take the list of their inputs and say
  when it ends before they do.  The only fuel is that of the reference JSON reader in \<open>Json_Text\<close>, the length of the
  text, which the lemmas on \<open>reads\<close> show to be enough for what the writers write; the attempts the code itself bounds (five to read the shared clock, three to
  ask the ARP cache) are those of the code.

  \<^bold>\<open>Parameters.\<close>  Code outside the repository is an argument: the driver (kernel module) behind the netlink
  commands, the property tree reader of Boost, its number conversions and address parsing, percent decoding of
  cpp-httplib, Avahi, the ALSA device and the FAAC encoder, the HTTP calls to a registry or to another
  node, name based UUIDs, what the kernel answers about interfaces and group memberships, the resampler and PipeWire,
  PortAudio and libsndfile.  What a theorem needs of one of them is a named hypothesis, with a concrete function that meets it in
  the witness.

  \<^bold>\<open>Not modelled.\<close>  The templates around netlink sockets (\<open>netlink.hpp\<close>, \<open>netlink_client.hpp\<close>), which only wrap system
  calls; \<open>log.cpp\<close>; sockets, threads and the parsing of HTTP and WebSocket frames, which are those of Boost and
  cpp-httplib; the routes and static files of the HTTP server; the samples that the resampling driver of the clock
  manager moves and the mapping of its shared memory; the listing of devices by the player; the notifications to
  systemd; the fork of the LLDP script; creation of Avahi objects beyond whether it succeeds.  Left for later: the
  interleaving of HTTP requests within one activation of the connection interface, where the code releases its
  lock between the parts of an operation that is one step here.
\<close>

section \<open>Discovery: from one daemon's source to another daemon's sink\<close>

text \<open>How a message leaves \<open>process_sap\<close>, and what the browser's \<open>worker\<close> does with a datagram
  of \<open>len\<close> bytes in its buffer; \<^const>\<open>None\<close> is the undefined read of \<open>SAP::receive\<close>.\<close>

fun send_msg :: "sap_msg \<Rightarrow> u8 list option" where
  "send_msg (sap_msg.Announce crc addr sdp) = sap_announcement crc addr sdp"
| "send_msg (Delete crc addr sdp) = sap_deletion crc addr sdp"

definition hear :: "(u32 \<Rightarrow> string) \<Rightarrow> u16 \<Rightarrow> nat \<Rightarrow> u8 list \<Rightarrow> nat \<Rightarrow> browser \<Rightarrow> browser option" where
  "hear addr_str sap_interval now buffer len b =
     (case sap_receive buffer len of
        Sap_packet p \<Rightarrow> Some (on_sap addr_str sap_interval now p b)
      | Sap_refused \<Rightarrow> Some b
      | Sap_undefined \<Rightarrow> None)"

lemma hear_announcement:
  assumes "sap_announcement crc addr sdp = Some pkt"
  shows "hear a iv now (pkt @ junk) (length pkt) b = Some (on_sap a iv now
    \<lparr>p_is_announce = True, p_msg_id_hash = crc, p_addr = htonl addr, p_sdp = sdp\<rparr> b)"
  using sap_recv_sent[OF assms[unfolded sap_announcement_def]] by (simp add: hear_def)

lemma hear_deletion:
  assumes "sap_deletion crc addr sdp = Some pkt"
  shows "hear a iv now (pkt @ junk) (length pkt) b = Some (on_sap a iv now
    \<lparr>p_is_announce = False, p_msg_id_hash = crc, p_addr = htonl addr, p_sdp = sdp\<rparr> b)"
  using sap_recv_sent[OF assms[unfolded sap_deletion_def]] by (simp add: hear_def)


text \<open>Withdrawal end to end.  The deletion that \<open>process_sap\<close> sends for a source that is
  gone makes every browser that hears it drop the entry its announcement had made, and
  leaves all other entries as they are.\<close>

theorem deleted_source_dropped:
  assumes inv: "browser_inv (br_sources b)"
    and gone: "delete_msg E (msg_id_hash i crc, addr, sid, sver) = msg" "send_msg msg = Some pkt"
  shows "\<exists>b'. hear addr_str iv now (pkt @ junk) (length pkt) b = Some b' \<and>
    mi_find (sap_id (htonl addr) crc) (br_sources b') = None \<and>
    (\<forall>k. k = sap_id (htonl addr) crc \<or> mi_find k (br_sources b') = mi_find k (br_sources b))"
proof -
  let ?sdp = "get_removed_source_sdp (e_sdp E) addr sid sver"
  let ?p = "\<lparr>p_is_announce = False, p_msg_id_hash = crc, p_addr = htonl addr, p_sdp = ?sdp\<rparr>"
  have pkt: "sap_deletion crc addr ?sdp = Some pkt"
    using gone by (auto simp: delete_msg_def hash_low)
  show ?thesis
    unfolding hear_deletion[OF pkt]
    using on_sap_find[OF inv, of _ addr_str iv now ?p] by simp
qed

text \<open>A concrete run: a source is announced to an empty browser, then withdrawn.\<close>

definition sample_session :: "unit session" where
  "sample_session = (session_init () 0 46 0)\<lparr>ss_ptp_gmid := ''00-1D-C1''\<rparr>"

lemma sample_session_env: "sdp_env_of sample_senv sample_session = sample_env"
  by (simp add: sdp_env_of_def sample_senv_def sample_session_def session_init_def sample_env_def)

lemma sample_sdp_short: "length (get_source_sdp_text sample_env sample_info) \<le> 4072"
proof -
  have n: "length (show_nat 48000) \<le> 5" "length (show_nat 98) \<le> 5" "length (show_nat 5004) \<le> 5"
    "length (show_nat 48) \<le> 5" "length (show_nat 0) \<le> 5" "length (show_nat 2) \<le> 5"
    "length (show_nat 7) \<le> 5" "length (show_nat 8) \<le> 5" "length (show_nat 15) \<le> 5"
    using length_show_nat[of _ 4] by simp_all
  show ?thesis
    unfolding get_source_sdp_text_def unlines_def source_sdp_lines_def Let_def media_lines_def
      conn_line_def refclk_line_def sample_info_def sample_env_def
    using n length_dotted[of 0] length_dotted[of "0xEF010001"]
    by (simp add: ptime_48k_48 dup_entry_def show_u_def new_info_def sample_leg_def zero_stream_def)
qed

lemma sample_sent: "\<exists>pkt. send_msg (announce_msg (announce_entry sample_senv sample_session (1, sample_info))) = Some pkt"
  using sample_sdp_short
  by (simp add: announce_msg_def announce_entry_def Let_def sap_announcement_def sap_send_def sap_consts
      sample_session_env)

lemma empty_browser_ok: "browser_inv (br_sources empty_browser)" "mi_find k (br_sources empty_browser) = None"
  by (simp_all add: empty_browser_def inv_intro mi_find_def)


theorem deleted_source_dropped_witness:
  "\<exists>pkt b'. send_msg (delete_msg sample_senv (msg_id_hash 3 0xABCD, 0xC0A80111, 7, 8)) = Some pkt \<and>
     hear (\<lambda>_. []) 30 1 pkt (length pkt) empty_browser = Some b' \<and>
     mi_find (sap_id (htonl 0xC0A80111) 0xABCD) (br_sources b') = None"
proof -
  have "length (get_removed_source_sdp sample_env 0xC0A80111 7 8) \<le> 4072"
    using length_show_nat[of 7 4] length_show_nat[of 8 4] length_dotted[of "0xC0A80111"]
    by (simp add: get_removed_source_sdp_def sample_env_def show_u_def)
  then obtain pkt where pkt: "send_msg (delete_msg sample_senv (msg_id_hash 3 0xABCD, 0xC0A80111, 7, 8)) = Some pkt"
    by (simp add: delete_msg_def sap_deletion_def sap_send_def sap_consts sample_senv_def)
  from deleted_source_dropped[OF empty_browser_ok(1) refl pkt, of "\<lambda>_. []" 30 1 "[]"]
  show ?thesis
    using pkt by (simp only: append_Nil2) blast
qed

end
